(* ===== verification/Json.thy ===== *)
theory Json
  imports Prelude
begin

text \<open>
  JSON documents as the Go code and the \<open>jsonb\<close> columns see them. A \<open>json.RawMessage\<close> is
  represented by what its bytes parse to: \<open>RawNil\<close> for an empty message, \<open>RawBad\<close> for bytes
  that are not JSON, \<open>RawDoc d\<close> for bytes that parse to \<open>d\<close>. Objects are key/value lists
  without duplicate keys in one fixed key order, since neither Go maps nor \<open>jsonb\<close> keep the
  order or the duplicates of the text. Numbers are integers, as in every numeric field of the
  resources that the repository computes with.
\<close>

section \<open>Documents\<close>

datatype json =
    JNull
  | JBool bool
  | JNum int
  | JStr string
  | JArr "json list"
  | JObj "(string \<times> json) list"

datatype raw_message = RawNil | RawBad | RawDoc json

abbreviation empty_obj :: json where "empty_obj \<equiv> JObj []"

fun jfield :: "json \<Rightarrow> string \<Rightarrow> json option" where
  "jfield (JObj kvs) k = map_of kvs k"
| "jfield _ k = None"

section \<open>float64\<close>

text \<open>\<open>json.Unmarshal\<close> into \<open>any\<close> stores every number as a \<open>float64\<close>. \<open>f64\<close> is the rounding
  of an integer to the nearest double, ties to even, and \<open>None\<close> where the literal overflows
  the type, which makes \<open>Unmarshal\<close> fail.\<close>

fun bitlen :: "nat \<Rightarrow> nat" where
  "bitlen n = (if n = 0 then 0 else Suc (bitlen (n div 2)))"

declare bitlen.simps [simp del]

definition round53 :: "nat \<Rightarrow> nat" where
  "round53 m =
     (if bitlen m \<le> 53 then m
      else let s = bitlen m - 53; q = m div 2 ^ s; r = m mod 2 ^ s; h = 2 ^ (s - 1);
               q' = (if h < r \<or> (r = h \<and> odd q) then Suc q else q)
           in q' * 2 ^ s)"

definition f64 :: "int \<Rightarrow> int option" where
  "f64 n = (let m = round53 (nat \<bar>n\<bar>)
            in if m < 2 ^ 1024 then Some (sgn n * int m) else None)"

lemma bitlen_le: "m < 2 ^ k \<Longrightarrow> bitlen m \<le> k"
proof (induction k arbitrary: m)
  case 0
  then show ?case by (simp add: bitlen.simps)
next
  case (Suc k)
  then have "bitlen (m div 2) \<le> k" by simp
  then show ?case by (subst bitlen.simps) simp
qed

lemma f64_exact: "\<bar>n\<bar> < 2 ^ 53 \<Longrightarrow> f64 n = Some n"
proof -
  assume n: "\<bar>n\<bar> < 2 ^ 53"
  then have m: "nat \<bar>n\<bar> < 2 ^ 53" by (simp add: nat_less_iff)
  then have "round53 (nat \<bar>n\<bar>) = nat \<bar>n\<bar>" by (simp add: round53_def bitlen_le)
  moreover have "nat \<bar>n\<bar> < 2 ^ 1024"
    using m by (rule less_trans) simp
  moreover have "sgn n * int (nat \<bar>n\<bar>) = n" by (simp add: sgn_mult_abs)
  ultimately show ?thesis by (simp add: f64_def Let_def)
qed

text \<open>What \<open>json.Unmarshal\<close> into an \<open>any\<close> yields: the document with every number rounded.\<close>

fun sequence_opt :: "'a option list \<Rightarrow> 'a list option" where
  "sequence_opt [] = Some []"
| "sequence_opt (None # xs) = None"
| "sequence_opt (Some x # xs) = map_option (Cons x) (sequence_opt xs)"

fun go_value :: "json \<Rightarrow> json option" where
  "go_value (JNum n) = map_option JNum (f64 n)"
| "go_value (JArr xs) = map_option JArr (sequence_opt (map go_value xs))"
| "go_value (JObj kvs) =
     map_option JObj (sequence_opt (map (\<lambda>kv. map_option (Pair (fst kv)) (go_value (snd kv))) kvs))"
| "go_value JNull = Some JNull"
| "go_value (JBool b) = Some (JBool b)"
| "go_value (JStr s) = Some (JStr s)"

text \<open>Documents whose numbers a double holds exactly.\<close>

fun small_nums :: "json \<Rightarrow> bool" where
  "small_nums (JNum n) = (\<bar>n\<bar> < 2 ^ 53)"
| "small_nums (JArr xs) = list_all small_nums xs"
| "small_nums (JObj kvs) = list_all (\<lambda>kv. small_nums (snd kv)) kvs"
| "small_nums _ = True"

lemma sequence_opt_Some: "(\<And>x. x \<in> set xs \<Longrightarrow> f x = Some x) \<Longrightarrow> sequence_opt (map f xs) = Some xs"
  by (induction xs) simp_all

lemma go_value_small: "small_nums d \<Longrightarrow> go_value d = Some d"
proof (induction d rule: go_value.induct)
  case (2 xs)
  then have "sequence_opt (map go_value xs) = Some xs"
    by (intro sequence_opt_Some) (auto simp: list_all_iff)
  then show ?case by simp
next
  case (3 kvs)
  then have "sequence_opt (map (\<lambda>kv. map_option (Pair (fst kv)) (go_value (snd kv))) kvs) = Some kvs"
    by (intro sequence_opt_Some) (auto simp: list_all_iff)
  then show ?case by simp
qed (simp_all add: f64_exact)

section \<open>JSONEqual and timeEqual of writer.go\<close>

text \<open>Both messages are decoded into \<open>any\<close> and compared by their canonical encodings.\<close>

definition JSONEqual :: "raw_message \<Rightarrow> raw_message \<Rightarrow> bool" where
  "JSONEqual a b =
     (if a = RawNil \<and> b = RawNil then True
      else if a = RawNil \<or> b = RawNil then False
      else case (a, b) of
             (RawDoc da, RawDoc db) \<Rightarrow>
               (case (go_value da, go_value db) of
                  (Some va, Some vb) \<Rightarrow> va = vb
                | _ \<Rightarrow> False)
           | _ \<Rightarrow> False)"

definition timeEqual :: "int option \<Rightarrow> int option \<Rightarrow> bool" where
  "timeEqual a b =
     (if a = None \<and> b = None then True
      else if a = None \<or> b = None then False
      else the a = the b)"

lemma timeEqual_iff [simp]: "timeEqual a b \<longleftrightarrow> a = b"
  by (cases a; cases b) (simp_all add: timeEqual_def)

lemma JSONEqual_Doc:
  "small_nums a \<Longrightarrow> small_nums b \<Longrightarrow> JSONEqual (RawDoc a) (RawDoc b) \<longleftrightarrow> a = b"
  by (simp add: JSONEqual_def go_value_small)

lemma JSONEqual_sym: "JSONEqual a b \<longleftrightarrow> JSONEqual b a"
  by (cases a; cases b) (auto simp: JSONEqual_def split: option.splits)

lemma JSONEqual_RawNil [simp]: "JSONEqual RawNil b \<longleftrightarrow> b = RawNil" "JSONEqual a RawNil \<longleftrightarrow> a = RawNil"
  by (auto simp: JSONEqual_def)

section \<open>The text operator of jsonb\<close>

text \<open>\<open>jsonb_out\<close> prints a document the way PostgreSQL does; \<open>jsonb_text d k\<close> is
  \<open>d->>'k'\<close>: SQL \<open>NULL\<close> (\<open>None\<close>) for an absent key or a JSON null, the bare characters of a
  string, the printed document otherwise.\<close>

definition hex_digit :: "nat \<Rightarrow> char" where
  "hex_digit d = (if d < 10 then char_of (48 + d) else char_of (87 + d))"

definition json_escape :: "char \<Rightarrow> string" where
  "json_escape c =
     (let n = (of_char c :: nat); bs = char_of (92 :: nat)
      in if n = 34 \<or> n = 92 then [bs, c]
         else if n = 8 then [bs, CHR ''b''] else if n = 12 then [bs, CHR ''f'']
         else if n = 10 then [bs, CHR ''n''] else if n = 13 then [bs, CHR ''r'']
         else if n = 9 then [bs, CHR ''t'']
         else if n < 32 then [bs, CHR ''u'', CHR ''0'', CHR ''0'', hex_digit (n div 16), hex_digit (n mod 16)]
         else [c])"

definition json_quote :: "string \<Rightarrow> string" where
  "json_quote s = char_of (34 :: nat) # concat (map json_escape s) @ [char_of (34 :: nat)]"

fun jsonb_out :: "json \<Rightarrow> string" where
  "jsonb_out JNull = ''null''"
| "jsonb_out (JBool b) = (if b then ''true'' else ''false'')"
| "jsonb_out (JNum n) = dec_of_int n"
| "jsonb_out (JStr s) = json_quote s"
| "jsonb_out (JArr xs) = ''['' @ join_with '', '' (map jsonb_out xs) @ '']''"
| "jsonb_out (JObj kvs) =
     ''{'' @ join_with '', '' (map (\<lambda>kv. json_quote (fst kv) @ '': '' @ jsonb_out (snd kv)) kvs) @ ''}''"

definition jsonb_text :: "json \<Rightarrow> string \<Rightarrow> string option" where
  "jsonb_text d k = (case jfield d k of
       None \<Rightarrow> None
     | Some JNull \<Rightarrow> None
     | Some (JStr s) \<Rightarrow> Some s
     | Some v \<Rightarrow> Some (jsonb_out v))"

end
