(* ===== verification/Model.thy ===== *)
theory Model
  imports Json
begin

text \<open>
  \<open>hyperfleet-db/internal/model/types.go\<close>: the stored resource, the write requests and the
  write result. A \<open>uuid.UUID\<close> is its list of sixteen bytes; a \<open>time.Time\<close> is an integer
  (nanoseconds), a nil pointer to one is \<open>None\<close>. The JSON columns of a stored row are
  \<open>NOT NULL\<close>, so a \<open>Resource\<close> holds documents; a request holds raw messages.
\<close>

type_synonym uuid = "8 word list"

record Resource =
  rGVK :: string
  rNamespace :: string
  rName :: string
  rUID :: uuid
  rTxidStamp :: u64
  rObjectVersion :: int
  rSpec :: json
  rStatus :: json
  rMetadata :: json
  rDeletionTimestamp :: "int option"
  rCreatedAt :: int
  rUpdatedAt :: int

record WriteRequest =
  wGVK :: string
  wNamespace :: string
  wName :: string
  wSpec :: raw_message
  wStatus :: raw_message
  wMetadata :: raw_message
  wDeletionTimestamp :: "int option"
  wExpectedVersion :: int
  wForceWrite :: bool

record StatusWriteRequest =
  sGVK :: string
  sNamespace :: string
  sName :: string
  sStatus :: raw_message
  sExpectedVersion :: int
  sForceWrite :: bool

record ObjectWriteRequest =
  oGVK :: string
  oNamespace :: string
  oName :: string
  oSpec :: raw_message
  oMetadata :: raw_message
  oDeletionTimestamp :: "int option"
  oExpectedVersion :: int
  oForceWrite :: bool

record WriteResult =
  resTxid :: u64
  resObjectVersion :: int
  resUID :: uuid
  resChanged :: bool

definition nil_uuid :: uuid where
  "nil_uuid = replicate 16 0"

definition zero_result :: WriteResult where
  "zero_result = \<lparr>resTxid = 0, resObjectVersion = 0, resUID = nil_uuid, resChanged = False\<rparr>"

text \<open>\<open>DoorbellChannel\<close>: the hash function of \<open>crypto/sha256\<close> is the parameter \<open>sha256\<close>.\<close>

definition hex_byte :: "8 word \<Rightarrow> string" where
  "hex_byte b = [hex_digit (unat b div 16), hex_digit (unat b mod 16)]"

definition hex_encode :: "8 word list \<Rightarrow> string" where
  "hex_encode bs = concat (map hex_byte bs)"

definition DoorbellChannel :: "(string \<Rightarrow> 8 word list) \<Rightarrow> string \<Rightarrow> string" where
  "DoorbellChannel sha256 gvk =
     (let raw = ''resource_changes_'' @ gvk
      in if length raw \<le> 63 then raw
         else ''rc_'' @ hex_encode (take 12 (sha256 gvk)))"

lemma length_hex_encode [simp]: "length (hex_encode bs) = 2 * length bs"
  by (induction bs) (simp_all add: hex_encode_def hex_byte_def)

text \<open>
  Every doorbell channel name fits PostgreSQL's 63-byte identifier limit,
  whatever the GVK string and the hash are.
\<close>

theorem DoorbellChannel_fits: "length (DoorbellChannel sha256 gvk) \<le> 63"
  by (auto simp: DoorbellChannel_def Let_def)

end
