(* ===== verification/PgStore.thy ===== *)
theory PgStore
  imports Model
begin

text \<open>
  The table \<open>kubernetes_resources\<close> and the stored procedure \<open>pgctl_write\<close> of
  \<open>hyperfleet-db/internal/schema/migrations\<close>. The table is the list of its rows. SQL
  \<open>NULL\<close> is \<open>None\<close>, and a comparison with \<open>NULL\<close> is never true. The procedure takes the
  transaction id, the clock and the random UUID as arguments and returns either the
  SQLSTATE of the exception it raises, which rolls the statement back, or its output row and
  the new table.
\<close>

type_synonym row_key = "string \<times> string \<times> string"
type_synonym rows = "Resource list"

definition row_key :: "Resource \<Rightarrow> row_key" where
  "row_key r = (rGVK r, rNamespace r, rName r)"

section \<open>The primary key as an interface\<close>

text \<open>What a statement relies on when it reads and writes rows by primary key.\<close>

locale keyed_table =
  fixes lookup :: "'t \<Rightarrow> 'k \<Rightarrow> 'r option"
    and put :: "'r \<Rightarrow> 't \<Rightarrow> 't"
    and key :: "'r \<Rightarrow> 'k"
    and inv :: "'t \<Rightarrow> bool"
    and rows_of :: "'t \<Rightarrow> 'r set"
  assumes lookup_put: "inv t \<Longrightarrow> lookup (put r t) k = (if k = key r then Some r else lookup t k)"
    and lookup_key: "lookup t k = Some r \<Longrightarrow> key r = k"
    and inv_put: "inv t \<Longrightarrow> inv (put r t)"
    and rows_lookup: "inv t \<Longrightarrow> r \<in> rows_of t \<longleftrightarrow> lookup t (key r) = Some r"
begin

lemma put_other: "inv t \<Longrightarrow> k \<noteq> key r \<Longrightarrow> lookup (put r t) k = lookup t k"
  by (simp add: lookup_put)

lemma rows_put:
  "inv t \<Longrightarrow> rows_of (put r t) = insert r {s \<in> rows_of t. key s \<noteq> key r}"
  by (auto simp: rows_lookup inv_put lookup_put split: if_splits)

lemma rows_unique: "inv t \<Longrightarrow> r \<in> rows_of t \<Longrightarrow> s \<in> rows_of t \<Longrightarrow> key r = key s \<Longrightarrow> r = s"
  by (simp add: rows_lookup)

end

definition pk_lookup :: "rows \<Rightarrow> row_key \<Rightarrow> Resource option" where
  "pk_lookup rs k = List.find (\<lambda>r. row_key r = k) rs"

definition put_row :: "Resource \<Rightarrow> rows \<Rightarrow> rows" where
  "put_row r rs =
     (if pk_lookup rs (row_key r) = None then rs @ [r]
      else map (\<lambda>s. if row_key s = row_key r then r else s) rs)"

definition pk_inv :: "rows \<Rightarrow> bool" where
  "pk_inv rs \<longleftrightarrow> distinct (map row_key rs)"

lemma pk_lookup_None: "pk_lookup rs k = None \<longleftrightarrow> k \<notin> row_key ` set rs"
  by (auto simp: pk_lookup_def find_None_iff)

lemma pk_lookup_Some: "pk_lookup rs k = Some r \<Longrightarrow> r \<in> set rs \<and> row_key r = k"
  by (auto simp: pk_lookup_def dest: find_map_Some)

lemma pk_lookup_in: "pk_inv rs \<Longrightarrow> r \<in> set rs \<Longrightarrow> pk_lookup rs (row_key r) = Some r"
  unfolding pk_lookup_def pk_inv_def by (rule find_distinct)

lemma put_row_keys:
  "map row_key (put_row r rs) =
     (if pk_lookup rs (row_key r) = None then map row_key rs @ [row_key r] else map row_key rs)"
  by (simp add: put_row_def)

lemma pk_inv_put: "pk_inv rs \<Longrightarrow> pk_inv (put_row r rs)"
  unfolding pk_inv_def put_row_keys by (auto simp: pk_lookup_None)

lemma find_append_one:
  "List.find P (xs @ [x]) = (case List.find P xs of Some y \<Rightarrow> Some y | None \<Rightarrow> if P x then Some x else None)"
  by (induction xs) auto

lemma pk_lookup_map:
  "pk_lookup (map (\<lambda>s. if row_key s = row_key r then r else s) rs) k =
     (if k = row_key r then (if pk_lookup rs k = None then None else Some r) else pk_lookup rs k)"
  unfolding pk_lookup_def by (induction rs) auto

lemma pk_lookup_put:
  "pk_lookup (put_row r rs) k = (if k = row_key r then Some r else pk_lookup rs k)"
proof (cases "pk_lookup rs (row_key r)")
  case None
  then have "pk_lookup (rs @ [r]) k = (if k = row_key r then Some r else pk_lookup rs k)"
    by (auto simp: pk_lookup_def find_append_one split: option.splits)
  with None show ?thesis by (simp add: put_row_def)
next
  case Some
  then show ?thesis by (simp add: put_row_def pk_lookup_map)
qed

interpretation pk: keyed_table pk_lookup put_row row_key pk_inv set
proof unfold_locales
  fix t r k
  show "pk_lookup (put_row r t) k = (if k = row_key r then Some r else pk_lookup t k)"
    by (rule pk_lookup_put)
  show "pk_lookup t k = Some r \<Longrightarrow> row_key r = k" by (simp add: pk_lookup_Some)
  show "pk_inv t \<Longrightarrow> pk_inv (put_row r t)" by (rule pk_inv_put)
  show "pk_inv t \<Longrightarrow> r \<in> set t \<longleftrightarrow> pk_lookup t (row_key r) = Some r"
    using pk_lookup_in pk_lookup_Some by blast
qed

section \<open>Tombstones and secondary unique indexes\<close>

text \<open>\<open>metadata->'finalizers' IS NULL OR metadata->'finalizers' = '[]'\<close>.\<close>

definition no_finalizers :: "json \<Rightarrow> bool" where
  "no_finalizers m \<longleftrightarrow> jfield m ''finalizers'' = None \<or> jfield m ''finalizers'' = Some (JArr [])"

text \<open>The tombstone filter that the procedure, the list query and the compactor share.\<close>

definition is_tombstone :: "Resource \<Rightarrow> bool" where
  "is_tombstone r \<longleftrightarrow> rDeletionTimestamp r \<noteq> None \<and> no_finalizers (rMetadata r)"

text \<open>The entries a row has in the partial unique indexes of migrations 002, 003 and 004;
  a row whose index expression is \<open>NULL\<close> conflicts with nothing.\<close>

definition idx_cluster_name_hash4 :: "Resource \<Rightarrow> (nat \<times> string list) list" where
  "idx_cluster_name_hash4 r =
     (if rGVK r = ''hyperfleet.io/v1alpha1/Cluster'' \<and> rDeletionTimestamp r = None
      then (case jsonb_text (rSpec r) ''internalId'' of
              None \<Rightarrow> [] | Some i \<Rightarrow> [(2, [rName r, take 4 i])])
      else [])"

definition idx_oidcconfig_unmanaged_issuer_url :: "Resource \<Rightarrow> (nat \<times> string list) list" where
  "idx_oidcconfig_unmanaged_issuer_url r =
     (if rGVK r = ''hyperfleet.io/v1alpha1/OidcConfig'' \<and> rDeletionTimestamp r = None
         \<and> jsonb_text (rSpec r) ''type'' = Some ''unmanaged''
      then (case jsonb_text (rSpec r) ''issuerUrl'' of
              None \<Rightarrow> [] | Some u \<Rightarrow> [(3, [rNamespace r, u])])
      else [])"

definition idx_cluster_oidcconfig_id :: "Resource \<Rightarrow> (nat \<times> string list) list" where
  "idx_cluster_oidcconfig_id r =
     (if rGVK r = ''hyperfleet.io/v1alpha1/Cluster'' \<and> rDeletionTimestamp r = None
      then (case (Option.bind (jfield (rMetadata r) ''labels'')
                    (\<lambda>l. jsonb_text l ''hyperfleet.io/account-id''),
                  jsonb_text (rSpec r) ''oidcConfigId'') of
              (Some acct, Some cfg) \<Rightarrow> if cfg \<noteq> [] then [(4, [acct, cfg])] else []
            | _ \<Rightarrow> [])
      else [])"

definition idx_entries :: "Resource \<Rightarrow> (nat \<times> string list) list" where
  "idx_entries r = idx_cluster_name_hash4 r @ idx_oidcconfig_unmanaged_issuer_url r
                     @ idx_cluster_oidcconfig_id r"

definition unique_ok :: "rows \<Rightarrow> Resource \<Rightarrow> bool" where
  "unique_ok rs r \<longleftrightarrow>
     list_all (\<lambda>s. row_key s \<noteq> row_key r \<longrightarrow> list_all (\<lambda>e. e \<notin> set (idx_entries r)) (idx_entries s)) rs"

section \<open>The stored procedure\<close>

record pg_args =
  p_status_only :: bool
  p_gvk :: string
  p_namespace :: string
  p_name :: string
  p_expected_version :: int
  p_force_write :: bool
  p_spec :: "json option"
  p_status :: "json option"
  p_metadata :: "json option"
  p_deletion_ts :: "int option"

record pg_out =
  out_uid :: uuid
  out_version :: int
  out_txid :: u64
  out_changed :: bool

abbreviation args_key :: "pg_args \<Rightarrow> row_key" where
  "args_key a \<equiv> (p_gvk a, p_namespace a, p_name a)"

text \<open>Step 1 of the procedure: is the write content-equal to the existing row?\<close>

definition content_equal :: "pg_args \<Rightarrow> Resource \<Rightarrow> bool" where
  "content_equal a r =
     (if p_status_only a then Some (rStatus r) = p_status a
      else Some (rSpec r) = p_spec a
           \<and> (p_status a = None \<or> Some (rStatus r) = p_status a)
           \<and> Some (rMetadata r) = p_metadata a
           \<and> rDeletionTimestamp r = p_deletion_ts a)"

text \<open>A \<open>NOT NULL\<close> column, and \<open>object_version + 1\<close> on a \<open>BIGINT\<close>.\<close>

definition not_null :: "'a option \<Rightarrow> string + 'a" where
  "not_null v = (case v of None \<Rightarrow> Inl ''23502'' | Some x \<Rightarrow> Inr x)"

definition bigint_succ :: "int \<Rightarrow> string + int" where
  "bigint_succ v = (if in64 (v + 1) then Inr (v + 1) else Inl ''22003'')"

definition store_row :: "Resource \<Rightarrow> rows \<Rightarrow> string + (pg_out \<times> rows)" where
  "store_row r rs =
     (if unique_ok rs r
      then Inr (\<lparr>out_uid = rUID r, out_version = rObjectVersion r, out_txid = rTxidStamp r,
                 out_changed = True\<rparr>, put_row r rs)
      else Inl ''23505'')"

text \<open>An \<open>UPDATE ... WHERE key AND cond RETURNING\<close>: \<open>Inr None\<close> when no row matches.\<close>

definition sql_update ::
  "row_key \<Rightarrow> (Resource \<Rightarrow> bool) \<Rightarrow> (Resource \<Rightarrow> string + Resource) \<Rightarrow> rows \<Rightarrow> string + (pg_out \<times> rows) option"
where
  "sql_update k cond upd rs =
     (case pk_lookup rs k of
        None \<Rightarrow> Inr None
      | Some r \<Rightarrow> if cond r then bindR (upd r) (\<lambda>r'. map_sum id Some (store_row r' rs)) else Inr None)"

text \<open>An \<open>INSERT ... RETURNING\<close>: SQLSTATE 23505 when the key or an index entry is taken.\<close>

definition sql_insert :: "Resource \<Rightarrow> rows \<Rightarrow> string + (pg_out \<times> rows)" where
  "sql_insert r rs = (if pk_lookup rs (row_key r) = None then store_row r rs else Inl ''23505'')"

definition found :: "string \<Rightarrow> string + 'a option \<Rightarrow> string + 'a" where
  "found code res = bindR res (\<lambda>v. case v of None \<Rightarrow> Inl code | Some x \<Rightarrow> Inr x)"

text \<open>The \<open>SET\<close> clauses of the updates.\<close>

definition set_status :: "u64 \<Rightarrow> int \<Rightarrow> json option \<Rightarrow> Resource \<Rightarrow> string + Resource" where
  "set_status txid now st r =
     bindR (bigint_succ (rObjectVersion r)) (\<lambda>v. bindR (not_null st) (\<lambda>st'.
       Inr (r\<lparr>rTxidStamp := txid, rObjectVersion := v, rStatus := st', rUpdatedAt := now\<rparr>)))"

definition set_object ::
  "u64 \<Rightarrow> int \<Rightarrow> json option \<Rightarrow> json option \<Rightarrow> json option \<Rightarrow> int option \<Rightarrow> Resource \<Rightarrow> string + Resource"
where
  "set_object txid now sp st md del r =
     bindR (bigint_succ (rObjectVersion r)) (\<lambda>v. bindR (not_null sp) (\<lambda>sp'. bindR (not_null md) (\<lambda>md'.
       Inr (r\<lparr>rTxidStamp := txid, rObjectVersion := v, rSpec := sp',
              rStatus := (case st of None \<Rightarrow> rStatus r | Some st' \<Rightarrow> st'),
              rMetadata := md', rDeletionTimestamp := del, rUpdatedAt := now\<rparr>))))"

definition set_revived ::
  "u64 \<Rightarrow> int \<Rightarrow> uuid \<Rightarrow> json option \<Rightarrow> json option \<Rightarrow> json option \<Rightarrow> Resource \<Rightarrow> string + Resource"
where
  "set_revived txid now uid sp st md r =
     bindR (not_null sp) (\<lambda>sp'. bindR (not_null md) (\<lambda>md'.
       Inr (r\<lparr>rUID := uid, rTxidStamp := txid, rObjectVersion := 1, rSpec := sp',
              rStatus := (case st of None \<Rightarrow> empty_obj | Some st' \<Rightarrow> st'),
              rMetadata := md', rDeletionTimestamp := None, rCreatedAt := now, rUpdatedAt := now\<rparr>)))"

definition new_row ::
  "u64 \<Rightarrow> int \<Rightarrow> uuid \<Rightarrow> row_key \<Rightarrow> json option \<Rightarrow> json option \<Rightarrow> json option \<Rightarrow> int option \<Rightarrow> string + Resource"
where
  "new_row txid now uid k sp st md del =
     bindR (not_null sp) (\<lambda>sp'. bindR (not_null st) (\<lambda>st'. bindR (not_null md) (\<lambda>md'.
       Inr \<lparr>rGVK = fst k, rNamespace = fst (snd k), rName = snd (snd k), rUID = uid,
            rTxidStamp = txid, rObjectVersion = 1, rSpec = sp', rStatus = st', rMetadata = md',
            rDeletionTimestamp = del, rCreatedAt = now, rUpdatedAt = now\<rparr>)))"

text \<open>Branch A: \<open>WriteStatus\<close>.\<close>

definition pg_write_status :: "u64 \<Rightarrow> int \<Rightarrow> pg_args \<Rightarrow> rows \<Rightarrow> string + (pg_out \<times> rows)" where
  "pg_write_status txid now a rs =
     (if p_expected_version a = 0 then Inl ''P0004''
      else found ''P0002''
             (sql_update (args_key a) (\<lambda>r. rObjectVersion r = p_expected_version a)
                (set_status txid now (p_status a)) rs))"

text \<open>Branch B: create, with revival of a tombstone under the same key.\<close>

definition pg_create :: "u64 \<Rightarrow> int \<Rightarrow> uuid \<Rightarrow> pg_args \<Rightarrow> rows \<Rightarrow> string + (pg_out \<times> rows)" where
  "pg_create txid now uid a rs =
     (case bindR (new_row txid now uid (args_key a) (p_spec a) (p_status a) (p_metadata a)
                    (p_deletion_ts a)) (\<lambda>r. sql_insert r rs) of
        Inr x \<Rightarrow> Inr x
      | Inl code \<Rightarrow>
          if code = ''23505''
          then found ''P0003''
                 (sql_update (args_key a) is_tombstone
                    (set_revived txid now uid (p_spec a) (p_status a) (p_metadata a)) rs)
          else Inl code)"

text \<open>Branch C: update; \<open>COALESCE (p_status, status)\<close> keeps the status of a \<open>WriteObject\<close>.\<close>

definition pg_update :: "u64 \<Rightarrow> int \<Rightarrow> pg_args \<Rightarrow> rows \<Rightarrow> string + (pg_out \<times> rows)" where
  "pg_update txid now a rs =
     found ''P0002''
       (sql_update (args_key a) (\<lambda>r. rObjectVersion r = p_expected_version a)
          (set_object txid now (p_spec a) (p_status a) (p_metadata a) (p_deletion_ts a)) rs)"

definition pg_upsert :: "u64 \<Rightarrow> int \<Rightarrow> uuid \<Rightarrow> pg_args \<Rightarrow> rows \<Rightarrow> string + (pg_out \<times> rows)" where
  "pg_upsert txid now uid a rs =
     (if p_status_only a then pg_write_status txid now a rs
      else if p_expected_version a = 0 then pg_create txid now uid a rs
      else pg_update txid now a rs)"

definition pg_suppressed :: "pg_args \<Rightarrow> rows \<Rightarrow> Resource option" where
  "pg_suppressed a rs =
     (if p_force_write a then None
      else case pk_lookup rs (args_key a) of
             None \<Rightarrow> None
           | Some r \<Rightarrow> if content_equal a r then Some r else None)"

definition pgctl_write :: "u64 \<Rightarrow> int \<Rightarrow> uuid \<Rightarrow> pg_args \<Rightarrow> rows \<Rightarrow> string + (pg_out \<times> rows)" where
  "pgctl_write txid now uid a rs =
     (case pg_suppressed a rs of
        Some r \<Rightarrow> Inr (\<lparr>out_uid = rUID r, out_version = rObjectVersion r, out_txid = 0,
                        out_changed = False\<rparr>, rs)
      | None \<Rightarrow> pg_upsert txid now uid a rs)"

section \<open>What the statements do to the table\<close>

lemma store_row_Inr [inversions]:
  "store_row r rs = Inr x \<longleftrightarrow>
     unique_ok rs r \<and> x = (\<lparr>out_uid = rUID r, out_version = rObjectVersion r, out_txid = rTxidStamp r,
                             out_changed = True\<rparr>, put_row r rs)"
  by (auto simp: store_row_def)

lemma found_Inr [inversions]: "found code res = Inr x \<longleftrightarrow> res = Inr (Some x)"
  by (cases res) (auto simp: found_def split: option.splits)

lemma map_sum_Inr [inversions]: "map_sum id Some r = Inr v \<longleftrightarrow> (\<exists>x. r = Inr x \<and> v = Some x)"
  by (cases r) auto

lemma sql_update_Inr [inversions]:
  "sql_update k cond upd rs = Inr (Some x) \<longleftrightarrow>
     (\<exists>r r'. pk_lookup rs k = Some r \<and> cond r \<and> upd r = Inr r' \<and> store_row r' rs = Inr x)"
  by (auto simp: sql_update_def inversions split: option.splits)

lemma sql_update_None:
  "sql_update k cond upd rs = Inr None \<longleftrightarrow> (\<forall>r. pk_lookup rs k = Some r \<longrightarrow> \<not> cond r)"
  by (auto simp: sql_update_def inversions split: option.splits)

lemma not_null_Inr [inversions]: "not_null v = Inr x \<longleftrightarrow> v = Some x"
  by (simp add: not_null_def split: option.splits)

lemma bigint_succ_Inr [inversions]: "bigint_succ v = Inr w \<longleftrightarrow> w = v + 1 \<and> in64 w"
  by (auto simp: bigint_succ_def)

lemmas set_defs = set_status_def set_object_def set_revived_def new_row_def

text \<open>Every successful upsert writes exactly one row, under the request's key, stamped with
  the transaction's id. The row either replaces one whose version is the expected version
  and gets the next version, or is a first version.\<close>

lemma pg_upsert_row:
  assumes "pg_upsert txid now uid a rs = Inr (out, rs')"
  obtains r where "rs' = put_row r rs" "row_key r = args_key a" "rTxidStamp r = txid"
    "unique_ok rs r" "rUpdatedAt r = now"
    "out = \<lparr>out_uid = rUID r, out_version = rObjectVersion r, out_txid = txid, out_changed = True\<rparr>"
    "rObjectVersion r = 1 \<and> p_expected_version a = 0 \<and>
       (\<forall>old. pk_lookup rs (args_key a) = Some old \<longrightarrow> is_tombstone old) \<or>
     p_expected_version a \<noteq> 0 \<and> rObjectVersion r = p_expected_version a + 1 \<and>
       (\<exists>old. pk_lookup rs (args_key a) = Some old \<and> rObjectVersion old = p_expected_version a)"
proof -
  have key: "row_key old = args_key a" if "pk_lookup rs (args_key a) = Some old" for old
    using that by (simp add: pk_lookup_Some)
  consider (status) "p_status_only a" "pg_write_status txid now a rs = Inr (out, rs')"
    | (create) "\<not> p_status_only a" "p_expected_version a = 0" "pg_create txid now uid a rs = Inr (out, rs')"
    | (update) "\<not> p_status_only a" "p_expected_version a \<noteq> 0" "pg_update txid now a rs = Inr (out, rs')"
    using assms by (auto simp: pg_upsert_def split: if_splits)
  then show thesis
  proof cases
    case status
    then show thesis using key
      by (auto simp: pg_write_status_def inversions set_defs row_key_def
          split: if_splits intro!: that)
  next
    case create
    then show thesis using key
      by (auto simp: pg_create_def inversions set_defs row_key_def
          sql_insert_def split: if_splits sum.splits intro!: that)
  next
    case update
    then show thesis using key
      by (auto simp: pg_update_def inversions set_defs row_key_def
          intro!: that)
  qed
qed

section \<open>The table invariant\<close>

text \<open>The primary key is a key, versions are positive and no two rows share an entry of a
  secondary unique index.\<close>

definition table_inv :: "rows \<Rightarrow> bool" where
  "table_inv rs \<longleftrightarrow> pk_inv rs \<and> list_all (\<lambda>r. 0 < rObjectVersion r) rs \<and> list_all (unique_ok rs) rs"

lemma table_inv_pk [dest]: "table_inv rs \<Longrightarrow> pk_inv rs"
  by (simp add: table_inv_def)

lemma unique_ok_iff:
  "unique_ok rs r \<longleftrightarrow>
     (\<forall>s\<in>set rs. row_key s \<noteq> row_key r \<longrightarrow> set (idx_entries s) \<inter> set (idx_entries r) = {})"
  by (auto simp: unique_ok_def list_all_iff)

lemma table_inv_put:
  assumes inv: "table_inv rs" and ok: "unique_ok rs r" and ver: "0 < rObjectVersion r"
  shows "table_inv (put_row r rs)"
proof -
  have pk: "pk_inv rs" using inv by blast
  have set: "set (put_row r rs) = insert r {s \<in> set rs. row_key s \<noteq> row_key r}"
    using pk by (rule pk.rows_put)
  have "unique_ok (put_row r rs) s" if "s \<in> set (put_row r rs)" for s
    using that inv ok unfolding unique_ok_iff set table_inv_def list_all_iff by blast
  moreover have "0 < rObjectVersion s" if "s \<in> set (put_row r rs)" for s
    using that inv ver unfolding set table_inv_def list_all_iff by blast
  ultimately show ?thesis using pk by (simp add: table_inv_def list_all_iff pk_inv_put)
qed

lemma pg_upsert_inv:
  assumes "table_inv rs" "pg_upsert txid now uid a rs = Inr (out, rs')"
  shows "table_inv rs'"
proof -
  obtain r where r: "rs' = put_row r rs" "unique_ok rs r"
    and ver: "rObjectVersion r = 1 \<or>
      (\<exists>old. pk_lookup rs (args_key a) = Some old \<and> rObjectVersion r = rObjectVersion old + 1)"
    using assms(2) by (elim pg_upsert_row) auto
  have "0 < rObjectVersion r"
    using ver assms(1) by (auto simp: table_inv_def list_all_iff dest!: pk_lookup_Some)
  with r assms(1) show ?thesis by (simp add: table_inv_put)
qed

lemma pgctl_write_cases:
  assumes "pgctl_write txid now uid a rs = Inr (out, rs')"
  obtains (suppressed) r where "pg_suppressed a rs = Some r" "rs' = rs" "\<not> out_changed out"
      "out_version out = rObjectVersion r" "out_uid out = rUID r"
    | (written) "pg_suppressed a rs = None" "pg_upsert txid now uid a rs = Inr (out, rs')"
  using assms by (auto simp: pgctl_write_def split: option.splits)


definition ex_args :: pg_args where
  "ex_args = \<lparr>p_status_only = False, p_gvk = ''hyperfleet.io/v1alpha1/Cluster'', p_namespace = ''n'',
     p_name = ''c1'', p_expected_version = 0, p_force_write = False,
     p_spec = Some (JObj [(''internalId'', JStr ''ab12x'')]), p_status = Some empty_obj,
     p_metadata = Some empty_obj, p_deletion_ts = None\<rparr>"

definition ex_row :: Resource where
  "ex_row = \<lparr>rGVK = ''hyperfleet.io/v1alpha1/Cluster'', rNamespace = ''n'', rName = ''c1'',
     rUID = [7], rTxidStamp = 5, rObjectVersion = 1,
     rSpec = JObj [(''internalId'', JStr ''ab12x'')], rStatus = empty_obj, rMetadata = empty_obj,
     rDeletionTimestamp = None, rCreatedAt = 10, rUpdatedAt = 10\<rparr>"

lemma ex_create: "pgctl_write 5 10 [7] ex_args [] =
    Inr (\<lparr>out_uid = [7], out_version = 1, out_txid = 5, out_changed = True\<rparr>, [ex_row])"
  by code_simp


end
