(* ===== verification/FieldSelector.thy ===== *)
theory FieldSelector
  imports PgStore
begin

text \<open>
  \<open>hyperfleet-db/fieldselector.go\<close>: Kubernetes field selectors turned into SQL predicates. A
  column expression is a structured value, with its SQL text (\<open>col_sql\<close>, the string the Go code
  builds) and its SQL meaning on a row (\<open>col_value\<close>).
\<close>

datatype operator = Equals | DoubleEquals | NotEquals | OtherOp string

record requirement =
  req_field :: string
  req_operator :: operator
  req_value :: string

datatype sql_col = ColName | ColNamespace | ColPath string "string list"

datatype sql_op = SqlEq | SqlNe

datatype fs_error =
    UnsupportedOperator operator
  | InvalidSelector string
  | UnsupportedRoot string
  | InvalidSegment string

text \<open>\<open>validPathSegment\<close>, the regular expression \<open>^[a-zA-Z_][a-zA-Z0-9_]*$\<close>.\<close>

definition is_name_letter :: "char \<Rightarrow> bool" where
  "is_name_letter c \<longleftrightarrow> (let n = (of_char c :: nat) in (97 \<le> n \<and> n \<le> 122) \<or> (65 \<le> n \<and> n \<le> 90) \<or> n = 95)"

definition validPathSegment :: "string \<Rightarrow> bool" where
  "validPathSegment s = (case s of [] \<Rightarrow> False
     | c # cs \<Rightarrow> is_name_letter c \<and> list_all (\<lambda>x. is_name_letter x \<or> is_digit x) cs)"

definition jsonbPathToSQL :: "string \<Rightarrow> string \<Rightarrow> fs_error + sql_col" where
  "jsonbPathToSQL column path =
     (let segments = split_on (CHR ''.'') path
      in case List.find (\<lambda>seg. \<not> validPathSegment seg) segments of
           Some seg \<Rightarrow> Inl (InvalidSegment seg)
         | None \<Rightarrow> Inr (ColPath column segments))"

definition metadataFieldToSQL :: "string \<Rightarrow> fs_error + sql_col" where
  "metadataFieldToSQL field =
     (if field = ''name'' then Inr ColName
      else if field = ''namespace'' then Inr ColNamespace
      else jsonbPathToSQL ''metadata'' field)"

definition fieldPathToSQL :: "string \<Rightarrow> fs_error + sql_col" where
  "fieldPathToSQL field =
     (case splitN (CHR ''.'') 2 field of
        [root, rest] \<Rightarrow>
          if root = ''metadata'' then metadataFieldToSQL rest
          else if root = ''spec'' then jsonbPathToSQL ''spec'' rest
          else if root = ''status'' then jsonbPathToSQL ''status'' rest
          else Inl (UnsupportedRoot root)
      | _ \<Rightarrow> Inl (InvalidSelector field))"

definition selectionOpToSQL :: "operator \<Rightarrow> fs_error + sql_op" where
  "selectionOpToSQL op = (case op of
       Equals \<Rightarrow> Inr SqlEq | DoubleEquals \<Rightarrow> Inr SqlEq | NotEquals \<Rightarrow> Inr SqlNe
     | OtherOp _ \<Rightarrow> Inl (UnsupportedOperator op))"

text \<open>One predicate of the \<open>WHERE\<close> clause, with its parameter numbers.\<close>

datatype clause =
    NamespaceIs nat
  | FieldIs sql_col sql_op nat
  | ShardIn nat nat

definition fieldRequirementToSQL :: "string \<Rightarrow> operator \<Rightarrow> nat \<Rightarrow> fs_error + clause" where
  "fieldRequirementToSQL field op paramIdx =
     bindR (selectionOpToSQL op) (\<lambda>sqlOp. bindR (fieldPathToSQL field) (\<lambda>col.
       Inr (FieldIs col sqlOp paramIdx)))"

fun build_requirements :: "requirement list \<Rightarrow> nat \<Rightarrow> fs_error + (clause list \<times> string list)" where
  "build_requirements [] paramIdx = Inr ([], [])"
| "build_requirements (req # reqs) paramIdx =
     bindR (fieldRequirementToSQL (req_field req) (req_operator req) paramIdx) (\<lambda>clause.
     bindR (build_requirements reqs (Suc paramIdx)) (\<lambda>(clauses, args).
       Inr (clause # clauses, req_value req # args)))"

text \<open>A nil or empty selector gives no clauses.\<close>

definition buildFieldSelectorFilter :: "requirement list option \<Rightarrow> nat \<Rightarrow> fs_error + (clause list \<times> string list)"
where
  "buildFieldSelectorFilter sel startParam =
     (case sel of None \<Rightarrow> Inr ([], []) | Some reqs \<Rightarrow> build_requirements reqs startParam)"

section \<open>SQL text\<close>

definition quote1 :: "string \<Rightarrow> string" where
  "quote1 s = CHR 0x27 # s @ [CHR 0x27]"

fun path_sql :: "string list \<Rightarrow> string" where
  "path_sql [] = []"
| "path_sql [seg] = ''->>'' @ quote1 seg"
| "path_sql (seg # segs) = ''->'' @ quote1 seg @ path_sql segs"

fun col_sql :: "sql_col \<Rightarrow> string" where
  "col_sql ColName = ''name''"
| "col_sql ColNamespace = ''namespace''"
| "col_sql (ColPath column segs) = column @ path_sql segs"

fun op_sql :: "sql_op \<Rightarrow> string" where
  "op_sql SqlEq = ''=''"
| "op_sql SqlNe = ''!=''"

fun clause_sql :: "clause \<Rightarrow> string" where
  "clause_sql (NamespaceIs n) = ''namespace = $'' @ dec_of_nat n"
| "clause_sql (FieldIs col op n) = col_sql col @ '' '' @ op_sql op @ '' $'' @ dec_of_nat n"
| "clause_sql (ShardIn m n) = ''abs(hashtext(namespace)::bigint) % $'' @ dec_of_nat m
     @ '' = ANY($'' @ dec_of_nat n @ ''::int[])''"

section \<open>SQL meaning\<close>

text \<open>\<open>col->'a'->'b'->>'c'\<close>: every arrow on a missing key or a non-object gives \<open>NULL\<close>.\<close>

fun path_value :: "json \<Rightarrow> string list \<Rightarrow> string option" where
  "path_value d [] = None"
| "path_value d [seg] = jsonb_text d seg"
| "path_value d (seg # segs) = (case jfield d seg of None \<Rightarrow> None | Some d' \<Rightarrow> path_value d' segs)"

definition column_doc :: "string \<Rightarrow> Resource \<Rightarrow> json" where
  "column_doc column r = (if column = ''spec'' then rSpec r else if column = ''status'' then rStatus r
                          else rMetadata r)"

fun col_value :: "sql_col \<Rightarrow> Resource \<Rightarrow> string option" where
  "col_value ColName r = Some (rName r)"
| "col_value ColNamespace r = Some (rNamespace r)"
| "col_value (ColPath column segs) r = path_value (column_doc column r) segs"

text \<open>A comparison with \<open>NULL\<close> is not true, so \<open>!=\<close> drops rows without the field.\<close>

fun op_holds :: "sql_op \<Rightarrow> string option \<Rightarrow> string \<Rightarrow> bool" where
  "op_holds SqlEq v x = (v = Some x)"
| "op_holds SqlNe v x = (v \<noteq> None \<and> v \<noteq> Some x)"

section \<open>Correctness\<close>

lemma splitN2: "splitN c 2 s = [a, b] \<longleftrightarrow> s = a @ c # b \<and> c \<notin> set a"
proof -
  have two: "splitN c 2 s = (case dropWhile (\<lambda>x. x \<noteq> c) s of [] \<Rightarrow> [s]
      | _ # r \<Rightarrow> [takeWhile (\<lambda>x. x \<noteq> c) s, r])"
    by (simp add: numeral_2_eq_2 Let_def split: list.splits)
  show ?thesis
  proof
    assume "splitN c 2 s = [a, b]"
    then obtain d where d: "dropWhile (\<lambda>x. x \<noteq> c) s = d # b" and a: "a = takeWhile (\<lambda>x. x \<noteq> c) s"
      by (auto simp: two split: list.splits)
    from d have "d = c" using hd_dropWhile [of "\<lambda>x. x \<noteq> c" s] by simp
    with d a show "s = a @ c # b \<and> c \<notin> set a"
      by (metis takeWhile_dropWhile_id set_takeWhileD)
  next
    assume "s = a @ c # b \<and> c \<notin> set a"
    then show "splitN c 2 s = [a, b]"
      using splitN_cut [of c a 0 b] by (simp add: numeral_2_eq_2 del: splitN.simps(3))
  qed
qed

definition root_ok :: "string \<Rightarrow> bool" where
  "root_ok root \<longleftrightarrow> root = ''metadata'' \<or> root = ''spec'' \<or> root = ''status''"

lemma jsonbPathToSQL_Inr [inversions]:
  "jsonbPathToSQL column path = Inr col \<longleftrightarrow>
     list_all validPathSegment (split_on (CHR ''.'') path) \<and> col = ColPath column (split_on (CHR ''.'') path)"
  by (auto simp: jsonbPathToSQL_def Let_def find_None_iff list_all_iff split: option.splits
      dest!: find_map_Some)

lemma fieldPathToSQL_Inr:
  assumes "fieldPathToSQL field = Inr col"
  shows "(col = ColName \<and> field = ''metadata.name'') \<or> (col = ColNamespace \<and> field = ''metadata.namespace'')
    \<or> (\<exists>root segs. col = ColPath root segs \<and> root_ok root \<and> segs \<noteq> [] \<and> list_all validPathSegment segs
         \<and> field = join_with ''.'' (root # segs))"
proof -
  obtain root rest where sp: "splitN (CHR ''.'') 2 field = [root, rest]"
    using assms by (auto simp: fieldPathToSQL_def split: list.splits)
  then have f: "field = root @ CHR ''.'' # rest" by (simp add: splitN2)
  have path: "\<exists>segs. c = ColPath cl segs \<and> segs \<noteq> [] \<and> list_all validPathSegment segs
        \<and> cl @ CHR ''.'' # rest = join_with ''.'' (cl # segs)"
    if "jsonbPathToSQL cl rest = Inr c" for c cl
  proof -
    obtain y ys where y: "split_on (CHR ''.'') rest = y # ys" by (cases "split_on (CHR ''.'') rest") auto
    with that join_split_on [of "CHR ''.''" rest] show ?thesis by (auto simp: inversions)
  qed
  show ?thesis
    using assms sp f path
    by (fastforce simp: fieldPathToSQL_def metadataFieldToSQL_def root_ok_def split: if_splits)
qed

lemma build_requirements_Inr:
  assumes "build_requirements reqs n = Inr (clauses, args)"
  shows "args = map req_value reqs \<and> length clauses = length reqs \<and>
    (\<forall>i < length reqs. \<exists>col op. clauses ! i = FieldIs col op (n + i)
       \<and> fieldPathToSQL (req_field (reqs ! i)) = Inr col
       \<and> selectionOpToSQL (req_operator (reqs ! i)) = Inr op)"
  using assms
proof (induction reqs n arbitrary: clauses args rule: build_requirements.induct)
  case (1 n)
  then show ?case by simp
next
  case (2 req reqs n)
  from "2.prems" obtain cs as col op where
    c: "clauses = FieldIs col op n # cs" "args = req_value req # as"
    and ih: "build_requirements reqs (Suc n) = Inr (cs, as)"
    and eq: "fieldPathToSQL (req_field req) = Inr col" "selectionOpToSQL (req_operator req) = Inr op"
    by (auto simp: fieldRequirementToSQL_def inversions)
  note IH = "2.IH" [OF ih]
  show ?case
  proof (intro conjI allI impI)
    fix i assume "i < length (req # reqs)"
    then show "\<exists>col op. clauses ! i = FieldIs col op (n + i)
       \<and> fieldPathToSQL (req_field ((req # reqs) ! i)) = Inr col
       \<and> selectionOpToSQL (req_operator ((req # reqs) ! i)) = Inr op"
      using IH c(1) eq by (cases i) auto
  qed (use IH c in auto)
qed


definition ex_reqs :: "requirement list" where
  "ex_reqs = [\<lparr>req_field = ''spec.network.type'', req_operator = NotEquals, req_value = ''x''\<rparr>]"


end
