(* ===== verification/ResourceVersion.thy ===== *)
theory ResourceVersion
  imports Prelude
begin

text \<open>
  \<open>hyperfleet-db/internal/resourceversion/rv.go\<close>: the resource version, a transaction-id
  watermark with an optional per-object version in front, its text form and its parser.
\<close>

record RV =
  ObjectVersion :: int
  Watermark :: u64

datatype rv_error =
    PrefixWithoutWatermark string
  | BadObjectVersion string
  | EmptyWatermark
  | OldBucketFormat string
  | BadWatermark string

definition rv_zero :: RV where
  "rv_zero = \<lparr>ObjectVersion = 0, Watermark = 0\<rparr>"

definition rv_String :: "RV \<Rightarrow> string" where
  "rv_String rv =
     (if 0 < ObjectVersion rv
      then CHR ''o'' # dec_of_int (ObjectVersion rv) @ CHR '';'' # dec_of_nat (unat (Watermark rv))
      else dec_of_nat (unat (Watermark rv)))"

text \<open>The part of \<open>Parse\<close> after the object-version prefix was taken off.\<close>

definition parse_watermark :: "RV \<Rightarrow> string \<Rightarrow> rv_error + RV" where
  "parse_watermark rv s =
     (if has_prefix s ''b'' then Inl (OldBucketFormat s)
      else case parse_uint s of
             None \<Rightarrow> Inl (BadWatermark s)
           | Some wm \<Rightarrow> Inr (rv\<lparr>Watermark := wm\<rparr>))"

definition rv_Parse :: "string \<Rightarrow> rv_error + RV" where
  "rv_Parse s =
     (if s = [] then Inr rv_zero
      else if has_prefix s ''o'' then
        (if CHR '';'' \<notin> set s then Inl (PrefixWithoutWatermark s)
         else let ov = takeWhile (\<lambda>c. c \<noteq> CHR '';'') (tl s);
                  rest = tl (dropWhile (\<lambda>c. c \<noteq> CHR '';'') s)
              in case parse_int ov of
                   None \<Rightarrow> Inl (BadObjectVersion s)
                 | Some v \<Rightarrow> (if rest = [] then Inl EmptyWatermark
                             else parse_watermark (rv_zero\<lparr>ObjectVersion := v\<rparr>) rest))
      else parse_watermark rv_zero s)"

section \<open>Lemmas\<close>

lemma has_prefix_Cons [simp]: "has_prefix (c # cs) [d] \<longleftrightarrow> c = d"
  by (auto simp: has_prefix_def)

lemma parse_watermark_dec [simp]:
  "parse_watermark rv (dec_of_nat (unat w)) = Inr (rv\<lparr>Watermark := w\<rparr>)"
proof -
  obtain c cs where eq: "dec_of_nat (unat w) = c # cs" and "is_digit c"
    using dec_of_nat_hd by blast
  then have "c \<noteq> CHR ''b''" using digit_not by blast
  then have "\<not> has_prefix (dec_of_nat (unat w)) ''b''" by (simp add: eq)
  then show ?thesis by (simp add: parse_watermark_def parse_uint_dec)
qed

lemma dec_no_semicolon: "CHR '';'' \<notin> set (dec_of_nat n)"
  by (rule dec_of_nat_free) (simp add: is_digit_def)

lemma rv_Parse_collection:
  "rv_Parse (dec_of_nat (unat w)) = Inr \<lparr>ObjectVersion = 0, Watermark = w\<rparr>"
proof -
  obtain c cs where eq: "dec_of_nat (unat w) = c # cs" and "is_digit c"
    using dec_of_nat_hd by blast
  then have "c \<noteq> CHR ''o''" using digit_not by blast
  then have "\<not> has_prefix (dec_of_nat (unat w)) ''o''" by (simp add: eq)
  then show ?thesis by (simp add: rv_Parse_def rv_zero_def)
qed

lemma rv_Parse_object:
  assumes "int n < 2 ^ 63"
  shows "rv_Parse (CHR ''o'' # dec_of_nat n @ CHR '';'' # dec_of_nat (unat w)) =
         Inr \<lparr>ObjectVersion = int n, Watermark = w\<rparr>"
proof -
  let ?d = "dec_of_nat n" and ?w = "dec_of_nat (unat w)"
  have "takeWhile (\<lambda>c. c \<noteq> CHR '';'') (?d @ CHR '';'' # ?w) = ?d"
    and "dropWhile (\<lambda>c. c \<noteq> CHR '';'') (?d @ CHR '';'' # ?w) = CHR '';'' # ?w"
    using dec_no_semicolon [of n] by (auto simp: takeWhile_append dropWhile_append)
  with assms show ?thesis
    by (simp add: rv_Parse_def Let_def parse_int_nat rv_zero_def)
qed

text \<open>
  Parsing the printed form of a resource version gives the version back,
  with a non-positive object version read as the absent one (zero), for every \<open>uint64\<close>
  watermark and every \<open>int64\<close> object version.
\<close>

theorem rv_roundtrip:
  assumes "ObjectVersion rv < 2 ^ 63"
  shows "rv_Parse (rv_String rv) = Inr \<lparr>ObjectVersion = max 0 (ObjectVersion rv), Watermark = Watermark rv\<rparr>"
proof (cases "0 < ObjectVersion rv")
  case True
  with assms rv_Parse_object [of "nat (ObjectVersion rv)" "Watermark rv"] show ?thesis
    by (simp add: rv_String_def dec_of_int_def)
next
  case False
  then show ?thesis by (simp add: rv_String_def rv_Parse_collection)
qed

theorem rv_roundtrip_witness:
  "rv_Parse (rv_String \<lparr>ObjectVersion = 5, Watermark = 12345678\<rparr>) =
     Inr \<lparr>ObjectVersion = 5, Watermark = 12345678\<rparr>"
  using rv_roundtrip [of "\<lparr>ObjectVersion = 5, Watermark = 12345678\<rparr>"] by simp

end
