(* ===== verification/Reader.thy ===== *)
theory Reader
  imports FieldSelector ResourceVersion
begin

text \<open>
  \<open>hyperfleet-db/internal/reader\<close>: shard specifications (\<open>shard.go\<close>), watch events
  (\<open>event.go\<close>) and the snapshot list (\<open>list.go\<close>). PostgreSQL's \<open>hashtext\<close> is a parameter; a
  query parameter is a value of \<open>sql_arg\<close>.
\<close>

section \<open>Shards\<close>

record ShardSpec =
  Mod :: int
  Owned :: "int list"

datatype shard_error =
    ModNotPositive int
  | OwnedEmpty
  | OwnedOutOfRange int int
  | OwnedDuplicate int

fun validate_owned :: "int \<Rightarrow> int list \<Rightarrow> int list \<Rightarrow> shard_error option" where
  "validate_owned m seen [] = None"
| "validate_owned m seen (x # xs) =
     (if x < 0 \<or> m \<le> x then Some (OwnedOutOfRange x m)
      else if x \<in> set seen then Some (OwnedDuplicate x)
      else validate_owned m (x # seen) xs)"

definition Validate :: "ShardSpec \<Rightarrow> shard_error option" where
  "Validate s =
     (if Mod s \<le> 0 then Some (ModNotPositive (Mod s))
      else if Owned s = [] then Some OwnedEmpty
      else validate_owned (Mod s) [] (Owned s))"

datatype sql_arg = ArgText string | ArgInt int | ArgInts "int list" | ArgU64 u64

definition shardClause :: "ShardSpec \<Rightarrow> nat \<Rightarrow> clause \<times> sql_arg list" where
  "shardClause s startParam =
     (ShardIn startParam (startParam + 1), [ArgInt (Mod s), ArgInts (Owned s)])"

definition AppendQuery :: "ShardSpec \<Rightarrow> clause list \<Rightarrow> sql_arg list \<Rightarrow> clause list \<times> sql_arg list" where
  "AppendQuery s query args =
     (let (clause, shardArgs) = shardClause s (length args + 1)
      in (query @ [clause], args @ shardArgs))"

record ListFilter =
  WhereClauses :: "clause list"
  WhereArgs :: "sql_arg list"
  Limit :: int
  Offset :: int

definition ToListFilter :: "ShardSpec \<Rightarrow> ListFilter" where
  "ToListFilter s =
     (let (clause, args) = shardClause s 2
      in \<lparr>WhereClauses = [clause], WhereArgs = args, Limit = 0, Offset = 0\<rparr>)"

section \<open>Meaning of a clause\<close>

text \<open>Parameter \<open>$n\<close> is the \<open>n\<close>th argument, counting from one.\<close>

definition param :: "sql_arg list \<Rightarrow> nat \<Rightarrow> sql_arg option" where
  "param args n = (if 1 \<le> n \<and> n \<le> length args then Some (args ! (n - 1)) else None)"

definition owns :: "(string \<Rightarrow> int) \<Rightarrow> ShardSpec \<Rightarrow> string \<Rightarrow> bool" where
  "owns hashtext s ns \<longleftrightarrow> \<bar>hashtext ns\<bar> mod Mod s \<in> set (Owned s)"

fun clause_holds :: "(string \<Rightarrow> int) \<Rightarrow> sql_arg list \<Rightarrow> Resource \<Rightarrow> clause \<Rightarrow> bool" where
  "clause_holds h args r (NamespaceIs n) = (param args n = Some (ArgText (rNamespace r)))"
| "clause_holds h args r (FieldIs col op n) =
     (case param args n of Some (ArgText x) \<Rightarrow> op_holds op (col_value col r) x | _ \<Rightarrow> False)"
| "clause_holds h args r (ShardIn m n) =
     (case (param args m, param args n) of
        (Some (ArgInt md), Some (ArgInts own)) \<Rightarrow> \<bar>h (rNamespace r)\<bar> mod md \<in> set own
      | _ \<Rightarrow> False)"

lemma validate_owned_None:
  "validate_owned m seen xs = None \<longleftrightarrow>
     distinct xs \<and> set xs \<inter> set seen = {} \<and> (\<forall>x \<in> set xs. 0 \<le> x \<and> x < m)"
  by (induction m seen xs rule: validate_owned.induct) auto

lemma Validate_None:
  "Validate s = None \<longleftrightarrow> 0 < Mod s \<and> Owned s \<noteq> [] \<and> distinct (Owned s)
     \<and> (\<forall>x \<in> set (Owned s). 0 \<le> x \<and> x < Mod s)"
  by (auto simp: Validate_def validate_owned_None)

text \<open>The appended clause restricts a query to exactly the owned namespaces, whatever was in
  the query before.\<close>

lemma AppendQuery_holds:
  assumes "AppendQuery s query args = (query', args')"
  shows "\<exists>c. query' = query @ [c] \<and> (clause_holds h args' r c \<longleftrightarrow> owns h s (rNamespace r))"
  using assms
  by (auto simp: AppendQuery_def shardClause_def param_def owns_def nth_append)

lemma distinct_concat_nth:
  "distinct (concat xss) \<Longrightarrow> i < j \<Longrightarrow> j < length xss \<Longrightarrow> set (xss ! i) \<inter> set (xss ! j) = {}"
proof (induction xss arbitrary: i j)
  case Nil
  then show ?case by simp
next
  case (Cons xs xss)
  show ?case
  proof (cases i)
    case 0
    then have "j > 0" "xss ! (j - 1) \<in> set xss" using Cons.prems by auto
    then have "set (xss ! (j - 1)) \<subseteq> set (concat xss)" by auto
    with Cons.prems 0 \<open>j > 0\<close> show ?thesis by (auto simp: nth_Cons')
  next
    case (Suc i')
    with Cons show ?thesis by (cases j) auto
  qed
qed

text \<open>
  Replicas whose valid shard specifications share a modulus and whose owned
  residues partition the residues divide the namespaces among them: every namespace is
  owned by exactly one replica, whatever the hash function.
\<close>

theorem shards_partition:
  assumes "\<And>s. s \<in> set specs \<Longrightarrow> Validate s = None \<and> Mod s = m" "specs \<noteq> []"
    and "distinct (concat (map Owned specs))" "set (concat (map Owned specs)) = {0..<m}"
  shows "\<exists>!i. i < length specs \<and> owns hashtext (specs ! i) ns"
proof -
  let ?x = "\<bar>hashtext ns\<bar> mod m"
  have m: "0 < m" using assms(1) [of "hd specs"] assms(2) by (simp add: Validate_None)
  have own: "owns hashtext (specs ! i) ns \<longleftrightarrow> ?x \<in> set (Owned (specs ! i))" if "i < length specs" for i
    using assms(1) [of "specs ! i"] that by (simp add: owns_def)
  have "?x \<in> {0..<m}" using m by simp
  then obtain sp where "sp \<in> set specs" "?x \<in> set (Owned sp)"
    unfolding assms(4) [symmetric] by auto
  then obtain i where i: "i < length specs" "?x \<in> set (Owned (specs ! i))"
    by (auto simp: in_set_conv_nth)
  have disj: "set (Owned (specs ! i)) \<inter> set (Owned (specs ! j)) = {}" if "i < j" "j < length specs" for i j
    using distinct_concat_nth [OF assms(3), of i j] that by simp
  have uniq: "j = i" if "j < length specs" "?x \<in> set (Owned (specs ! j))" for j
    using disj [of i j] disj [of j i] that i by (metis IntI empty_iff linorder_neqE_nat)
  show ?thesis
  proof (rule ex1I [of _ i])
    show "i < length specs \<and> owns hashtext (specs ! i) ns" using i own by blast
    show "j = i" if "j < length specs \<and> owns hashtext (specs ! j) ns" for j
      using that own uniq by blast
  qed
qed

theorem shards_partition_witness:
  "\<exists>!i. i < length [\<lparr>Mod = 3, Owned = [0, 2]\<rparr>, \<lparr>Mod = 3, Owned = [1]\<rparr>] \<and>
     owns (\<lambda>_. - 7) ([\<lparr>Mod = 3, Owned = [0, 2]\<rparr>, \<lparr>Mod = 3, Owned = [1]\<rparr>] ! i) ''ns''"
  by (rule shards_partition [where m = 3]) (auto simp: Validate_None)

section \<open>Events\<close>

datatype EventType = EventAdded | EventModified | EventDeleted

fun EventType_String :: "EventType \<Rightarrow> string" where
  "EventType_String EventAdded = ''ADDED''"
| "EventType_String EventModified = ''MODIFIED''"
| "EventType_String EventDeleted = ''DELETED''"

record Event =
  ev_Type :: EventType
  ev_Resource :: Resource

section \<open>List\<close>

text \<open>The state of the database that a \<open>REPEATABLE READ\<close> transaction sees: the committed rows,
  the compaction horizon per GVK and the oldest transaction id still running
  (\<open>pg_snapshot_xmin\<close>).\<close>

record snapshot =
  sn_rows :: rows
  sn_horizon :: "string \<Rightarrow> int option"
  sn_xmin :: u64

record ListResult =
  Resources :: "Resource list"
  lr_ResourceVersion :: RV

text \<open>\<open>xmin - 1\<close>, or 0 for an \<open>xmin\<close> of 0.\<close>

definition safe_watermark :: "u64 \<Rightarrow> u64" where
  "safe_watermark xmin = (if 0 < xmin then xmin - 1 else 0)"

text \<open>\<open>deletion_timestamp IS NULL OR metadata->'finalizers' != '[]'\<close>; the second disjunct is
  \<open>NULL\<close> when the key is missing.\<close>

definition listed :: "Resource \<Rightarrow> bool" where
  "listed r \<longleftrightarrow> rDeletionTimestamp r = None \<or>
     (case jfield (rMetadata r) ''finalizers'' of None \<Rightarrow> False | Some v \<Rightarrow> v \<noteq> JArr [])"

text \<open>The argument list and the clauses of the query; the GVK is parameter 1.\<close>

definition list_args :: "string \<Rightarrow> ListFilter option \<Rightarrow> sql_arg list" where
  "list_args gvk flt = ArgText gvk # (case flt of None \<Rightarrow> [] | Some f \<Rightarrow> WhereArgs f)"

definition page :: "ListFilter option \<Rightarrow> 'a list \<Rightarrow> 'a list" where
  "page flt xs =
     (case flt of
        None \<Rightarrow> xs
      | Some f \<Rightarrow> if 0 < Limit f
                  then take (nat (Limit f)) (if 0 < Offset f then drop (nat (Offset f)) xs else xs)
                  else xs)"

definition reader_List :: "(string \<Rightarrow> int) \<Rightarrow> snapshot \<Rightarrow> string \<Rightarrow> ListFilter option \<Rightarrow> ListResult" where
  "reader_List hashtext sn gvk flt =
     (let args = list_args gvk flt;
          clauses = (case flt of None \<Rightarrow> [] | Some f \<Rightarrow> WhereClauses f);
          sel = [r \<leftarrow> sn_rows sn. rGVK r = gvk \<and> listed r
                   \<and> list_all (clause_holds hashtext args r) clauses]
      in \<lparr>Resources = page flt (sort_key rTxidStamp sel),
          lr_ResourceVersion = \<lparr>ObjectVersion = 0, Watermark = safe_watermark (sn_xmin sn)\<rparr>\<rparr>)"

lemma listed_iff: "listed r \<longleftrightarrow> \<not> is_tombstone r"
  by (auto simp: listed_def is_tombstone_def no_finalizers_def split: option.splits)

lemma safe_watermark_less: "0 < xmin \<Longrightarrow> safe_watermark xmin < xmin"
  by (cases "xmin = 0") (simp_all add: safe_watermark_def word_less_nat_alt unat_minus_one unat_gt_0)

lemma set_list_unsharded:
  "set (Resources (reader_List h sn gvk None)) =
     {r \<in> set (sn_rows sn). rGVK r = gvk \<and> \<not> is_tombstone r}"
  by (auto simp: reader_List_def Let_def page_def listed_iff)

lemma set_list_sharded:
  "set (Resources (reader_List h sn gvk (Some (ToListFilter s)))) =
     {r \<in> set (sn_rows sn). rGVK r = gvk \<and> \<not> is_tombstone r \<and> owns h s (rNamespace r)}"
  by (auto simp: reader_List_def Let_def page_def listed_iff ToListFilter_def shardClause_def
      list_args_def param_def owns_def)

text \<open>
  The list that starts a sharded informer returns exactly the rows of the
  GVK in the replica's namespaces that are not tombstones, in transaction order: live objects
  and dying ones, with no row twice.
\<close>

theorem sharded_List:
  assumes "pk_inv (sn_rows sn)"
  shows "set (Resources (reader_List h sn gvk (Some (ToListFilter s)))) =
           {r \<in> set (sn_rows sn). rGVK r = gvk \<and> \<not> is_tombstone r \<and> owns h s (rNamespace r)}
       \<and> distinct (Resources (reader_List h sn gvk (Some (ToListFilter s))))
       \<and> sorted (map rTxidStamp (Resources (reader_List h sn gvk (Some (ToListFilter s)))))"
proof -
  have "distinct (sn_rows sn)" using assms by (simp add: pk_inv_def distinct_map)
  then show ?thesis
    by (simp add: set_list_sharded) (simp add: reader_List_def Let_def page_def ToListFilter_def
        shardClause_def)
qed

theorem sharded_List_witness:
  "set (Resources (reader_List (\<lambda>_. 4) \<lparr>sn_rows = [ex_row], sn_horizon = (\<lambda>_. None), sn_xmin = 9\<rparr>
      (rGVK ex_row) (Some (ToListFilter \<lparr>Mod = 2, Owned = [0]\<rparr>)))) = {ex_row}"
proof -
  have "pk_inv (sn_rows \<lparr>sn_rows = [ex_row], sn_horizon = (\<lambda>_. None), sn_xmin = 9\<rparr>)"
    by (simp add: pk_inv_def)
  moreover have "\<not> is_tombstone ex_row" by code_simp
  moreover have "owns (\<lambda>_. 4) \<lparr>Mod = 2, Owned = [0]\<rparr> (rNamespace ex_row)" by (simp add: owns_def)
  ultimately show ?thesis using sharded_List by fastforce
qed

end
