(* ===== verification/Compaction.thy ===== *)
theory Compaction
  imports Reader
begin

text \<open>
  \<open>hyperfleet-db/compaction/compactor.go\<close>: one statement deletes old tombstones and raises the
  compaction horizon of their GVKs. Times are in nanoseconds.
\<close>

type_synonym horizon = "string \<Rightarrow> int option"

definition second :: int where "second = 1000000000"

definition txid_int :: "Resource \<Rightarrow> int" where
  "txid_int r = uint (rTxidStamp r)"

text \<open>The cutoff is the retention cut down to whole seconds; a retention of 0 means 24 hours.\<close>

definition cutoff :: "int \<Rightarrow> int" where
  "cutoff retention = (let ret = (if retention = 0 then 24 * 3600 * second else retention)
                       in quot ret second * second)"

definition compactable :: "int \<Rightarrow> int \<Rightarrow> Resource \<Rightarrow> bool" where
  "compactable now retention r \<longleftrightarrow>
     is_tombstone r \<and> max (the (rDeletionTimestamp r)) (rUpdatedAt r) < now - cutoff retention"

text \<open>\<open>GREATEST (compacted_xid, EXCLUDED.compacted_xid)\<close>, per GVK of a deleted row.\<close>

definition raise_one :: "Resource \<Rightarrow> horizon \<Rightarrow> horizon" where
  "raise_one r h = h(rGVK r := Some (case h (rGVK r) of
     None \<Rightarrow> txid_int r | Some x \<Rightarrow> max x (txid_int r)))"

fun raise_horizon :: "rows \<Rightarrow> horizon \<Rightarrow> horizon" where
  "raise_horizon [] h = h"
| "raise_horizon (r # rs) h = raise_horizon rs (raise_one r h)"

definition Compact :: "int \<Rightarrow> int \<Rightarrow> rows \<Rightarrow> horizon \<Rightarrow> nat \<times> rows \<times> horizon" where
  "Compact now retention rs h =
     (let del = [r \<leftarrow> rs. compactable now retention r]
      in (length del, [r \<leftarrow> rs. \<not> compactable now retention r], raise_horizon del h))"

lemma raise_one_mono: "h g = Some x \<Longrightarrow> \<exists>y. raise_one r h g = Some y \<and> x \<le> y"
  by (auto simp: raise_one_def)

lemma raise_one_covers: "\<exists>y. raise_one r h (rGVK r) = Some y \<and> txid_int r \<le> y"
  by (auto simp: raise_one_def split: option.splits)

lemma raise_horizon_mono: "h g = Some x \<Longrightarrow> \<exists>y. raise_horizon del h g = Some y \<and> x \<le> y"
proof (induction del arbitrary: h x)
  case Nil
  then show ?case by simp
next
  case (Cons r del)
  obtain y where "raise_one r h g = Some y" "x \<le> y" using raise_one_mono [of h g x r] Cons.prems by blast
  with Cons.IH [of "raise_one r h" y] show ?case by auto
qed

lemma raise_horizon_covers:
  "r \<in> set del \<Longrightarrow> \<exists>y. raise_horizon del h (rGVK r) = Some y \<and> txid_int r \<le> y"
proof (induction del arbitrary: h)
  case Nil
  then show ?case by simp
next
  case (Cons d del)
  show ?case
  proof (cases "r = d")
    case True
    obtain y where "raise_one r h (rGVK r) = Some y" "txid_int r \<le> y" using raise_one_covers by blast
    with True raise_horizon_mono [of "raise_one r h" "rGVK r" y del] show ?thesis by auto
  next
    case False
    with Cons show ?thesis by simp
  qed
qed


definition old_tombstone :: Resource where
  "old_tombstone = ex_row\<lparr>rDeletionTimestamp := Some 5, rUpdatedAt := 6\<rparr>"


end
