(* ===== verification/Writer.thy ===== *)
theory Writer
  imports PgStore
begin

text \<open>
  \<open>hyperfleet-db/internal/writer\<close>: the three write operations, each by the stored procedure
  (production, no hooks) and by the multi-statement transaction (test hooks). A call takes the
  committed table and returns its result, the new table, the doorbells it rang and the metrics
  it counted. What the server and the connection do during the call is the environment
  \<open>wenv\<close>: the transaction id, clock and UUID the server uses, and where the call fails.
\<close>

section \<open>Errors, environment and results\<close>

datatype werror =
    ErrConflict
  | ErrAlreadyExists
  | StatusNeedsVersion                       \<comment> \<open>WriteStatus requires ExpectedVersion > 0\<close>
  | ObjectNeedsVersion                       \<comment> \<open>WriteObject requires ExpectedVersion > 0\<close>
  | StoredProc string                        \<comment> \<open>stored proc: \%w, with the SQLSTATE\<close>
  | StepError string "string option"         \<comment> \<open>a wrapped error of one statement, SQLSTATE if any\<close>
  | HookError string
  | AmbiguousCommitError string string string u64

datatype call_fault =
    CallOk
  | ServerError string                       \<comment> \<open>the server reports this SQLSTATE, rolled back\<close>
  | LostBeforeCommit                         \<comment> \<open>the connection breaks, nothing was applied\<close>
  | LostAfterCommit                          \<comment> \<open>the connection breaks after the commit\<close>

datatype tx_step = BeginTx | ReadExisting | CommitSuppressed | TxidAcquire

record wenv =
  e_txid :: u64
  e_now :: int
  e_uuid :: uuid
  e_fault :: call_fault
  e_step :: "tx_step option"                 \<comment> \<open>multi-statement path: the statement that fails\<close>

record TxHooks =
  AfterSuppressionCheck :: "bool \<Rightarrow> string option"
  AfterTxidAcquire :: "u64 \<Rightarrow> string option"
  BeforeCommit :: "string option"

record Writer =
  wr_hooks :: "TxHooks option"
  wr_metrics :: bool
  wr_doorbell :: bool

datatype metric =
    NoopSuppressionsTotal
  | WritesTotal string string
  | StatementTimeoutsTotal

record wstep =
  ws_result :: "werror + WriteResult"
  ws_rows :: rows
  ws_rings :: "string list"
  ws_metrics :: "metric list"

record writeParams =
  wp_statusOnly :: bool
  wp_gvk :: string
  wp_namespace :: string
  wp_name :: string
  wp_expectedVersion :: int
  wp_forceWrite :: bool
  wp_spec :: raw_message
  wp_status :: raw_message
  wp_metadata :: raw_message
  wp_deletionTimestamp :: "int option"

record existingRow =
  ex_uid :: uuid
  ex_objectVersion :: int
  ex_spec :: raw_message
  ex_status :: raw_message
  ex_metadata :: raw_message
  ex_deletionTimestamp :: "int option"

section \<open>Metrics\<close>

definition resultLabel :: "werror + WriteResult \<Rightarrow> string" where
  "resultLabel res =
     (case res of
        Inr r \<Rightarrow> if \<not> resChanged r then ''noop'' else ''success''
      | Inl ErrConflict \<Rightarrow> ''conflict''
      | Inl ErrAlreadyExists \<Rightarrow> ''already_exists''
      | Inl (AmbiguousCommitError _ _ _ _) \<Rightarrow> ''ambiguous_commit''
      | Inl _ \<Rightarrow> ''error'')"

fun pg_code :: "werror \<Rightarrow> string option" where
  "pg_code (StoredProc c) = Some c"
| "pg_code (StepError _ c) = c"
| "pg_code _ = None"

definition observeResult :: "Writer \<Rightarrow> string \<Rightarrow> werror + WriteResult \<Rightarrow> metric list" where
  "observeResult w gvk res =
     (if \<not> wr_metrics w then []
      else (case res of Inr r \<Rightarrow> if \<not> resChanged r then [NoopSuppressionsTotal] else [] | Inl _ \<Rightarrow> [])
           @ [WritesTotal gvk (resultLabel res)]
           @ (case res of Inl e \<Rightarrow> if pg_code e = Some ''57014'' then [StatementTimeoutsTotal] else []
                        | Inr _ \<Rightarrow> []))"

section \<open>The stored-procedure path\<close>

definition mapStoredProcError :: "string \<Rightarrow> werror" where
  "mapStoredProcError code =
     (if code = ''P0002'' then ErrConflict
      else if code = ''P0003'' then ErrAlreadyExists
      else if code = ''P0004'' then StatusNeedsVersion
      else StoredProc code)"

text \<open>A raw message as a \<open>jsonb\<close> parameter: nil is \<open>NULL\<close>, bytes that are not JSON are
  rejected by the server.\<close>

definition jsonb_arg :: "raw_message \<Rightarrow> string + json option" where
  "jsonb_arg m = (case m of RawNil \<Rightarrow> Inr None | RawBad \<Rightarrow> Inl ''22P02'' | RawDoc d \<Rightarrow> Inr (Some d))"

definition proc_args :: "writeParams \<Rightarrow> string + pg_args" where
  "proc_args p =
     bindR (jsonb_arg (wp_spec p)) (\<lambda>sp. bindR (jsonb_arg (wp_status p)) (\<lambda>st.
     bindR (jsonb_arg (wp_metadata p)) (\<lambda>md.
       Inr \<lparr>p_status_only = wp_statusOnly p, p_gvk = wp_gvk p, p_namespace = wp_namespace p,
            p_name = wp_name p, p_expected_version = wp_expectedVersion p,
            p_force_write = wp_forceWrite p, p_spec = sp, p_status = st, p_metadata = md,
            p_deletion_ts = wp_deletionTimestamp p\<rparr>)))"

definition run_proc :: "wenv \<Rightarrow> writeParams \<Rightarrow> rows \<Rightarrow> string + (pg_out \<times> rows)" where
  "run_proc env p rs =
     bindR (proc_args p) (\<lambda>a. pgctl_write (e_txid env) (e_now env) (e_uuid env) a rs)"

definition callStoredProc :: "Writer \<Rightarrow> wenv \<Rightarrow> writeParams \<Rightarrow> rows \<Rightarrow> (werror + WriteResult) \<times> rows \<times> string list"
where
  "callStoredProc w env p rs =
     (let ambiguous = Inl (AmbiguousCommitError (wp_gvk p) (wp_namespace p) (wp_name p) 0)
      in case e_fault env of
        ServerError c \<Rightarrow> (Inl (mapStoredProcError c), rs, [])
      | LostBeforeCommit \<Rightarrow> (ambiguous, rs, [])
      | LostAfterCommit \<Rightarrow>
          (ambiguous, (case run_proc env p rs of Inl _ \<Rightarrow> rs | Inr (_, rs') \<Rightarrow> rs'), [])
      | CallOk \<Rightarrow>
          (case run_proc env p rs of
             Inl c \<Rightarrow> (Inl (mapStoredProcError c), rs, [])
           | Inr (out, rs') \<Rightarrow>
               if \<not> out_changed out
               then (Inr \<lparr>resTxid = 0, resObjectVersion = out_version out, resUID = out_uid out,
                          resChanged = False\<rparr>, rs', [])
               else (Inr \<lparr>resTxid = out_txid out, resObjectVersion = out_version out,
                          resUID = out_uid out, resChanged = True\<rparr>,
                     rs', if wr_doorbell w then [wp_gvk p] else [])))"

definition finish :: "Writer \<Rightarrow> string \<Rightarrow> (werror + WriteResult) \<times> rows \<times> string list \<Rightarrow> wstep" where
  "finish w gvk x = (case x of (res, rs, rings) \<Rightarrow>
     \<lparr>ws_result = res, ws_rows = rs, ws_rings = rings, ws_metrics = observeResult w gvk res\<rparr>)"

definition write_params :: "WriteRequest \<Rightarrow> writeParams" where
  "write_params req =
     \<lparr>wp_statusOnly = False, wp_gvk = wGVK req, wp_namespace = wNamespace req, wp_name = wName req,
      wp_expectedVersion = wExpectedVersion req, wp_forceWrite = wForceWrite req,
      wp_spec = wSpec req, wp_status = wStatus req, wp_metadata = wMetadata req,
      wp_deletionTimestamp = wDeletionTimestamp req\<rparr>"

definition status_params :: "StatusWriteRequest \<Rightarrow> writeParams" where
  "status_params req =
     \<lparr>wp_statusOnly = True, wp_gvk = sGVK req, wp_namespace = sNamespace req, wp_name = sName req,
      wp_expectedVersion = sExpectedVersion req, wp_forceWrite = sForceWrite req,
      wp_spec = RawNil, wp_status = sStatus req, wp_metadata = RawNil, wp_deletionTimestamp = None\<rparr>"

definition object_params :: "ObjectWriteRequest \<Rightarrow> writeParams" where
  "object_params req =
     \<lparr>wp_statusOnly = False, wp_gvk = oGVK req, wp_namespace = oNamespace req, wp_name = oName req,
      wp_expectedVersion = oExpectedVersion req, wp_forceWrite = oForceWrite req,
      wp_spec = oSpec req, wp_status = RawNil, wp_metadata = oMetadata req,
      wp_deletionTimestamp = oDeletionTimestamp req\<rparr>"

definition writeStoredProc :: "Writer \<Rightarrow> wenv \<Rightarrow> WriteRequest \<Rightarrow> rows \<Rightarrow> wstep" where
  "writeStoredProc w env req rs = finish w (wGVK req) (callStoredProc w env (write_params req) rs)"

definition writeStatusStoredProc :: "Writer \<Rightarrow> wenv \<Rightarrow> StatusWriteRequest \<Rightarrow> rows \<Rightarrow> wstep" where
  "writeStatusStoredProc w env req rs = finish w (sGVK req) (callStoredProc w env (status_params req) rs)"

definition writeObjectStoredProc :: "Writer \<Rightarrow> wenv \<Rightarrow> ObjectWriteRequest \<Rightarrow> rows \<Rightarrow> wstep" where
  "writeObjectStoredProc w env req rs = finish w (oGVK req) (callStoredProc w env (object_params req) rs)"

section \<open>The multi-statement path\<close>

text \<open>The row is read before the upsert; a missing row is \<open>None\<close>.\<close>

definition readExisting :: "rows \<Rightarrow> string \<Rightarrow> string \<Rightarrow> string \<Rightarrow> existingRow option" where
  "readExisting rs gvk ns name =
     map_option (\<lambda>r. \<lparr>ex_uid = rUID r, ex_objectVersion = rObjectVersion r, ex_spec = RawDoc (rSpec r),
                      ex_status = RawDoc (rStatus r), ex_metadata = RawDoc (rMetadata r),
                      ex_deletionTimestamp = rDeletionTimestamp r\<rparr>)
       (pk_lookup rs (gvk, ns, name))"

type_synonym upsertFunc = "u64 \<Rightarrow> rows \<Rightarrow> werror + (pg_out \<times> rows)"

definition wrap_step :: "string \<Rightarrow> string + 'a \<Rightarrow> werror + 'a" where
  "wrap_step what r = (case r of Inl c \<Rightarrow> Inl (StepError what (Some c)) | Inr x \<Rightarrow> Inr x)"

definition no_rows :: "werror \<Rightarrow> werror + 'a option \<Rightarrow> werror + 'a" where
  "no_rows e res = bindR res (\<lambda>v. case v of None \<Rightarrow> Inl e | Some x \<Rightarrow> Inr x)"

definition execWriteInner ::
  "Writer \<Rightarrow> TxHooks \<Rightarrow> wenv \<Rightarrow> writeParams \<Rightarrow> (existingRow \<Rightarrow> bool) \<Rightarrow> upsertFunc \<Rightarrow> rows
     \<Rightarrow> (werror + WriteResult) \<times> rows \<times> string list"
where
  "execWriteInner w h env p isContentEqual upsert rs =
     (if e_step env = Some BeginTx then (Inl (StepError ''begin'' None), rs, [])
      else if \<not> wp_forceWrite p \<and> e_step env = Some ReadExisting
      then (Inl (StepError ''read existing'' None), rs, [])
      else
        let existing = (if wp_forceWrite p then None
                        else readExisting rs (wp_gvk p) (wp_namespace p) (wp_name p));
            suppressed = (case existing of None \<Rightarrow> False | Some x \<Rightarrow> isContentEqual x)
        in case AfterSuppressionCheck h suppressed of
             Some m \<Rightarrow> (Inl (HookError m), rs, [])
           | None \<Rightarrow>
        if suppressed then
          (if e_step env = Some CommitSuppressed then (Inl (StepError ''commit (suppressed)'' None), rs, [])
           else (Inr \<lparr>resTxid = 0, resObjectVersion = ex_objectVersion (the existing),
                      resUID = ex_uid (the existing), resChanged = False\<rparr>, rs, []))
        else if e_step env = Some TxidAcquire then (Inl (StepError ''txid acquire'' None), rs, [])
        else case AfterTxidAcquire h (e_txid env) of
             Some m \<Rightarrow> (Inl (HookError m), rs, [])
           | None \<Rightarrow>
        case upsert (e_txid env) rs of
             Inl e \<Rightarrow> (Inl e, rs, [])
           | Inr (out, rs') \<Rightarrow>
        case BeforeCommit h of
             Some m \<Rightarrow> (Inl (HookError m), rs, [])
           | None \<Rightarrow>
        let ambiguous = Inl (AmbiguousCommitError (wp_gvk p) (wp_namespace p) (wp_name p) (e_txid env))
        in case e_fault env of
             CallOk \<Rightarrow> (Inr \<lparr>resTxid = e_txid env, resObjectVersion = out_version out,
                             resUID = out_uid out, resChanged = True\<rparr>,
                        rs', if wr_doorbell w then [wp_gvk p] else [])
           | LostAfterCommit \<Rightarrow> (ambiguous, rs', [])
           | _ \<Rightarrow> (ambiguous, rs, []))"

definition execWrite ::
  "Writer \<Rightarrow> TxHooks \<Rightarrow> wenv \<Rightarrow> writeParams \<Rightarrow> (existingRow \<Rightarrow> bool) \<Rightarrow> upsertFunc \<Rightarrow> rows \<Rightarrow> wstep"
where
  "execWrite w h env p isContentEqual upsert rs =
     finish w (wp_gvk p) (execWriteInner w h env p isContentEqual upsert rs)"

definition docs3 ::
  "raw_message \<Rightarrow> raw_message \<Rightarrow> raw_message \<Rightarrow> (json option \<Rightarrow> json option \<Rightarrow> json option \<Rightarrow> string + 'a) \<Rightarrow> string + 'a"
where
  "docs3 a b c f = bindR (jsonb_arg a) (\<lambda>x. bindR (jsonb_arg b) (\<lambda>y. bindR (jsonb_arg c) (\<lambda>z. f x y z)))"

text \<open>The two closures that \<open>writeMultiStatement\<close> passes to \<open>execWrite\<close>.\<close>

definition write_checker :: "WriteRequest \<Rightarrow> existingRow \<Rightarrow> bool" where
  "write_checker req x \<longleftrightarrow>
     JSONEqual (ex_spec x) (wSpec req) \<and> JSONEqual (ex_status x) (wStatus req)
     \<and> JSONEqual (ex_metadata x) (wMetadata req)
     \<and> timeEqual (ex_deletionTimestamp x) (wDeletionTimestamp req)"

definition write_upsert :: "wenv \<Rightarrow> WriteRequest \<Rightarrow> upsertFunc" where
  "write_upsert env req txid rs =
     (let k = (wGVK req, wNamespace req, wName req)
      in if wExpectedVersion req = 0 then
           (case docs3 (wSpec req) (wStatus req) (wMetadata req) (\<lambda>sp st md.
                   bindR (new_row txid (e_now env) (e_uuid env) k sp st md (wDeletionTimestamp req))
                     (\<lambda>r. sql_insert r rs)) of
              Inr x \<Rightarrow> Inr x
            | Inl c \<Rightarrow>
                if c = ''23505'' then
                  no_rows ErrAlreadyExists (wrap_step ''tombstone revival''
                    (docs3 (wSpec req) (wStatus req) (wMetadata req) (\<lambda>sp st md.
                       sql_update k is_tombstone
                         (set_revived txid (e_now env) (e_uuid env) sp st md) rs)))
                else Inl (StepError ''create resource'' (Some c)))
         else
           no_rows ErrConflict (wrap_step ''update resource''
             (docs3 (wSpec req) (wStatus req) (wMetadata req) (\<lambda>sp st md.
                sql_update k (\<lambda>r. rObjectVersion r = wExpectedVersion req)
                  (set_object txid (e_now env) sp st md (wDeletionTimestamp req)) rs))))"

definition writeMultiStatement :: "Writer \<Rightarrow> TxHooks \<Rightarrow> wenv \<Rightarrow> WriteRequest \<Rightarrow> rows \<Rightarrow> wstep" where
  "writeMultiStatement w h env req rs =
     execWrite w h env (write_params req) (write_checker req) (write_upsert env req) rs"

definition writeStatusMultiStatement :: "Writer \<Rightarrow> TxHooks \<Rightarrow> wenv \<Rightarrow> StatusWriteRequest \<Rightarrow> rows \<Rightarrow> wstep"
where
  "writeStatusMultiStatement w h env req rs =
     (let checker = (\<lambda>x. JSONEqual (ex_status x) (sStatus req));
          upsert = (\<lambda>txid rs.
            no_rows ErrConflict (wrap_step ''update status''
              (bindR (jsonb_arg (sStatus req)) (\<lambda>st.
                 sql_update (sGVK req, sNamespace req, sName req)
                   (\<lambda>r. rObjectVersion r = sExpectedVersion req) (set_status txid (e_now env) st) rs))))
      in execWrite w h env (status_params req) checker upsert rs)"

definition writeObjectMultiStatement :: "Writer \<Rightarrow> TxHooks \<Rightarrow> wenv \<Rightarrow> ObjectWriteRequest \<Rightarrow> rows \<Rightarrow> wstep"
where
  "writeObjectMultiStatement w h env req rs =
     (let checker = (\<lambda>x. JSONEqual (ex_spec x) (oSpec req) \<and> JSONEqual (ex_metadata x) (oMetadata req)
                         \<and> timeEqual (ex_deletionTimestamp x) (oDeletionTimestamp req));
          upsert = (\<lambda>txid rs.
            no_rows ErrConflict (wrap_step ''update spec''
              (bindR (jsonb_arg (oSpec req)) (\<lambda>sp. bindR (jsonb_arg (oMetadata req)) (\<lambda>md.
                 sql_update (oGVK req, oNamespace req, oName req)
                   (\<lambda>r. rObjectVersion r = oExpectedVersion req)
                   (set_object txid (e_now env) sp None md (oDeletionTimestamp req)) rs)))))
      in execWrite w h env (object_params req) checker upsert rs)"

section \<open>The operations\<close>

definition rejected :: "werror \<Rightarrow> rows \<Rightarrow> wstep" where
  "rejected e rs = \<lparr>ws_result = Inl e, ws_rows = rs, ws_rings = [], ws_metrics = []\<rparr>"

definition Write :: "Writer \<Rightarrow> wenv \<Rightarrow> WriteRequest \<Rightarrow> rows \<Rightarrow> wstep" where
  "Write w env req rs =
     (case wr_hooks w of
        Some h \<Rightarrow> writeMultiStatement w h env req rs
      | None \<Rightarrow> writeStoredProc w env req rs)"

definition WriteStatus :: "Writer \<Rightarrow> wenv \<Rightarrow> StatusWriteRequest \<Rightarrow> rows \<Rightarrow> wstep" where
  "WriteStatus w env req rs =
     (if sExpectedVersion req = 0 then rejected StatusNeedsVersion rs
      else case wr_hooks w of
             Some h \<Rightarrow> writeStatusMultiStatement w h env req rs
           | None \<Rightarrow> writeStatusStoredProc w env req rs)"

definition WriteObject :: "Writer \<Rightarrow> wenv \<Rightarrow> ObjectWriteRequest \<Rightarrow> rows \<Rightarrow> wstep" where
  "WriteObject w env req rs =
     (if oExpectedVersion req = 0 then rejected ObjectNeedsVersion rs
      else case wr_hooks w of
             Some h \<Rightarrow> writeObjectMultiStatement w h env req rs
           | None \<Rightarrow> writeObjectStoredProc w env req rs)"

text \<open>\<open>ReadBack\<close>: the row of the key, if it carries exactly this transaction id.\<close>

definition ReadBack :: "rows \<Rightarrow> string \<Rightarrow> string \<Rightarrow> string \<Rightarrow> u64 \<Rightarrow> Resource option" where
  "ReadBack rs gvk ns name txid =
     (case pk_lookup rs (gvk, ns, name) of
        None \<Rightarrow> None
      | Some r \<Rightarrow> if rTxidStamp r = txid then Some r else None)"

text \<open>The production writer: no hooks, with or without metrics and doorbell.\<close>

abbreviation production :: "Writer \<Rightarrow> bool" where
  "production w \<equiv> wr_hooks w = None"

definition pg_writer :: Writer where
  "pg_writer = \<lparr>wr_hooks = None, wr_metrics = False, wr_doorbell = False\<rparr>"

definition ok_env :: "u64 \<Rightarrow> int \<Rightarrow> uuid \<Rightarrow> wenv" where
  "ok_env txid now uid = \<lparr>e_txid = txid, e_now = now, e_uuid = uid, e_fault = CallOk, e_step = None\<rparr>"

end
