(* ===== verification/WriterProps.thy ===== *)
theory WriterProps
  imports Writer
begin

text \<open>
  Correctness of the writer: what each operation changes, optimistic concurrency, creation and
  revival, failures, and that the multi-statement path computes what the stored procedure does.
\<close>

section \<open>Taking a call apart\<close>

lemma production_ops:
  assumes "production w"
  shows "Write w env req rs = finish w (wGVK req) (callStoredProc w env (write_params req) rs)"
    and "sExpectedVersion sreq \<noteq> 0 \<Longrightarrow>
         WriteStatus w env sreq rs = finish w (sGVK sreq) (callStoredProc w env (status_params sreq) rs)"
    and "oExpectedVersion oreq \<noteq> 0 \<Longrightarrow>
         WriteObject w env oreq rs = finish w (oGVK oreq) (callStoredProc w env (object_params oreq) rs)"
  using assms
  by (simp_all add: Write_def WriteStatus_def WriteObject_def writeStoredProc_def
      writeStatusStoredProc_def writeObjectStoredProc_def)

lemma finish_simps [simp]:
  "ws_result (finish w g x) = fst x" "ws_rows (finish w g x) = fst (snd x)"
  "ws_rings (finish w g x) = snd (snd x)" "ws_metrics (finish w g x) = observeResult w g (fst x)"
  by (simp_all add: finish_def split: prod.splits)

abbreviation params_key :: "writeParams \<Rightarrow> row_key" where
  "params_key p \<equiv> (wp_gvk p, wp_namespace p, wp_name p)"

lemma jsonb_arg_Inr [inversions]:
  "jsonb_arg m = Inr v \<longleftrightarrow> (m = RawNil \<and> v = None) \<or> (\<exists>d. m = RawDoc d \<and> v = Some d)"
  by (auto simp: jsonb_arg_def split: raw_message.splits)

lemma proc_args_Inr:
  assumes "proc_args p = Inr a"
  shows "args_key a = params_key p" "p_expected_version a = wp_expectedVersion p"
    "p_status_only a = wp_statusOnly p" "p_deletion_ts a = wp_deletionTimestamp p"
    "p_force_write a = wp_forceWrite p"
    "jsonb_arg (wp_spec p) = Inr (p_spec a)" "jsonb_arg (wp_status p) = Inr (p_status a)"
    "jsonb_arg (wp_metadata p) = Inr (p_metadata a)"
  using assms by (auto simp: proc_args_def bindR_eq_Inr)

lemma callStoredProc_changed:
  assumes "callStoredProc w env p rs = (Inr res, rs', rings)" "resChanged res"
  obtains a out where "proc_args p = Inr a"
    "pg_upsert (e_txid env) (e_now env) (e_uuid env) a rs = Inr (out, rs')"
    "pg_suppressed a rs = None"
    "res = \<lparr>resTxid = out_txid out, resObjectVersion = out_version out, resUID = out_uid out, resChanged = True\<rparr>"
    "rings = (if wr_doorbell w then [wp_gvk p] else [])"
  using assms
  by (auto simp: callStoredProc_def run_proc_def pgctl_write_def Let_def bindR_eq_Inr
      split: call_fault.splits sum.splits if_splits option.splits)

text \<open>An unchanged success is a suppressed write: the table stays as it is.\<close>

lemma callStoredProc_unchanged:
  assumes "callStoredProc w env p rs = (Inr res, rs', rings)" "\<not> resChanged res"
  obtains a r where "proc_args p = Inr a" "pg_suppressed a rs = Some r" "rs' = rs" "rings = []"
    "resObjectVersion res = rObjectVersion r" "resUID res = rUID r"
proof -
  obtain out where fault: "e_fault env = CallOk" and run: "run_proc env p rs = Inr (out, rs')"
    and res: "\<not> out_changed out" "res = \<lparr>resTxid = 0, resObjectVersion = out_version out,
       resUID = out_uid out, resChanged = False\<rparr>" "rings = []"
    using assms by (auto simp: callStoredProc_def Let_def split: call_fault.splits sum.splits if_splits)
  from run obtain a where a: "proc_args p = Inr a"
    and w: "pgctl_write (e_txid env) (e_now env) (e_uuid env) a rs = Inr (out, rs')"
    by (auto simp: run_proc_def bindR_eq_Inr)
  from w show thesis
  proof (cases rule: pgctl_write_cases [consumes 1])
    case (suppressed r)
    with a res show thesis by (intro that) auto
  next
    case written
    then have "out_changed out" by (elim pg_upsert_row) simp
    with res show thesis by simp
  qed
qed

section \<open>Failures\<close>

lemma callStoredProc_error:
  assumes "callStoredProc w env p rs = (Inl e, rs', rings)"
  shows "rings = [] \<and> ((\<nexists>g n m t. e = AmbiguousCommitError g n m t) \<longrightarrow> rs' = rs)
      \<and> (rs' = rs \<or> (\<exists>out. run_proc env p rs = Inr (out, rs')))"
  using assms
  by (auto simp: callStoredProc_def Let_def split: call_fault.splits sum.splits if_splits)

lemma execWriteInner_error:
  assumes "execWriteInner w h env p eq up rs = (Inl e, rs', rings)"
  shows "rings = [] \<and> ((\<nexists>g n m t. e = AmbiguousCommitError g n m t) \<longrightarrow> rs' = rs)"
  using assms
  by (auto simp: execWriteInner_def Let_def split: if_splits option.splits sum.splits call_fault.splits)

lemma finish_error:
  "ws_result (finish w g x) = Inl e \<longleftrightarrow> fst x = Inl e" "ws_rows (finish w g x) = fst (snd x)" "ws_rings (finish w g x) = snd (snd x)"
  by (cases x; simp add: finish_def)+

lemma execWrite_error:
  assumes "ws_result (execWrite w h env p eq up rs) = Inl e"
  shows "ws_rings (execWrite w h env p eq up rs) = [] \<and>
    ((\<nexists>g n m t. e = AmbiguousCommitError g n m t) \<longrightarrow> ws_rows (execWrite w h env p eq up rs) = rs)"
  using assms execWriteInner_error [of w h env p eq up rs e]
  by (cases "execWriteInner w h env p eq up rs") (simp add: execWrite_def finish_error)

lemma stored_error:
  assumes "ws_result (finish w g (callStoredProc w env p rs)) = Inl e"
  shows "ws_rings (finish w g (callStoredProc w env p rs)) = [] \<and>
    ((\<nexists>g n m t. e = AmbiguousCommitError g n m t) \<longrightarrow> ws_rows (finish w g (callStoredProc w env p rs)) = rs)"
  using assms callStoredProc_error [of w env p rs e]
  by (cases "callStoredProc w env p rs") (simp add: finish_error)

text \<open>
  C7 (error). A write of any of the three kinds, on either path, that fails with anything but an
  ambiguous commit leaves the table exactly as it was, and no failed write rings the
  doorbell; on the production path an ambiguous commit of \<open>Write\<close> either left the table unchanged
  or applied the procedure in full.
\<close>

theorem failed_write_atomic:
  assumes "st \<in> {Write w env req rs, WriteStatus w env sreq rs, WriteObject w env oreq rs}" "ws_result st = Inl e"
  shows "ws_rings st = [] \<and> ((\<nexists>g n m t. e = AmbiguousCommitError g n m t) \<longrightarrow> ws_rows st = rs)
    \<and> (production w \<and> st = Write w env req rs \<longrightarrow>
         ws_rows st = rs \<or> (\<exists>out. run_proc env (write_params req) rs = Inr (out, ws_rows st)))"
proof (intro conjI)
  have "ws_rings st = [] \<and> ((\<nexists>g n m t. e = AmbiguousCommitError g n m t) \<longrightarrow> ws_rows st = rs)"
    using assms execWrite_error [of w _ env _ _ _ rs e] stored_error [of w _ env _ rs e]
    by (auto simp: Write_def WriteStatus_def WriteObject_def writeMultiStatement_def writeStatusMultiStatement_def
        writeObjectMultiStatement_def writeStoredProc_def writeStatusStoredProc_def writeObjectStoredProc_def
        rejected_def Let_def split: option.splits if_splits)
  then show "ws_rings st = []" "(\<nexists>g n m t. e = AmbiguousCommitError g n m t) \<longrightarrow> ws_rows st = rs" by blast+
  show "production w \<and> st = Write w env req rs \<longrightarrow>
      ws_rows st = rs \<or> (\<exists>out. run_proc env (write_params req) rs = Inr (out, ws_rows st))"
    using assms(2) callStoredProc_error [of w env "write_params req" rs e]
    by (cases "callStoredProc w env (write_params req) rs") (auto simp: production_ops(1))
qed

definition ex_req :: WriteRequest where
  "ex_req = \<lparr>wGVK = ''hyperfleet.io/v1alpha1/Cluster'', wNamespace = ''n'', wName = ''c1'',
     wSpec = RawDoc (JObj [(''internalId'', JStr ''zz'')]), wStatus = RawDoc empty_obj,
     wMetadata = RawDoc empty_obj, wDeletionTimestamp = None, wExpectedVersion = 9,
     wForceWrite = False\<rparr>"

theorem failed_write_atomic_witness:
  "ws_result (Write pg_writer (ok_env 8 20 [9]) ex_req [ex_row]) = Inl ErrConflict \<and>
   ws_rows (Write pg_writer (ok_env 8 20 [9]) ex_req [ex_row]) = [ex_row]"
proof -
  have e: "ws_result (Write pg_writer (ok_env 8 20 [9]) ex_req [ex_row]) = Inl ErrConflict"
    by code_simp
  show ?thesis using e failed_write_atomic [OF insertI1 e] by simp
qed

section \<open>What a successful write changes\<close>

text \<open>The row an update writes, and that every other row stays.\<close>

lemma upsert_lookup:
  assumes "pg_upsert txid now uid a rs = Inr (out, rs')" "k \<noteq> args_key a"
  shows "pk_lookup rs' k = pk_lookup rs k"
  using assms(1) by (elim pg_upsert_row) (use assms(2) pk_lookup_put in auto)

lemma set_status_Inr [inversions]:
  "set_status txid now st r = Inr r' \<longleftrightarrow>
     (\<exists>d. st = Some d \<and> in64 (rObjectVersion r + 1) \<and>
        r' = r\<lparr>rTxidStamp := txid, rObjectVersion := rObjectVersion r + 1, rStatus := d, rUpdatedAt := now\<rparr>)"
  by (auto simp: set_status_def inversions)

lemma set_object_Inr [inversions]:
  "set_object txid now sp st md del r = Inr r' \<longleftrightarrow>
     (\<exists>s m. sp = Some s \<and> md = Some m \<and> in64 (rObjectVersion r + 1) \<and>
        r' = r\<lparr>rTxidStamp := txid, rObjectVersion := rObjectVersion r + 1, rSpec := s,
               rStatus := (case st of None \<Rightarrow> rStatus r | Some d \<Rightarrow> d),
               rMetadata := m, rDeletionTimestamp := del, rUpdatedAt := now\<rparr>)"
  by (auto simp: set_object_def inversions)

lemma upsert_object:
  assumes "pg_upsert txid now uid a rs = Inr (out, rs')" "\<not> p_status_only a" "p_expected_version a \<noteq> 0"
  obtains old s m where "pk_lookup rs (args_key a) = Some old" "rObjectVersion old = p_expected_version a"
    "p_spec a = Some s" "p_metadata a = Some m" "in64 (p_expected_version a + 1)"
    "pk_lookup rs' (args_key a) =
       Some (old\<lparr>rTxidStamp := txid, rObjectVersion := p_expected_version a + 1, rSpec := s,
                 rStatus := (case p_status a of None \<Rightarrow> rStatus old | Some d \<Rightarrow> d),
                 rMetadata := m, rDeletionTimestamp := p_deletion_ts a, rUpdatedAt := now\<rparr>)"
proof -
  obtain old r' where old: "pk_lookup rs (args_key a) = Some old" "rObjectVersion old = p_expected_version a"
    and upd: "set_object txid now (p_spec a) (p_status a) (p_metadata a) (p_deletion_ts a) old = Inr r'"
    and rs': "rs' = put_row r' rs"
    using assms by (auto simp: pg_upsert_def pg_update_def inversions)
  have key: "row_key old = args_key a" using old(1) by (simp add: pk_lookup_Some)
  obtain s m where sm: "p_spec a = Some s" "p_metadata a = Some m" "in64 (p_expected_version a + 1)"
    and r': "r' = old\<lparr>rTxidStamp := txid, rObjectVersion := p_expected_version a + 1, rSpec := s,
                 rStatus := (case p_status a of None \<Rightarrow> rStatus old | Some d \<Rightarrow> d),
                 rMetadata := m, rDeletionTimestamp := p_deletion_ts a, rUpdatedAt := now\<rparr>"
    using upd old(2) by (auto simp: inversions)
  have "row_key r' = args_key a" using key by (simp add: r' row_key_def)
  then have "pk_lookup rs' (args_key a) = Some r'" by (simp add: rs' pk_lookup_put)
  with old sm show thesis unfolding r' by (rule that)
qed

text \<open>
  C10 (functional, optimistic concurrency). A \<open>WriteObject\<close> that reports a change found the
  row at exactly the expected version; afterwards the row carries the new spec, metadata and
  deletion timestamp, the next version and the transaction's stamp, its status, UID and
  creation time are untouched, and no other row of the table changed.
\<close>

theorem WriteObject_changed:
  assumes "production w" "ws_result (WriteObject w env req rs) = Inr res" "resChanged res"
  shows "\<exists>old s m. pk_lookup rs (oGVK req, oNamespace req, oName req) = Some old
      \<and> rObjectVersion old = oExpectedVersion req \<and> oSpec req = RawDoc s \<and> oMetadata req = RawDoc m
      \<and> pk_lookup (ws_rows (WriteObject w env req rs)) (oGVK req, oNamespace req, oName req) =
          Some (old\<lparr>rTxidStamp := e_txid env, rObjectVersion := oExpectedVersion req + 1, rSpec := s,
                    rMetadata := m, rDeletionTimestamp := oDeletionTimestamp req, rUpdatedAt := e_now env\<rparr>)
      \<and> (\<forall>k. k \<noteq> (oGVK req, oNamespace req, oName req) \<longrightarrow>
             pk_lookup (ws_rows (WriteObject w env req rs)) k = pk_lookup rs k)"
proof -
  have v: "oExpectedVersion req \<noteq> 0"
    using assms(2) by (auto simp: WriteObject_def rejected_def split: if_splits)
  obtain rs' rings where call: "callStoredProc w env (object_params req) rs = (Inr res, rs', rings)"
    and rows: "ws_rows (WriteObject w env req rs) = rs'"
    using assms(2) production_ops(3) [OF assms(1) v, of env rs]
    by (cases "callStoredProc w env (object_params req) rs") auto
  obtain a out where a: "proc_args (object_params req) = Inr a"
    and up: "pg_upsert (e_txid env) (e_now env) (e_uuid env) a rs = Inr (out, rs')"
    using call assms(3) by (rule callStoredProc_changed)
  note pa = proc_args_Inr [OF a]
  have st: "p_status a = None" "\<not> p_status_only a" "p_expected_version a \<noteq> 0"
    using pa v by (auto simp: object_params_def jsonb_arg_def)
  show ?thesis
    using up st(2,3)
  proof (rule upsert_object)
    fix old s m
    assume "pk_lookup rs (args_key a) = Some old" "rObjectVersion old = p_expected_version a"
      and "p_spec a = Some s" "p_metadata a = Some m"
      and "pk_lookup rs' (args_key a) =
       Some (old\<lparr>rTxidStamp := e_txid env, rObjectVersion := p_expected_version a + 1, rSpec := s,
                 rStatus := (case p_status a of None \<Rightarrow> rStatus old | Some d \<Rightarrow> d),
                 rMetadata := m, rDeletionTimestamp := p_deletion_ts a, rUpdatedAt := e_now env\<rparr>)"
    with pa st upsert_lookup [OF up] show ?thesis
      by (auto simp: rows object_params_def inversions)
  qed
qed

definition ex_oreq :: ObjectWriteRequest where
  "ex_oreq = \<lparr>oGVK = ''hyperfleet.io/v1alpha1/Cluster'', oNamespace = ''n'', oName = ''c1'',
     oSpec = RawDoc (JObj [(''internalId'', JStr ''zz'')]), oMetadata = RawDoc empty_obj,
     oDeletionTimestamp = None, oExpectedVersion = 1, oForceWrite = False\<rparr>"

theorem WriteObject_changed_witness:
  "\<exists>old. pk_lookup [ex_row] (oGVK ex_oreq, oNamespace ex_oreq, oName ex_oreq) = Some old \<and>
     rObjectVersion old = 1"
proof -
  have w: "production pg_writer" by (simp add: pg_writer_def)
  have r: "ws_result (WriteObject pg_writer (ok_env 8 20 [9]) ex_oreq [ex_row]) =
      Inr \<lparr>resTxid = 8, resObjectVersion = 2, resUID = [7], resChanged = True\<rparr>"
    by code_simp
  show ?thesis using WriteObject_changed [OF w r] by (auto simp: ex_oreq_def)
qed

text \<open>
  A \<open>WriteStatus\<close> that reports a change found the row at exactly the expected
  version and replaced its status; spec, metadata, deletion timestamp, UID and creation time
  of the row are untouched, the version is the next one, and no other row changed.
\<close>

theorem WriteStatus_changed:
  assumes "production w" "ws_result (WriteStatus w env req rs) = Inr res" "resChanged res"
  shows "\<exists>old d. pk_lookup rs (sGVK req, sNamespace req, sName req) = Some old
      \<and> rObjectVersion old = sExpectedVersion req \<and> sStatus req = RawDoc d
      \<and> pk_lookup (ws_rows (WriteStatus w env req rs)) (sGVK req, sNamespace req, sName req) =
          Some (old\<lparr>rTxidStamp := e_txid env, rObjectVersion := sExpectedVersion req + 1,
                    rStatus := d, rUpdatedAt := e_now env\<rparr>)
      \<and> (\<forall>k. k \<noteq> (sGVK req, sNamespace req, sName req) \<longrightarrow>
             pk_lookup (ws_rows (WriteStatus w env req rs)) k = pk_lookup rs k)"
proof -
  have v: "sExpectedVersion req \<noteq> 0"
    using assms(2) by (auto simp: WriteStatus_def rejected_def split: if_splits)
  obtain rs' rings where call: "callStoredProc w env (status_params req) rs = (Inr res, rs', rings)"
    and rows: "ws_rows (WriteStatus w env req rs) = rs'"
    using assms(2) production_ops(2) [OF assms(1) v, of env rs]
    by (cases "callStoredProc w env (status_params req) rs") auto
  obtain a out where a: "proc_args (status_params req) = Inr a"
    and up: "pg_upsert (e_txid env) (e_now env) (e_uuid env) a rs = Inr (out, rs')"
    using call assms(3) by (rule callStoredProc_changed)
  note pa = proc_args_Inr [OF a]
  obtain old d where old: "pk_lookup rs (args_key a) = Some old" "rObjectVersion old = p_expected_version a"
    and d: "p_status a = Some d"
    and rs': "rs' = put_row (old\<lparr>rTxidStamp := e_txid env, rObjectVersion := p_expected_version a + 1,
                    rStatus := d, rUpdatedAt := e_now env\<rparr>) rs"
    using up pa(2,3) v
    by (auto simp: pg_upsert_def pg_write_status_def status_params_def inversions)
  have key: "row_key (old\<lparr>rTxidStamp := e_txid env, rObjectVersion := p_expected_version a + 1,
                    rStatus := d, rUpdatedAt := e_now env\<rparr>) = args_key a"
    using old(1) by (auto simp: row_key_def dest: pk_lookup_Some)
  from old d pa key show ?thesis
    by (auto simp: rows rs' status_params_def inversions pk_lookup_put)
qed

definition ex_sreq :: StatusWriteRequest where
  "ex_sreq = \<lparr>sGVK = ''hyperfleet.io/v1alpha1/Cluster'', sNamespace = ''n'', sName = ''c1'',
     sStatus = RawDoc (JObj [(''phase'', JStr ''Ready'')]), sExpectedVersion = 1, sForceWrite = False\<rparr>"

theorem WriteStatus_changed_witness:
  "\<exists>old. pk_lookup [ex_row] (sGVK ex_sreq, sNamespace ex_sreq, sName ex_sreq) = Some old \<and>
     rObjectVersion old = 1"
proof -
  have w: "production pg_writer" by (simp add: pg_writer_def)
  have r: "ws_result (WriteStatus pg_writer (ok_env 8 20 [9]) ex_sreq [ex_row]) =
      Inr \<lparr>resTxid = 8, resObjectVersion = 2, resUID = [7], resChanged = True\<rparr>"
    by code_simp
  show ?thesis using WriteStatus_changed [OF w r] by (auto simp: ex_sreq_def)
qed

section \<open>Conflicts\<close>

lemma stale_upsert:
  assumes "pk_lookup rs (args_key a) = Some r" "rObjectVersion r \<noteq> p_expected_version a"
    "p_expected_version a \<noteq> 0"
  shows "pg_upsert txid now uid a rs = Inl ''P0002''"
proof -
  have "sql_update (args_key a) (\<lambda>r. rObjectVersion r = p_expected_version a) f rs = Inr None" for f
    using assms by (simp add: sql_update_None)
  with assms(3) show ?thesis
    by (simp add: pg_upsert_def pg_write_status_def pg_update_def found_def)
qed

text \<open>
  A \<open>WriteObject\<close> that presents a stale version and would
  change the stored spec, metadata or deletion timestamp is refused with a conflict, and the
  table is left alone. A content-equal stale write is not refused: it is suppressed.
\<close>

theorem WriteObject_stale:
  assumes "production w" "e_fault env = CallOk" "oExpectedVersion req \<noteq> 0"
    and "oSpec req = RawDoc s" "oMetadata req = RawDoc m"
    and "pk_lookup rs (oGVK req, oNamespace req, oName req) = Some r"
    and "rObjectVersion r \<noteq> oExpectedVersion req"
  shows "(if \<not> oForceWrite req \<and> rSpec r = s \<and> rMetadata r = m \<and> rDeletionTimestamp r = oDeletionTimestamp req
          then ws_result (WriteObject w env req rs) =
                 Inr \<lparr>resTxid = 0, resObjectVersion = rObjectVersion r, resUID = rUID r, resChanged = False\<rparr>
          else ws_result (WriteObject w env req rs) = Inl ErrConflict)
         \<and> ws_rows (WriteObject w env req rs) = rs \<and> ws_rings (WriteObject w env req rs) = []"
proof -
  define a where "a = \<lparr>p_status_only = False, p_gvk = oGVK req, p_namespace = oNamespace req,
     p_name = oName req, p_expected_version = oExpectedVersion req, p_force_write = oForceWrite req,
     p_spec = Some s, p_status = None, p_metadata = Some m, p_deletion_ts = oDeletionTimestamp req\<rparr>"
  have args: "proc_args (object_params req) = Inr a"
    using assms(4,5) by (simp add: proc_args_def object_params_def jsonb_arg_def a_def)
  have up: "pg_upsert txid now uid a rs = Inl ''P0002''" for txid now uid
    by (rule stale_upsert) (use assms in \<open>simp_all add: a_def\<close>)
  have "pg_suppressed a rs =
     (if \<not> oForceWrite req \<and> rSpec r = s \<and> rMetadata r = m \<and> rDeletionTimestamp r = oDeletionTimestamp req
      then Some r else None)"
    using assms(6) by (auto simp: pg_suppressed_def content_equal_def a_def)
  then show ?thesis
    using assms(2) up production_ops(3) [OF assms(1,3)]
    by (simp add: callStoredProc_def run_proc_def args pgctl_write_def mapStoredProcError_def)
qed

theorem WriteObject_stale_witness:
  "ws_result (WriteObject pg_writer (ok_env 8 20 [9]) (ex_oreq\<lparr>oExpectedVersion := 4\<rparr>) [ex_row]) =
     Inl ErrConflict"
proof -
  have l: "pk_lookup [ex_row] (oGVK (ex_oreq\<lparr>oExpectedVersion := 4\<rparr>), oNamespace (ex_oreq\<lparr>oExpectedVersion := 4\<rparr>),
             oName (ex_oreq\<lparr>oExpectedVersion := 4\<rparr>)) = Some ex_row"
    by code_simp
  show ?thesis
    using WriteObject_stale [where w = pg_writer and env = "ok_env 8 20 [9]"
        and req = "ex_oreq\<lparr>oExpectedVersion := 4\<rparr>" and rs = "[ex_row]" and r = ex_row
        and s = "JObj [(''internalId'', JStr ''zz'')]" and m = empty_obj, OF _ _ _ _ _ l]
    by (simp add: pg_writer_def ok_env_def ex_oreq_def ex_row_def)
qed

section \<open>Creation and revival\<close>

lemma new_row_docs [simp]:
  "new_row txid now uid k (Some s) (Some t) (Some m) del =
     Inr \<lparr>rGVK = fst k, rNamespace = fst (snd k), rName = snd (snd k), rUID = uid, rTxidStamp = txid,
          rObjectVersion = 1, rSpec = s, rStatus = t, rMetadata = m, rDeletionTimestamp = del,
          rCreatedAt = now, rUpdatedAt = now\<rparr>"
  by (simp add: new_row_def not_null_def)

lemma set_revived_docs [simp]:
  "set_revived txid now uid (Some s) (Some t) (Some m) r =
     Inr (r\<lparr>rUID := uid, rTxidStamp := txid, rObjectVersion := 1, rSpec := s, rStatus := t,
            rMetadata := m, rDeletionTimestamp := None, rCreatedAt := now, rUpdatedAt := now\<rparr>)"
  by (simp add: set_revived_def not_null_def)

text \<open>The row that a create request describes.\<close>

definition created_row :: "wenv \<Rightarrow> WriteRequest \<Rightarrow> json \<Rightarrow> json \<Rightarrow> json \<Rightarrow> Resource" where
  "created_row env req s t m =
     \<lparr>rGVK = wGVK req, rNamespace = wNamespace req, rName = wName req, rUID = e_uuid env,
      rTxidStamp = e_txid env, rObjectVersion = 1, rSpec = s, rStatus = t, rMetadata = m,
      rDeletionTimestamp = None, rCreatedAt = e_now env, rUpdatedAt = e_now env\<rparr>"

lemma create_run:
  assumes "wExpectedVersion req = 0" "wDeletionTimestamp req = None"
    and "wSpec req = RawDoc s" "wStatus req = RawDoc t" "wMetadata req = RawDoc m"
  shows "run_proc env (write_params req) rs =
    (case pk_lookup rs (wGVK req, wNamespace req, wName req) of
       None \<Rightarrow> if unique_ok rs (created_row env req s t m)
               then store_row (created_row env req s t m) rs else Inl ''P0003''
     | Some old \<Rightarrow>
         if \<not> wForceWrite req \<and> rSpec old = s \<and> rStatus old = t \<and> rMetadata old = m
            \<and> rDeletionTimestamp old = None
         then Inr (\<lparr>out_uid = rUID old, out_version = rObjectVersion old, out_txid = 0, out_changed = False\<rparr>, rs)
         else if is_tombstone old then store_row (created_row env req s t m) rs
         else Inl ''P0003'')"
proof -
  have key: "row_key (created_row env req s t m) = (wGVK req, wNamespace req, wName req)"
    by (simp add: created_row_def row_key_def)
  have same: "old\<lparr>rUID := e_uuid env, rTxidStamp := e_txid env, rObjectVersion := 1, rSpec := s,
      rStatus := t, rMetadata := m, rDeletionTimestamp := None, rCreatedAt := e_now env,
      rUpdatedAt := e_now env\<rparr> = created_row env req s t m"
    if "pk_lookup rs (wGVK req, wNamespace req, wName req) = Some old" for old
    using that by (cases old) (auto simp: created_row_def row_key_def dest!: pk_lookup_Some)
  show ?thesis
    using assms key same
    by (auto simp: run_proc_def proc_args_def write_params_def jsonb_arg_def pgctl_write_def
        pg_suppressed_def content_equal_def pg_upsert_def pg_create_def sql_insert_def sql_update_def
        created_row_def [symmetric] store_row_def found_def
        split: option.splits if_splits)
qed

text \<open>
  The outcome of a production create (\<open>ExpectedVersion = 0\<close>), on every branch:
  a free key gets version 1 with a fresh UID unless a secondary unique index refuses it; a
  tombstone under the key is revived as a fresh first version; a live or dying object with the
  key is "already exists", except that a content-equal live one is reported as success
  without a write.
\<close>

theorem Write_create:
  assumes "production w" "e_fault env = CallOk"
    and "wExpectedVersion req = 0" "wDeletionTimestamp req = None"
    and "wSpec req = RawDoc s" "wStatus req = RawDoc t" "wMetadata req = RawDoc m"
  shows "(ws_result (Write w env req rs), ws_rows (Write w env req rs)) =
    (let new = created_row env req s t m;
         done = (Inr \<lparr>resTxid = e_txid env, resObjectVersion = 1, resUID = e_uuid env, resChanged = True\<rparr>,
                 put_row new rs)
     in case pk_lookup rs (wGVK req, wNamespace req, wName req) of
          None \<Rightarrow> if unique_ok rs new then done else (Inl ErrAlreadyExists, rs)
        | Some old \<Rightarrow>
            if \<not> wForceWrite req \<and> rSpec old = s \<and> rStatus old = t \<and> rMetadata old = m
               \<and> rDeletionTimestamp old = None
            then (Inr \<lparr>resTxid = 0, resObjectVersion = rObjectVersion old, resUID = rUID old,
                       resChanged = False\<rparr>, rs)
            else if is_tombstone old
                 then (if unique_ok rs new then done else (Inl (StoredProc ''23505''), rs))
                 else (Inl ErrAlreadyExists, rs))"
  using assms(2) production_ops(1) [OF assms(1)] create_run [OF assms(3-7), of env rs]
  by (auto simp: callStoredProc_def store_row_def mapStoredProcError_def created_row_def Let_def
      split: option.splits if_splits)

theorem Write_create_witness:
  "ws_rows (Write pg_writer (ok_env 8 20 [9])
     (ex_req\<lparr>wExpectedVersion := 0\<rparr>) [ex_row\<lparr>rDeletionTimestamp := Some 3\<rparr>]) =
   [created_row (ok_env 8 20 [9]) ex_req (JObj [(''internalId'', JStr ''zz'')]) empty_obj empty_obj]"
proof -
  have "(ws_result (Write pg_writer (ok_env 8 20 [9]) (ex_req\<lparr>wExpectedVersion := 0\<rparr>)
           [ex_row\<lparr>rDeletionTimestamp := Some 3\<rparr>]),
         ws_rows (Write pg_writer (ok_env 8 20 [9]) (ex_req\<lparr>wExpectedVersion := 0\<rparr>)
           [ex_row\<lparr>rDeletionTimestamp := Some 3\<rparr>])) =
        (Inr \<lparr>resTxid = 8, resObjectVersion = 1, resUID = [9], resChanged = True\<rparr>,
         [created_row (ok_env 8 20 [9]) ex_req (JObj [(''internalId'', JStr ''zz'')]) empty_obj empty_obj])"
    by (subst Write_create [where s = "JObj [(''internalId'', JStr ''zz'')]" and t = empty_obj and m = empty_obj])
      code_simp+
  then show ?thesis by simp
qed

section \<open>The two write paths agree\<close>

text \<open>Hooks that never inject an error, and two results that are equal or are the same server
  error, wrapped with different words.\<close>

definition silent_hooks :: TxHooks where
  "silent_hooks = \<lparr>AfterSuppressionCheck = (\<lambda>_. None), AfterTxidAcquire = (\<lambda>_. None), BeforeCommit = None\<rparr>"

definition same_outcome :: "werror + WriteResult \<Rightarrow> werror + WriteResult \<Rightarrow> bool" where
  "same_outcome r r' \<longleftrightarrow> r = r' \<or>
     (\<exists>e e'. r = Inl e \<and> r' = Inl e' \<and> pg_code e = pg_code e' \<and> pg_code e \<noteq> None)"

lemma sql_update_code:
  assumes "sql_update k cond upd rs = Inl c" "\<And>r c. upd r = Inl c \<Longrightarrow> c \<in> {''23502'', ''22003''}"
  shows "c \<in> {''23502'', ''22003'', ''23505''}"
  using assms by (fastforce simp: sql_update_def bindR_eq_Inl store_row_def split: option.splits if_splits sum.splits)

lemma set_codes:
  "set_status txid now st r = Inl c \<Longrightarrow> c \<in> {''23502'', ''22003''}"
  "set_object txid now sp st md del r = Inl c \<Longrightarrow> c \<in> {''23502'', ''22003''}"
  "set_revived txid now uid sp st md r = Inl c \<Longrightarrow> c \<in> {''23502'', ''22003''}"
  by (auto simp: set_defs bindR_eq_Inl not_null_def bigint_succ_def split: option.splits if_splits)

definition proc_result :: "string + (pg_out \<times> rows) \<Rightarrow> werror + (pg_out \<times> rows)" where
  "proc_result r = (case r of Inl c \<Rightarrow> Inl (mapStoredProcError c) | Inr x \<Rightarrow> Inr x)"

text \<open>The error of a statement, seen through the procedure and through the transaction.\<close>

definition same_error :: "werror + 'a \<Rightarrow> werror + 'a \<Rightarrow> bool" where
  "same_error r r' \<longleftrightarrow> r = r' \<or>
     (\<exists>e e'. r = Inl e \<and> r' = Inl e' \<and> pg_code e = pg_code e' \<and> pg_code e \<noteq> None)"

lemma same_error_found:
  assumes "mapStoredProcError code = e" "\<And>c. r = Inl c \<Longrightarrow> c \<in> {''23502'', ''22003'', ''23505''}"
  shows "same_error (proc_result (found code r)) (no_rows e (wrap_step what r))"
proof (cases r)
  case (Inl c)
  then have "c \<in> {''23502'', ''22003'', ''23505''}" by (rule assms(2))
  then have "mapStoredProcError c = StoredProc c" by (auto simp: mapStoredProcError_def)
  with Inl show ?thesis
    by (simp add: same_error_def proc_result_def found_def no_rows_def wrap_step_def)
next
  case (Inr v)
  with assms(1) show ?thesis
    by (cases v) (simp_all add: same_error_def proc_result_def found_def no_rows_def wrap_step_def)
qed

lemma same_error_update:
  assumes "mapStoredProcError code = e" "\<And>r c. upd r = Inl c \<Longrightarrow> c \<in> {''23502'', ''22003''}"
  shows "same_error (proc_result (found code (sql_update k cond upd rs)))
                    (no_rows e (wrap_step what (sql_update k cond upd rs)))"
  by (rule same_error_found [OF assms(1)]) (rule sql_update_code [OF _ assms(2)])

text \<open>If the two paths decide alike whether to suppress, and their upserts agree up to the
  wording of errors, the whole calls agree.\<close>

lemma paths_agree:
  assumes args: "proc_args p = Inr a" and env: "e_fault env = CallOk" "e_step env = None"
    and sup: "\<And>r. pk_lookup rs (params_key p) = Some r \<Longrightarrow>
        content_equal a r \<longleftrightarrow>
        chk \<lparr>ex_uid = rUID r, ex_objectVersion = rObjectVersion r, ex_spec = RawDoc (rSpec r),
             ex_status = RawDoc (rStatus r), ex_metadata = RawDoc (rMetadata r),
             ex_deletionTimestamp = rDeletionTimestamp r\<rparr>"
    and ups: "same_error (proc_result (pg_upsert (e_txid env) (e_now env) (e_uuid env) a rs))
                         (upsert (e_txid env) rs)"
  shows "same_outcome (fst (callStoredProc w env p rs)) (fst (execWriteInner w silent_hooks env p chk upsert rs))
      \<and> snd (callStoredProc w env p rs) = snd (execWriteInner w silent_hooks env p chk upsert rs)"
proof -
  note pa = proc_args_Inr [OF args]
  have txid: "out_txid out = e_txid env \<and> out_changed out"
    if "pg_upsert (e_txid env) (e_now env) (e_uuid env) a rs = Inr (out, rs')" for out rs'
    using that by (elim pg_upsert_row) simp
  show ?thesis
  proof (cases "pg_suppressed a rs")
    case None
    then have no: "(case (if wp_forceWrite p then None
                 else readExisting rs (wp_gvk p) (wp_namespace p) (wp_name p)) of
              None \<Rightarrow> False | Some x \<Rightarrow> chk x) = False"
      using pa(1,5) sup by (auto simp: pg_suppressed_def readExisting_def split: if_splits option.splits)
    show ?thesis
      using None env ups txid
      by (auto simp: callStoredProc_def run_proc_def args pgctl_write_def execWriteInner_def no
          silent_hooks_def same_error_def same_outcome_def proc_result_def Let_def
          split: sum.splits prod.splits)
  next
    case (Some r)
    then have "\<not> wp_forceWrite p" "pk_lookup rs (params_key p) = Some r" "content_equal a r"
      using pa(1,5) by (auto simp: pg_suppressed_def split: if_splits option.splits)
    with Some sup env show ?thesis
      by (simp add: callStoredProc_def run_proc_def args pgctl_write_def execWriteInner_def
          silent_hooks_def same_outcome_def readExisting_def)
  qed
qed

lemma write_upsert_agrees:
  assumes docs: "wSpec req = RawDoc s" "wStatus req = RawDoc t" "wMetadata req = RawDoc m"
  shows "same_error
    (proc_result (pg_upsert txid (e_now env) (e_uuid env)
       \<lparr>p_status_only = False, p_gvk = wGVK req, p_namespace = wNamespace req, p_name = wName req,
        p_expected_version = wExpectedVersion req, p_force_write = wForceWrite req, p_spec = Some s,
        p_status = Some t, p_metadata = Some m, p_deletion_ts = wDeletionTimestamp req\<rparr> rs))
    (write_upsert env req txid rs)"
proof (cases "wExpectedVersion req = 0")
  case True
  let ?k = "(wGVK req, wNamespace req, wName req)"
  have code: "c = ''23505''" if "sql_insert r rs = Inl c" for r c
    using that by (auto simp: sql_insert_def store_row_def split: if_splits)
  have rev: "same_error
      (proc_result (found ''P0003'' (sql_update ?k is_tombstone (set_revived x y z sp st md) rs)))
      (no_rows ErrAlreadyExists (wrap_step ''tombstone revival''
         (sql_update ?k is_tombstone (set_revived x y z sp st md) rs)))" for x y z sp st md
    by (rule same_error_update, simp add: mapStoredProcError_def, erule set_codes)
  from True docs rev code show ?thesis
    by (auto simp: pg_upsert_def pg_create_def write_upsert_def docs3_def jsonb_arg_def Let_def
        split: sum.splits) (auto simp: same_error_def proc_result_def)
next
  case False
  have "same_error (proc_result (found ''P0002'' (sql_update k cond (set_object x y sp st md del) rs)))
      (no_rows ErrConflict (wrap_step ''update resource''
         (sql_update k cond (set_object x y sp st md del) rs)))" for k cond x y sp st md del
    by (rule same_error_update, simp add: mapStoredProcError_def, erule set_codes)
  with False docs show ?thesis
    by (simp add: pg_upsert_def pg_update_def write_upsert_def docs3_def jsonb_arg_def Let_def)
qed



section \<open>Ambiguous commits\<close>

text \<open>
  The production path reports an
  ambiguous commit with transaction id 0, so the read-back that should find a write that landed
  finds nothing: a row never carries id 0 when the server's transaction ids are positive. The
  caller is told that the write did not land even where it did.
\<close>

theorem ambiguous_readback_misses:
  assumes "production w" "ws_result (Write w env req rs) = Inl (AmbiguousCommitError g n m txid)"
    and "\<And>r. r \<in> set rs \<Longrightarrow> rTxidStamp r \<noteq> 0" "e_txid env \<noteq> 0"
  shows "txid = 0 \<and> ReadBack (ws_rows (Write w env req rs)) g n m txid = None"
proof -
  let ?rs' = "ws_rows (Write w env req rs)"
  have txid: "txid = 0"
    using assms(2) production_ops(1) [OF assms(1), of env req rs]
    by (auto simp: callStoredProc_def Let_def mapStoredProcError_def
        split: call_fault.splits sum.splits if_splits)
  have stamps: "rTxidStamp r \<noteq> 0" if "pk_lookup ?rs' k = Some r" for k r
  proof (cases "?rs' = rs")
    case True
    with that assms(3) show ?thesis by (auto dest!: pk_lookup_Some)
  next
    case False
    then obtain out a where run: "pgctl_write (e_txid env) (e_now env) (e_uuid env) a rs = Inr (out, ?rs')"
      using callStoredProc_error [of w env "write_params req" rs] assms(2) production_ops(1) [OF assms(1)]
      by (cases "callStoredProc w env (write_params req) rs") (auto simp: run_proc_def bindR_eq_Inr)
    from run show ?thesis
    proof (cases rule: pgctl_write_cases [consumes 1])
      case suppressed
      with False show ?thesis by simp
    next
      case written
      then obtain r0 where "?rs' = put_row r0 rs" "rTxidStamp r0 = e_txid env"
        by (elim pg_upsert_row) simp
      with that assms(3,4) show ?thesis
        by (auto simp: pk_lookup_put split: if_splits dest!: pk_lookup_Some)
    qed
  qed
  from txid stamps show ?thesis by (auto simp: ReadBack_def split: option.splits)
qed

theorem ambiguous_readback_misses_witness:
  "ws_rows (Write pg_writer ((ok_env 8 20 [9])\<lparr>e_fault := LostAfterCommit\<rparr>) (ex_req\<lparr>wExpectedVersion := 1\<rparr>) [ex_row])
     \<noteq> [ex_row] \<and>
   ReadBack (ws_rows (Write pg_writer ((ok_env 8 20 [9])\<lparr>e_fault := LostAfterCommit\<rparr>)
     (ex_req\<lparr>wExpectedVersion := 1\<rparr>) [ex_row])) ''hyperfleet.io/v1alpha1/Cluster'' ''n'' ''c1'' 0 = None"
proof -
  have w: "production pg_writer" by (simp add: pg_writer_def)
  have e: "ws_result (Write pg_writer ((ok_env 8 20 [9])\<lparr>e_fault := LostAfterCommit\<rparr>)
       (ex_req\<lparr>wExpectedVersion := 1\<rparr>) [ex_row]) =
     Inl (AmbiguousCommitError ''hyperfleet.io/v1alpha1/Cluster'' ''n'' ''c1'' 0)"
    by code_simp
  have applied: "ws_rows (Write pg_writer ((ok_env 8 20 [9])\<lparr>e_fault := LostAfterCommit\<rparr>)
      (ex_req\<lparr>wExpectedVersion := 1\<rparr>) [ex_row]) \<noteq> [ex_row]"
    by code_simp
  show ?thesis
    using applied ambiguous_readback_misses [OF w e] by (simp add: ex_row_def ok_env_def)
qed

end
