(* ===== verification/Convert.thy ===== *)
theory Convert
  imports Compaction WriterProps
begin

text \<open>
  Conversion between stored rows and Kubernetes objects (\<open>hyperfleet-db/convert.go\<close>). An object
  is its metadata and the JSON of its \<open>Spec\<close> and \<open>Status\<close> fields. What depends on the Go type of
  an object is the record \<open>kind\<close>: what \<open>scheme.ObjectKinds\<close> says of it, whether it has the two
  fields, and how \<open>json.Unmarshal\<close> updates the fields from a document. Maps of strings are key/value lists in the
  key order of the stored documents; owner references are kept as documents.
\<close>

section \<open>Objects and kinds\<close>

record GVK =
  gk_Group :: string
  gk_Version :: string
  gk_Kind :: string

record kobject =
  ko_Name :: string
  ko_Namespace :: string
  ko_GenerateName :: string
  ko_UID :: string
  ko_ResourceVersion :: string
  ko_Generation :: int
  ko_Labels :: "(string \<times> string) list"
  ko_Annotations :: "(string \<times> string) list"
  ko_OwnerReferences :: "json list"
  ko_Finalizers :: "string list"
  ko_CreationTimestamp :: int
  ko_DeletionTimestamp :: "int option"
  ko_GVK :: "GVK option"
  ko_Spec :: json
  ko_Status :: json

record kind =
  kd_gvks :: "string + GVK list"
  kd_has_spec :: bool
  kd_has_status :: bool
  kd_unmarshal_spec :: "json \<Rightarrow> json \<Rightarrow> json option"
  kd_unmarshal_status :: "json \<Rightarrow> json \<Rightarrow> json option"

definition gvkToString :: "GVK \<Rightarrow> string" where
  "gvkToString g = gk_Group g @ ''/'' @ gk_Version g @ ''/'' @ gk_Kind g"

definition stringToGVK :: "string \<Rightarrow> string + GVK" where
  "stringToGVK s =
     (case splitN (CHR ''/'') 3 s of
        [g, v, k] \<Rightarrow> Inr \<lparr>gk_Group = g, gk_Version = v, gk_Kind = k\<rparr>
      | _ \<Rightarrow> Inl ''invalid GVK string'')"

definition resolveGVK :: "kind \<Rightarrow> string + GVK" where
  "resolveGVK k = (case kd_gvks k of
       Inl e \<Rightarrow> Inl (''resolve GVK: '' @ e)
     | Inr [] \<Rightarrow> Inl ''no GVK registered for type''
     | Inr (g # _) \<Rightarrow> Inr g)"

definition itemGVKFromListGVK :: "GVK \<Rightarrow> GVK" where
  "itemGVKFromListGVK g = g\<lparr>gk_Kind := trim_suffix (gk_Kind g) ''List''\<rparr>"

section \<open>Metadata\<close>

record storedMetadata =
  sm_Labels :: "(string \<times> string) list"
  sm_Annotations :: "(string \<times> string) list"
  sm_OwnerReferences :: "json list"
  sm_Finalizers :: "string list"
  sm_Generation :: int

definition zero_sm :: storedMetadata where
  "zero_sm = \<lparr>sm_Labels = [], sm_Annotations = [], sm_OwnerReferences = [], sm_Finalizers = [], sm_Generation = 0\<rparr>"

definition string_map :: "(string \<times> string) list \<Rightarrow> json" where
  "string_map m = JObj (map (\<lambda>(k, v). (k, JStr v)) m)"

text \<open>The encoding with its \<open>omitempty\<close> fields, in the key order of \<open>jsonb\<close>: shorter keys first.\<close>

definition marshal_sm :: "storedMetadata \<Rightarrow> json" where
  "marshal_sm m = JObj (
     (if sm_Labels m = [] then [] else [(''labels'', string_map (sm_Labels m))])
     @ (if sm_Finalizers m = [] then [] else [(''finalizers'', JArr (map JStr (sm_Finalizers m)))])
     @ (if sm_Generation m = 0 then [] else [(''generation'', JNum (sm_Generation m))])
     @ (if sm_Annotations m = [] then [] else [(''annotations'', string_map (sm_Annotations m))])
     @ (if sm_OwnerReferences m = [] then [] else [(''ownerReferences'', JArr (sm_OwnerReferences m))]))"

fun go_string :: "json \<Rightarrow> string option" where
  "go_string (JStr s) = Some s"
| "go_string JNull = Some []"
| "go_string _ = None"

fun go_string_map :: "json \<Rightarrow> (string \<times> string) list option" where
  "go_string_map (JObj kvs) = those (map (\<lambda>(k, v). map_option (Pair k) (go_string v)) kvs)"
| "go_string_map JNull = Some []"
| "go_string_map _ = None"

fun go_string_list :: "json \<Rightarrow> string list option" where
  "go_string_list (JArr xs) = those (map go_string xs)"
| "go_string_list JNull = Some []"
| "go_string_list _ = None"

fun go_doc_list :: "json \<Rightarrow> json list option" where
  "go_doc_list (JArr xs) = Some xs"
| "go_doc_list JNull = Some []"
| "go_doc_list _ = None"

fun go_int64 :: "json \<Rightarrow> int option" where
  "go_int64 (JNum n) = (if in64 n then Some n else None)"
| "go_int64 JNull = Some 0"
| "go_int64 _ = None"

text \<open>\<open>json.Unmarshal\<close> into a \<open>storedMetadata\<close>; \<open>None\<close> is an error. A null leaves a field alone,
  which here holds its zero value. Keys are compared exactly: the column holds only documents
  that \<open>marshal_sm\<close> wrote.\<close>

definition unmarshal_sm :: "json \<Rightarrow> storedMetadata option" where
  "unmarshal_sm doc =
     (case doc of
        JObj kvs \<Rightarrow>
          (let f = (\<lambda>k. case map_of kvs k of None \<Rightarrow> JNull | Some v \<Rightarrow> v)
           in case (go_string_map (f ''labels''), go_string_map (f ''annotations''), go_doc_list (f ''ownerReferences''),
                    go_string_list (f ''finalizers''), go_int64 (f ''generation'')) of
                (Some l, Some a, Some r, Some fi, Some g) \<Rightarrow>
                  Some \<lparr>sm_Labels = l, sm_Annotations = a, sm_OwnerReferences = r, sm_Finalizers = fi, sm_Generation = g\<rparr>
              | _ \<Rightarrow> None)
      | JNull \<Rightarrow> Some zero_sm
      | _ \<Rightarrow> None)"

definition sm_of :: "kobject \<Rightarrow> storedMetadata" where
  "sm_of o1 = \<lparr>sm_Labels = ko_Labels o1, sm_Annotations = ko_Annotations o1,
     sm_OwnerReferences = ko_OwnerReferences o1, sm_Finalizers = ko_Finalizers o1, sm_Generation = ko_Generation o1\<rparr>"

definition extractMetadata :: "kobject \<Rightarrow> json" where
  "extractMetadata o1 = marshal_sm (sm_of o1)"

definition hasFinalizers :: "Resource \<Rightarrow> bool" where
  "hasFinalizers r = (case unmarshal_sm (rMetadata r) of None \<Rightarrow> False | Some m \<Rightarrow> sm_Finalizers m \<noteq> [])"

definition isFullyDeleted :: "Resource \<Rightarrow> bool" where
  "isFullyDeleted r \<longleftrightarrow> rDeletionTimestamp r \<noteq> None \<and> \<not> hasFinalizers r"

definition currentGeneration :: "json \<Rightarrow> int" where
  "currentGeneration md = (case unmarshal_sm md of None \<Rightarrow> 0 | Some m \<Rightarrow> sm_Generation m)"

section \<open>Spec, status and resource version\<close>

definition extractSpec :: "kind \<Rightarrow> kobject \<Rightarrow> json" where
  "extractSpec k o1 = (if kd_has_spec k then ko_Spec o1 else empty_obj)"

definition extractStatus :: "kind \<Rightarrow> kobject \<Rightarrow> json" where
  "extractStatus k o1 = (if kd_has_status k then ko_Status o1 else empty_obj)"

definition extractSpecStatus :: "kind \<Rightarrow> kobject \<Rightarrow> json \<times> json" where
  "extractSpecStatus k o1 = (if kd_has_spec k then ko_Spec o1 else empty_obj, if kd_has_status k then ko_Status o1 else empty_obj)"

lemma extractSpecStatus_eq: "extractSpecStatus k o1 = (extractSpec k o1, extractStatus k o1)"
  by (simp add: extractSpecStatus_def extractSpec_def extractStatus_def)

definition parseResourceVersion :: "kobject \<Rightarrow> string + int" where
  "parseResourceVersion o1 =
     (let rv = ko_ResourceVersion o1
      in if rv = [] then Inr 0
         else case parse_int rv of
           Some v \<Rightarrow> Inr v
         | None \<Rightarrow>
             (case rv_Parse rv of
                Inl _ \<Rightarrow> Inl (''resource version '' @ rv @ '' carries no object version'')
              | Inr c \<Rightarrow> if ObjectVersion c = 0 then Inl (''resource version '' @ rv @ '' carries no object version'')
                         else Inr (ObjectVersion c)))"

definition uidFromUUID :: "uuid \<Rightarrow> string" where
  "uidFromUUID u =
     hex_encode (take 4 u) @ ''-'' @ hex_encode (take 2 (drop 4 u)) @ ''-'' @ hex_encode (take 2 (drop 6 u)) @ ''-''
     @ hex_encode (take 2 (drop 8 u)) @ ''-'' @ hex_encode (take 6 (drop 10 u))"

definition populateObjectMeta :: "kobject \<Rightarrow> Resource \<Rightarrow> kobject" where
  "populateObjectMeta o1 r =
     (let o2 = o1\<lparr>ko_Name := rName r, ko_Namespace := rNamespace r, ko_UID := uidFromUUID (rUID r),
                  ko_ResourceVersion := dec_of_int (rObjectVersion r), ko_CreationTimestamp := rCreatedAt r,
                  ko_DeletionTimestamp := (case rDeletionTimestamp r of None \<Rightarrow> ko_DeletionTimestamp o1 | Some d \<Rightarrow> Some d)\<rparr>
      in case unmarshal_sm (rMetadata r) of
           None \<Rightarrow> o2
         | Some m \<Rightarrow> o2\<lparr>ko_Labels := sm_Labels m, ko_Annotations := sm_Annotations m,
                        ko_OwnerReferences := sm_OwnerReferences m, ko_Finalizers := sm_Finalizers m,
                        ko_Generation := sm_Generation m\<rparr>)"

definition injectSpecStatus :: "kind \<Rightarrow> json \<Rightarrow> json \<Rightarrow> kobject \<Rightarrow> string + kobject" where
  "injectSpecStatus k spec status o1 =
     bindR (if spec = empty_obj \<or> \<not> kd_has_spec k then Inr o1
            else case kd_unmarshal_spec k (ko_Spec o1) spec of
              None \<Rightarrow> Inl ''unmarshal spec'' | Some v \<Rightarrow> Inr (o1\<lparr>ko_Spec := v\<rparr>)) (\<lambda>o2.
     if status = empty_obj \<or> \<not> kd_has_status k then Inr o2
     else case kd_unmarshal_status k (ko_Status o2) status of
       None \<Rightarrow> Inl ''unmarshal status'' | Some v \<Rightarrow> Inr (o2\<lparr>ko_Status := v\<rparr>))"

definition populateObject :: "kind \<Rightarrow> kobject \<Rightarrow> Resource \<Rightarrow> GVK \<Rightarrow> string + kobject" where
  "populateObject k dst r gvk =
     injectSpecStatus k (rSpec r) (rStatus r) ((populateObjectMeta dst r)\<lparr>ko_GVK := Some gvk\<rparr>)"

text \<open>\<open>scheme\<close> is the registry: the kind of a GVK and the zero object of its type.\<close>

definition resourceToObject :: "(GVK \<Rightarrow> (kind \<times> kobject) option) \<Rightarrow> Resource \<Rightarrow> string + kobject" where
  "resourceToObject scheme r =
     bindR (stringToGVK (rGVK r)) (\<lambda>gvk.
       case scheme gvk of
         None \<Rightarrow> Inl ''scheme.New''
       | Some (k, zero) \<Rightarrow> populateObject k zero r gvk)"

text \<open>The \<open>Items\<close> field of a list type: \<open>None\<close> when there is no such slice, else which kinds of
  object have its element type.\<close>

type_synonym items_field = "(GVK \<Rightarrow> bool) option"

definition setListItems :: "items_field \<Rightarrow> kobject list \<Rightarrow> string + kobject list" where
  "setListItems fld items =
     (case fld of
        None \<Rightarrow> Inl ''no Items slice''
      | Some elem \<Rightarrow>
          if list_all (\<lambda>o1. case ko_GVK o1 of None \<Rightarrow> False | Some g \<Rightarrow> elem g) items then Inr items
          else Inl ''item type does not match slice element type'')"

section \<open>Round trips\<close>

lemma those_strings [simp]: "those (map (go_string \<circ> JStr) xs) = Some xs"
  by (induction xs) auto

lemma go_string_map_inv [simp]: "go_string_map (string_map m) = Some m"
  unfolding string_map_def by (induction m) auto

lemma unmarshal_marshal_sm: "in64 (sm_Generation m) \<Longrightarrow> unmarshal_sm (marshal_sm m) = Some m"
  by (simp add: unmarshal_sm_def marshal_sm_def Let_def)

lemma extract_roundtrip: "in64 (ko_Generation o1) \<Longrightarrow> unmarshal_sm (extractMetadata o1) = Some (sm_of o1)"
  by (simp add: extractMetadata_def unmarshal_marshal_sm sm_of_def)

lemma finalizers_field:
  "jfield (marshal_sm m) ''finalizers'' = (if sm_Finalizers m = [] then None else Some (JArr (map JStr (sm_Finalizers m))))"
  by (simp add: marshal_sm_def)

lemma no_finalizers_marshal: "no_finalizers (marshal_sm m) \<longleftrightarrow> sm_Finalizers m = []"
  by (auto simp: no_finalizers_def finalizers_field)


definition ex_obj :: kobject where
  "ex_obj = \<lparr>ko_Name = ''c1'', ko_Namespace = ''n'', ko_GenerateName = [], ko_UID = [], ko_ResourceVersion = [],
     ko_Generation = 3, ko_Labels = [(''a'', ''b'')], ko_Annotations = [], ko_OwnerReferences = [],
     ko_Finalizers = [''hyperfleet.io/cleanup''], ko_CreationTimestamp = 0, ko_DeletionTimestamp = None,
     ko_GVK = None, ko_Spec = JObj [(''internalId'', JStr ''ab12x'')], ko_Status = empty_obj\<rparr>"


end
