(* ===== verification/PgClient.thy ===== *)
theory PgClient
  imports Convert
begin

text \<open>
  The controller-runtime client over PostgreSQL: \<open>hyperfleet-db/pgclient.go\<close> and
  \<open>hyperfleet-db/errors.go\<close>. A call takes the committed table and returns its error or the
  object it leaves with the caller, and the new table; the object that a failed call leaves
  behind is not described. The environment \<open>cenv\<close> says which steps fail, what the clock and the
  server do, and what other clients commit between the read and the write of one call.
\<close>

section \<open>Errors and environment\<close>

record GroupResource =
  gr_Group :: string
  gr_Resource :: string

datatype cerror =
    NotFound GroupResource string
  | AlreadyExists GroupResource string
  | Conflict GroupResource string
  | MethodNotSupported string
  | DryRunNotSupported
  | PropagationPolicyNotSupported
  | PreconditionsNotSupported
  | GracePeriodNotSupported
  | GenerateNameNotSupported
  | ConvertError string                      \<comment> \<open>an error of convert.go\<close>
  | SelectorError fs_error
  | BadContinue
  | ConnError string                         \<comment> \<open>no connection, or a query failed\<close>
  | WriterError werror
  | ReadBackFailed string

datatype qerror = ErrNoRows | QueryErr string

record cenv =
  ce_acquire :: "string option"              \<comment> \<open>error of \<open>pool.Acquire\<close>\<close>
  ce_read :: "string option"                 \<comment> \<open>error of the query before a write, or of \<open>Get\<close> and \<open>List\<close>\<close>
  ce_others :: "rows \<Rightarrow> rows"               \<comment> \<open>commits of other clients after that query\<close>
  ce_write :: wenv
  ce_readback :: "string option"             \<comment> \<open>error of the read-back\<close>
  ce_now :: int                              \<comment> \<open>\<open>time.Now\<close>, at the resolution of the column\<close>

record cstep =
  cs_result :: "cerror + kobject"
  cs_rows :: rows

definition cfail :: "cerror \<Rightarrow> rows \<Rightarrow> cstep" where
  "cfail e rs = \<lparr>cs_result = Inl e, cs_rows = rs\<rparr>"

definition conv :: "string + 'a \<Rightarrow> cerror + 'a" where
  "conv r = map_sum ConvertError id r"

definition acquire :: "cenv \<Rightarrow> cerror + unit" where
  "acquire env = (case ce_acquire env of Some m \<Rightarrow> Inl (ConnError m) | None \<Rightarrow> Inr ())"

section \<open>errors.go\<close>

definition rejectDryRun :: "string list \<Rightarrow> cerror + unit" where
  "rejectDryRun dryRun = (if dryRun \<noteq> [] then Inl DryRunNotSupported else Inr ())"

record DeleteOptions =
  do_DryRun :: "string list"
  do_PropagationPolicy :: "string option"
  do_Preconditions :: "(string option \<times> string option) option"
  do_GracePeriodSeconds :: "int option"

definition rejectUnsupportedDeleteOpts :: "DeleteOptions \<Rightarrow> cerror + unit" where
  "rejectUnsupportedDeleteOpts opts =
     bindR (rejectDryRun (do_DryRun opts)) (\<lambda>_.
       if do_PropagationPolicy opts \<noteq> None then Inl PropagationPolicyNotSupported
       else if do_Preconditions opts \<noteq> None then Inl PreconditionsNotSupported
       else if do_GracePeriodSeconds opts \<noteq> None then Inl GracePeriodNotSupported
       else Inr ())"

definition groupResource :: "GVK \<Rightarrow> GroupResource" where
  "groupResource g = \<lparr>gr_Group = gk_Group g, gr_Resource = map to_lower (gk_Kind g)\<rparr>"

definition mapGetError :: "qerror \<Rightarrow> GVK \<Rightarrow> string \<Rightarrow> cerror" where
  "mapGetError e g name = (case e of ErrNoRows \<Rightarrow> NotFound (groupResource g) name | QueryErr m \<Rightarrow> ConnError m)"

text \<open>The row of a write that turned out to have landed, or the error of the call.\<close>

definition mapWriteError :: "cenv \<Rightarrow> rows \<Rightarrow> werror \<Rightarrow> GVK \<Rightarrow> string \<Rightarrow> cerror + Resource option" where
  "mapWriteError env rs e g name =
     (case e of
        ErrAlreadyExists \<Rightarrow> Inl (AlreadyExists (groupResource g) name)
      | ErrConflict \<Rightarrow> Inl (Conflict (groupResource g) name)
      | AmbiguousCommitError gvk ns nm txid \<Rightarrow>
          (case ce_readback env of
             Some m \<Rightarrow> Inl (ReadBackFailed m)
           | None \<Rightarrow>
               (case ReadBack rs gvk ns nm txid of
                  None \<Rightarrow> Inl (Conflict (groupResource g) name)
                | Some r \<Rightarrow> Inr (Some r)))
      | _ \<Rightarrow> Inl (WriterError e))"

section \<open>Reading\<close>

definition client_Get :: "cenv \<Rightarrow> kind \<Rightarrow> rows \<Rightarrow> string \<Rightarrow> string \<Rightarrow> kobject \<Rightarrow> cerror + kobject" where
  "client_Get env k rs ns name dst =
     bindR (conv (resolveGVK k)) (\<lambda>g. bindR (acquire env) (\<lambda>_.
       case ce_read env of
         Some m \<Rightarrow> Inl (mapGetError (QueryErr m) g name)
       | None \<Rightarrow>
           (case pk_lookup rs (gvkToString g, ns, name) of
              None \<Rightarrow> Inl (mapGetError ErrNoRows g name)
            | Some r \<Rightarrow>
                if isFullyDeleted r then Inl (mapGetError ErrNoRows g name)
                else conv (populateObject k dst r g))))"

text \<open>The query filters tombstones: \<open>deletion_timestamp IS NULL\<close>, or finalizers that are neither
  missing nor the empty array.\<close>

definition readCurrentResource :: "cenv \<Rightarrow> rows \<Rightarrow> string \<Rightarrow> string \<Rightarrow> string \<Rightarrow> cerror + Resource option" where
  "readCurrentResource env rs gvk ns name =
     (case ce_read env of
        Some m \<Rightarrow> Inl (ConnError m)
      | None \<Rightarrow>
          Inr (case pk_lookup rs (gvk, ns, name) of
                 None \<Rightarrow> None
               | Some r \<Rightarrow> if listed r then Some r else None))"

section \<open>Writing\<close>

text \<open>The end of every write: a failed one is mapped, and an ambiguous one that landed fills the
  object from the stored row.\<close>

definition after_failure :: "cenv \<Rightarrow> kind \<Rightarrow> GVK \<Rightarrow> kobject \<Rightarrow> rows \<Rightarrow> werror \<Rightarrow> cerror + kobject" where
  "after_failure env k g o1 rs e =
     bindR (mapWriteError env rs e g (ko_Name o1)) (\<lambda>r.
       case r of Some row \<Rightarrow> conv (populateObject k o1 row g) | None \<Rightarrow> Inr o1)"

definition client_Create :: "cenv \<Rightarrow> kind \<Rightarrow> string list \<Rightarrow> kobject \<Rightarrow> rows \<Rightarrow> cstep" where
  "client_Create env k dryRun o0 rs =
     (case bindR (rejectDryRun dryRun) (\<lambda>_.
             if ko_Name o0 = [] \<and> ko_GenerateName o0 \<noteq> [] then Inl GenerateNameNotSupported
             else bindR (conv (resolveGVK k)) (\<lambda>g. bindR (acquire env) (\<lambda>_. Inr g))) of
        Inl e \<Rightarrow> cfail e rs
      | Inr g \<Rightarrow>
          (let o1 = o0\<lparr>ko_Generation := 1\<rparr>;
               (spec, status) = extractSpecStatus k o1;
               st = Write pg_writer (ce_write env)
                      \<lparr>wGVK = gvkToString g, wNamespace = ko_Namespace o1, wName = ko_Name o1,
                       wSpec = RawDoc spec, wStatus = RawDoc status,
                       wMetadata = RawDoc (extractMetadata o1), wDeletionTimestamp = None,
                       wExpectedVersion = 0, wForceWrite = False\<rparr> rs
           in \<lparr>cs_result =
                 (case ws_result st of
                    Inl e \<Rightarrow> after_failure env k g o1 (ws_rows st) e
                  | Inr res \<Rightarrow> Inr (o1\<lparr>ko_UID := uidFromUUID (resUID res),
                                      ko_ResourceVersion := dec_of_int (resObjectVersion res),
                                      ko_CreationTimestamp := ce_now env, ko_GVK := Some g\<rparr>)),
               cs_rows = ws_rows st\<rparr>))"

definition client_Update :: "cenv \<Rightarrow> kind \<Rightarrow> string list \<Rightarrow> kobject \<Rightarrow> rows \<Rightarrow> cstep" where
  "client_Update env k dryRun o0 rs =
     (case bindR (rejectDryRun dryRun) (\<lambda>_. bindR (conv (resolveGVK k)) (\<lambda>g.
           bindR (conv (parseResourceVersion o0)) (\<lambda>v. bindR (acquire env) (\<lambda>_.
           bindR (readCurrentResource env rs (gvkToString g) (ko_Namespace o0) (ko_Name o0)) (\<lambda>cur.
             case cur of None \<Rightarrow> Inl (NotFound (groupResource g) (ko_Name o0))
             | Some current \<Rightarrow> Inr (g, v, current)))))) of
        Inl e \<Rightarrow> cfail e rs
      | Inr (g, expectedVersion, current) \<Rightarrow>
          (let newSpec = extractSpec k o0;
               o1 = (if \<not> JSONEqual (RawDoc (rSpec current)) (RawDoc newSpec)
                     then o0\<lparr>ko_Generation := wrap64 (currentGeneration (rMetadata current) + 1)\<rparr>
                     else o0);
               st = WriteObject pg_writer (ce_write env)
                      \<lparr>oGVK = gvkToString g, oNamespace = ko_Namespace o0, oName = ko_Name o0,
                       oSpec = RawDoc newSpec, oMetadata = RawDoc (extractMetadata o1),
                       oDeletionTimestamp = rDeletionTimestamp current,
                       oExpectedVersion = expectedVersion, oForceWrite = False\<rparr> (ce_others env rs)
           in \<lparr>cs_result =
                 (case ws_result st of
                    Inl e \<Rightarrow> after_failure env k g o1 (ws_rows st) e
                  | Inr res \<Rightarrow> Inr (o1\<lparr>ko_ResourceVersion := dec_of_int (resObjectVersion res)\<rparr>)),
               cs_rows = ws_rows st\<rparr>))"

text \<open>What \<open>Delete\<close> writes: the stored documents and deletion timestamp when the object carries no
  version, the caller's documents and no timestamp otherwise.\<close>

definition delete_content ::
  "cenv \<Rightarrow> kind \<Rightarrow> GVK \<Rightarrow> kobject \<Rightarrow> int \<Rightarrow> rows \<Rightarrow> cerror + (int \<times> json \<times> json \<times> json \<times> int option)"
where
  "delete_content env k g o0 v rs =
     (if v = 0 then
        bindR (readCurrentResource env rs (gvkToString g) (ko_Namespace o0) (ko_Name o0)) (\<lambda>cur.
          case cur of
            None \<Rightarrow> Inl (NotFound (groupResource g) (ko_Name o0))
          | Some c \<Rightarrow> Inr (rObjectVersion c, rSpec c, rStatus c, rMetadata c, rDeletionTimestamp c))
      else let (spec, status) = extractSpecStatus k o0 in Inr (v, spec, status, extractMetadata o0, None))"

definition client_Delete :: "cenv \<Rightarrow> kind \<Rightarrow> DeleteOptions \<Rightarrow> kobject \<Rightarrow> rows \<Rightarrow> cstep" where
  "client_Delete env k opts o0 rs =
     (case bindR (rejectUnsupportedDeleteOpts opts) (\<lambda>_. bindR (conv (resolveGVK k)) (\<lambda>g.
           bindR (acquire env) (\<lambda>_. bindR (conv (parseResourceVersion o0)) (\<lambda>v.
           bindR (delete_content env k g o0 v rs) (\<lambda>c. Inr (g, c)))))) of
        Inl e \<Rightarrow> cfail e rs
      | Inr (g, expectedVersion, spec, status, metadata, existing) \<Rightarrow>
          (let st = Write pg_writer (ce_write env)
                      \<lparr>wGVK = gvkToString g, wNamespace = ko_Namespace o0, wName = ko_Name o0,
                       wSpec = RawDoc spec, wStatus = RawDoc status, wMetadata = RawDoc metadata,
                       wDeletionTimestamp = (case existing of None \<Rightarrow> Some (ce_now env) | Some t \<Rightarrow> Some t),
                       wExpectedVersion = expectedVersion, wForceWrite = False\<rparr> (ce_others env rs)
           in \<lparr>cs_result =
                 (case ws_result st of
                    Inl e \<Rightarrow> bindR (mapWriteError env (ws_rows st) e g (ko_Name o0)) (\<lambda>_. Inr o0)
                  | Inr _ \<Rightarrow> Inr o0),
               cs_rows = ws_rows st\<rparr>))"

definition status_Update :: "cenv \<Rightarrow> kind \<Rightarrow> string list \<Rightarrow> kobject \<Rightarrow> rows \<Rightarrow> cstep" where
  "status_Update env k dryRun o0 rs =
     (case bindR (rejectDryRun dryRun) (\<lambda>_. bindR (conv (resolveGVK k)) (\<lambda>g.
           bindR (conv (parseResourceVersion o0)) (\<lambda>v. bindR (acquire env) (\<lambda>_. Inr (g, v))))) of
        Inl e \<Rightarrow> cfail e rs
      | Inr (g, expectedVersion) \<Rightarrow>
          (let st = WriteStatus pg_writer (ce_write env)
                      \<lparr>sGVK = gvkToString g, sNamespace = ko_Namespace o0, sName = ko_Name o0,
                       sStatus = RawDoc (extractStatus k o0), sExpectedVersion = expectedVersion,
                       sForceWrite = False\<rparr> rs
           in \<lparr>cs_result =
                 (case ws_result st of
                    Inl e \<Rightarrow> after_failure env k g o0 (ws_rows st) e
                  | Inr res \<Rightarrow> Inr (o0\<lparr>ko_ResourceVersion := dec_of_int (resObjectVersion res)\<rparr>)),
               cs_rows = ws_rows st\<rparr>))"

text \<open>The methods a database cannot serve, and the sub-resource client: it holds a status writer for
  the sub-resource \<open>status\<close> and none for any other.\<close>

definition unsupported :: "string \<Rightarrow> rows \<Rightarrow> cstep" where
  "unsupported what rs = cfail (MethodNotSupported what) rs"

definition subresource_Update :: "string \<Rightarrow> cenv \<Rightarrow> kind \<Rightarrow> string list \<Rightarrow> kobject \<Rightarrow> rows \<Rightarrow> cstep" where
  "subresource_Update sub env k dryRun o0 rs =
     (if sub = ''status'' then status_Update env k dryRun o0 rs else unsupported ''subresource update'' rs)"

definition client_Apply :: "rows \<Rightarrow> cstep" where "client_Apply rs = unsupported ''apply'' rs"

definition client_Patch :: "rows \<Rightarrow> cstep" where "client_Patch rs = unsupported ''patch'' rs"

definition client_DeleteAllOf :: "rows \<Rightarrow> cstep" where "client_DeleteAllOf rs = unsupported ''deleteAllOf'' rs"

definition subresource_Get :: "rows \<Rightarrow> cstep" where "subresource_Get rs = unsupported ''subresource get'' rs"

definition subresource_Apply :: "string \<Rightarrow> rows \<Rightarrow> cstep" where
  "subresource_Apply sub rs = unsupported (if sub = ''status'' then ''status apply'' else ''subresource apply'') rs"

definition subresource_Create :: "string \<Rightarrow> rows \<Rightarrow> cstep" where
  "subresource_Create sub rs = unsupported (if sub = ''status'' then ''status create'' else ''subresource create'') rs"

definition subresource_Patch :: "string \<Rightarrow> rows \<Rightarrow> cstep" where
  "subresource_Patch sub rs = unsupported (if sub = ''status'' then ''status patch'' else ''subresource patch'') rs"

text \<open>\<open>IsObjectNamespaced\<close>: an object the REST mapper does not know counts as namespaced.\<close>

definition IsObjectNamespaced :: "(GVK \<Rightarrow> bool option) \<Rightarrow> kind \<Rightarrow> bool \<times> cerror option" where
  "IsObjectNamespaced restMapping k =
     (case resolveGVK k of
        Inl e \<Rightarrow> (True, Some (ConvertError e))
      | Inr g \<Rightarrow> (case restMapping g of None \<Rightarrow> (True, None) | Some namespaced \<Rightarrow> (namespaced, None)))"

section \<open>Listing\<close>

text \<open>A continue token is represented by what its bytes decode to.\<close>

datatype continue_token = NoToken | BadToken | TokenOffset int

definition decodeContinue :: "continue_token \<Rightarrow> cerror + int" where
  "decodeContinue t = (case t of NoToken \<Rightarrow> Inr 0 | BadToken \<Rightarrow> Inl BadContinue | TokenOffset n \<Rightarrow> Inr n)"

definition encodeContinue :: "int \<Rightarrow> continue_token" where
  "encodeContinue offset = TokenOffset offset"

record ListOptions =
  lo_Namespace :: string
  lo_FieldSelector :: "requirement list option"
  lo_LabelSelector :: "((string \<Rightarrow> string option) \<Rightarrow> bool) option"
  lo_Limit :: int
  lo_Continue :: continue_token

definition labelSet_Lookup :: "(string \<times> string) list \<Rightarrow> string \<Rightarrow> string option" where
  "labelSet_Lookup ls label = map_of ls label"

definition buildListFilter :: "ListOptions \<Rightarrow> cerror + ListFilter option" where
  "buildListFilter lo =
     (let ns = lo_Namespace lo;
          nsClauses = (if ns \<noteq> [] then [NamespaceIs 2] else []);
          nsArgs = (if ns \<noteq> [] then [ArgText ns] else []);
          paramIdx = (if ns \<noteq> [] then 3 else 2)
      in bindR (case lo_FieldSelector lo of
                  None \<Rightarrow> Inr ([], [])
                | Some [] \<Rightarrow> Inr ([], [])
                | Some reqs \<Rightarrow> map_sum SelectorError id (buildFieldSelectorFilter (Some reqs) paramIdx))
           (\<lambda>(clauses, args).
         bindR (if 0 < lo_Limit lo then map_sum id (Pair (lo_Limit lo)) (decodeContinue (lo_Continue lo)) else Inr (0, 0))
           (\<lambda>(limit, offset).
         let f = \<lparr>WhereClauses = nsClauses @ clauses, WhereArgs = nsArgs @ map ArgText args,
                  Limit = limit, Offset = offset\<rparr>
         in if limit = 0 \<and> WhereClauses f = [] then Inr None else Inr (Some f))))"

record klist =
  kl_items :: "kobject list"
  kl_ResourceVersion :: string
  kl_Continue :: continue_token

type_synonym scheme = "GVK \<Rightarrow> (kind \<times> kobject) option"

definition matches_labels :: "ListOptions \<Rightarrow> kobject \<Rightarrow> bool" where
  "matches_labels lo o1 \<longleftrightarrow>
     (case lo_LabelSelector lo of None \<Rightarrow> True | Some sel \<Rightarrow> sel (labelSet_Lookup (ko_Labels o1)))"

definition client_List ::
  "(string \<Rightarrow> int) \<Rightarrow> cenv \<Rightarrow> scheme \<Rightarrow> kind \<Rightarrow> items_field \<Rightarrow> ListOptions \<Rightarrow> snapshot \<Rightarrow> klist \<Rightarrow> cerror + klist"
where
  "client_List hashtext env scheme lk fld lo sn lst =
     bindR (conv (resolveGVK lk)) (\<lambda>lg. bindR (acquire env) (\<lambda>_. bindR (buildListFilter lo) (\<lambda>flt.
       case ce_read env of
         Some m \<Rightarrow> Inl (ConnError m)
       | None \<Rightarrow>
           (let result = reader_List hashtext sn (gvkToString (itemGVKFromListGVK lg)) flt
            in bindR (conv (mapR (resourceToObject scheme) (Resources result))) (\<lambda>objs.
               bindR (conv (setListItems fld (filter (matches_labels lo) objs))) (\<lambda>items.
                 Inr \<lparr>kl_items = items, kl_ResourceVersion = rv_String (lr_ResourceVersion result),
                      kl_Continue =
                        (if 0 < lo_Limit lo \<and> int (length (Resources result)) = lo_Limit lo
                         then encodeContinue (wrap64
                                ((case decodeContinue (lo_Continue lo) of Inl _ \<Rightarrow> 0 | Inr n \<Rightarrow> n) + lo_Limit lo))
                         else kl_Continue lst)\<rparr>))))))"

end
