(* ===== verification/PgClientProps.thy ===== *)
theory PgClientProps
  imports PgClient
begin

text \<open>
  What a controller may rely on when it talks to the database through the client: creation and
  reading back, optimistic concurrency and generations, deletion with finalizers, and paging.
\<close>

section \<open>Writes of the production writer\<close>

lemma production_pg_writer [simp]: "production pg_writer"
  by (simp add: pg_writer_def)

lemma conv_Inr [inversions]: "conv r = Inr x \<longleftrightarrow> r = Inr x"
  by (cases r) (simp_all add: conv_def)

lemma conv_Inr_simp [simp]: "conv (Inr x) = Inr x" "conv (Inl e) = Inl (ConvertError e)"
  by (simp_all add: conv_def)

lemma acquire_Inr [inversions]: "acquire env = Inr u \<longleftrightarrow> ce_acquire env = None"
  by (simp add: acquire_def split: option.splits)

lemma rejectDryRun_Inr [inversions]: "rejectDryRun d = Inr u \<longleftrightarrow> d = []"
  by (simp add: rejectDryRun_def)

lemma rejectDryRun_Nil [simp]: "rejectDryRun [] = Inr ()"
  by (simp add: rejectDryRun_def)

lemma extract_generation [simp]:
  "extractSpec k (o1\<lparr>ko_Generation := n\<rparr>) = extractSpec k o1"
  "extractStatus k (o1\<lparr>ko_Generation := n\<rparr>) = extractStatus k o1"
  by (simp_all add: extractSpec_def extractStatus_def)

text \<open>A successful create leaves a live row with the request's documents, whose UID and version
  are the reported ones; whether it was written now or was already there.\<close>

lemma create_ok:
  assumes "e_fault env = CallOk" "wExpectedVersion req = 0" "wDeletionTimestamp req = None"
    and "wSpec req = RawDoc s" "wStatus req = RawDoc t" "wMetadata req = RawDoc m"
    and "ws_result (Write pg_writer env req rs) = Inr res"
  obtains r where "pk_lookup (ws_rows (Write pg_writer env req rs)) (wGVK req, wNamespace req, wName req) = Some r"
    "rSpec r = s" "rStatus r = t" "rMetadata r = m" "rDeletionTimestamp r = None"
    "resUID res = rUID r" "resObjectVersion res = rObjectVersion r"
proof -
  let ?k = "(wGVK req, wNamespace req, wName req)"
  let ?new = "created_row env req s t m"
  have key: "row_key ?new = ?k" by (simp add: created_row_def row_key_def)
  have ok: "pk_lookup (put_row ?new rs) ?k = Some ?new" by (simp add: pk_lookup_put key)
  have W: "Write pg_writer env req rs = finish pg_writer (wGVK req) (callStoredProc pg_writer env (write_params req) rs)"
    by (simp add: production_ops)
  show thesis
  proof (cases "pk_lookup rs ?k")
    case None
    have "res = \<lparr>resTxid = e_txid env, resObjectVersion = 1, resUID = e_uuid env, resChanged = True\<rparr>
        \<and> ws_rows (Write pg_writer env req rs) = put_row ?new rs"
      using assms(1,7) create_run [OF assms(2-6), of env rs] None
      by (auto simp: W callStoredProc_def Let_def store_row_def created_row_def split: if_splits)
    then show thesis using ok by (intro that [of ?new]) (simp_all add: created_row_def)
  next
    case (Some old)
    show thesis
    proof (cases "\<not> wForceWrite req \<and> rSpec old = s \<and> rStatus old = t \<and> rMetadata old = m \<and> rDeletionTimestamp old = None")
      case True
      then have "resUID res = rUID old \<and> resObjectVersion res = rObjectVersion old
          \<and> ws_rows (Write pg_writer env req rs) = rs"
        using assms(1,7) create_run [OF assms(2-6), of env rs] Some
        by (auto simp: W callStoredProc_def Let_def split: if_splits)
      with True Some show thesis by (intro that [of old]) simp_all
    next
      case False
      then have "res = \<lparr>resTxid = e_txid env, resObjectVersion = 1, resUID = e_uuid env, resChanged = True\<rparr>
          \<and> ws_rows (Write pg_writer env req rs) = put_row ?new rs"
        using assms(1,7) create_run [OF assms(2-6), of env rs] Some
        by (auto simp: W callStoredProc_def Let_def store_row_def created_row_def split: if_splits)
      then show thesis using ok by (intro that [of ?new]) (simp_all add: created_row_def)
    qed
  qed
qed

text \<open>A successful versioned write of an object, with or without its status: the row afterwards,
  and that it is either the stored one, or its successor at the expected version.\<close>

lemma versioned_ok:
  assumes "callStoredProc w env p rs = (Inr res, rs', rings)" "\<not> wp_statusOnly p" "wp_expectedVersion p \<noteq> 0"
    and "wp_spec p = RawDoc s" "wp_metadata p = RawDoc m" "jsonb_arg (wp_status p) = Inr t"
  obtains old new where "pk_lookup rs (params_key p) = Some old" "pk_lookup rs' (params_key p) = Some new"
    "rSpec new = s" "rMetadata new = m" "rDeletionTimestamp new = wp_deletionTimestamp p"
    "rStatus new = (case t of None \<Rightarrow> rStatus old | Some d \<Rightarrow> d)" "rUID new = rUID old" "rCreatedAt new = rCreatedAt old"
    "resObjectVersion res = rObjectVersion new"
    "new = old \<or> rObjectVersion old = wp_expectedVersion p \<and> rObjectVersion new = wp_expectedVersion p + 1"
    "\<And>k. k \<noteq> params_key p \<Longrightarrow> pk_lookup rs' k = pk_lookup rs k"
proof (cases "resChanged res")
  case True
  obtain a out where a: "proc_args p = Inr a"
    and up: "pg_upsert (e_txid env) (e_now env) (e_uuid env) a rs = Inr (out, rs')"
    and res: "res = \<lparr>resTxid = out_txid out, resObjectVersion = out_version out, resUID = out_uid out, resChanged = True\<rparr>"
    using assms(1) True by (rule callStoredProc_changed)
  note pa = proc_args_Inr [OF a]
  have st: "\<not> p_status_only a" "p_expected_version a \<noteq> 0" using pa assms by auto
  obtain r where out: "rs' = put_row r rs" "row_key r = args_key a" "out_version out = rObjectVersion r"
    using up by (elim pg_upsert_row) auto
  from up st show thesis
  proof (rule upsert_object)
    fix old :: Resource and s' m'
    let ?new = "old\<lparr>rTxidStamp := e_txid env, rObjectVersion := p_expected_version a + 1, rSpec := s',
                 rStatus := (case p_status a of None \<Rightarrow> rStatus old | Some d \<Rightarrow> d),
                 rMetadata := m', rDeletionTimestamp := p_deletion_ts a, rUpdatedAt := e_now env\<rparr>"
    assume old: "pk_lookup rs (args_key a) = Some old" "rObjectVersion old = p_expected_version a"
      and docs: "p_spec a = Some s'" "p_metadata a = Some m'"
      and new: "pk_lookup rs' (args_key a) = Some ?new"
    have ver: "out_version out = p_expected_version a + 1"
      using out new by (simp add: pk_lookup_put)
    have eq: "s' = s" "m' = m" "p_status a = t" "p_expected_version a = wp_expectedVersion p"
      "p_deletion_ts a = wp_deletionTimestamp p"
      using pa docs assms by (auto simp: inversions)
    show thesis
      by (rule that [of old ?new])
        (use old new ver eq pa(1) res upsert_lookup [OF up] in simp_all)
  qed
next
  case False
  obtain a r where a: "proc_args p = Inr a" and "pg_suppressed a rs = Some r" "rs' = rs"
    "resObjectVersion res = rObjectVersion r"
    using assms(1) False by (rule callStoredProc_unchanged)
  then have "pk_lookup rs (params_key p) = Some r" "content_equal a r"
    using proc_args_Inr(1) [OF a] by (auto simp: pg_suppressed_def split: if_splits option.splits)
  with proc_args_Inr [OF a] assms \<open>rs' = rs\<close> \<open>resObjectVersion res = rObjectVersion r\<close> show thesis
    by (intro that [of r r]) (auto simp: content_equal_def inversions split: option.splits)
qed

text \<open>A versioned write against another version, that is not suppressed, is a conflict.\<close>

lemma stale_call:
  assumes "e_fault env = CallOk" "proc_args p = Inr a" "wp_expectedVersion p \<noteq> 0"
    and "pk_lookup rs (params_key p) = Some r" "rObjectVersion r \<noteq> wp_expectedVersion p" "\<not> content_equal a r"
  shows "callStoredProc w env p rs = (Inl ErrConflict, rs, [])"
proof -
  note pa = proc_args_Inr [OF assms(2)]
  have "pg_upsert txid now uid a rs = Inl ''P0002''" for txid now uid
    by (rule stale_upsert) (use assms pa in simp_all)
  moreover have "pg_suppressed a rs = None" using assms pa by (simp add: pg_suppressed_def)
  ultimately show ?thesis
    using assms by (simp add: callStoredProc_def run_proc_def pgctl_write_def mapStoredProcError_def)
qed

section \<open>Create, then Get\<close>

text \<open>What the client relies on of \<open>encoding/json\<close> and the Go type of an object: decoding the encoded
  fields into a target gives the fields back, and a target whose fields encode as the empty
  object is what an empty document stands for.\<close>

definition json_ok :: "kind \<Rightarrow> kobject \<Rightarrow> kobject \<Rightarrow> bool" where
  "json_ok k zero o1 \<longleftrightarrow>
     (kd_has_spec k \<longrightarrow> (if ko_Spec o1 = empty_obj then ko_Spec zero = empty_obj
                        else kd_unmarshal_spec k (ko_Spec zero) (ko_Spec o1) = Some (ko_Spec o1)))
   \<and> (kd_has_status k \<longrightarrow> (if ko_Status o1 = empty_obj then ko_Status zero = empty_obj
                        else kd_unmarshal_status k (ko_Status zero) (ko_Status o1) = Some (ko_Status o1)))"

text \<open>Two objects with the same content as far as a caller writes it.\<close>

definition same_content :: "kind \<Rightarrow> kobject \<Rightarrow> kobject \<Rightarrow> bool" where
  "same_content k o1 o2 \<longleftrightarrow>
     sm_of o2 = sm_of o1
   \<and> (kd_has_spec k \<longrightarrow> ko_Spec o2 = ko_Spec o1) \<and> (kd_has_status k \<longrightarrow> ko_Status o2 = ko_Status o1)"

lemma populateObject_content:
  assumes "rMetadata r = extractMetadata o1" "in64 (ko_Generation o1)"
    and "rSpec r = extractSpec k o1" "rStatus r = extractStatus k o1" "json_ok k dst o1"
  obtains o2 where "populateObject k dst r g = Inr o2" "same_content k o1 o2"
    "ko_Name o2 = rName r" "ko_Namespace o2 = rNamespace r" "ko_UID o2 = uidFromUUID (rUID r)"
    "ko_ResourceVersion o2 = dec_of_int (rObjectVersion r)" "ko_GVK o2 = Some g"
    "ko_CreationTimestamp o2 = rCreatedAt r"
    "ko_DeletionTimestamp o2 = (case rDeletionTimestamp r of None \<Rightarrow> ko_DeletionTimestamp dst | Some d \<Rightarrow> Some d)"
proof -
  have md: "unmarshal_sm (rMetadata r) = Some (sm_of o1)" using assms(1,2) by (simp add: extract_roundtrip)
  have meta: "ko_Spec (populateObjectMeta dst r) = ko_Spec dst" "ko_Status (populateObjectMeta dst r) = ko_Status dst"
    by (simp_all add: populateObjectMeta_def md)
  define b where "b = (populateObjectMeta dst r)\<lparr>ko_GVK := Some g\<rparr>"
  define o2 where "o2 = b\<lparr>ko_Spec := (if kd_has_spec k then ko_Spec o1 else ko_Spec dst),
      ko_Status := (if kd_has_status k then ko_Status o1 else ko_Status dst)\<rparr>"
  have b: "ko_Spec b = ko_Spec dst" "ko_Status b = ko_Status dst" by (simp_all add: b_def meta)
  have "populateObject k dst r g = Inr o2"
    using assms(3-5) b
    by (cases b) (auto simp: populateObject_def b_def [symmetric] injectSpecStatus_def json_ok_def o2_def
        extractSpec_def extractStatus_def split: if_splits)
  then show thesis
    by (rule that) (simp_all add: o2_def b_def populateObjectMeta_def md same_content_def sm_of_def)
qed

lemma Get_live:
  assumes "resolveGVK k = Inr g" "ce_acquire env = None" "ce_read env = None"
    and "pk_lookup rs (gvkToString g, ns, name) = Some r" "\<not> isFullyDeleted r"
  shows "client_Get env k rs ns name dst = conv (populateObject k dst r g)"
  using assms by (simp add: client_Get_def acquire_def)

lemma Get_gone:
  assumes "resolveGVK k = Inr g" "ce_acquire env = None" "ce_read env = None"
    and "pk_lookup rs (gvkToString g, ns, name) = Some r" "isFullyDeleted r"
  shows "client_Get env k rs ns name dst = Inl (NotFound (groupResource g) name)"
  using assms by (simp add: client_Get_def acquire_def mapGetError_def)

lemma no_ambiguity:
  assumes "e_fault env = CallOk"
  shows "fst (callStoredProc w env p rs) \<noteq> Inl (AmbiguousCommitError x n m t)"
  using assms by (auto simp: callStoredProc_def Let_def mapStoredProcError_def split: sum.splits if_splits)

lemma after_failure_Inr:
  assumes "after_failure env k g o1 rs e = Inr o2"
  obtains x n m t where "e = AmbiguousCommitError x n m t"
  using assms by (auto simp: after_failure_def mapWriteError_def inversions split: werror.splits)

lemma Create_success:
  assumes "e_fault (ce_write env) = CallOk" "cs_result (client_Create env k [] o0 rs) = Inr o1"
  obtains g r where "resolveGVK k = Inr g"
    "pk_lookup (cs_rows (client_Create env k [] o0 rs)) (gvkToString g, ko_Namespace o0, ko_Name o0) = Some r"
    "rSpec r = extractSpec k o0" "rStatus r = extractStatus k o0"
    "rMetadata r = extractMetadata (o0\<lparr>ko_Generation := 1\<rparr>)" "rDeletionTimestamp r = None"
    "ko_UID o1 = uidFromUUID (rUID r)" "ko_ResourceVersion o1 = dec_of_int (rObjectVersion r)"
proof -
  obtain g where g: "resolveGVK k = Inr g" "ce_acquire env = None"
    and nm: "\<not> (ko_Name o0 = [] \<and> ko_GenerateName o0 \<noteq> [])"
    using assms(2)
    by (auto simp: client_Create_def extractSpecStatus_eq cfail_def inversions split: sum.splits if_splits)
  let ?o = "o0\<lparr>ko_Generation := 1\<rparr>"
  define req where "req = \<lparr>wGVK = gvkToString g, wNamespace = ko_Namespace o0, wName = ko_Name o0,
     wSpec = RawDoc (extractSpec k ?o), wStatus = RawDoc (extractStatus k ?o),
     wMetadata = RawDoc (extractMetadata ?o), wDeletionTimestamp = None, wExpectedVersion = 0, wForceWrite = False\<rparr>"
  let ?st = "Write pg_writer (ce_write env) req rs"
  have C: "client_Create env k [] o0 rs =
     \<lparr>cs_result = (case ws_result ?st of
          Inl e \<Rightarrow> after_failure env k g ?o (ws_rows ?st) e
        | Inr res \<Rightarrow> Inr (?o\<lparr>ko_UID := uidFromUUID (resUID res),
              ko_ResourceVersion := dec_of_int (resObjectVersion res),
              ko_CreationTimestamp := ce_now env, ko_GVK := Some g\<rparr>)), cs_rows = ws_rows ?st\<rparr>"
    unfolding req_def using g nm by (auto simp: client_Create_def acquire_def extractSpecStatus_eq Let_def split: sum.splits)
  obtain res where res: "ws_result ?st = Inr res" and o1: "ko_UID o1 = uidFromUUID (resUID res)"
      "ko_ResourceVersion o1 = dec_of_int (resObjectVersion res)"
    using assms(2) no_ambiguity [OF assms(1)]
    by (auto simp: C production_ops elim: after_failure_Inr split: sum.splits)
  show thesis
    by (rule create_ok [of "ce_write env" req "extractSpec k ?o" "extractStatus k ?o" "extractMetadata ?o" rs res])
      (use assms(1) res o1 g(1) C in
        \<open>auto simp: req_def intro: that\<close>)
qed

text \<open>
  C29 (roundtrip). An object that \<open>Create\<close> accepted reads back: a \<open>Get\<close> of its key returns the
  labels, annotations, owner references, finalizers, spec and status that were given, generation
  1, no deletion timestamp, and the UID and resource version that \<open>Create\<close> reported.
\<close>

theorem Create_then_Get:
  assumes "e_fault (ce_write env) = CallOk" "cs_result (client_Create env k [] o0 rs) = Inr o1"
    and "ce_acquire env' = None" "ce_read env' = None"
    and "json_ok k zero o0" "ko_DeletionTimestamp zero = None"
  shows "\<exists>o2. client_Get env' k (cs_rows (client_Create env k [] o0 rs)) (ko_Namespace o0) (ko_Name o0) zero = Inr o2
    \<and> same_content k (o0\<lparr>ko_Generation := 1\<rparr>) o2 \<and> ko_Name o2 = ko_Name o0 \<and> ko_Namespace o2 = ko_Namespace o0
    \<and> ko_UID o2 = ko_UID o1 \<and> ko_ResourceVersion o2 = ko_ResourceVersion o1 \<and> ko_DeletionTimestamp o2 = None"
proof -
  let ?o = "o0\<lparr>ko_Generation := 1\<rparr>"
  obtain g r where g: "resolveGVK k = Inr g"
    and r: "pk_lookup (cs_rows (client_Create env k [] o0 rs)) (gvkToString g, ko_Namespace o0, ko_Name o0) = Some r"
      "rMetadata r = extractMetadata ?o" "rDeletionTimestamp r = None"
      "ko_UID o1 = uidFromUUID (rUID r)" "ko_ResourceVersion o1 = dec_of_int (rObjectVersion r)"
    and docs: "rSpec r = extractSpec k ?o" "rStatus r = extractStatus k ?o"
    using Create_success [OF assms(1,2)] by (metis extract_generation)
  have ok: "json_ok k zero ?o" "in64 (ko_Generation ?o)" using assms(5) by (simp_all add: json_ok_def in64_def)
  obtain o2 where o2: "populateObject k zero r g = Inr o2" "same_content k ?o o2"
    "ko_Name o2 = rName r" "ko_Namespace o2 = rNamespace r" "ko_UID o2 = uidFromUUID (rUID r)"
    "ko_ResourceVersion o2 = dec_of_int (rObjectVersion r)" "ko_DeletionTimestamp o2 = None"
    using populateObject_content [OF r(2) ok(2) docs ok(1), of g] r(3) assms(6) by auto
  have "\<not> isFullyDeleted r" using r(3) by (simp add: isFullyDeleted_def)
  then have "client_Get env' k (cs_rows (client_Create env k [] o0 rs)) (ko_Namespace o0) (ko_Name o0) zero = Inr o2"
    using Get_live [OF g assms(3,4) r(1)] o2(1) by simp
  with o2 r pk_lookup_Some [OF r(1)] show ?thesis by (auto simp: row_key_def)
qed

definition ex_gvk :: GVK where
  "ex_gvk = \<lparr>gk_Group = ''hyperfleet.io'', gk_Version = ''v1alpha1'', gk_Kind = ''Cluster''\<rparr>"

definition ex_kind :: kind where
  "ex_kind = \<lparr>kd_gvks = Inr [ex_gvk], kd_has_spec = True, kd_has_status = True,
     kd_unmarshal_spec = (\<lambda>_ d. Some d), kd_unmarshal_status = (\<lambda>_ d. Some d)\<rparr>"

definition ex_zero :: kobject where
  "ex_zero = ex_obj\<lparr>ko_Name := [], ko_Namespace := [], ko_Generation := 0, ko_Labels := [], ko_Finalizers := [],
     ko_Spec := empty_obj\<rparr>"

definition ex_cenv :: cenv where
  "ex_cenv = \<lparr>ce_acquire = None, ce_read = None, ce_others = id, ce_write = ok_env 8 20 [9],
     ce_readback = None, ce_now = 20\<rparr>"

theorem Create_then_Get_witness:
  "\<exists>o2. client_Get ex_cenv ex_kind (cs_rows (client_Create ex_cenv ex_kind [] ex_obj [])) ''n'' ''c1'' ex_zero = Inr o2
     \<and> ko_Generation o2 = 1 \<and> ko_Finalizers o2 = [''hyperfleet.io/cleanup'']"
proof -
  obtain o1 where c: "cs_result (client_Create ex_cenv ex_kind [] ex_obj []) = Inr o1"
  proof -
    have "isl (cs_result (client_Create ex_cenv ex_kind [] ex_obj [])) = False" by code_simp
    then show thesis using that by (cases "cs_result (client_Create ex_cenv ex_kind [] ex_obj [])") auto
  qed
  have "json_ok ex_kind ex_zero ex_obj" by (simp add: json_ok_def ex_kind_def ex_zero_def ex_obj_def)
  then show ?thesis
    using Create_then_Get [OF _ c, of ex_cenv ex_zero]
    by (fastforce simp: ex_cenv_def ok_env_def ex_obj_def ex_zero_def same_content_def sm_of_def)
qed

section \<open>Update\<close>

lemma readCurrentResource_Inr [inversions]:
  "readCurrentResource env rs g ns n = Inr cur \<longleftrightarrow> ce_read env = None \<and>
     cur = (case pk_lookup rs (g, ns, n) of None \<Rightarrow> None | Some r \<Rightarrow> if listed r then Some r else None)"
  by (auto simp: readCurrentResource_def split: option.splits)

text \<open>The object that \<open>Update\<close> writes, given the row it read: a changed spec counts the stored
  generation up, an unchanged one keeps the caller's.\<close>

definition update_object :: "kind \<Rightarrow> Resource \<Rightarrow> kobject \<Rightarrow> kobject" where
  "update_object k cur o0 =
     (if \<not> JSONEqual (RawDoc (rSpec cur)) (RawDoc (extractSpec k o0))
      then o0\<lparr>ko_Generation := wrap64 (currentGeneration (rMetadata cur) + 1)\<rparr> else o0)"

definition update_request :: "GVK \<Rightarrow> kind \<Rightarrow> int \<Rightarrow> Resource \<Rightarrow> kobject \<Rightarrow> ObjectWriteRequest" where
  "update_request g k v cur o0 =
     \<lparr>oGVK = gvkToString g, oNamespace = ko_Namespace o0, oName = ko_Name o0,
      oSpec = RawDoc (extractSpec k o0), oMetadata = RawDoc (extractMetadata (update_object k cur o0)),
      oDeletionTimestamp = rDeletionTimestamp cur, oExpectedVersion = v, oForceWrite = False\<rparr>"

lemma Update_eq:
  assumes "resolveGVK k = Inr g" "parseResourceVersion o0 = Inr v" "ce_acquire env = None" "ce_read env = None"
    and "pk_lookup rs (gvkToString g, ko_Namespace o0, ko_Name o0) = Some cur" "listed cur"
    and "st = WriteObject pg_writer (ce_write env) (update_request g k v cur o0) (ce_others env rs)"
  shows "client_Update env k [] o0 rs =
     \<lparr>cs_result = (case ws_result st of
          Inl e \<Rightarrow> after_failure env k g (update_object k cur o0) (ws_rows st) e
        | Inr res \<Rightarrow> Inr ((update_object k cur o0)\<lparr>ko_ResourceVersion := dec_of_int (resObjectVersion res)\<rparr>)),
      cs_rows = ws_rows st\<rparr>"
  using assms(1-6) unfolding assms(7) update_request_def update_object_def
  by (simp add: client_Update_def acquire_def readCurrentResource_def Let_def split: sum.splits)

lemma Update_reads:
  assumes "cs_result (client_Update env k [] o0 rs) = Inr o1"
  obtains g v cur where "resolveGVK k = Inr g" "parseResourceVersion o0 = Inr v" "ce_acquire env = None" "ce_read env = None"
    "pk_lookup rs (gvkToString g, ko_Namespace o0, ko_Name o0) = Some cur" "listed cur"
  using assms
  by (auto simp: client_Update_def cfail_def inversions split: sum.splits option.splits if_splits)

lemma update_object_fields [simp]:
  "ko_Finalizers (update_object k cur o0) = ko_Finalizers o0" "ko_Name (update_object k cur o0) = ko_Name o0"
  by (simp_all add: update_object_def)

lemma tombstone_extract: "is_tombstone r \<longleftrightarrow> rDeletionTimestamp r \<noteq> None \<and> ko_Finalizers o1 = []"
  if "rMetadata r = extractMetadata o1"
  using no_finalizers_marshal [of "sm_of o1"] that
  by (auto simp: is_tombstone_def extractMetadata_def sm_of_def)

text \<open>The writer call behind a successful \<open>Update\<close>.\<close>

lemma Update_writes:
  assumes "e_fault (ce_write env) = CallOk" "cs_result (client_Update env k [] o0 rs) = Inr o1"
  obtains g v cur res rings where "resolveGVK k = Inr g" "parseResourceVersion o0 = Inr v" "v \<noteq> 0"
    "pk_lookup rs (gvkToString g, ko_Namespace o0, ko_Name o0) = Some cur" "listed cur"
    "callStoredProc pg_writer (ce_write env) (object_params (update_request g k v cur o0)) (ce_others env rs)
       = (Inr res, cs_rows (client_Update env k [] o0 rs), rings)"
    "o1 = (update_object k cur o0)\<lparr>ko_ResourceVersion := dec_of_int (resObjectVersion res)\<rparr>"
proof -
  obtain g v cur where pre: "resolveGVK k = Inr g" "parseResourceVersion o0 = Inr v" "ce_acquire env = None" "ce_read env = None"
    "pk_lookup rs (gvkToString g, ko_Namespace o0, ko_Name o0) = Some cur" "listed cur"
    using assms(2) by (rule Update_reads)
  let ?req = "update_request g k v cur o0"
  let ?st = "WriteObject pg_writer (ce_write env) ?req (ce_others env rs)"
  note U = Update_eq [OF pre refl]
  have ver: "oExpectedVersion ?req = v" by (simp add: update_request_def)
  have v: "v \<noteq> 0"
    using assms(2) by (auto simp: U WriteObject_def rejected_def ver elim: after_failure_Inr)
  then have W: "?st = finish pg_writer (oGVK ?req)
      (callStoredProc pg_writer (ce_write env) (object_params ?req) (ce_others env rs))"
    by (simp add: production_ops ver)
  have "\<forall>x n m t. ws_result ?st \<noteq> Inl (AmbiguousCommitError x n m t)"
    unfolding W using no_ambiguity [OF assms(1)] by simp
  then obtain res where res: "ws_result ?st = Inr res"
    using assms(2) by (cases "ws_result ?st") (auto simp: U elim: after_failure_Inr)
  obtain r rs' rings where c: "callStoredProc pg_writer (ce_write env) (object_params ?req) (ce_others env rs) = (r, rs', rings)"
    by (metis prod_cases3)
  have "r = Inr res" "ws_rows ?st = rs'" using res unfolding W c by simp_all
  with c have "callStoredProc pg_writer (ce_write env) (object_params ?req) (ce_others env rs)
      = (Inr res, cs_rows (client_Update env k [] o0 rs), rings)" by (simp add: U)
  moreover have "o1 = (update_object k cur o0)\<lparr>ko_ResourceVersion := dec_of_int (resObjectVersion res)\<rparr>"
    using assms(2) res by (simp add: U)
  ultimately show thesis using pre(1,2,5,6) v by (intro that)
qed

text \<open>
  C28 (functional, generations and finalizers). Whatever other clients commit between the read
  and the write of an \<open>Update\<close>, a successful one leaves the object's row with the caller's spec
  and metadata and the status, UID and creation time it had; its generation is the stored one
  plus one exactly when the spec differs from the row that was read. The row was at the version
  the caller presented and is now at the next one, unless it had exactly this content already.
  The reported resource version is the row's, no other row changed, and a dying object is fully
  deleted by the update exactly when the caller removed its last finalizer.
\<close>

theorem Update_effect:
  assumes "e_fault (ce_write env) = CallOk" "cs_result (client_Update env k [] o0 rs) = Inr o1"
  shows "\<exists>g v cur old new.
      resolveGVK k = Inr g \<and> parseResourceVersion o0 = Inr v
    \<and> pk_lookup rs (gvkToString g, ko_Namespace o0, ko_Name o0) = Some cur \<and> \<not> is_tombstone cur
    \<and> pk_lookup (ce_others env rs) (gvkToString g, ko_Namespace o0, ko_Name o0) = Some old
    \<and> pk_lookup (cs_rows (client_Update env k [] o0 rs)) (gvkToString g, ko_Namespace o0, ko_Name o0) = Some new
    \<and> rSpec new = extractSpec k o0 \<and> rMetadata new = extractMetadata o1
    \<and> ko_Generation o1 = (if JSONEqual (RawDoc (rSpec cur)) (RawDoc (extractSpec k o0)) then ko_Generation o0
                          else wrap64 (currentGeneration (rMetadata cur) + 1))
    \<and> rStatus new = rStatus old \<and> rUID new = rUID old \<and> rCreatedAt new = rCreatedAt old
    \<and> (new = old \<or> rObjectVersion old = v \<and> rObjectVersion new = v + 1)
    \<and> ko_ResourceVersion o1 = dec_of_int (rObjectVersion new)
    \<and> (is_tombstone new \<longleftrightarrow> rDeletionTimestamp cur \<noteq> None \<and> ko_Finalizers o0 = [])
    \<and> (\<forall>key. key \<noteq> (gvkToString g, ko_Namespace o0, ko_Name o0) \<longrightarrow>
         pk_lookup (cs_rows (client_Update env k [] o0 rs)) key = pk_lookup (ce_others env rs) key)"
proof -
  let ?rs' = "cs_rows (client_Update env k [] o0 rs)"
  obtain g v cur res rings where pre: "resolveGVK k = Inr g" "parseResourceVersion o0 = Inr v" "v \<noteq> 0"
    "pk_lookup rs (gvkToString g, ko_Namespace o0, ko_Name o0) = Some cur" "listed cur"
    and call: "callStoredProc pg_writer (ce_write env) (object_params (update_request g k v cur o0)) (ce_others env rs)
       = (Inr res, ?rs', rings)"
    and o1: "o1 = (update_object k cur o0)\<lparr>ko_ResourceVersion := dec_of_int (resObjectVersion res)\<rparr>"
    using assms by (rule Update_writes)
  let ?o = "update_object k cur o0"
  have md: "extractMetadata o1 = extractMetadata ?o" by (simp add: o1 extractMetadata_def sm_of_def)
  obtain old new where on:
    "pk_lookup (ce_others env rs) (gvkToString g, ko_Namespace o0, ko_Name o0) = Some old"
    "pk_lookup ?rs' (gvkToString g, ko_Namespace o0, ko_Name o0) = Some new"
    "rSpec new = extractSpec k o0" "rMetadata new = extractMetadata ?o" "rDeletionTimestamp new = rDeletionTimestamp cur"
    "rStatus new = rStatus old" "rUID new = rUID old" "rCreatedAt new = rCreatedAt old"
    "resObjectVersion res = rObjectVersion new" "new = old \<or> rObjectVersion old = v \<and> rObjectVersion new = v + 1"
    "\<And>key. key \<noteq> (gvkToString g, ko_Namespace o0, ko_Name o0) \<Longrightarrow> pk_lookup ?rs' key = pk_lookup (ce_others env rs) key"
    by (rule versioned_ok [OF call, where t = None and s = "extractSpec k o0" and m = "extractMetadata ?o"])
      (use pre in \<open>simp_all add: object_params_def update_request_def jsonb_arg_def\<close>)
  have gen: "ko_Generation o1 = (if JSONEqual (RawDoc (rSpec cur)) (RawDoc (extractSpec k o0)) then ko_Generation o0
      else wrap64 (currentGeneration (rMetadata cur) + 1))"
    by (simp add: o1 update_object_def)
  have tomb: "is_tombstone new \<longleftrightarrow> rDeletionTimestamp cur \<noteq> None \<and> ko_Finalizers o0 = []"
    using tombstone_extract [OF on(4)] on(5) by simp
  show ?thesis
    by (intro exI [of _ g] exI [of _ v] exI [of _ cur] exI [of _ old] exI [of _ new] conjI allI impI)
      (use pre on md gen tomb listed_iff in \<open>simp_all add: o1\<close>)
qed

definition ex_update :: kobject where
  "ex_update = ex_obj\<lparr>ko_ResourceVersion := ''1'', ko_Finalizers := [], ko_Spec := JObj [(''internalId'', JStr ''zz'')]\<rparr>"

definition ex_dying :: Resource where
  "ex_dying = ex_row\<lparr>rMetadata := extractMetadata ex_obj, rDeletionTimestamp := Some 15\<rparr>"

theorem Update_effect_witness:
  "\<exists>o1 new. cs_result (client_Update ex_cenv ex_kind [] ex_update [ex_dying]) = Inr o1 \<and> is_tombstone new
     \<and> pk_lookup (cs_rows (client_Update ex_cenv ex_kind [] ex_update [ex_dying]))
          (gvkToString ex_gvk, ''n'', ''c1'') = Some new \<and> ko_ResourceVersion o1 = dec_of_int (rObjectVersion new)"
proof -
  obtain o1 where c: "cs_result (client_Update ex_cenv ex_kind [] ex_update [ex_dying]) = Inr o1"
  proof -
    have "isl (cs_result (client_Update ex_cenv ex_kind [] ex_update [ex_dying])) = False" by code_simp
    then show thesis using that by (cases "cs_result (client_Update ex_cenv ex_kind [] ex_update [ex_dying])") auto
  qed
  have key: "ko_Namespace ex_update = ''n''" "ko_Name ex_update = ''c1''" "ko_Finalizers ex_update = []"
    "resolveGVK ex_kind = Inr ex_gvk" "e_fault (ce_write ex_cenv) = CallOk"
    by (simp_all add: ex_update_def ex_obj_def ex_kind_def resolveGVK_def ex_cenv_def ok_env_def)
  have cur: "pk_lookup [ex_dying] (gvkToString ex_gvk, ''n'', ''c1'') = Some ex_dying" by code_simp
  have "rDeletionTimestamp ex_dying \<noteq> None" by (simp add: ex_dying_def)
  then show ?thesis using Update_effect [OF key(5) c] c unfolding key by (auto simp: cur)
qed

text \<open>
  A write that presents a version other than the row's at the time
  of the write, and would change the stored spec (\<open>Update\<close>) or status (\<open>Status().Update\<close>), is
  answered with a conflict and changes nothing, also when the row changed only after the read
  inside the call.
\<close>

theorem stale_writes_conflict:
  assumes "e_fault (ce_write env) = CallOk" "ce_acquire env = None" "ce_read env = None"
    and "resolveGVK k = Inr g" "parseResourceVersion o0 = Inr v" "v \<noteq> 0"
    and "pk_lookup rs (gvkToString g, ko_Namespace o0, ko_Name o0) = Some cur" "\<not> is_tombstone cur"
    and "pk_lookup (ce_others env rs) (gvkToString g, ko_Namespace o0, ko_Name o0) = Some r" "rObjectVersion r \<noteq> v"
  shows "(rSpec r \<noteq> extractSpec k o0 \<longrightarrow>
           client_Update env k [] o0 rs = cfail (Conflict (groupResource g) (ko_Name o0)) (ce_others env rs))
    \<and> (rStatus r \<noteq> extractStatus k o0 \<longrightarrow>
           status_Update env k [] o0 (ce_others env rs) = cfail (Conflict (groupResource g) (ko_Name o0)) (ce_others env rs))"
proof (intro conjI impI)
  let ?rs = "ce_others env rs"
  assume ne: "rSpec r \<noteq> extractSpec k o0"
  define req where "req = update_request g k v cur o0"
  obtain a where a: "proc_args (object_params req) = Inr a" "p_spec a = Some (extractSpec k o0)" "\<not> p_status_only a"
    by (simp add: proc_args_def object_params_def req_def update_request_def jsonb_arg_def)
  have "callStoredProc pg_writer (ce_write env) (object_params req) ?rs = (Inl ErrConflict, ?rs, [])"
    by (rule stale_call [OF assms(1) a(1), where r = r])
      (use assms a ne in \<open>auto simp: object_params_def req_def update_request_def content_equal_def\<close>)
  moreover have "oExpectedVersion req \<noteq> 0" using assms(6) by (simp add: req_def update_request_def)
  ultimately have "ws_result (WriteObject pg_writer (ce_write env) req ?rs) = Inl ErrConflict"
      "ws_rows (WriteObject pg_writer (ce_write env) req ?rs) = ?rs"
    by (simp_all add: production_ops)
  moreover have "listed cur" using assms(8) by (simp add: listed_iff)
  ultimately show "client_Update env k [] o0 rs = cfail (Conflict (groupResource g) (ko_Name o0)) ?rs"
    using Update_eq [OF assms(4,5,2,3,7) _ refl]
    by (simp add: req_def after_failure_def mapWriteError_def cfail_def)
next
  let ?rs = "ce_others env rs"
  assume ne: "rStatus r \<noteq> extractStatus k o0"
  define req where "req = \<lparr>sGVK = gvkToString g, sNamespace = ko_Namespace o0, sName = ko_Name o0,
     sStatus = RawDoc (extractStatus k o0), sExpectedVersion = v, sForceWrite = False\<rparr>"
  obtain a where a: "proc_args (status_params req) = Inr a" "p_status a = Some (extractStatus k o0)" "p_status_only a"
    by (simp add: proc_args_def status_params_def req_def jsonb_arg_def)
  have "callStoredProc pg_writer (ce_write env) (status_params req) ?rs = (Inl ErrConflict, ?rs, [])"
    by (rule stale_call [OF assms(1) a(1), where r = r])
      (use assms a ne in \<open>auto simp: status_params_def req_def content_equal_def\<close>)
  moreover have "sExpectedVersion req \<noteq> 0" using assms(6) by (simp add: req_def)
  ultimately have "ws_result (WriteStatus pg_writer (ce_write env) req ?rs) = Inl ErrConflict"
      "ws_rows (WriteStatus pg_writer (ce_write env) req ?rs) = ?rs"
    by (simp_all add: production_ops)
  then show "status_Update env k [] o0 ?rs = cfail (Conflict (groupResource g) (ko_Name o0)) ?rs"
    using assms(2,4,5)
    by (simp add: status_Update_def acquire_def req_def [symmetric] after_failure_def mapWriteError_def cfail_def)
qed

theorem stale_writes_conflict_witness:
  "client_Update (ex_cenv\<lparr>ce_others := map (\<lambda>r. r\<lparr>rObjectVersion := 2\<rparr>)\<rparr>) ex_kind [] ex_update [ex_dying] =
     cfail (Conflict (groupResource ex_gvk) ''c1'') [ex_dying\<lparr>rObjectVersion := 2\<rparr>]"
proof -
  have l: "pk_lookup [ex_dying] (gvkToString ex_gvk, ko_Namespace ex_update, ko_Name ex_update) = Some ex_dying"
    "pk_lookup [ex_dying\<lparr>rObjectVersion := 2\<rparr>] (gvkToString ex_gvk, ko_Namespace ex_update, ko_Name ex_update)
       = Some (ex_dying\<lparr>rObjectVersion := 2\<rparr>)"
    by code_simp+
  have t: "\<not> is_tombstone ex_dying" by code_simp
  have v: "parseResourceVersion ex_update = Inr 1" by code_simp
  have ne: "rSpec ex_dying \<noteq> extractSpec ex_kind ex_update" by code_simp
  have g: "resolveGVK ex_kind = Inr ex_gvk" by (simp add: ex_kind_def resolveGVK_def)
  have n: "ko_Name ex_update = ''c1''" by (simp add: ex_update_def ex_obj_def)
  show ?thesis
    using stale_writes_conflict [OF _ _ _ g v _ l(1) t, where r = "ex_dying\<lparr>rObjectVersion := 2\<rparr>"
        and env = "ex_cenv\<lparr>ce_others := map (\<lambda>r. r\<lparr>rObjectVersion := 2\<rparr>)\<rparr>"] l(2) ne
    by (simp add: ex_cenv_def ok_env_def n)
qed

section \<open>Delete\<close>

definition plain_delete :: DeleteOptions where
  "plain_delete = \<lparr>do_DryRun = [], do_PropagationPolicy = None, do_Preconditions = None, do_GracePeriodSeconds = None\<rparr>"

definition delete_request :: "GVK \<Rightarrow> kobject \<Rightarrow> int \<Rightarrow> json \<Rightarrow> json \<Rightarrow> json \<Rightarrow> int \<Rightarrow> WriteRequest" where
  "delete_request g o0 v spec status metadata t =
     \<lparr>wGVK = gvkToString g, wNamespace = ko_Namespace o0, wName = ko_Name o0, wSpec = RawDoc spec,
      wStatus = RawDoc status, wMetadata = RawDoc metadata, wDeletionTimestamp = Some t,
      wExpectedVersion = v, wForceWrite = False\<rparr>"

lemma Delete_success:
  assumes "e_fault (ce_write env) = CallOk" "cs_result (client_Delete env k plain_delete o0 rs) = Inr o1"
  obtains g v w spec status metadata existing res rings where "resolveGVK k = Inr g" "parseResourceVersion o0 = Inr v"
    "delete_content env k g o0 v rs = Inr (w, spec, status, metadata, existing)"
    "callStoredProc pg_writer (ce_write env)
       (write_params (delete_request g o0 w spec status metadata (case existing of None \<Rightarrow> ce_now env | Some t \<Rightarrow> t)))
       (ce_others env rs) = (Inr res, cs_rows (client_Delete env k plain_delete o0 rs), rings)"
proof -
  have opts: "rejectUnsupportedDeleteOpts plain_delete = Inr ()"
    by (simp add: rejectUnsupportedDeleteOpts_def plain_delete_def)
  obtain g v c where pre: "resolveGVK k = Inr g" "parseResourceVersion o0 = Inr v" "ce_acquire env = None"
    and c: "delete_content env k g o0 v rs = Inr c"
    using assms(2) by (auto simp: client_Delete_def opts cfail_def inversions split: sum.splits)
  obtain w spec status metadata existing where dc: "c = (w, spec, status, metadata, existing)"
    by (metis prod_cases5)
  define req where "req = delete_request g o0 w spec status metadata (case existing of None \<Rightarrow> ce_now env | Some t \<Rightarrow> t)"
  have W: "\<lparr>wGVK = gvkToString g, wNamespace = ko_Namespace o0, wName = ko_Name o0, wSpec = RawDoc spec,
      wStatus = RawDoc status, wMetadata = RawDoc metadata,
      wDeletionTimestamp = (case existing of None \<Rightarrow> Some (ce_now env) | Some t \<Rightarrow> Some t),
      wExpectedVersion = w, wForceWrite = False\<rparr> = req"
    by (simp add: req_def delete_request_def split: option.splits)
  let ?st = "Write pg_writer (ce_write env) req (ce_others env rs)"
  have D: "client_Delete env k plain_delete o0 rs =
     \<lparr>cs_result = (case ws_result ?st of
          Inl e \<Rightarrow> bindR (mapWriteError env (ws_rows ?st) e g (ko_Name o0)) (\<lambda>_. Inr o0)
        | Inr _ \<Rightarrow> Inr o0), cs_rows = ws_rows ?st\<rparr>"
    using pre c by (simp add: client_Delete_def opts acquire_def dc W Let_def split: sum.splits)
  obtain r rs' rings where call: "callStoredProc pg_writer (ce_write env) (write_params req) (ce_others env rs) = (r, rs', rings)"
    by (metis prod_cases3)
  then have st: "ws_result ?st = r" "ws_rows ?st = rs'" by (simp_all add: production_ops)
  obtain res where "r = Inr res"
    using assms(2) no_ambiguity [OF assms(1), of pg_writer "write_params req" "ce_others env rs"] call
    by (auto simp: D st mapWriteError_def inversions split: sum.splits werror.splits)
  then show thesis
    by (intro that [OF pre(1,2) c [unfolded dc], of res rings]) (use call in \<open>simp add: req_def [symmetric] D st\<close>)
qed

lemma Get_after:
  assumes "resolveGVK k = Inr g" "ce_acquire env = None" "ce_read env = None"
    and "pk_lookup rs (gvkToString g, ns, name) = Some r"
  shows "client_Get env k rs ns name dst = Inl (NotFound (groupResource g) name) \<longleftrightarrow> isFullyDeleted r"
proof (cases "isFullyDeleted r")
  case False
  have "conv (populateObject k dst r g) \<noteq> Inl (NotFound (groupResource g) name)"
    by (cases "populateObject k dst r g") simp_all
  with False Get_live [OF assms False, of dst] show ?thesis by simp
qed (simp add: Get_gone [OF assms])

text \<open>
  A successful \<open>Delete\<close> of an object without a resource version marks
  the row that was read: its spec, status and metadata stay, the deletion timestamp is the
  clock's, or the earlier one if the object was already dying. Afterwards a \<open>Get\<close> says "not
  found" exactly when no finalizer holds the object; with finalizers it is still readable.
\<close>

theorem Delete_effect:
  assumes "e_fault (ce_write env) = CallOk" "table_inv rs" "ko_ResourceVersion o0 = []"
    and "cs_result (client_Delete env k plain_delete o0 rs) = Inr o1"
  shows "\<exists>g cur new. resolveGVK k = Inr g
    \<and> pk_lookup rs (gvkToString g, ko_Namespace o0, ko_Name o0) = Some cur \<and> \<not> is_tombstone cur
    \<and> pk_lookup (cs_rows (client_Delete env k plain_delete o0 rs)) (gvkToString g, ko_Namespace o0, ko_Name o0) = Some new
    \<and> rSpec new = rSpec cur \<and> rStatus new = rStatus cur \<and> rMetadata new = rMetadata cur
    \<and> rDeletionTimestamp new = Some (case rDeletionTimestamp cur of None \<Rightarrow> ce_now env | Some t \<Rightarrow> t)
    \<and> (\<forall>env' dst. ce_acquire env' = None \<and> ce_read env' = None \<longrightarrow>
         (client_Get env' k (cs_rows (client_Delete env k plain_delete o0 rs)) (ko_Namespace o0) (ko_Name o0) dst
            = Inl (NotFound (groupResource g) (ko_Name o0)) \<longleftrightarrow> \<not> hasFinalizers cur))"
proof -
  let ?rs' = "cs_rows (client_Delete env k plain_delete o0 rs)"
  obtain g v w sp st md ex res rings where g: "resolveGVK k = Inr g" and v: "parseResourceVersion o0 = Inr v"
    and c: "delete_content env k g o0 v rs = Inr (w, sp, st, md, ex)"
    and call: "callStoredProc pg_writer (ce_write env)
       (write_params (delete_request g o0 w sp st md (case ex of None \<Rightarrow> ce_now env | Some t \<Rightarrow> t)))
       (ce_others env rs) = (Inr res, ?rs', rings)"
    using assms(1,4) by (rule Delete_success)
  have "v = 0" using v assms(3) by (simp add: parseResourceVersion_def)
  then obtain cur where cur: "pk_lookup rs (gvkToString g, ko_Namespace o0, ko_Name o0) = Some cur" "listed cur"
    and eq: "w = rObjectVersion cur" "sp = rSpec cur" "st = rStatus cur" "md = rMetadata cur" "ex = rDeletionTimestamp cur"
    using c by (auto simp: delete_content_def inversions split: option.splits if_splits)
  have pos: "w \<noteq> 0"
    using assms(2) pk_lookup_Some [OF cur(1)] eq by (auto simp: table_inv_def list_all_iff)
  obtain new where new: "pk_lookup ?rs' (gvkToString g, ko_Namespace o0, ko_Name o0) = Some new"
    "rSpec new = sp" "rMetadata new = md" "rStatus new = st"
    "rDeletionTimestamp new = Some (case ex of None \<Rightarrow> ce_now env | Some t \<Rightarrow> t)"
    by (rule versioned_ok [OF call, where t = "Some st" and s = sp and m = md])
      (use pos in \<open>simp_all add: write_params_def delete_request_def jsonb_arg_def\<close>)
  have "isFullyDeleted new \<longleftrightarrow> \<not> hasFinalizers cur"
    using new eq by (simp add: isFullyDeleted_def hasFinalizers_def)
  with Get_after [OF g _ _ new(1)] cur new eq g listed_iff show ?thesis by auto
qed

theorem Delete_effect_witness:
  "\<exists>new. pk_lookup (cs_rows (client_Delete ex_cenv ex_kind plain_delete (ex_obj\<lparr>ko_Finalizers := []\<rparr>) [ex_row]))
      (gvkToString ex_gvk, ''n'', ''c1'') = Some new \<and> rDeletionTimestamp new = Some 20"
proof -
  let ?o = "ex_obj\<lparr>ko_Finalizers := []\<rparr>"
  obtain o1 where c: "cs_result (client_Delete ex_cenv ex_kind plain_delete ?o [ex_row]) = Inr o1"
  proof -
    have "isl (cs_result (client_Delete ex_cenv ex_kind plain_delete ?o [ex_row])) = False" by code_simp
    then show thesis using that by (cases "cs_result (client_Delete ex_cenv ex_kind plain_delete ?o [ex_row])") auto
  qed
  have "table_inv [ex_row]" by code_simp
  moreover have key: "ko_Namespace ?o = ''n''" "ko_Name ?o = ''c1''" "ko_ResourceVersion ?o = []"
    "resolveGVK ex_kind = Inr ex_gvk" "e_fault (ce_write ex_cenv) = CallOk" "ce_now ex_cenv = 20"
    by (simp_all add: ex_obj_def ex_kind_def resolveGVK_def ex_cenv_def ok_env_def)
  moreover have cur: "pk_lookup [ex_row] (gvkToString ex_gvk, ''n'', ''c1'') = Some ex_row" by code_simp
  moreover have "rDeletionTimestamp ex_row = None" by (simp add: ex_row_def)
  ultimately show ?thesis
    using Delete_effect [OF key(5) _ key(3) c] unfolding key by (auto simp: cur)
qed

text \<open>A \<open>Delete\<close> of an object that carries a resource version does not read the row: it writes the
  caller's spec, status and metadata, and sets the deletion timestamp to now also where the object
  was already dying.\<close>

lemma Delete_with_version:
  assumes "e_fault (ce_write env) = CallOk" "parseResourceVersion o0 = Inr v" "v \<noteq> 0"
    and "cs_result (client_Delete env k plain_delete o0 rs) = Inr o1"
  shows "\<exists>g new. resolveGVK k = Inr g
    \<and> pk_lookup (cs_rows (client_Delete env k plain_delete o0 rs)) (gvkToString g, ko_Namespace o0, ko_Name o0) = Some new
    \<and> rSpec new = extractSpec k o0 \<and> rStatus new = extractStatus k o0 \<and> rMetadata new = extractMetadata o0
    \<and> rDeletionTimestamp new = Some (ce_now env)"
proof -
  let ?rs' = "cs_rows (client_Delete env k plain_delete o0 rs)"
  obtain g v' w sp st md ex res rings where g: "resolveGVK k = Inr g" and v: "parseResourceVersion o0 = Inr v'"
    and c: "delete_content env k g o0 v' rs = Inr (w, sp, st, md, ex)"
    and call: "callStoredProc pg_writer (ce_write env)
       (write_params (delete_request g o0 w sp st md (case ex of None \<Rightarrow> ce_now env | Some t \<Rightarrow> t)))
       (ce_others env rs) = (Inr res, ?rs', rings)"
    using assms(1,4) by (rule Delete_success)
  have eq: "w = v" "sp = extractSpec k o0" "st = extractStatus k o0" "md = extractMetadata o0" "ex = None"
    using c v assms(2,3) by (auto simp: delete_content_def extractSpecStatus_eq)
  show ?thesis
    by (rule versioned_ok [OF call, where t = "Some st" and s = sp and m = md])
      (use assms(3) g eq in \<open>simp_all add: write_params_def delete_request_def jsonb_arg_def\<close>)
qed

end
