(* ===== verification/PgClientList.thy ===== *)
theory PgClientList
  imports PgClientProps
begin

text \<open>
  Paging through a list with \<open>Limit\<close> and \<open>Continue\<close>: over one state of the table the pages are
  the whole list, in order, and the walk ends.
\<close>

definition flt_clauses :: "ListFilter option \<Rightarrow> clause list" where
  "flt_clauses flt = (case flt of None \<Rightarrow> [] | Some f \<Rightarrow> WhereClauses f)"

definition flt_args :: "ListFilter option \<Rightarrow> sql_arg list" where
  "flt_args flt = (case flt of None \<Rightarrow> [] | Some f \<Rightarrow> WhereArgs f)"

lemma buildListFilter_unlimited: "buildListFilter (lo\<lparr>lo_Limit := 0\<rparr>) = Inr (Some f) \<Longrightarrow> Limit f = 0"
  by (auto simp: buildListFilter_def Let_def inversions split: if_splits)

lemma buildListFilter_limit:
  assumes "buildListFilter (lo\<lparr>lo_Limit := 0\<rparr>) = Inr flt" "0 < lo_Limit lo" "decodeContinue (lo_Continue lo) = Inr off"
  shows "buildListFilter lo =
      Inr (Some \<lparr>WhereClauses = flt_clauses flt, WhereArgs = flt_args flt, Limit = lo_Limit lo, Offset = off\<rparr>)"
proof -
  define sel where "sel n = (case lo_FieldSelector lo of
       None \<Rightarrow> Inr ([], [])
     | Some [] \<Rightarrow> Inr ([], [])
     | Some reqs \<Rightarrow> map_sum SelectorError id (buildFieldSelectorFilter (Some reqs) n))" for n
  have nil: "as = []" if "sel n = Inr ([], as)" for n as
    using that
    by (auto simp: inversions sel_def buildFieldSelectorFilter_def map_sum_def split: option.splits list.splits sum.splits)
  have B: "buildListFilter l = bindR (sel (if lo_Namespace lo \<noteq> [] then 3 else 2)) (\<lambda>(clauses, args).
         bindR (if 0 < lo_Limit l then map_sum id (Pair (lo_Limit l)) (decodeContinue (lo_Continue l)) else Inr (0, 0))
           (\<lambda>(limit, offset).
         let f = \<lparr>WhereClauses = (if lo_Namespace lo \<noteq> [] then [NamespaceIs 2] else []) @ clauses,
                  WhereArgs = (if lo_Namespace lo \<noteq> [] then [ArgText (lo_Namespace lo)] else []) @ map ArgText args,
                  Limit = limit, Offset = offset\<rparr>
         in if limit = 0 \<and> WhereClauses f = [] then Inr None else Inr (Some f)))"
    if "lo_Namespace l = lo_Namespace lo" "lo_FieldSelector l = lo_FieldSelector lo" for l
    unfolding buildListFilter_def sel_def Let_def that ..
  obtain cs as where s: "sel (if lo_Namespace lo \<noteq> [] then 3 else 2) = Inr (cs, as)"
    using assms(1) by (auto simp: B inversions)
  note nil' = nil [of "if lo_Namespace lo \<noteq> [] then 3 else 2" as]
  show "buildListFilter lo =
      Inr (Some \<lparr>WhereClauses = flt_clauses flt, WhereArgs = flt_args flt, Limit = lo_Limit lo, Offset = off\<rparr>)"
    using assms s nil' by (auto simp: B Let_def flt_clauses_def flt_args_def split: if_splits)
qed

lemma reader_List_page:
  assumes "0 < n" "\<And>f. flt = Some f \<Longrightarrow> Limit f = 0"
  shows "Resources (reader_List h sn g
      (Some \<lparr>WhereClauses = flt_clauses flt, WhereArgs = flt_args flt, Limit = n, Offset = int off\<rparr>))
    = take (nat n) (drop off (Resources (reader_List h sn g flt)))"
  using assms
  by (cases flt) (auto simp: reader_List_def Let_def page_def list_args_def flt_clauses_def flt_args_def)

lemma mapR_take_drop: "mapR f xs = Inr ys \<Longrightarrow> mapR f (take n (drop m xs)) = Inr (take n (drop m ys))"
  unfolding mapR_Inr_iff by (intro list_all2_takeI list_all2_dropI)

lemma mapR_length: "mapR f xs = Inr ys \<Longrightarrow> length ys = length xs"
  by (simp add: mapR_Inr_iff list_all2_lengthD)

lemma setListItems_Inr [inversions]:
  "setListItems fld items = Inr ys \<longleftrightarrow>
     (\<exists>elem. fld = Some elem \<and> list_all (\<lambda>o1. case ko_GVK o1 of None \<Rightarrow> False | Some g \<Rightarrow> elem g) items \<and> ys = items)"
  by (auto simp: setListItems_def split: option.splits)

text \<open>The list object a caller starts each call with.\<close>

definition empty_list :: klist where
  "empty_list = \<lparr>kl_items = [], kl_ResourceVersion = [], kl_Continue = NoToken\<rparr>"

text \<open>One page, in terms of the unlimited list.\<close>

lemma List_page:
  assumes all: "client_List h env scheme lk fld (lo\<lparr>lo_Limit := 0\<rparr>) sn empty_list = Inr l0"
    and lim: "0 < lo_Limit lo" and len: "in64 (int (length (sn_rows sn)) + lo_Limit lo)"
  obtains objs where "kl_items l0 = filter (matches_labels lo) objs" "length objs \<le> length (sn_rows sn)"
    "\<And>tok off. decodeContinue tok = Inr (int off) \<Longrightarrow> off \<le> length objs \<Longrightarrow>
       \<exists>rv. client_List h env scheme lk fld (lo\<lparr>lo_Continue := tok\<rparr>) sn empty_list =
         Inr \<lparr>kl_items = filter (matches_labels lo) (take (nat (lo_Limit lo)) (drop off objs)),
              kl_ResourceVersion = rv,
              kl_Continue = (if off + nat (lo_Limit lo) \<le> length objs
                             then TokenOffset (int off + lo_Limit lo) else NoToken)\<rparr>"
proof -
  have ml: "matches_labels (lo\<lparr>lo_Limit := 0\<rparr>) = matches_labels lo"
    "matches_labels (lo\<lparr>lo_Continue := tok\<rparr>) = matches_labels lo" for tok
    by (simp_all add: matches_labels_def fun_eq_iff)
  obtain lg flt objs elem where pre: "resolveGVK lk = Inr lg" "ce_acquire env = None" "ce_read env = None"
    and flt: "buildListFilter (lo\<lparr>lo_Limit := 0\<rparr>) = Inr flt"
    and objs: "mapR (resourceToObject scheme)
      (Resources (reader_List h sn (gvkToString (itemGVKFromListGVK lg)) flt)) = Inr objs"
    and fld: "fld = Some elem"
      "list_all (\<lambda>o1. case ko_GVK o1 of None \<Rightarrow> False | Some g \<Rightarrow> elem g) (filter (matches_labels lo) objs)"
    and l0: "kl_items l0 = filter (matches_labels lo) objs"
    using all by (auto simp: client_List_def inversions ml Let_def split: option.splits)
  have sub: "setListItems fld (filter (matches_labels lo) (take n (drop m objs))) =
      Inr (filter (matches_labels lo) (take n (drop m objs)))" for n m
    using fld by (auto simp: setListItems_def list_all_iff dest!: in_set_takeD in_set_dropD)
  have L0: "Limit f = 0" if "flt = Some f" for f
    using flt that by (auto intro: buildListFilter_unlimited)
  have bound: "length objs \<le> length (sn_rows sn)"
    using mapR_length [OF objs] L0
    by (cases flt) (auto simp: reader_List_def Let_def page_def intro: order_trans [OF length_filter_le])
  show thesis
  proof (rule that [OF l0 bound])
    fix tok off assume tok: "decodeContinue tok = Inr (int off)" and off: "off \<le> length objs"
    let ?lo = "lo\<lparr>lo_Continue := tok\<rparr>"
    have f: "buildListFilter ?lo = Inr (Some \<lparr>WhereClauses = flt_clauses flt, WhereArgs = flt_args flt,
        Limit = lo_Limit lo, Offset = int off\<rparr>)"
      using buildListFilter_limit(1) [of ?lo flt "int off"] flt lim tok by (simp add: buildListFilter_def)
    note page = mapR_take_drop [OF objs, of "nat (lo_Limit lo)" off]
    have wrap: "wrap64 (int off + lo_Limit lo) = int off + lo_Limit lo"
      using len off bound lim by (intro wrap64_id) (simp add: in64_def)
    show "\<exists>rv. client_List h env scheme lk fld ?lo sn empty_list =
         Inr \<lparr>kl_items = filter (matches_labels lo) (take (nat (lo_Limit lo)) (drop off objs)),
              kl_ResourceVersion = rv,
              kl_Continue = (if off + nat (lo_Limit lo) \<le> length objs
                             then TokenOffset (int off + lo_Limit lo) else NoToken)\<rparr>"
      using pre f page sub lim off mapR_length [OF objs] tok
      by (auto simp: client_List_def acquire_def reader_List_page [OF lim L0] ml Let_def empty_list_def
          encodeContinue_def wrap)
  qed
qed

text \<open>The loop of a caller that follows the tokens; \<open>None\<close> when \<open>n\<close> calls were not enough.\<close>

fun list_walk :: "nat \<Rightarrow> (ListOptions \<Rightarrow> cerror + klist) \<Rightarrow> ListOptions \<Rightarrow> (cerror + kobject list) option" where
  "list_walk 0 f lo = None"
| "list_walk (Suc n) f lo =
     (case f lo of
        Inl e \<Rightarrow> Some (Inl e)
      | Inr l \<Rightarrow>
          if kl_Continue l = NoToken then Some (Inr (kl_items l))
          else map_option (map_sum id (append (kl_items l))) (list_walk n f (lo\<lparr>lo_Continue := kl_Continue l\<rparr>)))"

text \<open>
  C30 (functional, termination). A caller that pages through a list with a positive limit, over one
  state of the table, sees exactly the objects of the unlimited list, in order and none twice,
  and the walk ends: one call more than there are rows is enough.
\<close>

theorem pages_are_the_list:
  assumes all: "client_List h env scheme lk fld (lo\<lparr>lo_Limit := 0\<rparr>) sn empty_list = Inr l0"
    and lim: "0 < lo_Limit lo" and len: "in64 (int (length (sn_rows sn)) + lo_Limit lo)"
    and n: "length (sn_rows sn) < n"
  shows "list_walk n (\<lambda>lo. client_List h env scheme lk fld lo sn empty_list) (lo\<lparr>lo_Continue := NoToken\<rparr>)
     = Some (Inr (kl_items l0))"
proof -
  let ?f = "\<lambda>lo. client_List h env scheme lk fld lo sn empty_list"
  obtain objs where l0: "kl_items l0 = filter (matches_labels lo) objs" and bound: "length objs \<le> length (sn_rows sn)"
    and page: "\<And>tok off. decodeContinue tok = Inr (int off) \<Longrightarrow> off \<le> length objs \<Longrightarrow>
       \<exists>rv. ?f (lo\<lparr>lo_Continue := tok\<rparr>) =
         Inr \<lparr>kl_items = filter (matches_labels lo) (take (nat (lo_Limit lo)) (drop off objs)),
              kl_ResourceVersion = rv,
              kl_Continue = (if off + nat (lo_Limit lo) \<le> length objs
                             then TokenOffset (int off + lo_Limit lo) else NoToken)\<rparr>"
    using List_page [OF all lim len] by blast
  have walk: "list_walk n ?f (lo\<lparr>lo_Continue := tok\<rparr>) = Some (Inr (filter (matches_labels lo) (drop off objs)))"
    if "decodeContinue tok = Inr (int off)" "off \<le> length objs" "length objs - off < n" for n tok off
    using that
  proof (induction n arbitrary: tok off)
    case 0
    then show ?case by simp
  next
    case (Suc n)
    obtain rv where p: "?f (lo\<lparr>lo_Continue := tok\<rparr>) =
         Inr \<lparr>kl_items = filter (matches_labels lo) (take (nat (lo_Limit lo)) (drop off objs)), kl_ResourceVersion = rv,
              kl_Continue = (if off + nat (lo_Limit lo) \<le> length objs
                             then TokenOffset (int off + lo_Limit lo) else NoToken)\<rparr>"
      using page [OF Suc.prems(1,2)] by blast
    show ?case
    proof (cases "off + nat (lo_Limit lo) \<le> length objs")
      case True
      have tok: "decodeContinue (TokenOffset (int off + lo_Limit lo)) = Inr (int (off + nat (lo_Limit lo)))"
        using lim by (simp add: decodeContinue_def)
      have "filter (matches_labels lo) (take m (drop off objs)) @ filter (matches_labels lo) (drop (off + m) objs)
          = filter (matches_labels lo) (drop off objs)" for m
        by (metis append_take_drop_id drop_drop add.commute filter_append)
      with True p Suc.IH [OF tok True] Suc.prems lim show ?thesis by simp
    next
      case False
      with p show ?thesis by simp
    qed
  qed
  show ?thesis using walk [of NoToken 0 n] n bound l0 by (simp add: decodeContinue_def)
qed

definition ex_scheme :: scheme where
  "ex_scheme g = (if g = ex_gvk then Some (ex_kind, ex_zero) else None)"

definition ex_list_kind :: kind where
  "ex_list_kind = ex_kind\<lparr>kd_gvks := Inr [ex_gvk\<lparr>gk_Kind := ''ClusterList''\<rparr>]\<rparr>"

definition ex_lo :: ListOptions where
  "ex_lo = \<lparr>lo_Namespace = [], lo_FieldSelector = None, lo_LabelSelector = None, lo_Limit = 1, lo_Continue = NoToken\<rparr>"

definition ex_snapshot :: snapshot where
  "ex_snapshot = \<lparr>sn_rows = [ex_row, ex_row\<lparr>rName := ''c2'', rTxidStamp := 6\<rparr>], sn_horizon = (\<lambda>_. None), sn_xmin = 9\<rparr>"

definition ex_names :: "cerror + klist \<Rightarrow> string list" where
  "ex_names r = (case r of Inl _ \<Rightarrow> [] | Inr l \<Rightarrow> map ko_Name (kl_items l))"

theorem pages_are_the_list_witness:
  "\<exists>xs. list_walk 3 (\<lambda>lo. client_List (\<lambda>_. 0) ex_cenv ex_scheme ex_list_kind (Some (\<lambda>g. g = ex_gvk)) lo ex_snapshot empty_list) ex_lo
     = Some (Inr xs) \<and> map ko_Name xs = [''c1'', ''c2'']"
proof -
  let ?all = "client_List (\<lambda>_. 0) ex_cenv ex_scheme ex_list_kind (Some (\<lambda>g. g = ex_gvk)) (ex_lo\<lparr>lo_Limit := 0\<rparr>) ex_snapshot empty_list"
  have names: "ex_names ?all = [''c1'', ''c2'']" by code_simp
  then obtain l0 where l0: "?all = Inr l0" by (cases ?all) (simp_all add: ex_names_def)
  have lo: "ex_lo\<lparr>lo_Continue := NoToken\<rparr> = ex_lo" by (simp add: ex_lo_def)
  show ?thesis
    using pages_are_the_list [OF l0, of 3] names l0
    by (simp add: lo ex_names_def) (simp add: ex_lo_def ex_snapshot_def in64_def)
qed

end
