(* ===== verification/Watcher.thy ===== *)
theory Watcher
  imports Compaction "HOL-Library.Multiset"
begin

text \<open>
  \<open>hyperfleet-db/internal/reader/watcher.go\<close>: one poll cycle over a snapshot, the loop that
  schedules polls from the doorbell and the baseline timer, and the listen loop with its
  backoff. Times and durations are in nanoseconds.
\<close>

section \<open>Polling\<close>

record WatcherConfig =
  wc_GVK :: string
  wc_StartRV :: RV
  BaselineInterval :: int
  DebounceFloor :: int
  wc_Shard :: "ShardSpec option"
  ListenConnFactory :: bool

datatype poll_error = ErrGone u64 int | PollFailed string

definition millisecond :: int where "millisecond = 1000000"

text \<open>The defaults that \<open>NewWatcher\<close> fills in.\<close>

definition watcher_defaults :: "WatcherConfig \<Rightarrow> WatcherConfig" where
  "watcher_defaults cfg =
     (let cfg1 = (if BaselineInterval cfg = 0 then cfg\<lparr>BaselineInterval := 5 * second\<rparr> else cfg)
      in if DebounceFloor cfg1 = 0 then cfg1\<lparr>DebounceFloor := 100 * millisecond\<rparr> else cfg1)"

definition event_type :: "Resource \<Rightarrow> EventType" where
  "event_type r = (if rDeletionTimestamp r \<noteq> None then EventDeleted
                   else if rObjectVersion r = 1 then EventAdded else EventModified)"

definition poll_query :: "WatcherConfig \<Rightarrow> u64 \<Rightarrow> clause list \<times> sql_arg list" where
  "poll_query cfg hwm =
     (let args = [ArgText (wc_GVK cfg), ArgU64 hwm]
      in case wc_Shard cfg of None \<Rightarrow> ([], args) | Some s \<Rightarrow> AppendQuery s [] args)"

definition pollAll :: "(string \<Rightarrow> int) \<Rightarrow> WatcherConfig \<Rightarrow> snapshot \<Rightarrow> u64 \<Rightarrow> poll_error + (Event list \<times> u64)"
where
  "pollAll hashtext cfg sn hwm =
     (let compactedXid = sn_horizon sn (wc_GVK cfg); xmin = sn_xmin sn
      in if compactedXid \<noteq> None \<and> hwm < word_of_int (the compactedXid)
         then Inl (ErrGone hwm (the compactedXid))
         else
           let (clauses, args) = poll_query cfg hwm;
               sel = [r \<leftarrow> sn_rows sn. rGVK r = wc_GVK cfg \<and> hwm < rTxidStamp r
                        \<and> list_all (clause_holds hashtext args r) clauses];
               events = map (\<lambda>r. \<lparr>ev_Type = event_type r, ev_Resource = r\<rparr>) (sort_key rTxidStamp sel)
           in Inr (events, if 0 < xmin \<and> hwm < xmin - 1 then xmin - 1 else hwm))"

text \<open>\<open>poll\<close> sends the events in order. A shutdown stops the sending after \<open>k\<close> events
  (\<open>stop = Some k\<close>) and reports no delivery. The result is the number of events reported, the
  events sent and the new high-water mark.\<close>

definition poll ::
  "(string \<Rightarrow> int) \<Rightarrow> WatcherConfig \<Rightarrow> nat option \<Rightarrow> snapshot \<Rightarrow> u64 \<Rightarrow> poll_error + (nat \<times> Event list \<times> u64)"
where
  "poll hashtext cfg stop sn hwm =
     bindR (pollAll hashtext cfg sn hwm) (\<lambda>(events, hwm').
       case stop of
         Some k \<Rightarrow> if k < length events then Inr (0, take k events, hwm')
                   else Inr (length events, events, hwm')
       | None \<Rightarrow> Inr (length events, events, hwm'))"

text \<open>The rows a watcher is responsible for.\<close>

definition watches :: "(string \<Rightarrow> int) \<Rightarrow> WatcherConfig \<Rightarrow> Resource \<Rightarrow> bool" where
  "watches hashtext cfg r \<longleftrightarrow> rGVK r = wc_GVK cfg \<and>
     (case wc_Shard cfg of None \<Rightarrow> True | Some s \<Rightarrow> owns hashtext s (rNamespace r))"

lemma poll_query_holds:
  "list_all (clause_holds h (snd (poll_query cfg hwm)) r) (fst (poll_query cfg hwm)) \<longleftrightarrow>
     (case wc_Shard cfg of None \<Rightarrow> True | Some s \<Rightarrow> owns h s (rNamespace r))"
  by (cases "wc_Shard cfg")
    (auto simp: poll_query_def AppendQuery_def shardClause_def param_def owns_def)

lemma pollAll_Inr:
  assumes "pollAll h cfg sn hwm = Inr (events, hwm')"
  shows "ev_Resource ` set events = {r \<in> set (sn_rows sn). watches h cfg r \<and> hwm < rTxidStamp r}"
    and "\<And>x. sn_horizon sn (wc_GVK cfg) = Some x \<Longrightarrow> word_of_int x \<le> hwm"
    and "hwm' = (if 0 < sn_xmin sn \<and> hwm < sn_xmin sn - 1 then sn_xmin sn - 1 else hwm)"
    and "sorted (map (rTxidStamp \<circ> ev_Resource) events)"
    and "\<And>ev. ev \<in> set events \<Longrightarrow> ev_Type ev = event_type (ev_Resource ev)"
proof -
  let ?sel = "[r \<leftarrow> sn_rows sn. rGVK r = wc_GVK cfg \<and> hwm < rTxidStamp r
     \<and> list_all (clause_holds h (snd (poll_query cfg hwm)) r) (fst (poll_query cfg hwm))]"
  have ok: "\<not> (sn_horizon sn (wc_GVK cfg) \<noteq> None \<and> hwm < word_of_int (the (sn_horizon sn (wc_GVK cfg))))"
    using assms by (auto simp: pollAll_def Let_def split: if_splits)
  then show "\<And>x. sn_horizon sn (wc_GVK cfg) = Some x \<Longrightarrow> word_of_int x \<le> hwm" by auto
  have ev: "events = map (\<lambda>r. \<lparr>ev_Type = event_type r, ev_Resource = r\<rparr>) (sort_key rTxidStamp ?sel)"
    and "hwm' = (if 0 < sn_xmin sn \<and> hwm < sn_xmin sn - 1 then sn_xmin sn - 1 else hwm)"
    using assms ok by (simp_all only: pollAll_def Let_def case_prod_beta if_False sum.inject prod.inject)
  then show "hwm' = (if 0 < sn_xmin sn \<and> hwm < sn_xmin sn - 1 then sn_xmin sn - 1 else hwm)" by simp
  show "ev_Resource ` set events = {r \<in> set (sn_rows sn). watches h cfg r \<and> hwm < rTxidStamp r}"
    by (auto simp: ev poll_query_holds watches_def image_image)
  have "map (rTxidStamp \<circ> ev_Resource) events = map rTxidStamp (sort_key rTxidStamp ?sel)"
    by (simp add: ev comp_def)
  then show "sorted (map (rTxidStamp \<circ> ev_Resource) events)" by simp
  show "\<And>ev. ev \<in> set events \<Longrightarrow> ev_Type ev = event_type (ev_Resource ev)" by (auto simp: ev)
qed

lemma word_less_pred: "hwm < xmin - 1 \<Longrightarrow> 0 < xmin \<Longrightarrow> hwm < (xmin :: u64)"
  using safe_watermark_less [of xmin] by (auto simp: safe_watermark_def)

lemma word_le_pred: "0 < xmin \<Longrightarrow> r < xmin \<Longrightarrow> r \<le> (xmin - 1 :: u64)"
  by (cases "xmin = 0") (simp_all add: word_less_nat_alt word_le_nat_alt unat_minus_one)

lemma pollAll_eq:
  "pollAll h cfg sn hwm =
     (if \<exists>x. sn_horizon sn (wc_GVK cfg) = Some x \<and> hwm < word_of_int x
      then Inl (ErrGone hwm (the (sn_horizon sn (wc_GVK cfg))))
      else Inr (map (\<lambda>r. \<lparr>ev_Type = event_type r, ev_Resource = r\<rparr>)
                  (sort_key rTxidStamp [r \<leftarrow> sn_rows sn. watches h cfg r \<and> hwm < rTxidStamp r]),
                max hwm (safe_watermark (sn_xmin sn))))"
proof -
  have sel: "[r \<leftarrow> sn_rows sn. rGVK r = wc_GVK cfg \<and> hwm < rTxidStamp r
       \<and> list_all (clause_holds h (snd (poll_query cfg hwm)) r) (fst (poll_query cfg hwm))]
     = [r \<leftarrow> sn_rows sn. watches h cfg r \<and> hwm < rTxidStamp r]"
    by (auto simp: poll_query_holds watches_def intro!: filter_cong)
  have mark: "(if 0 < x \<and> hwm < x - 1 then x - 1 else hwm) = max hwm (safe_watermark x)" for x
    by (auto simp: safe_watermark_def max_def not_less)
  show ?thesis
    by (auto simp: pollAll_def Let_def case_prod_beta sel mark)
qed

text \<open>
  A poll either reports \<open>Gone\<close>, exactly when the compaction horizon of its
  GVK is above its high-water mark, or delivers in transaction order exactly the rows of its
  GVK and shard stamped above the mark, and the mark never moves backwards and, when it moves,
  stays below the oldest running transaction.
\<close>

theorem pollAll_spec:
  "case pollAll h cfg sn hwm of
     Inl e \<Rightarrow> \<exists>x. e = ErrGone hwm x \<and> sn_horizon sn (wc_GVK cfg) = Some x \<and> hwm < word_of_int x
   | Inr (events, hwm') \<Rightarrow>
       (\<nexists>x. sn_horizon sn (wc_GVK cfg) = Some x \<and> hwm < word_of_int x)
     \<and> mset (map ev_Resource events) =
         mset [r \<leftarrow> sn_rows sn. rGVK r = wc_GVK cfg \<and> hwm < rTxidStamp r
                \<and> (wc_Shard cfg = None \<or> owns h (the (wc_Shard cfg)) (rNamespace r))]
     \<and> sorted (map (rTxidStamp \<circ> ev_Resource) events)
     \<and> list_all (\<lambda>ev. ev_Type ev = event_type (ev_Resource ev)) events
     \<and> hwm \<le> hwm' \<and> (hwm' = hwm \<or> hwm' < sn_xmin sn)"
proof -
  have w: "watches h cfg r \<longleftrightarrow> rGVK r = wc_GVK cfg \<and>
      (wc_Shard cfg = None \<or> owns h (the (wc_Shard cfg)) (rNamespace r))" for r
    by (cases "wc_Shard cfg") (auto simp: watches_def)
  have m: "max hwm (safe_watermark x) = hwm \<or> max hwm (safe_watermark x) < x" for x
    using safe_watermark_less [of x] by (cases "x = 0") (auto simp: max_def safe_watermark_def word_neq_0_conv)
  have sel: "[r \<leftarrow> sn_rows sn. rGVK r = wc_GVK cfg \<and> hwm < rTxidStamp r
       \<and> (wc_Shard cfg = None \<or> owns h (the (wc_Shard cfg)) (rNamespace r))]
     = [r \<leftarrow> sn_rows sn. watches h cfg r \<and> hwm < rTxidStamp r]"
    by (rule filter_cong) (auto simp: w)
  show ?thesis
    unfolding pollAll_eq sel using m [of "sn_xmin sn"] by (auto simp: comp_def list_all_iff multiset.map_comp)
qed

section \<open>The loop of Run\<close>

record WatchStats =
  ListenErrors :: nat
  Reconnects :: nat
  DoorbellPolls :: nat
  BaselinePolls :: nat
  BaselineCatches :: nat

record watch_loop =
  lastPoll :: int
  doorbellPending :: bool
  timerAt :: int
  wl_stats :: WatchStats

definition zero_stats :: WatchStats where
  "zero_stats = \<lparr>ListenErrors = 0, Reconnects = 0, DoorbellPolls = 0, BaselinePolls = 0, BaselineCatches = 0\<rparr>"

text \<open>The state after the first poll, at time \<open>t\<close>.\<close>

definition run_start :: "WatcherConfig \<Rightarrow> int \<Rightarrow> watch_loop" where
  "run_start cfg t = \<lparr>lastPoll = t, doorbellPending = False, timerAt = t + BaselineInterval cfg,
                      wl_stats = zero_stats\<rparr>"

text \<open>The two cases of the \<open>select\<close> that poll. \<open>now\<close> is the time of the event, \<open>after\<close> the time
  the poll is over, \<open>res\<close> its outcome: an error or the number of events. The first component
  of the result is the error that ends the loop, if any; the second says whether it polled.\<close>

definition on_doorbell ::
  "WatcherConfig \<Rightarrow> int \<Rightarrow> int \<Rightarrow> poll_error + nat \<Rightarrow> watch_loop \<Rightarrow> poll_error option \<times> bool \<times> watch_loop"
where
  "on_doorbell cfg now after res st =
     (let sinceLastPoll = now - lastPoll st
      in if DebounceFloor cfg \<le> sinceLastPoll then
           let st1 = st\<lparr>wl_stats := (wl_stats st)\<lparr>DoorbellPolls := Suc (DoorbellPolls (wl_stats st))\<rparr>\<rparr>
           in case res of
                Inl e \<Rightarrow> (Some e, True, st1)
              | Inr n \<Rightarrow> (None, True, st1\<lparr>lastPoll := after, doorbellPending := False,
                                         timerAt := after + BaselineInterval cfg\<rparr>)
         else
           let remaining = DebounceFloor cfg - sinceLastPoll
           in (None, False, st\<lparr>doorbellPending := True, timerAt := now + remaining\<rparr>))"

definition on_timer ::
  "WatcherConfig \<Rightarrow> bool \<Rightarrow> int \<Rightarrow> poll_error + nat \<Rightarrow> watch_loop \<Rightarrow> poll_error option \<times> bool \<times> watch_loop"
where
  "on_timer cfg listenConfigured after res st =
     (case res of
        Inl e \<Rightarrow> (Some e, True, st)
      | Inr n \<Rightarrow>
          let s = wl_stats st;
              s' = (if doorbellPending st then s\<lparr>DoorbellPolls := Suc (DoorbellPolls s)\<rparr>
                    else if 0 < n \<and> listenConfigured
                    then s\<lparr>BaselinePolls := Suc (BaselinePolls s), BaselineCatches := Suc (BaselineCatches s)\<rparr>
                    else s\<lparr>BaselinePolls := Suc (BaselinePolls s)\<rparr>)
          in (None, True, st\<lparr>lastPoll := after, doorbellPending := False,
                            timerAt := after + BaselineInterval cfg, wl_stats := s'\<rparr>))"

text \<open>The states the loop can be in: the timer fires at or after its deadline, a poll ends
  at or after the event that started it, and events come in time order.\<close>

inductive loop_at :: "WatcherConfig \<Rightarrow> bool \<Rightarrow> int \<Rightarrow> watch_loop \<Rightarrow> bool" for cfg listen where
  start: "loop_at cfg listen t (run_start cfg t)"
| doorbell: "loop_at cfg listen t st \<Longrightarrow> t \<le> now \<Longrightarrow> now \<le> after \<Longrightarrow>
     on_doorbell cfg now after res st = (None, polled, st') \<Longrightarrow>
     loop_at cfg listen (if polled then after else now) st'"
| timer: "loop_at cfg listen t st \<Longrightarrow> t \<le> now \<Longrightarrow> timerAt st \<le> now \<Longrightarrow> now \<le> after \<Longrightarrow>
     on_timer cfg listen after res st = (None, polled, st') \<Longrightarrow> loop_at cfg listen after st'"

lemma loop_timer:
  "loop_at cfg listen t st \<Longrightarrow>
     timerAt st = lastPoll st + (if doorbellPending st then DebounceFloor cfg else BaselineInterval cfg)
     \<and> lastPoll st \<le> t"
proof (induction rule: loop_at.induct)
  case start
  show ?case by (simp add: run_start_def)
next
  case doorbell
  then show ?case by (auto simp: on_doorbell_def Let_def split: if_splits sum.splits)
next
  case timer
  then show ?case by (auto simp: on_timer_def Let_def split: sum.splits)
qed


definition ex_watch :: WatcherConfig where
  "ex_watch = \<lparr>wc_GVK = ''hyperfleet.io/v1alpha1/Cluster'', wc_StartRV = rv_zero, BaselineInterval = 5000,
     DebounceFloor = 100, wc_Shard = None, ListenConnFactory = True\<rparr>"


section \<open>The listen loop\<close>

record listen =
  li_conn :: bool
  li_backoff :: int
  li_notify :: bool          \<comment> \<open>a token waits in the doorbell channel, of capacity one\<close>
  li_stats :: WatchStats

datatype listen_input =
    FactoryFailed            \<comment> \<open>no connection: ListenConnFactory returned an error\<close>
  | ListenFailed             \<comment> \<open>no connection: a new one refused LISTEN\<close>
  | Reconnected              \<comment> \<open>no connection: a new one listens\<close>
  | Notified                 \<comment> \<open>connected: WaitForNotification returned\<close>
  | WaitFailed               \<comment> \<open>connected: WaitForNotification failed\<close>

definition minBackoff :: int where "minBackoff = 100 * millisecond"
definition maxBackoff :: int where "maxBackoff = 5 * second"

definition next_backoff :: "int \<Rightarrow> int" where
  "next_backoff b = (if b < maxBackoff then (if maxBackoff < b * 2 then maxBackoff else b * 2) else b)"

definition listen_failed :: "listen \<Rightarrow> listen" where
  "listen_failed st = st\<lparr>li_stats := (li_stats st)\<lparr>ListenErrors := Suc (ListenErrors (li_stats st))\<rparr>\<rparr>"

text \<open>Entering the loop, with or without a connection; a given connection that refuses
  LISTEN is dropped.\<close>

definition listen_start :: "bool \<Rightarrow> bool \<Rightarrow> listen" where
  "listen_start given ok =
     (let st = \<lparr>li_conn = given, li_backoff = minBackoff, li_notify = False, li_stats = zero_stats\<rparr>
      in if given \<and> \<not> ok then listen_failed (st\<lparr>li_conn := False\<rparr>) else st)"

text \<open>One turn of the loop; \<open>None\<close> when it returns. An input that does not fit the state
  cannot happen there and leaves it unchanged.\<close>

definition listen_step :: "WatcherConfig \<Rightarrow> listen_input \<Rightarrow> listen \<Rightarrow> listen option" where
  "listen_step cfg inp st =
     (if \<not> li_conn st then
        (if \<not> ListenConnFactory cfg then None
         else case inp of
           FactoryFailed \<Rightarrow> Some ((listen_failed st)\<lparr>li_backoff := next_backoff (li_backoff st)\<rparr>)
         | ListenFailed \<Rightarrow> Some ((listen_failed st)\<lparr>li_backoff := next_backoff (li_backoff st)\<rparr>)
         | Reconnected \<Rightarrow>
             Some (st\<lparr>li_conn := True, li_backoff := minBackoff, li_notify := True,
                      li_stats := (li_stats st)\<lparr>Reconnects := Suc (Reconnects (li_stats st))\<rparr>\<rparr>)
         | _ \<Rightarrow> Some st)
      else case inp of
           Notified \<Rightarrow> Some (st\<lparr>li_backoff := minBackoff, li_notify := True\<rparr>)
         | WaitFailed \<Rightarrow> Some ((listen_failed st)\<lparr>li_conn := False\<rparr>)
         | _ \<Rightarrow> Some st)"

fun listen_run :: "WatcherConfig \<Rightarrow> listen_input list \<Rightarrow> listen \<Rightarrow> listen option" where
  "listen_run cfg [] st = Some st"
| "listen_run cfg (i # is) st = (case listen_step cfg i st of None \<Rightarrow> None | Some st' \<Rightarrow> listen_run cfg is st')"

definition backoff_ok :: "listen \<Rightarrow> bool" where
  "backoff_ok st \<longleftrightarrow> minBackoff \<le> li_backoff st \<and> li_backoff st \<le> maxBackoff"

lemmas backoff_defs = minBackoff_def maxBackoff_def next_backoff_def millisecond_def second_def

lemma listen_step_backoff: "backoff_ok st \<Longrightarrow> listen_step cfg i st = Some st' \<Longrightarrow> backoff_ok st'"
  by (cases i) (auto simp: listen_step_def backoff_ok_def listen_failed_def backoff_defs split: if_splits)

lemma listen_run_backoff: "backoff_ok st \<Longrightarrow> listen_run cfg is st = Some st' \<Longrightarrow> backoff_ok st'"
  by (induction cfg "is" st rule: listen_run.induct)
    (auto split: option.splits dest: listen_step_backoff)

lemma listen_fail_run:
  assumes "\<not> li_conn st" "ListenConnFactory cfg" "backoff_ok st"
  shows "\<exists>st'. listen_run cfg (replicate k FactoryFailed) st = Some st' \<and> \<not> li_conn st'
           \<and> li_backoff st' = min maxBackoff (li_backoff st * 2 ^ k)"
  using assms
proof (induction k arbitrary: st)
  case 0
  then show ?case by (simp add: backoff_ok_def)
next
  case (Suc k)
  define st1 where "st1 = (listen_failed st)\<lparr>li_backoff := next_backoff (li_backoff st)\<rparr>"
  have step: "listen_step cfg FactoryFailed st = Some st1"
    using Suc.prems by (simp add: listen_step_def st1_def)
  have st1: "\<not> li_conn st1" using Suc.prems by (simp add: st1_def listen_failed_def)
  obtain st' where st': "listen_run cfg (replicate k FactoryFailed) st1 = Some st'" "\<not> li_conn st'"
    "li_backoff st' = min maxBackoff (li_backoff st1 * 2 ^ k)"
    using Suc.IH [OF st1 Suc.prems(2) listen_step_backoff [OF Suc.prems(3) step]] by blast
  have pos: "0 < li_backoff st" "(1 :: int) \<le> 2 ^ k"
    using Suc.prems(3) by (auto simp: backoff_ok_def backoff_defs)
  have "min maxBackoff (next_backoff b * 2 ^ k) = min maxBackoff (b * 2 ^ Suc k)"
    if "0 < b" "b \<le> maxBackoff" for b
  proof (cases "maxBackoff < b * 2")
    case True
    have "maxBackoff \<le> maxBackoff * 2 ^ k"
      using mult_left_mono [OF pos(2), of maxBackoff] by (simp add: backoff_defs)
    moreover have "maxBackoff \<le> b * 2 ^ Suc k"
    proof -
      have "b * 2 * 1 \<le> b * 2 * 2 ^ k" by (rule mult_left_mono) (use pos that in auto)
      also have "\<dots> = b * 2 ^ Suc k" by simp
      finally show ?thesis using True by linarith
    qed
    moreover have "next_backoff b = maxBackoff" using True that by (auto simp: next_backoff_def)
    ultimately show ?thesis by (simp add: min_absorb1)
  next
    case False
    with that show ?thesis by (auto simp: next_backoff_def mult.assoc)
  qed
  with st' step pos Suc.prems(3) show ?case
    by (simp add: st1_def backoff_ok_def)
qed

text \<open>
  From the start of the listen loop the backoff always stays between 100 ms and
  5 s; \<open>k\<close> failed reconnects in a row wait \<open>100 ms * 2^k\<close>, capped at 5 s; and a
  reconnect leaves a token in the doorbell channel, so that a catch-up poll follows.
\<close>

theorem listen_backoff:
  assumes "ListenConnFactory cfg"
  shows "(\<forall>is st. listen_run cfg is (listen_start given ok) = Some st \<longrightarrow> backoff_ok st)
    \<and> (\<not> given \<longrightarrow> (\<exists>st. listen_run cfg (replicate k FactoryFailed) (listen_start given ok) = Some st
          \<and> li_backoff st = min maxBackoff (minBackoff * 2 ^ k)
          \<and> (\<exists>st'. listen_step cfg Reconnected st = Some st' \<and> li_notify st' \<and> li_backoff st' = minBackoff)))"
proof -
  have ok: "backoff_ok (listen_start given ok)"
    by (simp add: backoff_ok_def listen_start_def listen_failed_def Let_def backoff_defs)
  moreover have "\<exists>st. listen_run cfg (replicate k FactoryFailed) (listen_start given ok) = Some st
          \<and> li_backoff st = min maxBackoff (minBackoff * 2 ^ k)
          \<and> (\<exists>st'. listen_step cfg Reconnected st = Some st' \<and> li_notify st' \<and> li_backoff st' = minBackoff)"
    if "\<not> given"
    using listen_fail_run [of "listen_start given ok" cfg k, OF _ assms ok] that assms
    by (auto simp: listen_start_def listen_step_def)
  ultimately show ?thesis using listen_run_backoff by blast
qed

theorem listen_backoff_witness:
  "\<exists>st. listen_run ex_watch (replicate 6 FactoryFailed) (listen_start False False) = Some st
          \<and> li_backoff st = 5 * second"
  using listen_backoff [of ex_watch False False 6]
  by (auto simp: ex_watch_def backoff_defs)

end
