(* ===== verification/WatchSystem.thy ===== *)
theory WatchSystem
  imports Watcher
begin

text \<open>
  Writers, the compactor and one watcher against one database. A transaction takes the next
  id when it starts and applies its upsert when it commits, so ids become visible out of order;
  the watcher polls snapshots in between. The lists of delivered events and of compacted rows
  are history: no operation reads them.
\<close>

section \<open>Invariants of a transition system\<close>

locale inductive_invariant =
  fixes init :: "'s \<Rightarrow> bool" and step :: "'s \<Rightarrow> 's \<Rightarrow> bool" and inv :: "'s \<Rightarrow> bool"
  assumes base: "init s \<Longrightarrow> inv s"
    and keep: "inv s \<Longrightarrow> step s t \<Longrightarrow> inv t"
begin

lemma run_keeps: "step\<^sup>*\<^sup>* s t \<Longrightarrow> inv s \<Longrightarrow> inv t"
  by (induction rule: rtranclp_induct) (auto intro: keep)

lemma always: "init s \<Longrightarrow> step\<^sup>*\<^sup>* s t \<Longrightarrow> inv t"
  using base run_keeps by blast

end

section \<open>The system\<close>

record sys =
  sy_rows :: rows
  sy_horizon :: horizon
  sy_next :: u64
  sy_running :: "u64 list"
  sy_hwm :: u64
  sy_delivered :: "Event list"
  sy_compacted :: rows

text \<open>\<open>pg_snapshot_xmin\<close>: the oldest running transaction, or the next id when none runs.\<close>

definition xmin_of :: "sys \<Rightarrow> u64" where
  "xmin_of s = foldr min (sy_running s) (sy_next s)"

definition sys_snapshot :: "sys \<Rightarrow> snapshot" where
  "sys_snapshot s = \<lparr>sn_rows = sy_rows s, sn_horizon = sy_horizon s, sn_xmin = xmin_of s\<rparr>"

definition compact_sys :: "int \<Rightarrow> int \<Rightarrow> sys \<Rightarrow> sys" where
  "compact_sys now retention s =
     (let (n, rs, hz) = Compact now retention (sy_rows s) (sy_horizon s)
      in s\<lparr>sy_rows := rs, sy_horizon := hz,
           sy_compacted := sy_compacted s @ [r \<leftarrow> sy_rows s. compactable now retention r]\<rparr>)"

inductive sys_step :: "(string \<Rightarrow> int) \<Rightarrow> WatcherConfig \<Rightarrow> sys \<Rightarrow> sys \<Rightarrow> bool" for h cfg where
  begin_tx: "uint (sy_next s) + 1 < 2 ^ 63 \<Longrightarrow>
     sys_step h cfg s (s\<lparr>sy_next := sy_next s + 1, sy_running := sy_next s # sy_running s\<rparr>)"
| commit: "x \<in> set (sy_running s) \<Longrightarrow> pg_upsert x now uid a (sy_rows s) = Inr (out, rs) \<Longrightarrow>
     sys_step h cfg s (s\<lparr>sy_rows := rs, sy_running := removeAll x (sy_running s)\<rparr>)"
| no_effect: "x \<in> set (sy_running s) \<Longrightarrow>
     sys_step h cfg s (s\<lparr>sy_running := removeAll x (sy_running s)\<rparr>)"
| compact: "sys_step h cfg s (compact_sys now retention s)"
| poll: "pollAll h cfg (sys_snapshot s) (sy_hwm s) = Inr (events, hwm) \<Longrightarrow>
     sys_step h cfg s (s\<lparr>sy_hwm := hwm, sy_delivered := sy_delivered s @ events\<rparr>)"

text \<open>The system when a watcher starts: any consistent database, any transactions running, and
  a high-water mark below all of them, such as a list of this state returns.\<close>

definition ids_ok :: "sys \<Rightarrow> bool" where
  "ids_ok s \<longleftrightarrow> uint (sy_next s) < 2 ^ 63 \<and> pk_inv (sy_rows s)
     \<and> (\<forall>x \<in> set (sy_running s). sy_hwm s < x \<and> x < sy_next s) \<and> sy_hwm s < sy_next s
     \<and> (\<forall>r \<in> set (sy_rows s) \<union> set (sy_compacted s).
          rTxidStamp r < sy_next s \<and> rTxidStamp r \<notin> set (sy_running s))
     \<and> (\<forall>g x. sy_horizon s g = Some x \<longrightarrow> 0 \<le> x \<and> x < 2 ^ 63)"

definition sys_start :: "sys \<Rightarrow> bool" where
  "sys_start s \<longleftrightarrow> ids_ok s \<and> sy_delivered s = [] \<and> sy_compacted s = []"

text \<open>What holds at every moment, relative to the start state \<open>s0\<close>: besides the bookkeeping of
  ids, every row that is or was in the table, of the watched kind and stamped between the
  starting mark and the current one, was delivered; rows below the starting mark are the old
  ones; and every compacted row lies below its horizon.\<close>

definition delivered :: "sys \<Rightarrow> Resource set" where
  "delivered s = ev_Resource ` set (sy_delivered s)"

definition sys_inv :: "(string \<Rightarrow> int) \<Rightarrow> WatcherConfig \<Rightarrow> sys \<Rightarrow> sys \<Rightarrow> bool" where
  "sys_inv h cfg s0 s \<longleftrightarrow> ids_ok s \<and> sy_hwm s0 \<le> sy_hwm s
     \<and> (\<forall>r \<in> set (sy_rows s) \<union> set (sy_compacted s).
          watches h cfg r \<and> sy_hwm s0 < rTxidStamp r \<and> rTxidStamp r \<le> sy_hwm s \<longrightarrow> r \<in> delivered s)
     \<and> (\<forall>r \<in> set (sy_rows s). rTxidStamp r \<le> sy_hwm s0 \<longrightarrow> r \<in> set (sy_rows s0))
     \<and> (\<forall>r \<in> set (sy_compacted s). \<exists>x. sy_horizon s (rGVK r) = Some x \<and> txid_int r \<le> x)"

section \<open>Every step keeps the invariant\<close>

lemma u64_succ: "uint (w :: u64) + 1 < 2 ^ 63 \<Longrightarrow> uint (w + 1) = uint w + 1"
  by (simp add: uint_word_ariths)

lemma u64_less_succ: "uint (w :: u64) + 1 < 2 ^ 63 \<Longrightarrow> w < w + 1"
  by (simp add: word_less_def u64_succ)

lemma foldr_min_le: "x \<in> insert n (set xs) \<Longrightarrow> foldr min xs (n :: u64) \<le> x"
  by (induction xs) (auto simp: min_le_iff_disj)

lemma xmin_le: "x \<in> insert (sy_next s) (set (sy_running s)) \<Longrightarrow> xmin_of s \<le> x"
  unfolding xmin_of_def by (rule foldr_min_le)

lemma foldr_min_in: "foldr min xs (n :: u64) \<in> insert n (set xs)"
  by (induction xs) (auto simp: min_def)

lemma xmin_in: "xmin_of s \<in> insert (sy_next s) (set (sy_running s))"
  unfolding xmin_of_def by (rule foldr_min_in)

lemma ids_ok_xmin: "ids_ok s \<Longrightarrow> sy_hwm s < xmin_of s"
  using xmin_in [of s] by (auto simp: ids_ok_def)

lemma delivered_append: "delivered (s\<lparr>sy_hwm := w, sy_delivered := sy_delivered s @ evs\<rparr>) =
    delivered s \<union> ev_Resource ` set evs"
  by (auto simp: delivered_def image_Un)

lemma step_begin:
  assumes "sys_inv h cfg s0 s" "uint (sy_next s) + 1 < 2 ^ 63"
  shows "sys_inv h cfg s0 (s\<lparr>sy_next := sy_next s + 1, sy_running := sy_next s # sy_running s\<rparr>)"
proof -
  have lt: "sy_next s < sy_next s + 1" using assms(2) by (rule u64_less_succ)
  have ids: "ids_ok s" using assms(1) by (simp add: sys_inv_def)
  have "rTxidStamp r < sy_next s + 1 \<and> rTxidStamp r \<notin> set (sy_next s # sy_running s)"
    if "r \<in> set (sy_rows s) \<union> set (sy_compacted s)" for r
  proof -
    from that ids have "rTxidStamp r < sy_next s" "rTxidStamp r \<notin> set (sy_running s)"
      unfolding ids_ok_def by blast+
    with lt show ?thesis by auto
  qed
  with ids lt have "ids_ok (s\<lparr>sy_next := sy_next s + 1, sy_running := sy_next s # sy_running s\<rparr>)"
    using assms(2) unfolding ids_ok_def by (auto simp: u64_succ intro: less_trans)
  with assms(1) show ?thesis by (auto simp: sys_inv_def delivered_def)
qed

lemma step_no_effect:
  assumes "sys_inv h cfg s0 s"
  shows "sys_inv h cfg s0 (s\<lparr>sy_running := removeAll x (sy_running s)\<rparr>)"
  using assms unfolding sys_inv_def ids_ok_def delivered_def by auto

lemma step_commit:
  assumes inv: "sys_inv h cfg s0 s" and x: "x \<in> set (sy_running s)"
    and up: "pg_upsert x now uid a (sy_rows s) = Inr (out, rs)"
  shows "sys_inv h cfg s0 (s\<lparr>sy_rows := rs, sy_running := removeAll x (sy_running s)\<rparr>)"
proof -
  obtain r where r: "rs = put_row r (sy_rows s)" "rTxidStamp r = x"
    using up by (elim pg_upsert_row)
  have pk: "pk_inv (sy_rows s)" using inv by (simp add: sys_inv_def ids_ok_def)
  have rows: "set rs \<subseteq> insert r (set (sy_rows s))" using pk.rows_put [OF pk] r(1) by auto
  have xs: "sy_hwm s < x" "x < sy_next s" "sy_hwm s0 < x"
    using inv x by (auto simp: sys_inv_def ids_ok_def)
  have "ids_ok (s\<lparr>sy_rows := rs, sy_running := removeAll x (sy_running s)\<rparr>)"
    using inv rows r xs pk unfolding sys_inv_def ids_ok_def by (auto simp: pk_inv_put)
  moreover have "\<not> rTxidStamp r \<le> sy_hwm s" "\<not> rTxidStamp r \<le> sy_hwm s0" using xs r(2) by auto
  ultimately show ?thesis using inv rows unfolding sys_inv_def delivered_def by auto
qed

lemma compact_sys_simps:
  "sy_rows (compact_sys now ret s) = [r \<leftarrow> sy_rows s. \<not> compactable now ret r]"
  "sy_horizon (compact_sys now ret s) = raise_horizon [r \<leftarrow> sy_rows s. compactable now ret r] (sy_horizon s)"
  "sy_compacted (compact_sys now ret s) = sy_compacted s @ [r \<leftarrow> sy_rows s. compactable now ret r]"
  "sy_next (compact_sys now ret s) = sy_next s" "sy_running (compact_sys now ret s) = sy_running s"
  "sy_hwm (compact_sys now ret s) = sy_hwm s" "delivered (compact_sys now ret s) = delivered s"
  by (simp_all add: compact_sys_def Compact_def Let_def delivered_def)

lemma raise_horizon_bound:
  assumes "\<And>r. r \<in> set del \<Longrightarrow> txid_int r < 2 ^ 63"
    and "\<And>g x. hz g = Some x \<Longrightarrow> 0 \<le> x \<and> x < 2 ^ 63"
    and "raise_horizon del hz g = Some x"
  shows "0 \<le> x \<and> x < 2 ^ 63"
  using assms
proof (induction del arbitrary: hz)
  case Nil
  then show ?case by simp
next
  case (Cons r del)
  have "0 \<le> y \<and> y < 2 ^ 63" if "raise_one r hz g' = Some y" for g' y
    using that Cons.prems(1) [of r] Cons.prems(2)
    by (auto simp: raise_one_def txid_int_def max_def split: if_splits option.splits)
  with Cons show ?case by auto
qed

lemma step_compact:
  assumes inv: "sys_inv h cfg s0 s"
  shows "sys_inv h cfg s0 (compact_sys now ret s)"
proof -
  let ?del = "[r \<leftarrow> sy_rows s. compactable now ret r]"
  have ids: "ids_ok s" using inv by (simp add: sys_inv_def)
  have small: "txid_int r < 2 ^ 63" if "r \<in> set (sy_rows s)" for r
  proof -
    from that ids have "rTxidStamp r < sy_next s" "uint (sy_next s) < 2 ^ 63"
      unfolding ids_ok_def by blast+
    then show ?thesis by (simp add: txid_int_def word_less_def)
  qed
  have bound: "0 \<le> x \<and> x < 2 ^ 63" if "raise_horizon ?del (sy_horizon s) g = Some x" for g x
    using that small ids by (intro raise_horizon_bound [of ?del "sy_horizon s" g x]) (auto simp: ids_ok_def)
  have "ids_ok (compact_sys now ret s)"
    using ids bound unfolding ids_ok_def compact_sys_simps
    by (auto simp: pk_inv_def distinct_map_filter)
  moreover have "\<exists>x. raise_horizon ?del (sy_horizon s) (rGVK r) = Some x \<and> txid_int r \<le> x"
    if r: "r \<in> set (sy_compacted s) \<union> set ?del" for r
  proof (cases "r \<in> set ?del")
    case True
    then show ?thesis by (rule raise_horizon_covers)
  next
    case False
    then obtain x where x: "sy_horizon s (rGVK r) = Some x" "txid_int r \<le> x"
      using r inv by (auto simp: sys_inv_def)
    from raise_horizon_mono [of "sy_horizon s", OF x(1)] x(2) show ?thesis by (meson order_trans)
  qed
  ultimately show ?thesis using inv unfolding sys_inv_def compact_sys_simps by auto
qed

lemma horizon_word:
  assumes "0 \<le> x" "x < 2 ^ 63" "txid_int r \<le> x" "word_of_int x \<le> (w :: u64)"
  shows "rTxidStamp r \<le> w"
proof -
  have "uint (word_of_int x :: u64) = x"
    using assms(1,2) by (simp add: uint_word_of_int)
  with assms(3,4) show ?thesis by (simp add: word_le_def txid_int_def)
qed

lemma step_poll:
  assumes inv: "sys_inv h cfg s0 s"
    and poll: "pollAll h cfg (sys_snapshot s) (sy_hwm s) = Inr (events, w)"
  shows "sys_inv h cfg s0 (s\<lparr>sy_hwm := w, sy_delivered := sy_delivered s @ events\<rparr>)"
proof -
  let ?s' = "s\<lparr>sy_hwm := w, sy_delivered := sy_delivered s @ events\<rparr>"
  have ids: "ids_ok s" using inv by (simp add: sys_inv_def)
  have sn: "sn_rows (sys_snapshot s) = sy_rows s" "sn_horizon (sys_snapshot s) = sy_horizon s"
    "sn_xmin (sys_snapshot s) = xmin_of s" by (simp_all add: sys_snapshot_def)
  note p = pollAll_Inr [OF poll, unfolded sn]
  have low: "sy_hwm s < xmin_of s" using ids by (rule ids_ok_xmin)
  then have "0 < xmin_of s" by (metis word_coorder.not_eq_extremum not_less word_zero_le)
  then have w: "w < xmin_of s" "sy_hwm s \<le> w"
    using p(3) low safe_watermark_less [of "xmin_of s"] by (auto simp: safe_watermark_def)
  have "ids_ok ?s'"
    using ids w(1) xmin_le [of _ s] unfolding ids_ok_def by (auto intro: less_le_trans)
  moreover have "r \<in> delivered ?s'"
    if r: "r \<in> set (sy_rows s) \<union> set (sy_compacted s)" "watches h cfg r"
      "sy_hwm s0 < rTxidStamp r" "rTxidStamp r \<le> w" for r
  proof (cases "rTxidStamp r \<le> sy_hwm s")
    case True
    with r inv show ?thesis by (auto simp: sys_inv_def delivered_append)
  next
    case False
    show ?thesis
    proof (cases "r \<in> set (sy_rows s)")
      case True
      with False r(2) p(1) show ?thesis by (auto simp: delivered_append)
    next
      case notin: False
      then obtain x where x: "sy_horizon s (rGVK r) = Some x" "txid_int r \<le> x"
        using r(1) inv by (auto simp: sys_inv_def)
      moreover have "rGVK r = wc_GVK cfg" using r(2) by (simp add: watches_def)
      ultimately have "rTxidStamp r \<le> sy_hwm s"
        using p(2) ids by (intro horizon_word [of x]) (auto simp: ids_ok_def)
      with False show ?thesis by simp
    qed
  qed
  ultimately show ?thesis using inv w(2) unfolding sys_inv_def by auto
qed

lemma sys_step_inv: "sys_inv h cfg s0 s \<Longrightarrow> sys_step h cfg s t \<Longrightarrow> sys_inv h cfg s0 t"
  by (erule sys_step.cases)
    (auto intro: step_begin step_commit step_no_effect step_compact step_poll)

lemma sys_start_inv: "sys_start s \<Longrightarrow> sys_inv h cfg s s"
  by (auto simp: sys_start_def sys_inv_def)

interpretation watch: inductive_invariant "\<lambda>s. s = s0 \<and> sys_start s" "sys_step h cfg" "sys_inv h cfg s0"
  for s0 h cfg
  by unfold_locales (auto intro: sys_start_inv sys_step_inv)

lemma reach_inv: "sys_start s0 \<Longrightarrow> (sys_step h cfg)\<^sup>*\<^sup>* s0 s \<Longrightarrow> sys_inv h cfg s0 s"
  using watch.always by blast

section \<open>A concrete run\<close>

text \<open>A watcher starts at mark 4; transaction 5 creates a cluster; the watcher polls.\<close>

definition run0 :: sys where
  "run0 = \<lparr>sy_rows = [], sy_horizon = (\<lambda>_. None), sy_next = 5, sy_running = [], sy_hwm = 4,
           sy_delivered = [], sy_compacted = []\<rparr>"

definition run1 :: sys where
  "run1 = run0\<lparr>sy_next := 6, sy_running := [5]\<rparr>"

definition run2 :: sys where
  "run2 = run1\<lparr>sy_rows := [ex_row], sy_running := []\<rparr>"

definition run3 :: sys where
  "run3 = run2\<lparr>sy_hwm := 5, sy_delivered := [\<lparr>ev_Type = EventAdded, ev_Resource = ex_row\<rparr>]\<rparr>"

lemma run0_start: "sys_start run0"
  by (simp add: sys_start_def ids_ok_def run0_def pk_inv_def)

lemma run01: "sys_step h cfg run0 run1"
  using sys_step.begin_tx [of run0 h cfg] by (simp add: run0_def run1_def)

lemma run12: "sys_step h cfg run1 run2"
proof -
  have up: "pg_upsert 5 10 [7] ex_args (sy_rows run1) =
    Inr (\<lparr>out_uid = [7], out_version = 1, out_txid = 5, out_changed = True\<rparr>, [ex_row])"
    by code_simp
  have "5 \<in> set (sy_running run1)" by (simp add: run1_def)
  from sys_step.commit [OF this up, of h cfg] show ?thesis by (simp add: run1_def run2_def)
qed

lemma run2_poll: "pollAll h ex_watch (sys_snapshot run2) (sy_hwm run2) =
    Inr ([\<lparr>ev_Type = EventAdded, ev_Resource = ex_row\<rparr>], 5)"
proof -
  have ex: "rGVK ex_row = ''hyperfleet.io/v1alpha1/Cluster''" "rTxidStamp ex_row = 5" "rDeletionTimestamp ex_row = None"
    "rObjectVersion ex_row = 1" by (simp_all add: ex_row_def)
  show ?thesis
    by (simp add: pollAll_eq sys_snapshot_def run2_def run1_def run0_def ex_watch_def watches_def ex
        event_type_def xmin_of_def safe_watermark_def max_def)
qed

lemma run23: "sys_step h ex_watch run2 run3"
  using sys_step.poll [OF run2_poll, of h] by (simp add: run2_def run3_def run1_def run0_def)

lemma run03: "(sys_step h ex_watch)\<^sup>*\<^sup>* run0 run3"
  using run01 run12 run23 by (meson rtranclp.rtrancl_into_rtrancl rtranclp.rtrancl_refl)

section \<open>Delivery\<close>

text \<open>
  C1 (safety, no lost events). Whatever the interleaving of transactions that start, commit
  in any order or abort, of compactions and of polls, every row that is in the table or was
  compacted, of the watcher's kind and shard, and stamped above its starting mark and at or
  below its current one, has been delivered to it.
\<close>

theorem watch_complete:
  assumes "sys_start s0" "(sys_step h cfg)\<^sup>*\<^sup>* s0 s"
    and "r \<in> set (sy_rows s) \<union> set (sy_compacted s)" "watches h cfg r"
    and "sy_hwm s0 < rTxidStamp r" "rTxidStamp r \<le> sy_hwm s"
  shows "r \<in> delivered s"
  using reach_inv [OF assms(1,2)] assms(3-) by (auto simp: sys_inv_def)

theorem watch_complete_witness: "ex_row \<in> delivered run3"
  by (rule watch_complete [OF run0_start run03, where h = "\<lambda>_. 0"])
    (simp_all add: run3_def run2_def run1_def run0_def watches_def ex_watch_def ex_row_def)



text \<open>
  C3 (safety, no silent gap). If a tombstone was compacted before the watcher saw it, the
  watcher's next poll does not skip it silently: it fails with \<open>Gone\<close>, which makes the client
  list again.
\<close>

theorem compaction_gap_is_gone:
  assumes "sys_start s0" "(sys_step h cfg)\<^sup>*\<^sup>* s0 s"
    and "r \<in> set (sy_compacted s)" "watches h cfg r" "sy_hwm s < rTxidStamp r"
  shows "\<exists>x. pollAll h cfg (sys_snapshot s) (sy_hwm s) = Inl (ErrGone (sy_hwm s) x)"
proof (cases "pollAll h cfg (sys_snapshot s) (sy_hwm s)")
  case (Inl e)
  then show ?thesis by (auto simp: pollAll_eq split: if_splits)
next
  case (Inr v)
  obtain events w where poll: "pollAll h cfg (sys_snapshot s) (sy_hwm s) = Inr (events, w)"
    using Inr by (cases v) auto
  have inv: "sys_inv h cfg s0 s" by (rule reach_inv [OF assms(1,2)])
  have gvk: "rGVK r = wc_GVK cfg" using assms(4) by (simp add: watches_def)
  obtain x where x: "sy_horizon s (wc_GVK cfg) = Some x" "txid_int r \<le> x" "0 \<le> x" "x < 2 ^ 63"
    using inv assms(3) unfolding sys_inv_def ids_ok_def gvk [symmetric] by blast
  then have "rTxidStamp r \<le> sy_hwm s"
    using pollAll_Inr(2) [OF poll, of x] by (intro horizon_word [of x]) (simp_all add: sys_snapshot_def)
  with assms(5) show ?thesis by simp
qed

text \<open>The cluster is deleted and compacted before the watcher polls.\<close>

definition gap_row :: Resource where
  "gap_row = ex_row\<lparr>rDeletionTimestamp := Some 5, rCreatedAt := 6, rUpdatedAt := 6\<rparr>"

definition gap2 :: sys where
  "gap2 = run1\<lparr>sy_rows := [gap_row], sy_running := []\<rparr>"

definition gap3 :: sys where
  "gap3 = compact_sys (2 * second) second gap2"

lemma gap12: "sys_step h cfg run1 gap2"
proof -
  have up: "pg_upsert 5 6 [7] (ex_args\<lparr>p_deletion_ts := Some 5\<rparr>) (sy_rows run1) =
    Inr (\<lparr>out_uid = [7], out_version = 1, out_txid = 5, out_changed = True\<rparr>, [gap_row])"
    by code_simp
  have "5 \<in> set (sy_running run1)" by (simp add: run1_def)
  from sys_step.commit [OF this up, of h cfg] show ?thesis by (simp add: run1_def gap2_def)
qed

lemma gap03: "(sys_step h ex_watch)\<^sup>*\<^sup>* run0 gap3"
  unfolding gap3_def using run01 gap12 sys_step.compact
  by (meson rtranclp.rtrancl_into_rtrancl rtranclp.rtrancl_refl)

theorem compaction_gap_is_gone_witness:
  "\<exists>x. pollAll (\<lambda>_. 0) ex_watch (sys_snapshot gap3) (sy_hwm gap3) = Inl (ErrGone (sy_hwm gap3) x)"
proof (rule compaction_gap_is_gone [OF run0_start gap03])
  show "gap_row \<in> set (sy_compacted gap3)" by code_simp
  show "watches (\<lambda>_. 0) ex_watch gap_row" by code_simp
  show "sy_hwm gap3 < rTxidStamp gap_row" by code_simp
qed

text \<open>
  C4 (liveness). Once no transaction runs, the next poll that does not report \<open>Gone\<close> leaves
  nothing behind: every row of the watcher's kind and shard stamped above its starting mark has
  been delivered.
\<close>

theorem quiescent_poll_catches_up:
  assumes "sys_start s0" "(sys_step h cfg)\<^sup>*\<^sup>* s0 s" "sy_running s = []"
    and "pollAll h cfg (sys_snapshot s) (sy_hwm s) = Inr (events, w)"
    and "r \<in> set (sy_rows s)" "watches h cfg r" "sy_hwm s0 < rTxidStamp r"
  shows "r \<in> delivered (s\<lparr>sy_hwm := w, sy_delivered := sy_delivered s @ events\<rparr>)"
proof -
  have inv: "sys_inv h cfg s0 s" by (rule reach_inv [OF assms(1,2)])
  show ?thesis
  proof (cases "rTxidStamp r \<le> sy_hwm s")
    case True
    with inv assms show ?thesis by (auto simp: sys_inv_def delivered_append)
  next
    case False
    with assms(5,6) pollAll_Inr(1) [OF assms(4)] show ?thesis
      by (auto simp: delivered_append sys_snapshot_def)
  qed
qed

theorem quiescent_poll_catches_up_witness:
  "ex_row \<in> delivered (run2\<lparr>sy_hwm := 5, sy_delivered := sy_delivered run2 @ [\<lparr>ev_Type = EventAdded, ev_Resource = ex_row\<rparr>]\<rparr>)"
proof (rule quiescent_poll_catches_up [where h = "\<lambda>_. 0"])
  show "sys_start run0" by (rule run0_start)
  show "(sys_step (\<lambda>_. 0) ex_watch)\<^sup>*\<^sup>* run0 run2"
    using run01 run12 by (meson rtranclp.rtrancl_into_rtrancl rtranclp.rtrancl_refl)
  show "sy_running run2 = []" by (simp add: run2_def)
  show "pollAll (\<lambda>_. 0) ex_watch (sys_snapshot run2) (sy_hwm run2) =
      Inr ([\<lparr>ev_Type = EventAdded, ev_Resource = ex_row\<rparr>], 5)" by (rule run2_poll)
qed (simp_all add: run2_def run1_def run0_def watches_def ex_watch_def ex_row_def)

end
