(* ===== verification/PgWatch.thy ===== *)
theory PgWatch
  imports PgClientList WatchSystem
begin

text \<open>
  From the watcher to controllers: \<open>hyperfleet-db/pgwatch.go\<close> turns watcher events into events of
  the Kubernetes watch interface, \<open>hyperfleet-db/pgcache.go\<close> starts lists and watches for the
  informers of a replica, and \<open>hyperfleet-db/pgmanager.go\<close> checks the shard configuration.
\<close>

section \<open>pgwatch.go\<close>

datatype watch_type = Watch_Added | Watch_Modified | Watch_Deleted

datatype watch_event =
    WatchEvent watch_type kobject
  | ResourceExpired string
  | InternalError string

text \<open>How the source's \<open>Run\<close> ended: \<open>ErrGone\<close> is recognised through wrapping.\<close>

datatype run_error = RunCanceled | RunDeadlineExceeded | RunGone string | RunFailed string

definition sendError :: "run_error option \<Rightarrow> watch_event list" where
  "sendError e = (case e of
       None \<Rightarrow> [] | Some RunCanceled \<Rightarrow> [] | Some RunDeadlineExceeded \<Rightarrow> []
     | Some (RunGone m) \<Rightarrow> [ResourceExpired m]
     | Some (RunFailed m) \<Rightarrow> [InternalError m])"

definition relay_rv :: "RV \<Rightarrow> Resource \<Rightarrow> RV" where
  "relay_rv rv r =
     \<lparr>ObjectVersion = rObjectVersion r, Watermark = (if Watermark rv < rTxidStamp r then rTxidStamp r else Watermark rv)\<rparr>"

definition relay_type :: "Event \<Rightarrow> watch_type" where
  "relay_type ev = (case ev_Type ev of
       EventAdded \<Rightarrow> Watch_Added
     | EventModified \<Rightarrow> Watch_Modified
     | EventDeleted \<Rightarrow> if hasFinalizers (ev_Resource ev) then Watch_Modified else Watch_Deleted)"

definition relay_event :: "scheme \<Rightarrow> RV \<Rightarrow> Event \<Rightarrow> string + (RV \<times> watch_event)" where
  "relay_event scheme rv ev =
     bindR (resourceToObject scheme (ev_Resource ev)) (\<lambda>obj.
       let rv' = relay_rv rv (ev_Resource ev)
       in Inr (rv', WatchEvent (relay_type ev) (obj\<lparr>ko_ResourceVersion := rv_String rv'\<rparr>)))"

text \<open>What the loop of \<open>relay\<close> receives: an event of the source, which the client takes or which a
  stop or a cancelled context overtakes, the end of the source with the error of its \<open>Run\<close>, or a
  stop. The result is what is sent on the result channel and whether the source was stopped.\<close>

datatype relay_input = Received Event bool | SourceClosed "run_error option" | StopRequested

fun relay :: "scheme \<Rightarrow> RV \<Rightarrow> relay_input list \<Rightarrow> watch_event list \<times> bool" where
  "relay scheme rv [] = ([], False)"
| "relay scheme rv (StopRequested # xs) = ([], True)"
| "relay scheme rv (SourceClosed e # xs) = (sendError e, False)"
| "relay scheme rv (Received ev taken # xs) =
     (case relay_event scheme rv ev of
        Inl e \<Rightarrow> (sendError (Some (RunFailed (''convert watch event: '' @ e))), True)
      | Inr (rv', we) \<Rightarrow>
          if taken then (let (out, stopped) = relay scheme rv' xs in (we # out, stopped)) else ([], True))"

definition newPgWatcher :: "scheme \<Rightarrow> RV \<Rightarrow> relay_input list \<Rightarrow> watch_event list \<times> bool" where
  "newPgWatcher scheme startRV xs = relay scheme \<lparr>ObjectVersion = 0, Watermark = Watermark startRV\<rparr> xs"

section \<open>pgcache.go\<close>

record pgCache =
  pc_shard :: "ShardSpec option"
  pc_unsharded :: "GVK list"
  pc_informers :: "GVK list"                 \<comment> \<open>the kinds with an informer\<close>
  pc_running :: "GVK list"                   \<comment> \<open>the informers whose \<open>Run\<close> was started\<close>
  pc_started :: bool

text \<open>The reads of the cache go to the database, with the code of the client.\<close>

definition cache_Get :: "cenv \<Rightarrow> kind \<Rightarrow> rows \<Rightarrow> string \<Rightarrow> string \<Rightarrow> kobject \<Rightarrow> cerror + kobject" where
  "cache_Get = client_Get"

definition cache_List ::
  "(string \<Rightarrow> int) \<Rightarrow> cenv \<Rightarrow> scheme \<Rightarrow> kind \<Rightarrow> items_field \<Rightarrow> ListOptions \<Rightarrow> snapshot \<Rightarrow> klist \<Rightarrow> cerror + klist"
where
  "cache_List = client_List"

definition informer_shard :: "pgCache \<Rightarrow> GVK \<Rightarrow> ShardSpec option" where
  "informer_shard c g = (if pc_shard c \<noteq> None \<and> g \<notin> set (pc_unsharded c) then pc_shard c else None)"

text \<open>\<open>ListWithContextFunc\<close>; \<open>fld\<close> is the \<open>Items\<close> field of the list type of the kind, \<open>None\<close> outside
  when the scheme does not know the list type.\<close>

definition informer_list ::
  "(string \<Rightarrow> int) \<Rightarrow> pgCache \<Rightarrow> cenv \<Rightarrow> scheme \<Rightarrow> GVK \<Rightarrow> items_field option \<Rightarrow> snapshot \<Rightarrow> cerror + klist"
where
  "informer_list hashtext c env scheme g listType sn =
     bindR (acquire env) (\<lambda>_.
     case ce_read env of
       Some m \<Rightarrow> Inl (ConnError m)
     | None \<Rightarrow>
         (let result = reader_List hashtext sn (gvkToString g) (map_option ToListFilter (informer_shard c g))
          in case listType of
               None \<Rightarrow> Inl (ConvertError ''scheme.New'')
             | Some fld \<Rightarrow>
                 bindR (conv (mapR (resourceToObject scheme) (Resources result))) (\<lambda>objs.
                 bindR (conv (setListItems fld objs)) (\<lambda>items.
                   Inr \<lparr>kl_items = items, kl_ResourceVersion = rv_String (lr_ResourceVersion result),
                        kl_Continue = NoToken\<rparr>))))"

text \<open>\<open>WatchFuncWithContext\<close>: the version to start from and the configuration of the watcher. The
  two connections it takes from the pool may fail.\<close>

definition informer_watch :: "bool \<Rightarrow> bool \<Rightarrow> pgCache \<Rightarrow> GVK \<Rightarrow> string \<Rightarrow> string + WatcherConfig" where
  "informer_watch poll_ok listen_ok c g resourceVersion =
     bindR (if resourceVersion = [] then Inr rv_zero
            else map_sum (\<lambda>_. ''parse resourceVersion '' @ resourceVersion) id (rv_Parse resourceVersion)) (\<lambda>startRV.
       if \<not> poll_ok then Inl ''watch poll connect''
       else if \<not> listen_ok then Inl ''watch listen connect''
       else Inr (watcher_defaults
         \<lparr>wc_GVK = gvkToString g, wc_StartRV = startRV, BaselineInterval = 0, DebounceFloor = 0,
          wc_Shard = informer_shard c g, ListenConnFactory = False\<rparr>))"

definition getOrCreateInformer :: "scheme \<Rightarrow> GVK \<Rightarrow> pgCache \<Rightarrow> string + pgCache" where
  "getOrCreateInformer scheme g c =
     (if g \<in> set (pc_informers c) then Inr c
      else if scheme g = None then Inl ''scheme.New''
      else Inr (c\<lparr>pc_informers := pc_informers c @ [g],
                  pc_running := (if pc_started c then pc_running c @ [g] else pc_running c)\<rparr>))"

definition GetInformer :: "scheme \<Rightarrow> kind \<Rightarrow> pgCache \<Rightarrow> string + pgCache" where
  "GetInformer scheme k c = bindR (resolveGVK k) (\<lambda>g. getOrCreateInformer scheme g c)"

definition cache_Start :: "pgCache \<Rightarrow> pgCache" where
  "cache_Start c = c\<lparr>pc_started := True, pc_running := pc_running c @ pc_informers c\<rparr>"

section \<open>pgmanager.go\<close>

record ShardConfig =
  sc_Mod :: int
  sc_Owned :: "int list"
  sc_UnshardedGVKs :: "GVK list"

text \<open>The checks of \<open>NewManager\<close> before it connects, and the cache it builds.\<close>

definition new_cache :: "bool \<Rightarrow> string \<Rightarrow> ShardConfig option \<Rightarrow> string + pgCache" where
  "new_cache scheme_set dsn shard =
     (if \<not> scheme_set then Inl ''pgruntime: Scheme is required''
      else if dsn = [] then Inl ''pgruntime: DSN is required''
      else case shard of
             None \<Rightarrow> Inr \<lparr>pc_shard = None, pc_unsharded = [], pc_informers = [], pc_running = [], pc_started = False\<rparr>
           | Some s \<Rightarrow>
               (let spec = \<lparr>Mod = sc_Mod s, Owned = sc_Owned s\<rparr>
                in case Validate spec of
                     Some _ \<Rightarrow> Inl ''pgruntime: invalid shard''
                   | None \<Rightarrow> Inr \<lparr>pc_shard = Some spec, pc_unsharded = sc_UnshardedGVKs s,
                                  pc_informers = [], pc_running = [], pc_started = False\<rparr>))"

section \<open>Relayed events\<close>

lemma parse_int_o: "parse_int (CHR ''o'' # s) = None"
  by (simp add: parse_int_def is_digit_def)

lemma parse_composite:
  assumes "0 < ObjectVersion rv" "ObjectVersion rv < 2 ^ 63"
  shows "rv_Parse (rv_String rv) = Inr rv" "parse_int (rv_String rv) = None" "rv_String rv \<noteq> []"
  using assms rv_Parse_object [of "nat (ObjectVersion rv)" "Watermark rv"]
  by (simp_all add: rv_String_def dec_of_int_def parse_int_o)

lemma relay_event_Inr:
  assumes "relay_event scheme rv ev = Inr (rv', we)" "ev_Type ev = event_type (ev_Resource ev)"
    and "0 < rObjectVersion (ev_Resource ev)" "rObjectVersion (ev_Resource ev) < 2 ^ 63"
  obtains t o1 where "we = WatchEvent t o1" "rv' = relay_rv rv (ev_Resource ev)"
    "parseResourceVersion o1 = Inr (rObjectVersion (ev_Resource ev))" "rv_Parse (ko_ResourceVersion o1) = Inr rv'"
    "t = Watch_Deleted \<longleftrightarrow> isFullyDeleted (ev_Resource ev)"
    "t = Watch_Added \<longleftrightarrow> rDeletionTimestamp (ev_Resource ev) = None \<and> rObjectVersion (ev_Resource ev) = 1"
proof -
  let ?r = "ev_Resource ev"
  obtain obj where o: "we = WatchEvent (relay_type ev) (obj\<lparr>ko_ResourceVersion := rv_String (relay_rv rv ?r)\<rparr>)"
    and rv': "rv' = relay_rv rv ?r"
    using assms(1) by (auto simp: relay_event_def inversions Let_def)
  have ver: "ObjectVersion (relay_rv rv ?r) = rObjectVersion ?r" by (simp add: relay_rv_def)
  note pc = parse_composite [of "relay_rv rv ?r", unfolded ver, OF assms(3,4)]
  have "parseResourceVersion (obj\<lparr>ko_ResourceVersion := rv_String (relay_rv rv ?r)\<rparr>) = Inr (rObjectVersion ?r)"
    using pc ver assms(3) by (simp add: parseResourceVersion_def Let_def)
  moreover have "relay_type ev = Watch_Deleted \<longleftrightarrow> isFullyDeleted ?r"
    "relay_type ev = Watch_Added \<longleftrightarrow> rDeletionTimestamp ?r = None \<and> rObjectVersion ?r = 1"
    using assms(2) by (auto simp: relay_type_def event_type_def isFullyDeleted_def)
  ultimately show thesis using pc(1) by (intro that [OF o rv']) (simp_all add: rv')
qed

definition seen_mark :: "u64 \<Rightarrow> Event list \<Rightarrow> u64" where
  "seen_mark m evs = foldl max m (map (rTxidStamp \<circ> ev_Resource) evs)"

text \<open>
  As long as every event converts, the relay forwards each one, in order: the
  object can be written back, since its resource version parses to the row's object version;
  as a point to resume from, the same string is the highest transaction id relayed so far. An
  event is a deletion exactly when no finalizer holds the dying object any more, and an addition
  exactly for a live first version.
\<close>

theorem relayed_events:
  assumes "relay scheme rv (map (\<lambda>ev. Received ev True) evs) = (out, False)"
    and "\<And>ev. ev \<in> set evs \<Longrightarrow> ev_Type ev = event_type (ev_Resource ev)
           \<and> 0 < rObjectVersion (ev_Resource ev) \<and> rObjectVersion (ev_Resource ev) < 2 ^ 63"
  shows "length out = length evs \<and> (\<forall>i < length evs. let r = ev_Resource (evs ! i) in
      \<exists>t o1 rv'. out ! i = WatchEvent t o1 \<and> parseResourceVersion o1 = Inr (rObjectVersion r)
        \<and> rv_Parse (ko_ResourceVersion o1) = Inr rv' \<and> Watermark rv' = seen_mark (Watermark rv) (take (Suc i) evs)
        \<and> (t = Watch_Deleted \<longleftrightarrow> isFullyDeleted r)
        \<and> (t = Watch_Added \<longleftrightarrow> rDeletionTimestamp r = None \<and> rObjectVersion r = 1))"
  using assms
proof (induction evs arbitrary: rv out)
  case Nil
  then show ?case by simp
next
  case (Cons ev evs)
  obtain rv' we where rel: "relay_event scheme rv ev = Inr (rv', we)"
    using Cons.prems(1) by (cases "relay_event scheme rv ev") auto
  obtain out' where out: "out = we # out'" and rec: "relay scheme rv' (map (\<lambda>ev. Received ev True) evs) = (out', False)"
    using Cons.prems(1) rel by (auto split: prod.splits)
  obtain t o1 where ev: "we = WatchEvent t o1" "rv' = relay_rv rv (ev_Resource ev)"
    "parseResourceVersion o1 = Inr (rObjectVersion (ev_Resource ev))" "rv_Parse (ko_ResourceVersion o1) = Inr rv'"
    "t = Watch_Deleted \<longleftrightarrow> isFullyDeleted (ev_Resource ev)"
    "t = Watch_Added \<longleftrightarrow> rDeletionTimestamp (ev_Resource ev) = None \<and> rObjectVersion (ev_Resource ev) = 1"
    using rel by (rule relay_event_Inr) (use Cons.prems(2) [of ev] in auto)
  have mark: "Watermark rv' = max (Watermark rv) (rTxidStamp (ev_Resource ev))"
    by (auto simp: ev(2) relay_rv_def max_def)
  note IH = Cons.IH [OF rec Cons.prems(2)]
  show ?case
  proof (intro conjI allI impI)
    show "length out = length (ev # evs)" using IH out by simp
    fix i assume i: "i < length (ev # evs)"
    show "let r = ev_Resource ((ev # evs) ! i) in
      \<exists>t o1 rv'. out ! i = WatchEvent t o1 \<and> parseResourceVersion o1 = Inr (rObjectVersion r)
        \<and> rv_Parse (ko_ResourceVersion o1) = Inr rv' \<and> Watermark rv' = seen_mark (Watermark rv) (take (Suc i) (ev # evs))
        \<and> (t = Watch_Deleted \<longleftrightarrow> isFullyDeleted r)
        \<and> (t = Watch_Added \<longleftrightarrow> rDeletionTimestamp r = None \<and> rObjectVersion r = 1)"
    proof (cases i)
      case 0
      with ev out mark show ?thesis by (simp add: seen_mark_def Let_def)
    next
      case (Suc j)
      with IH i out mark show ?thesis by (simp add: seen_mark_def Let_def)
    qed
  qed
qed

theorem relayed_events_witness:
  "\<exists>t o1. relay ex_scheme rv_zero [Received \<lparr>ev_Type = EventAdded, ev_Resource = ex_row\<rparr> True] = ([WatchEvent t o1], False)
     \<and> parseResourceVersion o1 = Inr 1 \<and> t = Watch_Added"
proof -
  let ?ev = "\<lparr>ev_Type = EventAdded, ev_Resource = ex_row\<rparr>"
  have f: "snd (relay ex_scheme rv_zero (map (\<lambda>ev. Received ev True) [?ev])) = False" by code_simp
  obtain out where out: "relay ex_scheme rv_zero (map (\<lambda>ev. Received ev True) [?ev]) = (out, False)"
    using f by (metis prod.collapse)
  have row: "rObjectVersion ex_row = 1" "rDeletionTimestamp ex_row = None" by (simp_all add: ex_row_def)
  show ?thesis
    using relayed_events [OF out] out row
    by (cases out) (auto simp: event_type_def Let_def)
qed

text \<open>
  A client that resumes from the resource version of a relayed
  object can miss a change. The relay stamps the highest transaction id it has seen, while a
  transaction with a smaller id may still be running. Once that one commits, the watcher that
  keeps running delivers its row, and one that is started from the stamped version does not.
\<close>

theorem resume_skips_late_commit:
  assumes "pollAll h cfg sn hwm = Inr (events, hwm')" "ev \<in> set events"
    and "relay_event scheme rv ev = Inr (rv', we)"
    and "hwm' < rTxidStamp late" "rTxidStamp late \<le> rTxidStamp (ev_Resource ev)"
    and "late \<in> set (sn_rows sn2)" "watches h cfg late"
    and "pollAll h cfg sn2 hwm' = Inr (kept, hwm2)" "pollAll h cfg sn2 (Watermark rv') = Inr (resumed, hwm3)"
  shows "late \<in> ev_Resource ` set kept \<and> late \<notin> ev_Resource ` set resumed"
proof -
  have "rTxidStamp (ev_Resource ev) \<le> Watermark rv'"
    using assms(3) by (auto simp: relay_event_def relay_rv_def inversions Let_def)
  then show ?thesis
    using pollAll_Inr(1) [OF assms(8)] pollAll_Inr(1) [OF assms(9)] assms(4-7) by auto
qed

definition late_row :: Resource where
  "late_row = ex_row\<lparr>rName := ''c2'', rTxidStamp := 6\<rparr>"

definition early_row :: Resource where
  "early_row = ex_row\<lparr>rTxidStamp := 7\<rparr>"

definition gap_sn :: "rows \<Rightarrow> u64 \<Rightarrow> snapshot" where
  "gap_sn rs xmin = \<lparr>sn_rows = rs, sn_horizon = (\<lambda>_. None), sn_xmin = xmin\<rparr>"

definition gap_cfg :: WatcherConfig where
  "gap_cfg = \<lparr>wc_GVK = rGVK ex_row, wc_StartRV = rv_zero, BaselineInterval = 1, DebounceFloor = 1,
     wc_Shard = None, ListenConnFactory = False\<rparr>"

theorem resume_skips_late_commit_witness:
  "late_row \<notin> ev_Resource ` set (fst (projr (pollAll (\<lambda>_. 0) gap_cfg (gap_sn [early_row, late_row] 8) 7)))"
proof -
  let ?ev = "\<lparr>ev_Type = EventAdded, ev_Resource = early_row\<rparr>"
  have p1: "pollAll (\<lambda>_. 0) gap_cfg (gap_sn [early_row] 6) 4 = Inr ([?ev], 5)" by code_simp
  have "isl (relay_event ex_scheme rv_zero ?ev) = False \<and> Watermark (fst (projr (relay_event ex_scheme rv_zero ?ev))) = 7"
    by code_simp
  then obtain rv' we where r: "relay_event ex_scheme rv_zero ?ev = Inr (rv', we)" "Watermark rv' = 7"
    by (cases "relay_event ex_scheme rv_zero ?ev") auto
  have k: "isl (pollAll (\<lambda>_. 0) gap_cfg (gap_sn [early_row, late_row] 8) 5) = False"
    "isl (pollAll (\<lambda>_. 0) gap_cfg (gap_sn [early_row, late_row] 8) 7) = False" by code_simp+
  obtain kept m2 res m3 where polls: "pollAll (\<lambda>_. 0) gap_cfg (gap_sn [early_row, late_row] 8) 5 = Inr (kept, m2)"
    "pollAll (\<lambda>_. 0) gap_cfg (gap_sn [early_row, late_row] 8) 7 = Inr (res, m3)"
    using k by (cases "pollAll (\<lambda>_. 0) gap_cfg (gap_sn [early_row, late_row] 8) 5";
      cases "pollAll (\<lambda>_. 0) gap_cfg (gap_sn [early_row, late_row] 8) 7") auto
  have "late_row \<notin> ev_Resource ` set res"
    using resume_skips_late_commit [OF p1 _ r(1) _ _ _ _ polls(1), of late_row res m3] polls(2) r(2)
    by (simp add: late_row_def early_row_def gap_sn_def gap_cfg_def watches_def ex_row_def)
  with polls(2) show ?thesis by simp
qed

section \<open>Lists and watches of an informer agree\<close>

text \<open>The list and the watch of one informer select the same rows, so that the guarantee for a
  watcher started from a list applies to it; and every informer of a started cache runs, once.\<close>

lemma informer_list_watch_agree:
  assumes "informer_watch pok lok c g rvs = Inr cfg"
  shows "set (Resources (reader_List h sn (gvkToString g) (map_option ToListFilter (informer_shard c g)))) =
    {r \<in> set (sn_rows sn). watches h cfg r \<and> \<not> is_tombstone r}"
proof -
  have cfg: "wc_GVK cfg = gvkToString g" "wc_Shard cfg = informer_shard c g"
    using assms by (auto simp: informer_watch_def inversions watcher_defaults_def Let_def split: if_splits)
  show ?thesis
    by (cases "informer_shard c g")
      (auto simp: set_list_unsharded set_list_sharded watches_def cfg)
qed

definition cache_inv :: "pgCache \<Rightarrow> bool" where
  "cache_inv c \<longleftrightarrow> distinct (pc_informers c) \<and> pc_running c = (if pc_started c then pc_informers c else [])"

lemma cache_inv_steps:
  "new_cache b dsn sh = Inr c \<Longrightarrow> cache_inv c"
  "cache_inv c \<Longrightarrow> getOrCreateInformer scheme g c = Inr c' \<Longrightarrow> cache_inv c'"
  "cache_inv c \<Longrightarrow> \<not> pc_started c \<Longrightarrow> cache_inv (cache_Start c)"
  by (auto simp: cache_inv_def new_cache_def getOrCreateInformer_def cache_Start_def Let_def
      split: if_splits option.splits)

end
