(* ===== verification/Doorbell.thy ===== *)
theory Doorbell
  imports WatchSystem WriterProps "HOL-Library.AList"
begin

text \<open>
  \<open>hyperfleet-db/internal/doorbell/doorbell.go\<close>, the debounced notifications, and
  \<open>hyperfleet-db/internal/verifier/verifier.go\<close>, the canary consumer that measures delivery.
\<close>

section \<open>The debouncer\<close>

record Debouncer =
  dirty :: "string list"                     \<comment> \<open>the keys of the Go map, in its iteration order\<close>
  stopped :: bool

definition NewDebouncer :: Debouncer where
  "NewDebouncer = \<lparr>dirty = [], stopped = False\<rparr>"

definition Ring :: "string \<Rightarrow> Debouncer \<Rightarrow> Debouncer" where
  "Ring gvk d = (if gvk \<in> set (dirty d) then d else d\<lparr>dirty := gvk # dirty d\<rparr>)"

text \<open>\<open>flush\<close>: one \<open>pg_notify\<close> per dirty GVK; \<open>ok\<close> says which of the statements succeed. The set is
  cleared before anything is sent. The result is the list of channels that were notified.\<close>

definition flush :: "(string \<Rightarrow> 8 word list) \<Rightarrow> (string \<Rightarrow> bool) \<Rightarrow> Debouncer \<Rightarrow> string list \<times> Debouncer" where
  "flush sha256 ok d =
     (if dirty d = [] then ([], d)
      else (filter ok (map (DoorbellChannel sha256) (dirty d)), d\<lparr>dirty := []\<rparr>))"

text \<open>The events of the loop: a write rings, the ticker fires, \<open>Close\<close>. After \<open>Close\<close> the loop is
  over; a later ring only marks its GVK.\<close>

datatype bell_event = BellRing string | BellTick "string \<Rightarrow> bool" | BellClose "string \<Rightarrow> bool"

fun bell_step :: "(string \<Rightarrow> 8 word list) \<Rightarrow> bell_event \<Rightarrow> Debouncer \<Rightarrow> string list \<times> Debouncer" where
  "bell_step sha256 (BellRing g) d = ([], Ring g d)"
| "bell_step sha256 (BellTick ok) d = (if stopped d then ([], d) else flush sha256 ok d)"
| "bell_step sha256 (BellClose ok) d =
     (if stopped d then ([], d) else let (out, d') = flush sha256 ok d in (out, d'\<lparr>stopped := True\<rparr>))"

fun bell_run :: "(string \<Rightarrow> 8 word list) \<Rightarrow> bell_event list \<Rightarrow> Debouncer \<Rightarrow> string list list \<times> Debouncer" where
  "bell_run sha256 [] d = ([], d)"
| "bell_run sha256 (e # es) d =
     (let (out, d') = bell_step sha256 e d; (outs, d'') = bell_run sha256 es d' in (out # outs, d''))"

lemma Ring_dirty [simp]: "set (dirty (Ring g d)) = insert g (set (dirty d))" "stopped (Ring g d) = stopped d"
  by (auto simp: Ring_def)

lemma Ring_distinct: "distinct (dirty d) \<Longrightarrow> distinct (dirty (Ring g d))"
  by (simp add: Ring_def)

lemma bell_distinct: "distinct (dirty d) \<Longrightarrow> distinct (dirty (snd (bell_step h e d)))"
  by (cases e) (simp_all add: Ring_distinct flush_def Let_def)

lemma bell_rings: "snd (bell_run h (map BellRing gs) d) = fold Ring gs d"
  by (induction gs arbitrary: d) (simp_all add: Let_def split_beta)

lemma fold_Ring:
  "set (dirty (fold Ring gs d)) = set gs \<union> set (dirty d)" "stopped (fold Ring gs d) = stopped d"
  by (induction gs arbitrary: d) auto

lemma fold_Ring_distinct: "distinct (dirty d) \<Longrightarrow> distinct (dirty (fold Ring gs d))"
  by (induction gs arbitrary: d) (simp_all add: Ring_distinct)

text \<open>
  However many writes ring between two ticks, the next tick notifies the channel of
  every GVK that was rung, as long as the server accepts the statement, and notifies no GVK twice;
  afterwards nothing is pending.
\<close>

theorem rings_reach_the_next_tick:
  assumes "\<not> stopped d" "distinct (dirty d)" "g \<in> set gs" "ok (DoorbellChannel h g)"
  shows "let d1 = snd (bell_run h (map BellRing gs) d); (out, d2) = bell_step h (BellTick ok) d1
    in DoorbellChannel h g \<in> set out \<and> length out \<le> card (set (dirty d1)) \<and> dirty d2 = []"
proof -
  define d1 where "d1 = snd (bell_run h (map BellRing gs) d)"
  have d1: "g \<in> set (dirty d1)" "\<not> stopped d1" "distinct (dirty d1)"
    using assms by (simp_all add: d1_def bell_rings fold_Ring fold_Ring_distinct)
  then have "card (set (dirty d1)) = length (dirty d1)" by (simp add: distinct_card)
  moreover have "length (filter ok (map (DoorbellChannel h) (dirty d1))) \<le> length (dirty d1)"
    by (rule order_trans [OF length_filter_le]) simp
  ultimately show ?thesis
    using d1 assms(4) by (auto simp: d1_def [symmetric] flush_def Let_def)
qed

theorem rings_reach_the_next_tick_witness:
  "''resource_changes_x'' \<in> set (fst (bell_step (\<lambda>_. []) (BellTick (\<lambda>_. True))
     (snd (bell_run (\<lambda>_. []) (map BellRing [''x'', ''y'', ''x'']) NewDebouncer))))"
proof -
  have "DoorbellChannel (\<lambda>_. []) ''x'' = ''resource_changes_x''" by (simp add: DoorbellChannel_def)
  then show ?thesis
    using rings_reach_the_next_tick [of NewDebouncer "''x''" "[''x'', ''y'', ''x'']" "\<lambda>_. True" "\<lambda>_. []"]
    by (auto simp: NewDebouncer_def Let_def split: prod.splits)
qed

section \<open>The verifier\<close>

definition canaryRingSize :: nat where "canaryRingSize = 1000"

record Verifier =
  v_gvk :: string
  v_hwm :: u64
  redeliveries :: nat
  eventsCount :: nat
  canaryCount :: nat
  canaryTimes :: "int list"                  \<comment> \<open>the ring, \<open>canaryRingSize\<close> entries\<close>
  canaryIdx :: nat
  canaryFull :: bool
  pendingCanaries :: "(string \<times> int) list"

definition NewVerifier :: "string \<Rightarrow> Verifier" where
  "NewVerifier gvk = \<lparr>v_gvk = gvk, v_hwm = 0, redeliveries = 0, eventsCount = 0, canaryCount = 0,
     canaryTimes = replicate canaryRingSize 0, canaryIdx = 0, canaryFull = False, pendingCanaries = []\<rparr>"

definition canary_delivered :: "int \<Rightarrow> string \<Rightarrow> Verifier \<Rightarrow> Verifier" where
  "canary_delivered now name v =
     (case map_of (pendingCanaries v) name of
        None \<Rightarrow> v
      | Some written \<Rightarrow>
          (let idx = canaryIdx v + 1
           in v\<lparr>canaryTimes := (canaryTimes v)[canaryIdx v := now - written],
                canaryIdx := (if canaryRingSize \<le> idx then 0 else idx),
                canaryFull := (if canaryRingSize \<le> idx then True else canaryFull v),
                pendingCanaries := filter (\<lambda>(n, _). n \<noteq> name) (pendingCanaries v)\<rparr>))"

definition checkEvent :: "int \<Rightarrow> Event \<Rightarrow> Verifier \<Rightarrow> Verifier" where
  "checkEvent now ev v =
     (let v1 = v\<lparr>eventsCount := eventsCount v + 1\<rparr>;
          txid = rTxidStamp (ev_Resource ev);
          v2 = (if txid \<le> v_hwm v1 \<and> 0 < v_hwm v1 then v1\<lparr>redeliveries := redeliveries v1 + 1\<rparr> else v1);
          v3 = (if rNamespace (ev_Resource ev) = ''_verifier'' then canary_delivered now (rName (ev_Resource ev)) v2 else v2)
      in if v_hwm v3 < txid then v3\<lparr>v_hwm := txid\<rparr> else v3)"

definition canary_request :: "Verifier \<Rightarrow> WriteRequest" where
  "canary_request v =
     \<lparr>wGVK = v_gvk v, wNamespace = ''_verifier'', wName = ''_verifier-canary-'' @ dec_of_nat (canaryCount v),
      wSpec = RawDoc (JObj [(''canary'', JBool True)]), wStatus = RawDoc empty_obj, wMetadata = RawDoc empty_obj,
      wDeletionTimestamp = None, wExpectedVersion = 0, wForceWrite = False\<rparr>"

text \<open>\<open>evict\<close> is the key that the iteration over a full map starts with.\<close>

definition writeCanary :: "wenv \<Rightarrow> int \<Rightarrow> string \<Rightarrow> rows \<Rightarrow> Verifier \<Rightarrow> rows \<times> Verifier" where
  "writeCanary env now evict rs v =
     (let st = Write pg_writer env (canary_request v) rs; name = wName (canary_request v)
      in case ws_result st of
           Inl _ \<Rightarrow> (ws_rows st, v)
         | Inr _ \<Rightarrow>
             (let pend = (if canaryRingSize \<le> length (pendingCanaries v)
                          then filter (\<lambda>(n, _). n \<noteq> evict) (pendingCanaries v) else pendingCanaries v)
              in (ws_rows st, v\<lparr>canaryCount := canaryCount v + 1, pendingCanaries := AList.update name now pend\<rparr>)))"

text \<open>The 99th percentile of \<open>Result\<close>: \<open>int(float64(n) * 0.99)\<close> is \<open>99 n div 100\<close> for the at most 1000
  entries of the ring.\<close>

definition canary_p99 :: "Verifier \<Rightarrow> int" where
  "canary_p99 v =
     (let n = (if canaryFull v then canaryRingSize else canaryIdx v)
      in if n = 0 then 0
         else let sorted = sort (take n (canaryTimes v)); idx = 99 * n div 100
              in sorted ! (if n \<le> idx then n - 1 else idx))"

definition verifier_inv :: "Verifier \<Rightarrow> bool" where
  "verifier_inv v \<longleftrightarrow> length (canaryTimes v) = canaryRingSize \<and> canaryIdx v < canaryRingSize
     \<and> distinct (map fst (pendingCanaries v)) \<and> redeliveries v \<le> eventsCount v"

lemma verifier_inv_new: "verifier_inv (NewVerifier gvk)"
  by (simp add: verifier_inv_def NewVerifier_def canaryRingSize_def)

lemma canary_delivered_inv: "verifier_inv v \<Longrightarrow> verifier_inv (canary_delivered now name v)"
  by (auto simp: verifier_inv_def canary_delivered_def Let_def distinct_map_filter split: option.splits)

lemma checkEvent_inv: "verifier_inv v \<Longrightarrow> verifier_inv (checkEvent now ev v)"
proof -
  assume v: "verifier_inv v"
  then have "verifier_inv (v\<lparr>eventsCount := eventsCount v + 1\<rparr>)"
    "verifier_inv (v\<lparr>eventsCount := eventsCount v + 1, redeliveries := redeliveries v + 1\<rparr>)"
    by (simp_all add: verifier_inv_def)
  note inv = this this [THEN canary_delivered_inv]
  have hwm: "verifier_inv (u\<lparr>v_hwm := x\<rparr>) = verifier_inv u" for u x by (simp add: verifier_inv_def)
  show ?thesis using inv by (simp add: checkEvent_def Let_def hwm)
qed

text \<open>Every index the ring and the percentile use is in range.\<close>

lemma canary_p99_in_ring:
  assumes "verifier_inv v" "canaryFull v \<or> canaryIdx v \<noteq> 0"
  shows "canary_p99 v \<in> set (canaryTimes v)"
proof -
  let ?n = "if canaryFull v then canaryRingSize else canaryIdx v"
  have n: "0 < ?n" "?n \<le> length (canaryTimes v)"
    using assms by (auto simp: verifier_inv_def canaryRingSize_def)
  then have "(if ?n \<le> 99 * ?n div 100 then ?n - 1 else 99 * ?n div 100) < length (sort (take ?n (canaryTimes v)))"
    by auto
  from nth_mem [OF this] have "canary_p99 v \<in> set (take ?n (canaryTimes v))"
    using n(1) by (simp add: canary_p99_def Let_def)
  then show ?thesis by (rule in_set_takeD)
qed

text \<open>A canary whose row is already there, as after a restart of the verifier, is suppressed: the
  write succeeds, no row changes and so no event follows, but the canary is pending from then on.\<close>

lemma restarted_canary_is_silent:
  assumes "e_fault env = CallOk"
    and "pk_lookup rs (v_gvk v, ''_verifier'', wName (canary_request v)) = Some r"
    and "rSpec r = JObj [(''canary'', JBool True)]" "rStatus r = empty_obj" "rMetadata r = empty_obj" "rDeletionTimestamp r = None"
  shows "fst (writeCanary env now evict rs v) = rs
    \<and> map_of (pendingCanaries (snd (writeCanary env now evict rs v))) (wName (canary_request v)) = Some now"
proof -
  have run: "run_proc env (write_params (canary_request v)) rs =
      Inr (\<lparr>out_uid = rUID r, out_version = rObjectVersion r, out_txid = 0, out_changed = False\<rparr>, rs)"
    using create_run [of "canary_request v" "JObj [(''canary'', JBool True)]" empty_obj empty_obj env rs] assms
    by (simp add: canary_request_def)
  then have "ws_result (Write pg_writer env (canary_request v) rs) =
        Inr \<lparr>resTxid = 0, resObjectVersion = rObjectVersion r, resUID = rUID r, resChanged = False\<rparr>"
      "ws_rows (Write pg_writer env (canary_request v) rs) = rs"
    using assms(1) production_ops(1) [of pg_writer env "canary_request v" rs]
    by (simp_all add: pg_writer_def callStoredProc_def Let_def)
  then show ?thesis by (simp add: writeCanary_def Let_def AList.update_conv')
qed

end
