(* ===== verification/KubeStore.thy ===== *)
theory KubeStore
  imports PgStore
begin

text \<open>
  What the client promises a controller, as operations on a store of typed objects: reads, creates,
  updates with optimistic concurrency and generations, status updates, and deletion held up by
  finalizers. The controllers are modelled over this store; theory \<open>ClientRefines\<close> shows that the
  PostgreSQL client implements it.
\<close>

section \<open>Objects and stores\<close>

record ('s, 't) kobj =
  km_Name :: string
  km_Namespace :: string
  km_UID :: string
  km_RV :: int                               \<comment> \<open>0 when the object carries no version\<close>
  km_Generation :: int
  km_Labels :: "(string \<times> string) list"
  km_Annotations :: "(string \<times> string) list"
  km_OwnerReferences :: "json list"
  km_Finalizers :: "string list"
  km_CreationTimestamp :: int
  km_Deletion :: "int option"
  k_Spec :: 's
  k_Status :: 't

datatype kerr = KNotFound | KConflict | KAlreadyExists | KOther

type_synonym nskey = "string \<times> string"
type_synonym ('s, 't) kstore = "('s, 't) kobj list"

definition k_key :: "('s, 't) kobj \<Rightarrow> nskey" where
  "k_key x = (km_Namespace x, km_Name x)"

definition k_lookup :: "('s, 't) kstore \<Rightarrow> nskey \<Rightarrow> ('s, 't) kobj option" where
  "k_lookup st k = List.find (\<lambda>x. k_key x = k) st"

definition k_remove :: "nskey \<Rightarrow> ('s, 't) kstore \<Rightarrow> ('s, 't) kstore" where
  "k_remove k st = filter (\<lambda>x. k_key x \<noteq> k) st"

text \<open>A written object comes last in later lists; a dying object without finalizers is gone.\<close>

definition k_settle :: "('s, 't) kobj \<Rightarrow> ('s, 't) kstore \<Rightarrow> ('s, 't) kstore" where
  "k_settle x st =
     (if km_Deletion x \<noteq> None \<and> km_Finalizers x = [] then k_remove (k_key x) st
      else k_remove (k_key x) st @ [x])"

lemma k_lookup_remove: "k_lookup (k_remove k' st) k = (if k = k' then None else k_lookup st k)"
  unfolding k_lookup_def k_remove_def by (induction st) auto

lemma k_lookup_key: "k_lookup st k = Some x \<Longrightarrow> k_key x = k \<and> x \<in> set st"
  by (auto simp: k_lookup_def dest: find_map_Some)

lemma k_lookup_append: "k_lookup (st @ [x]) k = (case k_lookup st k of Some y \<Rightarrow> Some y | None \<Rightarrow> if k_key x = k then Some x else None)"
  by (simp add: k_lookup_def find_append_one)

lemma k_lookup_settle:
  "k_lookup (k_settle x st) k =
     (if k = k_key x then (if km_Deletion x \<noteq> None \<and> km_Finalizers x = [] then None else Some x) else k_lookup st k)"
  by (auto simp: k_settle_def k_lookup_remove k_lookup_append split: option.splits)

section \<open>Operations\<close>

text \<open>The parts of an object that a write takes from the caller.\<close>

definition with_meta :: "('s, 't) kobj \<Rightarrow> ('s, 't) kobj \<Rightarrow> ('s, 't) kobj" where
  "with_meta cur x = cur\<lparr>km_Generation := km_Generation x, km_Labels := km_Labels x, km_Annotations := km_Annotations x,
     km_OwnerReferences := km_OwnerReferences x, km_Finalizers := km_Finalizers x\<rparr>"

text \<open>\<open>now\<close> is the clock of the client, which the returned object carries, \<open>dbnow\<close> the server's.\<close>

definition k_create :: "int \<Rightarrow> int \<Rightarrow> string \<Rightarrow> ('s, 't) kobj \<Rightarrow> ('s, 't) kstore \<Rightarrow> kerr + (('s, 't) kobj \<times> ('s, 't) kstore)" where
  "k_create now dbnow uid x0 st =
     (let x = x0\<lparr>km_Generation := 1\<rparr>
      in case k_lookup st (k_key x) of
           None \<Rightarrow> Inr (x\<lparr>km_UID := uid, km_RV := 1, km_CreationTimestamp := now\<rparr>,
                       st @ [x\<lparr>km_UID := uid, km_RV := 1, km_CreationTimestamp := dbnow, km_Deletion := None\<rparr>])
         | Some cur \<Rightarrow>
             if with_meta cur x = cur \<and> k_Spec x = k_Spec cur \<and> k_Status x = k_Status cur \<and> km_Deletion cur = None
             then Inr (x\<lparr>km_UID := km_UID cur, km_RV := km_RV cur, km_CreationTimestamp := now\<rparr>, st)
             else Inl KAlreadyExists)"

text \<open>The generation after an update; \<open>same\<close> compares specs.\<close>

definition k_generation :: "('s \<Rightarrow> 's \<Rightarrow> bool) \<Rightarrow> ('s, 't) kobj \<Rightarrow> ('s, 't) kobj \<Rightarrow> int" where
  "k_generation same cur x = (if same (k_Spec cur) (k_Spec x) then km_Generation x else km_Generation cur + 1)"

definition k_write :: "('s, 't) kobj \<Rightarrow> int \<Rightarrow> ('s, 't) kobj \<Rightarrow> ('s, 't) kstore \<Rightarrow> kerr + (int \<times> ('s, 't) kstore)" where
  "k_write cur v new st =
     (if new = cur then Inr (km_RV cur, st)
      else if v \<noteq> km_RV cur then Inl KConflict
      else Inr (v + 1, k_settle (new\<lparr>km_RV := v + 1\<rparr>) st))"

definition k_update :: "('s \<Rightarrow> 's \<Rightarrow> bool) \<Rightarrow> ('s, 't) kobj \<Rightarrow> ('s, 't) kstore \<Rightarrow> kerr + (('s, 't) kobj \<times> ('s, 't) kstore)" where
  "k_update same x0 st =
     (case k_lookup st (k_key x0) of
        None \<Rightarrow> Inl KNotFound
      | Some cur \<Rightarrow>
          if km_RV x0 = 0 then Inl KOther
          else let x = x0\<lparr>km_Generation := k_generation same cur x0\<rparr>
               in bindR (k_write cur (km_RV x0) ((with_meta cur x)\<lparr>k_Spec := k_Spec x\<rparr>) st) (\<lambda>(v, st').
                    Inr (x\<lparr>km_RV := v\<rparr>, st')))"

definition k_status_update :: "('s, 't) kobj \<Rightarrow> ('s, 't) kstore \<Rightarrow> kerr + (('s, 't) kobj \<times> ('s, 't) kstore)" where
  "k_status_update x st =
     (if km_RV x = 0 then Inl KOther
      else case k_lookup st (k_key x) of
             None \<Rightarrow> Inl KConflict
           | Some cur \<Rightarrow>
               bindR (k_write cur (km_RV x) (cur\<lparr>k_Status := k_Status x\<rparr>) st) (\<lambda>(v, st'). Inr (x\<lparr>km_RV := v\<rparr>, st')))"

definition k_delete :: "int \<Rightarrow> ('s, 't) kobj \<Rightarrow> ('s, 't) kstore \<Rightarrow> kerr + ('s, 't) kstore" where
  "k_delete now x st =
     (case k_lookup st (k_key x) of
        None \<Rightarrow> Inl (if km_RV x = 0 then KNotFound else KConflict)
      | Some cur \<Rightarrow>
          if km_RV x = 0
          then map_sum id snd (k_write cur (km_RV cur)
                 (cur\<lparr>km_Deletion := Some (case km_Deletion cur of None \<Rightarrow> now | Some t \<Rightarrow> t)\<rparr>) st)
          else map_sum id snd (k_write cur (km_RV x)
                 ((with_meta cur x)\<lparr>k_Spec := k_Spec x, k_Status := k_Status x, km_Deletion := Some now\<rparr>) st))"

end
