(* ===== verification/ClientRefines.thy ===== *)
theory ClientRefines
  imports PgClientProps KubeStore
begin

text \<open>
  The client of \<open>hyperfleet-db/pgclient.go\<close> implements the store of objects: a simulation between
  the rows of one kind and a store, established call by call.
\<close>

section \<open>Tables and stores\<close>

definition row_sm :: "Resource \<Rightarrow> storedMetadata" where
  "row_sm r = (case unmarshal_sm (rMetadata r) of None \<Rightarrow> zero_sm | Some m \<Rightarrow> m)"

text \<open>The object a row stands for, and the one a caller holds.\<close>

definition abs_row :: "Resource \<Rightarrow> (json, json) kobj" where
  "abs_row r =
     \<lparr>km_Name = rName r, km_Namespace = rNamespace r, km_UID = uidFromUUID (rUID r), km_RV = rObjectVersion r,
      km_Generation = sm_Generation (row_sm r), km_Labels = sm_Labels (row_sm r),
      km_Annotations = sm_Annotations (row_sm r), km_OwnerReferences = sm_OwnerReferences (row_sm r),
      km_Finalizers = sm_Finalizers (row_sm r), km_CreationTimestamp = rCreatedAt r,
      km_Deletion = rDeletionTimestamp r, k_Spec = rSpec r, k_Status = rStatus r\<rparr>"

definition to_k :: "kobject \<Rightarrow> (json, json) kobj" where
  "to_k x =
     \<lparr>km_Name = ko_Name x, km_Namespace = ko_Namespace x, km_UID = ko_UID x,
      km_RV = (case parseResourceVersion x of Inl _ \<Rightarrow> 0 | Inr v \<Rightarrow> v), km_Generation = ko_Generation x,
      km_Labels = ko_Labels x, km_Annotations = ko_Annotations x, km_OwnerReferences = ko_OwnerReferences x,
      km_Finalizers = ko_Finalizers x, km_CreationTimestamp = ko_CreationTimestamp x,
      km_Deletion = ko_DeletionTimestamp x, k_Spec = ko_Spec x, k_Status = ko_Status x\<rparr>"

text \<open>A document the Go type of the kind represents without loss.\<close>

definition typed_docs :: "kind \<Rightarrow> kobject \<Rightarrow> json \<Rightarrow> json \<Rightarrow> bool" where
  "typed_docs k zero s t \<longleftrightarrow>
     (if s = empty_obj then ko_Spec zero = empty_obj else kd_unmarshal_spec k (ko_Spec zero) s = Some s)
   \<and> (if t = empty_obj then ko_Status zero = empty_obj else kd_unmarshal_status k (ko_Status zero) t = Some t)"

definition row_ok :: "kind \<Rightarrow> kobject \<Rightarrow> Resource \<Rightarrow> bool" where
  "row_ok k zero r \<longleftrightarrow> rMetadata r = marshal_sm (row_sm r) \<and> in64 (sm_Generation (row_sm r))
     \<and> 0 < rObjectVersion r \<and> in64 (rObjectVersion r) \<and> typed_docs k zero (rSpec r) (rStatus r)"

definition view :: "Resource option \<Rightarrow> (json, json) kobj option" where
  "view x = (case x of None \<Rightarrow> None | Some r \<Rightarrow> if is_tombstone r then None else Some (abs_row r))"

definition implements :: "kind \<Rightarrow> kobject \<Rightarrow> string \<Rightarrow> rows \<Rightarrow> (json, json) kstore \<Rightarrow> bool" where
  "implements k zero gs rs st \<longleftrightarrow>
     (\<forall>ns n. k_lookup st (ns, n) = view (pk_lookup rs (gs, ns, n))
           \<and> (\<forall>r. pk_lookup rs (gs, ns, n) = Some r \<longrightarrow> row_ok k zero r))"

lemma row_sm_marshal [simp]: "in64 (sm_Generation m) \<Longrightarrow> row_sm (r\<lparr>rMetadata := marshal_sm m\<rparr>) = m"
  by (simp add: row_sm_def unmarshal_marshal_sm)

lemma row_ok_tombstone:
  "row_ok k zero r \<Longrightarrow> is_tombstone r \<longleftrightarrow> km_Deletion (abs_row r) \<noteq> None \<and> km_Finalizers (abs_row r) = []"
  using no_finalizers_marshal [of "row_sm r"] by (auto simp: row_ok_def is_tombstone_def abs_row_def)

lemma row_ok_deleted: "row_ok k zero r \<Longrightarrow> isFullyDeleted r = is_tombstone r"
  using no_finalizers_marshal [of "row_sm r"] unmarshal_marshal_sm [of "row_sm r"]
  by (auto simp: row_ok_def is_tombstone_def isFullyDeleted_def hasFinalizers_def)

lemma implements_put:
  assumes "implements k zero gs rs st" "row_key r = (gs, ns, n)" "row_ok k zero r"
  shows "implements k zero gs (put_row r rs) (k_settle (abs_row r) st)"
proof -
  have key: "k_key (abs_row r) = (ns, n)" using assms(2) by (simp add: k_key_def abs_row_def row_key_def)
  show ?thesis
    using assms unfolding implements_def
    by (auto simp: pk_lookup_put k_lookup_settle key view_def row_ok_tombstone [OF assms(3)])
qed

section \<open>The write procedure, step by step\<close>

text \<open>No unique index speaks about the kind: every kind but \<open>Cluster\<close> and \<open>OidcConfig\<close>.\<close>

definition unindexed :: "string \<Rightarrow> bool" where
  "unindexed gs \<longleftrightarrow> gs \<noteq> ''hyperfleet.io/v1alpha1/Cluster'' \<and> gs \<noteq> ''hyperfleet.io/v1alpha1/OidcConfig''"

lemma unindexed_ok:
  assumes "unindexed (rGVK r)"
  shows "unique_ok rs r"
proof -
  have "idx_entries r = []"
    using assms unfolding unindexed_def idx_entries_def idx_cluster_name_hash4_def
      idx_oidcconfig_unmanaged_issuer_url_def idx_cluster_oidcconfig_id_def by simp
  then show ?thesis by (simp add: unique_ok_def list_all_iff)
qed

definition with_docs :: "pg_args \<Rightarrow> Resource \<Rightarrow> Resource" where
  "with_docs a r =
     (if p_status_only a then r\<lparr>rStatus := the (p_status a)\<rparr>
      else r\<lparr>rSpec := the (p_spec a), rStatus := (case p_status a of None \<Rightarrow> rStatus r | Some t \<Rightarrow> t),
             rMetadata := the (p_metadata a), rDeletionTimestamp := p_deletion_ts a\<rparr>)"

definition next_row :: "wenv \<Rightarrow> pg_args \<Rightarrow> Resource \<Rightarrow> Resource" where
  "next_row env a r = (with_docs a r)\<lparr>rTxidStamp := e_txid env, rObjectVersion := p_expected_version a + 1, rUpdatedAt := e_now env\<rparr>"

definition docs_given :: "pg_args \<Rightarrow> bool" where
  "docs_given a \<longleftrightarrow> (if p_status_only a then p_status a \<noteq> None else p_spec a \<noteq> None \<and> p_metadata a \<noteq> None)"

lemma content_equal_docs: "docs_given a \<Longrightarrow> content_equal a r \<longleftrightarrow> with_docs a r = r"
  by (cases r) (auto simp: docs_given_def content_equal_def with_docs_def split: option.splits if_splits)

text \<open>What the procedure does at a version: the four ways through it.\<close>

lemma versioned_run:
  assumes "proc_args p = Inr a" "docs_given a" "\<not> wp_forceWrite p" "wp_expectedVersion p \<noteq> 0"
    and "unindexed (wp_gvk p)" "in64 (wp_expectedVersion p + 1)"
  shows "pk_lookup rs (params_key p) = None \<Longrightarrow> run_proc env p rs = Inl ''P0002''"
    and "pk_lookup rs (params_key p) = Some r \<Longrightarrow> with_docs a r = r \<Longrightarrow>
      run_proc env p rs = Inr (\<lparr>out_uid = rUID r, out_version = rObjectVersion r, out_txid = 0, out_changed = False\<rparr>, rs)"
    and "pk_lookup rs (params_key p) = Some r \<Longrightarrow> with_docs a r \<noteq> r \<Longrightarrow> rObjectVersion r \<noteq> wp_expectedVersion p \<Longrightarrow>
      run_proc env p rs = Inl ''P0002''"
    and "pk_lookup rs (params_key p) = Some r \<Longrightarrow> with_docs a r \<noteq> r \<Longrightarrow> rObjectVersion r = wp_expectedVersion p \<Longrightarrow>
      unique_ok rs (next_row env a r) \<and> run_proc env p rs = store_row (next_row env a r) rs"
proof -
  note pa = proc_args_Inr [OF assms(1)]
  have unfolded: "run_proc env p rs = pgctl_write (e_txid env) (e_now env) (e_uuid env) a rs"
    using assms(1) by (simp add: run_proc_def)
  note update_defs = pgctl_write_def pg_upsert_def pg_write_status_def pg_update_def sql_update_def found_def
  show "run_proc env p rs = Inl ''P0002''" if "pk_lookup rs (params_key p) = None"
    using assms pa that unfolding unfolded by (auto simp: update_defs pg_suppressed_def)
  show "run_proc env p rs = Inr (\<lparr>out_uid = rUID r, out_version = rObjectVersion r, out_txid = 0, out_changed = False\<rparr>, rs)"
    if "pk_lookup rs (params_key p) = Some r" "with_docs a r = r"
    using assms pa that unfolding unfolded by (simp add: pgctl_write_def pg_suppressed_def content_equal_docs)
  have sup: "pg_suppressed a rs = None" if "pk_lookup rs (params_key p) = Some r" "with_docs a r \<noteq> r"
    using assms pa that by (simp add: pg_suppressed_def content_equal_docs)
  show "run_proc env p rs = Inl ''P0002''"
    if "pk_lookup rs (params_key p) = Some r" "with_docs a r \<noteq> r" "rObjectVersion r \<noteq> wp_expectedVersion p"
    using assms pa that sup [OF that(1,2)] unfolding unfolded by (auto simp: update_defs)
  show "unique_ok rs (next_row env a r) \<and> run_proc env p rs = store_row (next_row env a r) rs"
    if r: "pk_lookup rs (params_key p) = Some r" "with_docs a r \<noteq> r" "rObjectVersion r = wp_expectedVersion p"
  proof
    have "rGVK r = wp_gvk p" using pk_lookup_Some [OF r(1)] by (simp add: row_key_def)
    then show uniq: "unique_ok rs (next_row env a r)"
      using assms(5) by (intro unindexed_ok) (simp add: next_row_def with_docs_def)
    show "run_proc env p rs = store_row (next_row env a r) rs"
      using assms(2,4,6) pa r sup [OF r(1,2)] uniq unfolding unfolded
      by (cases r) (auto simp: update_defs store_row_def docs_given_def set_status_def set_object_def bigint_succ_def
          not_null_def with_docs_def next_row_def)
  qed
qed

lemma versioned_call:
  assumes "e_fault env = CallOk" "proc_args p = Inr a" "docs_given a" "\<not> wp_forceWrite p" "wp_expectedVersion p \<noteq> 0"
    and "unindexed (wp_gvk p)" "in64 (wp_expectedVersion p + 1)"
  shows "fst (callStoredProc w env p rs) =
      (case pk_lookup rs (params_key p) of
         None \<Rightarrow> Inl ErrConflict
       | Some r \<Rightarrow> if with_docs a r = r
                  then Inr \<lparr>resTxid = 0, resObjectVersion = rObjectVersion r, resUID = rUID r, resChanged = False\<rparr>
                  else if rObjectVersion r \<noteq> wp_expectedVersion p then Inl ErrConflict
                  else Inr \<lparr>resTxid = e_txid env, resObjectVersion = wp_expectedVersion p + 1, resUID = rUID r, resChanged = True\<rparr>)
    \<and> fst (snd (callStoredProc w env p rs)) =
      (case pk_lookup rs (params_key p) of
         None \<Rightarrow> rs
       | Some r \<Rightarrow> if with_docs a r = r \<or> rObjectVersion r \<noteq> wp_expectedVersion p then rs else put_row (next_row env a r) rs)"
proof (cases "pk_lookup rs (params_key p)")
  case None
  then show ?thesis using versioned_run(1) [OF assms(2-7) None] assms(1) by (simp add: callStoredProc_def mapStoredProcError_def)
next
  case (Some r)
  note run = versioned_run(2-) [OF assms(2-7) Some]
  consider "with_docs a r = r" | "with_docs a r \<noteq> r" "rObjectVersion r \<noteq> wp_expectedVersion p"
    | "with_docs a r \<noteq> r" "rObjectVersion r = wp_expectedVersion p" by blast
  then show ?thesis
  proof cases
    case 1
    with Some run(1) assms(1) show ?thesis by (simp add: callStoredProc_def Let_def)
  next
    case 2
    with Some run(2) assms(1) show ?thesis by (simp add: callStoredProc_def mapStoredProcError_def)
  next
    case 3
    with Some run(3) [of env] assms(1) show ?thesis
      by (simp add: callStoredProc_def Let_def store_row_def)
        (simp add: next_row_def with_docs_def proc_args_Inr(2) [OF assms(2)])
  qed
qed

section \<open>The client refines the store\<close>

lemma implementsD:
  assumes "implements k zero gs rs st"
  shows "k_lookup st (ns, n) = view (pk_lookup rs (gs, ns, n))"
    and "pk_lookup rs (gs, ns, n) = Some r \<Longrightarrow> row_ok k zero r"
  using assms by (simp_all add: implements_def)

lemma abs_with_docs:
  assumes "row_ok k zero r" "row_ok k zero (with_docs a r)"
  shows "abs_row (with_docs a r) = abs_row r \<longleftrightarrow> with_docs a r = r"
proof
  assume eq: "abs_row (with_docs a r) = abs_row r"
  then have "row_sm (with_docs a r) = row_sm r"
    by (cases "row_sm r"; cases "row_sm (with_docs a r)") (simp add: abs_row_def)
  then have "rMetadata (with_docs a r) = rMetadata r" using assms by (simp add: row_ok_def)
  moreover have "rSpec (with_docs a r) = rSpec r" "rStatus (with_docs a r) = rStatus r"
      "rDeletionTimestamp (with_docs a r) = rDeletionTimestamp r"
    using eq by (simp_all add: abs_row_def)
  ultimately show "with_docs a r = r" by (cases r) (auto simp: with_docs_def)
qed simp

lemma abs_next_row:
  "abs_row (next_row env a r) = (abs_row (with_docs a r))\<lparr>km_RV := p_expected_version a + 1\<rparr>"
  by (simp add: next_row_def abs_row_def row_sm_def)

definition write_matches ::
  "kind \<Rightarrow> kobject \<Rightarrow> string \<Rightarrow> (werror + WriteResult) \<times> rows \<times> string list \<Rightarrow> kerr + (int \<times> (json, json) kstore) \<Rightarrow> rows \<Rightarrow> bool"
where
  "write_matches k zero gs c kw rs \<longleftrightarrow>
     (case kw of
        Inl e \<Rightarrow> e = KConflict \<and> fst c = Inl ErrConflict \<and> fst (snd c) = rs
      | Inr (v, st') \<Rightarrow> (\<exists>res. fst c = Inr res \<and> resObjectVersion res = v) \<and> in64 v \<and> 0 < v \<and> implements k zero gs (fst (snd c)) st')"

lemma write_refines:
  assumes "implements k zero gs rs st" "pk_lookup rs (gs, ns, n) = Some r" "\<not> is_tombstone r"
    and "e_fault env = CallOk" "proc_args p = Inr a" "docs_given a" "\<not> wp_forceWrite p" "0 < wp_expectedVersion p"
    and "unindexed gs" "in64 (wp_expectedVersion p + 1)" "params_key p = (gs, ns, n)" "row_ok k zero (with_docs a r)"
  shows "write_matches k zero gs (callStoredProc w env p rs)
    (k_write (abs_row r) (wp_expectedVersion p) (abs_row (with_docs a r)) st) rs"
proof -
  have ver: "wp_expectedVersion p \<noteq> 0" "unindexed (wp_gvk p)" using assms(8,9,11) by auto
  note vc = versioned_call [OF assms(4-7) ver assms(10), of w rs]
  note pa = proc_args_Inr(2) [OF assms(5)]
  have ok: "row_ok k zero r" using implementsD(2) [OF assms(1,2)] .
  have same: "abs_row (with_docs a r) = abs_row r \<longleftrightarrow> with_docs a r = r" using ok assms(12) by (rule abs_with_docs)
  have key: "row_key (next_row env a r) = (gs, ns, n)"
    using pk_lookup_Some [OF assms(2)] by (simp add: next_row_def with_docs_def row_key_def)
  have rv: "km_RV (abs_row r) = rObjectVersion r" by (simp add: abs_row_def)
  have ok': "row_ok k zero (next_row env a r)"
    using assms(8,10,12) by (simp add: row_ok_def next_row_def row_sm_def pa)
  show ?thesis
    using vc assms(1,2,8,10,11) ok implements_put [OF assms(1) key ok'] pa
    by (auto simp: write_matches_def k_write_def same rv abs_next_row row_ok_def)
qed

datatype 'o call = CallGet string string | CallCreate 'o | CallUpdate 'o | CallStatusUpdate 'o | CallDelete 'o

fun client_call :: "cenv \<Rightarrow> kind \<Rightarrow> kobject \<Rightarrow> kobject call \<Rightarrow> rows \<Rightarrow> (cerror + kobject) \<times> rows" where
  "client_call env k zero (CallGet ns n) rs = (client_Get env k rs ns n zero, rs)"
| "client_call env k zero (CallCreate x) rs = (let s = client_Create env k [] x rs in (cs_result s, cs_rows s))"
| "client_call env k zero (CallUpdate x) rs = (let s = client_Update env k [] x rs in (cs_result s, cs_rows s))"
| "client_call env k zero (CallStatusUpdate x) rs = (let s = status_Update env k [] x rs in (cs_result s, cs_rows s))"
| "client_call env k zero (CallDelete x) rs = (let s = client_Delete env k plain_delete x rs in (cs_result s, cs_rows s))"

fun outcome :: "('s, 't) kstore \<Rightarrow> kerr + (('s, 't) kobj \<times> ('s, 't) kstore) \<Rightarrow> (kerr + ('s, 't) kobj) \<times> ('s, 't) kstore" where
  "outcome st (Inl e) = (Inl e, st)"
| "outcome st (Inr (x, st')) = (Inr x, st')"

fun store_call ::
  "('s \<Rightarrow> 's \<Rightarrow> bool) \<Rightarrow> int \<Rightarrow> int \<Rightarrow> string \<Rightarrow> ('s, 't) kobj call \<Rightarrow> ('s, 't) kstore \<Rightarrow> (kerr + ('s, 't) kobj) \<times> ('s, 't) kstore"
where
  "store_call same now dbnow uid (CallGet ns n) st =
     ((case k_lookup st (ns, n) of None \<Rightarrow> Inl KNotFound | Some x \<Rightarrow> Inr x), st)"
| "store_call same now dbnow uid (CallCreate x) st = outcome st (k_create now dbnow uid x st)"
| "store_call same now dbnow uid (CallUpdate x) st = outcome st (k_update same x st)"
| "store_call same now dbnow uid (CallStatusUpdate x) st = outcome st (k_status_update x st)"
| "store_call same now dbnow uid (CallDelete x) st = outcome st (map_sum id (Pair x) (k_delete now x st))"

fun kerr_of :: "cerror \<Rightarrow> kerr" where
  "kerr_of (NotFound _ _) = KNotFound"
| "kerr_of (Conflict _ _) = KConflict"
| "kerr_of (AlreadyExists _ _) = KAlreadyExists"
| "kerr_of _ = KOther"

definition result_matches :: "cerror + kobject \<Rightarrow> kerr + (json, json) kobj \<Rightarrow> bool" where
  "result_matches r x \<longleftrightarrow> map_sum kerr_of to_k r = x"

text \<open>The calls the refinement covers: a caller's object carries a version the client can read, a
  64-bit generation and documents of its type; a status update, or a deletion at a version,
  addresses an object that exists.\<close>

definition call_object :: "'o call \<Rightarrow> 'o option" where
  "call_object c = (case c of CallGet _ _ \<Rightarrow> None | CallCreate x \<Rightarrow> Some x | CallUpdate x \<Rightarrow> Some x
                    | CallStatusUpdate x \<Rightarrow> Some x | CallDelete x \<Rightarrow> Some x)"

definition object_ok :: "kind \<Rightarrow> kobject \<Rightarrow> kobject \<Rightarrow> bool" where
  "object_ok k zero x \<longleftrightarrow> typed_docs k zero (ko_Spec x) (ko_Status x) \<and> in64 (ko_Generation x)
     \<and> \<not> (ko_Name x = [] \<and> ko_GenerateName x \<noteq> [])
     \<and> (case parseResourceVersion x of Inl _ \<Rightarrow> False | Inr v \<Rightarrow> 0 \<le> v \<and> in64 (v + 1))"

definition addresses :: "kobject call \<Rightarrow> (json, json) kstore \<Rightarrow> bool" where
  "addresses c st = (case c of
       CallStatusUpdate x \<Rightarrow> k_lookup st (ko_Namespace x, ko_Name x) \<noteq> None
     | CallDelete x \<Rightarrow> ko_ResourceVersion x \<noteq> [] \<longrightarrow> k_lookup st (ko_Namespace x, ko_Name x) \<noteq> None
     | _ \<Rightarrow> True)"

definition room :: "string \<Rightarrow> rows \<Rightarrow> bool" where
  "room gs rs \<longleftrightarrow> list_all (\<lambda>r. rGVK r = gs \<longrightarrow> in64 (rObjectVersion r + 1) \<and> in64 (sm_Generation (row_sm r) + 1)) rs"

definition faultless :: "cenv \<Rightarrow> bool" where
  "faultless env \<longleftrightarrow> ce_acquire env = None \<and> ce_read env = None \<and> ce_others env = id \<and> e_fault (ce_write env) = CallOk"

definition store_kind :: "kind \<Rightarrow> kobject \<Rightarrow> GVK \<Rightarrow> bool" where
  "store_kind k zero g \<longleftrightarrow> resolveGVK k = Inr g \<and> kd_has_spec k \<and> kd_has_status k \<and> unindexed (gvkToString g)
     \<and> ko_DeletionTimestamp zero = None"

lemma row_ok_sm: "row_ok k zero r \<Longrightarrow> unmarshal_sm (rMetadata r) = Some (row_sm r)"
  using unmarshal_marshal_sm [of "row_sm r"] by (simp add: row_ok_def)

lemma parse_version: "in64 v \<Longrightarrow> parseResourceVersion (x\<lparr>ko_ResourceVersion := dec_of_int v\<rparr>) = Inr v"
  using parse_int_dec [of v] by (auto simp: parseResourceVersion_def Let_def parse_int_def)

lemma populate_abs:
  assumes "row_ok k zero r" "store_kind k zero g"
  obtains o2 where "populateObject k zero r g = Inr o2" "to_k o2 = abs_row r"
proof -
  define b where "b = (populateObjectMeta zero r)\<lparr>ko_GVK := Some g\<rparr>"
  define o2 where "o2 = b\<lparr>ko_Spec := rSpec r, ko_Status := rStatus r\<rparr>"
  have b: "b = zero\<lparr>ko_Name := rName r, ko_Namespace := rNamespace r, ko_UID := uidFromUUID (rUID r),
      ko_ResourceVersion := dec_of_int (rObjectVersion r), ko_CreationTimestamp := rCreatedAt r,
      ko_DeletionTimestamp := rDeletionTimestamp r, ko_Labels := sm_Labels (row_sm r),
      ko_Annotations := sm_Annotations (row_sm r), ko_OwnerReferences := sm_OwnerReferences (row_sm r),
      ko_Finalizers := sm_Finalizers (row_sm r), ko_Generation := sm_Generation (row_sm r), ko_GVK := Some g\<rparr>"
    using assms(2) by (simp add: b_def populateObjectMeta_def row_ok_sm [OF assms(1)] store_kind_def split: option.splits)
  have docs: "typed_docs k zero (rSpec r) (rStatus r)" "in64 (rObjectVersion r)" using assms(1) by (simp_all add: row_ok_def)
  have "populateObject k zero r g = Inr o2"
    using assms(2) docs(1)
    by (auto simp: populateObject_def b_def [symmetric] injectSpecStatus_def o2_def b typed_docs_def store_kind_def split: if_splits)
  moreover have "to_k o2 = abs_row r"
    using parse_int_dec [OF docs(2)]
    by (auto simp: to_k_def abs_row_def o2_def b parseResourceVersion_def Let_def parse_int_def)
  ultimately show thesis by (rule that)
qed

lemma Get_refines:
  assumes "implements k zero (gvkToString g) rs st" "store_kind k zero g" "faultless env"
  shows "result_matches (client_Get env k rs ns n zero) (fst (store_call same now dbnow uid (CallGet ns n) st))"
proof (cases "pk_lookup rs (gvkToString g, ns, n)")
  case None
  with assms show ?thesis
    by (simp add: client_Get_def store_kind_def faultless_def acquire_def mapGetError_def result_matches_def
        implementsD(1) [OF assms(1)] view_def)
next
  case (Some r)
  have ok: "row_ok k zero r" using implementsD(2) [OF assms(1) Some] .
  obtain o2 where "populateObject k zero r g = Inr o2" "to_k o2 = abs_row r"
    using ok assms(2) by (rule populate_abs)
  with assms Some show ?thesis
    by (simp add: client_Get_def store_kind_def faultless_def acquire_def mapGetError_def result_matches_def
        implementsD(1) [OF assms(1)] view_def row_ok_deleted [OF ok])
qed

lemma to_k_version:
  assumes "in64 v"
  shows "to_k (x\<lparr>ko_ResourceVersion := dec_of_int v\<rparr>) = (to_k x)\<lparr>km_RV := v\<rparr>"
  using parse_version [OF assms] by (simp add: to_k_def)

lemma roomD:
  "room gs rs \<Longrightarrow> pk_lookup rs (gs, ns, n) = Some r \<Longrightarrow> in64 (rObjectVersion r + 1) \<and> in64 (sm_Generation (row_sm r) + 1)"
  by (auto simp: room_def list_all_iff row_key_def dest!: pk_lookup_Some)

text \<open>What \<open>Update\<close> makes of the caller's object, and of the row.\<close>

lemma update_object_abs:
  assumes "row_ok k zero r" "in64 (sm_Generation (row_sm r) + 1)" "kd_has_spec k" "object_ok k zero x"
  defines "same \<equiv> (\<lambda>a b. JSONEqual (RawDoc a) (RawDoc b))"
  shows "to_k (update_object k r x) = (to_k x)\<lparr>km_Generation := k_generation same (abs_row r) (to_k x)\<rparr>"
    and "in64 (ko_Generation (update_object k r x))"
  using assms
  by (simp_all add: update_object_def to_k_def parseResourceVersion_def k_generation_def abs_row_def extractSpec_def same_def
      currentGeneration_def row_ok_sm wrap64_id object_ok_def)

lemma with_docs_abs:
  assumes "\<not> p_status_only a" "p_spec a = Some s" "p_metadata a = Some (extractMetadata x)" "in64 (ko_Generation x)"
  shows "abs_row (with_docs a r) = (with_meta (abs_row r) (to_k x))\<lparr>k_Spec := s,
      k_Status := (case p_status a of None \<Rightarrow> rStatus r | Some t \<Rightarrow> t), km_Deletion := p_deletion_ts a\<rparr>"
    and "row_ok k zero (with_docs a r) \<longleftrightarrow> 0 < rObjectVersion r \<and> in64 (rObjectVersion r)
       \<and> typed_docs k zero s (case p_status a of None \<Rightarrow> rStatus r | Some t \<Rightarrow> t)"
  using assms
  by (simp_all add: abs_row_def with_docs_def row_sm_def extract_roundtrip with_meta_def to_k_def sm_of_def row_ok_def
      extractMetadata_def unmarshal_marshal_sm split: option.splits)

lemma implements_listed:
  assumes "implements k zero gs rs st" "k_lookup st (ns, n) = Some cur"
  obtains r where "pk_lookup rs (gs, ns, n) = Some r" "\<not> is_tombstone r" "cur = abs_row r" "row_ok k zero r"
  using implementsD [OF assms(1), of ns n] assms(2) by (auto simp: view_def split: option.splits if_splits)

lemma object_version:
  assumes "object_ok k zero x"
  obtains v where "parseResourceVersion x = Inr v" "0 \<le> v" "in64 (v + 1)" "k_key (to_k x) = (ko_Namespace x, ko_Name x)" "km_RV (to_k x) = v"
  using assms by (auto simp: object_ok_def k_key_def to_k_def split: sum.splits)

text \<open>The write of an update at a version.\<close>

lemma update_write_refines:
  assumes "implements k zero (gvkToString g) rs st" "store_kind k zero g" "e_fault env = CallOk" "room (gvkToString g) rs"
    and "object_ok k zero x" "0 < v" "in64 (v + 1)"
    and "pk_lookup rs (gvkToString g, ko_Namespace x, ko_Name x) = Some r" "\<not> is_tombstone r"
  shows "write_matches k zero (gvkToString g) (callStoredProc pg_writer env (object_params (update_request g k v r x)) rs)
     (k_write (abs_row r) v ((with_meta (abs_row r) (to_k (update_object k r x)))\<lparr>k_Spec := ko_Spec x\<rparr>) st) rs"
proof -
  define p where "p = object_params (update_request g k v r x)"
  obtain a where a: "proc_args p = Inr a" "\<not> p_status_only a" "p_spec a = Some (ko_Spec x)" "p_status a = None"
      "p_metadata a = Some (extractMetadata (update_object k r x))" "p_deletion_ts a = rDeletionTimestamp r"
    using assms(2) by (simp add: p_def proc_args_def object_params_def update_request_def jsonb_arg_def extractSpec_def store_kind_def)
  have p: "wp_expectedVersion p = v" "\<not> wp_forceWrite p" "params_key p = (gvkToString g, ko_Namespace x, ko_Name x)"
    by (simp_all add: p_def object_params_def update_request_def)
  have ok: "row_ok k zero r" using implementsD(2) [OF assms(1,8)] .
  have hs: "in64 (sm_Generation (row_sm r) + 1)" "kd_has_spec k"
    using assms(2) roomD [OF assms(4,8)] by (simp_all add: store_kind_def)
  note wd = with_docs_abs [OF a(2,3,5) update_object_abs(2) [OF ok hs assms(5)], where r = r]
  have ok': "row_ok k zero (with_docs a r)"
    using wd(2) ok assms(5) a(4) by (simp add: row_ok_def object_ok_def typed_docs_def)
  have "abs_row (with_docs a r) = (with_meta (abs_row r) (to_k (update_object k r x)))\<lparr>k_Spec := ko_Spec x\<rparr>"
    unfolding wd(1) by (simp add: a with_meta_def) (simp add: abs_row_def)
  with write_refines [OF assms(1,8,9,3) a(1) _ p(2) _ _ _ p(3) ok', of pg_writer] show ?thesis
    using p(1) assms(2,6,7) a by (auto simp: docs_given_def store_kind_def p_def)
qed

lemma Update_refines:
  assumes "implements k zero (gvkToString g) rs st" "store_kind k zero g" "faultless env" "room (gvkToString g) rs"
    and "object_ok k zero x"
  shows "let s = client_Update env k [] x rs;
             (res, st') = store_call (\<lambda>a b. JSONEqual (RawDoc a) (RawDoc b)) now dbnow uid (CallUpdate (to_k x)) st
    in result_matches (cs_result s) res \<and> implements k zero (gvkToString g) (cs_rows s) st'"
proof -
  obtain v where v: "parseResourceVersion x = Inr v" "0 \<le> v" "in64 (v + 1)"
    and key: "k_key (to_k x) = (ko_Namespace x, ko_Name x)" "km_RV (to_k x) = v" using assms(5) by (rule object_version)
  have pre: "resolveGVK k = Inr g" "ce_acquire env = None" "ce_read env = None" "ce_others env = id" "e_fault (ce_write env) = CallOk"
    using assms(2,3) by (simp_all add: store_kind_def faultless_def)
  show ?thesis
  proof (cases "k_lookup st (ko_Namespace x, ko_Name x)")
    case None
    then have "client_Update env k [] x rs = cfail (NotFound (groupResource g) (ko_Name x)) rs"
      using implementsD(1) [OF assms(1), of "ko_Namespace x" "ko_Name x"] pre v
      by (auto simp: client_Update_def acquire_def readCurrentResource_def view_def listed_iff cfail_def
          split: option.splits if_splits)
    then show ?thesis using None assms(1) key by (simp add: k_update_def cfail_def result_matches_def)
  next
    case (Some cur)
    then obtain r where r: "pk_lookup rs (gvkToString g, ko_Namespace x, ko_Name x) = Some r" "\<not> is_tombstone r" "cur = abs_row r"
      and ok: "row_ok k zero r" by (rule implements_listed [OF assms(1)])
    note U = Update_eq [OF pre(1) v(1) pre(2,3) r(1) _ refl, unfolded pre(4) id_apply]
    show ?thesis
    proof (cases "v = 0")
      case True
      then have "cs_result (client_Update env k [] x rs) = Inl (WriterError ObjectNeedsVersion) \<and> cs_rows (client_Update env k [] x rs) = rs"
        using U r(2) by (simp add: listed_iff WriteObject_def rejected_def update_request_def after_failure_def mapWriteError_def)
      then show ?thesis using True Some assms(1) key by (simp add: k_update_def result_matches_def)
    next
      case False
      let ?new = "(with_meta cur (to_k (update_object k r x)))\<lparr>k_Spec := ko_Spec x\<rparr>"
      note wm = update_write_refines [OF assms(1,2) pre(5) assms(4,5) _ v(3) r(1,2), folded r(3)]
      have hs: "in64 (sm_Generation (row_sm r) + 1)" "kd_has_spec k"
        using assms(2) roomD [OF assms(4) r(1)] by (simp_all add: store_kind_def)
      have ku: "k_update (\<lambda>a b. JSONEqual (RawDoc a) (RawDoc b)) (to_k x) st =
          bindR (k_write cur v ?new st) (\<lambda>(w, st'). Inr ((to_k (update_object k r x))\<lparr>km_RV := w\<rparr>, st'))"
        using Some key False update_object_abs(1) [OF ok hs assms(5)] by (simp add: k_update_def r(3) to_k_def)
      show ?thesis
        using U r(2) wm False v(2)
        by (cases "k_write cur v ?new st")
          (auto simp: ku listed_iff production_ops update_request_def write_matches_def result_matches_def after_failure_def
            mapWriteError_def to_k_version assms(1))
    qed
  qed
qed

text \<open>The write of a status at a version.\<close>

definition status_req :: "GVK \<Rightarrow> kobject \<Rightarrow> int \<Rightarrow> StatusWriteRequest" where
  "status_req g x v = \<lparr>sGVK = gvkToString g, sNamespace = ko_Namespace x, sName = ko_Name x,
     sStatus = RawDoc (ko_Status x), sExpectedVersion = v, sForceWrite = False\<rparr>"

lemma status_write_refines:
  assumes "implements k zero (gvkToString g) rs st" "unindexed (gvkToString g)" "e_fault env = CallOk"
    and "object_ok k zero x" "0 < v" "in64 (v + 1)"
    and "pk_lookup rs (gvkToString g, ko_Namespace x, ko_Name x) = Some r" "\<not> is_tombstone r"
  shows "write_matches k zero (gvkToString g) (callStoredProc pg_writer env (status_params (status_req g x v)) rs)
     (k_write (abs_row r) v ((abs_row r)\<lparr>k_Status := ko_Status x\<rparr>) st) rs"
proof -
  define p where "p = status_params (status_req g x v)"
  obtain a where a: "proc_args p = Inr a" "p_status_only a" "p_status a = Some (ko_Status x)"
    by (simp add: p_def proc_args_def status_params_def status_req_def jsonb_arg_def)
  have p: "wp_expectedVersion p = v" "\<not> wp_forceWrite p" "params_key p = (gvkToString g, ko_Namespace x, ko_Name x)"
    by (simp_all add: p_def status_params_def status_req_def)
  have new: "abs_row (with_docs a r) = (abs_row r)\<lparr>k_Status := ko_Status x\<rparr>"
    by (simp add: with_docs_def a abs_row_def row_sm_def)
  have ok': "row_ok k zero (with_docs a r)"
    using implementsD(2) [OF assms(1,7)] assms(4) a by (simp add: row_ok_def with_docs_def row_sm_def typed_docs_def object_ok_def)
  from write_refines [OF assms(1,7,8,3) a(1) _ p(2) _ assms(2) _ p(3) ok', of pg_writer] show ?thesis
    using p(1) assms(5,6) a by (auto simp: docs_given_def new p_def)
qed

lemma Status_refines:
  assumes "implements k zero (gvkToString g) rs st" "store_kind k zero g" "faultless env"
    and "object_ok k zero x" "k_lookup st (ko_Namespace x, ko_Name x) = Some cur"
  shows "let s = status_Update env k [] x rs; (res, st') = outcome st (k_status_update (to_k x) st)
    in result_matches (cs_result s) res \<and> implements k zero (gvkToString g) (cs_rows s) st'"
proof -
  obtain v where v: "parseResourceVersion x = Inr v" "0 \<le> v" "in64 (v + 1)"
    and key: "k_key (to_k x) = (ko_Namespace x, ko_Name x)" "km_RV (to_k x) = v" using assms(4) by (rule object_version)
  have pre: "resolveGVK k = Inr g" "ce_acquire env = None" "e_fault (ce_write env) = CallOk" "kd_has_status k" "unindexed (gvkToString g)"
    using assms(2,3) by (simp_all add: store_kind_def faultless_def)
  obtain r where r: "pk_lookup rs (gvkToString g, ko_Namespace x, ko_Name x) = Some r" "\<not> is_tombstone r" "cur = abs_row r"
    using implements_listed [OF assms(1,5)] by blast
  let ?st = "WriteStatus pg_writer (ce_write env) (status_req g x v) rs"
  have S: "status_Update env k [] x rs = \<lparr>cs_result = (case ws_result ?st of
          Inl e \<Rightarrow> after_failure env k g x (ws_rows ?st) e
        | Inr res \<Rightarrow> Inr (x\<lparr>ko_ResourceVersion := dec_of_int (resObjectVersion res)\<rparr>)), cs_rows = ws_rows ?st\<rparr>"
    using pre v by (simp add: status_Update_def acquire_def status_req_def extractStatus_def Let_def split: sum.splits)
  show ?thesis
  proof (cases "v = 0")
    case True
    then show ?thesis
      using key assms(1) by (simp add: S WriteStatus_def status_req_def rejected_def after_failure_def mapWriteError_def
          k_status_update_def result_matches_def)
  next
    case False
    have W: "?st = finish pg_writer (gvkToString g) (callStoredProc pg_writer (ce_write env) (status_params (status_req g x v)) rs)"
      using False by (simp add: production_ops status_req_def)
    note wm = status_write_refines [OF assms(1) pre(5,3) assms(4) _ v(3) r(1,2), folded r(3)]
    have ks: "k_status_update (to_k x) st =
        bindR (k_write cur v (cur\<lparr>k_Status := ko_Status x\<rparr>) st) (\<lambda>(w, st'). Inr ((to_k x)\<lparr>km_RV := w\<rparr>, st'))"
      using assms(5) key False by (simp add: k_status_update_def to_k_def)
    show ?thesis
      using wm False v(2) by (cases "k_write cur v (cur\<lparr>k_Status := ko_Status x\<rparr>) st")
        (auto simp: S ks W write_matches_def result_matches_def after_failure_def mapWriteError_def to_k_version assms(1))
  qed
qed

lemma Delete_eq:
  assumes "resolveGVK k = Inr g" "ce_acquire env = None" "ce_others env = id" "parseResourceVersion x = Inr v"
    and "delete_content env k g x v rs = Inr (w, sp, t, md, existing)"
    and "ws = Write pg_writer (ce_write env) (delete_request g x w sp t md (case existing of None \<Rightarrow> ce_now env | Some d \<Rightarrow> d)) rs"
  shows "client_Delete env k plain_delete x rs =
    \<lparr>cs_result = (case ws_result ws of Inl e \<Rightarrow> bindR (mapWriteError env (ws_rows ws) e g (ko_Name x)) (\<lambda>_. Inr x) | Inr _ \<Rightarrow> Inr x),
     cs_rows = ws_rows ws\<rparr>"
proof -
  have opts: "rejectUnsupportedDeleteOpts plain_delete = Inr ()"
    by (simp add: rejectUnsupportedDeleteOpts_def plain_delete_def)
  show ?thesis
    using assms(1-5) unfolding assms(6) delete_request_def
    by (cases existing) (simp_all add: client_Delete_def opts acquire_def Let_def split: sum.splits)
qed

text \<open>The write of a deletion: content \<open>sp\<close>, \<open>t\<close> and metadata of \<open>y\<close> at version \<open>w\<close>.\<close>

lemma delete_write_refines:
  assumes "implements k zero gs rs st" "gs = gvkToString g" "unindexed gs" "e_fault env = CallOk"
    and "pk_lookup rs (gs, ko_Namespace x, ko_Name x) = Some r" "\<not> is_tombstone r"
    and "0 < w" "in64 (w + 1)" "in64 (ko_Generation y)" "typed_docs k zero sp t"
  shows "write_matches k zero gs
     (callStoredProc pg_writer env (write_params (delete_request g x w sp t (extractMetadata y) d)) rs)
     (k_write (abs_row r) w ((with_meta (abs_row r) (to_k y))\<lparr>k_Spec := sp, k_Status := t, km_Deletion := Some d\<rparr>) st) rs"
proof -
  define p where "p = write_params (delete_request g x w sp t (extractMetadata y) d)"
  obtain a where a: "proc_args p = Inr a" "\<not> p_status_only a" "p_spec a = Some sp" "p_status a = Some t"
      "p_metadata a = Some (extractMetadata y)" "p_deletion_ts a = Some d"
    by (simp add: p_def proc_args_def write_params_def delete_request_def jsonb_arg_def)
  have p: "wp_expectedVersion p = w" "\<not> wp_forceWrite p" "params_key p = (gs, ko_Namespace x, ko_Name x)"
    by (simp_all add: p_def write_params_def delete_request_def assms(2))
  have ok: "row_ok k zero r" using implementsD(2) [OF assms(1,5)] .
  note wd = with_docs_abs [OF a(2,3,5) assms(9), where r = r]
  have "row_ok k zero (with_docs a r)" using wd(2) ok assms(10) a(4) by (simp add: row_ok_def)
  from write_refines [OF assms(1,5,6,4) a(1) _ p(2) _ assms(3) _ p(3) this, of pg_writer] show ?thesis
    using p(1) assms(7,8) a by (simp add: docs_given_def wd(1) p_def)
qed


lemma stored_object:
  assumes "row_ok k zero r"
  obtains y where "rMetadata r = extractMetadata y" "in64 (ko_Generation y)" "with_meta (abs_row r) (to_k y) = abs_row r"
proof -
  let ?y = "zero\<lparr>ko_Labels := sm_Labels (row_sm r), ko_Annotations := sm_Annotations (row_sm r),
    ko_OwnerReferences := sm_OwnerReferences (row_sm r), ko_Finalizers := sm_Finalizers (row_sm r),
    ko_Generation := sm_Generation (row_sm r)\<rparr>"
  have "sm_of ?y = row_sm r" by (cases "row_sm r") (simp add: sm_of_def)
  then show thesis
    using assms by (intro that [of ?y]) (simp_all add: row_ok_def extractMetadata_def with_meta_def abs_row_def to_k_def)
qed

text \<open>A deletion that got as far as its write.\<close>

lemma delete_step:
  assumes "implements k zero (gvkToString g) rs st" "store_kind k zero g" "faultless env" "parseResourceVersion x = Inr v"
    and "delete_content env k g x v rs = Inr (w, sp, t, extractMetadata y, e)" "d = (case e of None \<Rightarrow> ce_now env | Some d \<Rightarrow> d)"
    and "pk_lookup rs (gvkToString g, ko_Namespace x, ko_Name x) = Some r" "\<not> is_tombstone r"
    and "0 < w" "in64 (w + 1)" "in64 (ko_Generation y)" "typed_docs k zero sp t"
    and kd: "k_delete (ce_now env) (to_k x) st = map_sum id snd
        (k_write (abs_row r) w ((with_meta (abs_row r) (to_k y))\<lparr>k_Spec := sp, k_Status := t, km_Deletion := Some d\<rparr>) st)"
  shows "let s = client_Delete env k plain_delete x rs; (res, st') = outcome st (map_sum id (Pair (to_k x)) (k_delete (ce_now env) (to_k x) st))
    in result_matches (cs_result s) res \<and> implements k zero (gvkToString g) (cs_rows s) st'"
proof -
  let ?new = "(with_meta (abs_row r) (to_k y))\<lparr>k_Spec := sp, k_Status := t, km_Deletion := Some d\<rparr>"
  have pre: "resolveGVK k = Inr g" "ce_acquire env = None" "ce_others env = id" "unindexed (gvkToString g)" "e_fault (ce_write env) = CallOk"
    using assms(2,3) by (simp_all add: store_kind_def faultless_def)
  note D = Delete_eq [OF pre(1-3) assms(4,5) refl, folded assms(6)]
  show ?thesis
    using delete_write_refines [OF assms(1) refl pre(4,5) assms(7-12), of d]
    by (cases "k_write (abs_row r) w ?new st")
      (auto simp: D kd production_ops delete_request_def write_matches_def result_matches_def mapWriteError_def assms(1))
qed

lemma Delete_refines:
  assumes "implements k zero (gvkToString g) rs st" "store_kind k zero g" "faultless env" "room (gvkToString g) rs"
    and "object_ok k zero x" "addresses (CallDelete x) st"
  shows "let s = client_Delete env k plain_delete x rs; (res, st') = outcome st (map_sum id (Pair (to_k x)) (k_delete (ce_now env) (to_k x) st))
    in result_matches (cs_result s) res \<and> implements k zero (gvkToString g) (cs_rows s) st'"
proof -
  obtain v where v: "parseResourceVersion x = Inr v" "0 \<le> v" "in64 (v + 1)"
    and key: "k_key (to_k x) = (ko_Namespace x, ko_Name x)" "km_RV (to_k x) = v" using assms(5) by (rule object_version)
  have pre: "resolveGVK k = Inr g" "ce_acquire env = None" "ce_others env = id" "ce_read env = None" "kd_has_spec k" "kd_has_status k"
    using assms(2,3) by (simp_all add: store_kind_def faultless_def)
  note step = delete_step [OF assms(1-3) v(1)]
  show ?thesis
  proof (cases "k_lookup st (ko_Namespace x, ko_Name x)")
    case None
    then have "v = 0" using assms(6) v(1) by (auto simp: addresses_def parseResourceVersion_def)
    moreover from this None have "delete_content env k g x v rs = Inl (NotFound (groupResource g) (ko_Name x))"
      using implementsD(1) [OF assms(1), of "ko_Namespace x" "ko_Name x"] pre(4)
      by (auto simp: delete_content_def readCurrentResource_def view_def listed_iff split: option.splits if_splits)
    then have "client_Delete env k plain_delete x rs = cfail (NotFound (groupResource g) (ko_Name x)) rs"
      using pre v by (simp add: client_Delete_def acquire_def rejectUnsupportedDeleteOpts_def plain_delete_def cfail_def)
    ultimately show ?thesis
      using None key assms(1) by (simp add: k_delete_def cfail_def result_matches_def)
  next
    case (Some cur)
    then obtain r where r: "pk_lookup rs (gvkToString g, ko_Namespace x, ko_Name x) = Some r" "\<not> is_tombstone r" "cur = abs_row r"
      and ok: "row_ok k zero r" by (rule implements_listed [OF assms(1)])
    show ?thesis
    proof (cases "v = 0")
      case True
      obtain y where y: "rMetadata r = extractMetadata y" "in64 (ko_Generation y)" "with_meta (abs_row r) (to_k y) = abs_row r"
        using ok by (rule stored_object)
      have c: "delete_content env k g x v rs = Inr (rObjectVersion r, rSpec r, rStatus r, extractMetadata y, rDeletionTimestamp r)"
        using True r pre(4) y(1) by (simp add: delete_content_def readCurrentResource_def listed_iff)
      have kd: "k_delete (ce_now env) (to_k x) st = map_sum id snd
        (k_write (abs_row r) (rObjectVersion r) ((with_meta (abs_row r) (to_k y))\<lparr>k_Spec := rSpec r, k_Status := rStatus r,
           km_Deletion := Some (case rDeletionTimestamp r of None \<Rightarrow> ce_now env | Some d \<Rightarrow> d)\<rparr>) st)"
        unfolding y(3) using Some True key r(3) by (simp add: k_delete_def abs_row_def)
      show ?thesis
        by (rule step [OF c refl r(1,2) _ _ y(2) _ kd]) (use ok roomD [OF assms(4) r(1)] in \<open>simp_all add: row_ok_def\<close>)
    next
      case False
      have c: "delete_content env k g x v rs = Inr (v, ko_Spec x, ko_Status x, extractMetadata x, None)"
        using False pre by (simp add: delete_content_def extractSpecStatus_eq extractSpec_def extractStatus_def)
      have kd: "k_delete (ce_now env) (to_k x) st = map_sum id snd
        (k_write (abs_row r) v ((with_meta (abs_row r) (to_k x))\<lparr>k_Spec := ko_Spec x, k_Status := ko_Status x,
           km_Deletion := Some (ce_now env)\<rparr>) st)"
        using Some False key r(3) by (simp add: k_delete_def to_k_def)
      show ?thesis
        by (rule step [OF c _ r(1,2) _ _ _ _ kd]) (use False v assms(5) in \<open>simp_all add: object_ok_def\<close>)
    qed
  qed
qed

lemma implements_ext: "implements k zero gs rs st \<Longrightarrow> (\<And>key. k_lookup st' key = k_lookup st key) \<Longrightarrow> implements k zero gs rs st'"
  by (simp add: implements_def)

lemma with_meta_same:
  assumes "row_ok k zero r" "in64 (ko_Generation y)"
  shows "with_meta (abs_row r) (to_k y) = abs_row r \<longleftrightarrow> rMetadata r = extractMetadata y"
proof -
  have "with_meta (abs_row r) (to_k y) = abs_row r \<longleftrightarrow> row_sm r = sm_of y"
    by (cases "row_sm r") (auto simp: with_meta_def abs_row_def to_k_def sm_of_def)
  also have "\<dots> \<longleftrightarrow> rMetadata r = extractMetadata y"
    using assms extract_roundtrip [of y] by (auto simp: row_ok_def extractMetadata_def row_sm_def)
  finally show ?thesis .
qed

lemma to_k_created:
  assumes "in64 v"
  shows "to_k (y\<lparr>ko_UID := u, ko_ResourceVersion := dec_of_int v, ko_CreationTimestamp := c, ko_GVK := gg\<rparr>) =
    (to_k y)\<lparr>km_UID := u, km_RV := v, km_CreationTimestamp := c\<rparr>"
proof -
  have "dec_of_int v \<noteq> []" using parse_int_dec [OF assms] by (auto simp: parse_int_def)
  then show ?thesis using parse_int_dec [OF assms] by (simp add: to_k_def parseResourceVersion_def Let_def)
qed

text \<open>The request of a creation, the row it writes and what the client makes of the answer.\<close>

definition create_obj :: "kobject \<Rightarrow> kobject" where
  "create_obj x = x\<lparr>ko_Generation := 1\<rparr>"

definition create_req :: "GVK \<Rightarrow> kobject \<Rightarrow> WriteRequest" where
  "create_req g x = \<lparr>wGVK = gvkToString g, wNamespace = ko_Namespace x, wName = ko_Name x,
     wSpec = RawDoc (ko_Spec x), wStatus = RawDoc (ko_Status x),
     wMetadata = RawDoc (extractMetadata (create_obj x)), wDeletionTimestamp = None, wExpectedVersion = 0, wForceWrite = False\<rparr>"

definition object_row :: "wenv \<Rightarrow> GVK \<Rightarrow> kobject \<Rightarrow> Resource" where
  "object_row env g x = created_row env (create_req g x) (ko_Spec x) (ko_Status x) (extractMetadata (create_obj x))"

lemma Create_eq:
  assumes "store_kind k zero g" "faultless env" "object_ok k zero x"
    and "c = callStoredProc pg_writer (ce_write env) (write_params (create_req g x)) rs"
  shows "client_Create env k [] x rs =
     \<lparr>cs_result = (case fst c of
          Inl e \<Rightarrow> after_failure env k g (create_obj x) (fst (snd c)) e
        | Inr res \<Rightarrow> Inr ((create_obj x)\<lparr>ko_UID := uidFromUUID (resUID res),
              ko_ResourceVersion := dec_of_int (resObjectVersion res),
              ko_CreationTimestamp := ce_now env, ko_GVK := Some g\<rparr>)), cs_rows = fst (snd c)\<rparr>"
proof -
  let ?st = "Write pg_writer (ce_write env) (create_req g x) rs"
  have W: "ws_result ?st = fst c" "ws_rows ?st = fst (snd c)"
    unfolding assms(4) by (simp_all add: production_ops)
  have pre: "resolveGVK k = Inr g" "ce_acquire env = None" "kd_has_spec k" "kd_has_status k"
    using assms(1,2) by (simp_all add: store_kind_def faultless_def)
  show ?thesis
    unfolding W [symmetric] using pre assms(3)
    by (auto simp: client_Create_def acquire_def extractSpecStatus_eq extractSpec_def extractStatus_def object_ok_def
        create_req_def create_obj_def Let_def split: sum.splits)
qed

lemma object_row_facts:
  assumes "unindexed (gvkToString g)" "object_ok k zero x"
  shows "row_key (object_row env g x) = (gvkToString g, ko_Namespace x, ko_Name x)" "row_ok k zero (object_row env g x)"
    and "unique_ok rs (object_row env g x)" "rObjectVersion (object_row env g x) = 1" "rUID (object_row env g x) = e_uuid env"
    and "abs_row (object_row env g x) = (to_k (create_obj x))\<lparr>km_UID := uidFromUUID (e_uuid env), km_RV := 1,
      km_CreationTimestamp := e_now env, km_Deletion := None\<rparr>"
proof -
  have sm: "row_sm (object_row env g x) = sm_of (create_obj x)"
    by (simp add: object_row_def created_row_def row_sm_def extract_roundtrip create_obj_def in64_def)
  show "row_ok k zero (object_row env g x)"
    using assms(2) by (simp add: row_ok_def sm)
      (simp add: object_row_def created_row_def extractMetadata_def sm_of_def in64_def object_ok_def create_obj_def)
  show "unique_ok rs (object_row env g x)"
    using assms(1) by (intro unindexed_ok) (simp add: object_row_def created_row_def create_req_def)
  show "abs_row (object_row env g x) = (to_k (create_obj x))\<lparr>km_UID := uidFromUUID (e_uuid env), km_RV := 1,
      km_CreationTimestamp := e_now env, km_Deletion := None\<rparr>"
    by (simp add: abs_row_def sm) (simp add: object_row_def created_row_def create_req_def to_k_def sm_of_def create_obj_def)
qed (simp_all add: object_row_def created_row_def create_req_def row_key_def)

lemma create_call:
  assumes "unindexed (gvkToString g)" "e_fault env = CallOk" "object_ok k zero x"
    and "c = callStoredProc pg_writer env (write_params (create_req g x)) rs" "key = (gvkToString g, ko_Namespace x, ko_Name x)"
  shows "view (pk_lookup rs key) = None \<Longrightarrow>
      (\<exists>t. fst c = Inr \<lparr>resTxid = t, resObjectVersion = 1, resUID = e_uuid env, resChanged = True\<rparr>)
      \<and> fst (snd c) = put_row (object_row env g x) rs"
    and "pk_lookup rs key = Some r \<Longrightarrow> \<not> is_tombstone r \<Longrightarrow> fst (snd c) = rs \<and> fst c =
      (if rSpec r = ko_Spec x \<and> rStatus r = ko_Status x \<and> rMetadata r = extractMetadata (create_obj x) \<and> rDeletionTimestamp r = None
       then Inr \<lparr>resTxid = 0, resObjectVersion = rObjectVersion r, resUID = rUID r, resChanged = False\<rparr> else Inl ErrAlreadyExists)"
proof -
  note run = create_run [of "create_req g x" "ko_Spec x" "ko_Status x" "extractMetadata (create_obj x)" env rs, folded object_row_def]
  note new = object_row_facts [OF assms(1,3)]
  have req: "wGVK (create_req g x) = gvkToString g" "wNamespace (create_req g x) = ko_Namespace x" "wName (create_req g x) = ko_Name x"
    "wSpec (create_req g x) = RawDoc (ko_Spec x)" "wStatus (create_req g x) = RawDoc (ko_Status x)"
    "wMetadata (create_req g x) = RawDoc (extractMetadata (create_obj x))" "wDeletionTimestamp (create_req g x) = None"
    "wExpectedVersion (create_req g x) = 0" "\<not> wForceWrite (create_req g x)" by (simp_all add: create_req_def)
  show "(\<exists>t. fst c = Inr \<lparr>resTxid = t, resObjectVersion = 1, resUID = e_uuid env, resChanged = True\<rparr>)
      \<and> fst (snd c) = put_row (object_row env g x) rs" if "view (pk_lookup rs key) = None"
  proof -
    have "run_proc env (write_params (create_req g x)) rs = store_row (object_row env g x) rs"
      using run new(3) that by (auto simp: req assms(5) view_def is_tombstone_def split: option.splits if_splits)
    then show ?thesis using assms(2) new by (simp add: assms(4) callStoredProc_def store_row_def Let_def)
  qed
  show "fst (snd c) = rs \<and> fst c =
      (if rSpec r = ko_Spec x \<and> rStatus r = ko_Status x \<and> rMetadata r = extractMetadata (create_obj x) \<and> rDeletionTimestamp r = None
       then Inr \<lparr>resTxid = 0, resObjectVersion = rObjectVersion r, resUID = rUID r, resChanged = False\<rparr> else Inl ErrAlreadyExists)"
    if "pk_lookup rs key = Some r" "\<not> is_tombstone r"
    using run that assms(2) by (auto simp: assms(4,5) callStoredProc_def req Let_def mapStoredProcError_def)
qed

lemma Create_refines:
  assumes "implements k zero (gvkToString g) rs st" "store_kind k zero g" "faultless env" "object_ok k zero x"
  shows "let s = client_Create env k [] x rs; (res, st') = outcome st
      (k_create (ce_now env) (e_now (ce_write env)) (uidFromUUID (e_uuid (ce_write env))) (to_k x) st)
    in result_matches (cs_result s) res \<and> implements k zero (gvkToString g) (cs_rows s) st'"
proof -
  let ?o = "create_obj x" and ?new = "object_row (ce_write env) g x"
  have pre: "unindexed (gvkToString g)" "e_fault (ce_write env) = CallOk" using assms(2,3) by (simp_all add: store_kind_def faultless_def)
  note C = Create_eq [OF assms(2-4) refl, of rs] and new = object_row_facts [OF pre(1) assms(4)] and call = create_call [OF pre assms(4) refl refl]
  have xo: "(to_k x)\<lparr>km_Generation := 1\<rparr> = to_k ?o" by (simp add: to_k_def parseResourceVersion_def create_obj_def)
  have key: "k_key (to_k ?o) = (ko_Namespace x, ko_Name x)" by (simp add: k_key_def to_k_def create_obj_def)
  note k_create = k_create_def [of _ _ _ "to_k x", unfolded Let_def xo key]
  show ?thesis
  proof (cases "k_lookup st (ko_Namespace x, ko_Name x)")
    case None
    have "implements k zero (gvkToString g) (put_row ?new rs) (st @ [abs_row ?new])"
      by (rule implements_ext [OF implements_put [OF assms(1) new(1,2)]])
        (use None key in \<open>auto simp: k_lookup_append k_lookup_settle new(6) k_key_def to_k_def split: option.splits\<close>)
    moreover obtain t where "fst (callStoredProc pg_writer (ce_write env) (write_params (create_req g x)) rs) =
          Inr \<lparr>resTxid = t, resObjectVersion = 1, resUID = e_uuid (ce_write env), resChanged = True\<rparr>"
        "fst (snd (callStoredProc pg_writer (ce_write env) (write_params (create_req g x)) rs)) = put_row ?new rs"
      using call(1) None implementsD(1) [OF assms(1), of "ko_Namespace x" "ko_Name x"] by auto
    ultimately show ?thesis
      using None by (simp add: C k_create result_matches_def new(6))
        (use to_k_created [of 1, where y = ?o] in \<open>simp add: in64_def Let_def\<close>)
  next
    case (Some cur)
    then obtain r where r: "pk_lookup rs (gvkToString g, ko_Namespace x, ko_Name x) = Some r" "\<not> is_tombstone r" "cur = abs_row r"
      and ok: "row_ok k zero r" by (rule implements_listed [OF assms(1)])
    have docs: "k_Spec cur = rSpec r" "k_Status cur = rStatus r" "km_Deletion cur = rDeletionTimestamp r"
      "km_UID cur = uidFromUUID (rUID r)" "km_RV cur = rObjectVersion r" "k_Spec (to_k ?o) = ko_Spec x" "k_Status (to_k ?o) = ko_Status x"
      by (simp_all add: r(3) abs_row_def to_k_def create_obj_def)
    have same: "with_meta cur (to_k ?o) = cur \<longleftrightarrow> rMetadata r = extractMetadata ?o"
      using with_meta_same [OF ok, of ?o] by (simp add: r(3) create_obj_def in64_def)
    have "in64 (rObjectVersion r)" using ok by (simp add: row_ok_def)
    then show ?thesis
      using Some same assms(1) call(2) [OF r(1,2)] to_k_created [of "rObjectVersion r", where y = ?o]
      by (auto simp: C k_create result_matches_def docs after_failure_def mapWriteError_def Let_def split: if_splits)
  qed
qed


definition np_gvk :: GVK where
  "np_gvk = ex_gvk\<lparr>gk_Kind := ''NodePool''\<rparr>"

definition np_kind :: kind where
  "np_kind = ex_kind\<lparr>kd_gvks := Inr [np_gvk]\<rparr>"

definition np_row :: Resource where
  "np_row = ex_row\<lparr>rGVK := gvkToString np_gvk, rMetadata := extractMetadata ex_obj\<rparr>"

lemma np_row_implements: "implements np_kind ex_zero (gvkToString np_gvk) [np_row] [abs_row np_row]"
proof -
  have "implements np_kind ex_zero (gvkToString np_gvk) [] []"
    by (simp add: implements_def k_lookup_def pk_lookup_def view_def)
  moreover have "row_key np_row = (gvkToString np_gvk, ''n'', ''c1'')" "row_ok np_kind ex_zero np_row" by code_simp+
  ultimately have "implements np_kind ex_zero (gvkToString np_gvk) (put_row np_row []) (k_settle (abs_row np_row) [])"
    by (rule implements_put)
  moreover have "put_row np_row [] = [np_row]" "k_settle (abs_row np_row) [] = [abs_row np_row]" by code_simp+
  ultimately show ?thesis by simp
qed


end
