(* ===== verification/Http.thy ===== *)
theory Http
  imports Json
begin

text \<open>
  The HTTP vocabulary of platform-api: requests with the values that the middleware keeps in
  the request context, responses, and handlers that take the headers set so far and a state.
  Then \<open>platform-api/pkg/api/error.go\<close>, which turns an \<open>APIError\<close> into the \<open>metav1.Status\<close>
  document every failed request is answered with.
\<close>

section \<open>Requests and handlers\<close>

text \<open>The values under the context keys of the package \<open>middleware\<close>; \<open>None\<close> where a key was
  not set.\<close>

record go_context =
  ctx_account_id :: "string option"
  ctx_caller_arn :: "string option"
  ctx_user_id :: "string option"
  ctx_source_ip :: "string option"
  ctx_request_id :: "string option"
  ctx_privileged :: "bool option"

definition background :: go_context where
  "background = \<lparr>ctx_account_id = None, ctx_caller_arn = None, ctx_user_id = None,
     ctx_source_ip = None, ctx_request_id = None, ctx_privileged = None\<rparr>"

text \<open>\<open>q_header\<close> is \<open>Header.Get\<close>, which returns the empty string for a missing header; \<open>q_vars\<close>
  are the path variables of the matched route.\<close>

record http_request =
  q_method :: string
  q_path :: string
  q_header :: "string \<Rightarrow> string"
  q_vars :: "string \<rightharpoonup> string"
  q_ctx :: go_context

record status_cause =
  sc_Type :: string
  sc_Message :: string
  sc_Field :: string

record status_doc =
  st_Message :: string
  st_Reason :: string
  st_Code :: int
  st_Causes :: "status_cause list option"

datatype body = NoBody | StatusBody status_doc | FallbackBody | OtherBody json

type_synonym headers = "string \<rightharpoonup> string"

record response =
  rsp_status :: int
  rsp_headers :: headers
  rsp_body :: body

type_synonym 's handler = "headers \<Rightarrow> http_request \<Rightarrow> 's \<Rightarrow> response \<times> 's"

section \<open>APIError\<close>

text \<open>The field \<open>Errors\<close>: absent, a Go \<open>error\<close> with its text and its JSON form, or another
  value with its JSON form; \<open>None\<close> where \<open>json.Marshal\<close> fails.\<close>

datatype api_errors = NoErrors | GoError string "json option" | Payload "json option"

record APIError =
  ae_Code :: string
  ae_HTTPStatus :: int
  ae_Message :: string
  ae_Errors :: api_errors
  ae_Reason :: string

definition api_error :: "string \<Rightarrow> int \<Rightarrow> string \<Rightarrow> APIError" where
  "api_error code st msg =
     \<lparr>ae_Code = code, ae_HTTPStatus = st, ae_Message = msg, ae_Errors = NoErrors, ae_Reason = []\<rparr>"

definition WithErrors :: "api_errors \<Rightarrow> APIError \<Rightarrow> APIError" where
  "WithErrors v e = e\<lparr>ae_Errors := v\<rparr>"

text \<open>The text that \<open>fmt.Errorf\<close> gives for the template is the first argument; such an error
  marshals to the empty object. \<open>None\<close> is the panic on a definition without a template.\<close>

definition WithReason :: "string \<Rightarrow> APIError \<Rightarrow> APIError option" where
  "WithReason msg e = (if ae_Reason e = [] then None
     else Some (e\<lparr>ae_Errors := GoError msg (Some empty_obj)\<rparr>))"

definition httpStatusToReason :: "int \<Rightarrow> string" where
  "httpStatusToReason code =
     (if code = 400 then ''BadRequest'' else if code = 401 then ''Unauthorized''
      else if code = 403 then ''Forbidden'' else if code = 404 then ''NotFound''
      else if code = 405 then ''MethodNotAllowed'' else if code = 409 then ''Conflict''
      else if code = 422 then ''Invalid'' else if code = 429 then ''TooManyRequests''
      else if code = 500 then ''InternalError'' else if code = 503 then ''ServiceUnavailable''
      else [])"

text \<open>Decoding one element of the causes slice: an object whose known keys, compared without
  case, hold strings or nulls, or a null element, which leaves the zero value.\<close>

record cause =
  ca_Field :: string
  ca_Detail :: string
  ca_Reason :: string
  ca_Message :: string

definition zero_cause :: cause where
  "zero_cause = \<lparr>ca_Field = [], ca_Detail = [], ca_Reason = [], ca_Message = []\<rparr>"

definition set_cause :: "string \<times> json \<Rightarrow> cause \<Rightarrow> cause option" where
  "set_cause kv c =
     (let upd = (\<lambda>f. case snd kv of JNull \<Rightarrow> Some c | JStr s \<Rightarrow> Some (f s) | _ \<Rightarrow> None)
      in if equal_fold (fst kv) ''field'' then upd (\<lambda>s. c\<lparr>ca_Field := s\<rparr>)
         else if equal_fold (fst kv) ''detail'' then upd (\<lambda>s. c\<lparr>ca_Detail := s\<rparr>)
         else if equal_fold (fst kv) ''reason'' then upd (\<lambda>s. c\<lparr>ca_Reason := s\<rparr>)
         else if equal_fold (fst kv) ''message'' then upd (\<lambda>s. c\<lparr>ca_Message := s\<rparr>)
         else Some c)"

fun set_causes :: "(string \<times> json) list \<Rightarrow> cause \<Rightarrow> cause option" where
  "set_causes [] c = Some c"
| "set_causes (kv # kvs) c = (case set_cause kv c of None \<Rightarrow> None | Some c' \<Rightarrow> set_causes kvs c')"

fun decode_cause :: "json \<Rightarrow> cause option" where
  "decode_cause JNull = Some zero_cause"
| "decode_cause (JObj kvs) = set_causes kvs zero_cause"
| "decode_cause _ = None"

fun decode_causes :: "json \<Rightarrow> cause list option" where
  "decode_causes (JArr xs) = those (map decode_cause xs)"
| "decode_causes JNull = Some []"
| "decode_causes _ = None"

definition has_content :: "cause \<Rightarrow> bool" where
  "has_content c \<longleftrightarrow> ca_Field c \<noteq> [] \<or> ca_Detail c \<noteq> [] \<or> ca_Reason c \<noteq> [] \<or> ca_Message c \<noteq> []"

definition status_cause_of :: "cause \<Rightarrow> status_cause" where
  "status_cause_of c =
     \<lparr>sc_Type = ''FieldValueInvalid'',
      sc_Message = (if ca_Detail c \<noteq> [] then ca_Detail c
                    else if ca_Message c \<noteq> [] then ca_Message c else ca_Reason c),
      sc_Field = ca_Field c\<rparr>"

definition unexpected_cause :: status_cause where
  "unexpected_cause = \<lparr>sc_Type = ''UnexpectedServerResponse'',
     sc_Message = ''unexpected error format'', sc_Field = []\<rparr>"

definition errorsToStatusDetails :: "json option \<Rightarrow> status_cause list option" where
  "errorsToStatusDetails errs =
     (case errs of
        None \<Rightarrow> None
      | Some b \<Rightarrow>
          (case decode_causes b of
             Some causes \<Rightarrow> if causes \<noteq> [] \<and> list_ex has_content causes
                            then Some (map status_cause_of causes) else Some [unexpected_cause]
           | None \<Rightarrow> Some [unexpected_cause]))"

definition json_headers :: "headers \<Rightarrow> headers" where
  "json_headers h = h(''Content-Type'' \<mapsto> ''application/json'')"

definition writeFallback :: "headers \<Rightarrow> response" where
  "writeFallback h = \<lparr>rsp_status = 500, rsp_headers = json_headers h, rsp_body = FallbackBody\<rparr>"

definition write_status :: "headers \<Rightarrow> APIError \<Rightarrow> string \<Rightarrow> status_cause list option \<Rightarrow> response" where
  "write_status h def msg0 details =
     (let msg = (if ae_Code def \<noteq> [] then ae_Code def @ '': '' @ msg0 else msg0);
          st = (if ae_HTTPStatus def < 100 \<or> 599 < ae_HTTPStatus def then 500 else ae_HTTPStatus def)
      in \<lparr>rsp_status = st, rsp_headers = json_headers h,
          rsp_body = StatusBody \<lparr>st_Message = msg, st_Reason = httpStatusToReason st,
            st_Code = st, st_Causes = details\<rparr>\<rparr>)"

definition WriteError :: "headers \<Rightarrow> APIError \<Rightarrow> response" where
  "WriteError h def =
     (case ae_Errors def of
        NoErrors \<Rightarrow> write_status h def (ae_Message def) None
      | GoError text None \<Rightarrow> writeFallback h
      | GoError text (Some b) \<Rightarrow>
          if b = empty_obj \<or> b = JNull then write_status h def text None
          else write_status h def (ae_Message def) (errorsToStatusDetails (Some b))
      | Payload b \<Rightarrow> write_status h def (ae_Message def) (errorsToStatusDetails b))"

lemma write_status_doc:
  assumes "rsp_body (write_status h e msg details) = StatusBody d"
  shows "st_Causes d = details" "st_Code d = rsp_status (write_status h e msg details)"
    "100 \<le> st_Code d" "st_Code d \<le> 599"
    "ae_Code e \<noteq> [] \<Longrightarrow> has_prefix (st_Message d) (ae_Code e @ '': '')"
  using assms by (auto simp: write_status_def Let_def has_prefix_def)

lemma WriteError_plain:
  assumes "ae_Errors e = NoErrors" "100 \<le> ae_HTTPStatus e" "ae_HTTPStatus e \<le> 599"
  shows "rsp_status (WriteError h e) = ae_HTTPStatus e"
  using assms by (simp add: WriteError_def write_status_def Let_def)

lemma those_map_mem: "those (map f xs) = Some ys \<Longrightarrow> y \<in> set ys \<Longrightarrow> \<exists>x \<in> set xs. f x = Some y"
  by (induction xs arbitrary: ys) (auto split: option.splits)

lemma details_mem:
  assumes "errorsToStatusDetails (Some b) = Some cs" "c \<in> set cs" "c \<noteq> unexpected_cause"
  shows "\<exists>xs x k. b = JArr xs \<and> x \<in> set xs \<and> decode_cause x = Some k \<and> c = status_cause_of k"
proof -
  obtain ks where ks: "decode_causes b = Some ks" "ks \<noteq> []" "cs = map status_cause_of ks"
    using assms by (auto simp: errorsToStatusDetails_def split: option.splits if_splits)
  then obtain xs where xs: "b = JArr xs" by (cases b rule: decode_causes.cases) auto
  obtain k where k: "k \<in> set ks" "c = status_cause_of k" using assms(2) ks(3) by auto
  then show ?thesis using ks(1) those_map_mem [of decode_cause xs ks k] by (auto simp: xs)
qed

lemma details_None: "errorsToStatusDetails b = Some cs \<Longrightarrow> \<exists>d. b = Some d"
  by (cases b) (auto simp: errorsToStatusDetails_def)

text \<open>
  Every error response is a well-formed HTTP error: its status line and the code
  in its body agree and lie in the range of HTTP statuses, the body's message starts with the
  platform error code, and its causes never carry a payload that was not a list of field
  errors.
\<close>

theorem WriteError_wellformed:
  assumes "ae_Code e \<noteq> []" "rsp_body (WriteError h e) = StatusBody d"
  shows "rsp_status (WriteError h e) = st_Code d \<and> 100 \<le> st_Code d \<and> st_Code d \<le> 599
    \<and> has_prefix (st_Message d) (ae_Code e @ '': '')
    \<and> (\<forall>cs c. st_Causes d = Some cs \<and> c \<in> set cs \<longrightarrow> c = unexpected_cause
         \<or> (\<exists>xs x k. ae_Errors e \<in> {Payload (Some (JArr xs))} \<union> range (\<lambda>t. GoError t (Some (JArr xs)))
              \<and> x \<in> set xs \<and> decode_cause x = Some k \<and> c = status_cause_of k))"
proof -
  obtain msg details where w: "WriteError h e = write_status h e msg details"
    and causes: "details = None \<or> (\<exists>b. (ae_Errors e = Payload b \<or> (\<exists>t. ae_Errors e = GoError t b))
        \<and> details = errorsToStatusDetails b)"
    using assms(2)
    by (auto simp: WriteError_def writeFallback_def split: api_errors.splits option.splits if_splits)
  note d = write_status_doc [OF assms(2) [unfolded w]]
  have "c = unexpected_cause \<or> (\<exists>xs x k. ae_Errors e \<in> {Payload (Some (JArr xs))}
        \<union> range (\<lambda>t. GoError t (Some (JArr xs))) \<and> x \<in> set xs \<and> decode_cause x = Some k \<and> c = status_cause_of k)"
    if c: "st_Causes d = Some cs" "c \<in> set cs" for cs c
  proof (cases "c = unexpected_cause")
    case False
    from causes c(1) d(1) obtain b where b: "ae_Errors e = Payload b \<or> (\<exists>t. ae_Errors e = GoError t b)"
      "errorsToStatusDetails b = Some cs" by auto
    then obtain doc where doc: "b = Some doc" using details_None by blast
    obtain xs x k where "doc = JArr xs" "x \<in> set xs" "decode_cause x = Some k" "c = status_cause_of k"
      using details_mem [of doc cs c] b(2) c(2) False doc by auto
    then show ?thesis using b(1) doc by fastforce
  qed simp
  then show ?thesis using d(2-5) assms(1) w by simp
qed

theorem WriteError_wellformed_witness:
  "\<exists>d. rsp_body (WriteError (\<lambda>_. None) (api_error ''AUTH-001'' 403 ''Account ID header is required'')) = StatusBody d
     \<and> st_Code d = 403 \<and> has_prefix (st_Message d) ''AUTH-001: ''"
proof -
  let ?e = "api_error ''AUTH-001'' 403 ''Account ID header is required''"
  have s: "rsp_status (WriteError (\<lambda>_. None) ?e) = 403" by code_simp
  obtain d where d: "rsp_body (WriteError (\<lambda>_. None) ?e) = StatusBody d"
    by (simp add: WriteError_def write_status_def Let_def api_error_def)
  have "ae_Code ?e \<noteq> []" by (simp add: api_error_def)
  from WriteError_wellformed [OF this d] s d show ?thesis by (auto simp: api_error_def)
qed

end
