(* ===== verification/AuthzStore.thy ===== *)
theory AuthzStore
  imports Json
begin

text \<open>
  The DynamoDB stores behind authorization (\<open>platform-api/pkg/authz/store\<close> and \<open>privileged\<close>):
  accounts, admins, groups and group members. DynamoDB is a service: its client is a record of
  functions on an abstract state \<open>'w\<close>, and what the stores rely on of it is the predicate
  \<open>dynamo_ok\<close>. An error is its text. The formatted current time is an argument.
\<close>

section \<open>The client\<close>

datatype attr = AttrS string | AttrBool bool

type_synonym item = "(string \<times> attr) list"

text \<open>Key conditions of a query: \<open>name = value\<close> and \<open>begins_with(name, prefix)\<close>.\<close>

datatype key_cond = KeyEq string string | BeginsWith string string

text \<open>The error of a put: the SDK's exception type itself, or any other error value, such as one
  that wraps the exception.\<close>

datatype put_error = ConditionalCheckFailedException string | OtherError string

record 'w DynamoDBClient =
  GetItem :: "string \<Rightarrow> item \<Rightarrow> 'w \<Rightarrow> string + item option"
  PutItem :: "string \<Rightarrow> item \<Rightarrow> string list \<Rightarrow> 'w \<Rightarrow> put_error option \<times> 'w"
  DeleteItem :: "string \<Rightarrow> item \<Rightarrow> 'w \<Rightarrow> string option \<times> 'w"
  Query :: "string \<Rightarrow> string option \<Rightarrow> key_cond list \<Rightarrow> 'w \<Rightarrow> string + item list"
  Scan :: "string \<Rightarrow> 'w \<Rightarrow> string + item list"
  UpdateItem :: "string \<Rightarrow> item \<Rightarrow> item \<Rightarrow> 'w \<Rightarrow> (string + item) \<times> 'w"

definition has_key :: "item \<Rightarrow> item \<Rightarrow> bool" where
  "has_key k x \<longleftrightarrow> list_all (\<lambda>(a, v). map_of x a = Some v) k"

fun cond_holds :: "item \<Rightarrow> key_cond \<Rightarrow> bool" where
  "cond_holds x (KeyEq a v) = (map_of x a = Some (AttrS v))"
| "cond_holds x (BeginsWith a p) = (case map_of x a of Some (AttrS s) \<Rightarrow> has_prefix s p | _ \<Rightarrow> False)"

text \<open>The documented behaviour of the operations the stores use, for a client whose calls
  succeed, with \<open>items w t\<close> the items of table \<open>t\<close> and \<open>keys t\<close> its key attributes: a get
  returns an item with the key if there is one; a put replaces the item with its key and leaves
  other tables alone; a delete removes the item with the key; a query returns the items that
  satisfy its key conditions, here without a page limit.\<close>

definition dynamo_ok :: "'w DynamoDBClient \<Rightarrow> ('w \<Rightarrow> string \<Rightarrow> item list) \<Rightarrow> (string \<Rightarrow> string list) \<Rightarrow> bool" where
  "dynamo_ok c items keys \<longleftrightarrow>
     (\<forall>t k w r. GetItem c t k w = Inr r \<longrightarrow>
        (case r of None \<Rightarrow> \<forall>x \<in> set (items w t). \<not> has_key k x
                 | Some x \<Rightarrow> x \<in> set (items w t) \<and> has_key k x))
   \<and> (\<forall>t it cs w w'. PutItem c t it cs w = (None, w') \<longrightarrow>
        set (items w' t) = insert it {x \<in> set (items w t). \<not> (\<forall>a \<in> set (keys t). map_of x a = map_of it a)}
        \<and> (\<forall>t'. t' \<noteq> t \<longrightarrow> items w' t' = items w t'))
   \<and> (\<forall>t k w w'. DeleteItem c t k w = (None, w') \<longrightarrow>
        set (items w' t) = {x \<in> set (items w t). \<not> has_key k x}
        \<and> (\<forall>t'. t' \<noteq> t \<longrightarrow> items w' t' = items w t'))
   \<and> (\<forall>t ix cs w xs. Query c t ix cs w = Inr xs \<longrightarrow>
        set xs = {x \<in> set (items w t). list_all (cond_holds x) cs})"

text \<open>Decoding an attribute into a Go field: a missing attribute leaves the zero value.\<close>

definition str_field :: "item \<Rightarrow> string \<Rightarrow> string + string" where
  "str_field it a = (case map_of it a of None \<Rightarrow> Inr [] | Some (AttrS s) \<Rightarrow> Inr s
     | Some (AttrBool _) \<Rightarrow> Inl ''unmarshal failed'')"

definition bool_field :: "item \<Rightarrow> string \<Rightarrow> string + bool" where
  "bool_field it a = (case map_of it a of None \<Rightarrow> Inr False | Some (AttrBool b) \<Rightarrow> Inr b
     | Some (AttrS _) \<Rightarrow> Inl ''unmarshal failed'')"

definition wrap_err :: "string \<Rightarrow> string + 'a \<Rightarrow> string + 'a" where
  "wrap_err msg r = (case r of Inl e \<Rightarrow> Inl (msg @ '': '' @ e) | Inr x \<Rightarrow> Inr x)"

definition wrap_err_opt :: "string \<Rightarrow> string option \<times> 'w \<Rightarrow> string option \<times> 'w" where
  "wrap_err_opt msg r = (case r of (Some e, w) \<Rightarrow> (Some (msg @ '': '' @ e), w) | (None, w) \<Rightarrow> (None, w))"

section \<open>privileged.go\<close>

definition privileged_IsPrivileged :: "'w DynamoDBClient \<Rightarrow> string \<Rightarrow> string \<Rightarrow> 'w \<Rightarrow> string + bool" where
  "privileged_IsPrivileged c table accountID w =
     bindR (GetItem c table [(''accountId'', AttrS accountID)] w) (\<lambda>r.
       case r of None \<Rightarrow> Inr False | Some it \<Rightarrow> bool_field it ''privileged'')"

section \<open>accounts.go\<close>

record Account =
  ac_AccountID :: string
  ac_PolicyStoreID :: string
  ac_Privileged :: bool
  ac_CreatedAt :: string
  ac_CreatedBy :: string

definition marshal_account :: "Account \<Rightarrow> item" where
  "marshal_account a =
     [(''accountId'', AttrS (ac_AccountID a))]
     @ (if ac_PolicyStoreID a = [] then [] else [(''policyStoreId'', AttrS (ac_PolicyStoreID a))])
     @ [(''privileged'', AttrBool (ac_Privileged a)), (''createdAt'', AttrS (ac_CreatedAt a)),
        (''createdBy'', AttrS (ac_CreatedBy a))]"

definition unmarshal_account :: "item \<Rightarrow> string + Account" where
  "unmarshal_account it =
     bindR (str_field it ''accountId'') (\<lambda>i. bindR (str_field it ''policyStoreId'') (\<lambda>p.
     bindR (bool_field it ''privileged'') (\<lambda>b. bindR (str_field it ''createdAt'') (\<lambda>ca.
     bindR (str_field it ''createdBy'') (\<lambda>cb.
       Inr \<lparr>ac_AccountID = i, ac_PolicyStoreID = p, ac_Privileged = b, ac_CreatedAt = ca, ac_CreatedBy = cb\<rparr>)))))"

definition put_result :: "string \<Rightarrow> string \<Rightarrow> put_error option \<times> 'w \<Rightarrow> string option \<times> 'w" where
  "put_result exists failed r =
     (case r of (None, w) \<Rightarrow> (None, w)
      | (Some (ConditionalCheckFailedException _), w) \<Rightarrow> (Some exists, w)
      | (Some (OtherError e), w) \<Rightarrow> (Some (failed @ '': '' @ e), w))"

text \<open>\<open>Create\<close> also sets the creation time of the account it is given.\<close>

definition AccountStore_Create ::
  "'w DynamoDBClient \<Rightarrow> string \<Rightarrow> string \<Rightarrow> Account \<Rightarrow> 'w \<Rightarrow> (string + Account) \<times> 'w" where
  "AccountStore_Create c table now account w =
     (let account' = (if ac_CreatedAt account = [] then account\<lparr>ac_CreatedAt := now\<rparr> else account)
      in case put_result (''account already exists: '' @ ac_AccountID account) ''failed to create account''
                (PutItem c table (marshal_account account') [''accountId''] w) of
           (None, w') \<Rightarrow> (Inr account', w')
         | (Some e, w') \<Rightarrow> (Inl e, w'))"

definition AccountStore_Get :: "'w DynamoDBClient \<Rightarrow> string \<Rightarrow> string \<Rightarrow> 'w \<Rightarrow> string + Account option" where
  "AccountStore_Get c table accountID w =
     bindR (wrap_err ''failed to get account'' (GetItem c table [(''accountId'', AttrS accountID)] w)) (\<lambda>r.
       case r of None \<Rightarrow> Inr None
       | Some it \<Rightarrow> bindR (wrap_err ''failed to unmarshal account'' (unmarshal_account it)) (\<lambda>a. Inr (Some a)))"

definition AccountStore_Delete :: "'w DynamoDBClient \<Rightarrow> string \<Rightarrow> string \<Rightarrow> 'w \<Rightarrow> string option \<times> 'w" where
  "AccountStore_Delete c table accountID w =
     wrap_err_opt ''failed to delete account'' (DeleteItem c table [(''accountId'', AttrS accountID)] w)"

definition AccountStore_List :: "'w DynamoDBClient \<Rightarrow> string \<Rightarrow> 'w \<Rightarrow> string + Account list" where
  "AccountStore_List c table w =
     bindR (wrap_err ''failed to list accounts'' (Scan c table w)) (\<lambda>its.
       mapR (\<lambda>it. wrap_err ''failed to unmarshal account'' (unmarshal_account it)) its)"

definition AccountStore_Exists :: "'w DynamoDBClient \<Rightarrow> string \<Rightarrow> string \<Rightarrow> 'w \<Rightarrow> string + bool" where
  "AccountStore_Exists c table accountID w =
     bindR (wrap_err ''failed to check account existence'' (GetItem c table [(''accountId'', AttrS accountID)] w))
       (\<lambda>r. Inr (r \<noteq> None))"

text \<open>\<open>UpdateItem c t key sets\<close> assigns the attributes \<open>sets\<close> and returns the new item.\<close>

definition AccountStore_UpdatePolicyStoreID :: "'w DynamoDBClient \<Rightarrow> string \<Rightarrow> string \<Rightarrow> string \<Rightarrow> 'w
    \<Rightarrow> string option \<times> 'w" where
  "AccountStore_UpdatePolicyStoreID c table accountID psid w =
     (case UpdateItem c table [(''accountId'', AttrS accountID)] [(''policyStoreId'', AttrS psid)] w of
        (Inl e, w') \<Rightarrow> (Some (''failed to update policy store ID: '' @ e), w')
      | (Inr _, w') \<Rightarrow> (None, w'))"

section \<open>admins.go\<close>

record Admin =
  ad_AccountID :: string
  ad_PrincipalARN :: string
  ad_CreatedAt :: string
  ad_CreatedBy :: string

definition marshal_admin :: "Admin \<Rightarrow> item" where
  "marshal_admin a = [(''accountId'', AttrS (ad_AccountID a)), (''principalArn'', AttrS (ad_PrincipalARN a)),
     (''createdAt'', AttrS (ad_CreatedAt a)), (''createdBy'', AttrS (ad_CreatedBy a))]"

definition unmarshal_admin :: "item \<Rightarrow> string + Admin" where
  "unmarshal_admin it =
     bindR (str_field it ''accountId'') (\<lambda>i. bindR (str_field it ''principalArn'') (\<lambda>p.
     bindR (str_field it ''createdAt'') (\<lambda>ca. bindR (str_field it ''createdBy'') (\<lambda>cb.
       Inr \<lparr>ad_AccountID = i, ad_PrincipalARN = p, ad_CreatedAt = ca, ad_CreatedBy = cb\<rparr>))))"

definition AdminStore_Add :: "'w DynamoDBClient \<Rightarrow> string \<Rightarrow> string \<Rightarrow> Admin \<Rightarrow> 'w \<Rightarrow> string option \<times> 'w" where
  "AdminStore_Add c table now admin w =
     (let admin' = (if ad_CreatedAt admin = [] then admin\<lparr>ad_CreatedAt := now\<rparr> else admin)
      in put_result (''admin already exists: '' @ ad_PrincipalARN admin @ '' in account '' @ ad_AccountID admin)
           ''failed to add admin''
           (PutItem c table (marshal_admin admin') [''accountId'', ''principalArn''] w))"

definition admin_key :: "string \<Rightarrow> string \<Rightarrow> item" where
  "admin_key accountID arn = [(''accountId'', AttrS accountID), (''principalArn'', AttrS arn)]"

definition AdminStore_Remove :: "'w DynamoDBClient \<Rightarrow> string \<Rightarrow> string \<Rightarrow> string \<Rightarrow> 'w \<Rightarrow> string option \<times> 'w" where
  "AdminStore_Remove c table accountID arn w =
     wrap_err_opt ''failed to remove admin'' (DeleteItem c table (admin_key accountID arn) w)"

definition AdminStore_IsAdmin :: "'w DynamoDBClient \<Rightarrow> string \<Rightarrow> string \<Rightarrow> string \<Rightarrow> 'w \<Rightarrow> string + bool" where
  "AdminStore_IsAdmin c table accountID arn w =
     bindR (wrap_err ''failed to check admin status'' (GetItem c table (admin_key accountID arn) w))
       (\<lambda>r. Inr (r \<noteq> None))"

definition AdminStore_List :: "'w DynamoDBClient \<Rightarrow> string \<Rightarrow> string \<Rightarrow> 'w \<Rightarrow> string + Admin list" where
  "AdminStore_List c table accountID w =
     bindR (wrap_err ''failed to list admins'' (Query c table None [KeyEq ''accountId'' accountID] w)) (\<lambda>its.
       mapR (\<lambda>it. wrap_err ''failed to unmarshal admin'' (unmarshal_admin it)) its)"

definition AdminStore_ListARNs :: "'w DynamoDBClient \<Rightarrow> string \<Rightarrow> string \<Rightarrow> 'w \<Rightarrow> string + string list" where
  "AdminStore_ListARNs c table accountID w =
     bindR (AdminStore_List c table accountID w) (\<lambda>as. Inr (map ad_PrincipalARN as))"

section \<open>groups.go\<close>

record Group =
  gr_AccountID :: string
  gr_GroupID :: string
  gr_Name :: string
  gr_Description :: string
  gr_CreatedAt :: string

definition marshal_group :: "Group \<Rightarrow> item" where
  "marshal_group g =
     [(''accountId'', AttrS (gr_AccountID g)), (''groupId'', AttrS (gr_GroupID g)), (''name'', AttrS (gr_Name g))]
     @ (if gr_Description g = [] then [] else [(''description'', AttrS (gr_Description g))])
     @ [(''createdAt'', AttrS (gr_CreatedAt g))]"

definition unmarshal_group :: "item \<Rightarrow> string + Group" where
  "unmarshal_group it =
     bindR (str_field it ''accountId'') (\<lambda>a. bindR (str_field it ''groupId'') (\<lambda>g.
     bindR (str_field it ''name'') (\<lambda>n. bindR (str_field it ''description'') (\<lambda>d.
     bindR (str_field it ''createdAt'') (\<lambda>ca.
       Inr \<lparr>gr_AccountID = a, gr_GroupID = g, gr_Name = n, gr_Description = d, gr_CreatedAt = ca\<rparr>)))))"

text \<open>\<open>uuid\<close> is the fresh \<open>uuid.New().String()\<close>.\<close>

definition GroupStore_Create :: "'w DynamoDBClient \<Rightarrow> string \<Rightarrow> string \<Rightarrow> string \<Rightarrow> string \<Rightarrow> string \<Rightarrow> string
    \<Rightarrow> 'w \<Rightarrow> (string + Group) \<times> 'w" where
  "GroupStore_Create c table now uuid accountID name description w =
     (let group = \<lparr>gr_AccountID = accountID, gr_GroupID = uuid, gr_Name = name, gr_Description = description,
                   gr_CreatedAt = now\<rparr>
      in case PutItem c table (marshal_group group) [] w of
           (None, w') \<Rightarrow> (Inr group, w')
         | (Some (ConditionalCheckFailedException e), w') \<Rightarrow> (Inl (''failed to create group: '' @ e), w')
         | (Some (OtherError e), w') \<Rightarrow> (Inl (''failed to create group: '' @ e), w'))"

definition group_key :: "string \<Rightarrow> string \<Rightarrow> item" where
  "group_key accountID groupID = [(''accountId'', AttrS accountID), (''groupId'', AttrS groupID)]"

definition GroupStore_Get :: "'w DynamoDBClient \<Rightarrow> string \<Rightarrow> string \<Rightarrow> string \<Rightarrow> 'w \<Rightarrow> string + Group option" where
  "GroupStore_Get c table accountID groupID w =
     bindR (wrap_err ''failed to get group'' (GetItem c table (group_key accountID groupID) w)) (\<lambda>r.
       case r of None \<Rightarrow> Inr None
       | Some it \<Rightarrow> bindR (wrap_err ''failed to unmarshal group'' (unmarshal_group it)) (\<lambda>g. Inr (Some g)))"

definition GroupStore_Delete :: "'w DynamoDBClient \<Rightarrow> string \<Rightarrow> string \<Rightarrow> string \<Rightarrow> 'w \<Rightarrow> string option \<times> 'w" where
  "GroupStore_Delete c table accountID groupID w =
     wrap_err_opt ''failed to delete group'' (DeleteItem c table (group_key accountID groupID) w)"

definition GroupStore_List :: "'w DynamoDBClient \<Rightarrow> string \<Rightarrow> string \<Rightarrow> 'w \<Rightarrow> string + Group list" where
  "GroupStore_List c table accountID w =
     bindR (wrap_err ''failed to list groups'' (Query c table None [KeyEq ''accountId'' accountID] w)) (\<lambda>its.
       mapR (\<lambda>it. wrap_err ''failed to unmarshal group'' (unmarshal_group it)) its)"

definition GroupStore_Update :: "'w DynamoDBClient \<Rightarrow> string \<Rightarrow> string \<Rightarrow> string \<Rightarrow> string \<Rightarrow> string \<Rightarrow> 'w
    \<Rightarrow> (string + Group) \<times> 'w" where
  "GroupStore_Update c table accountID groupID name description w =
     (case UpdateItem c table (group_key accountID groupID)
             [(''name'', AttrS name), (''description'', AttrS description)] w of
        (Inl e, w') \<Rightarrow> (Inl (''failed to update group: '' @ e), w')
      | (Inr it, w') \<Rightarrow> (wrap_err ''failed to unmarshal group'' (unmarshal_group it), w'))"

section \<open>members.go\<close>

definition hash_join :: "string \<Rightarrow> string \<Rightarrow> string" where
  "hash_join a b = a @ ''#'' @ b"

definition member_item :: "string \<Rightarrow> string \<Rightarrow> string \<Rightarrow> string \<Rightarrow> item" where
  "member_item accountID groupID arn now =
     [(''accountId'', AttrS accountID), (''groupId#memberArn'', AttrS (hash_join groupID arn)),
      (''groupId'', AttrS groupID), (''memberArn'', AttrS arn), (''addedAt'', AttrS now),
      (''accountId#memberArn'', AttrS (hash_join accountID arn))]"

definition member_key :: "string \<Rightarrow> string \<Rightarrow> string \<Rightarrow> item" where
  "member_key accountID groupID arn =
     [(''accountId'', AttrS accountID), (''groupId#memberArn'', AttrS (hash_join groupID arn))]"

definition MemberStore_Add :: "'w DynamoDBClient \<Rightarrow> string \<Rightarrow> string \<Rightarrow> string \<Rightarrow> string \<Rightarrow> string \<Rightarrow> 'w
    \<Rightarrow> string option \<times> 'w" where
  "MemberStore_Add c table now accountID groupID arn w =
     (case PutItem c table (member_item accountID groupID arn now) [] w of
        (None, w') \<Rightarrow> (None, w')
      | (Some (ConditionalCheckFailedException e), w') \<Rightarrow> (Some (''failed to add member: '' @ e), w')
      | (Some (OtherError e), w') \<Rightarrow> (Some (''failed to add member: '' @ e), w'))"

definition MemberStore_Remove :: "'w DynamoDBClient \<Rightarrow> string \<Rightarrow> string \<Rightarrow> string \<Rightarrow> string \<Rightarrow> 'w
    \<Rightarrow> string option \<times> 'w" where
  "MemberStore_Remove c table accountID groupID arn w =
     wrap_err_opt ''failed to remove member'' (DeleteItem c table (member_key accountID groupID arn) w)"

text \<open>The one field of a member the two listings use; the other fields are strings too and
  decode in the same way.\<close>

definition unmarshal_member :: "string \<Rightarrow> item \<Rightarrow> string + string" where
  "unmarshal_member field it =
     wrap_err ''failed to unmarshal member''
       (bindR (mapR (str_field it) [''accountId'', ''groupId#memberArn'', ''groupId'', ''memberArn'', ''addedAt'',
                ''accountId#memberArn'']) (\<lambda>_. str_field it field))"

definition MemberStore_ListGroupMembers :: "'w DynamoDBClient \<Rightarrow> string \<Rightarrow> string \<Rightarrow> string \<Rightarrow> 'w
    \<Rightarrow> string + string list" where
  "MemberStore_ListGroupMembers c table accountID groupID w =
     bindR (wrap_err ''failed to list group members''
       (Query c table None [KeyEq ''accountId'' accountID, BeginsWith ''groupId#memberArn'' (groupID @ ''#'')] w))
       (mapR (unmarshal_member ''memberArn''))"

definition MemberStore_GetUserGroups :: "'w DynamoDBClient \<Rightarrow> string \<Rightarrow> string \<Rightarrow> string \<Rightarrow> 'w
    \<Rightarrow> string + string list" where
  "MemberStore_GetUserGroups c table accountID arn w =
     bindR (wrap_err ''failed to get user groups''
       (Query c table (Some ''member-groups-index'') [KeyEq ''accountId#memberArn'' (hash_join accountID arn)] w))
       (mapR (unmarshal_member ''groupId''))"

definition MemberStore_IsMember :: "'w DynamoDBClient \<Rightarrow> string \<Rightarrow> string \<Rightarrow> string \<Rightarrow> string \<Rightarrow> 'w \<Rightarrow> string + bool" where
  "MemberStore_IsMember c table accountID groupID arn w =
     bindR (wrap_err ''failed to check membership'' (GetItem c table (member_key accountID groupID arn) w))
       (\<lambda>r. Inr (r \<noteq> None))"

fun remove_members :: "'w DynamoDBClient \<Rightarrow> string \<Rightarrow> string \<Rightarrow> string \<Rightarrow> string list \<Rightarrow> 'w \<Rightarrow> string option \<times> 'w" where
  "remove_members c table accountID groupID [] w = (None, w)"
| "remove_members c table accountID groupID (m # ms) w =
     (case MemberStore_Remove c table accountID groupID m w of
        (Some e, w') \<Rightarrow> (Some e, w')
      | (None, w') \<Rightarrow> remove_members c table accountID groupID ms w')"

definition MemberStore_RemoveAllGroupMembers :: "'w DynamoDBClient \<Rightarrow> string \<Rightarrow> string \<Rightarrow> string \<Rightarrow> 'w
    \<Rightarrow> string option \<times> 'w" where
  "MemberStore_RemoveAllGroupMembers c table accountID groupID w =
     (case MemberStore_ListGroupMembers c table accountID groupID w of
        Inl e \<Rightarrow> (Some e, w)
      | Inr ms \<Rightarrow> remove_members c table accountID groupID ms w)"

end
