(* ===== verification/Authz.thy ===== *)
theory Authz
  imports AuthzStore
begin

text \<open>
  The authorizer of platform-api (\<open>platform-api/pkg/authz/authz.go\<close>): the decision procedure and
  the management of accounts, admins, groups, policies and attachments over the DynamoDB stores
  and Amazon Verified Permissions (AVP). AVP is a service: its client is a record of functions
  on the same abstract state as the DynamoDB client.
\<close>

section \<open>Requests to AVP\<close>

record AuthzRequest =
  az_AccountID :: string
  az_CallerARN :: string
  az_Action :: string
  az_Resource :: string
  az_ResourceTags :: "(string \<times> string) list"
  az_RequestTags :: "(string \<times> string) list"
  az_Context :: "(string \<times> json) list"

datatype avalue = AVString string | AVBool bool | AVLong int
  | AVRecord "(string \<times> avalue) list" | AVSet "avalue list"

type_synonym entity_id = "string \<times> string"

record entity_item =
  en_Identifier :: entity_id
  en_Attributes :: "(string \<times> avalue) list"
  en_Parents :: "entity_id list"

record avp_request =
  av_PolicyStoreId :: string
  av_Principal :: entity_id
  av_Action :: entity_id
  av_Resource :: entity_id
  av_Context :: "(string \<times> avalue) list"
  av_Entities :: "entity_item list"

text \<open>\<open>int64\<close> of a \<open>float64\<close>; out of range it is the smallest \<open>int64\<close>, as on amd64.\<close>

definition int64_of_float :: "int \<Rightarrow> int" where
  "int64_of_float n = (case f64 n of Some m \<Rightarrow> if in64 m then m else - (2 ^ 63) | None \<Rightarrow> - (2 ^ 63))"

text \<open>Items without an attribute value are dropped from records and sets.\<close>

definition present :: "'a option list \<Rightarrow> 'a list" where
  "present xs = map the (filter (\<lambda>x. x \<noteq> None) xs)"

fun toAttributeValue :: "json \<Rightarrow> avalue option" where
  "toAttributeValue (JStr s) = Some (AVString s)"
| "toAttributeValue (JBool b) = Some (AVBool b)"
| "toAttributeValue (JNum n) = Some (AVLong (int64_of_float n))"
| "toAttributeValue (JObj kvs) =
     Some (AVRecord (present (map (\<lambda>(k, v). map_option (Pair k) (toAttributeValue v)) kvs)))"
| "toAttributeValue (JArr xs) = Some (AVSet (present (map toAttributeValue xs)))"
| "toAttributeValue JNull = None"

text \<open>Go maps as key/value lists in which the later assignment to a key wins.\<close>

definition assign :: "(string \<times> 'a) list \<Rightarrow> string \<Rightarrow> 'a \<Rightarrow> (string \<times> 'a) list" where
  "assign m k v = [kv \<leftarrow> m. fst kv \<noteq> k] @ [(k, v)]"

definition string_record :: "(string \<times> string) list \<Rightarrow> avalue" where
  "string_record tags = AVRecord (map (\<lambda>(k, v). (k, AVString v)) tags)"

definition avp_context :: "AuthzRequest \<Rightarrow> (string \<times> avalue) list" where
  "avp_context req =
     (let m0 = [(''principalArn'', AVString (az_CallerARN req)), (''principalAccount'', AVString (az_AccountID req))];
          m1 = (if az_RequestTags req = [] then m0
                else m0 @ [(''requestTags'', string_record (az_RequestTags req)),
                           (''tagKeys'', AVSet (map (AVString \<circ> fst) (az_RequestTags req)))])
      in foldl (\<lambda>m (k, v). case toAttributeValue v of Some av \<Rightarrow> assign m k av | None \<Rightarrow> m) m1 (az_Context req))"

definition plain_entity :: "entity_id \<Rightarrow> entity_item" where
  "plain_entity i = \<lparr>en_Identifier = i, en_Attributes = [], en_Parents = []\<rparr>"

definition buildAVPRequest :: "AuthzRequest \<Rightarrow> string list \<Rightarrow> string \<Rightarrow> avp_request" where
  "buildAVPRequest req groups policyStoreID =
     (let principal = (''ROSA::Principal'', az_CallerARN req);
          resource = (''ROSA::Resource'', az_Resource req)
      in \<lparr>av_PolicyStoreId = policyStoreID, av_Principal = principal,
          av_Action = (''ROSA::Action'', az_Action req), av_Resource = resource,
          av_Context = avp_context req,
          av_Entities = plain_entity principal # map (\<lambda>g. plain_entity (''ROSA::Group'', g)) groups
            @ (if az_ResourceTags req = [] then []
               else [(plain_entity resource)\<lparr>en_Attributes := [(''tags'', string_record (az_ResourceTags req))]\<rparr>])\<rparr>)"

section \<open>The AVP client and the authorizer\<close>

text \<open>The description of a policy template: its text, and what the text parses to as JSON.\<close>

type_synonym description = "string \<times> json option"

record template =
  tm_Description :: description
  tm_Statement :: string
  tm_CreatedDate :: string

record policy_filter =
  pf_PolicyTemplateId :: "string option"
  pf_Principal :: "entity_id option"

text \<open>An entry of a policy listing; the definition is \<open>None\<close> for a static policy.\<close>

record policy_entry =
  pe_PolicyId :: string
  pe_CreatedDate :: "string option"
  pe_TemplateLinked :: "(string \<times> entity_id option) option"

record 'w AVPClient =
  IsAuthorized :: "avp_request \<Rightarrow> 'w \<Rightarrow> string + bool"
  CreatePolicyStore :: "string \<Rightarrow> 'w \<Rightarrow> (string + string) \<times> 'w"
  PutSchema :: "string \<Rightarrow> 'w \<Rightarrow> string option \<times> 'w"
  DeletePolicyStore :: "string \<Rightarrow> 'w \<Rightarrow> string option \<times> 'w"
  CreatePolicyTemplate :: "string \<Rightarrow> string \<Rightarrow> description \<Rightarrow> 'w \<Rightarrow> (string + string \<times> string) \<times> 'w"
  GetPolicyTemplate :: "string \<Rightarrow> string \<Rightarrow> 'w \<Rightarrow> string + template"
  UpdatePolicyTemplate :: "string \<Rightarrow> string \<Rightarrow> string \<Rightarrow> description \<Rightarrow> 'w \<Rightarrow> (string + string) \<times> 'w"
  DeletePolicyTemplate :: "string \<Rightarrow> string \<Rightarrow> 'w \<Rightarrow> string option \<times> 'w"
  ListPolicyTemplates :: "string \<Rightarrow> 'w \<Rightarrow> string + string list"
  CreateLinkedPolicy :: "string \<Rightarrow> string \<Rightarrow> entity_id \<Rightarrow> 'w \<Rightarrow> (string + string \<times> string) \<times> 'w"
  DeleteAVPPolicy :: "string \<Rightarrow> string \<Rightarrow> 'w \<Rightarrow> string option \<times> 'w"
  ListAVPPolicies :: "string \<Rightarrow> policy_filter \<Rightarrow> 'w \<Rightarrow> string + policy_entry list"

record AuthzConfig =
  AWSRegion :: string
  AccountsTableName :: string
  AdminsTableName :: string
  GroupsTableName :: string
  MembersTableName :: string
  authz_Enabled :: bool

definition DefaultConfig :: AuthzConfig where
  "DefaultConfig = \<lparr>AWSRegion = ''us-east-1'', AccountsTableName = ''rosa-authz-accounts'',
     AdminsTableName = ''rosa-authz-admins'', GroupsTableName = ''rosa-authz-groups'',
     MembersTableName = ''rosa-authz-group-members'', authz_Enabled = True\<rparr>"

record 'w authorizerImpl =
  au_cfg :: AuthzConfig
  au_dynamo :: "'w DynamoDBClient"
  au_avp :: "'w AVPClient"

section \<open>Decisions\<close>

definition IsPrivileged :: "'w authorizerImpl \<Rightarrow> string \<Rightarrow> 'w \<Rightarrow> string + bool" where
  "IsPrivileged a accountID w = privileged_IsPrivileged (au_dynamo a) (AccountsTableName (au_cfg a)) accountID w"

definition IsAdmin :: "'w authorizerImpl \<Rightarrow> string \<Rightarrow> string \<Rightarrow> 'w \<Rightarrow> string + bool" where
  "IsAdmin a accountID arn w = AdminStore_IsAdmin (au_dynamo a) (AdminsTableName (au_cfg a)) accountID arn w"

definition GetAccount :: "'w authorizerImpl \<Rightarrow> string \<Rightarrow> 'w \<Rightarrow> string + Account option" where
  "GetAccount a accountID w = AccountStore_Get (au_dynamo a) (AccountsTableName (au_cfg a)) accountID w"

definition IsAccountProvisioned :: "'w authorizerImpl \<Rightarrow> string \<Rightarrow> 'w \<Rightarrow> string + bool" where
  "IsAccountProvisioned a accountID w =
     bindR (IsPrivileged a accountID w) (\<lambda>p.
       if p then Inr True
       else AccountStore_Exists (au_dynamo a) (AccountsTableName (au_cfg a)) accountID w)"

definition GetUserGroups :: "'w authorizerImpl \<Rightarrow> string \<Rightarrow> string \<Rightarrow> 'w \<Rightarrow> string + string list" where
  "GetUserGroups a accountID arn w =
     MemberStore_GetUserGroups (au_dynamo a) (MembersTableName (au_cfg a)) accountID arn w"

definition Authorize :: "'w authorizerImpl \<Rightarrow> AuthzRequest \<Rightarrow> 'w \<Rightarrow> string + bool" where
  "Authorize a req w =
     bindR (IsPrivileged a (az_AccountID req) w) (\<lambda>isPriv.
       if isPriv then Inr True
       else bindR (wrap_err ''failed to get account'' (GetAccount a (az_AccountID req) w)) (\<lambda>acct.
         case acct of
           None \<Rightarrow> Inl (''account not provisioned: '' @ az_AccountID req)
         | Some account \<Rightarrow>
             bindR (IsAdmin a (az_AccountID req) (az_CallerARN req) w) (\<lambda>isAdm.
               if isAdm then Inr True
               else bindR (wrap_err ''failed to get user groups''
                       (GetUserGroups a (az_AccountID req) (az_CallerARN req) w)) (\<lambda>groups.
                 wrap_err ''authorization check failed''
                   (IsAuthorized (au_avp a) (buildAVPRequest req groups (ac_PolicyStoreID account)) w)))))"

section \<open>Accounts\<close>

definition store_description :: "string \<Rightarrow> string" where
  "store_description accountID = ''ROSA authorization policy store for account '' @ accountID"

text \<open>The policy store of a new account, with the store deleted again when its schema cannot be
  set; a privileged account has none.\<close>

definition create_policy_store :: "'w authorizerImpl \<Rightarrow> string \<Rightarrow> bool \<Rightarrow> 'w \<Rightarrow> (string + string) \<times> 'w" where
  "create_policy_store a accountID isPrivileged w =
     (if isPrivileged then (Inr [], w)
      else case CreatePolicyStore (au_avp a) (store_description accountID) w of
        (Inl e, w1) \<Rightarrow> (Inl (''failed to create policy store: '' @ e), w1)
      | (Inr psid, w1) \<Rightarrow>
          (case PutSchema (au_avp a) psid w1 of
             (None, w2) \<Rightarrow> (Inr psid, w2)
           | (Some e, w2) \<Rightarrow>
               (Inl (''failed to set policy store schema: '' @ e), snd (DeletePolicyStore (au_avp a) psid w2))))"

definition EnableAccount :: "'w authorizerImpl \<Rightarrow> string \<Rightarrow> string \<Rightarrow> string \<Rightarrow> bool \<Rightarrow> 'w \<Rightarrow> (string + Account) \<times> 'w" where
  "EnableAccount a now accountID createdBy isPrivileged w =
     (case create_policy_store a accountID isPrivileged w of
        (Inl e, w1) \<Rightarrow> (Inl e, w1)
      | (Inr psid, w1) \<Rightarrow>
          (case AccountStore_Create (au_dynamo a) (AccountsTableName (au_cfg a)) now
                  \<lparr>ac_AccountID = accountID, ac_PolicyStoreID = psid, ac_Privileged = isPrivileged,
                   ac_CreatedAt = [], ac_CreatedBy = createdBy\<rparr> w1 of
             (Inr account, w2) \<Rightarrow> (Inr account, w2)
           | (Inl e, w2) \<Rightarrow>
               (Inl e, if psid = [] then w2 else snd (DeletePolicyStore (au_avp a) psid w2))))"

definition DisableAccount :: "'w authorizerImpl \<Rightarrow> string \<Rightarrow> 'w \<Rightarrow> string option \<times> 'w" where
  "DisableAccount a accountID w =
     (case GetAccount a accountID w of
        Inl e \<Rightarrow> (Some e, w)
      | Inr None \<Rightarrow> (Some (''account not found: '' @ accountID), w)
      | Inr (Some account) \<Rightarrow>
          (let w1 = (if ac_PolicyStoreID account = [] then w
                     else snd (DeletePolicyStore (au_avp a) (ac_PolicyStoreID account) w))
           in AccountStore_Delete (au_dynamo a) (AccountsTableName (au_cfg a)) accountID w1))"

definition ListAccounts :: "'w authorizerImpl \<Rightarrow> 'w \<Rightarrow> string + Account list" where
  "ListAccounts a w = AccountStore_List (au_dynamo a) (AccountsTableName (au_cfg a)) w"

section \<open>Admins and groups\<close>

definition AddAdmin :: "'w authorizerImpl \<Rightarrow> string \<Rightarrow> string \<Rightarrow> string \<Rightarrow> string \<Rightarrow> 'w \<Rightarrow> string option \<times> 'w" where
  "AddAdmin a now accountID arn createdBy w =
     AdminStore_Add (au_dynamo a) (AdminsTableName (au_cfg a)) now
       \<lparr>ad_AccountID = accountID, ad_PrincipalARN = arn, ad_CreatedAt = [], ad_CreatedBy = createdBy\<rparr> w"

definition RemoveAdmin :: "'w authorizerImpl \<Rightarrow> string \<Rightarrow> string \<Rightarrow> 'w \<Rightarrow> string option \<times> 'w" where
  "RemoveAdmin a accountID arn w = AdminStore_Remove (au_dynamo a) (AdminsTableName (au_cfg a)) accountID arn w"

definition ListAdmins :: "'w authorizerImpl \<Rightarrow> string \<Rightarrow> 'w \<Rightarrow> string + string list" where
  "ListAdmins a accountID w = AdminStore_ListARNs (au_dynamo a) (AdminsTableName (au_cfg a)) accountID w"

definition CreateGroup :: "'w authorizerImpl \<Rightarrow> string \<Rightarrow> string \<Rightarrow> string \<Rightarrow> string \<Rightarrow> string \<Rightarrow> 'w
    \<Rightarrow> (string + Group) \<times> 'w" where
  "CreateGroup a now uuid accountID name description w =
     GroupStore_Create (au_dynamo a) (GroupsTableName (au_cfg a)) now uuid accountID name description w"

definition GetGroup :: "'w authorizerImpl \<Rightarrow> string \<Rightarrow> string \<Rightarrow> 'w \<Rightarrow> string + Group option" where
  "GetGroup a accountID groupID w = GroupStore_Get (au_dynamo a) (GroupsTableName (au_cfg a)) accountID groupID w"

definition DeleteGroup :: "'w authorizerImpl \<Rightarrow> string \<Rightarrow> string \<Rightarrow> 'w \<Rightarrow> string option \<times> 'w" where
  "DeleteGroup a accountID groupID w =
     (case MemberStore_RemoveAllGroupMembers (au_dynamo a) (MembersTableName (au_cfg a)) accountID groupID w of
        (Some e, w1) \<Rightarrow> (Some e, w1)
      | (None, w1) \<Rightarrow> GroupStore_Delete (au_dynamo a) (GroupsTableName (au_cfg a)) accountID groupID w1)"

definition ListGroups :: "'w authorizerImpl \<Rightarrow> string \<Rightarrow> 'w \<Rightarrow> string + Group list" where
  "ListGroups a accountID w = GroupStore_List (au_dynamo a) (GroupsTableName (au_cfg a)) accountID w"

definition AddGroupMember :: "'w authorizerImpl \<Rightarrow> string \<Rightarrow> string \<Rightarrow> string \<Rightarrow> string \<Rightarrow> 'w \<Rightarrow> string option \<times> 'w" where
  "AddGroupMember a now accountID groupID arn w =
     MemberStore_Add (au_dynamo a) (MembersTableName (au_cfg a)) now accountID groupID arn w"

definition RemoveGroupMember :: "'w authorizerImpl \<Rightarrow> string \<Rightarrow> string \<Rightarrow> string \<Rightarrow> 'w \<Rightarrow> string option \<times> 'w" where
  "RemoveGroupMember a accountID groupID arn w =
     MemberStore_Remove (au_dynamo a) (MembersTableName (au_cfg a)) accountID groupID arn w"

definition ListGroupMembers :: "'w authorizerImpl \<Rightarrow> string \<Rightarrow> string \<Rightarrow> 'w \<Rightarrow> string + string list" where
  "ListGroupMembers a accountID groupID w =
     MemberStore_ListGroupMembers (au_dynamo a) (MembersTableName (au_cfg a)) accountID groupID w"

section \<open>Policies and attachments\<close>

text \<open>A policy's name and description travel as a JSON object in the template's description.
  \<open>go_quote\<close> is the string escaping of \<open>encoding/json\<close> for valid UTF-8 without the separators
  U+2028 and U+2029.\<close>

definition go_escape :: "char \<Rightarrow> string" where
  "go_escape c =
     (if c = CHR 0x22 then [CHR 0x5C, CHR 0x22] else if c = CHR 0x5C then [CHR 0x5C, CHR 0x5C]
      else if c = CHR 0x08 then [CHR 0x5C, CHR ''b''] else if c = CHR 0x0C then [CHR 0x5C, CHR ''f'']
      else if c = CHR 0x0A then [CHR 0x5C, CHR ''n''] else if c = CHR 0x0D then [CHR 0x5C, CHR ''r'']
      else if c = CHR 0x09 then [CHR 0x5C, CHR ''t'']
      else if (of_char c :: nat) < 32 \<or> c \<in> {CHR ''<'', CHR ''>'', CHR ''&''}
      then [CHR 0x5C] @ ''u00'' @ [hex_digit (of_char c div 16), hex_digit (of_char c mod 16)]
      else [c])"

definition go_quote :: "string \<Rightarrow> string" where
  "go_quote s = [CHR 0x22] @ concat (map go_escape s) @ [CHR 0x22]"

definition encodePolicyMeta :: "string \<Rightarrow> string \<Rightarrow> description" where
  "encodePolicyMeta name descr =
     (''{'' @ go_quote ''name'' @ '':'' @ go_quote name
        @ (if descr = [] then [] else '','' @ go_quote ''description'' @ '':'' @ go_quote descr) @ ''}'',
      Some (JObj ((''name'', JStr name) # (if descr = [] then [] else [(''description'', JStr descr)]))))"

text \<open>Decoding into the two string fields, keys compared without case.\<close>

fun meta_fields :: "(string \<times> json) list \<Rightarrow> string \<times> string \<Rightarrow> (string \<times> string) option" where
  "meta_fields [] nd = Some nd"
| "meta_fields ((k, v) # kvs) (n, d) =
     (if equal_fold k ''name''
      then (case v of JStr s \<Rightarrow> meta_fields kvs (s, d) | JNull \<Rightarrow> meta_fields kvs (n, d) | _ \<Rightarrow> None)
      else if equal_fold k ''description''
      then (case v of JStr s \<Rightarrow> meta_fields kvs (n, s) | JNull \<Rightarrow> meta_fields kvs (n, d) | _ \<Rightarrow> None)
      else meta_fields kvs (n, d))"

definition decodePolicyMeta :: "description \<Rightarrow> string \<times> string" where
  "decodePolicyMeta d =
     (case snd d of
        Some (JObj kvs) \<Rightarrow> (case meta_fields kvs ([], []) of Some nd \<Rightarrow> nd | None \<Rightarrow> (fst d, []))
      | Some JNull \<Rightarrow> ([], [])
      | _ \<Rightarrow> (fst d, []))"

record Policy =
  po_AccountID :: string
  po_PolicyID :: string
  po_Name :: string
  po_Description :: string
  po_CedarPolicy :: string
  po_CreatedAt :: string

definition getAccountPolicyStoreID :: "'w authorizerImpl \<Rightarrow> string \<Rightarrow> 'w \<Rightarrow> string + string" where
  "getAccountPolicyStoreID a accountID w =
     bindR (wrap_err ''failed to get account'' (GetAccount a accountID w)) (\<lambda>r.
       case r of
         None \<Rightarrow> Inl (''account not found: '' @ accountID)
       | Some account \<Rightarrow>
           if ac_PolicyStoreID account = []
           then Inl ''account has no policy store (privileged accounts cannot have policies)''
           else Inr (ac_PolicyStoreID account))"

text \<open>\<open>strings.TrimSpace(s) == ""\<close> for ASCII text.\<close>

definition blank :: "string \<Rightarrow> bool" where
  "blank s \<longleftrightarrow> list_all (\<lambda>c. c \<in> {CHR 0x20, CHR 0x09, CHR 0x0A, CHR 0x0B, CHR 0x0C, CHR 0x0D}) s"

definition with_store :: "'w authorizerImpl \<Rightarrow> string \<Rightarrow> 'w \<Rightarrow> (string \<Rightarrow> (string + 'b) \<times> 'w) \<Rightarrow> (string + 'b) \<times> 'w" where
  "with_store a accountID w f =
     (case getAccountPolicyStoreID a accountID w of Inl e \<Rightarrow> (Inl e, w) | Inr psid \<Rightarrow> f psid)"

definition CreatePolicy :: "'w authorizerImpl \<Rightarrow> string \<Rightarrow> string \<Rightarrow> string \<Rightarrow> string \<Rightarrow> 'w \<Rightarrow> (string + Policy) \<times> 'w" where
  "CreatePolicy a accountID name descr cedarPolicy w =
     (if blank cedarPolicy then (Inl ''invalid policy: cedar policy text is required'', w)
      else with_store a accountID w (\<lambda>psid.
        case CreatePolicyTemplate (au_avp a) psid cedarPolicy (encodePolicyMeta name descr) w of
          (Inl e, w') \<Rightarrow> (Inl (''failed to create policy template: '' @ e), w')
        | (Inr (i, created), w') \<Rightarrow>
            (Inr \<lparr>po_AccountID = accountID, po_PolicyID = i, po_Name = name, po_Description = descr,
                  po_CedarPolicy = cedarPolicy, po_CreatedAt = created\<rparr>, w')))"

definition policy_of :: "string \<Rightarrow> string \<Rightarrow> template \<Rightarrow> Policy" where
  "policy_of accountID policyID t =
     (case decodePolicyMeta (tm_Description t) of (name, descr) \<Rightarrow>
        \<lparr>po_AccountID = accountID, po_PolicyID = policyID, po_Name = name, po_Description = descr,
         po_CedarPolicy = tm_Statement t, po_CreatedAt = tm_CreatedDate t\<rparr>)"

definition GetPolicy :: "'w authorizerImpl \<Rightarrow> string \<Rightarrow> string \<Rightarrow> 'w \<Rightarrow> string + Policy" where
  "GetPolicy a accountID policyID w =
     bindR (getAccountPolicyStoreID a accountID w) (\<lambda>psid.
     bindR (wrap_err ''failed to get policy template'' (GetPolicyTemplate (au_avp a) psid policyID w)) (\<lambda>t.
       Inr (policy_of accountID policyID t)))"

definition UpdatePolicy :: "'w authorizerImpl \<Rightarrow> string \<Rightarrow> string \<Rightarrow> string \<Rightarrow> string \<Rightarrow> string \<Rightarrow> 'w
    \<Rightarrow> (string + Policy) \<times> 'w" where
  "UpdatePolicy a accountID policyID name descr cedarPolicy w =
     (if blank cedarPolicy then (Inl ''invalid policy: cedar policy text is required'', w)
      else with_store a accountID w (\<lambda>psid.
        case UpdatePolicyTemplate (au_avp a) psid policyID cedarPolicy (encodePolicyMeta name descr) w of
          (Inl e, w') \<Rightarrow> (Inl (''failed to update policy template: '' @ e), w')
        | (Inr created, w') \<Rightarrow>
            (Inr \<lparr>po_AccountID = accountID, po_PolicyID = policyID, po_Name = name, po_Description = descr,
                  po_CedarPolicy = cedarPolicy, po_CreatedAt = created\<rparr>, w')))"

definition opt_result :: "string \<Rightarrow> string option \<times> 'w \<Rightarrow> (string + unit) \<times> 'w" where
  "opt_result msg r = (case r of (None, w) \<Rightarrow> (Inr (), w) | (Some e, w) \<Rightarrow> (Inl (msg @ '': '' @ e), w))"

definition DeletePolicy :: "'w authorizerImpl \<Rightarrow> string \<Rightarrow> string \<Rightarrow> 'w \<Rightarrow> (string + unit) \<times> 'w" where
  "DeletePolicy a accountID policyID w =
     with_store a accountID w (\<lambda>psid.
       case ListAVPPolicies (au_avp a) psid \<lparr>pf_PolicyTemplateId = Some policyID, pf_Principal = None\<rparr> w of
         Inl e \<Rightarrow> (Inl (''failed to check policy attachments: '' @ e), w)
       | Inr ps \<Rightarrow>
           if ps \<noteq> [] then (Inl ''cannot delete policy with existing attachments'', w)
           else opt_result ''failed to delete policy template'' (DeletePolicyTemplate (au_avp a) psid policyID w))"

text \<open>A template that cannot be fetched is left out of the listing.\<close>

definition ListPolicies :: "'w authorizerImpl \<Rightarrow> string \<Rightarrow> 'w \<Rightarrow> string + Policy list" where
  "ListPolicies a accountID w =
     bindR (getAccountPolicyStoreID a accountID w) (\<lambda>psid.
     bindR (wrap_err ''failed to list policy templates'' (ListPolicyTemplates (au_avp a) psid w)) (\<lambda>ids.
       Inr (present (map (\<lambda>i. case GetPolicyTemplate (au_avp a) psid i w of
                                Inl _ \<Rightarrow> None | Inr t \<Rightarrow> Some (policy_of accountID i t)) ids))))"

record Attachment =
  at_AttachmentID :: string
  at_PolicyID :: string
  at_TargetType :: string
  at_TargetID :: string
  at_CreatedAt :: string

definition target_entity :: "string \<Rightarrow> string \<Rightarrow> entity_id" where
  "target_entity targetType targetID =
     ((if targetType = ''group'' then ''ROSA::Group'' else ''ROSA::Principal''), targetID)"

definition AttachPolicy :: "'w authorizerImpl \<Rightarrow> string \<Rightarrow> string \<Rightarrow> string \<Rightarrow> string \<Rightarrow> 'w
    \<Rightarrow> (string + Attachment) \<times> 'w" where
  "AttachPolicy a accountID policyID targetType targetID w =
     with_store a accountID w (\<lambda>psid.
       case CreateLinkedPolicy (au_avp a) psid policyID (target_entity targetType targetID) w of
         (Inl e, w') \<Rightarrow> (Inl (''failed to create template-linked policy: '' @ e), w')
       | (Inr (i, created), w') \<Rightarrow>
           (Inr \<lparr>at_AttachmentID = i, at_PolicyID = policyID, at_TargetType = targetType,
                 at_TargetID = targetID, at_CreatedAt = created\<rparr>, w'))"

definition DetachPolicy :: "'w authorizerImpl \<Rightarrow> string \<Rightarrow> string \<Rightarrow> 'w \<Rightarrow> (string + unit) \<times> 'w" where
  "DetachPolicy a accountID attachmentID w =
     with_store a accountID w (\<lambda>psid.
       opt_result ''failed to delete policy attachment'' (DeleteAVPPolicy (au_avp a) psid attachmentID w))"

record AttachmentFilter =
  afl_PolicyID :: string
  afl_TargetType :: string
  afl_TargetID :: string

definition policyFilter :: "AttachmentFilter \<Rightarrow> policy_filter" where
  "policyFilter f =
     \<lparr>pf_PolicyTemplateId = (if afl_PolicyID f = [] then None else Some (afl_PolicyID f)),
      pf_Principal = (if afl_TargetType f \<noteq> [] \<and> afl_TargetID f \<noteq> []
                      then Some (target_entity (afl_TargetType f) (afl_TargetID f)) else None)\<rparr>"

definition attachment_of :: "policy_entry \<Rightarrow> Attachment" where
  "attachment_of p =
     (let att = \<lparr>at_AttachmentID = pe_PolicyId p, at_PolicyID = [], at_TargetType = [], at_TargetID = [],
                 at_CreatedAt = (case pe_CreatedDate p of None \<Rightarrow> [] | Some d \<Rightarrow> d)\<rparr>
      in case pe_TemplateLinked p of
           None \<Rightarrow> att
         | Some (tid, pr) \<Rightarrow>
             (case pr of
                None \<Rightarrow> att\<lparr>at_PolicyID := tid\<rparr>
              | Some (ty, i) \<Rightarrow> att\<lparr>at_PolicyID := tid, at_TargetID := i,
                  at_TargetType := if ty = ''ROSA::Group'' then ''group'' else ''user''\<rparr>))"

definition ListAttachments :: "'w authorizerImpl \<Rightarrow> string \<Rightarrow> AttachmentFilter \<Rightarrow> 'w \<Rightarrow> string + Attachment list" where
  "ListAttachments a accountID f w =
     bindR (getAccountPolicyStoreID a accountID w) (\<lambda>psid.
     bindR (wrap_err ''failed to list policy attachments'' (ListAVPPolicies (au_avp a) psid (policyFilter f) w))
       (\<lambda>ps. Inr (map attachment_of ps)))"

end
