(* ===== verification/Middleware.thy ===== *)
theory Middleware
  imports Http Authz
begin

text \<open>
  The authentication and authorization middleware of platform-api
  (\<open>platform-api/pkg/middleware\<close>) and the chains in which \<open>platform-api/pkg/server/server.go\<close>
  puts it in front of the handlers. A middleware takes the next handler and is a handler. The
  checks go through the interface \<open>authz.Checker\<close>, here the record \<open>Checker\<close>; logging is left
  out.
\<close>

section \<open>errorcodes.go\<close>

definition ErrMissingAccountID :: APIError where
  "ErrMissingAccountID = api_error ''AUTH-001'' 403 ''Account ID header is required''"
definition ErrMissingCallerARN :: APIError where
  "ErrMissingCallerARN = api_error ''AUTH-002'' 403 ''Caller ARN header is required''"
definition ErrAccountNotProvisioned :: APIError where
  "ErrAccountNotProvisioned = api_error ''AUTH-004'' 403
     ''Account is not provisioned for ROSA authorization. Contact your administrator.''"
definition ErrNotAdmin :: APIError where
  "ErrNotAdmin = api_error ''AUTH-005'' 403 ''This operation requires admin privileges''"
definition ErrNotPrivileged :: APIError where
  "ErrNotPrivileged = api_error ''AUTH-006'' 403 ''This operation requires a privileged account''"
definition ErrAccountNotAllowed :: APIError where
  "ErrAccountNotAllowed = api_error ''AUTH-007'' 403 ''account not allowed''"
definition ErrAuthorizationFailed :: APIError where
  "ErrAuthorizationFailed = api_error ''AUTH-008'' 500 ''Authorization check failed''"
definition ErrAccessDenied :: APIError where
  "ErrAccessDenied = api_error ''AUTH-009'' 403 ''You do not have permission to perform this action''"
definition ErrAdminCheckFailed :: APIError where
  "ErrAdminCheckFailed = api_error ''AUTH-010'' 500 ''Failed to check admin status''"
definition ErrPrivilegedCheckFailed :: APIError where
  "ErrPrivilegedCheckFailed = api_error ''AUTH-011'' 500 ''Failed to check privileged status''"
definition ErrProvisionedCheckFailed :: APIError where
  "ErrProvisionedCheckFailed = api_error ''AUTH-012'' 500 ''Failed to check account provisioning status''"

lemmas auth_errors = ErrMissingAccountID_def ErrMissingCallerARN_def ErrAccountNotProvisioned_def
  ErrNotAdmin_def ErrNotPrivileged_def ErrAccountNotAllowed_def ErrAuthorizationFailed_def
  ErrAccessDenied_def ErrAdminCheckFailed_def ErrPrivilegedCheckFailed_def ErrProvisionedCheckFailed_def

definition writeError :: "headers \<Rightarrow> APIError \<Rightarrow> 'w \<Rightarrow> response \<times> 'w" where
  "writeError h e w = (WriteError h e, w)"

section \<open>identity.go\<close>

definition from_header :: "http_request \<Rightarrow> string \<Rightarrow> string option \<Rightarrow> string option" where
  "from_header r name old = (if q_header r name = [] then old else Some (q_header r name))"

definition identity_ctx :: "http_request \<Rightarrow> go_context" where
  "identity_ctx r =
     (let c = q_ctx r in
      c\<lparr>ctx_account_id := from_header r ''X-Amz-Account-Id'' (ctx_account_id c),
        ctx_caller_arn := from_header r ''X-Amz-Caller-Arn'' (ctx_caller_arn c),
        ctx_user_id := from_header r ''X-Amz-User-Id'' (ctx_user_id c),
        ctx_source_ip := from_header r ''X-Amz-Source-Ip'' (ctx_source_ip c),
        ctx_request_id := from_header r ''X-Amz-Request-Id'' (ctx_request_id c)\<rparr>)"

definition Identity :: "'w handler \<Rightarrow> 'w handler" where
  "Identity next h r w = next h (r\<lparr>q_ctx := identity_ctx r\<rparr>) w"

definition or_empty :: "string option \<Rightarrow> string" where
  "or_empty v = (case v of None \<Rightarrow> [] | Some s \<Rightarrow> s)"

definition GetAccountID :: "http_request \<Rightarrow> string" where
  "GetAccountID r = or_empty (ctx_account_id (q_ctx r))"

definition GetCallerARN :: "http_request \<Rightarrow> string" where
  "GetCallerARN r = or_empty (ctx_caller_arn (q_ctx r))"

definition GetUserID :: "http_request \<Rightarrow> string" where
  "GetUserID r = or_empty (ctx_user_id (q_ctx r))"

definition GetRequestID :: "http_request \<Rightarrow> string" where
  "GetRequestID r = or_empty (ctx_request_id (q_ctx r))"

definition GetPrivileged :: "http_request \<Rightarrow> bool" where
  "GetPrivileged r = (case ctx_privileged (q_ctx r) of None \<Rightarrow> False | Some b \<Rightarrow> b)"

section \<open>The interface authz.Checker\<close>

record 'w Checker =
  ck_Authorize :: "AuthzRequest \<Rightarrow> 'w \<Rightarrow> string + bool"
  ck_IsPrivileged :: "string \<Rightarrow> 'w \<Rightarrow> string + bool"
  ck_IsAdmin :: "string \<Rightarrow> string \<Rightarrow> 'w \<Rightarrow> string + bool"
  ck_IsAccountProvisioned :: "string \<Rightarrow> 'w \<Rightarrow> string + bool"

definition authorizer_checker :: "'w authorizerImpl \<Rightarrow> 'w Checker" where
  "authorizer_checker a = \<lparr>ck_Authorize = Authorize a, ck_IsPrivileged = IsPrivileged a,
     ck_IsAdmin = IsAdmin a, ck_IsAccountProvisioned = IsAccountProvisioned a\<rparr>"

section \<open>privileged.go\<close>

definition CheckPrivileged :: "'w Checker \<Rightarrow> 'w handler \<Rightarrow> 'w handler" where
  "CheckPrivileged p next h r w =
     (if GetAccountID r = [] then next h r w
      else case ck_IsPrivileged p (GetAccountID r) w of
        Inl _ \<Rightarrow> next h r w
      | Inr b \<Rightarrow> next h (r\<lparr>q_ctx := (q_ctx r)\<lparr>ctx_privileged := Some b\<rparr>\<rparr>) w)"

definition RequirePrivileged :: "'w Checker \<Rightarrow> 'w handler \<Rightarrow> 'w handler" where
  "RequirePrivileged p next h r w =
     (if GetAccountID r = [] then writeError h ErrMissingAccountID w
      else case (if GetPrivileged r then Inr True else ck_IsPrivileged p (GetAccountID r) w) of
        Inl _ \<Rightarrow> writeError h ErrPrivilegedCheckFailed w
      | Inr False \<Rightarrow> writeError h ErrNotPrivileged w
      | Inr True \<Rightarrow> next h r w)"

section \<open>account_check.go and admin_check.go\<close>

definition RequireProvisioned :: "'w Checker \<Rightarrow> 'w handler \<Rightarrow> 'w handler" where
  "RequireProvisioned p next h r w =
     (if GetAccountID r = [] then writeError h ErrMissingAccountID w
      else if GetPrivileged r then next h r w
      else case ck_IsAccountProvisioned p (GetAccountID r) w of
        Inl _ \<Rightarrow> writeError h ErrProvisionedCheckFailed w
      | Inr False \<Rightarrow> writeError h ErrAccountNotProvisioned w
      | Inr True \<Rightarrow> next h r w)"

definition RequireAdmin :: "'w Checker \<Rightarrow> 'w handler \<Rightarrow> 'w handler" where
  "RequireAdmin p next h r w =
     (if GetAccountID r = [] then writeError h ErrMissingAccountID w
      else if GetPrivileged r then next h r w
      else if GetCallerARN r = [] then writeError h ErrMissingCallerARN w
      else case ck_IsAdmin p (GetAccountID r) (GetCallerARN r) w of
        Inl _ \<Rightarrow> writeError h ErrAdminCheckFailed w
      | Inr False \<Rightarrow> writeError h ErrNotAdmin w
      | Inr True \<Rightarrow> next h r w)"

section \<open>authorization.go\<close>

definition RequireAllowedAccount :: "string list \<Rightarrow> 'w handler \<Rightarrow> 'w handler" where
  "RequireAllowedAccount allowedAccounts next h r w =
     (if GetAccountID r = [] then writeError h ErrMissingAccountID w
      else if GetAccountID r \<notin> set allowedAccounts then writeError h ErrAccountNotAllowed w
      else next h r w)"

section \<open>authz.go\<close>

record AuthzMiddleware =
  mz_enabled :: bool
  mz_region :: string

definition NewAuthz :: "bool \<Rightarrow> string \<Rightarrow> AuthzMiddleware" where
  "NewAuthz enabled region =
     \<lparr>mz_enabled = enabled, mz_region = if region = [] then ''us-east-1'' else region\<rparr>"

definition path_parts :: "string \<Rightarrow> string list" where
  "path_parts path = split_on (CHR ''/'') (trim (CHR ''/'') path)"

definition action_prefix :: "string \<Rightarrow> string" where
  "action_prefix meth =
     (if meth = ''POST'' then ''Create'' else if meth = ''GET'' then ''Describe''
      else if meth = ''PUT'' \<or> meth = ''PATCH'' then ''Update''
      else if meth = ''DELETE'' then ''Delete'' else ''Unknown'')"

definition resource_type :: "string list \<Rightarrow> string" where
  "resource_type parts =
     (if 3 \<le> length parts
      then if parts ! 2 = ''clusters''
           then if 5 \<le> length parts \<and> parts ! 4 = ''nodepools'' then ''NodePool''
                else if 5 \<le> length parts \<and> parts ! 4 = ''access_entries'' then ''AccessEntry''
                else ''Cluster''
           else if parts ! 2 = ''nodepools'' then ''NodePool''
           else if parts ! 2 = ''access_entries'' then ''AccessEntry''
           else ''Resource''
      else ''Resource'')"

definition deriveAction :: "http_request \<Rightarrow> string" where
  "deriveAction r =
     (let prefix = action_prefix (q_method r); ty = resource_type (path_parts (q_path r))
      in if q_method r = ''GET'' \<and> q_vars r ''id'' = None then ''List'' @ ty @ ''s'' else prefix @ ty)"

definition buildARN :: "AuthzMiddleware \<Rightarrow> string \<Rightarrow> string \<Rightarrow> string \<Rightarrow> string" where
  "buildARN a accountID ty i = ''arn:aws:rosa:'' @ mz_region a @ '':'' @ accountID @ '':'' @ ty @ ''/'' @ i"

definition deriveResource :: "AuthzMiddleware \<Rightarrow> http_request \<Rightarrow> string" where
  "deriveResource a r =
     (case q_vars r ''id'' of
        None \<Rightarrow> ''*''
      | Some i \<Rightarrow>
          buildARN a (GetAccountID r)
            (if str_contains (q_path r) ''/nodepools/'' then ''nodepool''
             else if str_contains (q_path r) ''/access_entries/'' then ''accessentry''
             else if str_contains (q_path r) ''/clusters/'' \<or> str_contains (q_path r) ''/clusters'' then ''cluster''
             else ''resource'') i)"

definition buildAuthzRequest :: "AuthzMiddleware \<Rightarrow> http_request \<Rightarrow> AuthzRequest" where
  "buildAuthzRequest a r =
     \<lparr>az_AccountID = GetAccountID r, az_CallerARN = GetCallerARN r, az_Action = deriveAction r,
      az_Resource = deriveResource a r, az_ResourceTags = [], az_RequestTags = [], az_Context = []\<rparr>"

definition mw_Authorize :: "AuthzMiddleware \<Rightarrow> 'w Checker \<Rightarrow> 'w handler \<Rightarrow> 'w handler" where
  "mw_Authorize a p next h r w =
     (if \<not> mz_enabled a then next h r w
      else if GetAccountID r = [] then writeError h ErrMissingAccountID w
      else if GetCallerARN r = [] then writeError h ErrMissingCallerARN w
      else if GetPrivileged r then next h r w
      else case ck_Authorize p (buildAuthzRequest a r) w of
        Inl e \<Rightarrow> if str_contains e ''not provisioned'' then writeError h ErrAccountNotProvisioned w
                 else writeError h ErrAuthorizationFailed w
      | Inr False \<Rightarrow> writeError h ErrAccessDenied w
      | Inr True \<Rightarrow> next h r w)"

section \<open>The chains of server.go\<close>

text \<open>Clusters, node pools, OIDC configurations and management clusters: Cedar authorization when
  it is enabled, the allow list otherwise. The rate limiter, when enabled, stands between
  \<open>Identity\<close> and the rest.\<close>

definition resource_chain :: "bool \<Rightarrow> string \<Rightarrow> string list \<Rightarrow> 'w Checker \<Rightarrow> 'w handler \<Rightarrow> 'w handler" where
  "resource_chain authzEnabled region allowedAccounts p next =
     Identity (if authzEnabled then CheckPrivileged p (mw_Authorize (NewAuthz authzEnabled region) p next)
               else RequireAllowedAccount allowedAccounts next)"

definition accounts_chain :: "'w Checker \<Rightarrow> 'w handler \<Rightarrow> 'w handler" where
  "accounts_chain p next = Identity (CheckPrivileged p (RequirePrivileged p next))"

definition check_chain :: "'w Checker \<Rightarrow> 'w handler \<Rightarrow> 'w handler" where
  "check_chain p next = Identity (CheckPrivileged p (RequireProvisioned p next))"

definition authz_chain :: "'w Checker \<Rightarrow> 'w handler \<Rightarrow> 'w handler" where
  "authz_chain p next = Identity (CheckPrivileged p (RequireProvisioned p (RequireAdmin p next)))"

end
