(* ===== verification/RateLimit.thy ===== *)
theory RateLimit
  imports Middleware
begin

text \<open>
  The rate limiter of platform-api (\<open>platform-api/pkg/ratelimit\<close>): the configuration with its
  checks and defaults, the in-memory GCRA limiter, route matching and the HTTP middleware.
  Instants and durations are nanoseconds. Instants are integers; durations are \<open>int64\<close>, with
  the wrap-around of Go's arithmetic and the saturation of \<open>Time.Sub\<close> written out. The clock is
  an argument.
\<close>

section \<open>config.go\<close>

record RouteLimit =
  rl_Path :: string
  rl_Method :: string
  rl_Rate :: int
  rl_Burst :: int
  rl_Window :: int

record Config =
  cf_Enabled :: bool
  cf_ExemptAccounts :: "string list"
  cf_RedisTimeout :: int
  cf_Default :: RouteLimit
  cf_Routes :: "RouteLimit list"
  cf_exemptSet :: "string list"

datatype config_error =
    ReadingConfig | ParsingConfig
  | DefaultRate int | DefaultBurst int | DefaultWindow int
  | BadRouteRate nat | BadRouteBurst nat | BadRouteWindow nat

definition load_default :: "RouteLimit \<Rightarrow> config_error + RouteLimit" where
  "load_default d =
     (if rl_Rate d < 0 then Inl (DefaultRate (rl_Rate d))
      else let rate = (if rl_Rate d = 0 then 100 else rl_Rate d)
      in if rl_Burst d < 0 then Inl (DefaultBurst (rl_Burst d))
      else let burst = (if rl_Burst d = 0 then wrap64 (rate * 2) else rl_Burst d)
      in if rl_Window d < 0 then Inl (DefaultWindow (rl_Window d))
      else Inr (d\<lparr>rl_Rate := rate, rl_Burst := burst,
                  rl_Window := if rl_Window d = 0 then 1 else rl_Window d\<rparr>))"

definition load_route :: "int \<Rightarrow> nat \<Rightarrow> RouteLimit \<Rightarrow> config_error + RouteLimit" where
  "load_route defaultWindow i r =
     (if rl_Rate r \<le> 0 then Inl (BadRouteRate i)
      else if rl_Burst r < 0 then Inl (BadRouteBurst i)
      else let burst = (if rl_Burst r = 0 then wrap64 (rl_Rate r * 2) else rl_Burst r)
      in if rl_Window r < 0 then Inl (BadRouteWindow i)
      else Inr (r\<lparr>rl_Burst := burst,
                  rl_Window := if rl_Window r = 0 then defaultWindow else rl_Window r\<rparr>))"

fun load_routes :: "int \<Rightarrow> nat \<Rightarrow> RouteLimit list \<Rightarrow> config_error + RouteLimit list" where
  "load_routes w i [] = Inr []"
| "load_routes w i (r # rs) =
     bindR (load_route w i r) (\<lambda>r'. bindR (load_routes w (Suc i) rs) (\<lambda>rs'. Inr (r' # rs')))"

text \<open>\<open>read_file\<close> is \<open>os.ReadFile\<close> and \<open>unmarshal\<close> is \<open>yaml.Unmarshal\<close>, \<open>None\<close> where they fail.\<close>

definition LoadConfig ::
  "(string \<Rightarrow> string option) \<Rightarrow> (string \<Rightarrow> Config option) \<Rightarrow> string \<Rightarrow> config_error + Config" where
  "LoadConfig read_file unmarshal path =
     (case read_file path of
        None \<Rightarrow> Inl ReadingConfig
      | Some data \<Rightarrow>
          (case unmarshal data of
             None \<Rightarrow> Inl ParsingConfig
           | Some cfg \<Rightarrow>
               bindR (load_default (cf_Default cfg)) (\<lambda>d.
               bindR (load_routes (rl_Window d) 0 (cf_Routes cfg)) (\<lambda>routes.
                 Inr (cfg\<lparr>cf_Default := d,
                          cf_RedisTimeout := if cf_RedisTimeout cfg \<le> 0 then 20 else cf_RedisTimeout cfg,
                          cf_Routes := routes, cf_exemptSet := cf_ExemptAccounts cfg\<rparr>)))))"

definition isExempt :: "Config \<Rightarrow> string \<Rightarrow> bool" where
  "isExempt c accountID \<longleftrightarrow> accountID \<in> set (cf_exemptSet c)"

definition NewDefaultConfig :: "int \<Rightarrow> int \<Rightarrow> int \<Rightarrow> Config" where
  "NewDefaultConfig rate burst window =
     (let rate = (if rate \<le> 0 then 100 else rate);
          burst = (if burst \<le> 0 then wrap64 (rate * 2) else burst);
          window = (if window \<le> 0 then 1 else window)
      in \<lparr>cf_Enabled = True, cf_ExemptAccounts = [], cf_RedisTimeout = 20,
          cf_Default = \<lparr>rl_Path = [], rl_Method = [], rl_Rate = rate, rl_Burst = burst, rl_Window = window\<rparr>,
          cf_Routes = [], cf_exemptSet = []\<rparr>)"

section \<open>local.go\<close>

record Limit =
  lim_Rate :: int
  lim_Burst :: int
  lim_Period :: int

record Result =
  Allowed :: int
  Remaining :: int
  RetryAfter :: int
  ResetAfter :: int

text \<open>What a call of \<open>RateLimiter.Allow\<close> does: panic, return an error, or return a result, each
  with the state it leaves.\<close>

datatype 's allow_outcome = AllowPanic 's | AllowErr 's | AllowOk Result 's

fun outcome_state :: "'s allow_outcome \<Rightarrow> 's" where
  "outcome_state (AllowPanic s) = s"
| "outcome_state (AllowErr s) = s"
| "outcome_state (AllowOk _ s) = s"

fun outcome_result :: "'s allow_outcome \<Rightarrow> Result option option" where
  "outcome_result (AllowPanic _) = None"
| "outcome_result (AllowErr _) = Some None"
| "outcome_result (AllowOk r _) = Some (Some r)"

text \<open>The theoretical arrival time of every key.\<close>

type_synonym entries = "string \<rightharpoonup> int"

definition cleanup :: "int \<Rightarrow> entries \<Rightarrow> entries" where
  "cleanup now es = (\<lambda>k. case es k of Some tat \<Rightarrow> if tat < now then None else Some tat | None \<Rightarrow> None)"

definition emission :: "Limit \<Rightarrow> int" where
  "emission l = quot (lim_Period l) (lim_Rate l)"

definition Allow :: "int \<Rightarrow> string \<Rightarrow> Limit \<Rightarrow> entries \<Rightarrow> entries allow_outcome" where
  "Allow now key limit es =
     (if lim_Rate limit = 0 then AllowPanic es
      else
        let emissionInterval = emission limit;
            burstOffset = wrap64 (emissionInterval * lim_Burst limit);
            tat = (case es key of None \<Rightarrow> now | Some t \<Rightarrow> if t < now then now else t);
            newTAT = tat + emissionInterval;
            allowAt = newTAT + wrap64 (- burstOffset);
            diff = sat64 (now - allowAt)
        in if diff < 0
           then AllowOk \<lparr>Allowed = 0, Remaining = 0, RetryAfter = sat64 (allowAt - now),
                         ResetAfter = max 0 (sat64 (tat - now))\<rparr> es
           else let es' = es(key \<mapsto> newTAT)
                in if emissionInterval = 0 then AllowPanic es'
                   else AllowOk \<lparr>Allowed = 1,
                          Remaining = min (quot diff emissionInterval) (lim_Burst limit),
                          RetryAfter = - 1, ResetAfter = max 0 (sat64 (newTAT - now))\<rparr>
                          (cleanup now es'))"

section \<open>match.go\<close>

fun match_parts :: "string list \<Rightarrow> string list \<Rightarrow> bool" where
  "match_parts [] [] = True"
| "match_parts (pp # pps) (p # ps) =
     (if pp = ''*'' then p \<noteq> [] \<and> match_parts pps ps else pp = p \<and> match_parts pps ps)"
| "match_parts _ _ = False"

definition slash :: char where "slash = CHR ''/''"

definition matchPath :: "string \<Rightarrow> string \<Rightarrow> bool" where
  "matchPath pattern path =
     match_parts (split_on slash (trim slash pattern)) (split_on slash (trim slash path))"

section \<open>middleware.go\<close>

definition findLimit :: "Config \<Rightarrow> string \<Rightarrow> string \<Rightarrow> RouteLimit" where
  "findLimit cfg meth path =
     (case find (\<lambda>r. equal_fold (rl_Method r) meth \<and> matchPath (rl_Path r) path) (cf_Routes cfg) of
        Some r \<Rightarrow> r
      | None \<Rightarrow> \<lparr>rl_Path = ''default'', rl_Method = [], rl_Rate = rl_Rate (cf_Default cfg),
                 rl_Burst = rl_Burst (cf_Default cfg), rl_Window = rl_Window (cf_Default cfg)\<rparr>)"

definition rl_key :: "string \<Rightarrow> string \<Rightarrow> string \<Rightarrow> string" where
  "rl_key callerID meth path = ''rl:'' @ callerID @ '':'' @ meth @ '':'' @ path"

text \<open>\<open>int(math.Ceil(d.Seconds()))\<close>, exact for durations below \<open>2^23\<close> seconds, where a double
  holds every nanosecond count to less than half a nanosecond.\<close>

definition ceil_seconds :: "int \<Rightarrow> int" where
  "ceil_seconds d = - ((- d) div 1000000000)"

definition limit_of :: "RouteLimit \<Rightarrow> Limit" where
  "limit_of l = \<lparr>lim_Rate = rl_Rate l, lim_Burst = rl_Burst l,
                 lim_Period = wrap64 (rl_Window l * 1000000000)\<rparr>"

text \<open>The dash of the message, in UTF-8.\<close>

definition em_dash :: string where
  "em_dash = [CHR 0xE2, CHR 0x80, CHR 0x94]"

definition errRateLimit :: APIError where
  "errRateLimit = \<lparr>ae_Code = ''RATE-LIMIT-001'', ae_HTTPStatus = 429, ae_Message = ''Too Many Requests'',
     ae_Errors = NoErrors,
     ae_Reason = ''429 Too Many Requests '' @ em_dash @ '' %s %s, %d req/%ds, retry after %ds''\<rparr>"

definition rate_reason :: "string \<Rightarrow> string \<Rightarrow> RouteLimit \<Rightarrow> int \<Rightarrow> string" where
  "rate_reason meth path limit retryAfter =
     ''429 Too Many Requests '' @ em_dash @ '' '' @ meth @ '' '' @ path @ '', '' @ dec_of_int (rl_Rate limit) @ '' req/''
     @ dec_of_int (rl_Window limit) @ ''s, retry after '' @ dec_of_int retryAfter @ ''s''"

definition writeRateLimitError ::
  "headers \<Rightarrow> string \<Rightarrow> string \<Rightarrow> RouteLimit \<Rightarrow> int \<Rightarrow> response" where
  "writeRateLimitError h meth path limit retryAfter =
     (case WithReason (rate_reason meth path limit retryAfter) errRateLimit of
        Some e \<Rightarrow> WriteError h e | None \<Rightarrow> writeFallback h)"

text \<open>The middleware around \<open>next\<close>. \<open>allow\<close> is the limiter's \<open>Allow\<close> at the moment of the
  request; the state is the limiter's. A panic of the limiter aborts the request: \<open>None\<close>.\<close>

definition Middleware ::
  "(string \<Rightarrow> Limit \<Rightarrow> 's \<Rightarrow> 's allow_outcome) \<Rightarrow> Config \<Rightarrow> 's handler
     \<Rightarrow> headers \<Rightarrow> http_request \<Rightarrow> 's \<Rightarrow> response option \<times> 's" where
  "Middleware allow cfg next h r s =
     (let forward = (\<lambda>h s. case next h r s of (rsp, s') \<Rightarrow> (Some rsp, s')); callerID = GetAccountID r
      in if \<not> cf_Enabled cfg \<or> callerID = [] \<or> isExempt cfg callerID then forward h s
      else let limit = findLimit cfg (q_method r) (q_path r);
               key = rl_key callerID (q_method r) (rl_Path limit)
      in case allow key (limit_of limit) s of
           AllowPanic s' \<Rightarrow> (None, s')
         | AllowErr s' \<Rightarrow> forward h s'
         | AllowOk res s' \<Rightarrow>
             let h' = h(''X-RateLimit-Limit'' \<mapsto> dec_of_int (rl_Rate limit),
                        ''X-RateLimit-Remaining'' \<mapsto> dec_of_int (Remaining res),
                        ''X-RateLimit-Reset'' \<mapsto> dec_of_int (ceil_seconds (ResetAfter res)))
             in if Allowed res = 0
                then let retryAfter = max (ceil_seconds (RetryAfter res)) 1;
                         h'' = h'(''Retry-After'' \<mapsto> dec_of_int retryAfter)
                     in (Some (writeRateLimitError h'' (q_method r) (rl_Path limit) limit retryAfter), s')
                else forward h' s')"

section \<open>The GCRA arithmetic\<close>

definition gcra_ok :: "Limit \<Rightarrow> bool" where
  "gcra_ok l \<longleftrightarrow> 0 < lim_Rate l \<and> 0 < lim_Burst l \<and> 0 < emission l \<and> emission l * lim_Burst l < 2 ^ 63"

definition tat_at :: "int \<Rightarrow> string \<Rightarrow> entries \<Rightarrow> int" where
  "tat_at now k es = (case es k of None \<Rightarrow> now | Some t \<Rightarrow> max t now)"

lemma tat_at_code: "(case es k of None \<Rightarrow> now | Some t \<Rightarrow> if t < now then now else t) = tat_at now k es"
  by (auto simp: tat_at_def split: option.splits)

lemma tat_at_ge: "now \<le> tat_at now k es"
  by (auto simp: tat_at_def split: option.splits)

lemma tat_at_later: "now \<le> t \<Longrightarrow> tat_at t k es = max t (tat_at now k es)"
  by (auto simp: tat_at_def max_def split: option.splits)

lemma tat_at_cleanup: "now \<le> t \<Longrightarrow> tat_at t k (cleanup now es) = tat_at t k es"
  by (auto simp: tat_at_def cleanup_def max_def split: option.splits)

lemma tat_at_upd: "tat_at t k (es(k' \<mapsto> x)) = (if k' = k then max x t else tat_at t k es)"
  by (simp add: tat_at_def)

text \<open>With a sound limit nothing wraps and nothing panics: a request conforms exactly when the
  theoretical arrival time it would set is within the burst tolerance.\<close>

lemma Allow_eq:
  assumes "gcra_ok l"
  defines "e \<equiv> emission l"
  shows "Allow now k l es =
    (if tat_at now k es + e \<le> now + e * lim_Burst l
     then AllowOk \<lparr>Allowed = 1,
            Remaining = min (sat64 (now + e * lim_Burst l - (tat_at now k es + e)) div e) (lim_Burst l),
            RetryAfter = - 1, ResetAfter = max 0 (sat64 (tat_at now k es + e - now))\<rparr>
            (cleanup now (es(k \<mapsto> tat_at now k es + e)))
     else AllowOk \<lparr>Allowed = 0, Remaining = 0,
            RetryAfter = sat64 (tat_at now k es + e - e * lim_Burst l - now),
            ResetAfter = max 0 (sat64 (tat_at now k es - now))\<rparr> es)"
proof -
  have pos: "0 < e" "0 < lim_Burst l" "lim_Rate l \<noteq> 0" using assms by (auto simp: gcra_ok_def)
  then have "0 \<le> e * lim_Burst l" "e * lim_Burst l < 2 ^ 63" using assms by (auto simp: gcra_ok_def)
  then have off: "in64 (e * lim_Burst l)" "in64 (- (e * lim_Burst l))"
    unfolding in64_def by linarith+
  have eq: "now - (tat_at now k es + e + - (e * lim_Burst l)) = now + e * lim_Burst l - (tat_at now k es + e)" by simp
  have q: "quot (sat64 d) e = sat64 d div e" if "0 \<le> d" for d
    using that pos sat64_sign [of d] by (intro quot_nonneg) linarith+
  show ?thesis
    unfolding Allow_def Let_def e_def [symmetric] tat_at_code
    using pos off by (auto simp: eq q algebra_simps)
qed

definition accepts :: "'s allow_outcome \<Rightarrow> bool" where
  "accepts out = (case out of AllowOk r _ \<Rightarrow> Allowed r = 1 | _ \<Rightarrow> False)"

lemma accepts_Allow:
  "gcra_ok l \<Longrightarrow> accepts (Allow now k l es) \<longleftrightarrow> tat_at now k es + emission l \<le> now + emission l * lim_Burst l"
  by (simp add: Allow_eq accepts_def)

lemma Allow_tat:
  assumes "gcra_ok l" "now \<le> t"
  shows "tat_at t k (outcome_state (Allow now k l es)) =
    (if accepts (Allow now k l es) then max t (tat_at now k es + emission l) else max t (tat_at now k es))"
  using assms by (auto simp: Allow_eq accepts_def tat_at_cleanup tat_at_upd tat_at_later)

section \<open>The interface of a rate limiter\<close>

text \<open>What the middleware relies on: the decision on a key depends only on what the limiter holds
  for that key (\<open>view\<close>), and a decision on another key does not change it.\<close>

locale rate_limiter =
  fixes allow :: "int \<Rightarrow> string \<Rightarrow> Limit \<Rightarrow> 's \<Rightarrow> 's allow_outcome"
    and view :: "int \<Rightarrow> string \<Rightarrow> 's \<Rightarrow> 'v"
  assumes by_view: "view now k s = view now k s' \<Longrightarrow>
      outcome_result (allow now k l s) = outcome_result (allow now k l s')"
    and own: "view now k s = view now k s' \<Longrightarrow> now \<le> t \<Longrightarrow>
      view t k (outcome_state (allow now k l s)) = view t k (outcome_state (allow now k l s'))"
    and other: "k \<noteq> k' \<Longrightarrow> now \<le> t \<Longrightarrow> view t k (outcome_state (allow now k' l s)) = view t k s"
    and later: "view now k s = view now k s' \<Longrightarrow> now \<le> t \<Longrightarrow> view t k s = view t k s'"

text \<open>A run of the middleware over a sequence of requests, each at its own time, in front of a
  handler that does not touch the limiter.\<close>

fun mw_run :: "(int \<Rightarrow> string \<Rightarrow> Limit \<Rightarrow> 's \<Rightarrow> 's allow_outcome) \<Rightarrow> Config
    \<Rightarrow> (headers \<Rightarrow> http_request \<Rightarrow> response) \<Rightarrow> (int \<times> http_request) list \<Rightarrow> 's
    \<Rightarrow> (string \<times> response option) list" where
  "mw_run allow cfg next [] s = []"
| "mw_run allow cfg next ((t, r) # reqs) s =
     (case Middleware (allow t) cfg (\<lambda>h r s. (next h r, s)) (\<lambda>_. None) r s of
        (out, s') \<Rightarrow> (GetAccountID r, out) # mw_run allow cfg next reqs s')"

definition mw_key :: "Config \<Rightarrow> http_request \<Rightarrow> string" where
  "mw_key cfg r = rl_key (GetAccountID r) (q_method r) (rl_Path (findLimit cfg (q_method r) (q_path r)))"

definition mw_limit :: "Config \<Rightarrow> http_request \<Rightarrow> Limit" where
  "mw_limit cfg r = limit_of (findLimit cfg (q_method r) (q_path r))"

definition bypass :: "Config \<Rightarrow> http_request \<Rightarrow> bool" where
  "bypass cfg r \<longleftrightarrow> \<not> cf_Enabled cfg \<or> GetAccountID r = [] \<or> isExempt cfg (GetAccountID r)"

lemma Middleware_pure_state:
  "snd (Middleware al cfg (\<lambda>h r s. (next h r, s)) h r s) =
     (if bypass cfg r then s else outcome_state (al (mw_key cfg r) (mw_limit cfg r) s))"
  by (auto simp: Middleware_def Let_def bypass_def mw_key_def mw_limit_def split: allow_outcome.splits)

lemma Middleware_pure_result:
  assumes "bypass cfg r \<or> outcome_result (al (mw_key cfg r) (mw_limit cfg r) s) =
      outcome_result (al' (mw_key cfg r) (mw_limit cfg r) s')"
  shows "fst (Middleware al cfg (\<lambda>h r s. (next h r, s)) h r s) =
    fst (Middleware al' cfg (\<lambda>h r s. (next h r, s)) h r s')"
  using assms
  by (auto simp: Middleware_def Let_def bypass_def mw_key_def mw_limit_def split: allow_outcome.splits)

text \<open>Keys of different accounts differ as long as account ids contain no colon; the ids of AWS
  accounts are digits.\<close>

lemma rl_key_account:
  "CHR '':'' \<notin> set a \<Longrightarrow> CHR '':'' \<notin> set b \<Longrightarrow> rl_key a m p = rl_key b m' p' \<Longrightarrow> a = b"
  using append_sep_inj [of "CHR '':''" a b] by (simp add: rl_key_def)

context rate_limiter
begin

lemma account_step:
  assumes "CHR '':'' \<notin> set (GetAccountID r)" "CHR '':'' \<notin> set a" "now \<le> t"
    and agree: "\<And>m p. view now (rl_key a m p) s = view now (rl_key a m p) s'"
    and step_def: "step = (\<lambda>s. snd (Middleware (allow now) cfg (\<lambda>h r s. (next h r, s)) h r s))"
  shows "GetAccountID r \<noteq> a \<Longrightarrow> view t (rl_key a m p) (step s) = view t (rl_key a m p) s'"
    and "GetAccountID r = a \<Longrightarrow> view t (rl_key a m p) (step s) = view t (rl_key a m p) (step s')"
proof -
  let ?k = "rl_key a m p"
  note lat = later [OF agree assms(3)]
  show "view t ?k (step s) = view t ?k s'" if "GetAccountID r \<noteq> a"
  proof -
    have "?k \<noteq> mw_key cfg r" using that rl_key_account [OF assms(2,1)] by (auto simp: mw_key_def)
    then show ?thesis using other [OF _ assms(3)] lat by (simp add: step_def Middleware_pure_state)
  qed
  show "view t ?k (step s) = view t ?k (step s')" if "GetAccountID r = a"
  proof (cases "?k = mw_key cfg r")
    case True
    then show ?thesis using own [OF agree [of m p] assms(3)] lat [of m p]
      by (simp add: step_def Middleware_pure_state)
  next
    case False
    then show ?thesis using other [OF _ assms(3)] lat by (simp add: step_def Middleware_pure_state)
  qed
qed

lemma account_isolation:
  assumes "sorted (map fst reqs)" "\<And>t r. (t, r) \<in> set reqs \<Longrightarrow> t0 \<le> t \<and> CHR '':'' \<notin> set (GetAccountID r)"
    and "CHR '':'' \<notin> set a" "\<And>m p. view t0 (rl_key a m p) s = view t0 (rl_key a m p) s'"
  shows "[x \<leftarrow> mw_run allow cfg next reqs s. fst x = a] =
    mw_run allow cfg next [x \<leftarrow> reqs. GetAccountID (snd x) = a] s'"
  using assms
proof (induction reqs arbitrary: t0 s s')
  case Nil
  then show ?case by simp
next
  case (Cons x reqs)
  obtain t r where x: "x = (t, r)" by force
  have t: "t0 \<le> t" and free: "CHR '':'' \<notin> set (GetAccountID r)" using Cons.prems(2) x by auto
  have agree: "view t (rl_key a m p) s = view t (rl_key a m p) s'" for m p
    using later [OF Cons.prems(4) t] .
  let ?mw = "Middleware (allow t) cfg (\<lambda>h r s. (next h r, s)) (\<lambda>_. None) r"
  have times: "\<And>t' r'. (t', r') \<in> set reqs \<Longrightarrow> t \<le> t' \<and> CHR '':'' \<notin> set (GetAccountID r')"
    using Cons.prems(1,2) x by force
  have srt: "sorted (map fst reqs)" using Cons.prems(1) by simp
  show ?case
  proof (cases "GetAccountID r = a")
    case True
    have "[x \<leftarrow> mw_run allow cfg next reqs (snd (?mw s)). fst x = a] =
        mw_run allow cfg next [x \<leftarrow> reqs. GetAccountID (snd x) = a] (snd (?mw s'))"
      using account_step(2) [OF free Cons.prems(3) order_refl agree refl True]
      by (intro Cons.IH [OF srt times Cons.prems(3)]) auto
    moreover have "fst (?mw s) = fst (?mw s')"
      using by_view [OF agree] True by (intro Middleware_pure_result) (auto simp: mw_key_def)
    ultimately show ?thesis using True by (simp add: x case_prod_beta)
  next
    case False
    have "[x \<leftarrow> mw_run allow cfg next reqs (snd (?mw s)). fst x = a] =
        mw_run allow cfg next [x \<leftarrow> reqs. GetAccountID (snd x) = a] s'"
      using account_step(1) [OF free Cons.prems(3) order_refl agree refl False]
      by (intro Cons.IH [OF srt times Cons.prems(3)]) auto
    then show ?thesis using False by (simp add: x case_prod_beta)
  qed
qed

end

text \<open>The in-memory limiter has the interface, for every limit, sound or not: its view of a key
  is the arrival time it would start from.\<close>

lemma Allow_result_view:
  "tat_at now k s = tat_at now k s' \<Longrightarrow> outcome_result (Allow now k l s) = outcome_result (Allow now k l s')"
  by (simp add: Allow_def Let_def tat_at_code)

lemma Allow_own_view:
  assumes "tat_at now k s = tat_at now k s'" "now \<le> t"
  shows "tat_at t k (outcome_state (Allow now k l s)) = tat_at t k (outcome_state (Allow now k l s'))"
  using assms tat_at_later [OF assms(2), of k s] tat_at_later [OF assms(2), of k s']
  by (simp add: Allow_def Let_def tat_at_code tat_at_cleanup tat_at_upd)

lemma Allow_other_view:
  "k \<noteq> k' \<Longrightarrow> now \<le> t \<Longrightarrow> tat_at t k (outcome_state (Allow now k' l s)) = tat_at t k s"
  by (simp add: Allow_def Let_def tat_at_cleanup tat_at_upd)

interpretation local: rate_limiter Allow tat_at
proof unfold_locales
  show "tat_at t k s = tat_at t k s'" if "tat_at now k s = tat_at now k s'" "now \<le> t" for now k s s' t
    using that by (simp add: tat_at_later)
qed (auto intro: Allow_result_view Allow_own_view Allow_other_view)

section \<open>Properties\<close>

text \<open>The number of requests on key \<open>k\<close> that the limiter accepts in a sequence.\<close>

fun accepted :: "(int \<times> string \<times> Limit) list \<Rightarrow> string \<Rightarrow> entries \<Rightarrow> nat" where
  "accepted [] k es = 0"
| "accepted ((t, k', l) # reqs) k es =
     (if k' = k \<and> accepts (Allow t k' l es) then 1 else 0)
     + accepted reqs k (outcome_state (Allow t k' l es))"

lemma accepted_bound:
  assumes "sorted (map fst reqs)" "\<And>t l'. (t, k, l') \<in> set reqs \<Longrightarrow> l' = l"
    and "\<And>x. x \<in> set reqs \<Longrightarrow> t0 \<le> fst x \<and> fst x \<le> t1" "gcra_ok l" "0 < accepted reqs k es"
  shows "tat_at t0 k es + emission l * int (accepted reqs k es) \<le> t1 + emission l * lim_Burst l"
  using assms
proof (induction reqs arbitrary: es t0)
  case Nil
  then show ?case by simp
next
  case (Cons x reqs)
  obtain t k' l' where x: "x = (t, k', l')" by (cases x)
  let ?es = "outcome_state (Allow t k' l' es)"
  have t: "t0 \<le> t" "t \<le> t1" using Cons.prems(3) [of x] x by auto
  have mono: "tat_at t0 k es \<le> tat_at t k es" using t(1) by (simp add: tat_at_later)
  have IH: "tat_at t k ?es + emission l * int (accepted reqs k ?es) \<le> t1 + emission l * lim_Burst l"
    if "0 < accepted reqs k ?es"
    using Cons.IH [of t ?es] Cons.prems that x by fastforce
  show ?case
  proof (cases "k' = k")
    case True
    then have l: "l' = l" using Cons.prems(2) x by auto
    have ge: "t \<le> tat_at t k es" by (rule tat_at_ge)
    have e: "0 < emission l" using Cons.prems(4) by (simp add: gcra_ok_def)
    show ?thesis
      using IH Cons.prems(5) mono ge t e accepts_Allow [OF Cons.prems(4), of t k es]
        Allow_tat [OF Cons.prems(4) order_refl, of t k es]
      by (cases "accepted reqs k ?es = 0") (auto simp: x True l algebra_simps split: if_splits)
  next
    case False
    then have "tat_at t k ?es = tat_at t k es" using Allow_other_view [of k k' t t l' es] by simp
    then show ?thesis using IH Cons.prems(5) mono False by (simp add: x)
  qed
qed

text \<open>
  C19 (bounds). In every time window, however requests on other keys interleave and whatever the
  state at its start, the limiter accepts at most the burst plus one request per emission
  interval of the window's length on a key.
\<close>

theorem gcra_rate_bound:
  assumes "sorted (map fst reqs)" "\<And>t l'. (t, k, l') \<in> set reqs \<Longrightarrow> l' = l"
    and "\<And>x. x \<in> set reqs \<Longrightarrow> t0 \<le> fst x \<and> fst x \<le> t1" "t0 \<le> t1" "gcra_ok l"
  shows "emission l * int (accepted reqs k es) \<le> (t1 - t0) + emission l * lim_Burst l"
proof (cases "accepted reqs k es = 0")
  case True
  then show ?thesis using assms(4,5) by (simp add: gcra_ok_def)
next
  case False
  with accepted_bound [OF assms(1,2,3,5)] have
    "tat_at t0 k es + emission l * int (accepted reqs k es) \<le> t1 + emission l * lim_Burst l" by simp
  then show ?thesis using tat_at_ge [of t0 k es] by simp
qed

definition ex_limit :: Limit where
  "ex_limit = \<lparr>lim_Rate = 10, lim_Burst = 2, lim_Period = 1000000000\<rparr>"

lemma ex_limit_ok: "gcra_ok ex_limit" by code_simp

theorem gcra_rate_bound_witness:
  "emission ex_limit * int (accepted (replicate 5 (7, ''k'', ex_limit)) ''k'' (\<lambda>_. None)) \<le>
     (7 - 7) + emission ex_limit * lim_Burst ex_limit"
  by (rule gcra_rate_bound) (auto simp: ex_limit_ok)

lemma accepted_same_instant:
  assumes "gcra_ok l" "tat_at t k es = t + emission l * int j" "int j \<le> lim_Burst l"
  shows "accepted (replicate n (t, k, l)) k es = min n (nat (lim_Burst l) - j)"
  using assms(2,3)
proof (induction n arbitrary: j es)
  case 0
  then show ?case by simp
next
  case (Suc n)
  have e: "0 < emission l" using assms(1) by (simp add: gcra_ok_def)
  have acc: "accepts (Allow t k l es) \<longleftrightarrow> int j + 1 \<le> lim_Burst l"
  proof -
    have "accepts (Allow t k l es) \<longleftrightarrow> emission l * (int j + 1) \<le> emission l * lim_Burst l"
      using accepts_Allow [OF assms(1), of t k es] Suc.prems(1) by (simp add: algebra_simps)
    then show ?thesis using e by simp
  qed
  have tat: "tat_at t k (outcome_state (Allow t k l es)) =
      (if int j + 1 \<le> lim_Burst l then t + emission l * int (Suc j) else t + emission l * int j)"
    using Allow_tat [OF assms(1) order_refl, of t k es] acc Suc.prems(1) e by (simp add: algebra_simps)
  show ?case
  proof (cases "int j + 1 \<le> lim_Burst l")
    case True
    with Suc.IH [of "outcome_state (Allow t k l es)" "Suc j"] tat acc show ?thesis by simp
  next
    case False
    with Suc.IH [of "outcome_state (Allow t k l es)" j] tat acc Suc.prems(2) show ?thesis by simp
  qed
qed

text \<open>
  A key that has not been used can spend exactly its burst at once: of \<open>n\<close>
  simultaneous requests the first \<open>burst\<close> are accepted and the rest denied.
\<close>

theorem gcra_burst_exact:
  assumes "gcra_ok l" "es k = None"
  shows "accepted (replicate n (t, k, l)) k es = min n (nat (lim_Burst l))"
  using accepted_same_instant [OF assms(1), of t k es 0 n] assms by (simp add: tat_at_def gcra_ok_def)

theorem gcra_burst_exact_witness: "accepted (replicate 5 (7, ''k'', ex_limit)) ''k'' (\<lambda>_. None) = 2"
  using gcra_burst_exact [OF ex_limit_ok, of "\<lambda>_. None" "''k''" 5 7] by (simp add: ex_limit_def)

text \<open>
  C20 (safety). Accounts do not share quota: what the middleware answers to the requests of one
  account is what it would have answered had no other account sent any.
\<close>

theorem accounts_isolated:
  assumes "sorted (map fst reqs)" "\<And>t r. (t, r) \<in> set reqs \<Longrightarrow> CHR '':'' \<notin> set (GetAccountID r)"
    and "CHR '':'' \<notin> set a"
  shows "[x \<leftarrow> mw_run Allow cfg next reqs es. fst x = a] =
    mw_run Allow cfg next [x \<leftarrow> reqs. GetAccountID (snd x) = a] es"
proof (cases reqs)
  case Nil
  then show ?thesis by simp
next
  case (Cons x xs)
  have "fst x \<le> t" if "(t, r) \<in> set reqs" for t r
    using that assms(1) Cons by (auto simp: sorted_wrt_map)
  then show ?thesis using assms by (intro local.account_isolation [where ?t0.0 = "fst x"]) auto
qed

definition ex_http :: "string \<Rightarrow> http_request" where
  "ex_http acct = \<lparr>q_method = ''GET'', q_path = ''/api/v0/clusters'', q_header = (\<lambda>_. []), q_vars = (\<lambda>_. None),
     q_ctx = background\<lparr>ctx_account_id := Some acct\<rparr>\<rparr>"

definition ex_ok :: "headers \<Rightarrow> http_request \<Rightarrow> response" where
  "ex_ok h r = \<lparr>rsp_status = 200, rsp_headers = h, rsp_body = NoBody\<rparr>"

theorem accounts_isolated_witness:
  "[x \<leftarrow> mw_run Allow (NewDefaultConfig 1 1 1) ex_ok
      [(0, ex_http ''1''), (1, ex_http ''2''), (2, ex_http ''1'')] (\<lambda>_. None). fst x = ''2''] =
   mw_run Allow (NewDefaultConfig 1 1 1) ex_ok
      [x \<leftarrow> [(0, ex_http ''1''), (1, ex_http ''2''), (2, ex_http ''1'')]. GetAccountID (snd x) = ''2''] (\<lambda>_. None)"
  by (rule accounts_isolated) (auto simp: ex_http_def GetAccountID_def or_empty_def background_def)

lemma ceil_seconds_ge: "d \<le> ceil_seconds d * 1000000000"
proof -
  have "- d - 1000000000 < (- d) div 1000000000 * 1000000000 \<and> (- d) div 1000000000 * 1000000000 \<le> - d"
    using div_mult_mod_eq [of "- d" 1000000000] pos_mod_bound [of 1000000000 "- d"]
      pos_mod_sign [of 1000000000 "- d"] by linarith
  then show ?thesis by (simp add: ceil_seconds_def)
qed


text \<open>One request per second, no burst: the second request at the same instant is told to wait a
  second.\<close>

definition ex_rl :: Config where
  "ex_rl = NewDefaultConfig 1 1 1"

lemma ex_rl_denied:
  "Allow 5 (mw_key ex_rl (ex_http ''1'')) (mw_limit ex_rl (ex_http ''1''))
      [mw_key ex_rl (ex_http ''1'') \<mapsto> 1000000005] =
   AllowOk \<lparr>Allowed = 0, Remaining = 0, RetryAfter = 1000000000, ResetAfter = 1000000000\<rparr>
      [mw_key ex_rl (ex_http ''1'') \<mapsto> 1000000005]"
proof -
  have l: "mw_limit ex_rl (ex_http ''1'') = \<lparr>lim_Rate = 1, lim_Burst = 1, lim_Period = 1000000000\<rparr>" by code_simp
  show ?thesis unfolding l by (simp add: Allow_def Let_def emission_def quot_def wrap64_def sat64_def)
qed


text \<open>What the checks of \<open>LoadConfig\<close> establish for every limit it returns.\<close>

lemma load_default_pos: "load_default d = Inr d' \<Longrightarrow> 0 < rl_Rate d' \<and> 0 < rl_Window d'"
  by (auto simp: load_default_def Let_def split: if_splits)

lemma load_routes_pos:
  "load_routes w i rs = Inr rs' \<Longrightarrow> 0 < w \<Longrightarrow> r \<in> set rs' \<Longrightarrow> 0 < rl_Rate r \<and> 0 < rl_Window r"
proof (induction w i rs arbitrary: rs' rule: load_routes.induct)
  case (2 w i r0 rs)
  then obtain r1 rs1 where "load_route w i r0 = Inr r1" "load_routes w (Suc i) rs = Inr rs1" "rs' = r1 # rs1"
    by (auto simp: bindR_eq_Inr)
  with 2 show ?case by (auto simp: load_route_def Let_def split: if_splits)
qed simp

lemma LoadConfig_pos:
  assumes "LoadConfig rf um path = Inr cfg" "l \<in> insert (cf_Default cfg) (set (cf_Routes cfg))"
  shows "0 < rl_Rate l \<and> 0 < rl_Window l"
proof -
  have "\<exists>(c :: Config) d routes. load_default (cf_Default c) = Inr d \<and> load_routes (rl_Window d) 0 (cf_Routes c) = Inr routes
      \<and> cf_Default cfg = d \<and> cf_Routes cfg = routes"
    using assms(1) by (fastforce simp: LoadConfig_def bindR_eq_Inr split: option.splits)
  then obtain c :: Config and d routes where "load_default (cf_Default c) = Inr d"
    "load_routes (rl_Window d) 0 (cf_Routes c) = Inr routes" "cf_Default cfg = d" "cf_Routes cfg = routes" by blast
  with assms(2) show ?thesis
    using load_default_pos [of "cf_Default c" d] load_routes_pos [of "rl_Window d" 0 "cf_Routes c" routes l] by auto
qed

lemma findLimit_cases:
  obtains "findLimit cfg m p \<in> set (cf_Routes cfg)"
  | "findLimit cfg m p = (cf_Default cfg)\<lparr>rl_Path := ''default'', rl_Method := []\<rparr>"
proof (cases "find (\<lambda>r. equal_fold (rl_Method r) m \<and> matchPath (rl_Path r) p) (cf_Routes cfg)")
  case None
  then have "findLimit cfg m p = (cf_Default cfg)\<lparr>rl_Path := ''default'', rl_Method := []\<rparr>"
    by (simp add: findLimit_def)
  then show ?thesis by (rule that(2))
next
  case (Some r)
  then have "findLimit cfg m p = r" "r \<in> set (cf_Routes cfg)"
    by (simp add: findLimit_def) (use Some in \<open>auto simp: find_Some_iff\<close>)
  then have "findLimit cfg m p \<in> set (cf_Routes cfg)" by simp
  then show ?thesis by (rule that(1))
qed

lemma emission_pos:
  assumes "0 < rl_Rate l" "0 < rl_Window l" "rl_Rate l \<le> 1000000000" "rl_Window l \<le> 9000000000"
  shows "0 < emission (limit_of l)"
proof -
  have w: "1000000000 \<le> rl_Window l * 1000000000" using assms(2) by simp
  have "in64 (rl_Window l * 1000000000)" using assms w by (simp add: in64_def)
  moreover have "0 < rl_Window l * 1000000000 div rl_Rate l"
    using assms w by (intro pos_imp_zdiv_pos_iff [THEN iffD2]) linarith+
  ultimately show ?thesis using assms w by (simp add: emission_def limit_of_def quot_nonneg)
qed

text \<open>
  With a configuration that \<open>LoadConfig\<close> returned, no limit of which exceeds a
  billion requests per window or nine billion seconds, the middleware with the in-memory
  limiter always answers or forwards: it never divides by zero.
\<close>

theorem loaded_config_never_panics:
  assumes "LoadConfig rf um path = Inr cfg"
    and "\<And>l. l \<in> insert (cf_Default cfg) (set (cf_Routes cfg)) \<Longrightarrow> rl_Rate l \<le> 1000000000 \<and> rl_Window l \<le> 9000000000"
  shows "\<exists>rsp. fst (Middleware (Allow t) cfg next h r es) = Some rsp"
proof -
  let ?f = "findLimit cfg (q_method r) (q_path r)"
  have "0 < rl_Rate ?f \<and> 0 < emission (limit_of ?f)"
  proof (cases rule: findLimit_cases [of cfg "q_method r" "q_path r"])
    case 1
    then show ?thesis using LoadConfig_pos [OF assms(1), of ?f] assms(2) [of ?f] emission_pos [of ?f] by simp
  next
    case 2
    have "limit_of ?f = limit_of (cf_Default cfg)" "rl_Rate ?f = rl_Rate (cf_Default cfg)"
      by (simp_all add: 2 limit_of_def)
    then show ?thesis
      using LoadConfig_pos [OF assms(1), of "cf_Default cfg"] assms(2) [of "cf_Default cfg"]
        emission_pos [of "cf_Default cfg"] by simp
  qed
  then have "\<exists>res es'. Allow t k (limit_of ?f) es = AllowOk res es'" for k
    by (auto simp: Allow_def Let_def limit_of_def)
  then obtain res es' where "Allow t (rl_key (GetAccountID r) (q_method r) (rl_Path ?f)) (limit_of ?f) es = AllowOk res es'"
    by blast
  then show ?thesis by (auto simp: Middleware_def Let_def case_prod_beta)
qed

definition ex_yaml :: Config where
  "ex_yaml = \<lparr>cf_Enabled = True, cf_ExemptAccounts = [''7''], cf_RedisTimeout = 0,
     cf_Default = \<lparr>rl_Path = [], rl_Method = [], rl_Rate = 0, rl_Burst = 0, rl_Window = 0\<rparr>,
     cf_Routes = [\<lparr>rl_Path = ''/api/v0/clusters/*'', rl_Method = ''get'', rl_Rate = 5, rl_Burst = 0, rl_Window = 0\<rparr>],
     cf_exemptSet = []\<rparr>"

definition ex_loaded :: Config where
  "ex_loaded = ex_yaml\<lparr>cf_RedisTimeout := 20,
     cf_Default := \<lparr>rl_Path = [], rl_Method = [], rl_Rate = 100, rl_Burst = 200, rl_Window = 1\<rparr>,
     cf_Routes := [\<lparr>rl_Path = ''/api/v0/clusters/*'', rl_Method = ''get'', rl_Rate = 5, rl_Burst = 10, rl_Window = 1\<rparr>],
     cf_exemptSet := [''7'']\<rparr>"

theorem loaded_config_never_panics_witness:
  "\<exists>rsp. fst (Middleware (Allow 0) ex_loaded (\<lambda>h r s. (ex_ok h r, s)) (\<lambda>_. None) (ex_http ''1'') (\<lambda>_. None)) = Some rsp"
proof (rule loaded_config_never_panics)
  show "LoadConfig (\<lambda>_. Some []) (\<lambda>_. Some ex_yaml) [] = Inr ex_loaded" by code_simp
qed (auto simp: ex_loaded_def)

text \<open>Above a billion requests per second the emission interval is zero, and a configuration that
  passes every check makes the limiter divide by zero.\<close>

lemma excessive_rate_panics:
  "fst (Middleware (Allow 0) (NewDefaultConfig 1000000001 1 1) (\<lambda>h r s. (ex_ok h r, s)) (\<lambda>_. None)
     (ex_http ''1'') (\<lambda>_. None)) = None"
  by code_simp

end
