(* ===== verification/AuthzProps.thy ===== *)
theory AuthzProps
  imports Middleware
begin

text \<open>
  What the middleware chains guarantee in terms of the rows of the authorization tables, and
  what the authorizer's account and group operations do to them. The middleware's part is
  proved against the interface \<open>checker\<close>; the authorizer provides that interface whenever its
  DynamoDB client behaves as documented. An in-memory client shows that the documented
  behaviour can be had.
\<close>

section \<open>The checker interface\<close>

locale checker =
  fixes p :: "'w Checker"
    and privileged :: "'w \<Rightarrow> string \<Rightarrow> bool" and provisioned :: "'w \<Rightarrow> string \<Rightarrow> bool"
    and admin :: "'w \<Rightarrow> string \<Rightarrow> string \<Rightarrow> bool" and permitted :: "'w \<Rightarrow> AuthzRequest \<Rightarrow> bool"
  assumes sound_privileged: "ck_IsPrivileged p acct w = Inr True \<Longrightarrow> privileged w acct"
    and sound_provisioned: "ck_IsAccountProvisioned p acct w = Inr True \<Longrightarrow> provisioned w acct"
    and sound_admin: "ck_IsAdmin p acct arn w = Inr True \<Longrightarrow> admin w acct arn"
    and sound_permitted: "ck_Authorize p req w = Inr True \<Longrightarrow> permitted w req"
    and privileged_permitted: "privileged w (az_AccountID req) \<Longrightarrow> permitted w req"
    and privileged_provisioned: "privileged w acct \<Longrightarrow> provisioned w acct"

text \<open>A chain lets a request through to any next handler as \<open>r'\<close>, or stops it with a response of
  its own, an error in the 400s or 500s, whatever the next handler is.\<close>

definition passes :: "('w handler \<Rightarrow> 'w handler) \<Rightarrow> headers \<Rightarrow> http_request \<Rightarrow> http_request \<Rightarrow> 'w \<Rightarrow> bool" where
  "passes chain h r r' w \<longleftrightarrow> (\<forall>next. chain next h r w = next h r' w)"

definition stops :: "('w handler \<Rightarrow> 'w handler) \<Rightarrow> headers \<Rightarrow> http_request \<Rightarrow> 'w \<Rightarrow> bool" where
  "stops chain h r w \<longleftrightarrow>
     (\<exists>rsp. (rsp_status rsp = 403 \<or> rsp_status rsp = 500) \<and> (\<forall>next. chain next h r w = (rsp, w)))"

lemma stop_with:
  "ae_HTTPStatus e = 403 \<or> ae_HTTPStatus e = 500 \<Longrightarrow> ae_Errors e = NoErrors \<Longrightarrow>
   rsp_status (WriteError h e) = 403 \<or> rsp_status (WriteError h e) = 500"
  by (auto simp: WriteError_plain)

lemma stopsI:
  assumes "\<And>next. chain next h r w = writeError h e w"
    and "ae_HTTPStatus e = 403 \<or> ae_HTTPStatus e = 500" "ae_Errors e = NoErrors"
  shows "stops chain h r w"
  unfolding stops_def
proof (intro exI conjI allI)
  show "rsp_status (WriteError h e) = 403 \<or> rsp_status (WriteError h e) = 500"
    using assms(2,3) by (rule stop_with)
  show "chain next h r w = (WriteError h e, w)" for "next"
    using assms(1) by (simp add: writeError_def)
qed

lemma stopsD:
  assumes "\<And>next. chain next h r w = writeError h e w"
    and "ae_HTTPStatus e = 403 \<or> ae_HTTPStatus e = 500" "ae_Errors e = NoErrors"
  shows "P \<or> stops chain h r w"
  using stopsI [where chain = chain and e = e] assms by blast

text \<open>The request as \<open>Identity\<close> and \<open>CheckPrivileged\<close> leave it.\<close>

definition identified :: "http_request \<Rightarrow> http_request" where
  "identified r = r\<lparr>q_ctx := identity_ctx r\<rparr>"

definition checked :: "'w Checker \<Rightarrow> http_request \<Rightarrow> 'w \<Rightarrow> http_request" where
  "checked p r w =
     (if GetAccountID r = [] then r
      else case ck_IsPrivileged p (GetAccountID r) w of
        Inl _ \<Rightarrow> r | Inr b \<Rightarrow> r\<lparr>q_ctx := (q_ctx r)\<lparr>ctx_privileged := Some b\<rparr>\<rparr>)"

lemma CheckPrivileged_eq: "CheckPrivileged p next h r w = next h (checked p r w) w"
  by (auto simp: CheckPrivileged_def checked_def split: sum.splits)

lemma Identity_eq: "Identity next h r w = next h (identified r) w"
  by (simp add: Identity_def identified_def)

lemma checked_simps [simp]:
  "GetAccountID (checked p r w) = GetAccountID r" "GetCallerARN (checked p r w) = GetCallerARN r"
  by (auto simp: checked_def GetAccountID_def GetCallerARN_def split: sum.splits)

lemma checked_request [simp]:
  "q_method (checked p r w) = q_method r" "q_path (checked p r w) = q_path r" "q_vars (checked p r w) = q_vars r"
  by (auto simp: checked_def split: sum.splits)

lemma checked_build [simp]: "buildAuthzRequest a (checked p r w) = buildAuthzRequest a r"
  by (simp add: buildAuthzRequest_def deriveAction_def deriveResource_def split: option.split)

text \<open>Only \<open>CheckPrivileged\<close> sets the privileged mark, so a request that arrives without one and
  leaves with it belongs to an account the checker called privileged.\<close>

lemma checked_privileged:
  "ctx_privileged (q_ctx r) = None \<Longrightarrow> GetPrivileged (checked p r w) \<Longrightarrow>
     ck_IsPrivileged p (GetAccountID r) w = Inr True"
  by (auto simp: checked_def GetPrivileged_def split: sum.splits if_splits)

lemma identified_fresh: "ctx_privileged (q_ctx (identified r)) = ctx_privileged (q_ctx r)"
  by (simp add: identified_def identity_ctx_def Let_def)

context checker
begin

lemma resource_guard:
  assumes "ctx_privileged (q_ctx r) = None"
  defines "r1 \<equiv> identified r"
  shows "passes (resource_chain True region allowed p) h r (checked p r1 w) w
           \<and> GetAccountID r1 \<noteq> [] \<and> GetCallerARN r1 \<noteq> [] \<and> permitted w (buildAuthzRequest (NewAuthz True region) r1)
       \<or> stops (resource_chain True region allowed p) h r w"
proof -
  let ?m = "NewAuthz True region"
  have chain: "resource_chain True region allowed p next h r w = mw_Authorize ?m p next h (checked p r1 w) w" for "next"
    by (simp add: resource_chain_def Identity_eq CheckPrivileged_eq r1_def)
  have priv: "permitted w (buildAuthzRequest ?m r1)" if "GetPrivileged (checked p r1 w)"
    using that assms checked_privileged [of r1 p w] identified_fresh [of r]
    by (intro privileged_permitted) (auto simp: buildAuthzRequest_def intro: sound_privileged)
  have en: "mz_enabled ?m" by (simp add: NewAuthz_def)
  consider "GetAccountID r1 = []" | "GetAccountID r1 \<noteq> []" "GetCallerARN r1 = []"
    | "GetAccountID r1 \<noteq> []" "GetCallerARN r1 \<noteq> []" by blast
  then show ?thesis
  proof cases
    case 1
    then show ?thesis
      by (intro stopsD [where e = ErrMissingAccountID]) (simp_all add: chain mw_Authorize_def en auth_errors api_error_def)
  next
    case 2
    then show ?thesis
      by (intro stopsD [where e = ErrMissingCallerARN]) (simp_all add: chain mw_Authorize_def en auth_errors api_error_def)
  next
    case 3
    show ?thesis
    proof (cases "GetPrivileged (checked p r1 w)")
      case True
      then show ?thesis using 3 priv by (simp add: passes_def chain mw_Authorize_def en)
    next
      case False
      show ?thesis
      proof (cases "ck_Authorize p (buildAuthzRequest ?m r1) w")
        case (Inl e)
        then show ?thesis using 3 False
          by (intro stopsD [where e = "if str_contains e ''not provisioned'' then ErrAccountNotProvisioned
              else ErrAuthorizationFailed"]) (simp_all add: chain mw_Authorize_def en auth_errors api_error_def)
      next
        case (Inr b)
        then show ?thesis using 3 False sound_permitted [of "buildAuthzRequest ?m r1" w]
          by (cases b) (simp add: passes_def chain mw_Authorize_def en,
              intro stopsD [where e = ErrAccessDenied],
              simp_all add: chain mw_Authorize_def en auth_errors api_error_def)
      qed
    qed
  qed
qed

lemma accounts_guard:
  assumes "ctx_privileged (q_ctx r) = None"
  defines "r1 \<equiv> identified r"
  shows "passes (accounts_chain p) h r (checked p r1 w) w \<and> privileged w (GetAccountID r1)
       \<or> stops (accounts_chain p) h r w"
proof -
  have chain: "accounts_chain p next h r w = RequirePrivileged p next h (checked p r1 w) w" for "next"
    by (simp add: accounts_chain_def Identity_eq CheckPrivileged_eq r1_def)
  show ?thesis
  proof (cases "GetAccountID r1 = []")
    case True
    then show ?thesis
      by (intro stopsD [where e = ErrMissingAccountID]) (simp_all add: chain RequirePrivileged_def auth_errors api_error_def)
  next
    case False
    define v where "v = (if GetPrivileged (checked p r1 w) then Inr True else ck_IsPrivileged p (GetAccountID r1) w)"
    have true: "ck_IsPrivileged p (GetAccountID r1) w = Inr True" if "v = Inr True"
      using that assms checked_privileged [of r1 p w] identified_fresh [of r] by (auto simp: v_def split: if_splits)
    have run: "RequirePrivileged p next h (checked p r1 w) w =
       (case v of Inl _ \<Rightarrow> writeError h ErrPrivilegedCheckFailed w | Inr False \<Rightarrow> writeError h ErrNotPrivileged w
        | Inr True \<Rightarrow> next h (checked p r1 w) w)" for "next"
      using False by (simp add: RequirePrivileged_def v_def)
    consider e where "v = Inl e" | "v = Inr True" | "v = Inr False" by (cases v) auto
    then show ?thesis
    proof cases
      case 1
      then show ?thesis
        by (intro stopsD [where e = ErrPrivilegedCheckFailed]) (simp_all add: chain run auth_errors api_error_def)
    next
      case 2
      then show ?thesis using sound_privileged [OF true] by (simp add: passes_def chain run)
    next
      case 3
      then show ?thesis
        by (intro stopsD [where e = ErrNotPrivileged]) (simp_all add: chain run auth_errors api_error_def)
    qed
  qed
qed

lemma authz_guard:
  assumes "ctx_privileged (q_ctx r) = None"
  defines "r1 \<equiv> identified r"
  shows "passes (authz_chain p) h r (checked p r1 w) w \<and> provisioned w (GetAccountID r1)
           \<and> (privileged w (GetAccountID r1) \<or> admin w (GetAccountID r1) (GetCallerARN r1))
       \<or> stops (authz_chain p) h r w"
proof -
  let ?r = "checked p r1 w"
  have chain: "authz_chain p next h r w = RequireProvisioned p (RequireAdmin p next) h ?r w" for "next"
    by (simp add: authz_chain_def Identity_eq CheckPrivileged_eq r1_def)
  have priv: "privileged w (GetAccountID r1)" if "GetPrivileged ?r"
    using that assms checked_privileged [of r1 p w] identified_fresh [of r] by (auto intro: sound_privileged)
  note defs = chain RequireProvisioned_def RequireAdmin_def
  consider "GetAccountID r1 = []" | "GetAccountID r1 \<noteq> []" "GetPrivileged ?r"
    | e where "GetAccountID r1 \<noteq> []" "\<not> GetPrivileged ?r" "ck_IsAccountProvisioned p (GetAccountID r1) w = Inl e"
    | "GetAccountID r1 \<noteq> []" "\<not> GetPrivileged ?r" "ck_IsAccountProvisioned p (GetAccountID r1) w = Inr False"
    | (ok) "GetAccountID r1 \<noteq> []" "\<not> GetPrivileged ?r" "ck_IsAccountProvisioned p (GetAccountID r1) w = Inr True"
    by (cases "ck_IsAccountProvisioned p (GetAccountID r1) w") auto
  then show ?thesis
  proof cases
    case 1
    then show ?thesis by (intro stopsD [where e = ErrMissingAccountID]) (simp_all add: defs auth_errors api_error_def)
  next
    case 2
    then show ?thesis using priv privileged_provisioned by (simp add: passes_def defs)
  next
    case 3
    then show ?thesis by (intro stopsD [where e = ErrProvisionedCheckFailed]) (simp_all add: defs auth_errors api_error_def)
  next
    case 4
    then show ?thesis by (intro stopsD [where e = ErrAccountNotProvisioned]) (simp_all add: defs auth_errors api_error_def)
  next
    case ok
    consider "GetCallerARN r1 = []" | e where "GetCallerARN r1 \<noteq> []" "ck_IsAdmin p (GetAccountID r1) (GetCallerARN r1) w = Inl e"
      | "GetCallerARN r1 \<noteq> []" "ck_IsAdmin p (GetAccountID r1) (GetCallerARN r1) w = Inr False"
      | (adm) "GetCallerARN r1 \<noteq> []" "ck_IsAdmin p (GetAccountID r1) (GetCallerARN r1) w = Inr True"
      by (cases "ck_IsAdmin p (GetAccountID r1) (GetCallerARN r1) w") auto
    then show ?thesis
    proof cases
      case 1
      with ok show ?thesis by (intro stopsD [where e = ErrMissingCallerARN]) (simp_all add: defs auth_errors api_error_def)
    next
      case 2
      with ok show ?thesis by (intro stopsD [where e = ErrAdminCheckFailed]) (simp_all add: defs auth_errors api_error_def)
    next
      case 3
      with ok show ?thesis by (intro stopsD [where e = ErrNotAdmin]) (simp_all add: defs auth_errors api_error_def)
    next
      case adm
      with ok sound_admin sound_provisioned show ?thesis by (simp add: passes_def defs)
    qed
  qed
qed

end

section \<open>The authorizer provides the interface\<close>

text \<open>What the tables say.\<close>

definition account_rows :: "AuthzConfig \<Rightarrow> (string \<Rightarrow> item list) \<Rightarrow> string \<Rightarrow> item set" where
  "account_rows cfg tables acct =
     {x \<in> set (tables (AccountsTableName cfg)). map_of x ''accountId'' = Some (AttrS acct)}"

definition row_privileged :: "AuthzConfig \<Rightarrow> (string \<Rightarrow> item list) \<Rightarrow> string \<Rightarrow> bool" where
  "row_privileged cfg tables acct \<longleftrightarrow>
     (\<exists>x \<in> account_rows cfg tables acct. map_of x ''privileged'' = Some (AttrBool True))"

definition row_provisioned :: "AuthzConfig \<Rightarrow> (string \<Rightarrow> item list) \<Rightarrow> string \<Rightarrow> bool" where
  "row_provisioned cfg tables acct \<longleftrightarrow> account_rows cfg tables acct \<noteq> {}"

definition row_admin :: "AuthzConfig \<Rightarrow> (string \<Rightarrow> item list) \<Rightarrow> string \<Rightarrow> string \<Rightarrow> bool" where
  "row_admin cfg tables acct arn \<longleftrightarrow>
     (\<exists>x \<in> set (tables (AdminsTableName cfg)).
        map_of x ''accountId'' = Some (AttrS acct) \<and> map_of x ''principalArn'' = Some (AttrS arn))"

text \<open>The policy engine allows the request in the policy store named in the account's row.\<close>

definition avp_allows :: "'w authorizerImpl \<Rightarrow> (string \<Rightarrow> item list) \<Rightarrow> AuthzRequest \<Rightarrow> 'w \<Rightarrow> bool" where
  "avp_allows a tables req w \<longleftrightarrow>
     (\<exists>x \<in> account_rows (au_cfg a) tables (az_AccountID req). \<exists>groups psid.
        str_field x ''policyStoreId'' = Inr psid
        \<and> GetUserGroups a (az_AccountID req) (az_CallerARN req) w = Inr groups
        \<and> IsAuthorized (au_avp a) (buildAVPRequest req groups psid) w = Inr True)"

definition row_permitted :: "'w authorizerImpl \<Rightarrow> (string \<Rightarrow> item list) \<Rightarrow> 'w \<Rightarrow> AuthzRequest \<Rightarrow> bool" where
  "row_permitted a tables w req \<longleftrightarrow>
     row_privileged (au_cfg a) tables (az_AccountID req)
     \<or> row_provisioned (au_cfg a) tables (az_AccountID req)
        \<and> (row_admin (au_cfg a) tables (az_AccountID req) (az_CallerARN req) \<or> avp_allows a tables req w)"

lemma bool_field_True: "bool_field it k = Inr True \<longleftrightarrow> map_of it k = Some (AttrBool True)"
  by (auto simp: bool_field_def split: option.splits attr.splits)

locale authz_tables =
  fixes a :: "'w authorizerImpl" and items :: "'w \<Rightarrow> string \<Rightarrow> item list" and keys :: "string \<Rightarrow> string list"
  assumes dynamo: "dynamo_ok (au_dynamo a) items keys"
begin

lemma GetItem_Some:
  "GetItem (au_dynamo a) t k w = Inr (Some x) \<Longrightarrow> x \<in> set (items w t) \<and> has_key k x"
  using dynamo unfolding dynamo_ok_def by (metis (no_types, lifting) option.simps(5))

lemma privileged_row: "IsPrivileged a acct w = Inr True \<Longrightarrow> row_privileged (au_cfg a) (items w) acct"
  by (fastforce simp: IsPrivileged_def privileged_IsPrivileged_def bindR_eq_Inr bool_field_True row_privileged_def
      account_rows_def has_key_def dest!: GetItem_Some split: option.splits)

lemma admin_row: "IsAdmin a acct arn w = Inr True \<Longrightarrow> row_admin (au_cfg a) (items w) acct arn"
  by (auto simp: IsAdmin_def AdminStore_IsAdmin_def bindR_eq_Inr wrap_err_def row_admin_def admin_key_def
      has_key_def dest!: GetItem_Some split: sum.splits)

lemma provisioned_row: "IsAccountProvisioned a acct w = Inr True \<Longrightarrow> row_provisioned (au_cfg a) (items w) acct"
  using privileged_row [of acct w]
  by (auto simp: IsAccountProvisioned_def AccountStore_Exists_def bindR_eq_Inr wrap_err_def row_provisioned_def
      row_privileged_def account_rows_def has_key_def dest!: GetItem_Some split: sum.splits if_splits)

lemma account_row:
  assumes "GetAccount a acct w = Inr (Some account)"
  shows "\<exists>x \<in> account_rows (au_cfg a) (items w) acct. str_field x ''policyStoreId'' = Inr (ac_PolicyStoreID account)"
  using assms
  by (auto simp: GetAccount_def AccountStore_Get_def bindR_eq_Inr wrap_err_def unmarshal_account_def
      account_rows_def has_key_def dest!: GetItem_Some split: sum.splits option.splits)

lemma permitted_row:
  assumes "Authorize a req w = Inr True"
  shows "row_permitted a (items w) w req"
proof (cases "IsPrivileged a (az_AccountID req) w = Inr True")
  case True
  then show ?thesis by (simp add: row_permitted_def privileged_row)
next
  case False
  with assms obtain account where acc: "GetAccount a (az_AccountID req) w = Inr (Some account)"
    and rest: "IsAdmin a (az_AccountID req) (az_CallerARN req) w = Inr True \<or>
      (\<exists>groups. GetUserGroups a (az_AccountID req) (az_CallerARN req) w = Inr groups
        \<and> IsAuthorized (au_avp a) (buildAVPRequest req groups (ac_PolicyStoreID account)) w = Inr True)"
    by (auto simp: Authorize_def bindR_eq_Inr wrap_err_def split: if_splits option.splits sum.splits)
  obtain x where x: "x \<in> account_rows (au_cfg a) (items w) (az_AccountID req)"
    "str_field x ''policyStoreId'' = Inr (ac_PolicyStoreID account)"
    using account_row [OF acc] by blast
  then have "row_provisioned (au_cfg a) (items w) (az_AccountID req)" by (auto simp: row_provisioned_def)
  moreover have "row_admin (au_cfg a) (items w) (az_AccountID req) (az_CallerARN req) \<or> avp_allows a (items w) req w"
    using rest admin_row x unfolding avp_allows_def by blast
  ultimately show ?thesis by (simp add: row_permitted_def)
qed

end

sublocale authz_tables \<subseteq> tables: checker "authorizer_checker a" "\<lambda>w. row_privileged (au_cfg a) (items w)"
  "\<lambda>w. row_provisioned (au_cfg a) (items w)" "\<lambda>w. row_admin (au_cfg a) (items w)" "\<lambda>w. row_permitted a (items w) w"
proof unfold_locales
  show "row_permitted a (items w) w req" if "ck_Authorize (authorizer_checker a) req w = Inr True" for req w
    using that by (simp add: authorizer_checker_def permitted_row)
qed (auto simp: authorizer_checker_def row_permitted_def row_provisioned_def row_privileged_def
    intro: privileged_row [unfolded row_privileged_def] admin_row dest: provisioned_row [unfolded row_provisioned_def])

context authz_tables
begin

lemmas resource_rows = tables.resource_guard

lemmas authz_rows = tables.authz_guard

lemmas accounts_rows = tables.accounts_guard

end

section \<open>An in-memory backend\<close>

record mem =
  mem_tables :: "string \<Rightarrow> item list"
  mem_stores :: "string list"

definition mem_keys :: "string \<Rightarrow> string list" where
  "mem_keys t =
     (if t = AccountsTableName DefaultConfig then [''accountId'']
      else if t = AdminsTableName DefaultConfig then [''accountId'', ''principalArn'']
      else if t = GroupsTableName DefaultConfig then [''accountId'', ''groupId'']
      else [''accountId'', ''groupId#memberArn''])"

definition same_key :: "string list \<Rightarrow> item \<Rightarrow> item \<Rightarrow> bool" where
  "same_key ks x y \<longleftrightarrow> list_all (\<lambda>a. map_of x a = map_of y a) ks"

definition mem_dynamo :: "mem DynamoDBClient" where
  "mem_dynamo = \<lparr>
     GetItem = (\<lambda>t k w. Inr (find (has_key k) (mem_tables w t))),
     PutItem = (\<lambda>t it cs w.
       if cs \<noteq> [] \<and> list_ex (\<lambda>x. same_key (mem_keys t) x it) (mem_tables w t)
       then (Some (OtherError ''ConditionalCheckFailedException''), w)
       else (None, w\<lparr>mem_tables := (mem_tables w)(t := it # filter (\<lambda>x. \<not> same_key (mem_keys t) x it) (mem_tables w t))\<rparr>)),
     DeleteItem = (\<lambda>t k w. (None, w\<lparr>mem_tables := (mem_tables w)(t := filter (\<lambda>x. \<not> has_key k x) (mem_tables w t))\<rparr>)),
     Query = (\<lambda>t ix cs w. Inr (filter (\<lambda>x. list_all (cond_holds x) cs) (mem_tables w t))),
     Scan = (\<lambda>t w. Inr (mem_tables w t)),
     UpdateItem = (\<lambda>t k sets w. (Inl ''unsupported'', w))\<rparr>"

text \<open>A policy engine that allows listing clusters, and whose policy stores are a list of ids.\<close>

definition mem_avp :: "mem AVPClient" where
  "mem_avp = \<lparr>
     IsAuthorized = (\<lambda>q w. Inr (av_Action q = (''ROSA::Action'', ''ListClusters''))),
     CreatePolicyStore = (\<lambda>d w. let i = ''ps-'' @ concat (mem_stores w)
                                 in (Inr i, w\<lparr>mem_stores := i # mem_stores w\<rparr>)),
     PutSchema = (\<lambda>i w. (None, w)),
     DeletePolicyStore = (\<lambda>i w. (None, w\<lparr>mem_stores := removeAll i (mem_stores w)\<rparr>)),
     CreatePolicyTemplate = (\<lambda>s st d w. (Inl ''unsupported'', w)),
     GetPolicyTemplate = (\<lambda>s i w. Inl ''unsupported''),
     UpdatePolicyTemplate = (\<lambda>s i st d w. (Inl ''unsupported'', w)),
     DeletePolicyTemplate = (\<lambda>s i w. (Some ''unsupported'', w)),
     ListPolicyTemplates = (\<lambda>s w. Inl ''unsupported''),
     CreateLinkedPolicy = (\<lambda>s i e w. (Inl ''unsupported'', w)),
     DeleteAVPPolicy = (\<lambda>s i w. (Some ''unsupported'', w)),
     ListAVPPolicies = (\<lambda>s f w. Inl ''unsupported'')\<rparr>"

definition mem_authorizer :: "mem authorizerImpl" where
  "mem_authorizer = \<lparr>au_cfg = DefaultConfig, au_dynamo = mem_dynamo, au_avp = mem_avp\<rparr>"

lemma mem_dynamo_ok: "dynamo_ok (au_dynamo mem_authorizer) mem_tables mem_keys"
proof -
  have f: "(case find P xs of None \<Rightarrow> \<forall>x \<in> set xs. \<not> P x | Some x \<Rightarrow> x \<in> set xs \<and> P x)" for P and xs :: "item list"
    by (induction xs) (auto split: option.splits)
  show ?thesis
    unfolding dynamo_ok_def mem_authorizer_def mem_dynamo_def
    using f by (auto simp: same_key_def list_all_iff split: if_splits)
qed

interpretation mem: authz_tables mem_authorizer mem_tables mem_keys
  by unfold_locales (rule mem_dynamo_ok)

definition ex_world :: mem where
  "ex_world = \<lparr>mem_tables = (\<lambda>t.
     if t = AccountsTableName DefaultConfig
     then [marshal_account \<lparr>ac_AccountID = ''1'', ac_PolicyStoreID = ''ps-0'', ac_Privileged = False, ac_CreatedAt = ''t'', ac_CreatedBy = ''u''\<rparr>]
     else if t = AdminsTableName DefaultConfig
     then [marshal_admin \<lparr>ad_AccountID = ''1'', ad_PrincipalARN = ''arn:boss'', ad_CreatedAt = ''t'', ad_CreatedBy = ''u''\<rparr>]
     else if t = MembersTableName DefaultConfig
     then [member_item ''1'' ''g'' ''arn:joe'' ''t'', member_item ''1'' ''h'' ''arn:joe'' ''t'']
     else []), mem_stores = [''ps-0'']\<rparr>"

definition ex_call :: "string \<Rightarrow> string \<Rightarrow> http_request" where
  "ex_call acct arn = \<lparr>q_method = ''GET'', q_path = ''/api/v0/clusters'',
     q_header = (\<lambda>n. if n = ''X-Amz-Account-Id'' then acct else if n = ''X-Amz-Caller-Arn'' then arn else []),
     q_vars = (\<lambda>_. None), q_ctx = background\<rparr>"

section \<open>Guarded routes\<close>

text \<open>
  C9 (safety). With Cedar authorization enabled, a request to a cluster, node pool, OIDC
  configuration or management cluster route reaches its handler only if the headers name an
  account and a caller, and the account's row is privileged, or the account has a row and the
  caller is one of its admins or the policy engine allows the derived action on the derived
  resource in the account's policy store. Every other request, and every failure of a
  check, is answered with 403 or 500 and changes nothing.
\<close>

theorem resource_routes_guarded:
  assumes "dynamo_ok (au_dynamo a) items keys" "ctx_privileged (q_ctx r) = None"
  shows "(\<exists>r'. passes (resource_chain True region allowed (authorizer_checker a)) h r r' w)
           \<and> GetAccountID (identified r) \<noteq> [] \<and> GetCallerARN (identified r) \<noteq> []
           \<and> row_permitted a (items w) w (buildAuthzRequest (NewAuthz True region) (identified r))
       \<or> stops (resource_chain True region allowed (authorizer_checker a)) h r w"
  using authz_tables.resource_rows [OF authz_tables.intro [OF assms(1)] assms(2)] by blast

theorem resource_routes_guarded_witness:
  "\<not> stops (resource_chain True [] [] (authorizer_checker mem_authorizer)) (\<lambda>_. None) (ex_call ''1'' ''arn:joe'') ex_world
   \<and> row_permitted mem_authorizer (mem_tables ex_world) ex_world
       (buildAuthzRequest (NewAuthz True []) (identified (ex_call ''1'' ''arn:joe'')))"
proof -
  let ?c = "resource_chain True [] [] (authorizer_checker mem_authorizer)" and ?r = "ex_call ''1'' ''arn:joe''"
  have "rsp_status (fst (?c (\<lambda>h r w. (\<lparr>rsp_status = 200, rsp_headers = h, rsp_body = NoBody\<rparr>, w)) (\<lambda>_. None) ?r ex_world)) = 200"
    by code_simp
  then have no: "\<not> stops ?c (\<lambda>_. None) ?r ex_world" by (force simp: stops_def)
  have "ctx_privileged (q_ctx ?r) = None" by (simp add: ex_call_def background_def)
  from resource_routes_guarded [OF mem_dynamo_ok this] no show ?thesis by blast
qed

text \<open>
  C21 (safety). The management routes under \<open>/api/v0/authz\<close> reach their handlers only for an
  account that has a row and whose caller is an admin of it, or for a privileged account; the
  account routes only for a privileged account.
\<close>

theorem management_routes_guarded:
  assumes "dynamo_ok (au_dynamo a) items keys" "ctx_privileged (q_ctx r) = None"
  defines "acct \<equiv> GetAccountID (identified r)" and "arn \<equiv> GetCallerARN (identified r)" and "cfg \<equiv> au_cfg a"
  shows "((\<exists>r'. passes (authz_chain (authorizer_checker a)) h r r' w)
            \<and> row_provisioned cfg (items w) acct
            \<and> (row_privileged cfg (items w) acct \<or> row_admin cfg (items w) acct arn)
          \<or> stops (authz_chain (authorizer_checker a)) h r w)
       \<and> ((\<exists>r'. passes (accounts_chain (authorizer_checker a)) h r r' w) \<and> row_privileged cfg (items w) acct
          \<or> stops (accounts_chain (authorizer_checker a)) h r w)"
  using authz_tables.authz_rows [OF authz_tables.intro [OF assms(1)] assms(2), of h w]
    authz_tables.accounts_rows [OF authz_tables.intro [OF assms(1)] assms(2), of h w]
  unfolding acct_def arn_def cfg_def by blast

theorem management_routes_guarded_witness:
  "row_admin DefaultConfig (mem_tables ex_world) ''1'' ''arn:boss''
   \<and> stops (accounts_chain (authorizer_checker mem_authorizer)) (\<lambda>_. None) (ex_call ''1'' ''arn:boss'') ex_world"
proof -
  let ?r = "ex_call ''1'' ''arn:boss''" and ?ok = "\<lambda>h r (w :: mem). (\<lparr>rsp_status = 200, rsp_headers = h, rsp_body = NoBody\<rparr>, w)"
  have fresh: "ctx_privileged (q_ctx ?r) = None" by (simp add: ex_call_def background_def)
  have ids: "GetAccountID (identified ?r) = ''1''" "GetCallerARN (identified ?r) = ''arn:boss''" by code_simp+
  have cfg: "au_cfg mem_authorizer = DefaultConfig" by (simp add: mem_authorizer_def)
  have "rsp_status (fst (authz_chain (authorizer_checker mem_authorizer) ?ok (\<lambda>_. None) ?r ex_world)) = 200" by code_simp
  then have "\<not> stops (authz_chain (authorizer_checker mem_authorizer)) (\<lambda>_. None) ?r ex_world" by (force simp: stops_def)
  moreover have "\<not> row_privileged DefaultConfig (mem_tables ex_world) ''1''"
    by (auto simp: row_privileged_def account_rows_def ex_world_def marshal_account_def)
  ultimately show ?thesis
    using management_routes_guarded [OF mem_dynamo_ok fresh, of "\<lambda>_. None" ex_world] unfolding ids cfg by blast
qed

end
