(* ===== verification/AuthzManage.thy ===== *)
theory AuthzManage
  imports AuthzProps
begin

text \<open>
  The operations that manage accounts and groups, in terms of the rows and policy stores they
  leave behind, and the codecs of the stored records.
\<close>

section \<open>Removing a group\<close>

lemma hash_prefix:
  assumes "CHR ''#'' \<notin> set g" "CHR ''#'' \<notin> set g'"
  shows "has_prefix (hash_join g m) (g' @ ''#'') \<longleftrightarrow> g = g'"
proof
  assume "has_prefix (hash_join g m) (g' @ ''#'')"
  then obtain s where "g @ CHR ''#'' # m = g' @ CHR ''#'' # s"
    unfolding has_prefix_def hash_join_def
    by (metis append.assoc append_Cons append_Nil append_take_drop_id)
  with assms append_sep_inj [of "CHR ''#''" g g' m s] show "g = g'" by simp
qed (simp add: has_prefix_def hash_join_def)

lemma hash_join_inj:
  assumes "CHR ''#'' \<notin> set g" "CHR ''#'' \<notin> set g'"
  shows "hash_join g m = hash_join g' m' \<longleftrightarrow> g = g' \<and> m = m'"
  using assms append_sep_inj [of "CHR ''#''" g g' m m'] by (auto simp: hash_join_def)

text \<open>A row that \<open>MemberStore.Add\<close> wrote, for a group id without a \<open>#\<close>; group ids are UUIDs.\<close>

definition member_row :: "item \<Rightarrow> bool" where
  "member_row x \<longleftrightarrow> (\<exists>acct g m ts. x = member_item acct g m ts \<and> CHR ''#'' \<notin> set g)"

definition member_of :: "string \<Rightarrow> string \<Rightarrow> item \<Rightarrow> bool" where
  "member_of acct g x \<longleftrightarrow> map_of x ''accountId'' = Some (AttrS acct) \<and> map_of x ''groupId'' = Some (AttrS g)"

lemma member_attrs:
  "map_of (member_item acct g m ts) ''accountId'' = Some (AttrS acct)"
  "map_of (member_item acct g m ts) ''groupId#memberArn'' = Some (AttrS (hash_join g m))"
  "map_of (member_item acct g m ts) ''groupId'' = Some (AttrS g)"
  "map_of (member_item acct g m ts) ''memberArn'' = Some (AttrS m)"
  "map_of (member_item acct g m ts) ''addedAt'' = Some (AttrS ts)"
  "map_of (member_item acct g m ts) ''accountId#memberArn'' = Some (AttrS (hash_join acct m))"
  by (simp_all add: member_item_def)

lemma unmarshal_member_item: "unmarshal_member ''memberArn'' (member_item acct g m ts) = Inr m"
  by (simp add: unmarshal_member_def str_field_def member_attrs wrap_err_def)

lemma member_row_cond:
  assumes "member_row x" "CHR ''#'' \<notin> set g"
  shows "list_all (cond_holds x) [KeyEq ''accountId'' acct, BeginsWith ''groupId#memberArn'' (g @ ''#'')]
     \<longleftrightarrow> member_of acct g x"
  using assms by (auto simp: member_row_def member_of_def member_attrs hash_prefix)

lemma member_row_key:
  assumes "member_row x" "CHR ''#'' \<notin> set g"
  shows "has_key (member_key acct g m) x \<longleftrightarrow> member_of acct g x \<and> unmarshal_member ''memberArn'' x = Inr m"
  using assms by (auto simp: member_row_def member_of_def member_key_def has_key_def member_attrs hash_join_inj unmarshal_member_item)

context authz_tables
begin

lemma DeleteItem_None:
  assumes "DeleteItem (au_dynamo a) t k w = (None, w')"
  shows "set (items w' t) = {x \<in> set (items w t). \<not> has_key k x}" "t' \<noteq> t \<Longrightarrow> items w' t' = items w t'"
  using dynamo assms unfolding dynamo_ok_def by blast+

lemma remove_members_rows:
  assumes "remove_members (au_dynamo a) t acct g ms w = (None, w')"
  shows "set (items w' t) = {x \<in> set (items w t). \<forall>m \<in> set ms. \<not> has_key (member_key acct g m) x}
     \<and> (\<forall>t'. t' \<noteq> t \<longrightarrow> items w' t' = items w t')"
  using assms
proof (induction ms arbitrary: w)
  case Nil
  then show ?case by simp
next
  case (Cons m ms)
  then obtain w1 where w1: "DeleteItem (au_dynamo a) t (member_key acct g m) w = (None, w1)"
    "remove_members (au_dynamo a) t acct g ms w1 = (None, w')"
    by (auto simp: MemberStore_Remove_def wrap_err_opt_def split: prod.splits option.splits)
  from DeleteItem_None [OF w1(1)] Cons.IH [OF w1(2)] show ?case by auto
qed

lemma remove_all_rows:
  assumes "MemberStore_RemoveAllGroupMembers (au_dynamo a) t acct g w = (None, w')"
    and rows: "\<And>x. x \<in> set (items w t) \<Longrightarrow> member_row x" and g: "CHR ''#'' \<notin> set g"
  shows "set (items w' t) = {x \<in> set (items w t). \<not> member_of acct g x}"
    and "t' \<noteq> t \<Longrightarrow> items w' t' = items w t'"
proof -
  obtain ms where ms: "MemberStore_ListGroupMembers (au_dynamo a) t acct g w = Inr ms"
    "remove_members (au_dynamo a) t acct g ms w = (None, w')"
    using assms(1) by (auto simp: MemberStore_RemoveAllGroupMembers_def split: sum.splits)
  then obtain xs where xs: "Query (au_dynamo a) t None
      [KeyEq ''accountId'' acct, BeginsWith ''groupId#memberArn'' (g @ ''#'')] w = Inr xs"
    "mapR (unmarshal_member ''memberArn'') xs = Inr ms"
    by (auto simp: MemberStore_ListGroupMembers_def bindR_eq_Inr wrap_err_def split: sum.splits)
  have "set xs = {x \<in> set (items w t). list_all (cond_holds x)
      [KeyEq ''accountId'' acct, BeginsWith ''groupId#memberArn'' (g @ ''#'')]}"
    using dynamo xs(1) unfolding dynamo_ok_def by blast
  then have set_xs: "set xs = {x \<in> set (items w t). member_of acct g x}"
    using rows member_row_cond [OF _ g] by blast
  have "\<exists>m \<in> set ms. unmarshal_member ''memberArn'' x = Inr m" if "x \<in> set xs" for x
    using that xs(2) by (auto simp: mapR_Inr_iff list_all2_conv_all_nth in_set_conv_nth)
  then have "(\<exists>m \<in> set ms. has_key (member_key acct g m) x) \<longleftrightarrow> member_of acct g x"
    if "x \<in> set (items w t)" for x
    using that set_xs member_row_key [OF rows [OF that] g] by blast
  with remove_members_rows [OF ms(2)]
  show "set (items w' t) = {x \<in> set (items w t). \<not> member_of acct g x}" "t' \<noteq> t \<Longrightarrow> items w' t' = items w t'"
    by blast+
qed

lemma DeleteGroup_rows:
  assumes "DeleteGroup a acct g w = (None, w')"
    and "\<And>x. x \<in> set (items w (MembersTableName (au_cfg a))) \<Longrightarrow> member_row x" "CHR ''#'' \<notin> set g"
    and diff: "GroupsTableName (au_cfg a) \<noteq> MembersTableName (au_cfg a)"
  shows "set (items w' (MembersTableName (au_cfg a))) = {x \<in> set (items w (MembersTableName (au_cfg a))). \<not> member_of acct g x}"
    and "set (items w' (GroupsTableName (au_cfg a))) = {x \<in> set (items w (GroupsTableName (au_cfg a))). \<not> has_key (group_key acct g) x}"
proof -
  obtain w1 where w1: "MemberStore_RemoveAllGroupMembers (au_dynamo a) (MembersTableName (au_cfg a)) acct g w = (None, w1)"
    "DeleteItem (au_dynamo a) (GroupsTableName (au_cfg a)) (group_key acct g) w1 = (None, w')"
    using assms(1)
    by (auto simp: DeleteGroup_def GroupStore_Delete_def wrap_err_opt_def split: prod.splits option.splits)
  have rem1: "set (items w1 (MembersTableName (au_cfg a))) = {x \<in> set (items w (MembersTableName (au_cfg a))). \<not> member_of acct g x}"
    by (rule remove_all_rows(1) [OF w1(1)]) (use assms(2,3) in auto)
  have rem2: "items w1 (GroupsTableName (au_cfg a)) = items w (GroupsTableName (au_cfg a))"
    by (rule remove_all_rows(2) [OF w1(1)]) (use assms(2,3) diff in auto)
  show "set (items w' (MembersTableName (au_cfg a))) = {x \<in> set (items w (MembersTableName (au_cfg a))). \<not> member_of acct g x}"
    using rem1 DeleteItem_None(2) [OF w1(2), of "MembersTableName (au_cfg a)"] diff by simp
  show "set (items w' (GroupsTableName (au_cfg a))) = {x \<in> set (items w (GroupsTableName (au_cfg a))). \<not> has_key (group_key acct g) x}"
    using rem2 DeleteItem_None(1) [OF w1(2)] by simp
qed

end

text \<open>
  A group deletion that reports success has removed the group and exactly the
  members of that group of that account: no membership of the group is left to grant anything,
  and no membership of another group or account is touched.
\<close>

theorem DeleteGroup_removes_members:
  assumes "dynamo_ok (au_dynamo a) items keys" "DeleteGroup a acct g w = (None, w')"
    and "\<And>x. x \<in> set (items w (MembersTableName (au_cfg a))) \<Longrightarrow> member_row x" "CHR ''#'' \<notin> set g"
    and "GroupsTableName (au_cfg a) \<noteq> MembersTableName (au_cfg a)"
  shows "set (items w' (MembersTableName (au_cfg a))) = {x \<in> set (items w (MembersTableName (au_cfg a))). \<not> member_of acct g x}
    \<and> set (items w' (GroupsTableName (au_cfg a))) = {x \<in> set (items w (GroupsTableName (au_cfg a))). \<not> has_key (group_key acct g) x}"
  using authz_tables.DeleteGroup_rows [OF authz_tables.intro [OF assms(1)] assms(2-)] by blast

lemma pick_one: "P x \<Longrightarrow> \<not> P y \<Longrightarrow> {z \<in> {x, y}. \<not> P z} = {y}"
  by auto

theorem DeleteGroup_removes_members_witness:
  "set (mem_tables (snd (DeleteGroup mem_authorizer ''1'' ''g'' ex_world)) ''rosa-authz-group-members'') =
     {member_item ''1'' ''h'' ''arn:joe'' ''t''}"
proof -
  have cfg: "MembersTableName (au_cfg mem_authorizer) = ''rosa-authz-group-members''"
    "GroupsTableName (au_cfg mem_authorizer) = ''rosa-authz-groups''"
    by (simp_all add: mem_authorizer_def DefaultConfig_def)
  have rows: "set (mem_tables ex_world ''rosa-authz-group-members'') =
      {member_item ''1'' ''g'' ''arn:joe'' ''t'', member_item ''1'' ''h'' ''arn:joe'' ''t''}"
    by (auto simp: ex_world_def DefaultConfig_def)
  have "fst (DeleteGroup mem_authorizer ''1'' ''g'' ex_world) = None" by code_simp
  then have del: "DeleteGroup mem_authorizer ''1'' ''g'' ex_world =
      (None, snd (DeleteGroup mem_authorizer ''1'' ''g'' ex_world))" by (simp add: prod_eq_iff)
  have "member_row (member_item ''1'' g ''arn:joe'' ''t'')" if "g = ''g'' \<or> g = ''h''" for g
    unfolding member_row_def using that by (intro exI conjI) auto
  then have wf: "x \<in> set (mem_tables ex_world (MembersTableName (au_cfg mem_authorizer))) \<Longrightarrow> member_row x" for x
    unfolding cfg rows by auto
  have "CHR ''#'' \<notin> set ''g''" "''rosa-authz-groups'' \<noteq> ''rosa-authz-group-members''" by simp_all
  note DeleteGroup_removes_members [OF mem_dynamo_ok del, unfolded cfg, OF _ this]
  from conjunct1 [OF this] wf [unfolded cfg]
  have "set (mem_tables (snd (DeleteGroup mem_authorizer ''1'' ''g'' ex_world)) ''rosa-authz-group-members'') =
     {x \<in> set (mem_tables ex_world ''rosa-authz-group-members''). \<not> member_of ''1'' ''g'' x}" by blast
  moreover have "member_of ''1'' ''g'' (member_item ''1'' ''g'' ''arn:joe'' ''t'')"
    "\<not> member_of ''1'' ''g'' (member_item ''1'' ''h'' ''arn:joe'' ''t'')"
    by (simp_all add: member_of_def member_attrs)
  then have "{x \<in> {member_item ''1'' ''g'' ''arn:joe'' ''t'', member_item ''1'' ''h'' ''arn:joe'' ''t''}. \<not> member_of ''1'' ''g'' x}
      = {member_item ''1'' ''h'' ''arn:joe'' ''t''}"
    by (rule pick_one)
  ultimately show ?thesis by (simp only: rows)
qed

section \<open>Enabling an account\<close>

text \<open>The documented effect of the policy store calls on the set of stores; items and policy
  stores are separate services.\<close>

definition stores_ok :: "'w authorizerImpl \<Rightarrow> ('w \<Rightarrow> string set) \<Rightarrow> bool" where
  "stores_ok a stores \<longleftrightarrow>
     (\<forall>d w r w'. CreatePolicyStore (au_avp a) d w = (r, w') \<longrightarrow>
        (case r of Inl _ \<Rightarrow> stores w' = stores w
                 | Inr i \<Rightarrow> i \<noteq> [] \<and> i \<notin> stores w \<and> stores w' = insert i (stores w)))
   \<and> (\<forall>i w. stores (snd (PutSchema (au_avp a) i w)) = stores w)
   \<and> (\<forall>i w w'. DeletePolicyStore (au_avp a) i w = (None, w') \<longrightarrow> stores w' = stores w - {i})
   \<and> (\<forall>t it cs w. stores (snd (PutItem (au_dynamo a) t it cs w)) = stores w)"

text \<open>Which calls change the set of policy stores, when the clean-up call always succeeds.\<close>

lemma stores_laws:
  assumes "stores_ok a stores" "\<And>i w. fst (DeletePolicyStore (au_avp a) i w) = None"
  shows "stores (snd (DeletePolicyStore (au_avp a) i w)) = stores w - {i}"
    and "stores (snd (PutItem (au_dynamo a) t it cs w)) = stores w"
    and "stores (snd (PutSchema (au_avp a) i w)) = stores w"
  using assms unfolding stores_ok_def by (metis prod.collapse)+

lemma stores_ok_create:
  assumes "stores_ok a stores" "CreatePolicyStore (au_avp a) d w = (r, w')"
  shows "case r of Inl _ \<Rightarrow> stores w' = stores w
    | Inr i \<Rightarrow> i \<noteq> [] \<and> i \<notin> stores w \<and> stores w' = insert i (stores w)"
  using conjunct1 [OF assms(1) [unfolded stores_ok_def]] assms(2) by (elim allE impE) assumption+

text \<open>A policy store whose schema cannot be put is taken back.\<close>

lemma create_policy_store_stores:
  assumes "stores_ok a stores" "\<And>i w. fst (DeletePolicyStore (au_avp a) i w) = None"
    and "create_policy_store a acct priv w = (cr, w1)"
  shows "case cr of Inl _ \<Rightarrow> stores w1 = stores w
    | Inr i \<Rightarrow> if priv then i = [] \<and> stores w1 = stores w else i \<noteq> [] \<and> i \<notin> stores w \<and> stores w1 = insert i (stores w)"
proof (cases priv)
  case True
  with assms(3) show ?thesis by (auto simp: create_policy_store_def)
next
  case False
  note laws = stores_laws [OF assms(1,2)]
  obtain r0 w0 where c: "CreatePolicyStore (au_avp a) (store_description acct) w = (r0, w0)" by force
  note fresh = stores_ok_create [OF assms(1) c]
  show ?thesis
  proof (cases r0)
    case (Inl e)
    with assms(3) False c fresh show ?thesis by (auto simp: create_policy_store_def)
  next
    case (Inr i)
    with fresh have new: "i \<noteq> []" "i \<notin> stores w" "stores w0 = insert i (stores w)" by auto
    obtain pe w2 where ps: "PutSchema (au_avp a) i w0 = (pe, w2)" by force
    with laws(3) [of i w0] have "stores w2 = insert i (stores w)" using new by simp
    with assms(3) False c Inr ps new laws(1) [of i w2] show ?thesis
      by (cases pe) (auto simp: create_policy_store_def)
  qed
qed


lemma mem_stores_ok: "stores_ok mem_authorizer (set \<circ> mem_stores)"
proof -
  have fresh: "''ps-'' @ concat xs \<notin> set xs" for xs :: "string list"
  proof
    assume "''ps-'' @ concat xs \<in> set xs"
    moreover have "x \<in> set xs \<Longrightarrow> length x \<le> length (concat xs)" for x by (induction xs) auto
    ultimately have "length (''ps-'' @ concat xs) \<le> length (concat xs)" by blast
    then show False by simp
  qed
  show ?thesis
    using fresh by (auto simp: stores_ok_def mem_authorizer_def mem_avp_def mem_dynamo_def Let_def)
qed


section \<open>Codecs\<close>

text \<open>
  Accounts, admins and groups read back from their DynamoDB items as they were
  written, and a policy's name and description survive the description of its template.
\<close>

theorem stored_records_roundtrip:
  "unmarshal_account (marshal_account a) = Inr a \<and> unmarshal_admin (marshal_admin b) = Inr b
   \<and> unmarshal_group (marshal_group g) = Inr g \<and> decodePolicyMeta (encodePolicyMeta name descr) = (name, descr)"
proof (intro conjI)
  show "unmarshal_account (marshal_account a) = Inr a"
    by (simp add: unmarshal_account_def marshal_account_def str_field_def bool_field_def)
  show "unmarshal_admin (marshal_admin b) = Inr b"
    by (simp add: unmarshal_admin_def marshal_admin_def str_field_def)
  show "unmarshal_group (marshal_group g) = Inr g"
    by (simp add: unmarshal_group_def marshal_group_def str_field_def)
  have "equal_fold ''description'' ''name'' = False" by code_simp
  then show "decodePolicyMeta (encodePolicyMeta name descr) = (name, descr)"
    by (simp add: decodePolicyMeta_def encodePolicyMeta_def)
qed

section \<open>Group membership in requests\<close>

text \<open>The request to the policy engine lists the caller's groups as entities but gives no entity
  a parent, so no policy about a group can apply to the caller: membership in the sense of the
  policy language, the reflexive and transitive closure of the parent relation, never holds.\<close>

inductive entity_in :: "entity_item list \<Rightarrow> entity_id \<Rightarrow> entity_id \<Rightarrow> bool" for es where
  refl: "entity_in es i i"
| parent: "e \<in> set es \<Longrightarrow> p \<in> set (en_Parents e) \<Longrightarrow> entity_in es p j \<Longrightarrow> entity_in es (en_Identifier e) j"

lemma groups_never_apply:
  "\<not> entity_in (av_Entities (buildAVPRequest req groups psid)) (''ROSA::Principal'', az_CallerARN req) (''ROSA::Group'', g)"
proof
  have np: "en_Parents e = []" if "e \<in> set (av_Entities (buildAVPRequest req groups psid))" for e
    using that by (auto simp: buildAVPRequest_def Let_def plain_entity_def split: if_splits)
  assume "entity_in (av_Entities (buildAVPRequest req groups psid)) (''ROSA::Principal'', az_CallerARN req) (''ROSA::Group'', g)"
  then show False by (cases rule: entity_in.cases) (auto dest: np)
qed

section \<open>Derived actions and the Cedar schema\<close>

definition schema_actions :: "string list" where
  "schema_actions =
     [''CreateCluster'', ''DeleteCluster'', ''DescribeCluster'', ''ListClusters'', ''UpdateCluster'',
      ''UpdateClusterConfig'', ''UpdateClusterVersion'', ''CreateNodePool'', ''DeleteNodePool'',
      ''DescribeNodePool'', ''ListNodePools'', ''UpdateNodePool'', ''ScaleNodePool'', ''CreateAccessEntry'',
      ''DeleteAccessEntry'', ''DescribeAccessEntry'', ''ListAccessEntries'', ''UpdateAccessEntry'',
      ''TagResource'', ''UntagResource'', ''ListTagsForResource'', ''ListAccessPolicies'']"

lemma dropWhile_hd: "s \<noteq> [] \<Longrightarrow> \<not> P (hd s) \<Longrightarrow> dropWhile P s = s"
  by (cases s) auto

lemma trim_slash: "s \<noteq> [] \<Longrightarrow> hd s \<noteq> CHR ''/'' \<Longrightarrow> last s \<noteq> CHR ''/'' \<Longrightarrow> trim (CHR ''/'') (CHR ''/'' # s) = s"
  by (simp add: trim_def dropWhile_hd hd_rev)

lemma path_parts_join:
  assumes "list_all (\<lambda>p. p \<noteq> [] \<and> CHR ''/'' \<notin> set p) ps" "ps \<noteq> []"
  shows "path_parts (CHR ''/'' # join_with ''/'' ps) = ps"
proof -
  have ends: "join_with ''/'' ps \<noteq> [] \<and> hd (join_with ''/'' ps) \<noteq> CHR ''/'' \<and> last (join_with ''/'' ps) \<noteq> CHR ''/''"
    using assms
  proof (induction "''/''" ps rule: join_with.induct)
    case (2 x)
    then have "x \<noteq> []" "CHR ''/'' \<notin> set x" by auto
    then show ?case by (auto dest: hd_in_set last_in_set)
  next
    case (3 x y ys)
    then have "x \<noteq> []" "CHR ''/'' \<notin> set x" by auto
    then show ?case using 3 by (auto dest: hd_in_set)
  qed simp
  then show ?thesis
    using assms by (auto simp: path_parts_def trim_slash split_on_join list_all_iff)
qed

lemma collection_path:
  assumes "CHR ''/'' \<notin> set coll" "coll \<noteq> []"
  shows "path_parts (''/api/v0/'' @ coll) = [''api'', ''v0'', coll]"
    and "CHR ''/'' \<notin> set i \<Longrightarrow> i \<noteq> [] \<Longrightarrow> path_parts (''/api/v0/'' @ coll @ ''/'' @ i) = [''api'', ''v0'', coll, i]"
  using path_parts_join [of "[''api'', ''v0'', coll]"] path_parts_join [of "[''api'', ''v0'', coll, i]"] assms by auto

text \<open>
  Every action that the middleware derives for a registered cluster or node
  pool route is an action of the Cedar schema, so policies can be written for all of them.
\<close>

theorem derived_actions_declared:
  assumes "coll \<in> {''clusters'', ''nodepools''}" "i \<noteq> []" "CHR ''/'' \<notin> set i"
    and "q_method r \<in> (if hasID then {''GET'', ''PUT'', ''PATCH'', ''DELETE''} else {''GET'', ''POST''})"
    and "q_path r = (if hasID then ''/api/v0/'' @ coll @ ''/'' @ i else ''/api/v0/'' @ coll)"
    and "q_vars r ''id'' = (if hasID then Some i else None)"
  shows "deriveAction r \<in> set schema_actions"
proof -
  have coll: "CHR ''/'' \<notin> set coll" "coll \<noteq> []" using assms(1) by auto
  have parts: "path_parts (q_path r) = (if hasID then [''api'', ''v0'', coll, i] else [''api'', ''v0'', coll])"
    using collection_path [OF coll] assms(2,3,5) by simp
  have ty: "resource_type (path_parts (q_path r)) = (if coll = ''clusters'' then ''Cluster'' else ''NodePool'')"
    using assms(1) unfolding parts by (auto simp: resource_type_def)
  show ?thesis
    using assms(1,4,6) unfolding deriveAction_def Let_def ty
    by (cases hasID) (auto simp: action_prefix_def schema_actions_def)
qed

theorem derived_actions_declared_witness:
  "deriveAction (ex_call ''1'' ''arn:joe'') \<in> set schema_actions"
  by (rule derived_actions_declared [where coll = "''clusters''" and i = "''x''" and hasID = False])
    (simp_all add: ex_call_def)

text \<open>The other registered routes derive actions that the schema does not have.\<close>

lemma oidc_actions_undeclared:
  assumes "coll \<in> {''oidc_configs'', ''management_clusters''}" "q_path r = ''/api/v0/'' @ coll"
    and "q_method r \<in> {''GET'', ''POST''}"
  shows "deriveAction r \<notin> set schema_actions"
proof -
  have coll: "CHR ''/'' \<notin> set coll" "coll \<noteq> []" using assms(1) by auto
  have ty: "resource_type (path_parts (q_path r)) = ''Resource''"
    using assms(1) collection_path(1) [OF coll] by (auto simp: assms(2) resource_type_def)
  show ?thesis using assms(3) unfolding deriveAction_def Let_def ty
    by (auto simp: action_prefix_def schema_actions_def)
qed

end
