(* ===== verification/Desire.thy ===== *)
theory Desire
  imports KubeStore
begin

text \<open>
  The operator's client for desires (\<open>hyperfleet-operator/internal/dynamo\<close>) and the summary of
  their statuses (\<open>internal/controller/desire_status.go\<close>). The operator writes desire specs into
  DynamoDB tables, and kube-applier on the management cluster answers in status tables.
  DynamoDB is a record of functions on an abstract state \<open>'d\<close>, whose documented behaviour is
  \<open>dapi_ok\<close>; SHA-256 over the encoded spec, the shard of a document and the UUID of a name are
  arguments. Raw bytes of a Kubernetes object are represented by the JSON document they encode;
  times are seconds, and the zero time is \<open>None\<close>.
\<close>

section \<open>Desires\<close>

record ResourceReference =
  rr_Group :: string
  rr_Version :: string
  rr_Resource :: string
  rr_Namespace :: string
  rr_Name :: string

datatype ApplyDesireType = ServerSideApply | DeleteDesire

record ApplyDesireSpec =
  ads_Type :: ApplyDesireType
  ads_ManagementCluster :: string
  ads_ClusterID :: string
  ads_TargetItem :: ResourceReference
  ads_KubeContent :: "json option"           \<comment> \<open>\<open>ServerSideApply.KubeContent\<close>\<close>

record ReadDesireSpec =
  rds_ManagementCluster :: string
  rds_ClusterID :: string
  rds_TargetItem :: ResourceReference

datatype desire_spec = ApplySpec ApplyDesireSpec | ReadSpec ReadDesireSpec

type_synonym gotime = "int option"

fun time_before :: "gotime \<Rightarrow> gotime \<Rightarrow> bool" where
  "time_before _ None = False"
| "time_before None (Some _) = True"
| "time_before (Some a) (Some b) = (a < b)"

record Condition =
  cd_Type :: string
  cd_Status :: string
  cd_Reason :: string
  cd_Message :: string
  cd_ObservedGeneration :: int
  cd_LastTransitionTime :: gotime

record ApplyDesireStatus =
  as_Conditions :: "Condition list"
  as_ObservedDesireUpdateTime :: gotime

record ReadDesireStatus =
  rs_Conditions :: "Condition list"
  rs_ObservedDesireUpdateTime :: gotime
  rs_KubeContent :: "json option"

record UpsertResult =
  Changed :: bool
  UpdateTime :: gotime

section \<open>DynamoDB\<close>

text \<open>Attribute values, as far as the client writes or reads them: strings, an RFC 3339 time, the
  bytes of a document, numbers, the encoded map of a spec and the map of a status.\<close>

datatype dattr =
    DString string | DTime int | DRaw json | DNumber string
  | DSpec desire_spec | DStatus "(string \<times> json) list"

type_synonym ditem = "(string \<times> dattr) list"

text \<open>\<open>GetItem\<close> takes the consistency flag. A call that fails may have had its effect.\<close>

record 'd dynamoAPI =
  d_GetItem :: "bool \<Rightarrow> string \<Rightarrow> string \<Rightarrow> 'd \<Rightarrow> (string + ditem) \<times> 'd"
  d_PutItem :: "string \<Rightarrow> ditem \<Rightarrow> 'd \<Rightarrow> string option \<times> 'd"
  d_DeleteItem :: "string \<Rightarrow> string \<Rightarrow> 'd \<Rightarrow> string option \<times> 'd"

text \<open>\<open>items d (t, k)\<close> is the item of table \<open>t\<close> with \<open>documentID\<close> \<open>k\<close>, empty when there is none.\<close>

type_synonym ditems = "string \<times> string \<Rightarrow> ditem"

definition dapi_ok :: "'d dynamoAPI \<Rightarrow> ('d \<Rightarrow> ditems) \<Rightarrow> bool" where
  "dapi_ok api items \<longleftrightarrow>
     (\<forall>c t k d r d'. d_GetItem api c t k d = (r, d') \<longrightarrow> items d' = items d)
   \<and> (\<forall>t k d r d'. d_GetItem api True t k d = (Inr r, d') \<longrightarrow> r = items d (t, k))
   \<and> (\<forall>t it k d e d'. map_of it ''documentID'' = Some (DString k) \<and> d_PutItem api t it d = (e, d') \<longrightarrow>
        items d' = (items d)((t, k) := it) \<or> e \<noteq> None \<and> items d' = items d)
   \<and> (\<forall>t k d e d'. d_DeleteItem api t k d = (e, d') \<longrightarrow>
        items d' = (items d)((t, k) := []) \<or> e \<noteq> None \<and> items d' = items d)"

text \<open>An eventually consistent read sees the latest write when none is recent.\<close>

definition fresh_reads :: "'d dynamoAPI \<Rightarrow> ('d \<Rightarrow> ditems) \<Rightarrow> bool" where
  "fresh_reads api items \<longleftrightarrow> (\<forall>t k d r d'. d_GetItem api False t k d = (Inr r, d') \<longrightarrow> r = items d (t, k))"

section \<open>client.go\<close>

definition SpecsPrefix :: "string \<Rightarrow> string" where "SpecsPrefix mc = mc @ ''-specs''"

definition StatusPrefix :: "string \<Rightarrow> string" where "StatusPrefix mc = mc @ ''-status''"

definition TableSuffixApplyDesires :: string where "TableSuffixApplyDesires = ''-applydesires''"

definition TableSuffixReadDesires :: string where "TableSuffixReadDesires = ''-readdesires''"

text \<open>\<open>desireid.go\<close>; \<open>uuid5\<close> is \<open>uuid.NewSHA1\<close> in the fixed name space, printed.\<close>

definition NewDocumentID :: "(string \<Rightarrow> string) \<Rightarrow> string \<Rightarrow> string \<Rightarrow> string \<Rightarrow> string \<Rightarrow> string \<Rightarrow> string \<Rightarrow> string" where
  "NewDocumentID uuid5 taskKey grp version resource namespace name =
     uuid5 (taskKey @ ''/'' @ grp @ ''/'' @ version @ ''/'' @ resource @ ''/'' @ namespace @ ''/'' @ name)"

record cacheEntry =
  ce_specHash :: string
  ce_updateTime :: gotime

record 'd Client =
  cl_db :: 'd
  cl_cache :: "(string \<times> cacheEntry) list"

definition cacheKey :: "string \<Rightarrow> string \<Rightarrow> string" where
  "cacheKey table documentID = table @ ''/'' @ documentID"

definition cache_store :: "string \<Rightarrow> cacheEntry \<Rightarrow> 'd Client \<Rightarrow> 'd Client" where
  "cache_store ck e c = c\<lparr>cl_cache := (ck, e) # filter (\<lambda>(k, _). k \<noteq> ck) (cl_cache c)\<rparr>"

definition cache_drop :: "string \<Rightarrow> 'd Client \<Rightarrow> 'd Client" where
  "cache_drop ck c = c\<lparr>cl_cache := filter (\<lambda>(k, _). k \<noteq> ck) (cl_cache c)\<rparr>"

text \<open>What the code cannot do itself: hash and encode a spec, the shard of a document, the clock.\<close>

record denv =
  de_hash :: "desire_spec \<Rightarrow> string + string"
  de_marshal :: "desire_spec \<Rightarrow> string option"   \<comment> \<open>the error of \<open>attributevalue.MarshalMap\<close>\<close>
  de_shard :: "string \<Rightarrow> string"
  de_now :: int

text \<open>The item of a desire: the content of a server-side apply moves into an attribute of its own.\<close>

definition spec_attrs :: "desire_spec \<Rightarrow> desire_spec" where
  "spec_attrs spec = (case spec of ApplySpec s \<Rightarrow> ApplySpec (s\<lparr>ads_KubeContent := None\<rparr>) | ReadSpec s \<Rightarrow> ReadSpec s)"

definition desire_item :: "denv \<Rightarrow> string \<Rightarrow> desire_spec \<Rightarrow> string \<Rightarrow> int \<Rightarrow> ditem" where
  "desire_item env documentID spec specHash updateTime =
     [(''documentID'', DString documentID), (''version'', DNumber ''1''), (''updateTime'', DTime updateTime),
      (''shard'', DString (de_shard env documentID)), (''spec'', DSpec (spec_attrs spec))]
     @ (if specHash \<noteq> [] then [(''specHash'', DString specHash)] else [])
     @ (case spec of
          ApplySpec s \<Rightarrow> (case ads_KubeContent s of None \<Rightarrow> [] | Some raw \<Rightarrow> [(''spec_kubeContent'', DRaw raw)])
        | ReadSpec _ \<Rightarrow> [])"

definition putDesireWithHash ::
  "denv \<Rightarrow> 'd dynamoAPI \<Rightarrow> string \<Rightarrow> string \<Rightarrow> desire_spec \<Rightarrow> string \<Rightarrow> int \<Rightarrow> 'd \<Rightarrow> string option \<times> 'd"
where
  "putDesireWithHash env api table documentID spec specHash updateTime d =
     (case de_marshal env spec of
        Some e \<Rightarrow> (Some (''marshal spec: '' @ e), d)
      | None \<Rightarrow>
          (case d_PutItem api table (desire_item env documentID spec specHash updateTime) d of
             (Some e, d') \<Rightarrow> (Some (''dynamodb put '' @ table @ ''/'' @ documentID @ '': '' @ e), d')
           | (None, d') \<Rightarrow> (None, d')))"

text \<open>The hash and time attributes of the existing item; an unreadable time is the zero time.\<close>

definition item_hash :: "ditem \<Rightarrow> string option" where
  "item_hash it = (case map_of it ''specHash'' of Some (DString h) \<Rightarrow> Some h | _ \<Rightarrow> None)"

definition item_time :: "ditem \<Rightarrow> gotime" where
  "item_time it = (case map_of it ''updateTime'' of Some (DTime t) \<Rightarrow> Some t | _ \<Rightarrow> None)"

definition upsertDesire ::
  "denv \<Rightarrow> 'd dynamoAPI \<Rightarrow> string \<Rightarrow> string \<Rightarrow> desire_spec \<Rightarrow> 'd Client \<Rightarrow> (string + UpsertResult) \<times> 'd Client"
where
  "upsertDesire env api table documentID spec c =
     (case de_hash env spec of
        Inl e \<Rightarrow> (Inl (''marshal spec for hash: '' @ e), c)
      | Inr newHash \<Rightarrow>
          (let ck = cacheKey table documentID;
               hit = (case map_of (cl_cache c) ck of Some entry \<Rightarrow> if ce_specHash entry = newHash then Some entry else None | None \<Rightarrow> None)
           in case hit of
                Some entry \<Rightarrow> (Inr \<lparr>Changed = False, UpdateTime = ce_updateTime entry\<rparr>, c)
              | None \<Rightarrow>
                  (case d_GetItem api False table documentID (cl_db c) of
                     (Inl e, d1) \<Rightarrow> (Inl (''dynamodb get '' @ table @ ''/'' @ documentID @ '' for upsert: '' @ e), c\<lparr>cl_db := d1\<rparr>)
                   | (Inr existing, d1) \<Rightarrow>
                       if item_hash existing = Some newHash
                       then (Inr \<lparr>Changed = False, UpdateTime = item_time existing\<rparr>,
                             cache_store ck \<lparr>ce_specHash = newHash, ce_updateTime = item_time existing\<rparr> (c\<lparr>cl_db := d1\<rparr>))
                       else (case putDesireWithHash env api table documentID spec newHash (de_now env) d1 of
                               (Some e, d2) \<Rightarrow> (Inl e, c\<lparr>cl_db := d2\<rparr>)
                             | (None, d2) \<Rightarrow>
                                 (Inr \<lparr>Changed = True, UpdateTime = Some (de_now env)\<rparr>,
                                  cache_store ck \<lparr>ce_specHash = newHash, ce_updateTime = Some (de_now env)\<rparr> (c\<lparr>cl_db := d2\<rparr>))))))"

definition UpsertApplyDesire ::
  "denv \<Rightarrow> 'd dynamoAPI \<Rightarrow> string \<Rightarrow> string \<Rightarrow> ApplyDesireSpec \<Rightarrow> 'd Client \<Rightarrow> (string + UpsertResult) \<times> 'd Client"
where
  "UpsertApplyDesire env api specsPrefix docID spec c =
     upsertDesire env api (specsPrefix @ TableSuffixApplyDesires) docID (ApplySpec spec) c"

definition UpsertReadDesire ::
  "denv \<Rightarrow> 'd dynamoAPI \<Rightarrow> string \<Rightarrow> string \<Rightarrow> ReadDesireSpec \<Rightarrow> 'd Client \<Rightarrow> (string + UpsertResult) \<times> 'd Client"
where
  "UpsertReadDesire env api specsPrefix docID spec c =
     upsertDesire env api (specsPrefix @ TableSuffixReadDesires) docID (ReadSpec spec) c"

definition DeleteDesireSpec :: "'d dynamoAPI \<Rightarrow> string \<Rightarrow> string \<Rightarrow> string \<Rightarrow> 'd Client \<Rightarrow> string option \<times> 'd Client" where
  "DeleteDesireSpec api specsPrefix sfx documentID c =
     (let table = specsPrefix @ sfx
      in case d_DeleteItem api table documentID (cl_db c) of
           (Some e, d') \<Rightarrow> (Some (''dynamodb delete '' @ table @ ''/'' @ documentID @ '': '' @ e), c\<lparr>cl_db := d'\<rparr>)
         | (None, d') \<Rightarrow> (None, cache_drop (cacheKey table documentID) (c\<lparr>cl_db := d'\<rparr>)))"

definition ResetCache :: "'d Client \<Rightarrow> 'd Client" where
  "ResetCache c = c\<lparr>cl_cache := []\<rparr>"

text \<open>Reading a status: \<open>decode\<close> is \<open>attributevalue.UnmarshalMap\<close> into the status type, on the map
  under \<open>status\<close> where the item has one, else on the whole item.\<close>

datatype derror = DesireNotFound | DesireError string

definition getDesireStatus ::
  "(ditem \<Rightarrow> string + 'a) \<Rightarrow> 'd dynamoAPI \<Rightarrow> string \<Rightarrow> string \<Rightarrow> 'd \<Rightarrow> (derror + (ditem \<times> 'a)) \<times> 'd"
where
  "getDesireStatus decode api table documentID d =
     (case d_GetItem api True table documentID d of
        (Inl e, d') \<Rightarrow> (Inl (DesireError (''dynamodb get '' @ table @ ''/'' @ documentID @ '': '' @ e)), d')
      | (Inr it, d') \<Rightarrow>
          (if it = [] then Inl DesireNotFound
           else map_sum (\<lambda>e. DesireError (''unmarshal '' @ table @ ''/'' @ documentID @ '': '' @ e)) (Pair it)
                  (decode (case map_of it ''status'' of Some (DStatus m) \<Rightarrow> [(''status'', DStatus m)] | _ \<Rightarrow> it)), d'))"

definition GetApplyDesireStatus ::
  "(ditem \<Rightarrow> string + ApplyDesireStatus) \<Rightarrow> 'd dynamoAPI \<Rightarrow> string \<Rightarrow> string \<Rightarrow> 'd Client \<Rightarrow> (derror + ApplyDesireStatus) \<times> 'd Client"
where
  "GetApplyDesireStatus decode api statusPrefix documentID c =
     (let (r, d') = getDesireStatus decode api (statusPrefix @ TableSuffixApplyDesires) documentID (cl_db c)
      in (map_sum id snd r, c\<lparr>cl_db := d'\<rparr>))"

definition GetReadDesireStatus ::
  "(ditem \<Rightarrow> string + ReadDesireStatus) \<Rightarrow> 'd dynamoAPI \<Rightarrow> string \<Rightarrow> string \<Rightarrow> 'd Client \<Rightarrow> (derror + ReadDesireStatus) \<times> 'd Client"
where
  "GetReadDesireStatus decode api statusPrefix documentID c =
     (let (r, d') = getDesireStatus decode api (statusPrefix @ TableSuffixReadDesires) documentID (cl_db c)
      in (map_sum id (\<lambda>(it, st). case map_of it ''status_kubeContent'' of Some (DRaw raw) \<Rightarrow> st\<lparr>rs_KubeContent := Some raw\<rparr> | _ \<Rightarrow> st) r,
          c\<lparr>cl_db := d'\<rparr>))"

section \<open>desire_status.go\<close>

record DesireStatusEntry =
  en_DocID :: string
  en_Resource :: string
  en_Name :: string
  en_DesireUpdateTime :: gotime

text \<open>What one entry contributes: it is synced, failing with a message, or still awaited.
  \<open>fnd\<close> is \<open>meta.FindStatusCondition\<close>, \<open>Successful\<close> the condition type of kube-applier.\<close>

datatype sync_outcome = Synced | Failing string | Awaiting

definition entry_outcome ::
  "(Condition list \<Rightarrow> string \<Rightarrow> Condition option) \<Rightarrow> string \<Rightarrow> DesireStatusEntry \<Rightarrow> derror + ApplyDesireStatus \<Rightarrow> sync_outcome"
where
  "entry_outcome fnd successful e r =
     (case r of
        Inl DesireNotFound \<Rightarrow> Awaiting
      | Inl (DesireError m) \<Rightarrow> Failing (en_Resource e @ ''/'' @ en_Name e @ '': '' @ m)
      | Inr st \<Rightarrow>
          if en_DesireUpdateTime e \<noteq> None \<and> time_before (as_ObservedDesireUpdateTime st) (en_DesireUpdateTime e) then Awaiting
          else (case fnd (as_Conditions st) successful of
                  None \<Rightarrow> Awaiting
                | Some cond \<Rightarrow>
                    if cd_Status cond = ''True'' then Synced
                    else Failing (en_Resource e @ ''/'' @ en_Name e @ '': '' @ cd_Reason cond @
                           (if cd_Message cond \<noteq> [] then '': '' @ cd_Message cond else []))))"

definition failures :: "sync_outcome list \<Rightarrow> string list" where
  "failures os = List.map_filter (\<lambda>x. case x of Failing m \<Rightarrow> Some m | _ \<Rightarrow> None) os"

definition synced_condition :: "sync_outcome list \<Rightarrow> int \<Rightarrow> Condition" where
  "synced_condition os generation =
     (let total = dec_of_nat (length os); n = length (filter ((=) Synced) os); synced = dec_of_nat n
      in if failures os \<noteq> [] then
           \<lparr>cd_Type = ''Synced'', cd_Status = ''False'', cd_Reason = ''SyncFailed'',
            cd_Message = synced @ ''/'' @ total @ '' synced; failing: '' @ join_with ''; '' (failures os),
            cd_ObservedGeneration = generation, cd_LastTransitionTime = None\<rparr>
         else if n = length os then
           \<lparr>cd_Type = ''Synced'', cd_Status = ''True'', cd_Reason = ''AllSynced'',
            cd_Message = synced @ ''/'' @ total @ '' desires applied successfully'',
            cd_ObservedGeneration = generation, cd_LastTransitionTime = None\<rparr>
         else
           \<lparr>cd_Type = ''Synced'', cd_Status = ''False'', cd_Reason = ''AwaitingSync'',
            cd_Message = synced @ ''/'' @ total @ '' synced, waiting for kube-applier to process remaining desires'',
            cd_ObservedGeneration = generation, cd_LastTransitionTime = None\<rparr>)"

text \<open>The condition is true exactly when every entry has a status at least as new as its desire
  that reports success.\<close>

definition confirmed ::
  "(Condition list \<Rightarrow> string \<Rightarrow> Condition option) \<Rightarrow> string \<Rightarrow> DesireStatusEntry \<Rightarrow> derror + ApplyDesireStatus \<Rightarrow> bool"
where
  "confirmed fnd successful e r =
     (case r of
        Inl _ \<Rightarrow> False
      | Inr st \<Rightarrow> \<not> (en_DesireUpdateTime e \<noteq> None \<and> time_before (as_ObservedDesireUpdateTime st) (en_DesireUpdateTime e))
          \<and> (case fnd (as_Conditions st) successful of None \<Rightarrow> False | Some c \<Rightarrow> cd_Status c = ''True''))"

lemma outcome_Synced: "entry_outcome fnd successful e r = Synced \<longleftrightarrow> confirmed fnd successful e r"
  by (auto simp: entry_outcome_def confirmed_def split: sum.splits derror.splits option.splits)

lemma all_synced: "list_all ((=) Synced) os \<Longrightarrow> failures os = [] \<and> filter ((=) Synced) os = os"
  by (induction os) (auto simp: failures_def map_filter_simps)

lemma synced_condition_True: "cd_Status (synced_condition os g) = ''True'' \<longleftrightarrow> list_all ((=) Synced) os"
proof
  assume "cd_Status (synced_condition os g) = ''True''"
  then have n: "length (filter ((=) Synced) os) = length os" by (auto simp: synced_condition_def Let_def split: if_splits)
  show "list_all ((=) Synced) os"
  proof (rule ccontr)
    assume "\<not> list_all ((=) Synced) os"
    then obtain x where "x \<in> set os" "x \<noteq> Synced" by (auto simp: list_all_iff)
    then have "length (filter ((=) Synced) os) < length os" by (intro length_filter_less) auto
    with n show False by simp
  qed
next
  assume "list_all ((=) Synced) os"
  then show "cd_Status (synced_condition os g) = ''True''"
    by (simp add: synced_condition_def all_synced Let_def)
qed

section \<open>What an upsert guarantees\<close>

text \<open>Table names carry no slash, so that cache keys are unambiguous. Every item with a hash was
  written by the client for a spec with that hash; every cached entry is that of the stored item.\<close>

lemma cacheKey_inj:
  assumes "CHR ''/'' \<notin> set t" "CHR ''/'' \<notin> set t'" "cacheKey t k = cacheKey t' k'"
  shows "t = t' \<and> k = k'"
proof -
  have "takeWhile (\<lambda>c. c \<noteq> CHR ''/'') (cacheKey t k) = t" if "CHR ''/'' \<notin> set t" for t k
    using that by (auto simp: cacheKey_def takeWhile_append)
  then have "t = t'" using assms by metis
  with assms(3) show ?thesis by (simp add: cacheKey_def)
qed

definition items_ok :: "denv \<Rightarrow> ditems \<Rightarrow> bool" where
  "items_ok env its \<longleftrightarrow> (\<forall>t k h. item_hash (its (t, k)) = Some h \<longrightarrow>
     (\<exists>spec now. de_hash env spec = Inr h \<and> its (t, k) = desire_item env k spec h now))"

definition cache_ok :: "ditems \<Rightarrow> (string \<times> cacheEntry) list \<Rightarrow> bool" where
  "cache_ok its cache \<longleftrightarrow> (\<forall>t k e. CHR ''/'' \<notin> set t \<longrightarrow> map_of cache (cacheKey t k) = Some e \<longrightarrow>
     item_hash (its (t, k)) = Some (ce_specHash e) \<and> item_time (its (t, k)) = ce_updateTime e)"

lemma item_fields [simp]:
  "h \<noteq> [] \<Longrightarrow> item_hash (desire_item env k spec h now) = Some h"
  "item_time (desire_item env k spec h now) = Some now"
  "map_of (desire_item env k spec h now) ''documentID'' = Some (DString k)"
  by (simp_all add: item_hash_def item_time_def desire_item_def)

lemma map_of_filter_keys: "map_of (filter (\<lambda>(k, _). k \<noteq> ck) xs) k = (if k = ck then None else map_of xs k)"
  by (induction xs) auto

lemma map_of_cache_store:
  "map_of (cl_cache (cache_store ck e c)) k = (if k = ck then Some e else map_of (cl_cache c) k)"
  by (auto simp: cache_store_def map_of_filter_keys)

lemma cache_ok_store:
  assumes "cache_ok its (cl_cache c)" "CHR ''/'' \<notin> set t" "\<forall>key. key \<noteq> (t, k) \<longrightarrow> its' key = its key"
    and "item_hash (its' (t, k)) = Some h" "item_time (its' (t, k)) = u"
  shows "cache_ok its' (cl_cache (cache_store (cacheKey t k) \<lparr>ce_specHash = h, ce_updateTime = u\<rparr> c))"
  unfolding cache_ok_def map_of_cache_store
proof (intro allI impI)
  fix t' k' e
  assume t': "CHR ''/'' \<notin> set t'"
    and e: "(if cacheKey t' k' = cacheKey t k then Some \<lparr>ce_specHash = h, ce_updateTime = u\<rparr>
      else map_of (cl_cache c) (cacheKey t' k')) = Some e"
  show "item_hash (its' (t', k')) = Some (ce_specHash e) \<and> item_time (its' (t', k')) = ce_updateTime e"
  proof (cases "cacheKey t' k' = cacheKey t k")
    case True
    with cacheKey_inj [OF t' assms(2) True] e assms(4,5) show ?thesis by auto
  next
    case False
    then have "(t', k') \<noteq> (t, k)" by auto
    with False e t' assms(1,3) show ?thesis by (auto simp: cache_ok_def)
  qed
qed

definition client_ok :: "denv \<Rightarrow> ('d \<Rightarrow> ditems) \<Rightarrow> 'd Client \<Rightarrow> bool" where
  "client_ok env items c \<longleftrightarrow> items_ok env (items (cl_db c)) \<and> cache_ok (items (cl_db c)) (cl_cache c)"

definition injective_hash :: "denv \<Rightarrow> bool" where
  "injective_hash env \<longleftrightarrow> (\<forall>s s' h. de_hash env s = Inr h \<longrightarrow> de_hash env s' = Inr h \<longrightarrow> s = s' \<and> h \<noteq> [])"

lemma items_ok_upd:
  assumes "items_ok env its" "de_hash env spec = Inr h" "h \<noteq> []"
  shows "items_ok env (its((t, k) := desire_item env k spec h now))"
  unfolding items_ok_def
proof (intro allI impI)
  fix t' k' h'
  assume h': "item_hash ((its((t, k) := desire_item env k spec h now)) (t', k')) = Some h'"
  show "\<exists>s n. de_hash env s = Inr h' \<and> (its((t, k) := desire_item env k spec h now)) (t', k') = desire_item env k' s h' n"
  proof (cases "(t', k') = (t, k)")
    case True
    with h' assms(2,3) show ?thesis by auto
  next
    case False
    with h' assms(1) show ?thesis unfolding items_ok_def by (metis fun_upd_other)
  qed
qed

lemma stored_spec:
  assumes "items_ok env its" "injective_hash env" "de_hash env spec = Inr h" "item_hash (its (t, k)) = Some h"
  obtains now where "item_time (its (t, k)) = Some now" "its (t, k) = desire_item env k spec h now"
proof -
  have "\<exists>spec' now. de_hash env spec' = Inr h \<and> its (t, k) = desire_item env k spec' h now"
    using assms(1,4) unfolding items_ok_def by metis
  then obtain spec' now where s: "de_hash env spec' = Inr h" "its (t, k) = desire_item env k spec' h now" by blast
  then have "spec' = spec" using assms(2,3) unfolding injective_hash_def by metis
  with s that [of now] show thesis by simp
qed

lemma put_success:
  assumes "dapi_ok api items" "putDesireWithHash env api t k spec h now d = (None, d')"
  shows "items d' = (items d)((t, k) := desire_item env k spec h now)"
proof -
  have "d_PutItem api t (desire_item env k spec h now) d = (None, d')"
    using assms(2) by (auto simp: putDesireWithHash_def split: option.splits prod.splits)
  then show ?thesis using assms(1) item_fields(3) unfolding dapi_ok_def by metis
qed

lemma get_items: "dapi_ok api items \<Longrightarrow> d_GetItem api c t k d = (r, d') \<Longrightarrow> items d' = items d"
  unfolding dapi_ok_def by metis

text \<open>The three ways through an upsert that succeeds.\<close>

lemma upsert_cases:
  assumes "upsertDesire env api table doc spec c = (Inr res, c')"
  obtains (cached) h e where "de_hash env spec = Inr h" "map_of (cl_cache c) (cacheKey table doc) = Some e" "ce_specHash e = h"
      "res = \<lparr>Changed = False, UpdateTime = ce_updateTime e\<rparr>" "c' = c"
  | (stored) h it d1 where "de_hash env spec = Inr h" "d_GetItem api False table doc (cl_db c) = (Inr it, d1)" "item_hash it = Some h"
      "res = \<lparr>Changed = False, UpdateTime = item_time it\<rparr>"
      "c' = cache_store (cacheKey table doc) \<lparr>ce_specHash = h, ce_updateTime = item_time it\<rparr> (c\<lparr>cl_db := d1\<rparr>)"
  | (written) h it d1 d2 where "de_hash env spec = Inr h" "d_GetItem api False table doc (cl_db c) = (Inr it, d1)" "item_hash it \<noteq> Some h"
      "putDesireWithHash env api table doc spec h (de_now env) d1 = (None, d2)" "res = \<lparr>Changed = True, UpdateTime = Some (de_now env)\<rparr>"
      "c' = cache_store (cacheKey table doc) \<lparr>ce_specHash = h, ce_updateTime = Some (de_now env)\<rparr> (c\<lparr>cl_db := d2\<rparr>)"
proof -
  obtain h where h: "de_hash env spec = Inr h" using assms by (auto simp: upsertDesire_def split: sum.splits)
  show thesis
  proof (cases "\<exists>e. map_of (cl_cache c) (cacheKey table doc) = Some e \<and> ce_specHash e = h")
    case True
    then obtain e where e: "map_of (cl_cache c) (cacheKey table doc) = Some e" "ce_specHash e = h" by blast
    show thesis by (rule cached [OF h e]) (use assms h e in \<open>simp_all add: upsertDesire_def\<close>)
  next
    case miss: False
    obtain r1 d1 where g: "d_GetItem api False table doc (cl_db c) = (r1, d1)" by fastforce
    obtain it where it: "r1 = Inr it"
      using assms h miss g by (auto simp: upsertDesire_def Let_def split: option.splits if_splits sum.splits)
    show thesis
    proof (cases "item_hash it = Some h")
      case True
      show thesis
        by (rule stored [OF h g [unfolded it] True]; use assms h miss g it True in \<open>auto simp: upsertDesire_def Let_def split: option.splits if_splits\<close>)
    next
      case changed: False
      obtain r2 d2 where p: "putDesireWithHash env api table doc spec h (de_now env) d1 = (r2, d2)" by fastforce
      have "r2 = None" "res = \<lparr>Changed = True, UpdateTime = Some (de_now env)\<rparr>"
          "c' = cache_store (cacheKey table doc) \<lparr>ce_specHash = h, ce_updateTime = Some (de_now env)\<rparr> (c\<lparr>cl_db := d2\<rparr>)"
        using assms h miss g it changed p by (auto simp: upsertDesire_def Let_def split: option.splits if_splits)
      then show thesis using p by (intro written [OF h g [unfolded it] changed]) auto
    qed
  qed
qed

text \<open>An upsert that only refreshes the cache with what the table holds.\<close>

lemma refresh_ok:
  assumes "client_ok env items c" "items d1 = items (cl_db c)" "CHR ''/'' \<notin> set table"
    and "item_hash (items (cl_db c) (table, doc)) = Some h" "u = item_time (items (cl_db c) (table, doc))"
  shows "client_ok env items (cache_store (cacheKey table doc) \<lparr>ce_specHash = h, ce_updateTime = u\<rparr> (c\<lparr>cl_db := d1\<rparr>))"
  using assms cache_ok_store [of "items (cl_db c)" "c\<lparr>cl_db := d1\<rparr>" table doc "items (cl_db c)" h]
  by (simp add: client_ok_def cache_store_def)

text \<open>An upsert that puts a new item.\<close>

lemma put_ok:
  assumes "client_ok env items c" "items d2 = (items (cl_db c))((table, doc) := desire_item env doc spec h now)"
    and "CHR ''/'' \<notin> set table" "de_hash env spec = Inr h" "h \<noteq> []"
  shows "client_ok env items (cache_store (cacheKey table doc) \<lparr>ce_specHash = h, ce_updateTime = Some now\<rparr> (c\<lparr>cl_db := d2\<rparr>))"
proof -
  have "cache_ok (items d2) (cl_cache (cache_store (cacheKey table doc) \<lparr>ce_specHash = h, ce_updateTime = Some now\<rparr> (c\<lparr>cl_db := d2\<rparr>)))"
    using cache_ok_store [of "items (cl_db c)" "c\<lparr>cl_db := d2\<rparr>" table doc "items d2"] assms by (simp add: client_ok_def)
  then show ?thesis using items_ok_upd [of env "items (cl_db c)" spec h table doc now] assms by (simp add: client_ok_def cache_store_def)
qed

text \<open>
  C11 (refinement). With fresh reads and hashes that do not collide, an upsert that reports success
  leaves exactly the item of the requested spec under the document, whatever the write cache held,
  and reports the item's own update time; it writes only when the stored spec differs, and touches
  no other document. The cache keeps describing the tables.
\<close>

theorem upsert_records:
  assumes "dapi_ok api items" "fresh_reads api items" "injective_hash env" "client_ok env items c"
    and "CHR ''/'' \<notin> set table" "upsertDesire env api table doc spec c = (Inr res, c')"
  shows "\<exists>h now. de_hash env spec = Inr h \<and> UpdateTime res = Some now
    \<and> items (cl_db c') (table, doc) = desire_item env doc spec h now
    \<and> (if Changed res then now = de_now env \<and> item_hash (items (cl_db c) (table, doc)) \<noteq> Some h
       else items (cl_db c') = items (cl_db c))
    \<and> (\<forall>key. key \<noteq> (table, doc) \<longrightarrow> items (cl_db c') key = items (cl_db c) key)
    \<and> client_ok env items c'"
proof -
  have ok: "items_ok env (items (cl_db c))" "cache_ok (items (cl_db c)) (cl_cache c)" using assms(4) by (simp_all add: client_ok_def)
  note stored_spec = stored_spec [OF ok(1) assms(3)]
  show ?thesis
    using assms(6)
  proof (cases rule: upsert_cases)
    case (cached h e)
    then have "item_hash (items (cl_db c) (table, doc)) = Some h" "item_time (items (cl_db c) (table, doc)) = ce_updateTime e"
      using ok(2) assms(5) by (auto simp: cache_ok_def)
    with stored_spec [OF cached(1)] cached assms(4) show ?thesis by (metis UpsertResult.select_convs)
  next
    case (stored h it d1)
    have same: "items d1 = items (cl_db c)" "it = items (cl_db c) (table, doc)" using get_items [OF assms(1)] stored(2) assms(2) by (auto simp: fresh_reads_def)
    obtain now where now: "item_time it = Some now" "it = desire_item env doc spec h now" using stored_spec [OF stored(1)] stored(3) same(2) by blast
    have "client_ok env items c'" unfolding stored(5) by (rule refresh_ok [OF assms(4) same(1) assms(5)]) (use stored(3) same(2) in auto)
    then show ?thesis using stored same now by (intro exI [of _ h] exI [of _ now]) (auto simp: cache_store_def)
  next
    case (written h it d1 d2)
    have same: "items d1 = items (cl_db c)" "it = items (cl_db c) (table, doc)" using get_items [OF assms(1)] written(2) assms(2) by (auto simp: fresh_reads_def)
    have new: "items d2 = (items (cl_db c))((table, doc) := desire_item env doc spec h (de_now env))"
      using put_success [OF assms(1) written(4)] same(1) by simp
    have "h \<noteq> []" using assms(3) written(1) by (auto simp: injective_hash_def)
    then have "client_ok env items c'" unfolding written(6) by (rule put_ok [OF assms(4) new assms(5) written(1)])
    then show ?thesis using written same new by (intro exI [of _ h] exI [of _ "de_now env"]) (auto simp: cache_store_def)
  qed
qed

text \<open>DynamoDB in memory, with every call successful.\<close>

definition mem_api :: "ditems dynamoAPI" where
  "mem_api =
     \<lparr>d_GetItem = (\<lambda>c t k d. (Inr (d (t, k)), d)),
      d_PutItem = (\<lambda>t it d. case map_of it ''documentID'' of Some (DString k) \<Rightarrow> (None, d((t, k) := it)) | _ \<Rightarrow> (Some ''no key'', d)),
      d_DeleteItem = (\<lambda>t k d. (None, d((t, k) := [])))\<rparr>"

lemma mem_api_ok: "dapi_ok mem_api id" "fresh_reads mem_api id"
  by (auto simp: dapi_ok_def fresh_reads_def mem_api_def)

definition ex_target :: ResourceReference where
  "ex_target = \<lparr>rr_Group = [], rr_Version = ''v1'', rr_Resource = ''configmaps'', rr_Namespace = ''cluster-1'', rr_Name = ''cluster-config''\<rparr>"

definition ex_desire :: ApplyDesireSpec where
  "ex_desire = \<lparr>ads_Type = DeleteDesire, ads_ManagementCluster = ''mc01'', ads_ClusterID = ''1'', ads_TargetItem = ex_target,
     ads_KubeContent = None\<rparr>"

definition ex_denv :: denv where
  "ex_denv = \<lparr>de_hash = (\<lambda>s. if s = ApplySpec ex_desire then Inr ''ab'' else Inl ''unknown''), de_marshal = (\<lambda>_. None),
     de_shard = (\<lambda>_. ''0''), de_now = 100\<rparr>"

definition ex_client :: "ditems Client" where
  "ex_client = \<lparr>cl_db = (\<lambda>_. []), cl_cache = []\<rparr>"

theorem upsert_records_witness:
  "\<exists>c'. UpsertApplyDesire ex_denv mem_api ''mc01-specs'' ''d1'' ex_desire ex_client = (Inr \<lparr>Changed = True, UpdateTime = Some 100\<rparr>, c')
     \<and> cl_db c' (''mc01-specs-applydesires'', ''d1'') = desire_item ex_denv ''d1'' (ApplySpec ex_desire) ''ab'' 100"
proof -
  let ?t = "''mc01-specs-applydesires''" and ?u = "upsertDesire ex_denv mem_api ''mc01-specs-applydesires'' ''d1'' (ApplySpec ex_desire) ex_client"
  have inj: "injective_hash ex_denv" by (simp add: injective_hash_def ex_denv_def)
  have ok: "client_ok ex_denv id ex_client"
    by (simp add: client_ok_def items_ok_def cache_ok_def ex_client_def item_hash_def)
  have "fst ?u = Inr \<lparr>Changed = True, UpdateTime = Some 100\<rparr>" by code_simp
  then obtain c' where c': "?u = (Inr \<lparr>Changed = True, UpdateTime = Some 100\<rparr>, c')" by (metis prod.collapse)
  have "cl_db c' (?t, ''d1'') = desire_item ex_denv ''d1'' (ApplySpec ex_desire) ''ab'' 100"
    using upsert_records [OF mem_api_ok inj ok _ c'] by (auto simp: ex_denv_def)
  with c' show ?thesis by (simp add: UpsertApplyDesire_def TableSuffixApplyDesires_def)
qed

section \<open>Where an upsert misleads\<close>

text \<open>The cache is not invalidated when a put fails: if the failed put landed, an upsert of the
  spec that was cached before reports it as stored, and the table keeps the other one.\<close>

lemma failed_put_is_masked:
  assumes "map_of (cl_cache c) (cacheKey table doc) = Some e" "de_hash env old = Inr (ce_specHash e)"
    and "de_hash env new = Inr h" "h \<noteq> ce_specHash e" "h \<noteq> []"
    and "upsertDesire env api table doc new c = (Inl err, c')" "items (cl_db c') (table, doc) = desire_item env doc new h now"
  shows "upsertDesire env api table doc old c' = (Inr \<lparr>Changed = False, UpdateTime = ce_updateTime e\<rparr>, c')
    \<and> item_hash (items (cl_db c') (table, doc)) \<noteq> Some (ce_specHash e)"
proof -
  have "cl_cache c' = cl_cache c"
    using assms(1-6) by (auto simp: upsertDesire_def Let_def cache_store_def split: sum.splits prod.splits if_splits option.splits)
  with assms show ?thesis by (simp add: upsertDesire_def)
qed

text \<open>The read before the write is eventually consistent: when it still returns an older item whose
  spec is the requested one, the upsert reports it as stored, and caches that.\<close>

lemma stale_read_is_masked:
  assumes "map_of (cl_cache c) (cacheKey table doc) = None" "de_hash env spec = Inr h"
    and "d_GetItem api False table doc (cl_db c) = (Inr old, d)" "item_hash old = Some h" "dapi_ok api items"
  shows "\<exists>c' r. upsertDesire env api table doc spec c = (Inr r, c') \<and> \<not> Changed r
    \<and> items (cl_db c') = items (cl_db c) \<and> upsertDesire env api table doc spec c' = (Inr r, c')"
proof -
  let ?c = "cache_store (cacheKey table doc) \<lparr>ce_specHash = h, ce_updateTime = item_time old\<rparr> (c\<lparr>cl_db := d\<rparr>)"
  have "upsertDesire env api table doc spec c = (Inr \<lparr>Changed = False, UpdateTime = item_time old\<rparr>, ?c)"
    using assms by (simp add: upsertDesire_def)
  moreover have "upsertDesire env api table doc spec ?c = (Inr \<lparr>Changed = False, UpdateTime = item_time old\<rparr>, ?c)"
    using assms(2) by (simp add: upsertDesire_def map_of_cache_store)
  moreover have "items (cl_db ?c) = items (cl_db c)"
    using get_items [OF assms(5,3)] by (simp add: cache_store_def)
  ultimately show ?thesis by (metis UpsertResult.select_convs(1))
qed

text \<open>Update times have a granularity of one second: a success that kube-applier reported for the
  previous spec of a desire confirms a spec written within the same second.\<close>

lemma same_second_confirms:
  assumes "upsertDesire env api table doc spec c = (Inr r, c')" "Changed r"
    and "as_ObservedDesireUpdateTime st = Some (de_now env)" "fnd (as_Conditions st) successful = Some cond" "cd_Status cond = ''True''"
  shows "confirmed fnd successful \<lparr>en_DocID = doc, en_Resource = x, en_Name = y, en_DesireUpdateTime = UpdateTime r\<rparr> (Inr st)"
proof -
  have "UpdateTime r = Some (de_now env)"
    using assms(1,2) by (auto simp: upsertDesire_def Let_def split: sum.splits prod.splits if_splits option.splits)
  with assms(3-5) show ?thesis by (simp add: confirmed_def)
qed

end
