(* ===== verification/CrdTypes.thy ===== *)
theory CrdTypes
  imports Desire
begin

text \<open>
  The custom resources the operator reconciles (\<open>api/v1alpha1\<close>), as specs and statuses of the
  objects of theory \<open>KubeStore\<close>. Fields that no controller reads or writes are kept together in a
  document \<open>..._rest\<close>. An absent and a zero expiration are both \<open>None\<close>.
\<close>

section \<open>Clusters and placements\<close>

record PlacementReference =
  pr_Name :: string
  pr_ManagementCluster :: string

record ClusterSpec =
  cs_ExpirationTimestamp :: "int option"
  cs_AccountID :: string
  cs_CreatorARN :: string
  cs_InternalID :: string
  cs_OidcConfigID :: string
  cs_HostedCluster :: json
  cs_rest :: json

record APIEndpoint =
  ep_Host :: string
  ep_Port :: int

record ClusterStatus =
  ct_Conditions :: "Condition list"
  ct_Phase :: string
  ct_ControlPlaneEndpoint :: APIEndpoint
  ct_Version :: string
  ct_PlacementRef :: "PlacementReference option"
  ct_ObservedGeneration :: int
  ct_rest :: json

definition ClusterPhaseWaitingForPlacement :: string where "ClusterPhaseWaitingForPlacement = ''WaitingForPlacement''"
definition ClusterPhaseProvisioning :: string where "ClusterPhaseProvisioning = ''Provisioning''"
definition ClusterPhaseReady :: string where "ClusterPhaseReady = ''Ready''"
definition ClusterPhaseDeleting :: string where "ClusterPhaseDeleting = ''Deleting''"

type_synonym Cluster = "(ClusterSpec, ClusterStatus) kobj"

record PlacementSpec =
  ps_ClusterName :: string
  ps_ManagementCluster :: string

record PlacementStatus =
  pt_Conditions :: "Condition list"
  pt_Phase :: string
  pt_ObservedGeneration :: int

definition PlacementPhaseBound :: string where "PlacementPhaseBound = ''Bound''"

definition zero_placement_status :: PlacementStatus where
  "zero_placement_status = \<lparr>pt_Conditions = [], pt_Phase = [], pt_ObservedGeneration = 0\<rparr>"

type_synonym Placement = "(PlacementSpec, PlacementStatus) kobj"

type_synonym ManagementCluster = "(json, json) kobj"

section \<open>Node pools\<close>

record NodePoolCrSpec =
  ns_AutoRepair :: "bool option"
  ns_Labels :: "(string \<times> string) list"
  ns_NodePool :: json
  ns_rest :: json

record NodePoolStatus =
  nt_Conditions :: "Condition list"
  nt_Phase :: string
  nt_ObservedGeneration :: int

definition NodePoolPhaseWaitingForCluster :: string where "NodePoolPhaseWaitingForCluster = ''WaitingForCluster''"
definition NodePoolPhaseProvisioning :: string where "NodePoolPhaseProvisioning = ''Provisioning''"
definition NodePoolPhaseReady :: string where "NodePoolPhaseReady = ''Ready''"
definition NodePoolPhaseDeleting :: string where "NodePoolPhaseDeleting = ''Deleting''"

type_synonym NodePool = "(NodePoolCrSpec, NodePoolStatus) kobj"

section \<open>Manifests\<close>

record ResourceTemplate =
  rt_Resource :: string
  rt_Content :: json
  rt_Watch :: bool

record ResourceStatus =
  st_Resource :: string
  st_Name :: string
  st_Namespace :: string
  st_Group :: string
  st_Version :: string
  st_Status :: json

record ManifestSpec =
  ms_ManagementCluster :: string
  ms_Resources :: "ResourceTemplate list"

record ManifestStatus =
  mt_Conditions :: "Condition list"
  mt_Phase :: string
  mt_AppliedResources :: int
  mt_ObservedGeneration :: int
  mt_ResourceStatuses :: "ResourceStatus list"

definition ManifestPhaseSyncing :: string where "ManifestPhaseSyncing = ''Syncing''"
definition ManifestPhaseApplied :: string where "ManifestPhaseApplied = ''Applied''"
definition ManifestPhaseDeleting :: string where "ManifestPhaseDeleting = ''Deleting''"

type_synonym Manifest = "(ManifestSpec, ManifestStatus) kobj"

section \<open>OIDC configurations\<close>

record OidcConfigSpec =
  os_Type :: string
  os_IssuerUrl :: string
  os_SecretArn :: string
  os_InstallerRoleArn :: string
  os_AccountID :: string

record OidcConfigStatus =
  ot_Conditions :: "Condition list"
  ot_Phase :: string
  ot_Thumbprint :: string
  ot_LastUsedTimestamp :: gotime
  ot_ObservedGeneration :: int

definition OidcConfigPhasePending :: string where "OidcConfigPhasePending = ''Pending''"
definition OidcConfigPhaseReady :: string where "OidcConfigPhaseReady = ''Ready''"
definition OidcConfigPhaseError :: string where "OidcConfigPhaseError = ''Error''"
definition OidcConfigTypeManaged :: string where "OidcConfigTypeManaged = ''managed''"
definition OidcConfigTypeUnmanaged :: string where "OidcConfigTypeUnmanaged = ''unmanaged''"

type_synonym OidcConfig = "(OidcConfigSpec, OidcConfigStatus) kobj"

end
