(* ===== verification/Render.thy ===== *)
theory Render
  imports CrdTypes
begin

text \<open>
  The Kubernetes resources of a cluster and of a node pool on the management cluster
  (\<open>hyperfleet-operator/internal/render\<close>). Decoding the pass-through documents into HyperShift's
  own types is an argument; of those types the records keep the fields the code sets, and the
  rest as a document. Constants of the imported packages appear as strings under their Go names.
\<close>

section \<open>types.go\<close>

record RegionalConfig =
  rc_BaseDomain :: string
  rc_AWSRegion :: string

record ObjectMeta =
  om_Name :: string
  om_Namespace :: string
  om_Labels :: "(string \<times> string) list"
  om_Annotations :: "(string \<times> string) list"

record CertificateSpec =
  ce_SecretName :: string
  ce_IssuerName :: string
  ce_IssuerKind :: string
  ce_DNSNames :: "string list"

record ExternalSecretSpec =
  es_RefreshInterval :: string
  es_StoreName :: string
  es_StoreKind :: string
  es_TargetName :: string
  es_CreationPolicy :: string
  es_TemplateType :: string
  es_Data :: "(string \<times> string) list"       \<comment> \<open>secret key, remote key\<close>

text \<open>HyperShift's \<open>HostedClusterSpec\<close> and \<open>NodePoolSpec\<close>, as far as the code touches them.\<close>

type_synonym resource_tag = "string \<times> string"

record AWSPlatform =
  aw_EndpointAccess :: string
  aw_ResourceTags :: "resource_tag list"
  aw_rest :: json

record EtcdSpec =
  et_ManagementType :: string
  et_Storage :: "(string \<times> string \<times> string) option"    \<comment> \<open>type, size, storage class\<close>
  et_rest :: json

record ClusterConfiguration =
  cf_ServingCerts :: "string list"
  cf_rest :: json

record HostedClusterSpec =
  hs_InfraID :: string
  hs_IssuerURL :: string
  hs_DNSBaseDomain :: string
  hs_PullSecret :: string
  hs_SSHKey :: string
  hs_KubeAPIServerDNSName :: string
  hs_Services :: "(string \<times> string option) list"          \<comment> \<open>service and route host name\<close>
  hs_Configuration :: "ClusterConfiguration option"
  hs_Etcd :: EtcdSpec
  hs_NetworkType :: string
  hs_InfrastructureAvailabilityPolicy :: string
  hs_ControllerAvailabilityPolicy :: string
  hs_ClusterNetwork :: "string list"
  hs_ServiceNetwork :: "string list"
  hs_MachineNetwork :: "string list"
  hs_ReleaseImage :: string
  hs_AWS :: "AWSPlatform option"
  hs_ServiceAccountSigningKey :: "string option"
  hs_rest :: json

record AWSNodePool =
  an_InstanceType :: string
  an_RootVolume :: "(int \<times> string) option"
  an_ResourceTags :: "resource_tag list"
  an_rest :: json

record HNodePoolSpec =
  hn_ClusterName :: string
  hn_ReleaseImage :: string
  hn_UpgradeType :: string
  hn_AutoRepair :: bool
  hn_NodeLabels :: "(string \<times> string) list"
  hn_Replicas :: "int option"
  hn_AWS :: "AWSNodePool option"
  hn_rest :: json

datatype Object =
    ONamespace ObjectMeta
  | OConfigMap ObjectMeta "(string \<times> string) list"
  | OExternalSecret ObjectMeta ExternalSecretSpec
  | OCertificate ObjectMeta CertificateSpec
  | OHostedCluster ObjectMeta HostedClusterSpec
  | OSecret ObjectMeta string "(string \<times> string) list"
  | ONodePool ObjectMeta HNodePoolSpec

record RResource =
  re_Group :: string
  re_Version :: string
  re_Resource :: string
  re_Name :: string
  re_Namespace :: string
  re_Object :: Object

definition hash4 :: "string \<Rightarrow> string" where
  "hash4 clusterID = (if length clusterID < 4 then clusterID else take 4 clusterID)"

definition ClusterIDFromNamespace :: "string \<Rightarrow> string" where
  "ClusterIDFromNamespace ns =
     (let p = ''cluster-''
      in if length p < length ns \<and> take (length p) ns = p then drop (length p) ns else ns)"

section \<open>cluster.go\<close>

definition cluster_meta :: "string \<Rightarrow> string \<Rightarrow> string \<Rightarrow> (string \<times> string) list \<Rightarrow> ObjectMeta" where
  "cluster_meta name ns clusterID labels =
     \<lparr>om_Name = name, om_Namespace = ns, om_Labels = (''hyperfleet.io/cluster-id'', clusterID) # labels, om_Annotations = []\<rparr>"

text \<open>\<open>oidc.SecretName\<close>, through \<open>oidcSigningKeySecretStorePath\<close>.\<close>

definition SecretName :: "string \<Rightarrow> string \<Rightarrow> string" where
  "SecretName accountID configID = ''/hyperfleet/oidc/'' @ accountID @ ''/'' @ configID @ ''/signing-key''"

definition oidcSigningKeyName :: string where "oidcSigningKeyName = ''oidc-signing-key''"

definition oidcSigningKeySecret :: "string \<Rightarrow> string \<Rightarrow> string \<Rightarrow> string \<Rightarrow> RResource" where
  "oidcSigningKeySecret accountID oidcConfigID clusterID ns =
     \<lparr>re_Group = ''external-secrets.io'', re_Version = ''v1'', re_Resource = ''externalsecrets'',
      re_Name = oidcSigningKeyName, re_Namespace = ns,
      re_Object = OExternalSecret
        (cluster_meta oidcSigningKeyName ns clusterID [(''hyperfleet.io/resource-type'', ''oidc-signing-key'')])
        \<lparr>es_RefreshInterval = ''1h'', es_StoreName = ''rc-secrets-manager'', es_StoreKind = ''ClusterSecretStore'',
         es_TargetName = oidcSigningKeyName, es_CreationPolicy = ''Owner'', es_TemplateType = [],
         es_Data = [(''key'', SecretName accountID oidcConfigID)]\<rparr>\<rparr>"

definition namespace_resource :: "string \<Rightarrow> string \<Rightarrow> RResource" where
  "namespace_resource clusterID ns =
     \<lparr>re_Group = [], re_Version = ''v1'', re_Resource = ''namespaces'', re_Name = ns, re_Namespace = [],
      re_Object = ONamespace (cluster_meta ns [] clusterID
        [(''hyperfleet.io/managed-by'', ''hyperfleet-operator''), (''hyperfleet.io/resource-type'', ''namespace'')])\<rparr>"

definition clusterConfig :: "string \<Rightarrow> string \<Rightarrow> string \<Rightarrow> RResource" where
  "clusterConfig clusterID clusterName ns =
     \<lparr>re_Group = [], re_Version = ''v1'', re_Resource = ''configmaps'', re_Name = ''cluster-config'', re_Namespace = ns,
      re_Object = OConfigMap (cluster_meta ''cluster-config'' ns clusterID [])
        [(''cluster_id'', clusterID), (''cluster_name'', clusterName)]\<rparr>"

abbreviation newline :: string where "newline \<equiv> [CHR 0x0A]"

definition awsIAMAuthConfig :: "string \<Rightarrow> string \<Rightarrow> string \<Rightarrow> string \<Rightarrow> RResource" where
  "awsIAMAuthConfig clusterID clusterName ns creatorARN =
     (let mapUsers = (if creatorARN \<noteq> [] then
            ''      mapUsers:'' @ newline @ ''        - userARN: '' @ creatorARN @ newline
            @ ''          username: cluster-creator'' @ newline @ ''          groups:'' @ newline
            @ ''            - system:masters'' @ newline
          else ''      mapUsers: []'' @ newline);
          configYAML = ''clusterID: '' @ clusterID @ newline @ ''server:'' @ newline @ mapUsers
      in \<lparr>re_Group = [], re_Version = ''v1'', re_Resource = ''configmaps'', re_Name = ''aws-iam-auth-config'', re_Namespace = ns,
          re_Object = OConfigMap
            ((cluster_meta ''aws-iam-auth-config'' ns clusterID [])
               \<lparr>om_Annotations := [(''hypershift.openshift.io/cluster'', ns @ ''/'' @ clusterName)]\<rparr>)
            [(''config.yaml'', configYAML)]\<rparr>)"

definition pullSecret :: "string \<Rightarrow> string \<Rightarrow> RResource" where
  "pullSecret clusterID ns =
     \<lparr>re_Group = ''external-secrets.io'', re_Version = ''v1'', re_Resource = ''externalsecrets'',
      re_Name = ''pull-secret'', re_Namespace = ns,
      re_Object = OExternalSecret
        (cluster_meta ''pull-secret'' ns clusterID [(''hyperfleet.io/resource-type'', ''pull-secret'')])
        \<lparr>es_RefreshInterval = ''1h'', es_StoreName = ''aws-parameter-store'', es_StoreKind = ''ClusterSecretStore'',
         es_TargetName = ''pull-secret'', es_CreationPolicy = ''Orphan'', es_TemplateType = ''kubernetes.io/dockerconfigjson'',
         es_Data = [(''.dockerconfigjson'', ''/infra/pull-secret'')]\<rparr>\<rparr>"

definition apiServingCert :: "string \<Rightarrow> string \<Rightarrow> string \<Rightarrow> string \<Rightarrow> string \<Rightarrow> RResource" where
  "apiServingCert clusterID clusterName h4 baseDomain ns =
     \<lparr>re_Group = ''cert-manager.io'', re_Version = ''v1'', re_Resource = ''certificates'',
      re_Name = ''api-serving-cert'', re_Namespace = ns,
      re_Object = OCertificate (cluster_meta ''api-serving-cert'' ns clusterID [])
        \<lparr>ce_SecretName = ''api-serving-cert'', ce_IssuerName = ''letsencrypt-dns01'', ce_IssuerKind = ''ClusterIssuer'',
         ce_DNSNames = [''*.'' @ clusterName @ ''.'' @ h4 @ ''.'' @ baseDomain]\<rparr>\<rparr>"

definition sshKey :: "string \<Rightarrow> string \<Rightarrow> RResource" where
  "sshKey clusterID ns =
     \<lparr>re_Group = [], re_Version = ''v1'', re_Resource = ''secrets'', re_Name = ''ssh-key'', re_Namespace = ns,
      re_Object = OSecret (cluster_meta ''ssh-key'' ns clusterID []) ''SecretTypeOpaque'' [(''id_rsa.pub'', [])]\<rparr>"

text \<open>\<open>path.Base\<close> of the standard library.\<close>

definition path_Base :: "string \<Rightarrow> string" where
  "path_Base p =
     (if p = [] then ''.''
      else let q = rev (dropWhile ((=) CHR ''/'') (rev p));
               s = rev (takeWhile (\<lambda>c. c \<noteq> CHR ''/'') (rev q))
           in if s = [] then ''/'' else s)"

definition extractUUIDFromIssuerURL :: "string \<Rightarrow> string" where
  "extractUUIDFromIssuerURL url =
     (if url = [] then []
      else let lastSegment = path_Base url
           in if 4 \<le> count_list lastSegment (CHR ''-'') \<and> 36 \<le> length lastSegment then lastSegment else [])"

definition servicePublishingStrategies :: "string \<Rightarrow> string \<Rightarrow> string \<Rightarrow> (string \<times> string option) list" where
  "servicePublishingStrategies clusterName h4 baseDomain =
     [(''APIServer'', Some (''api.'' @ clusterName @ ''.'' @ h4 @ ''.'' @ baseDomain)),
      (''OAuthServer'', Some (''oauth.'' @ clusterName @ ''.'' @ h4 @ ''.'' @ baseDomain)),
      (''Konnectivity'', None), (''Ignition'', None)]"

definition apiServerConfiguration :: ClusterConfiguration where
  "apiServerConfiguration = \<lparr>cf_ServingCerts = [''api-serving-cert''], cf_rest = empty_obj\<rparr>"

definition defaultEtcdSpec :: EtcdSpec where
  "defaultEtcdSpec = \<lparr>et_ManagementType = ''Managed'', et_Storage = Some (''PersistentVolumeEtcdStorage'', ''32Gi'', ''gp3''), et_rest = empty_obj\<rparr>"

definition appendSystemTags :: "resource_tag list \<Rightarrow> string \<Rightarrow> resource_tag list" where
  "appendSystemTags existing clusterID =
     (''red-hat-managed'', ''true'')
     # (if clusterID \<noteq> [] then [(''kubernetes.io/cluster/'' @ clusterID, ''owned'')] else []) @ existing"

text \<open>The overrides and defaults that \<open>hostedCluster\<close> applies to the decoded spec.\<close>

definition hosted_cluster_spec :: "string \<Rightarrow> string \<Rightarrow> bool \<Rightarrow> string \<Rightarrow> string \<Rightarrow> HostedClusterSpec \<Rightarrow> HostedClusterSpec" where
  "hosted_cluster_spec clusterID clusterName external h4 baseDomain s =
     s\<lparr>hs_InfraID := (let u = extractUUIDFromIssuerURL (hs_IssuerURL s) in if u \<noteq> [] then u else clusterID),
       hs_DNSBaseDomain := h4 @ ''.'' @ baseDomain,
       hs_PullSecret := ''pull-secret'', hs_SSHKey := ''ssh-key'',
       hs_KubeAPIServerDNSName := ''api.'' @ clusterName @ ''.'' @ h4 @ ''.'' @ baseDomain,
       hs_Services := servicePublishingStrategies clusterName h4 baseDomain,
       hs_Configuration := Some (case hs_Configuration s of
           None \<Rightarrow> apiServerConfiguration
         | Some cf \<Rightarrow> cf\<lparr>cf_ServingCerts := cf_ServingCerts apiServerConfiguration\<rparr>),
       hs_Etcd := (if et_ManagementType (hs_Etcd s) = [] then defaultEtcdSpec else hs_Etcd s),
       hs_NetworkType := (if hs_NetworkType s = [] then ''OVNKubernetes'' else hs_NetworkType s),
       hs_InfrastructureAvailabilityPolicy :=
         (if hs_InfrastructureAvailabilityPolicy s = [] then ''HighlyAvailable'' else hs_InfrastructureAvailabilityPolicy s),
       hs_ControllerAvailabilityPolicy :=
         (if hs_ControllerAvailabilityPolicy s = [] then ''HighlyAvailable'' else hs_ControllerAvailabilityPolicy s),
       hs_ClusterNetwork := (if hs_ClusterNetwork s = [] then [''10.132.0.0/14''] else hs_ClusterNetwork s),
       hs_ServiceNetwork := (if hs_ServiceNetwork s = [] then [''172.31.0.0/16''] else hs_ServiceNetwork s),
       hs_MachineNetwork := (if hs_MachineNetwork s = [] then [''10.0.0.0/16''] else hs_MachineNetwork s),
       hs_ReleaseImage := ''quay.io/openshift-release-dev/ocp-release:5.0.0-ec.6-multi'',
       hs_AWS := map_option (\<lambda>a. a\<lparr>aw_EndpointAccess := ''PublicAndPrivate'',
                                   aw_ResourceTags := appendSystemTags (aw_ResourceTags a) clusterID\<rparr>) (hs_AWS s),
       hs_ServiceAccountSigningKey := (if external then Some oidcSigningKeyName else None)\<rparr>"

definition hostedCluster ::
  "(json \<Rightarrow> string + HostedClusterSpec) \<Rightarrow> Cluster \<Rightarrow> bool \<Rightarrow> string \<Rightarrow> string \<Rightarrow> string + RResource"
where
  "hostedCluster toHostedClusterSpec cluster external h4 zoneDomain =
     (let clusterID = ClusterIDFromNamespace (km_Namespace cluster); clusterName = km_Name cluster; ns = km_Namespace cluster
      in bindR (map_sum (\<lambda>e. ''converting HostedClusterSpec: '' @ e) id (toHostedClusterSpec (cs_HostedCluster (k_Spec cluster)))) (\<lambda>s.
           Inr \<lparr>re_Group = ''hypershift.openshift.io'', re_Version = ''v1beta1'', re_Resource = ''hostedclusters'',
                re_Name = clusterName, re_Namespace = ns,
                re_Object = OHostedCluster
                  ((cluster_meta clusterName ns clusterID [])\<lparr>om_Annotations :=
                     [(''PodSecurityAdmissionLabelOverrideAnnotation'', ''privileged''),
                      (''ControlPlaneOperatorImageAnnotation'', ''quay.io/cbusse_openshift/control-plane-operator:4.23-iam-auth''),
                      (''hypershift.openshift.io/aws-iam-authenticator'', ''true'')]\<rparr>)
                  (hosted_cluster_spec clusterID clusterName external h4 zoneDomain s)\<rparr>))"

definition ClusterResources ::
  "(json \<Rightarrow> string + HostedClusterSpec) \<Rightarrow> Cluster \<Rightarrow> bool \<Rightarrow> RegionalConfig \<Rightarrow> string + RResource list"
where
  "ClusterResources toHostedClusterSpec cluster external rcfg =
     (let ns = km_Namespace cluster; clusterID = ClusterIDFromNamespace ns; clusterName = km_Name cluster;
          h4 = hash4 clusterID; zoneDomain = ''0.'' @ rc_BaseDomain rcfg
      in bindR (hostedCluster toHostedClusterSpec cluster external h4 zoneDomain) (\<lambda>hc.
           Inr ([namespace_resource clusterID ns, clusterConfig clusterID clusterName ns,
                 awsIAMAuthConfig clusterID clusterName ns (cs_CreatorARN (k_Spec cluster)), pullSecret clusterID ns,
                 apiServingCert clusterID clusterName h4 zoneDomain ns, hc, sshKey clusterID ns]
                @ (if external
                   then [oidcSigningKeySecret (cs_AccountID (k_Spec cluster)) (cs_OidcConfigID (k_Spec cluster)) clusterID ns]
                   else []))))"

section \<open>nodepool.go\<close>

definition node_pool_aws :: "AWSNodePool \<Rightarrow> AWSNodePool" where
  "node_pool_aws a =
     a\<lparr>an_InstanceType := (if an_InstanceType a = [] then ''t3a.xlarge'' else an_InstanceType a),
       an_RootVolume := Some (case an_RootVolume a of
           None \<Rightarrow> (120, ''gp3'')
         | Some (sz, ty) \<Rightarrow> (if sz = 0 then 120 else sz, if ty = [] then ''gp3'' else ty)),
       an_ResourceTags := appendSystemTags (an_ResourceTags a) []\<rparr>"

definition NodePoolResource :: "(json \<Rightarrow> string + HNodePoolSpec) \<Rightarrow> NodePool \<Rightarrow> Cluster \<Rightarrow> string + RResource" where
  "NodePoolResource toNodePoolSpec nodePool cluster =
     (let clusterID = ClusterIDFromNamespace (km_Namespace cluster); clusterName = km_Name cluster; ns = km_Namespace cluster;
          npName = clusterName @ ''-'' @ km_Name nodePool
      in bindR (map_sum (\<lambda>e. ''converting NodePoolSpec: '' @ e) id (toNodePoolSpec (ns_NodePool (k_Spec nodePool)))) (\<lambda>s.
           Inr \<lparr>re_Group = ''hypershift.openshift.io'', re_Version = ''v1beta1'', re_Resource = ''nodepools'',
                re_Name = npName, re_Namespace = ns,
                re_Object = ONodePool (cluster_meta npName ns clusterID [])
                  (s\<lparr>hn_ClusterName := clusterName,
                     hn_ReleaseImage := ''quay.io/openshift-release-dev/ocp-release:5.0.0-ec.2-multi'',
                     hn_UpgradeType := (if hn_UpgradeType s = [] then ''UpgradeTypeReplace'' else hn_UpgradeType s),
                     hn_AutoRepair := (case ns_AutoRepair (k_Spec nodePool) of Some b \<Rightarrow> b | None \<Rightarrow> True),
                     hn_NodeLabels := ns_Labels (k_Spec nodePool),
                     hn_Replicas := Some (case hn_Replicas s of None \<Rightarrow> 2 | Some n \<Rightarrow> n),
                     hn_AWS := map_option node_pool_aws (hn_AWS s)\<rparr>)\<rparr>))"

section \<open>Identities and host names\<close>

definition identity :: "RResource \<Rightarrow> string \<times> string \<times> string \<times> string \<times> string" where
  "identity r = (re_Group r, re_Version r, re_Resource r, re_Namespace r, re_Name r)"

lemmas render_defs = namespace_resource_def clusterConfig_def awsIAMAuthConfig_def pullSecret_def apiServingCert_def sshKey_def
  oidcSigningKeySecret_def oidcSigningKeyName_def

lemma ClusterResources_Inr:
  assumes "ClusterResources conv cluster ext rcfg = Inr rs"
  defines "ns \<equiv> km_Namespace cluster"
  defines "cid \<equiv> ClusterIDFromNamespace ns" and "zone \<equiv> ''0.'' @ rc_BaseDomain rcfg"
  obtains s hc meta where "conv (cs_HostedCluster (k_Spec cluster)) = Inr s"
    "rs = [namespace_resource cid ns, clusterConfig cid (km_Name cluster) ns,
        awsIAMAuthConfig cid (km_Name cluster) ns (cs_CreatorARN (k_Spec cluster)), pullSecret cid ns,
        apiServingCert cid (km_Name cluster) (hash4 cid) zone ns, hc, sshKey cid ns]
        @ (if ext then [oidcSigningKeySecret (cs_AccountID (k_Spec cluster)) (cs_OidcConfigID (k_Spec cluster)) cid ns] else [])"
    "identity hc = (''hypershift.openshift.io'', ''v1beta1'', ''hostedclusters'', ns, km_Name cluster)"
    "re_Object hc = OHostedCluster meta (hosted_cluster_spec cid (km_Name cluster) ext (hash4 cid) zone s)"
proof -
  obtain s where s: "conv (cs_HostedCluster (k_Spec cluster)) = Inr s"
    using assms(1) by (cases "conv (cs_HostedCluster (k_Spec cluster))") (auto simp: ClusterResources_def hostedCluster_def Let_def)
  obtain hc where hc: "hostedCluster conv cluster ext (hash4 cid) zone = Inr hc"
    by (simp add: hostedCluster_def s Let_def)
  then obtain meta where "identity hc = (''hypershift.openshift.io'', ''v1beta1'', ''hostedclusters'', ns, km_Name cluster)"
    "re_Object hc = OHostedCluster meta (hosted_cluster_spec cid (km_Name cluster) ext (hash4 cid) zone s)"
    by (auto simp: hostedCluster_def s Let_def identity_def ns_def cid_def)
  moreover have "rs = [namespace_resource cid ns, clusterConfig cid (km_Name cluster) ns,
        awsIAMAuthConfig cid (km_Name cluster) ns (cs_CreatorARN (k_Spec cluster)), pullSecret cid ns,
        apiServingCert cid (km_Name cluster) (hash4 cid) zone ns, hc, sshKey cid ns]
        @ (if ext then [oidcSigningKeySecret (cs_AccountID (k_Spec cluster)) (cs_OidcConfigID (k_Spec cluster)) cid ns] else [])"
    using assms(1) hc unfolding ClusterResources_def ns_def cid_def zone_def by (simp add: Let_def)
  ultimately show thesis using s by (intro that)
qed

text \<open>The resources of one cluster have pairwise different identities.\<close>

lemma cluster_identities:
  assumes "ClusterResources conv cluster ext rcfg = Inr rs"
  shows "distinct (map identity rs)"
  using assms by (elim ClusterResources_Inr) (auto simp: identity_def render_defs Let_def)

text \<open>A host name that a wildcard certificate name covers: one label in place of the asterisk.\<close>

definition covers :: "string \<Rightarrow> string \<Rightarrow> bool" where
  "covers pattern host =
     (case pattern of
        c # d # suf \<Rightarrow> c = CHR ''*'' \<and> d = CHR ''.'' \<and>
          (let l = takeWhile (\<lambda>x. x \<noteq> CHR ''.'') host in l \<noteq> [] \<and> drop (length l) host = CHR ''.'' # suf)
      | _ \<Rightarrow> False)"


definition ex_hosted :: HostedClusterSpec where
  "ex_hosted = \<lparr>hs_InfraID = [], hs_IssuerURL = [], hs_DNSBaseDomain = [], hs_PullSecret = [], hs_SSHKey = [],
     hs_KubeAPIServerDNSName = [], hs_Services = [], hs_Configuration = None,
     hs_Etcd = \<lparr>et_ManagementType = [], et_Storage = None, et_rest = empty_obj\<rparr>, hs_NetworkType = [],
     hs_InfrastructureAvailabilityPolicy = [], hs_ControllerAvailabilityPolicy = [], hs_ClusterNetwork = [],
     hs_ServiceNetwork = [], hs_MachineNetwork = [], hs_ReleaseImage = [], hs_AWS = None,
     hs_ServiceAccountSigningKey = None, hs_rest = empty_obj\<rparr>"

definition ex_cluster :: Cluster where
  "ex_cluster = \<lparr>km_Name = ''prod'', km_Namespace = ''cluster-ab12'', km_UID = ''u'', km_RV = 1, km_Generation = 1,
     km_Labels = [(''hyperfleet.io/account-id'', ''123'')], km_Annotations = [], km_OwnerReferences = [],
     km_Finalizers = [''hyperfleet.io/cluster''], km_CreationTimestamp = 1, km_Deletion = None,
     k_Spec = \<lparr>cs_ExpirationTimestamp = None, cs_AccountID = ''123'', cs_CreatorARN = ''arn:aws:iam::1:user/u'',
       cs_InternalID = ''ab12'', cs_OidcConfigID = [], cs_HostedCluster = empty_obj, cs_rest = empty_obj\<rparr>,
     k_Status = \<lparr>ct_Conditions = [], ct_Phase = [], ct_ControlPlaneEndpoint = \<lparr>ep_Host = [], ep_Port = 0\<rparr>, ct_Version = [],
       ct_PlacementRef = None, ct_ObservedGeneration = 0, ct_rest = empty_obj\<rparr>\<rparr>"


end
