(* ===== verification/CallLog.thy ===== *)
theory CallLog
  imports KubeStore "HOL-Library.State_Monad"
begin

text \<open>
  Programs that call clients. The state of such a program is the world \<open>'w\<close> behind the clients and
  the log of every call with its answer, as entries of a type \<open>'e\<close> that the component chooses; a
  component may extend the state. Nothing is assumed of the answers, so that a statement about the
  log holds for every fault and every interleaving with other writers. The calculus below derives
  such statements: \<open>adds\<close> bounds what is appended, \<open>hoare\<close> is a triple over the log, \<open>justified\<close> says
  that every entry has its reason in the log.
\<close>

section \<open>Clients and calls\<close>

text \<open>The client of one kind of objects, \<open>client.Client\<close> of controller-runtime.\<close>

record ('w, 's, 't) kind_api =
  ka_Get :: "nskey \<Rightarrow> 'w \<Rightarrow> (kerr + ('s, 't) kobj) \<times> 'w"
  ka_List :: "string option \<Rightarrow> (string \<times> string) list \<Rightarrow> 'w \<Rightarrow> (kerr + ('s, 't) kobj list) \<times> 'w"
  ka_Create :: "('s, 't) kobj \<Rightarrow> 'w \<Rightarrow> (kerr + ('s, 't) kobj) \<times> 'w"
  ka_Update :: "('s, 't) kobj \<Rightarrow> 'w \<Rightarrow> (kerr + ('s, 't) kobj) \<times> 'w"
  ka_StatusUpdate :: "('s, 't) kobj \<Rightarrow> 'w \<Rightarrow> (kerr + ('s, 't) kobj) \<times> 'w"
  ka_Delete :: "('s, 't) kobj \<Rightarrow> 'w \<Rightarrow> kerr option \<times> 'w"

datatype ('s, 't) kcall =
    CGet nskey "kerr + ('s, 't) kobj"
  | CList "string option" "(string \<times> string) list" "kerr + ('s, 't) kobj list"
  | CCreate "('s, 't) kobj" "kerr + ('s, 't) kobj"
  | CUpdate "('s, 't) kobj" "kerr + ('s, 't) kobj"
  | CStatusUpdate "('s, 't) kobj" "kerr + ('s, 't) kobj"
  | CDelete "('s, 't) kobj" "kerr option"

record ('w, 'e) callstate =
  op_world :: 'w
  op_log :: "'e list"

type_synonym ('w, 'e, 'x, 'a) cprog = "(('w, 'e, 'x) callstate_scheme, 'a) state"

definition call :: "('w \<Rightarrow> 'a \<times> 'w) \<Rightarrow> ('a \<Rightarrow> 'e) \<Rightarrow> ('w, 'e, 'x, 'a) cprog" where
  "call f entry = State (\<lambda>s. let (r, w) = f (op_world s) in (r, s\<lparr>op_world := w, op_log := op_log s @ [entry r]\<rparr>))"

text \<open>Access to the objects of one kind: its client and how its calls are logged.\<close>

type_synonym ('w, 's, 't, 'e) kaccess = "('w, 's, 't) kind_api \<times> (('s, 't) kcall \<Rightarrow> 'e)"

definition kGet :: "('w, 's, 't, 'e) kaccess \<Rightarrow> nskey \<Rightarrow> ('w, 'e, 'x, kerr + ('s, 't) kobj) cprog" where
  "kGet a k = call (ka_Get (fst a) k) (\<lambda>r. snd a (CGet k r))"

definition kList :: "('w, 's, 't, 'e) kaccess \<Rightarrow> string option \<Rightarrow> (string \<times> string) list \<Rightarrow> ('w, 'e, 'x, kerr + ('s, 't) kobj list) cprog" where
  "kList a ns labels = call (ka_List (fst a) ns labels) (\<lambda>r. snd a (CList ns labels r))"

definition kCreate :: "('w, 's, 't, 'e) kaccess \<Rightarrow> ('s, 't) kobj \<Rightarrow> ('w, 'e, 'x, kerr + ('s, 't) kobj) cprog" where
  "kCreate a x = call (ka_Create (fst a) x) (\<lambda>r. snd a (CCreate x r))"

definition kUpdate :: "('w, 's, 't, 'e) kaccess \<Rightarrow> ('s, 't) kobj \<Rightarrow> ('w, 'e, 'x, kerr + ('s, 't) kobj) cprog" where
  "kUpdate a x = call (ka_Update (fst a) x) (\<lambda>r. snd a (CUpdate x r))"

definition kStatusUpdate :: "('w, 's, 't, 'e) kaccess \<Rightarrow> ('s, 't) kobj \<Rightarrow> ('w, 'e, 'x, kerr + ('s, 't) kobj) cprog" where
  "kStatusUpdate a x = call (ka_StatusUpdate (fst a) x) (\<lambda>r. snd a (CStatusUpdate x r))"

definition kDelete :: "('w, 's, 't, 'e) kaccess \<Rightarrow> ('s, 't) kobj \<Rightarrow> ('w, 'e, 'x, kerr option) cprog" where
  "kDelete a x = call (ka_Delete (fst a) x) (\<lambda>r. snd a (CDelete x r))"

text \<open>\<open>retry.RetryOnConflict\<close> calls its function again as long as it reports a conflict, a fixed number
  of times at most, and returns the error of the last call.\<close>

fun attempts :: "nat \<Rightarrow> ('s, kerr option) state \<Rightarrow> ('s, kerr option) state" where
  "attempts 0 m = m"
| "attempts (Suc n) m = do { r \<leftarrow> m; if r = Some KConflict then attempts n m else State_Monad.return r }"

section \<open>Reasoning about the log\<close>

lemma map_sum_eq_Inr: "map_sum id f r = Inr y \<longleftrightarrow> (\<exists>x. r = Inr x \<and> y = f x)"
  by (cases r) auto

text \<open>\<open>adds P m\<close>: whatever \<open>m\<close> does, it only appends entries with property \<open>P\<close> to the log.\<close>

definition adds :: "('e \<Rightarrow> bool) \<Rightarrow> ('w, 'e, 'x, 'a) cprog \<Rightarrow> bool" where
  "adds P m \<longleftrightarrow> (\<forall>s. \<exists>es. op_log (snd (run_state m s)) = op_log s @ es \<and> list_all P es)"

named_theorems adds_rules

lemma adds_return [adds_rules]: "adds P (State_Monad.return x)"
  by (simp add: adds_def)

lemma adds_bind [adds_rules]:
  assumes "adds P m" "\<And>x. adds P (f x)"
  shows "adds P (State_Monad.bind m f)"
  unfolding adds_def
proof (intro allI)
  fix s
  obtain x t where m: "run_state m s = (x, t)" by fastforce
  obtain es where es: "op_log t = op_log s @ es" "list_all P es" using assms(1) m unfolding adds_def by (metis snd_conv)
  obtain es' where es': "op_log (snd (run_state (f x) t)) = op_log t @ es'" "list_all P es'"
    using assms(2) [of x] unfolding adds_def by blast
  show "\<exists>es. op_log (snd (run_state (State_Monad.bind m f) s)) = op_log s @ es \<and> list_all P es"
    using m es es' by (intro exI [of _ "es @ es'"]) simp
qed

lemma adds_call [adds_rules]: "(\<And>r. P (entry r)) \<Longrightarrow> adds P (call f entry)"
  by (simp add: adds_def call_def split_beta Let_def)

lemma adds_if [adds_rules]: "adds P m \<Longrightarrow> adds P m' \<Longrightarrow> adds P (if b then m else m')"
  by simp

lemma adds_sum [adds_rules]: "(\<And>e. adds P (f e)) \<Longrightarrow> (\<And>x. adds P (g x)) \<Longrightarrow> adds P (case r of Inl e \<Rightarrow> f e | Inr x \<Rightarrow> g x)"
  by (cases r) simp_all

lemma adds_option [adds_rules]: "adds P m \<Longrightarrow> (\<And>x. adds P (g x)) \<Longrightarrow> adds P (case r of None \<Rightarrow> m | Some x \<Rightarrow> g x)"
  by (cases r) simp_all

lemma adds_traverse [adds_rules]: "(\<And>x. adds P (f x)) \<Longrightarrow> adds P (State_Monad.traverse_list f xs)"
  by (induction xs) (auto intro!: adds_rules)

lemma adds_attempts: "adds P m \<Longrightarrow> adds P (attempts n m)"
  by (induction n) (auto intro!: adds_rules)

lemma adds_mono: "adds P m \<Longrightarrow> (\<And>e. P e \<Longrightarrow> Q e) \<Longrightarrow> adds Q m"
  unfolding adds_def list_all_iff by metis

lemma adds_kcalls [adds_rules]:
  "(\<And>r. P (snd a (CGet k r))) \<Longrightarrow> adds P (kGet a k)"
  "(\<And>r. P (snd a (CList ns ls r))) \<Longrightarrow> adds P (kList a ns ls)"
  "(\<And>r. P (snd a (CCreate x r))) \<Longrightarrow> adds P (kCreate a x)"
  "(\<And>r. P (snd a (CUpdate x r))) \<Longrightarrow> adds P (kUpdate a x)"
  "(\<And>r. P (snd a (CStatusUpdate x r))) \<Longrightarrow> adds P (kStatusUpdate a x)"
  by (simp_all add: kGet_def kList_def kCreate_def kUpdate_def kStatusUpdate_def adds_call)

lemma adds_kDelete [adds_rules]: "(\<And>r. P (snd a (CDelete x r))) \<Longrightarrow> adds P (kDelete a x)"
  by (simp add: kDelete_def adds_call)

text \<open>Triples over the log.\<close>

definition hoare :: "('e list \<Rightarrow> bool) \<Rightarrow> ('w, 'e, 'x, 'a) cprog \<Rightarrow> ('a \<Rightarrow> 'e list \<Rightarrow> bool) \<Rightarrow> bool" where
  "hoare P m Q \<longleftrightarrow> (\<forall>s. P (op_log s) \<longrightarrow> (case run_state m s of (x, s') \<Rightarrow> Q x (op_log s')))"

lemma hoareD: "hoare P m Q \<Longrightarrow> P (op_log s) \<Longrightarrow> run_state m s = (x, s') \<Longrightarrow> Q x (op_log s')"
  by (fastforce simp: hoare_def)

lemma hoare_weaken:
  "hoare P' m Q' \<Longrightarrow> (\<And>l. P l \<Longrightarrow> P' l) \<Longrightarrow> (\<And>x l. Q' x l \<Longrightarrow> Q x l) \<Longrightarrow> hoare P m Q"
  unfolding hoare_def by (metis (no_types, lifting) case_prod_conv surj_pair)

lemma hoare_pre: "hoare P' m Q \<Longrightarrow> (\<And>l. P l \<Longrightarrow> P' l) \<Longrightarrow> hoare P m Q"
  by (auto intro: hoare_weaken)

lemma hoare_return: "(\<And>l. P l \<Longrightarrow> Q x l) \<Longrightarrow> hoare P (State_Monad.return x) Q"
  by (simp add: hoare_def)

lemma hoare_bind:
  fixes m :: "('w, 'e, 'x, 'a) cprog"
  assumes "hoare P m R" "\<And>x. hoare (R x) (f x) Q"
  shows "hoare P (State_Monad.bind m f) Q"
  unfolding hoare_def
proof (intro allI impI)
  fix s :: "('w, 'e, 'x) callstate_scheme"
  assume P: "P (op_log s)"
  obtain x t where m: "run_state m s = (x, t)" by fastforce
  obtain y u where f: "run_state (f x) t = (y, u)" by fastforce
  have "Q y (op_log u)" using hoareD [OF assms(2) hoareD [OF assms(1) P m] f] .
  with m f show "case run_state (State_Monad.bind m f) s of (x, s') \<Rightarrow> Q x (op_log s')" by simp
qed

lemma hoare_if: "(b \<Longrightarrow> hoare P m Q) \<Longrightarrow> (\<not> b \<Longrightarrow> hoare P m' Q) \<Longrightarrow> hoare P (if b then m else m') Q"
  by simp

lemma hoare_sum:
  "(\<And>e. r = Inl e \<Longrightarrow> hoare P (f e) Q) \<Longrightarrow> (\<And>x. r = Inr x \<Longrightarrow> hoare P (g x) Q) \<Longrightarrow>
   hoare P (case r of Inl e \<Rightarrow> f e | Inr x \<Rightarrow> g x) Q"
  by (cases r) auto

lemma hoare_option:
  "(r = None \<Longrightarrow> hoare P m Q) \<Longrightarrow> (\<And>x. r = Some x \<Longrightarrow> hoare P (g x) Q) \<Longrightarrow>
   hoare P (case r of None \<Rightarrow> m | Some x \<Rightarrow> g x) Q"
  by (cases r) auto

lemma hoare_call: "(\<And>r l. P l \<Longrightarrow> Q r (l @ [entry r])) \<Longrightarrow> hoare P (call f entry) Q"
  by (auto simp: hoare_def call_def split_beta Let_def)

lemma hoare_adds: "adds A m \<Longrightarrow> (\<And>x l es. P l \<Longrightarrow> list_all A es \<Longrightarrow> Q x (l @ es)) \<Longrightarrow> hoare P m Q"
  unfolding adds_def hoare_def by (metis (no_types, lifting) case_prod_beta' snd_conv surj_pair)

lemma hoare_conj: "hoare P m Q \<Longrightarrow> hoare P m R \<Longrightarrow> hoare P m (\<lambda>x l. Q x l \<and> R x l)"
  unfolding hoare_def by (auto split: prod.splits)

text \<open>A fact about a log that stays true as the log grows.\<close>

definition stable :: "('e list \<Rightarrow> bool) \<Rightarrow> bool" where
  "stable P \<longleftrightarrow> (\<forall>l es. P l \<longrightarrow> P (l @ es))"

lemma stable_keep: "stable P \<Longrightarrow> adds A m \<Longrightarrow> hoare P m (\<lambda>_. P)"
  by (rule hoare_adds) (auto simp: stable_def)

lemma hoare_traverse:
  assumes f: "\<And>x. hoare P (f x) (\<lambda>r l. P l \<and> R x r l)" and adds: "\<And>x. adds A (f x)" and R: "\<And>x r. stable (R x r)"
  shows "hoare P (State_Monad.traverse_list f xs) (\<lambda>rs l. P l \<and> list_all2 (\<lambda>x r. R x r l) xs rs)"
proof (induction xs)
  case Nil
  show ?case by (simp add: hoare_return)
next
  case (Cons x xs)
  have rest: "hoare (\<lambda>l. P l \<and> R x r l) (State_Monad.traverse_list f xs)
      (\<lambda>rs l. (P l \<and> list_all2 (\<lambda>x r. R x r l) xs rs) \<and> R x r l)" for r
    by (rule hoare_conj)
      (auto intro: hoare_weaken [OF Cons.IH] hoare_weaken [OF stable_keep [OF R adds_traverse [OF adds]]])
  show ?case
    unfolding State_Monad.traverse_list.simps
    by (intro hoare_bind [OF f] hoare_bind [OF rest] hoare_return) auto
qed

lemma hoare_attempts: "hoare P m (\<lambda>_. P) \<Longrightarrow> hoare P (attempts n m) (\<lambda>_. P)"
  by (induction n) (auto intro!: hoare_bind [of P m "\<lambda>_. P"] hoare_if hoare_return)

text \<open>Every entry of the log is justified by the log: \<open>J l e\<close> may refer to the entries of \<open>l\<close>, and stays
  true as \<open>l\<close> grows.\<close>

definition justified :: "('e list \<Rightarrow> 'e \<Rightarrow> bool) \<Rightarrow> 'e list \<Rightarrow> bool" where
  "justified J l \<longleftrightarrow> (\<forall>e \<in> set l. J l e)"

definition growing :: "('e list \<Rightarrow> 'e \<Rightarrow> bool) \<Rightarrow> bool" where
  "growing J \<longleftrightarrow> (\<forall>e. stable (\<lambda>l. J l e))"

lemma justified_append: "growing J \<Longrightarrow> justified J l \<Longrightarrow> (\<And>e. e \<in> set es \<Longrightarrow> J (l @ es) e) \<Longrightarrow> justified J (l @ es)"
  unfolding justified_def growing_def stable_def by auto

lemma hoare_justified:
  assumes "growing J" "stable P" "adds A m" "\<And>l e. P l \<Longrightarrow> A e \<Longrightarrow> J l e"
  shows "hoare (\<lambda>l. justified J l \<and> P l) m (\<lambda>_ l. justified J l \<and> P l)"
proof (rule hoare_adds [OF assms(3)])
  fix l es
  assume l: "justified J l \<and> P l" and es: "list_all A es"
  then have P: "P (l @ es)" using assms(2) by (simp add: stable_def)
  moreover have "J (l @ es) e" if "e \<in> set es" for e using P that es assms(4) by (simp add: list_all_iff)
  ultimately show "justified J (l @ es) \<and> P (l @ es)" using l assms(1) by (blast intro: justified_append)
qed

lemma hoare_justified_call:
  assumes "growing J" "stable P" "\<And>l r. P l \<Longrightarrow> entry r \<in> set l \<Longrightarrow> J l (entry r)"
  shows "hoare (\<lambda>l. justified J l \<and> P l) (call f entry) (\<lambda>r l. justified J l \<and> P l \<and> entry r \<in> set l)"
proof (rule hoare_call)
  fix r l
  assume l: "justified J l \<and> P l"
  then have P: "P (l @ [entry r])" using assms(2) by (simp add: stable_def)
  with l assms(1) show "justified J (l @ [entry r]) \<and> P (l @ [entry r]) \<and> entry r \<in> set (l @ [entry r])"
    using assms(3) [OF P] by (auto intro: justified_append)
qed

lemma stable_and_in: "stable P \<Longrightarrow> stable (\<lambda>l. P l \<and> e \<in> set l)"
  by (auto simp: stable_def)

section \<open>An instance\<close>

text \<open>Clients without a state: a kind has at most one object, and writes succeed.\<close>

definition ex_kind :: "('s, 't) kobj option \<Rightarrow> (unit, 's, 't) kind_api" where
  "ex_kind ob = \<lparr>ka_Get = (\<lambda>k w. (case ob of None \<Rightarrow> Inl KNotFound | Some x \<Rightarrow> if k_key x = k then Inr x else Inl KNotFound, w)),
     ka_List = (\<lambda>ns ls w. (Inr (case ob of None \<Rightarrow> [] | Some x \<Rightarrow> [x]), w)), ka_Create = (\<lambda>x w. (Inr x, w)),
     ka_Update = (\<lambda>x w. (Inr x, w)), ka_StatusUpdate = (\<lambda>x w. (Inr x, w)), ka_Delete = (\<lambda>x w. (None, w))\<rparr>"

text \<open>Running a program over these clients: the facts a simplification needs.\<close>

named_theorems run_ex

lemma run_call [run_ex]: "run_state (call f en) s = (fst (f ()), s\<lparr>op_log := op_log s @ [en (fst (f ()))]\<rparr>)" for s :: "(unit, 'e, 'x) callstate_scheme"
  by (cases s) (simp add: call_def split_beta Let_def)

lemma run_traverse:
  assumes "\<And>x s. run_state (f x) s = (g x, s\<lparr>op_log := op_log s @ h x\<rparr>)"
  shows "run_state (State_Monad.traverse_list f xs) s = (map g xs, s\<lparr>op_log := op_log s @ concat (map h xs)\<rparr>)"
  by (induction xs arbitrary: s) (simp_all add: assms)

lemma concat_one [run_ex]: "concat (map (\<lambda>x. [f x]) xs) = map f xs"
  by (induction xs) simp_all

lemma ex_kind_calls [run_ex]:
  "ka_Update (ex_kind ob) x w = (Inr x, w)" "ka_StatusUpdate (ex_kind ob) x w = (Inr x, w)"
  "ka_Create (ex_kind ob) x w = (Inr x, w)" "ka_Delete (ex_kind ob) x w = (None, w)"
  "ka_List (ex_kind None) ns ls w = (Inr [], w)" "ka_List (ex_kind (Some y)) ns ls w = (Inr [y], w)"
  "ka_Get (ex_kind None) k w = (Inl KNotFound, w)"
  "ka_Get (ex_kind (Some y)) k w = (if k_key y = k then Inr y else Inl KNotFound, w)"
  by (simp_all add: ex_kind_def)

end
