(* ===== verification/OperatorApi.thy ===== *)
theory OperatorApi
  imports Render CallLog
begin

text \<open>
  The world of the controllers. A reconcile is a program in the state monad: its state is the
  world behind the Kubernetes client, the desire client and the OIDC client, which are records of
  functions on an abstract \<open>'w\<close>, and the log of every call with its answer. Nothing is assumed of
  the answers, so that a statement about the log holds for every fault, for every interleaving
  with other writers, and for every state of the database. Helpers of controller-runtime and
  client-go are arguments (\<open>klib\<close>) with their documented behaviour (\<open>klib_ok\<close>).

  Calls that the code makes in goroutines it waits for are made one after the other, in the order
  of the slices that collect their results; each of them addresses documents of its own.
\<close>

section \<open>Clients\<close>

text \<open>The interface \<open>DesireClient\<close>.\<close>

record 'w DesireClient =
  dc_UpsertApplyDesire :: "string \<Rightarrow> string \<Rightarrow> ApplyDesireSpec \<Rightarrow> 'w \<Rightarrow> (string + UpsertResult) \<times> 'w"
  dc_UpsertReadDesire :: "string \<Rightarrow> string \<Rightarrow> ReadDesireSpec \<Rightarrow> 'w \<Rightarrow> (string + UpsertResult) \<times> 'w"
  dc_GetApplyDesireStatus :: "string \<Rightarrow> string \<Rightarrow> 'w \<Rightarrow> (derror + ApplyDesireStatus) \<times> 'w"
  dc_GetReadDesireStatus :: "string \<Rightarrow> string \<Rightarrow> 'w \<Rightarrow> (derror + ReadDesireStatus) \<times> 'w"
  dc_DeleteDesireSpec :: "string \<Rightarrow> string \<Rightarrow> string \<Rightarrow> 'w \<Rightarrow> string option \<times> 'w"

text \<open>The interface \<open>oidc.InfraClient\<close>; keys are byte strings.\<close>

record 'w InfraClient =
  ic_StorePrivateKey :: "string \<Rightarrow> string \<Rightarrow> string \<Rightarrow> 'w \<Rightarrow> string option \<times> 'w"
  ic_PrivateKeyExists :: "string \<Rightarrow> string \<Rightarrow> 'w \<Rightarrow> (string + bool) \<times> 'w"
  ic_ReadCrossAccountSecret :: "string \<Rightarrow> string \<Rightarrow> 'w \<Rightarrow> (string + string) \<times> 'w"
  ic_DeletePrivateKey :: "string \<Rightarrow> string \<Rightarrow> 'w \<Rightarrow> string option \<times> 'w"
  ic_ComputeThumbprint :: "string \<Rightarrow> 'w \<Rightarrow> (string + string) \<times> 'w"

section \<open>The log\<close>

datatype log_entry =
    LCluster "(ClusterSpec, ClusterStatus) kcall"
  | LPlacement "(PlacementSpec, PlacementStatus) kcall"
  | LNodePool "(NodePoolCrSpec, NodePoolStatus) kcall"
  | LManifest "(ManifestSpec, ManifestStatus) kcall"
  | LOidc "(OidcConfigSpec, OidcConfigStatus) kcall"
  | LMc "(json, json) kcall"
  | LUpsertApply string string ApplyDesireSpec "string + UpsertResult"
  | LUpsertRead string string ReadDesireSpec "string + UpsertResult"
  | LApplyStatus string string "derror + ApplyDesireStatus"
  | LReadStatus string string "derror + ReadDesireStatus"
  | LDeleteDesire string string string "string option"
  | LStoreKey string string string "string option"
  | LKeyExists string string "string + bool"
  | LReadSecret string string "string + string"
  | LDeleteKey string string "string option"
  | LThumbprint string "string + string"

text \<open>The event router is part of the operator's own memory (\<open>event_router.go\<close>).\<close>

datatype controller_name = ClusterController | NodePoolController | ManifestController

record 'w opstate = "('w, log_entry) callstate" +
  op_router :: "(string \<times> controller_name \<times> nskey) list"

record 'w operator_api =
  api_cluster :: "('w, ClusterSpec, ClusterStatus) kind_api"
  api_placement :: "('w, PlacementSpec, PlacementStatus) kind_api"
  api_nodepool :: "('w, NodePoolCrSpec, NodePoolStatus) kind_api"
  api_manifest :: "('w, ManifestSpec, ManifestStatus) kind_api"
  api_oidc :: "('w, OidcConfigSpec, OidcConfigStatus) kind_api"
  api_mc :: "('w, json, json) kind_api"
  api_dynamo :: "'w DesireClient"
  api_infra :: "'w InfraClient"
  api_retry :: "('w opstate, kerr option) state \<Rightarrow> ('w opstate, kerr option) state"   \<comment> \<open>\<open>retry.RetryOnConflict\<close>\<close>
  api_now :: "'w \<Rightarrow> int \<times> 'w"

type_synonym ('w, 'a) prog = "('w opstate, 'a) state"

type_synonym ('w, 's, 't) access = "('w, 's, 't, log_entry) kaccess"

definition now :: "'w operator_api \<Rightarrow> ('w, int) prog" where
  "now api = State (\<lambda>s. let (t, w) = api_now api (op_world s) in (t, s\<lparr>op_world := w\<rparr>))"

abbreviation clusters :: "'w operator_api \<Rightarrow> ('w, ClusterSpec, ClusterStatus) access" where
  "clusters api \<equiv> (api_cluster api, LCluster)"

abbreviation placements :: "'w operator_api \<Rightarrow> ('w, PlacementSpec, PlacementStatus) access" where
  "placements api \<equiv> (api_placement api, LPlacement)"

abbreviation nodepools :: "'w operator_api \<Rightarrow> ('w, NodePoolCrSpec, NodePoolStatus) access" where
  "nodepools api \<equiv> (api_nodepool api, LNodePool)"

abbreviation manifests :: "'w operator_api \<Rightarrow> ('w, ManifestSpec, ManifestStatus) access" where
  "manifests api \<equiv> (api_manifest api, LManifest)"

abbreviation oidcconfigs :: "'w operator_api \<Rightarrow> ('w, OidcConfigSpec, OidcConfigStatus) access" where
  "oidcconfigs api \<equiv> (api_oidc api, LOidc)"

abbreviation mcs :: "'w operator_api \<Rightarrow> ('w, json, json) access" where
  "mcs api \<equiv> (api_mc api, LMc)"

definition upsertApply :: "'w operator_api \<Rightarrow> string \<Rightarrow> string \<Rightarrow> ApplyDesireSpec \<Rightarrow> ('w, string + UpsertResult) prog" where
  "upsertApply api p d x = call (dc_UpsertApplyDesire (api_dynamo api) p d x) (LUpsertApply p d x)"

definition upsertRead :: "'w operator_api \<Rightarrow> string \<Rightarrow> string \<Rightarrow> ReadDesireSpec \<Rightarrow> ('w, string + UpsertResult) prog" where
  "upsertRead api p d x = call (dc_UpsertReadDesire (api_dynamo api) p d x) (LUpsertRead p d x)"

definition applyStatus :: "'w operator_api \<Rightarrow> string \<Rightarrow> string \<Rightarrow> ('w, derror + ApplyDesireStatus) prog" where
  "applyStatus api p d = call (dc_GetApplyDesireStatus (api_dynamo api) p d) (LApplyStatus p d)"

definition readStatus :: "'w operator_api \<Rightarrow> string \<Rightarrow> string \<Rightarrow> ('w, derror + ReadDesireStatus) prog" where
  "readStatus api p d = call (dc_GetReadDesireStatus (api_dynamo api) p d) (LReadStatus p d)"

definition deleteDesire :: "'w operator_api \<Rightarrow> string \<Rightarrow> string \<Rightarrow> string \<Rightarrow> ('w, string option) prog" where
  "deleteDesire api p sfx d = call (dc_DeleteDesireSpec (api_dynamo api) p sfx d) (LDeleteDesire p sfx d)"

section \<open>event_router.go\<close>

definition Register :: "string \<Rightarrow> controller_name \<Rightarrow> nskey \<Rightarrow> ('w, unit) prog" where
  "Register docID c k = State (\<lambda>s. ((), s\<lparr>op_router := (docID, c, k) # filter (\<lambda>(d, _). d \<noteq> docID) (op_router s)\<rparr>))"

definition Deregister :: "string \<Rightarrow> ('w, unit) prog" where
  "Deregister docID = State (\<lambda>s. ((), s\<lparr>op_router := filter (\<lambda>(d, _). d \<noteq> docID) (op_router s)\<rparr>))"

definition Lookup :: "string \<Rightarrow> (string \<times> controller_name \<times> nskey) list \<Rightarrow> (controller_name \<times> nskey) option" where
  "Lookup docID router = map_of router docID"

text \<open>\<open>Dispatch\<close>: the channels hold at most \<open>cap\<close> events; an event that does not fit is dropped.\<close>

definition Dispatch ::
  "nat \<Rightarrow> string \<Rightarrow> (string \<times> controller_name \<times> nskey) list \<Rightarrow> (controller_name \<Rightarrow> nskey list) \<Rightarrow> bool \<times> (controller_name \<Rightarrow> nskey list)"
where
  "Dispatch cap docID router chans =
     (case Lookup docID router of
        None \<Rightarrow> (False, chans)
      | Some (c, k) \<Rightarrow> (True, if length (chans c) < cap then chans(c := chans c @ [k]) else chans))"

section \<open>Helpers of the libraries\<close>

record klib =
  ContainsFinalizer :: "string list \<Rightarrow> string \<Rightarrow> bool"
  AddFinalizer :: "string list \<Rightarrow> string \<Rightarrow> string list"
  RemoveFinalizer :: "string list \<Rightarrow> string \<Rightarrow> string list"
  SetStatusCondition :: "Condition list \<Rightarrow> Condition \<Rightarrow> Condition list"
  FindStatusCondition :: "Condition list \<Rightarrow> string \<Rightarrow> Condition option"
  kl_successful :: string                    \<comment> \<open>\<open>kubeapplier.ConditionTypeSuccessful\<close>\<close>

definition IsStatusConditionTrue :: "klib \<Rightarrow> Condition list \<Rightarrow> string \<Rightarrow> bool" where
  "IsStatusConditionTrue lib cs ty =
     (case FindStatusCondition lib cs ty of None \<Rightarrow> False | Some c \<Rightarrow> cd_Status c = ''True'')"

definition klib_ok :: "klib \<Rightarrow> bool" where
  "klib_ok lib \<longleftrightarrow>
     (\<forall>fs f. ContainsFinalizer lib fs f \<longleftrightarrow> f \<in> set fs)
   \<and> (\<forall>fs f. set (AddFinalizer lib fs f) = insert f (set fs))
   \<and> (\<forall>fs f. set (RemoveFinalizer lib fs f) = set fs - {f})
   \<and> (\<forall>cs c ty. map_option cd_Status (FindStatusCondition lib (SetStatusCondition lib cs c) ty) =
        (if ty = cd_Type c then Some (cd_Status c) else map_option cd_Status (FindStatusCondition lib cs ty)))"

definition retry_ok :: "'w operator_api \<Rightarrow> bool" where
  "retry_ok api \<longleftrightarrow> (\<exists>n. \<forall>m. api_retry api m = attempts n m)"

text \<open>\<open>client.IgnoreNotFound\<close>.\<close>

definition IgnoreNotFound :: "kerr \<Rightarrow> kerr option" where
  "IgnoreNotFound e = (if e = KNotFound then None else Some e)"

definition err_of :: "kerr + 'a \<Rightarrow> kerr option" where
  "err_of r = (case r of Inl e \<Rightarrow> Some e | Inr _ \<Rightarrow> None)"

text \<open>\<open>ctrl.Result\<close>: seconds after which to requeue; \<open>Inl\<close> is an error, which requeues with backoff.
  An error of the Kubernetes client that the code wraps with \<open>%w\<close> is kept without the text around it.\<close>

datatype rerror = RKube kerr | RText string

type_synonym reconcile_result = "rerror + int option"

abbreviation done_result :: reconcile_result where "done_result \<equiv> Inr None"

section \<open>desire_status.go\<close>

definition CheckApplyDesireStatuses ::
  "klib \<Rightarrow> 'w operator_api \<Rightarrow> string \<Rightarrow> DesireStatusEntry list \<Rightarrow> int \<Rightarrow> ('w, Condition) prog"
where
  "CheckApplyDesireStatuses lib api statusPrefix entries generation = do {
     results \<leftarrow> State_Monad.traverse_list (\<lambda>e. applyStatus api statusPrefix (en_DocID e)) entries;
     State_Monad.return (synced_condition
       (map2 (entry_outcome (FindStatusCondition lib) (kl_successful lib)) entries results) generation) }"

section \<open>Patterns of the controllers\<close>

definition fail :: "kerr \<Rightarrow> ('w, reconcile_result) prog" where
  "fail e = State_Monad.return (Inl (RKube e))"

definition ignore_not_found :: "kerr \<Rightarrow> ('w, reconcile_result) prog" where
  "ignore_not_found e = State_Monad.return (case IgnoreNotFound e of None \<Rightarrow> done_result | Some e' \<Rightarrow> Inl (RKube e'))"

text \<open>Read the latest object, change it, write its status; again on a conflict. An object that is
  gone needs no change, and \<open>f\<close> says when there is nothing to write.\<close>

definition status_retry ::
  "'w operator_api \<Rightarrow> ('w, 's, 't) access \<Rightarrow> nskey \<Rightarrow> (('s, 't) kobj \<Rightarrow> ('s, 't) kobj option) \<Rightarrow> ('w, kerr option) prog"
where
  "status_retry api a key f = api_retry api (do {
     r \<leftarrow> kGet a key;
     case r of
       Inl e \<Rightarrow> State_Monad.return (IgnoreNotFound e)
     | Inr latest \<Rightarrow>
         (case f latest of
            None \<Rightarrow> State_Monad.return None
          | Some x \<Rightarrow> do { u \<leftarrow> kStatusUpdate a x; State_Monad.return (err_of u) }) })"

text \<open>The same for the object itself, used to remove a finalizer.\<close>

definition remove_finalizer_retry ::
  "klib \<Rightarrow> 'w operator_api \<Rightarrow> ('w, 's, 't) access \<Rightarrow> nskey \<Rightarrow> string \<Rightarrow> ('w, kerr option) prog"
where
  "remove_finalizer_retry lib api a key fin = api_retry api (do {
     r \<leftarrow> kGet a key;
     case r of
       Inl e \<Rightarrow> State_Monad.return (IgnoreNotFound e)
     | Inr latest \<Rightarrow>
         if \<not> ContainsFinalizer lib (km_Finalizers latest) fin then State_Monad.return None
         else do { u \<leftarrow> kUpdate a (latest\<lparr>km_Finalizers := RemoveFinalizer lib (km_Finalizers latest) fin\<rparr>);
                   State_Monad.return (err_of u) } })"

definition map_label :: "(string \<times> string) list \<Rightarrow> string \<Rightarrow> string" where
  "map_label m k = (case map_of m k of None \<Rightarrow> [] | Some v \<Rightarrow> v)"

section \<open>Reasoning about the log\<close>

lemma adds_now [adds_rules]: "adds P (now api)"
  by (simp add: adds_def now_def split_beta Let_def)

lemma adds_router [adds_rules]: "adds P (Register d c k)" "adds P (Deregister d)"
  by (simp_all add: adds_def Register_def Deregister_def)

lemma adds_retry [adds_rules]: "retry_ok api \<Longrightarrow> adds P m \<Longrightarrow> adds P (api_retry api m)"
  by (auto simp: retry_ok_def adds_attempts)

lemma adds_dcalls [adds_rules]:
  "(\<And>r. P (LUpsertApply p d x r)) \<Longrightarrow> adds P (upsertApply api p d x)"
  "(\<And>r. P (LUpsertRead p d y r)) \<Longrightarrow> adds P (upsertRead api p d y)"
  "(\<And>r. P (LApplyStatus p d r)) \<Longrightarrow> adds P (applyStatus api p d)"
  "(\<And>r. P (LReadStatus p d r)) \<Longrightarrow> adds P (readStatus api p d)"
  "(\<And>r. P (LDeleteDesire p sfx d r)) \<Longrightarrow> adds P (deleteDesire api p sfx d)"
  by (simp_all add: upsertApply_def upsertRead_def applyStatus_def readStatus_def deleteDesire_def adds_call)

lemma adds_fail [adds_rules]: "adds P (fail e)" "adds P (ignore_not_found e)"
  by (simp_all add: fail_def ignore_not_found_def adds_return)

lemma adds_status_retry [adds_rules]:
  assumes "retry_ok api" "\<And>r. P (snd a (CGet key r))" "\<And>x y r. f x = Some y \<Longrightarrow> P (snd a (CStatusUpdate y r))"
  shows "adds P (status_retry api a key f)"
proof -
  have "adds P (case f x of None \<Rightarrow> State_Monad.return None | Some y \<Rightarrow> do { u \<leftarrow> kStatusUpdate a y; State_Monad.return (err_of u) })" for x
    using assms(3) by (cases "f x") (auto intro!: adds_rules)
  with assms(1,2) show ?thesis
    unfolding status_retry_def by (intro adds_retry adds_bind adds_kcalls(1) adds_sum adds_return) auto
qed

lemma adds_remove_finalizer [adds_rules]:
  assumes "retry_ok api" "\<And>r. P (snd a (CGet key r))"
    and "\<And>x r. P (snd a (CUpdate (x\<lparr>km_Finalizers := RemoveFinalizer lib (km_Finalizers x) fin\<rparr>) r))"
  shows "adds P (remove_finalizer_retry lib api a key fin)"
  using assms unfolding remove_finalizer_retry_def by (intro adds_rules) auto

lemma adds_check [adds_rules]:
  "(\<And>d r. P (LApplyStatus p d r)) \<Longrightarrow> adds P (CheckApplyDesireStatuses lib api p es g)"
  unfolding CheckApplyDesireStatuses_def by (intro adds_rules)

lemma hoare_retry: "retry_ok api \<Longrightarrow> hoare P m (\<lambda>_. P) \<Longrightarrow> hoare P (api_retry api m) (\<lambda>_. P)"
  by (auto simp: retry_ok_def hoare_attempts)

lemma hoare_status_retry:
  fixes a :: "('w, 's, 't) access"
  assumes "retry_ok api" "growing J" "stable P" "\<And>l r. P l \<Longrightarrow> J l (snd a (CGet key r))"
    and upd: "\<And>l x y r. P l \<Longrightarrow> snd a (CGet key (Inr x)) \<in> set l \<Longrightarrow> f x = Some y \<Longrightarrow> J l (snd a (CStatusUpdate y r))"
  shows "hoare (\<lambda>l. justified J l \<and> P l) (status_retry api a key f) (\<lambda>_ l. justified J l \<and> P l)"
  unfolding status_retry_def
proof (rule hoare_retry [OF assms(1)], unfold kGet_def kStatusUpdate_def,
    intro hoare_bind [OF hoare_justified_call [OF assms(2,3)]] hoare_sum hoare_option)
  fix r :: "kerr + ('s, 't) kobj" and x y
  assume r: "r = Inr x" and f: "f x = Some y"
  show "hoare (\<lambda>l. justified J l \<and> P l \<and> snd a (CGet key r) \<in> set l)
      (call (ka_StatusUpdate (fst a) y) (\<lambda>r. snd a (CStatusUpdate y r)) \<bind> (\<lambda>u. State_Monad.return (err_of u)))
      (\<lambda>_ l. justified J l \<and> P l)"
    unfolding r
    by (intro hoare_bind [OF hoare_justified_call [OF assms(2) stable_and_in [OF assms(3)]]] hoare_return)
      (auto intro: upd [OF _ _ f])
qed (auto intro!: hoare_return assms(4))

lemma hoare_remove_finalizer:
  fixes a :: "('w, 's, 't) access"
  assumes "retry_ok api" "growing J" "stable P" "\<And>l r. P l \<Longrightarrow> J l (snd a (CGet key r))"
    and upd: "\<And>l x r. P l \<Longrightarrow> snd a (CGet key (Inr x)) \<in> set l \<Longrightarrow>
      J l (snd a (CUpdate (x\<lparr>km_Finalizers := RemoveFinalizer lib (km_Finalizers x) fin\<rparr>) r))"
  shows "hoare (\<lambda>l. justified J l \<and> P l) (remove_finalizer_retry lib api a key fin) (\<lambda>_ l. justified J l \<and> P l)"
  unfolding remove_finalizer_retry_def
proof (rule hoare_retry [OF assms(1)], unfold kGet_def kUpdate_def,
    intro hoare_bind [OF hoare_justified_call [OF assms(2,3)]] hoare_sum hoare_if)
  fix r :: "kerr + ('s, 't) kobj" and x
  assume r: "r = Inr x"
  show "hoare (\<lambda>l. justified J l \<and> P l \<and> snd a (CGet key r) \<in> set l)
      (call (ka_Update (fst a) (x\<lparr>km_Finalizers := RemoveFinalizer lib (km_Finalizers x) fin\<rparr>))
         (\<lambda>r. snd a (CUpdate (x\<lparr>km_Finalizers := RemoveFinalizer lib (km_Finalizers x) fin\<rparr>) r)) \<bind> (\<lambda>u. State_Monad.return (err_of u)))
      (\<lambda>_ l. justified J l \<and> P l)"
    unfolding r
    by (intro hoare_bind [OF hoare_justified_call [OF assms(2) stable_and_in [OF assms(3)]]] hoare_return) (auto intro: upd)
qed (auto intro!: hoare_return assms(4))

section \<open>An instance\<close>

definition ex_klib :: klib where
  "ex_klib = \<lparr>ContainsFinalizer = (\<lambda>fs f. f \<in> set fs), AddFinalizer = (\<lambda>fs f. if f \<in> set fs then fs else fs @ [f]),
     RemoveFinalizer = (\<lambda>fs f. filter ((\<noteq>) f) fs),
     SetStatusCondition = (\<lambda>cs c. c # filter (\<lambda>x. cd_Type x \<noteq> cd_Type c) cs),
     FindStatusCondition = (\<lambda>cs ty. List.find (\<lambda>x. cd_Type x = ty) cs), kl_successful = ''Successful''\<rparr>"

lemma find_filter_type:
  "ty \<noteq> cd_Type c \<Longrightarrow> List.find (\<lambda>x. cd_Type x = ty) (filter (\<lambda>x. cd_Type x \<noteq> cd_Type c) cs) = List.find (\<lambda>x. cd_Type x = ty) cs"
  by (induction cs) auto

lemma ex_klib_ok: "klib_ok ex_klib"
  by (auto simp: klib_ok_def ex_klib_def find_filter_type)

text \<open>Clients without a state: each kind has at most one object, writes succeed, desires are confirmed.\<close>

definition ex_condition :: "string \<Rightarrow> Condition" where
  "ex_condition ty = \<lparr>cd_Type = ty, cd_Status = ''True'', cd_Reason = ''Ok'', cd_Message = [],
     cd_ObservedGeneration = 0, cd_LastTransitionTime = None\<rparr>"

definition ex_dynamo :: "unit DesireClient" where
  "ex_dynamo = \<lparr>dc_UpsertApplyDesire = (\<lambda>p d x w. (Inr \<lparr>Changed = True, UpdateTime = Some 7\<rparr>, w)),
     dc_UpsertReadDesire = (\<lambda>p d x w. (Inr \<lparr>Changed = True, UpdateTime = Some 7\<rparr>, w)),
     dc_GetApplyDesireStatus = (\<lambda>p d w. (Inr \<lparr>as_Conditions = [ex_condition ''Successful''], as_ObservedDesireUpdateTime = Some 7\<rparr>, w)),
     dc_GetReadDesireStatus = (\<lambda>p d w. (Inl DesireNotFound, w)),
     dc_DeleteDesireSpec = (\<lambda>p sfx d w. (None, w))\<rparr>"

definition ex_infra :: "unit InfraClient" where
  "ex_infra = \<lparr>ic_StorePrivateKey = (\<lambda>a c k w. (None, w)), ic_PrivateKeyExists = (\<lambda>a c w. (Inr True, w)),
     ic_ReadCrossAccountSecret = (\<lambda>r a w. (Inr ''key'', w)), ic_DeletePrivateKey = (\<lambda>a c w. (None, w)),
     ic_ComputeThumbprint = (\<lambda>u w. (Inr ''print'', w))\<rparr>"

definition ex_api :: "unit operator_api" where
  "ex_api = \<lparr>api_cluster = ex_kind None, api_placement = ex_kind None, api_nodepool = ex_kind None, api_manifest = ex_kind None,
     api_oidc = ex_kind None, api_mc = ex_kind None, api_dynamo = ex_dynamo, api_infra = ex_infra, api_retry = attempts 1,
     api_now = (\<lambda>w. (100, w))\<rparr>"

lemma ex_retry_ok: "api_retry api = attempts n \<Longrightarrow> retry_ok api"
  by (auto simp: retry_ok_def)

lemma run_now [run_ex]: "run_state (now api) s = (fst (api_now api ()), s)" for s :: "unit opstate"
  by (cases s) (simp add: now_def split_beta Let_def)

lemma map2_same: "map2 f (map g xs) (map h xs) = map (\<lambda>x. f (g x) (h x)) xs"
  by (induction xs) simp_all

lemma ex_klib_calls [run_ex]:
  "ContainsFinalizer ex_klib fs f = (f \<in> set fs)" "RemoveFinalizer ex_klib fs f = filter ((\<noteq>) f) fs"
  "FindStatusCondition ex_klib [c] ty = (if cd_Type c = ty then Some c else None)" "kl_successful ex_klib = ''Successful''"
  by (simp_all add: ex_klib_def)

lemma ex_outcome [run_ex]:
  "entry_outcome (FindStatusCondition ex_klib) ''Successful'' \<lparr>en_DocID = d, en_Resource = r, en_Name = n, en_DesireUpdateTime = Some 7\<rparr>
     (Inr \<lparr>as_Conditions = [ex_condition ''Successful''], as_ObservedDesireUpdateTime = Some 7\<rparr>) = Synced"
  by (simp add: entry_outcome_def ex_klib_calls ex_condition_def)

lemma all_Synced [run_ex]:
  "cd_Status (synced_condition (map2 f (map g xs) (map h xs)) n) = ''True'' \<longleftrightarrow> list_all (\<lambda>x. Synced = f (g x) (h x)) xs"
  unfolding map2_same synced_condition_True by (simp add: list.pred_map comp_def)

lemmas run_calls [run_ex] = kGet_def kList_def kCreate_def kUpdate_def kStatusUpdate_def kDelete_def
  upsertApply_def upsertRead_def applyStatus_def readStatus_def deleteDesire_def
  CheckApplyDesireStatuses_def status_retry_def remove_finalizer_retry_def
  fail_def ignore_not_found_def IgnoreNotFound_def err_of_def ex_dynamo_def

end
