(* ===== verification/PlacementCtl.thy ===== *)
theory PlacementCtl
  imports OperatorApi
begin

text \<open>
  \<open>hyperfleet-operator/internal/controller/placement_controller.go\<close>: every cluster gets a placement
  on a management cluster, the placement is marked bound, and the cluster's status refers to it.
\<close>

definition selectManagementCluster :: "'w operator_api \<Rightarrow> ('w, rerror + string) prog" where
  "selectManagementCluster api = do {
     r \<leftarrow> kList (mcs api) None [];
     case r of
       Inl e \<Rightarrow> State_Monad.return (Inl (RKube e))
     | Inr items \<Rightarrow>
         State_Monad.return (case List.find (\<lambda>m. \<not> has_prefix (km_Name m) ''test-mc'') items of
                               Some m \<Rightarrow> Inr (km_Name m)
                             | None \<Rightarrow> Inl (RText ''no management clusters configured'')) }"

definition placement_name :: "Cluster \<Rightarrow> string" where
  "placement_name cluster = km_Name cluster @ ''-placement''"

definition new_placement :: "Cluster \<Rightarrow> string \<Rightarrow> Placement" where
  "new_placement cluster mc =
     \<lparr>km_Name = placement_name cluster, km_Namespace = km_Namespace cluster, km_UID = [], km_RV = 0, km_Generation = 0,
      km_Labels = [], km_Annotations = [], km_OwnerReferences = [], km_Finalizers = [], km_CreationTimestamp = 0,
      km_Deletion = None, k_Spec = \<lparr>ps_ClusterName = km_Name cluster, ps_ManagementCluster = mc\<rparr>,
      k_Status = zero_placement_status\<rparr>"

text \<open>The placement of the cluster, read or created; \<open>Inl\<close> ends the reconcile.\<close>

definition create_placement :: "'w operator_api \<Rightarrow> Cluster \<Rightarrow> ('w, reconcile_result + Placement) prog" where
  "create_placement api cluster = do {
     m \<leftarrow> selectManagementCluster api;
     case m of
       Inl err \<Rightarrow> State_Monad.return (Inl (Inl err))
     | Inr mc \<Rightarrow> do {
         c \<leftarrow> kCreate (placements api) (new_placement cluster mc);
         State_Monad.return (case c of
             Inr created \<Rightarrow> Inr created
           | Inl ce \<Rightarrow> Inl (if ce = KAlreadyExists then Inr (Some 5) else Inl (RKube ce))) } }"

definition ensure_placement :: "'w operator_api \<Rightarrow> Cluster \<Rightarrow> ('w, reconcile_result + Placement) prog" where
  "ensure_placement api cluster = do {
     r \<leftarrow> kGet (placements api) (km_Namespace cluster, placement_name cluster);
     case r of
       Inr placement \<Rightarrow> State_Monad.return (Inr placement)
     | Inl e \<Rightarrow> if e \<noteq> KNotFound then State_Monad.return (Inl (Inl (RKube e))) else create_placement api cluster }"

definition bound_status :: "klib \<Rightarrow> Placement \<Rightarrow> PlacementStatus" where
  "bound_status lib latest =
     (k_Status latest)\<lparr>pt_Conditions := SetStatusCondition lib (pt_Conditions (k_Status latest))
          \<lparr>cd_Type = ''Bound'', cd_Status = ''True'', cd_Reason = ''Assigned'',
           cd_Message = ''Assigned to management cluster '' @ ps_ManagementCluster (k_Spec latest),
           cd_ObservedGeneration = km_Generation latest, cd_LastTransitionTime = None\<rparr>,
        pt_Phase := PlacementPhaseBound, pt_ObservedGeneration := km_Generation latest\<rparr>"

definition bind_placement :: "klib \<Rightarrow> 'w operator_api \<Rightarrow> nskey \<Rightarrow> ('w, kerr option) prog" where
  "bind_placement lib api key = status_retry api (placements api) key (\<lambda>latest.
     if pt_Phase (k_Status latest) = PlacementPhaseBound then None
     else Some (latest\<lparr>k_Status := bound_status lib latest\<rparr>))"

definition set_placement_ref :: "'w operator_api \<Rightarrow> nskey \<Rightarrow> PlacementReference \<Rightarrow> ('w, kerr option) prog" where
  "set_placement_ref api key ref = status_retry api (clusters api) key (\<lambda>latest.
     Some (latest\<lparr>k_Status := (k_Status latest)\<lparr>ct_PlacementRef := Some ref\<rparr>\<rparr>))"

text \<open>Bind the placement and refer to it from the cluster.\<close>

definition adopt_placement :: "klib \<Rightarrow> 'w operator_api \<Rightarrow> Cluster \<Rightarrow> Placement \<Rightarrow> ('w, reconcile_result) prog" where
  "adopt_placement lib api cluster placement = do {
     b \<leftarrow> (if pt_Phase (k_Status placement) \<noteq> PlacementPhaseBound
           then bind_placement lib api (km_Namespace cluster, placement_name cluster)
           else State_Monad.return None);
     case b of
       Some e \<Rightarrow> fail e
     | None \<Rightarrow>
         (let ref = \<lparr>pr_Name = placement_name cluster, pr_ManagementCluster = ps_ManagementCluster (k_Spec placement)\<rparr>
          in if ct_PlacementRef (k_Status cluster) = Some ref then State_Monad.return done_result
             else do {
               u \<leftarrow> set_placement_ref api (k_key cluster) ref;
               case u of Some e \<Rightarrow> fail e | None \<Rightarrow> State_Monad.return done_result }) }"

definition placement_Reconcile :: "klib \<Rightarrow> 'w operator_api \<Rightarrow> nskey \<Rightarrow> ('w, reconcile_result) prog" where
  "placement_Reconcile lib api req = do {
     r \<leftarrow> kGet (clusters api) req;
     case r of
       Inl e \<Rightarrow> ignore_not_found e
     | Inr cluster \<Rightarrow>
         if km_Deletion cluster \<noteq> None then State_Monad.return done_result
         else do {
           p \<leftarrow> ensure_placement api cluster;
           case p of
             Inl res \<Rightarrow> State_Monad.return res
           | Inr placement \<Rightarrow> adopt_placement lib api cluster placement } }"

text \<open>The watch on placements enqueues the cluster they name.\<close>

definition placement_requests :: "Placement \<Rightarrow> nskey list" where
  "placement_requests p = (if ps_ClusterName (k_Spec p) = [] then [] else [(km_Namespace p, ps_ClusterName (k_Spec p))])"

section \<open>A cluster keeps its management cluster\<close>

definition placement_seen :: "Placement \<Rightarrow> log_entry list \<Rightarrow> bool" where
  "placement_seen p l \<longleftrightarrow> (\<exists>key. LPlacement (CGet key (Inr p)) \<in> set l) \<or> (\<exists>q. LPlacement (CCreate q (Inr p)) \<in> set l)"

text \<open>What justifies a write. A placement is created only for a live cluster whose placement was
  reported missing, on a management cluster that was listed and is not reserved for tests; its
  status is written over the object that was read; nothing else is written to placements. The
  cluster's reference names the management cluster of a placement that was read or created.\<close>

definition placement_write_ok :: "nskey \<Rightarrow> log_entry list \<Rightarrow> log_entry \<Rightarrow> bool" where
  "placement_write_ok req l e =
     (case e of
        LPlacement (CCreate x r) \<Rightarrow>
          (\<exists>cluster mc items. x = new_placement cluster mc \<and> LCluster (CGet req (Inr cluster)) \<in> set l \<and> km_Deletion cluster = None
             \<and> LPlacement (CGet (k_key x) (Inl KNotFound)) \<in> set l
             \<and> LMc (CList None [] (Inr items)) \<in> set l \<and> mc \<in> km_Name ` set items \<and> \<not> has_prefix mc ''test-mc'')
      | LPlacement (CStatusUpdate x r) \<Rightarrow>
          (\<exists>y key. LPlacement (CGet key (Inr y)) \<in> set l \<and> k_Spec x = k_Spec y \<and> k_key x = k_key y \<and> km_RV x = km_RV y)
      | LPlacement (CUpdate x r) \<Rightarrow> False
      | LPlacement (CDelete x r) \<Rightarrow> False
      | LCluster (CStatusUpdate x r) \<Rightarrow>
          (\<exists>ref p. ct_PlacementRef (k_Status x) = Some ref \<and> pr_ManagementCluster ref = ps_ManagementCluster (k_Spec p)
             \<and> placement_seen p l)
      | LCluster (CCreate x r) \<Rightarrow> False
      | LCluster (CUpdate x r) \<Rightarrow> False
      | LCluster (CDelete x r) \<Rightarrow> False
      | _ \<Rightarrow> True)"

lemma growing_placement: "growing (placement_write_ok req)"
  unfolding growing_def stable_def placement_write_ok_def
  by (intro allI impI) (fastforce simp: placement_seen_def split: log_entry.splits kcall.splits)

abbreviation pguard :: "nskey \<Rightarrow> (log_entry list \<Rightarrow> bool) \<Rightarrow> log_entry list \<Rightarrow> bool" where
  "pguard req P l \<equiv> justified (placement_write_ok req) l \<and> P l"

lemma stable_seen: "stable (placement_seen p)"
  by (auto simp: stable_def placement_seen_def)

lemma stable_True: "stable (\<lambda>_. True)"
  by (simp add: stable_def)

lemma hoare_select:
  assumes "stable P"
  shows "hoare (pguard req P) (selectManagementCluster api) (\<lambda>r. pguard req (\<lambda>l. P l \<and>
     (\<forall>mc. r = Inr mc \<longrightarrow> \<not> has_prefix mc ''test-mc'' \<and> (\<exists>items. LMc (CList None [] (Inr items)) \<in> set l \<and> mc \<in> km_Name ` set items))))"
  unfolding selectManagementCluster_def kList_def
proof (intro hoare_bind [OF hoare_justified_call [OF growing_placement assms]] hoare_sum hoare_return)
  fix r :: "kerr + ManagementCluster list" and items l
  assume "r = Inr items" and l: "justified (placement_write_ok req) l \<and> P l \<and> snd (mcs api) (CList None [] r) \<in> set l"
  moreover have "mc \<in> km_Name ` set items \<and> \<not> has_prefix mc ''test-mc''"
    if "(case List.find (\<lambda>m. \<not> has_prefix (km_Name m) ''test-mc'') items of Some m \<Rightarrow> Inr (km_Name m)
          | None \<Rightarrow> Inl (RText ''no management clusters configured'')) = Inr mc" for mc
    using that by (auto simp: find_Some_iff split: option.splits)
  ultimately show "pguard req (\<lambda>l. P l \<and> (\<forall>mc. (case List.find (\<lambda>m. \<not> has_prefix (km_Name m) ''test-mc'') items of Some m \<Rightarrow> Inr (km_Name m)
          | None \<Rightarrow> Inl (RText ''no management clusters configured'')) = Inr mc \<longrightarrow> \<not> has_prefix mc ''test-mc''
        \<and> (\<exists>items. LMc (CList None [] (Inr items)) \<in> set l \<and> mc \<in> km_Name ` set items))) l"
    by auto
qed (auto simp: placement_write_ok_def)

lemma hoare_ensure:
  assumes "km_Deletion cluster = None"
  shows "hoare (pguard req (\<lambda>l. LCluster (CGet req (Inr cluster)) \<in> set l)) (ensure_placement api cluster)
     (\<lambda>r. pguard req (\<lambda>l. \<forall>p. r = Inr p \<longrightarrow> placement_seen p l))"
proof -
  let ?key = "(km_Namespace cluster, placement_name cluster)"
  let ?P = "\<lambda>l. LCluster (CGet req (Inr cluster)) \<in> set l"
  have st: "stable ?P" by (simp add: stable_def)
  have get: "hoare (pguard req ?P) (kGet (placements api) ?key)
      (\<lambda>r. pguard req (\<lambda>l. ?P l \<and> LPlacement (CGet ?key r) \<in> set l))"
    unfolding kGet_def by (rule hoare_weaken [OF hoare_justified_call [OF growing_placement st]]) (auto simp: placement_write_ok_def)
  let ?N = "\<lambda>mc l. (?P l \<and> LPlacement (CGet ?key (Inl KNotFound)) \<in> set l) \<and> \<not> has_prefix mc ''test-mc''
      \<and> (\<exists>items. LMc (CList None [] (Inr items)) \<in> set l \<and> mc \<in> km_Name ` set items)"
  have create: "hoare (pguard req (?N mc)) (kCreate (placements api) (new_placement cluster mc))
      (\<lambda>r. pguard req (\<lambda>l. LPlacement (CCreate (new_placement cluster mc) r) \<in> set l))" for mc
  proof -
    have "stable (?N mc)" by (auto simp: stable_def)
    then show ?thesis
      unfolding kCreate_def
      by (rule hoare_weaken [OF hoare_justified_call [OF growing_placement]])
        (auto simp: placement_write_ok_def new_placement_def k_key_def assms)
  qed
  have miss: "hoare (pguard req (\<lambda>l. ?P l \<and> LPlacement (CGet ?key (Inl KNotFound)) \<in> set l))
     (create_placement api cluster) (\<lambda>r. pguard req (\<lambda>l. \<forall>p. r = Inr p \<longrightarrow> placement_seen p l))"
    unfolding create_placement_def
    by (rule hoare_bind [OF hoare_select [OF stable_and_in [OF st]]], rule hoare_sum, rule hoare_return, simp,
        rule hoare_bind [OF hoare_pre [OF create]])
      (auto intro!: hoare_return simp: placement_seen_def split: sum.splits)
  show ?thesis
    unfolding ensure_placement_def
  proof (intro hoare_bind [OF get] hoare_sum hoare_if)
    fix r :: "kerr + Placement" and e
    assume "r = Inl e" "\<not> e \<noteq> KNotFound"
    then show "hoare (pguard req (\<lambda>l. ?P l \<and> LPlacement (CGet ?key r) \<in> set l)) (create_placement api cluster)
       (\<lambda>r. pguard req (\<lambda>l. \<forall>p. r = Inr p \<longrightarrow> placement_seen p l))"
      using miss by simp
  qed (auto intro!: hoare_return simp: placement_seen_def)
qed

lemma hoare_bind_placement:
  "retry_ok api \<Longrightarrow> hoare (pguard req (placement_seen p)) (bind_placement lib api key) (\<lambda>_. pguard req (placement_seen p))"
  unfolding bind_placement_def
  by (rule hoare_status_retry [OF _ growing_placement stable_seen])
    (auto simp: placement_write_ok_def bound_status_def k_key_def simp del: split_paired_Ex split: if_splits)

lemma hoare_set_ref:
  "retry_ok api \<Longrightarrow> pr_ManagementCluster ref = ps_ManagementCluster (k_Spec p) \<Longrightarrow>
   hoare (pguard req (placement_seen p)) (set_placement_ref api key ref) (\<lambda>_. pguard req (placement_seen p))"
  unfolding set_placement_ref_def
  by (rule hoare_status_retry [OF _ growing_placement stable_seen])
    (auto simp: placement_write_ok_def)

lemma hoare_adopt:
  assumes "retry_ok api"
  shows "hoare (pguard req (placement_seen placement)) (adopt_placement lib api cluster placement)
     (\<lambda>_. justified (placement_write_ok req))"
  unfolding adopt_placement_def Let_def fail_def
  by (intro hoare_bind [where R = "\<lambda>_. pguard req (placement_seen placement)"] hoare_if hoare_option
      hoare_bind_placement [OF assms] hoare_set_ref [OF assms]) (auto intro!: hoare_return)

lemma hoare_placement:
  assumes "retry_ok api"
  shows "hoare (justified (placement_write_ok req)) (placement_Reconcile lib api req) (\<lambda>_. justified (placement_write_ok req))"
  unfolding placement_Reconcile_def
proof (intro hoare_bind [where m = "kGet (clusters api) req" and R = "\<lambda>r. pguard req (\<lambda>l. LCluster (CGet req r) \<in> set l)"] hoare_sum hoare_if)
  show "hoare (justified (placement_write_ok req)) (kGet (clusters api) req) (\<lambda>r. pguard req (\<lambda>l. LCluster (CGet req r) \<in> set l))"
    unfolding kGet_def by (rule hoare_weaken [OF hoare_justified_call [OF growing_placement stable_True]]) (auto simp: placement_write_ok_def)
  fix r :: "kerr + Cluster" and c
  assume r: "r = Inr c" and c: "\<not> km_Deletion c \<noteq> None"
  show "hoare (pguard req (\<lambda>l. LCluster (CGet req r) \<in> set l)) (do {
           p \<leftarrow> ensure_placement api c;
           case p of Inl res \<Rightarrow> State_Monad.return res | Inr placement \<Rightarrow> adopt_placement lib api c placement })
     (\<lambda>_. justified (placement_write_ok req))"
    unfolding r by (rule hoare_bind [OF hoare_ensure], use c in simp, rule hoare_sum, rule hoare_return, simp,
        rule hoare_pre [OF hoare_adopt [OF assms]]) simp
qed (auto simp: ignore_not_found_def intro!: hoare_return)

text \<open>
  C12 (safety). A cluster keeps its management cluster. Whatever the clients answer, a placement
  reconcile creates a placement only for a live cluster whose placement was reported missing and on
  a listed management cluster that is not a test cluster; it never updates or deletes a placement,
  and a status write repeats the spec and version that were read, so an assignment never changes;
  and what it writes into the cluster's status is the management cluster of a placement that was
  read or created.
\<close>

theorem placement_never_reassigned:
  assumes "retry_ok api" "op_log s = []" "run_state (placement_Reconcile lib api req) s = (res, s')" "e \<in> set (op_log s')"
  shows "placement_write_ok req (op_log s') e"
  using hoareD [OF hoare_placement [OF assms(1)] _ assms(3)] assms(2,4) by (auto simp: justified_def)

definition ex_mc :: ManagementCluster where
  "ex_mc = \<lparr>km_Name = ''mc1'', km_Namespace = [], km_UID = ''m'', km_RV = 1, km_Generation = 1, km_Labels = [],
     km_Annotations = [], km_OwnerReferences = [], km_Finalizers = [], km_CreationTimestamp = 1, km_Deletion = None,
     k_Spec = JNull, k_Status = JNull\<rparr>"

theorem placement_never_reassigned_witness:
  "let api = ex_api\<lparr>api_cluster := ex_kind (Some ex_cluster), api_mc := ex_kind (Some ex_mc)\<rparr>;
       x = new_placement ex_cluster ''mc1'';
       l = op_log (snd (run_state (placement_Reconcile ex_klib api (''cluster-ab12'', ''prod'')) \<lparr>op_world = (), op_log = [], op_router = []\<rparr>))
   in LPlacement (CCreate x (Inr x)) \<in> set l \<and> placement_write_ok (''cluster-ab12'', ''prod'') l (LPlacement (CCreate x (Inr x)))"
proof -
  let ?api = "ex_api\<lparr>api_cluster := ex_kind (Some ex_cluster), api_mc := ex_kind (Some ex_mc)\<rparr>"
  let ?x = "new_placement ex_cluster ''mc1''"
  let ?run = "run_state (placement_Reconcile ex_klib ?api (''cluster-ab12'', ''prod'')) \<lparr>op_world = (), op_log = [], op_router = []\<rparr>"
  have k: "k_key ex_cluster = (''cluster-ab12'', ''prod'')" "km_Deletion ex_cluster = None" "km_Name ex_mc = ''mc1''"
      "pt_Phase (k_Status ?x) = []" "ct_PlacementRef (k_Status ex_cluster) = None"
    by (simp_all add: ex_cluster_def k_key_def ex_mc_def new_placement_def zero_placement_status_def)
  have api: "api_cluster ?api = ex_kind (Some ex_cluster)" "api_placement ?api = ex_kind None" "api_retry ?api = attempts 1"
      "api_mc ?api = ex_kind (Some ex_mc)"
    by (simp_all add: ex_api_def)
  have e: "LPlacement (CCreate ?x (Inr ?x)) \<in> set (op_log (snd ?run))"
    by (simp add: placement_Reconcile_def ensure_placement_def create_placement_def selectManagementCluster_def adopt_placement_def
        bind_placement_def set_placement_ref_def PlacementPhaseBound_def has_prefix_def Let_def k api run_ex)
  from placement_never_reassigned [OF _ _ prod.collapse [symmetric] e] e show ?thesis
    unfolding Let_def by (simp add: ex_retry_ok api)
qed

end
