(* ===== verification/ClusterCtl.thy ===== *)
theory ClusterCtl
  imports PlacementCtl
begin

text \<open>
  \<open>hyperfleet-operator/internal/controller/cluster_controller.go\<close>: desires for the resources of a
  cluster, feedback from their statuses, and deletion behind a finalizer.
\<close>

definition clusterFinalizer :: string where "clusterFinalizer = ''hyperfleet.io/cluster''"

definition taskKey :: string where "taskKey = ''hyperfleet-operator''"

definition statusRefreshDelay :: int where "statusRefreshDelay = 300"

definition accountIDLabel :: string where "accountIDLabel = ''hyperfleet.io/account-id''"

text \<open>What the code gets from elsewhere: configuration, UUIDs, JSON codecs of foreign types.\<close>

record hc_status =
  hc_Conditions :: "Condition list"
  hc_History :: "string list"
  hc_ControlPlaneEndpoint :: APIEndpoint

record op_cfg =
  oc_lib :: klib
  oc_uuid5 :: "string \<Rightarrow> string"
  oc_marshal :: "Object \<Rightarrow> string + json"
  oc_toHostedClusterSpec :: "json \<Rightarrow> string + HostedClusterSpec"
  oc_toNodePoolSpec :: "json \<Rightarrow> string + HNodePoolSpec"
  oc_decode_hc :: "json \<Rightarrow> hc_status"               \<comment> \<open>what \<open>json.Unmarshal\<close> leaves in the variable\<close>
  oc_decode_np :: "json \<Rightarrow> Condition list option"   \<comment> \<open>\<open>None\<close>: \<open>json.Unmarshal\<close> failed\<close>
  oc_RegionalConfig :: RegionalConfig
  oc_EventRouter :: bool

definition docid :: "op_cfg \<Rightarrow> string \<Rightarrow> ResourceReference \<Rightarrow> string" where
  "docid cfg key t = NewDocumentID (oc_uuid5 cfg) key (rr_Group t) (rr_Version t) (rr_Resource t) (rr_Namespace t) (rr_Name t)"

definition target :: "RResource \<Rightarrow> ResourceReference" where
  "target m = \<lparr>rr_Group = re_Group m, rr_Version = re_Version m, rr_Resource = re_Resource m,
     rr_Namespace = re_Namespace m, rr_Name = re_Name m\<rparr>"

definition register :: "op_cfg \<Rightarrow> string \<Rightarrow> controller_name \<Rightarrow> nskey \<Rightarrow> ('w, unit) prog" where
  "register cfg d c k = (if oc_EventRouter cfg then Register d c k else State_Monad.return ())"

definition deregister :: "op_cfg \<Rightarrow> string \<Rightarrow> ('w, unit) prog" where
  "deregister cfg d = (if oc_EventRouter cfg then Deregister d else State_Monad.return ())"

definition oidcSigningKeyExternal :: "'w operator_api \<Rightarrow> Cluster \<Rightarrow> ('w, kerr + bool) prog" where
  "oidcSigningKeyExternal api cluster =
     (let accountID = map_label (km_Labels cluster) accountIDLabel
      in if cs_OidcConfigID (k_Spec cluster) = [] \<or> accountID = [] then State_Monad.return (Inr False)
         else do {
           r \<leftarrow> kGet (oidcconfigs api) (''account-'' @ accountID, cs_OidcConfigID (k_Spec cluster));
           State_Monad.return (case r of
               Inl e \<Rightarrow> if e = KNotFound then Inr False else Inl e
             | Inr oc \<Rightarrow> Inr (os_Type (k_Spec oc) = OidcConfigTypeUnmanaged)) })"

text \<open>Phase and condition of the status. Their errors are only logged.\<close>

definition setPhase :: "'w operator_api \<Rightarrow> Cluster \<Rightarrow> string \<Rightarrow> ('w, unit) prog" where
  "setPhase api cluster phase =
     (if ct_Phase (k_Status cluster) = phase then State_Monad.return ()
      else do {
        _ \<leftarrow> status_retry api (clusters api) (k_key cluster) (\<lambda>latest.
               if ct_Phase (k_Status latest) = phase then None
               else Some (latest\<lparr>k_Status := (k_Status latest)\<lparr>ct_Phase := phase, ct_ObservedGeneration := km_Generation latest\<rparr>\<rparr>));
        State_Monad.return () })"

definition setSyncedCondition :: "klib \<Rightarrow> 'w operator_api \<Rightarrow> Cluster \<Rightarrow> Condition \<Rightarrow> ('w, unit) prog" where
  "setSyncedCondition lib api cluster cond = do {
     _ \<leftarrow> status_retry api (clusters api) (k_key cluster) (\<lambda>latest.
            Some (latest\<lparr>k_Status := (k_Status latest)\<lparr>ct_Conditions := SetStatusCondition lib (ct_Conditions (k_Status latest)) cond\<rparr>\<rparr>));
     State_Monad.return () }"

text \<open>The desires of a rendered resource.\<close>

definition apply_desire :: "ApplyDesireType \<Rightarrow> string \<Rightarrow> string \<Rightarrow> ResourceReference \<Rightarrow> json option \<Rightarrow> ApplyDesireSpec" where
  "apply_desire ty mc clusterID t content =
     \<lparr>ads_Type = ty, ads_ManagementCluster = mc, ads_ClusterID = clusterID, ads_TargetItem = t, ads_KubeContent = content\<rparr>"

definition hc_target :: "Cluster \<Rightarrow> ResourceReference" where
  "hc_target cluster = \<lparr>rr_Group = ''hypershift.openshift.io'', rr_Version = ''v1beta1'', rr_Resource = ''hostedclusters'',
     rr_Namespace = km_Namespace cluster, rr_Name = km_Name cluster\<rparr>"

definition upsert_resource :: "op_cfg \<Rightarrow> 'w operator_api \<Rightarrow> nskey \<Rightarrow> string \<Rightarrow> string \<Rightarrow> RResource \<Rightarrow> ('w, rerror + DesireStatusEntry) prog" where
  "upsert_resource cfg api req mc clusterID m =
     (let d = docid cfg taskKey (target m)
      in case oc_marshal cfg (re_Object m) of
           Inl e \<Rightarrow> State_Monad.return (Inl (RText (''marshal resource '' @ re_Name m @ '': '' @ e)))
         | Inr content \<Rightarrow> do {
             r \<leftarrow> upsertApply api (SpecsPrefix mc) d (apply_desire ServerSideApply mc clusterID (target m) (Some content));
             case r of
               Inl e \<Rightarrow> State_Monad.return (Inl (RText (''upsert apply desire '' @ re_Name m @ '': '' @ e)))
             | Inr res \<Rightarrow> do {
                 _ \<leftarrow> register cfg d ClusterController req;
                 State_Monad.return (Inr \<lparr>en_DocID = d, en_Resource = re_Resource m, en_Name = re_Name m,
                                          en_DesireUpdateTime = UpdateTime res\<rparr>) } })"

definition upsert_read :: "op_cfg \<Rightarrow> 'w operator_api \<Rightarrow> nskey \<Rightarrow> string \<Rightarrow> string \<Rightarrow> Cluster \<Rightarrow> ('w, rerror + unit) prog" where
  "upsert_read cfg api req mc clusterID cluster =
     (let d = docid cfg (taskKey @ ''-read'') (hc_target cluster)
      in do {
        r \<leftarrow> upsertRead api (SpecsPrefix mc) d
               \<lparr>rds_ManagementCluster = mc, rds_ClusterID = clusterID, rds_TargetItem = hc_target cluster\<rparr>;
        case r of
          Inl e \<Rightarrow> State_Monad.return (Inl (RText (''upsert read desire: '' @ e)))
        | Inr _ \<Rightarrow> do { _ \<leftarrow> register cfg d ClusterController req; State_Monad.return (Inr ()) } })"

text \<open>The first error of the results, or all of them.\<close>

fun collect :: "('e + 'a) list \<Rightarrow> 'e + 'a list" where
  "collect [] = Inr []"
| "collect (Inl e # rs) = Inl e"
| "collect (Inr x # rs) = map_sum id ((#) x) (collect rs)"

definition is_Some :: "'a option \<Rightarrow> bool" where
  "is_Some x \<longleftrightarrow> x \<noteq> None"

definition cluster_feedback ::
  "op_cfg \<Rightarrow> Condition option \<Rightarrow> json option \<Rightarrow> Cluster \<Rightarrow> Cluster"
where
  "cluster_feedback cfg syncedCond content latest =
     (let lib = oc_lib cfg;
          st0 = k_Status latest;
          st1 = (case syncedCond of None \<Rightarrow> st0 | Some c \<Rightarrow> st0\<lparr>ct_Conditions := SetStatusCondition lib (ct_Conditions st0) c\<rparr>);
          st2 = (case content of
                   None \<Rightarrow> st1
                 | Some raw \<Rightarrow>
                     (let hc = oc_decode_hc cfg raw;
                          conds = foldl (\<lambda>cs c. if cd_Type c = ''Available'' \<or> cd_Type c = ''Degraded'' then SetStatusCondition lib cs c else cs)
                                    (ct_Conditions st1) (hc_Conditions hc);
                          a = st1\<lparr>ct_Conditions := conds\<rparr>;
                          b = (if ep_Host (hc_ControlPlaneEndpoint hc) \<noteq> [] then a\<lparr>ct_ControlPlaneEndpoint := hc_ControlPlaneEndpoint hc\<rparr> else a)
                      in case hc_History hc of [] \<Rightarrow> b | v # _ \<Rightarrow> b\<lparr>ct_Version := v\<rparr>));
          st3 = (if IsStatusConditionTrue lib (ct_Conditions st2) ''Available'' \<and> \<not> IsStatusConditionTrue lib (ct_Conditions st2) ''Degraded''
                 then st2\<lparr>ct_Phase := ClusterPhaseReady\<rparr>
                 else if ct_Phase st2 = [] \<or> ct_Phase st2 = ClusterPhaseWaitingForPlacement then st2\<lparr>ct_Phase := ClusterPhaseProvisioning\<rparr>
                 else st2)
      in latest\<lparr>k_Status := st3\<lparr>ct_ObservedGeneration := km_Generation latest\<rparr>\<rparr>)"

definition updateStatusFromDynamo ::
  "op_cfg \<Rightarrow> 'w operator_api \<Rightarrow> Cluster \<Rightarrow> string \<Rightarrow> string \<Rightarrow> DesireStatusEntry list \<Rightarrow> ('w, unit) prog"
where
  "updateStatusFromDynamo cfg api cluster statusPrefix readDocID applyEntries = do {
     r \<leftarrow> readStatus api statusPrefix readDocID;
     cond \<leftarrow> (if applyEntries = [] then State_Monad.return None
              else do { c \<leftarrow> CheckApplyDesireStatuses (oc_lib cfg) api statusPrefix applyEntries (km_Generation cluster);
                        State_Monad.return (Some c) });
     _ \<leftarrow> status_retry api (clusters api) (k_key cluster) (\<lambda>latest.
            Some (cluster_feedback cfg cond (case r of Inl _ \<Rightarrow> None | Inr st \<Rightarrow> rs_KubeContent st) latest));
     State_Monad.return () }"

text \<open>The part of \<open>Reconcile\<close> after the placement is known.\<close>

definition cluster_apply :: "op_cfg \<Rightarrow> 'w operator_api \<Rightarrow> nskey \<Rightarrow> Cluster \<Rightarrow> string \<Rightarrow> ('w, reconcile_result) prog" where
  "cluster_apply cfg api req cluster mc = do {
     ext \<leftarrow> oidcSigningKeyExternal api cluster;
     case ext of
       Inl e \<Rightarrow> fail e
     | Inr external \<Rightarrow>
         (case ClusterResources (oc_toHostedClusterSpec cfg) cluster external (oc_RegionalConfig cfg) of
            Inl e \<Rightarrow> State_Monad.return (Inl (RText (''render cluster resources: '' @ e)))
          | Inr resources \<Rightarrow>
              (let clusterID = ClusterIDFromNamespace (km_Namespace cluster)
               in do {
                 results \<leftarrow> State_Monad.traverse_list (upsert_resource cfg api req mc clusterID) resources;
                 rd \<leftarrow> upsert_read cfg api req mc clusterID cluster;
                 case rd of
                   Inl e \<Rightarrow> State_Monad.return (Inl e)
                 | Inr _ \<Rightarrow>
                     (case collect results of
                        Inl e \<Rightarrow> State_Monad.return (Inl e)
                      | Inr entries \<Rightarrow> do {
                          _ \<leftarrow> updateStatusFromDynamo cfg api cluster (StatusPrefix mc) (docid cfg (taskKey @ ''-read'') (hc_target cluster)) entries;
                          t \<leftarrow> now api;
                          State_Monad.return (Inr (Some (case cs_ExpirationTimestamp (k_Spec cluster) of
                              None \<Rightarrow> statusRefreshDelay
                            | Some x \<Rightarrow> if 0 < x - t \<and> x - t < statusRefreshDelay then x - t else statusRefreshDelay))) }) })) }"

section \<open>Deletion\<close>

definition cleanupAndRemoveFinalizer :: "op_cfg \<Rightarrow> 'w operator_api \<Rightarrow> Cluster \<Rightarrow> ('w, reconcile_result) prog" where
  "cleanupAndRemoveFinalizer cfg api cluster = do {
     p \<leftarrow> kGet (placements api) (km_Namespace cluster, placement_name cluster);
     d \<leftarrow> (case p of Inl _ \<Rightarrow> State_Monad.return None | Inr placement \<Rightarrow> kDelete (placements api) placement);
     case Option.bind d IgnoreNotFound of
       Some e \<Rightarrow> fail e
     | None \<Rightarrow> do {
         u \<leftarrow> remove_finalizer_retry (oc_lib cfg) api (clusters api) (k_key cluster) clusterFinalizer;
         case u of Some e \<Rightarrow> fail e | None \<Rightarrow> State_Monad.return done_result } }"

text \<open>Delete the node pools that are not dying yet; the result counts all of them.\<close>

fun delete_nodepools :: "'w operator_api \<Rightarrow> NodePool list \<Rightarrow> nat \<Rightarrow> ('w, kerr + nat) prog" where
  "delete_nodepools api [] n = State_Monad.return (Inr n)"
| "delete_nodepools api (np # nps) n = do {
     d \<leftarrow> (if km_Deletion np = None then kDelete (nodepools api) np else State_Monad.return None);
     case Option.bind d IgnoreNotFound of
       Some e \<Rightarrow> State_Monad.return (Inl e)
     | None \<Rightarrow> delete_nodepools api nps (n + 1) }"

text \<open>An error comes with the name of the resource, which the caller puts in its message.\<close>

definition upsert_delete :: "op_cfg \<Rightarrow> 'w operator_api \<Rightarrow> string \<Rightarrow> string \<Rightarrow> RResource \<Rightarrow> ('w, (string \<times> string) + DesireStatusEntry) prog" where
  "upsert_delete cfg api mc clusterID m =
     (let d = docid cfg taskKey (target m)
      in do {
        r \<leftarrow> upsertApply api (SpecsPrefix mc) d (apply_desire DeleteDesire mc clusterID (target m) None);
        State_Monad.return (case r of
            Inl e \<Rightarrow> Inl (re_Name m, e)
          | Inr res \<Rightarrow> Inr \<lparr>en_DocID = d, en_Resource = re_Resource m, en_Name = re_Name m, en_DesireUpdateTime = UpdateTime res\<rparr>) })"

text \<open>The clean-up of the desire specs: errors are only logged.\<close>

definition drop_desires :: "op_cfg \<Rightarrow> 'w operator_api \<Rightarrow> string \<Rightarrow> Cluster \<Rightarrow> RResource list \<Rightarrow> ('w, unit) prog" where
  "drop_desires cfg api mc cluster resources = do {
     _ \<leftarrow> deleteDesire api (SpecsPrefix mc) ''-readdesires'' (docid cfg (taskKey @ ''-read'') (hc_target cluster));
     _ \<leftarrow> State_Monad.traverse_list (\<lambda>m. deleteDesire api (SpecsPrefix mc) ''-applydesires'' (docid cfg taskKey (target m))) resources;
     State_Monad.return () }"

definition resolve_mc :: "'w operator_api \<Rightarrow> Cluster \<Rightarrow> ('w, string) prog" where
  "resolve_mc api cluster =
     (case ct_PlacementRef (k_Status cluster) of
        Some ref \<Rightarrow> State_Monad.return (pr_ManagementCluster ref)
      | None \<Rightarrow> do {
          p \<leftarrow> kGet (placements api) (km_Namespace cluster, placement_name cluster);
          State_Monad.return (case p of Inl _ \<Rightarrow> [] | Inr placement \<Rightarrow> ps_ManagementCluster (k_Spec placement)) })"

text \<open>The part of \<open>reconcileDelete\<close> with a management cluster, after the node pools.\<close>

definition delete_resources :: "op_cfg \<Rightarrow> 'w operator_api \<Rightarrow> Cluster \<Rightarrow> string \<Rightarrow> nat \<Rightarrow> ('w, reconcile_result) prog" where
  "delete_resources cfg api cluster mc pendingNodePools = do {
     ext \<leftarrow> oidcSigningKeyExternal api cluster;
     case ext of
       Inl e \<Rightarrow> fail e
     | Inr external \<Rightarrow>
         (case ClusterResources (oc_toHostedClusterSpec cfg) cluster external (oc_RegionalConfig cfg) of
            Inl e \<Rightarrow> State_Monad.return (Inl (RText (''render cluster resources: '' @ e)))
          | Inr resources \<Rightarrow> do {
              results \<leftarrow> State_Monad.traverse_list (upsert_delete cfg api mc (ClusterIDFromNamespace (km_Namespace cluster))) resources;
              case collect results of
                Inl e \<Rightarrow> State_Monad.return (Inl (RText (''upsert delete desire for '' @ fst e @ '': '' @ snd e)))
              | Inr entries \<Rightarrow> do {
                  cond \<leftarrow> CheckApplyDesireStatuses (oc_lib cfg) api (StatusPrefix mc) entries (km_Generation cluster);
                  _ \<leftarrow> setSyncedCondition (oc_lib cfg) api cluster cond;
                  if cd_Status cond \<noteq> ''True'' then State_Monad.return (Inr (Some 5))
                  else if 0 < pendingNodePools then State_Monad.return (Inr (Some 5))
                  else do {
                    _ \<leftarrow> drop_desires cfg api mc cluster resources;
                    cleanupAndRemoveFinalizer cfg api cluster } } }) }"

definition cluster_reconcileDelete :: "op_cfg \<Rightarrow> 'w operator_api \<Rightarrow> Cluster \<Rightarrow> ('w, reconcile_result) prog" where
  "cluster_reconcileDelete cfg api cluster =
     (if \<not> ContainsFinalizer (oc_lib cfg) (km_Finalizers cluster) clusterFinalizer then State_Monad.return done_result
      else do {
        _ \<leftarrow> setPhase api cluster ClusterPhaseDeleting;
        mc \<leftarrow> resolve_mc api cluster;
        if mc = [] then cleanupAndRemoveFinalizer cfg api cluster
        else do {
          l \<leftarrow> kList (nodepools api) (Some (km_Namespace cluster)) [];
          case l of
            Inl e \<Rightarrow> fail e
          | Inr nps \<Rightarrow> do {
              d \<leftarrow> delete_nodepools api nps 0;
              case d of Inl e \<Rightarrow> fail e | Inr pending \<Rightarrow> delete_resources cfg api cluster mc pending } } })"

section \<open>Reconcile\<close>

text \<open>After the finalizer and the expiration: wait for the placement, then apply.\<close>

definition cluster_place :: "op_cfg \<Rightarrow> 'w operator_api \<Rightarrow> nskey \<Rightarrow> Cluster \<Rightarrow> ('w, reconcile_result) prog" where
  "cluster_place cfg api req cluster = do {
     p \<leftarrow> kGet (placements api) (km_Namespace cluster, placement_name cluster);
     case p of
       Inl e \<Rightarrow>
         if e = KNotFound then do {
           _ \<leftarrow> setPhase api cluster ClusterPhaseWaitingForPlacement;
           State_Monad.return (Inr (Some 5)) }
         else fail e
     | Inr placement \<Rightarrow>
         if pt_Phase (k_Status placement) \<noteq> PlacementPhaseBound then State_Monad.return (Inr (Some 5))
         else cluster_apply cfg api req cluster (ps_ManagementCluster (k_Spec placement)) }"

text \<open>A cluster that is not being deleted: finalizer and expiration first.\<close>

definition cluster_live :: "op_cfg \<Rightarrow> 'w operator_api \<Rightarrow> nskey \<Rightarrow> Cluster \<Rightarrow> ('w, reconcile_result) prog" where
  "cluster_live cfg api req cluster =
     (if \<not> ContainsFinalizer (oc_lib cfg) (km_Finalizers cluster) clusterFinalizer then do {
        u \<leftarrow> kUpdate (clusters api) (cluster\<lparr>km_Finalizers := AddFinalizer (oc_lib cfg) (km_Finalizers cluster) clusterFinalizer\<rparr>);
        case u of Inl e \<Rightarrow> ignore_not_found e | Inr _ \<Rightarrow> State_Monad.return done_result }
      else do {
        t \<leftarrow> now api;
        if (case cs_ExpirationTimestamp (k_Spec cluster) of None \<Rightarrow> False | Some x \<Rightarrow> x < t) then do {
          d \<leftarrow> kDelete (clusters api) cluster;
          case d of Some e \<Rightarrow> ignore_not_found e | None \<Rightarrow> State_Monad.return done_result }
        else cluster_place cfg api req cluster })"

definition cluster_Reconcile :: "op_cfg \<Rightarrow> 'w operator_api \<Rightarrow> nskey \<Rightarrow> ('w, reconcile_result) prog" where
  "cluster_Reconcile cfg api req = do {
     r \<leftarrow> kGet (clusters api) req;
     case r of
       Inl e \<Rightarrow> ignore_not_found e
     | Inr cluster \<Rightarrow>
         if km_Deletion cluster \<noteq> None then cluster_reconcileDelete cfg api cluster
         else cluster_live cfg api req cluster }"

end
