(* ===== verification/DesireLog.thy ===== *)
theory DesireLog
  imports ClusterCtl
begin

text \<open>
  What the log of a reconcile says about desires. The controllers of clusters, node pools and
  manifests delete in the same way: a delete desire per resource, a look at the statuses, and the
  finalizer goes once every status confirms. The facts shared by their proofs are here.
\<close>

lemma hoare_guard: "stable P \<Longrightarrow> adds A m \<Longrightarrow> hoare (\<lambda>l. list_all A l \<and> P l) m (\<lambda>_ l. list_all A l \<and> P l)"
  by (auto intro!: hoare_adds simp: stable_def)

lemma stable_in: "stable (\<lambda>l. e \<in> set l)"
  by (simp add: stable_def)

lemma adds_register: "adds P (register cfg d c k)" "adds P (deregister cfg d)"
  unfolding register_def deregister_def by (intro adds_rules)+

lemma collect_Inr: "collect rs = Inr xs \<longleftrightarrow> rs = map Inr xs"
proof (induction rs arbitrary: xs)
  case (Cons r rs)
  then show ?case by (cases r; cases xs; cases "collect rs") auto
qed auto

text \<open>The deletion of a resource was written to its desire, and a status at least as new as that
  write reports success.\<close>

definition deletion_confirmed :: "op_cfg \<Rightarrow> string \<Rightarrow> string \<Rightarrow> string \<Rightarrow> log_entry list \<Rightarrow> ResourceReference \<Rightarrow> bool" where
  "deletion_confirmed cfg key mc clusterID l t \<longleftrightarrow>
     (\<exists>res st. LUpsertApply (SpecsPrefix mc) (docid cfg key t) (apply_desire DeleteDesire mc clusterID t None) (Inr res) \<in> set l
       \<and> LApplyStatus (StatusPrefix mc) (docid cfg key t) st \<in> set l
       \<and> confirmed (FindStatusCondition (oc_lib cfg)) (kl_successful (oc_lib cfg))
           \<lparr>en_DocID = docid cfg key t, en_Resource = rr_Resource t, en_Name = rr_Name t,
            en_DesireUpdateTime = UpdateTime res\<rparr> st)"

lemma stable_confirmed: "stable (\<lambda>l. deletion_confirmed cfg key mc cid l t)"
  by (auto simp: stable_def deletion_confirmed_def)

text \<open>The statuses read for the entries; the condition is true only if each of them confirms.\<close>

lemma hoare_check:
  "hoare P (CheckApplyDesireStatuses lib api p es g) (\<lambda>c l. cd_Status c = ''True'' \<longrightarrow>
     (\<forall>e \<in> set es. \<exists>st. LApplyStatus p (en_DocID e) st \<in> set l \<and> confirmed (FindStatusCondition lib) (kl_successful lib) e st))"
proof -
  let ?R = "\<lambda>e st l. LApplyStatus p (en_DocID e) st \<in> set l"
  have "hoare (\<lambda>_. True) (State_Monad.traverse_list (\<lambda>e. applyStatus api p (en_DocID e)) es)
      (\<lambda>rs l. True \<and> list_all2 (\<lambda>e st. ?R e st l) es rs)"
    by (rule hoare_traverse [where A = "\<lambda>_. True"])
      (auto simp: applyStatus_def stable_def intro!: hoare_call adds_call)
  then have tr: "hoare P (State_Monad.traverse_list (\<lambda>e. applyStatus api p (en_DocID e)) es)
      (\<lambda>rs l. list_all2 (\<lambda>e st. ?R e st l) es rs)"
    by (rule hoare_weaken) auto
  have conf: "\<exists>st. ?R e st l \<and> confirmed (FindStatusCondition lib) (kl_successful lib) e st"
    if rs: "list_all2 (\<lambda>e st. ?R e st l) es rs"
      and ok: "cd_Status (synced_condition (map2 (entry_outcome (FindStatusCondition lib) (kl_successful lib)) es rs) g) = ''True''"
      and e: "e \<in> set es" for rs l e
  proof -
    obtain i where i: "i < length es" "e = es ! i" using e by (auto simp: in_set_conv_nth)
    have len: "length rs = length es" using rs by (simp add: list_all2_lengthD)
    have "entry_outcome (FindStatusCondition lib) (kl_successful lib) (es ! i) (rs ! i) = Synced"
      using ok i len by (auto simp: synced_condition_True list_all_length)
    then have "confirmed (FindStatusCondition lib) (kl_successful lib) e (rs ! i)" by (simp add: i outcome_Synced)
    moreover have "?R e (rs ! i) l" using rs i by (simp add: list_all2_conv_all_nth)
    ultimately show ?thesis by blast
  qed
  show ?thesis
    unfolding CheckApplyDesireStatuses_def by (rule hoare_bind [OF tr], rule hoare_return) (use conf in blast)
qed

definition upserted :: "op_cfg \<Rightarrow> string \<Rightarrow> string \<Rightarrow> string \<Rightarrow> log_entry list \<Rightarrow> ResourceReference \<Rightarrow> DesireStatusEntry \<Rightarrow> bool" where
  "upserted cfg key mc cid l t en \<longleftrightarrow>
     (\<exists>res. LUpsertApply (SpecsPrefix mc) (docid cfg key t) (apply_desire DeleteDesire mc cid t None) (Inr res) \<in> set l
       \<and> en = \<lparr>en_DocID = docid cfg key t, en_Resource = rr_Resource t, en_Name = rr_Name t,
              en_DesireUpdateTime = UpdateTime res\<rparr>)"

lemma upserted_append: "upserted cfg key mc cid l t en \<Longrightarrow> upserted cfg key mc cid (l @ es) t en"
  by (auto simp: upserted_def)

definition read_back :: "op_cfg \<Rightarrow> string \<Rightarrow> DesireStatusEntry list \<Rightarrow> log_entry list \<Rightarrow> bool" where
  "read_back cfg mc es l \<longleftrightarrow> (\<forall>e \<in> set es. \<exists>st. LApplyStatus (StatusPrefix mc) (en_DocID e) st \<in> set l
      \<and> confirmed (FindStatusCondition (oc_lib cfg)) (kl_successful (oc_lib cfg)) e st)"

lemma confirmedI:
  assumes "list_all2 (upserted cfg key mc cid l) ts es" "read_back cfg mc es l" "t \<in> set ts"
  shows "deletion_confirmed cfg key mc cid l t"
proof -
  obtain en where en: "en \<in> set es" "upserted cfg key mc cid l t en"
    using assms(1,3) by (metis in_set_conv_nth list_all2_conv_all_nth)
  obtain res where res: "LUpsertApply (SpecsPrefix mc) (docid cfg key t)
        (apply_desire DeleteDesire mc cid t None) (Inr res) \<in> set l"
      "en = \<lparr>en_DocID = docid cfg key t, en_Resource = rr_Resource t, en_Name = rr_Name t,
            en_DesireUpdateTime = UpdateTime res\<rparr>"
    using en(2) unfolding upserted_def by blast
  obtain st where st: "LApplyStatus (StatusPrefix mc) (en_DocID en) st \<in> set l"
      "confirmed (FindStatusCondition (oc_lib cfg)) (kl_successful (oc_lib cfg)) en st"
    using assms(2) en(1) unfolding read_back_def by blast
  show ?thesis
    unfolding deletion_confirmed_def using res st by (intro exI [of _ res] exI [of _ st]) simp
qed

lemma hoare_upsert_delete:
  "hoare P (upsert_delete cfg api mc cid m) (\<lambda>r l. \<forall>en. r = Inr en \<longrightarrow> upserted cfg taskKey mc cid l (target m) en)"
  unfolding upsert_delete_def Let_def upsertApply_def
  by (rule hoare_bind [where R = "\<lambda>r l. LUpsertApply (SpecsPrefix mc) (docid cfg taskKey (target m))
        (apply_desire DeleteDesire mc cid (target m) None) r \<in> set l"], rule hoare_call, simp)
    (auto intro!: hoare_return simp: upserted_def target_def split: sum.splits)

text \<open>The part of a deletion that the controllers share, over the entries \<open>keeps\<close> that give nothing up.\<close>

locale deletion_protocol =
  fixes keeps :: "log_entry \<Rightarrow> bool"
  assumes keeps_status: "keeps (LApplyStatus p d st)"
    and keeps_upsert: "keeps (LUpsertApply p d x ur)"
begin

lemma adds_upsert_delete: "adds keeps (upsert_delete cfg api mc cid m)"
  unfolding upsert_delete_def Let_def by (intro adds_rules) (rule keeps_upsert)

lemma adds_check_status: "adds keeps (CheckApplyDesireStatuses lib api p es g)"
  by (intro adds_rules) (rule keeps_status)

lemma hoare_upserts:
  assumes "stable P"
  shows "hoare (\<lambda>l. list_all keeps l \<and> P l) (State_Monad.traverse_list (upsert_delete cfg api mc cid) rs)
     (\<lambda>results l. list_all keeps l \<and> P l \<and> (\<forall>entries. results = map Inr entries \<longrightarrow> list_all2 (upserted cfg taskKey mc cid l) (map target rs) entries))"
proof -
  have "hoare (\<lambda>l. list_all keeps l \<and> P l) (State_Monad.traverse_list (upsert_delete cfg api mc cid) rs)
     (\<lambda>results l. (list_all keeps l \<and> P l) \<and> list_all2 (\<lambda>m r. \<forall>en. r = Inr en \<longrightarrow> upserted cfg taskKey mc cid l (target m) en) rs results)"
  proof (rule hoare_traverse [where A = keeps])
    fix m r
    show "hoare (\<lambda>l. list_all keeps l \<and> P l) (upsert_delete cfg api mc cid m)
        (\<lambda>r l. (list_all keeps l \<and> P l) \<and> (\<forall>en. r = Inr en \<longrightarrow> upserted cfg taskKey mc cid l (target m) en))"
      by (rule hoare_conj [OF hoare_guard [OF assms adds_upsert_delete] hoare_upsert_delete])
    show "stable (\<lambda>l. \<forall>en. r = Inr en \<longrightarrow> upserted cfg taskKey mc cid l (target m) en)" by (auto simp: stable_def upserted_def)
  qed (rule adds_upsert_delete)
  then show ?thesis
    by (rule hoare_weaken) (auto simp: list_all2_map1 list_all2_map2 elim: list_all2_mono)
qed

text \<open>Check the statuses, record the condition, go on: a true condition means that every deletion is
  confirmed.\<close>

lemma hoare_confirm:
  assumes "stable P" "\<And>c. adds keeps (sync c)"
    and k: "\<And>c x. hoare (\<lambda>l. list_all keeps l \<and> P l \<and> (cd_Status c = ''True'' \<longrightarrow> (\<forall>t \<in> set ts. deletion_confirmed cfg key mc cid l t))) (k c x) Q"
  shows "hoare (\<lambda>l. list_all keeps l \<and> P l \<and> list_all2 (upserted cfg key mc cid l) ts es)
     (do { c \<leftarrow> CheckApplyDesireStatuses (oc_lib cfg) api (StatusPrefix mc) es g; x \<leftarrow> sync c; k c x }) Q"
proof -
  have up: "stable (\<lambda>l. P l \<and> list_all2 (upserted cfg key mc cid l) ts es)"
    using assms(1) by (auto simp: stable_def intro: list_all2_mono upserted_append)
  have conf: "stable (\<lambda>l. P l \<and> (b \<longrightarrow> (\<forall>t \<in> set ts. deletion_confirmed cfg key mc cid l t)))" for b
    using assms(1) stable_confirmed [of cfg key mc cid] by (auto simp: stable_def)
  show ?thesis
    by (rule hoare_bind [OF hoare_conj [OF hoare_guard [OF up adds_check_status] hoare_check]],
        rule hoare_pre [OF hoare_bind [OF hoare_guard [OF conf assms(2)] k]])
      (auto intro: confirmedI simp: read_back_def)
qed

end

text \<open>A configuration for the examples.\<close>

definition ex_cfg :: op_cfg where
  "ex_cfg = \<lparr>oc_lib = ex_klib, oc_uuid5 = id, oc_marshal = (\<lambda>_. Inr JNull), oc_toHostedClusterSpec = (\<lambda>_. Inr ex_hosted),
     oc_toNodePoolSpec = (\<lambda>_. Inl ''unused''),
     oc_decode_hc = (\<lambda>_. \<lparr>hc_Conditions = [], hc_History = [], hc_ControlPlaneEndpoint = \<lparr>ep_Host = [], ep_Port = 0\<rparr>\<rparr>),
     oc_decode_np = (\<lambda>_. None), oc_RegionalConfig = \<lparr>rc_BaseDomain = ''example.com'', rc_AWSRegion = []\<rparr>, oc_EventRouter = True\<rparr>"

definition ex_dying :: Cluster where
  "ex_dying = ex_cluster\<lparr>km_Deletion := Some 9, k_Status := (k_Status ex_cluster)\<lparr>ct_PlacementRef :=
     Some \<lparr>pr_Name = ''prod-placement'', pr_ManagementCluster = ''mc1''\<rparr>\<rparr>\<rparr>"

definition ex_state :: "unit opstate" where
  "ex_state = \<lparr>op_world = (), op_log = [], op_router = []\<rparr>"

lemma ex_dying_fields:
  "km_Deletion ex_dying = Some 9" "km_Finalizers ex_dying = [clusterFinalizer]" "cs_OidcConfigID (k_Spec ex_dying) = []"
  "k_key ex_dying = (''cluster-ab12'', ''prod'')" "ct_Phase (k_Status ex_dying) = []"
  "ct_PlacementRef (k_Status ex_dying) = Some \<lparr>pr_Name = ''prod-placement'', pr_ManagementCluster = ''mc1''\<rparr>"
  by (simp_all add: ex_dying_def ex_cluster_def clusterFinalizer_def k_key_def)

lemma ex_cfg_fields: "oc_toHostedClusterSpec ex_cfg = (\<lambda>_. Inr ex_hosted)" "oc_lib ex_cfg = ex_klib"
  by (simp_all add: ex_cfg_def)

lemma collect_all [run_ex]: "collect (map (\<lambda>x. Inr (f x)) xs) = Inr (map f xs)"
  by (induction xs) simp_all

end
