(* ===== verification/ClusterProps.thy ===== *)
theory ClusterProps
  imports DesireLog
begin

text \<open>
  When the cluster controller lets go of a cluster. The statements hold for every answer of the
  clients, so for every fault and every interleaving.
\<close>

text \<open>An update that would drop the finalizer, and a log without one.\<close>

definition keeps_finalizer :: "log_entry \<Rightarrow> bool" where
  "keeps_finalizer e = (case e of LCluster (CUpdate x r) \<Rightarrow> clusterFinalizer \<in> set (km_Finalizers x) | _ \<Rightarrow> True)"

abbreviation clean :: "log_entry list \<Rightarrow> bool" where
  "clean l \<equiv> list_all keeps_finalizer l"

lemma adds_setPhase: "retry_ok api \<Longrightarrow> adds keeps_finalizer (setPhase api cluster phase)"
  unfolding setPhase_def by (intro adds_rules) (auto simp: keeps_finalizer_def)

lemma adds_setSynced: "retry_ok api \<Longrightarrow> adds keeps_finalizer (setSyncedCondition lib api cluster c)"
  unfolding setSyncedCondition_def by (intro adds_rules) (auto simp: keeps_finalizer_def)

lemma adds_oidc: "adds keeps_finalizer (oidcSigningKeyExternal api cluster)"
  unfolding oidcSigningKeyExternal_def Let_def by (intro adds_rules) (auto simp: keeps_finalizer_def)

lemma adds_apply: "retry_ok api \<Longrightarrow> adds keeps_finalizer (cluster_apply cfg api req cluster mc)"
  unfolding cluster_apply_def upsert_resource_def upsert_read_def updateStatusFromDynamo_def Let_def
  by (intro adds_rules adds_oidc adds_register) (auto simp: keeps_finalizer_def)

lemma adds_place: "retry_ok api \<Longrightarrow> adds keeps_finalizer (cluster_place cfg api req cluster)"
  unfolding cluster_place_def
  by (intro adds_rules adds_apply adds_setPhase) (auto simp: keeps_finalizer_def)

lemma adds_delete_nodepools: "adds keeps_finalizer (delete_nodepools api nps n)"
  by (induction nps arbitrary: n) (auto intro!: adds_rules simp: keeps_finalizer_def)

lemma adds_drop: "adds keeps_finalizer (drop_desires cfg api mc cluster rs)"
  unfolding drop_desires_def by (intro adds_rules) (simp_all add: keeps_finalizer_def)

lemma adds_cleanup: "retry_ok api \<Longrightarrow> adds (\<lambda>_. True) (cleanupAndRemoveFinalizer cfg api cluster)"
  unfolding cleanupAndRemoveFinalizer_def by (intro adds_rules) auto

section \<open>The justification of a removal\<close>

text \<open>No management cluster could be determined.\<close>

definition unplaced :: "Cluster \<Rightarrow> log_entry list \<Rightarrow> bool" where
  "unplaced cluster l =
     (case ct_PlacementRef (k_Status cluster) of
        Some ref \<Rightarrow> pr_ManagementCluster ref = []
      | None \<Rightarrow> \<exists>r. LPlacement (CGet (km_Namespace cluster, placement_name cluster) r) \<in> set l
                   \<and> (\<forall>p. r = Inr p \<longrightarrow> ps_ManagementCluster (k_Spec p) = []))"

definition torn_down :: "op_cfg \<Rightarrow> Cluster \<Rightarrow> log_entry list \<Rightarrow> bool" where
  "torn_down cfg cluster l \<longleftrightarrow>
     (\<exists>mc ext rs. LNodePool (CList (Some (km_Namespace cluster)) [] (Inr [])) \<in> set l
       \<and> ClusterResources (oc_toHostedClusterSpec cfg) cluster ext (oc_RegionalConfig cfg) = Inr rs
       \<and> (\<forall>t \<in> target ` set rs. deletion_confirmed cfg taskKey mc (ClusterIDFromNamespace (km_Namespace cluster)) l t))"

lemma stable_unplaced: "stable (unplaced cluster)"
  by (auto simp: stable_def unplaced_def split: option.splits)

lemma stable_torn_down: "stable (torn_down cfg cluster)"
  unfolding stable_def torn_down_def by (fastforce simp: deletion_confirmed_def)

lemma hoare_cleanup:
  assumes "retry_ok api" "stable P"
  shows "hoare P (cleanupAndRemoveFinalizer cfg api cluster) (\<lambda>_. P)"
  using assms adds_cleanup by (intro stable_keep)

lemma hoare_nodepools:
  "hoare P (delete_nodepools api nps n) (\<lambda>r l. case r of Inl _ \<Rightarrow> True | Inr k \<Rightarrow> k = n + length nps)"
proof (induction nps arbitrary: n P)
  case Nil
  show ?case by (simp add: hoare_return)
next
  case (Cons np nps)
  have any: "hoare P m (\<lambda>_ _. True)" for m :: "('w, kerr option) prog" by (simp add: hoare_def split: prod.splits)
  show ?case
    unfolding delete_nodepools.simps
  proof (rule hoare_bind [OF any], rule hoare_option)
    fix d :: "kerr option"
    show "hoare (\<lambda>_. True) (delete_nodepools api nps (n + 1)) (\<lambda>r l. case r of Inl _ \<Rightarrow> True | Inr k \<Rightarrow> k = n + length (np # nps))"
      by (rule hoare_weaken [OF Cons.IH]) (auto split: sum.splits)
  qed (simp add: hoare_return)
qed

definition emptied :: "Cluster \<Rightarrow> nat \<Rightarrow> log_entry list \<Rightarrow> bool" where
  "emptied cluster pending l \<longleftrightarrow> (pending = 0 \<longrightarrow> LNodePool (CList (Some (km_Namespace cluster)) [] (Inr [])) \<in> set l)"

lemma stable_emptied: "stable (emptied cluster pending)"
  by (simp add: stable_def emptied_def)

lemma hoare_stop: "hoare (\<lambda>l. clean l \<and> P l) (State_Monad.return x) (\<lambda>_ l. clean l \<or> torn_down cfg cluster l)"
  by (rule hoare_return) simp

definition finish_delete :: "op_cfg \<Rightarrow> 'w operator_api \<Rightarrow> Cluster \<Rightarrow> string \<Rightarrow> nat \<Rightarrow> RResource list \<Rightarrow> Condition \<Rightarrow> ('w, reconcile_result) prog" where
  "finish_delete cfg api cluster mc pending rs c =
     (if cd_Status c \<noteq> ''True'' then State_Monad.return (Inr (Some 5))
      else if 0 < pending then State_Monad.return (Inr (Some 5))
      else do { _ \<leftarrow> drop_desires cfg api mc cluster rs; cleanupAndRemoveFinalizer cfg api cluster })"

lemma hoare_finish_delete:
  assumes "retry_ok api" "ClusterResources (oc_toHostedClusterSpec cfg) cluster ext (oc_RegionalConfig cfg) = Inr rs"
  shows "hoare (\<lambda>l. clean l \<and> emptied cluster pending l \<and> (cd_Status c = ''True'' \<longrightarrow>
        (\<forall>t \<in> set (map target rs). deletion_confirmed cfg taskKey mc (ClusterIDFromNamespace (km_Namespace cluster)) l t)))
      (finish_delete cfg api cluster mc pending rs c) (\<lambda>_ l. clean l \<or> torn_down cfg cluster l)" (is "hoare ?P _ _")
  unfolding finish_delete_def
proof (intro hoare_if hoare_stop)
  assume c: "\<not> cd_Status c \<noteq> ''True''" "\<not> 0 < pending"
  have "torn_down cfg cluster l" if "?P l" for l
    using that c assms(2) unfolding torn_down_def emptied_def by fastforce
  then show "hoare ?P (do { _ \<leftarrow> drop_desires cfg api mc cluster rs; cleanupAndRemoveFinalizer cfg api cluster })
     (\<lambda>_ l. clean l \<or> torn_down cfg cluster l)"
    by (intro hoare_weaken [OF hoare_bind [OF stable_keep [OF stable_torn_down adds_drop] hoare_cleanup [OF assms(1) stable_torn_down]]]) auto
qed

interpretation cluster_deletion: deletion_protocol keeps_finalizer
  by unfold_locales (simp_all add: keeps_finalizer_def)

lemma hoare_delete_resources:
  assumes "retry_ok api"
  shows "hoare (\<lambda>l. clean l \<and> emptied cluster pending l) (delete_resources cfg api cluster mc pending)
    (\<lambda>_ l. clean l \<or> torn_down cfg cluster l)"
  unfolding delete_resources_def fail_def finish_delete_def [symmetric]
proof (rule hoare_bind [OF hoare_guard [OF stable_emptied adds_oidc]], intro hoare_sum hoare_stop)
  fix ext external rs
  assume rs: "ClusterResources (oc_toHostedClusterSpec cfg) cluster external (oc_RegionalConfig cfg) = Inr rs"
  note confirm = cluster_deletion.hoare_confirm [OF stable_emptied adds_setSynced [OF assms] hoare_finish_delete [OF assms rs]]
  show "hoare (\<lambda>l. clean l \<and> emptied cluster pending l)
     (do { results \<leftarrow> State_Monad.traverse_list (upsert_delete cfg api mc (ClusterIDFromNamespace (km_Namespace cluster))) rs;
           case collect results of Inl e \<Rightarrow> State_Monad.return (Inl (RText (''upsert delete desire for '' @ fst e @ '': '' @ snd e)))
           | Inr entries \<Rightarrow> do { cond \<leftarrow> CheckApplyDesireStatuses (oc_lib cfg) api (StatusPrefix mc) entries (km_Generation cluster);
               _ \<leftarrow> setSyncedCondition (oc_lib cfg) api cluster cond; finish_delete cfg api cluster mc pending rs cond } })
     (\<lambda>_ l. clean l \<or> torn_down cfg cluster l)"
    by (rule hoare_bind [OF cluster_deletion.hoare_upserts [OF stable_emptied]], intro hoare_sum)
      (auto simp: collect_Inr intro!: hoare_pre [OF confirm] hoare_return)
qed

section \<open>The whole reconcile\<close>

lemma hoare_resolve_mc:
  "hoare (\<lambda>l. clean l) (resolve_mc api cluster) (\<lambda>mc l. clean l \<and> (mc = [] \<longrightarrow> unplaced cluster l))"
proof (cases "ct_PlacementRef (k_Status cluster)")
  case None
  then show ?thesis
    unfolding resolve_mc_def kGet_def
    by (simp, intro hoare_bind [OF hoare_call [where Q = "\<lambda>r l. clean l \<and> LPlacement (CGet (km_Namespace cluster, placement_name cluster) r) \<in> set l"]] hoare_return)
      (auto simp: keeps_finalizer_def unplaced_def split: sum.splits)
qed (auto simp: resolve_mc_def unplaced_def intro!: hoare_return)

lemma hoare_reconcileDelete:
  assumes "retry_ok api"
  shows "hoare (\<lambda>l. clean l) (cluster_reconcileDelete cfg api cluster)
     (\<lambda>_ l. clean l \<or> unplaced cluster l \<or> torn_down cfg cluster l)"
proof -
  have phase: "hoare (\<lambda>l. clean l) (setPhase api cluster ClusterPhaseDeleting) (\<lambda>_ l. clean l)"
    using hoare_guard [of "\<lambda>_. True", OF _ adds_setPhase [OF assms]] by (simp add: stable_def)
  have gone: "hoare (\<lambda>l. clean l \<and> unplaced cluster l) (cleanupAndRemoveFinalizer cfg api cluster)
      (\<lambda>_ l. clean l \<or> unplaced cluster l \<or> torn_down cfg cluster l)"
    by (rule hoare_weaken [OF hoare_cleanup [OF assms stable_unplaced]]) auto
  have lst: "hoare (\<lambda>l. clean l) (kList (nodepools api) (Some (km_Namespace cluster)) [])
      (\<lambda>r l. clean l \<and> LNodePool (CList (Some (km_Namespace cluster)) [] r) \<in> set l)"
    unfolding kList_def by (rule hoare_call) (simp add: keeps_finalizer_def)
  have del: "hoare (\<lambda>l. clean l \<and> LNodePool (CList (Some (km_Namespace cluster)) [] (Inr nps)) \<in> set l)
      (delete_nodepools api nps 0) (\<lambda>r l. clean l \<and> (case r of Inl _ \<Rightarrow> True | Inr k \<Rightarrow> emptied cluster k l))" for nps
    by (rule hoare_weaken [OF hoare_conj [OF hoare_guard [OF stable_in adds_delete_nodepools] hoare_nodepools]])
      (auto simp: emptied_def split: sum.splits)
  have rest: "hoare (\<lambda>l. clean l \<and> (case Inr k of Inl _ \<Rightarrow> True | Inr k \<Rightarrow> emptied cluster k l)) (delete_resources cfg api cluster mc k)
      (\<lambda>_ l. clean l \<or> unplaced cluster l \<or> torn_down cfg cluster l)" for k mc
    by (rule hoare_weaken [OF hoare_delete_resources [OF assms]]) auto
  have body: "hoare (\<lambda>l. clean l) (do {
          l \<leftarrow> kList (nodepools api) (Some (km_Namespace cluster)) [];
          case l of
            Inl e \<Rightarrow> State_Monad.return (Inl (RKube e))
          | Inr nps \<Rightarrow> do {
              d \<leftarrow> delete_nodepools api nps 0;
              case d of Inl e \<Rightarrow> State_Monad.return (Inl (RKube e)) | Inr pending \<Rightarrow> delete_resources cfg api cluster mc pending } })
       (\<lambda>_ l. clean l \<or> unplaced cluster l \<or> torn_down cfg cluster l)" for mc
  proof (rule hoare_bind [OF lst], rule hoare_sum, rule hoare_return)
    fix r :: "kerr + NodePool list" and nps
    assume "r = Inr nps"
    then show "hoare (\<lambda>l. clean l \<and> LNodePool (CList (Some (km_Namespace cluster)) [] r) \<in> set l)
       (do { d \<leftarrow> delete_nodepools api nps 0;
             case d of Inl e \<Rightarrow> State_Monad.return (Inl (RKube e)) | Inr pending \<Rightarrow> delete_resources cfg api cluster mc pending })
       (\<lambda>_ l. clean l \<or> unplaced cluster l \<or> torn_down cfg cluster l)"
      by (simp only:, intro hoare_bind [OF del] hoare_sum) (auto intro!: hoare_return simp: rest simp del: sum.case)
  qed simp
  show ?thesis
    unfolding cluster_reconcileDelete_def fail_def
  proof (intro hoare_if hoare_bind [OF phase] hoare_bind [OF hoare_resolve_mc])
    fix mc :: string
    show "hoare (\<lambda>l. clean l \<and> (mc = [] \<longrightarrow> unplaced cluster l)) (cleanupAndRemoveFinalizer cfg api cluster)
        (\<lambda>_ l. clean l \<or> unplaced cluster l \<or> torn_down cfg cluster l)" if "mc = []"
      by (rule hoare_weaken [OF gone]) (simp_all add: that)
  qed (auto intro!: hoare_return hoare_weaken [OF body])
qed

lemma hoare_Reconcile:
  assumes "klib_ok (oc_lib cfg)" "retry_ok api"
  shows "hoare (\<lambda>l. clean l) (cluster_Reconcile cfg api req)
     (\<lambda>_ l. clean l \<or> (\<exists>cluster. LCluster (CGet req (Inr cluster)) \<in> set l \<and> km_Deletion cluster \<noteq> None
        \<and> (unplaced cluster l \<or> torn_down cfg cluster l)))" (is "hoare _ _ ?Q")
proof -
  have get: "hoare (\<lambda>l. clean l) (kGet (clusters api) req) (\<lambda>r l. clean l \<and> LCluster (CGet req r) \<in> set l)"
    unfolding kGet_def by (rule hoare_call) (simp add: keeps_finalizer_def)
  have del: "hoare (\<lambda>l. clean l \<and> LCluster (CGet req (Inr cluster)) \<in> set l) (cluster_reconcileDelete cfg api cluster) ?Q"
    if "km_Deletion cluster \<noteq> None" for cluster
  proof -
    have adds: "adds (\<lambda>_. True) (cluster_reconcileDelete cfg api cluster)"
      unfolding cluster_reconcileDelete_def delete_resources_def resolve_mc_def
      by (intro adds_rules assms(2) adds_cleanup adds_mono [OF adds_setPhase] adds_mono [OF adds_delete_nodepools]
          adds_mono [OF adds_oidc] adds_mono [OF cluster_deletion.adds_upsert_delete] adds_mono [OF adds_drop] adds_mono [OF adds_setSynced] TrueI)
    let ?e = "LCluster (CGet req (Inr cluster))"
    have "hoare (\<lambda>l. clean l \<and> ?e \<in> set l) (cluster_reconcileDelete cfg api cluster)
        (\<lambda>_ l. (clean l \<or> unplaced cluster l \<or> torn_down cfg cluster l) \<and> ?e \<in> set l)"
      by (rule hoare_conj) (auto intro: hoare_weaken [OF hoare_reconcileDelete [OF assms(2)]]
          hoare_weaken [OF stable_keep [OF stable_in [of ?e] adds]])
    then show ?thesis by (rule hoare_weaken) (use that in auto)
  qed
  have fin: "adds keeps_finalizer (kUpdate (clusters api) (c\<lparr>km_Finalizers := AddFinalizer (oc_lib cfg) (km_Finalizers c) clusterFinalizer\<rparr>))" for c
    using assms(1) by (intro adds_rules) (simp add: keeps_finalizer_def klib_ok_def)
  have live: "adds keeps_finalizer (cluster_live cfg api req c)" for c
    unfolding cluster_live_def
    by (intro adds_rules fin adds_place [OF assms(2)]) (simp add: keeps_finalizer_def)
  show ?thesis
    unfolding cluster_Reconcile_def
  proof (intro hoare_bind [OF get] hoare_sum)
    fix r :: "kerr + Cluster" and c
    assume r: "r = Inr c"
    show "hoare (\<lambda>l. clean l \<and> LCluster (CGet req r) \<in> set l)
      (if km_Deletion c \<noteq> None then cluster_reconcileDelete cfg api c else cluster_live cfg api req c) ?Q"
      unfolding r
      by (rule hoare_if [OF del], assumption,
          rule hoare_weaken [OF hoare_guard [OF stable_in [of "LCluster (CGet req (Inr c))"] live]]) auto
  qed (auto simp: ignore_not_found_def intro!: hoare_return)
qed



end
