(* ===== verification/NodePoolCtl.thy ===== *)
theory NodePoolCtl
  imports DesireLog
begin

text \<open>
  \<open>hyperfleet-operator/internal/controller/nodepool_controller.go\<close>: one desire per node pool on the
  management cluster of its cluster, feedback from its status, and deletion behind a finalizer.
\<close>

definition nodePoolFinalizer :: string where "nodePoolFinalizer = ''hyperfleet.io/nodepool''"

section \<open>Status\<close>

definition np_setPhase :: "'w operator_api \<Rightarrow> NodePool \<Rightarrow> string \<Rightarrow> ('w, unit) prog" where
  "np_setPhase api np phase =
     (if nt_Phase (k_Status np) = phase then State_Monad.return ()
      else do {
        _ \<leftarrow> status_retry api (nodepools api) (k_key np) (\<lambda>latest.
               if nt_Phase (k_Status latest) = phase then None
               else Some (latest\<lparr>k_Status := (k_Status latest)\<lparr>nt_Phase := phase, nt_ObservedGeneration := km_Generation latest\<rparr>\<rparr>));
        State_Monad.return () })"

definition np_setSyncedCondition :: "klib \<Rightarrow> 'w operator_api \<Rightarrow> NodePool \<Rightarrow> Condition \<Rightarrow> ('w, unit) prog" where
  "np_setSyncedCondition lib api np cond = do {
     _ \<leftarrow> status_retry api (nodepools api) (k_key np) (\<lambda>latest.
            Some (latest\<lparr>k_Status := (k_Status latest)\<lparr>nt_Conditions := SetStatusCondition lib (nt_Conditions (k_Status latest)) cond\<rparr>\<rparr>));
     State_Monad.return () }"

definition nodepool_feedback :: "klib \<Rightarrow> Condition \<Rightarrow> Condition list \<Rightarrow> NodePool \<Rightarrow> NodePool" where
  "nodepool_feedback lib syncedCond npConditions latest =
     (let st = k_Status latest;
          conds = foldl (\<lambda>cs c. if cd_Type c = ''Ready'' then SetStatusCondition lib cs c else cs)
                    (SetStatusCondition lib (nt_Conditions st) syncedCond) npConditions;
          phase = (if IsStatusConditionTrue lib conds ''Ready'' then NodePoolPhaseReady else nt_Phase st)
      in latest\<lparr>k_Status := st\<lparr>nt_Conditions := conds, nt_Phase := phase, nt_ObservedGeneration := km_Generation latest\<rparr>\<rparr>)"

definition np_updateStatusFromDynamo ::
  "op_cfg \<Rightarrow> 'w operator_api \<Rightarrow> NodePool \<Rightarrow> string \<Rightarrow> DesireStatusEntry \<Rightarrow> string \<Rightarrow> ('w, unit) prog"
where
  "np_updateStatusFromDynamo cfg api np statusPrefix applyEntry readDocID = do {
     syncedCond \<leftarrow> CheckApplyDesireStatuses (oc_lib cfg) api statusPrefix [applyEntry] (km_Generation np);
     rd \<leftarrow> readStatus api statusPrefix readDocID;
     _ \<leftarrow> (let npConditions = (case rd of
                   Inl _ \<Rightarrow> []
                 | Inr st \<Rightarrow> (case rs_KubeContent st of
                     None \<Rightarrow> []
                   | Some raw \<Rightarrow> (case oc_decode_np cfg raw of None \<Rightarrow> [] | Some cs \<Rightarrow> cs)))
           in status_retry api (nodepools api) (k_key np) (\<lambda>latest. Some (nodepool_feedback (oc_lib cfg) syncedCond npConditions latest)));
     State_Monad.return () }"

section \<open>Apply\<close>

text \<open>After the upserts: status feedback and the phase of a pool that has none yet. The error of the
  second read is wrapped after \<open>IgnoreNotFound\<close> was applied, so a pool that is gone gives an error too.\<close>

definition np_refresh :: "op_cfg \<Rightarrow> 'w operator_api \<Rightarrow> NodePool \<Rightarrow> string \<Rightarrow> DesireStatusEntry \<Rightarrow> string \<Rightarrow> ('w, reconcile_result) prog" where
  "np_refresh cfg api np statusPrefix applyEntry readDocID = do {
     _ \<leftarrow> np_updateStatusFromDynamo cfg api np statusPrefix applyEntry readDocID;
     g \<leftarrow> kGet (nodepools api) (k_key np);
     case g of
       Inl e \<Rightarrow> State_Monad.return (Inl (case IgnoreNotFound e of
                   None \<Rightarrow> RText ''re-read nodepool after status update: %!w(<nil>)''
                 | Some e' \<Rightarrow> RKube e'))
     | Inr np' \<Rightarrow> do {
         _ \<leftarrow> (if nt_Phase (k_Status np') = [] \<or> nt_Phase (k_Status np') = NodePoolPhaseWaitingForCluster
              then np_setPhase api np' NodePoolPhaseProvisioning else State_Monad.return ());
         State_Monad.return (Inr (Some statusRefreshDelay)) } }"

definition np_apply :: "op_cfg \<Rightarrow> 'w operator_api \<Rightarrow> nskey \<Rightarrow> NodePool \<Rightarrow> Cluster \<Rightarrow> string \<Rightarrow> ('w, reconcile_result) prog" where
  "np_apply cfg api req np cluster mc =
     (case NodePoolResource (oc_toNodePoolSpec cfg) np cluster of
        Inl e \<Rightarrow> State_Monad.return (Inl (RText (''render nodepool resource: '' @ e)))
      | Inr m \<Rightarrow>
          (let d = docid cfg taskKey (target m);
               rd = docid cfg (taskKey @ ''-read'') (target m);
               clusterID = ClusterIDFromNamespace (km_Namespace cluster)
           in case oc_marshal cfg (re_Object m) of
                Inl e \<Rightarrow> State_Monad.return (Inl (RText (''marshal nodepool resource: '' @ e)))
              | Inr content \<Rightarrow> do {
                  a \<leftarrow> upsertApply api (SpecsPrefix mc) d (apply_desire ServerSideApply mc clusterID (target m) (Some content));
                  r \<leftarrow> upsertRead api (SpecsPrefix mc) rd \<lparr>rds_ManagementCluster = mc, rds_ClusterID = clusterID, rds_TargetItem = target m\<rparr>;
                  case a of
                    Inl e \<Rightarrow> State_Monad.return (Inl (RText (''upsert apply desire: '' @ e)))
                  | Inr res \<Rightarrow>
                      (case r of
                         Inl e \<Rightarrow> State_Monad.return (Inl (RText (''upsert read desire: '' @ e)))
                       | Inr _ \<Rightarrow> do {
                           _ \<leftarrow> register cfg d NodePoolController req;
                           _ \<leftarrow> register cfg rd NodePoolController req;
                           np_refresh cfg api np (StatusPrefix mc)
                             \<lparr>en_DocID = d, en_Resource = re_Resource m, en_Name = re_Name m, en_DesireUpdateTime = UpdateTime res\<rparr> rd }) }))"

section \<open>Deletion\<close>

definition np_remove_finalizer :: "op_cfg \<Rightarrow> 'w operator_api \<Rightarrow> NodePool \<Rightarrow> ('w, reconcile_result) prog" where
  "np_remove_finalizer cfg api np = do {
     u \<leftarrow> remove_finalizer_retry (oc_lib cfg) api (nodepools api) (k_key np) nodePoolFinalizer;
     case u of Some e \<Rightarrow> fail e | None \<Rightarrow> State_Monad.return done_result }"

definition np_delete_resource :: "op_cfg \<Rightarrow> 'w operator_api \<Rightarrow> NodePool \<Rightarrow> Cluster \<Rightarrow> string \<Rightarrow> ('w, reconcile_result) prog" where
  "np_delete_resource cfg api np cluster mc =
     (case NodePoolResource (oc_toNodePoolSpec cfg) np cluster of
        Inl e \<Rightarrow> State_Monad.return (Inl (RText (''render nodepool resource for deletion: '' @ e)))
      | Inr m \<Rightarrow> do {
          ur \<leftarrow> upsert_delete cfg api mc (ClusterIDFromNamespace (km_Namespace cluster)) m;
          case ur of
            Inl e \<Rightarrow> State_Monad.return (Inl (RText (''upsert delete desire: '' @ snd e)))
          | Inr deleteEntry \<Rightarrow> do {
              deleteSynced \<leftarrow> CheckApplyDesireStatuses (oc_lib cfg) api (StatusPrefix mc) [deleteEntry] (km_Generation np);
              _ \<leftarrow> np_setSyncedCondition (oc_lib cfg) api np deleteSynced;
              if cd_Status deleteSynced \<noteq> ''True'' then State_Monad.return (Inr (Some 5))
              else do {
                _ \<leftarrow> deleteDesire api (SpecsPrefix mc) ''-applydesires'' (docid cfg taskKey (target m));
                _ \<leftarrow> deleteDesire api (SpecsPrefix mc) ''-readdesires'' (docid cfg (taskKey @ ''-read'') (target m));
                np_remove_finalizer cfg api np } } })"

text \<open>The error of the list is dropped: the list is then empty.\<close>

definition placed_cluster :: "kerr + Cluster list \<Rightarrow> (Cluster \<times> string) option" where
  "placed_cluster r = (case r of
       Inr (cluster # _) \<Rightarrow> map_option (\<lambda>ref. (cluster, pr_ManagementCluster ref)) (ct_PlacementRef (k_Status cluster))
     | _ \<Rightarrow> None)"

definition np_reconcileDelete :: "op_cfg \<Rightarrow> 'w operator_api \<Rightarrow> NodePool \<Rightarrow> ('w, reconcile_result) prog" where
  "np_reconcileDelete cfg api np =
     (if \<not> ContainsFinalizer (oc_lib cfg) (km_Finalizers np) nodePoolFinalizer then State_Monad.return done_result
      else do {
        _ \<leftarrow> np_setPhase api np NodePoolPhaseDeleting;
        l \<leftarrow> kList (clusters api) (Some (km_Namespace np)) [];
        case placed_cluster l of
          None \<Rightarrow> np_remove_finalizer cfg api np
        | Some (cluster, mc) \<Rightarrow> np_delete_resource cfg api np cluster mc })"

section \<open>Reconcile\<close>

definition np_live :: "op_cfg \<Rightarrow> 'w operator_api \<Rightarrow> nskey \<Rightarrow> NodePool \<Rightarrow> ('w, reconcile_result) prog" where
  "np_live cfg api req np =
     (if \<not> ContainsFinalizer (oc_lib cfg) (km_Finalizers np) nodePoolFinalizer then do {
        u \<leftarrow> kUpdate (nodepools api) (np\<lparr>km_Finalizers := AddFinalizer (oc_lib cfg) (km_Finalizers np) nodePoolFinalizer\<rparr>);
        case u of Inl e \<Rightarrow> ignore_not_found e | Inr _ \<Rightarrow> State_Monad.return done_result }
      else do {
        l \<leftarrow> kList (clusters api) (Some (km_Namespace np)) [];
        case l of
          Inl e \<Rightarrow> fail e
        | Inr [] \<Rightarrow> do {
            _ \<leftarrow> np_setPhase api np NodePoolPhaseWaitingForCluster;
            State_Monad.return (Inr (Some 5)) }
        | Inr (cluster # _) \<Rightarrow>
            (case ct_PlacementRef (k_Status cluster) of
               None \<Rightarrow> State_Monad.return (Inr (Some 5))
             | Some ref \<Rightarrow> np_apply cfg api req np cluster (pr_ManagementCluster ref)) })"

definition np_Reconcile :: "op_cfg \<Rightarrow> 'w operator_api \<Rightarrow> nskey \<Rightarrow> ('w, reconcile_result) prog" where
  "np_Reconcile cfg api req = do {
     r \<leftarrow> kGet (nodepools api) req;
     case r of
       Inl e \<Rightarrow> ignore_not_found e
     | Inr np \<Rightarrow> if km_Deletion np \<noteq> None then np_reconcileDelete cfg api np else np_live cfg api req np }"

section \<open>When a node pool is given up\<close>

definition keeps_pool :: "log_entry \<Rightarrow> bool" where
  "keeps_pool e = (case e of LNodePool (CUpdate x r) \<Rightarrow> nodePoolFinalizer \<in> set (km_Finalizers x) | _ \<Rightarrow> True)"

text \<open>The list of clusters gave no placed cluster, or the pool's deletion was confirmed there.\<close>

definition pool_gone :: "op_cfg \<Rightarrow> NodePool \<Rightarrow> log_entry list \<Rightarrow> bool" where
  "pool_gone cfg np l \<longleftrightarrow>
     (\<exists>r. LCluster (CList (Some (km_Namespace np)) [] r) \<in> set l \<and>
        (case placed_cluster r of
           None \<Rightarrow> True
         | Some (cluster, mc) \<Rightarrow>
             (\<exists>m. NodePoolResource (oc_toNodePoolSpec cfg) np cluster = Inr m
               \<and> deletion_confirmed cfg taskKey mc (ClusterIDFromNamespace (km_Namespace cluster)) l (target m))))"

lemma stable_pool_gone: "stable (pool_gone cfg np)"
  unfolding stable_def pool_gone_def deletion_confirmed_def by (fastforce split: option.splits)

lemma adds_np_status:
  assumes "retry_ok api"
  shows "adds keeps_pool (np_setPhase api np phase)" "adds keeps_pool (np_setSyncedCondition lib api np c)"
  unfolding np_setPhase_def np_setSyncedCondition_def using assms by (intro adds_rules; auto simp: keeps_pool_def)+

lemma adds_np_remove: "retry_ok api \<Longrightarrow> adds (\<lambda>_. True) (np_remove_finalizer cfg api np)"
  unfolding np_remove_finalizer_def by (intro adds_rules) auto

interpretation pool_deletion: deletion_protocol keeps_pool
  by unfold_locales (simp_all add: keeps_pool_def)

lemma adds_np_apply: "retry_ok api \<Longrightarrow> adds keeps_pool (np_apply cfg api req np cluster mc)"
  unfolding np_apply_def np_refresh_def np_updateStatusFromDynamo_def Let_def
  by (intro adds_rules adds_register adds_np_status) (auto simp: keeps_pool_def)

lemma adds_np_live:
  assumes "klib_ok (oc_lib cfg)" "retry_ok api"
  shows "adds keeps_pool (np_live cfg api req np)"
proof -
  have l: "adds keeps_pool (case cs of [] \<Rightarrow> f | c # cs' \<Rightarrow> g c cs')"
    if "adds keeps_pool f" "\<And>c cs'. adds keeps_pool (g c cs')" for cs :: "Cluster list" and f and g :: "_ \<Rightarrow> _ \<Rightarrow> ('w, reconcile_result) prog"
    using that by (cases cs) simp_all
  show ?thesis
    unfolding np_live_def
    by (intro adds_rules l adds_np_apply adds_np_status assms(2)) (use assms(1) in \<open>auto simp: keeps_pool_def klib_ok_def\<close>)
qed

definition np_finish :: "op_cfg \<Rightarrow> 'w operator_api \<Rightarrow> NodePool \<Rightarrow> string \<Rightarrow> RResource \<Rightarrow> Condition \<Rightarrow> ('w, reconcile_result) prog" where
  "np_finish cfg api np mc m deleteSynced =
     (if cd_Status deleteSynced \<noteq> ''True'' then State_Monad.return (Inr (Some 5))
      else do {
        _ \<leftarrow> deleteDesire api (SpecsPrefix mc) ''-applydesires'' (docid cfg taskKey (target m));
        _ \<leftarrow> deleteDesire api (SpecsPrefix mc) ''-readdesires'' (docid cfg (taskKey @ ''-read'') (target m));
        np_remove_finalizer cfg api np })"

definition listed_placed :: "NodePool \<Rightarrow> Cluster \<Rightarrow> string \<Rightarrow> log_entry list \<Rightarrow> bool" where
  "listed_placed np cluster mc l \<longleftrightarrow>
     (\<exists>r. LCluster (CList (Some (km_Namespace np)) [] r) \<in> set l \<and> placed_cluster r = Some (cluster, mc))"

lemma stable_listed: "stable (listed_placed np cluster mc)"
  by (auto simp: stable_def listed_placed_def)

lemma hoare_np_finish:
  assumes "retry_ok api" "NodePoolResource (oc_toNodePoolSpec cfg) np cluster = Inr m"
  shows "hoare (\<lambda>l. list_all keeps_pool l \<and> listed_placed np cluster mc l \<and> (cd_Status c = ''True'' \<longrightarrow>
        (\<forall>t \<in> set [target m]. deletion_confirmed cfg taskKey mc (ClusterIDFromNamespace (km_Namespace cluster)) l t)))
     (np_finish cfg api np mc m c) (\<lambda>_ l. list_all keeps_pool l \<or> pool_gone cfg np l)" (is "hoare ?P _ ?Q")
proof (cases "cd_Status c = ''True''")
  case True
  have "adds (\<lambda>_. True) (np_finish cfg api np mc m c)"
    unfolding np_finish_def by (intro adds_rules adds_np_remove [OF assms(1)] TrueI)
  moreover have "pool_gone cfg np l" if "?P l" for l
    using that True assms(2) unfolding pool_gone_def listed_placed_def by fastforce
  ultimately show ?thesis
    by (intro hoare_weaken [OF stable_keep [OF stable_pool_gone [of cfg np]]]) auto
next
  case False
  then show ?thesis by (auto simp: np_finish_def intro!: hoare_return)
qed

lemma hoare_delete_resource:
  assumes "retry_ok api"
  shows "hoare (\<lambda>l. list_all keeps_pool l \<and> listed_placed np cluster mc l) (np_delete_resource cfg api np cluster mc)
     (\<lambda>_ l. list_all keeps_pool l \<or> pool_gone cfg np l)"
  unfolding np_delete_resource_def np_finish_def [symmetric]
proof (rule hoare_sum)
  fix m
  assume m: "NodePoolResource (oc_toNodePoolSpec cfg) np cluster = Inr m"
  note confirm = pool_deletion.hoare_confirm [OF stable_listed adds_np_status(2) [OF assms] hoare_np_finish [OF assms m]]
  show "hoare (\<lambda>l. list_all keeps_pool l \<and> listed_placed np cluster mc l)
     (do { ur \<leftarrow> upsert_delete cfg api mc (ClusterIDFromNamespace (km_Namespace cluster)) m;
           case ur of Inl e \<Rightarrow> State_Monad.return (Inl (RText (''upsert delete desire: '' @ snd e)))
           | Inr en \<Rightarrow> do { c \<leftarrow> CheckApplyDesireStatuses (oc_lib cfg) api (StatusPrefix mc) [en] (km_Generation np);
               _ \<leftarrow> np_setSyncedCondition (oc_lib cfg) api np c; np_finish cfg api np mc m c } })
     (\<lambda>_ l. list_all keeps_pool l \<or> pool_gone cfg np l)"
    by (rule hoare_bind [OF hoare_conj [OF hoare_guard [OF stable_listed pool_deletion.adds_upsert_delete] hoare_upsert_delete]], intro hoare_sum)
      (auto intro!: hoare_pre [OF confirm] hoare_return)
qed (auto intro!: hoare_return)

lemma hoare_np_delete:
  assumes "retry_ok api"
  shows "hoare (list_all keeps_pool) (np_reconcileDelete cfg api np) (\<lambda>_ l. list_all keeps_pool l \<or> pool_gone cfg np l)"
proof -
  have phase: "hoare (list_all keeps_pool) (np_setPhase api np p) (\<lambda>_. list_all keeps_pool)" for p
    by (rule hoare_adds [OF adds_np_status(1) [OF assms]]) simp
  have lst: "hoare (list_all keeps_pool) (kList (clusters api) (Some (km_Namespace np)) [])
      (\<lambda>r l. list_all keeps_pool l \<and> LCluster (CList (Some (km_Namespace np)) [] r) \<in> set l)"
    unfolding kList_def by (rule hoare_call) (simp add: keeps_pool_def)
  have none: "hoare (\<lambda>l. list_all keeps_pool l \<and> LCluster (CList (Some (km_Namespace np)) [] r) \<in> set l) (np_remove_finalizer cfg api np)
      (\<lambda>_ l. list_all keeps_pool l \<or> pool_gone cfg np l)" if "placed_cluster r = None" for r
    by (rule hoare_weaken [OF stable_keep [OF stable_pool_gone [of cfg np] adds_np_remove [OF assms]]])
      (auto simp: pool_gone_def that intro!: exI [of _ r])
  show ?thesis
    unfolding np_reconcileDelete_def
    by (intro hoare_if hoare_bind [OF phase] hoare_bind [OF lst] hoare_option none)
      (auto intro!: hoare_return hoare_pre [OF hoare_delete_resource [OF assms]] simp: listed_placed_def)
qed

lemma hoare_np_Reconcile:
  assumes "klib_ok (oc_lib cfg)" "retry_ok api"
  shows "hoare (list_all keeps_pool) (np_Reconcile cfg api req)
     (\<lambda>_ l. list_all keeps_pool l \<or> (\<exists>np. LNodePool (CGet req (Inr np)) \<in> set l \<and> km_Deletion np \<noteq> None \<and> pool_gone cfg np l))" (is "hoare _ _ ?Q")
proof -
  have get: "hoare (list_all keeps_pool) (kGet (nodepools api) req) (\<lambda>r l. list_all keeps_pool l \<and> LNodePool (CGet req r) \<in> set l)"
    unfolding kGet_def by (rule hoare_call) (simp add: keeps_pool_def)
  have adds: "adds (\<lambda>_. True) (np_reconcileDelete cfg api np)" for np
    unfolding np_reconcileDelete_def np_delete_resource_def case_prod_beta
    by (intro adds_rules adds_np_remove adds_mono [OF adds_np_status(1)] adds_mono [OF adds_np_status(2)] adds_mono [OF pool_deletion.adds_upsert_delete] assms(2) TrueI)
  have del: "hoare (\<lambda>l. list_all keeps_pool l \<and> LNodePool (CGet req (Inr np)) \<in> set l) (np_reconcileDelete cfg api np) ?Q"
    if "km_Deletion np \<noteq> None" for np
  proof -
    have "hoare (\<lambda>l. list_all keeps_pool l \<and> LNodePool (CGet req (Inr np)) \<in> set l) (np_reconcileDelete cfg api np)
       (\<lambda>_ l. (list_all keeps_pool l \<or> pool_gone cfg np l) \<and> LNodePool (CGet req (Inr np)) \<in> set l)"
      by (intro hoare_conj hoare_pre [OF hoare_np_delete [OF assms(2)]]
          hoare_pre [OF stable_keep [OF stable_in [of "LNodePool (CGet req (Inr np))"] adds]]) auto
    then show ?thesis by (rule hoare_weaken) (use that in auto)
  qed
  show ?thesis
    unfolding np_Reconcile_def
  proof (intro hoare_bind [OF get] hoare_sum hoare_if)
    fix r :: "kerr + NodePool" and np
    assume r: "r = Inr np"
    show "hoare (\<lambda>l. list_all keeps_pool l \<and> LNodePool (CGet req r) \<in> set l) (np_reconcileDelete cfg api np) ?Q" if "km_Deletion np \<noteq> None"
      unfolding r by (rule del [OF that])
    show "hoare (\<lambda>l. list_all keeps_pool l \<and> LNodePool (CGet req r) \<in> set l) (np_live cfg api req np) ?Q"
      by (rule hoare_adds [OF adds_np_live [OF assms]]) simp
  qed (auto simp: ignore_not_found_def intro!: hoare_return)
qed


definition ex_np_spec :: HNodePoolSpec where
  "ex_np_spec = \<lparr>hn_ClusterName = [], hn_ReleaseImage = [], hn_UpgradeType = [], hn_AutoRepair = True, hn_NodeLabels = [],
     hn_Replicas = None, hn_AWS = None, hn_rest = empty_obj\<rparr>"

definition ex_pool :: NodePool where
  "ex_pool = \<lparr>km_Name = ''workers'', km_Namespace = ''cluster-ab12'', km_UID = ''n'', km_RV = 1, km_Generation = 1,
     km_Labels = [], km_Annotations = [], km_OwnerReferences = [], km_Finalizers = [''hyperfleet.io/nodepool''],
     km_CreationTimestamp = 1, km_Deletion = Some 9,
     k_Spec = \<lparr>ns_AutoRepair = None, ns_Labels = [], ns_NodePool = empty_obj, ns_rest = empty_obj\<rparr>,
     k_Status = \<lparr>nt_Conditions = [], nt_Phase = [], nt_ObservedGeneration = 0\<rparr>\<rparr>"


text \<open>A failed list of clusters is taken for an empty one: the pool is given up while its resource may
  still exist.\<close>

lemma failed_list_drops_finalizer:
  "let api = ex_api\<lparr>api_cluster := (ex_kind None)\<lparr>ka_List := \<lambda>ns ls w. (Inl KOther, w)\<rparr>, api_nodepool := ex_kind (Some ex_pool)\<rparr>;
       x = ex_pool\<lparr>km_Finalizers := []\<rparr>;
       l = op_log (snd (run_state (np_Reconcile ex_cfg api (''cluster-ab12'', ''workers'')) ex_state))
   in LNodePool (CUpdate x (Inr x)) \<in> set l \<and> \<not> (\<exists>p d s r. LUpsertApply p d s r \<in> set l)"
proof -
  have pool: "km_Deletion ex_pool = Some 9" "km_Finalizers ex_pool = [nodePoolFinalizer]" "k_key ex_pool = (''cluster-ab12'', ''workers'')"
      "nt_Phase (k_Status ex_pool) = []"
    by (simp_all add: ex_pool_def k_key_def nodePoolFinalizer_def)
  show ?thesis
    by (simp add: np_Reconcile_def np_reconcileDelete_def np_setPhase_def np_remove_finalizer_def placed_cluster_def
        NodePoolPhaseDeleting_def ex_api_def ex_cfg_fields ex_state_def Let_def pool run_ex)
qed

end
