(* ===== verification/ManifestCtl.thy ===== *)
theory ManifestCtl
  imports DesireLog
begin

text \<open>
  \<open>hyperfleet-operator/internal/controller/manifest_controller.go\<close>: arbitrary Kubernetes resources
  as desires on a management cluster. The reconciler passes one object from write to write, so the
  object a successful status update returns replaces it.
\<close>

definition manifestFinalizer :: string where "manifestFinalizer = ''hyperfleet.io/manifest''"

definition manifestTaskKey :: string where "manifestTaskKey = ''hyperfleet-manifest''"

definition manifestStatusRefreshDelay :: int where "manifestStatusRefreshDelay = 300"

definition manifestScopedTaskKey :: "Manifest \<Rightarrow> string" where
  "manifestScopedTaskKey hfm = manifestTaskKey @ ''/'' @ km_Namespace hfm @ ''/'' @ km_Name hfm"

section \<open>Metadata of a raw resource\<close>

text \<open>\<open>json.Unmarshal\<close> into a struct: a key names a field when they agree up to the case of letters
  (the two letters outside ASCII that fold to k and s are not represented), later keys overwrite
  earlier ones, \<open>null\<close> changes nothing, any other type than the field's is an error.\<close>

definition ascii_lower :: "char \<Rightarrow> char" where
  "ascii_lower c = (if 65 \<le> (of_char c :: nat) \<and> (of_char c :: nat) \<le> 90 then char_of ((of_char c :: nat) + 32) else c)"

definition go_fields :: "(string \<times> json) list \<Rightarrow> string \<Rightarrow> json list" where
  "go_fields kvs name = map snd (filter (\<lambda>kv. map ascii_lower (fst kv) = map ascii_lower name) kvs)"

fun string_value :: "json list \<Rightarrow> string \<Rightarrow> string option" where
  "string_value [] s = Some s"
| "string_value (JStr t # vs) s = string_value vs t"
| "string_value (JNull # vs) s = string_value vs s"
| "string_value (_ # vs) s = None"

fun struct_value :: "json list \<Rightarrow> (string \<times> json) list option" where
  "struct_value [] = Some []"
| "struct_value (JObj kvs # vs) = map_option ((@) kvs) (struct_value vs)"
| "struct_value (JNull # vs) = struct_value vs"
| "struct_value (_ # vs) = None"

definition extractResourceMeta :: "json \<Rightarrow> string + (string \<times> string \<times> string \<times> string)" where
  "extractResourceMeta raw =
     (case struct_value [raw] of
        None \<Rightarrow> Inl ''unmarshal content''
      | Some kvs \<Rightarrow>
          (case (string_value (go_fields kvs ''apiVersion'') [], struct_value (go_fields kvs ''metadata'')) of
             (Some apiVersion, Some meta) \<Rightarrow>
               (case (string_value (go_fields meta ''name'') [], string_value (go_fields meta ''namespace'') []) of
                  (Some name, Some namespace) \<Rightarrow>
                    if name = [] then Inl ''content missing metadata.name''
                    else if apiVersion = [] then Inl ''content missing apiVersion''
                    else if CHR ''/'' \<notin> set apiVersion then Inr ([], apiVersion, name, namespace)
                    else Inr (takeWhile (\<lambda>c. c \<noteq> CHR ''/'') apiVersion, tl (dropWhile (\<lambda>c. c \<noteq> CHR ''/'') apiVersion), name, namespace)
                | _ \<Rightarrow> Inl ''unmarshal content'')
           | _ \<Rightarrow> Inl ''unmarshal content''))"

definition resource_ref :: "ResourceTemplate \<Rightarrow> string + ResourceReference" where
  "resource_ref res = map_sum id
     (\<lambda>(g, v, n, ns). \<lparr>rr_Group = g, rr_Version = v, rr_Resource = rt_Resource res, rr_Namespace = ns, rr_Name = n\<rparr>)
     (extractResourceMeta (rt_Content res))"

section \<open>Status writes\<close>

text \<open>The object a status update leaves with the caller.\<close>

definition put_status :: "'w operator_api \<Rightarrow> Manifest \<Rightarrow> ('w, kerr option \<times> Manifest) prog" where
  "put_status api hfm = do {
     r \<leftarrow> kStatusUpdate (manifests api) hfm;
     State_Monad.return (case r of Inl e \<Rightarrow> (Some e, hfm) | Inr hfm' \<Rightarrow> (None, hfm')) }"

definition mf_setSyncedCondition :: "klib \<Rightarrow> 'w operator_api \<Rightarrow> Manifest \<Rightarrow> Condition \<Rightarrow> ('w, Manifest) prog" where
  "mf_setSyncedCondition lib api hfm cond = do {
     r \<leftarrow> put_status api (hfm\<lparr>k_Status := (k_Status hfm)\<lparr>mt_Conditions := SetStatusCondition lib (mt_Conditions (k_Status hfm)) cond\<rparr>\<rparr>);
     State_Monad.return (snd r) }"

definition mf_setPhase :: "'w operator_api \<Rightarrow> Manifest \<Rightarrow> string \<Rightarrow> ('w, Manifest) prog" where
  "mf_setPhase api hfm phase =
     (if mt_Phase (k_Status hfm) = phase then State_Monad.return hfm
      else do {
        r \<leftarrow> put_status api (hfm\<lparr>k_Status := (k_Status hfm)\<lparr>mt_Phase := phase, mt_ObservedGeneration := km_Generation hfm\<rparr>\<rparr>);
        State_Monad.return (snd r) })"

section \<open>Apply\<close>

text \<open>The loops over the resources register each document before the next resource is looked at and
  stop at the first resource whose metadata cannot be read.\<close>

fun mf_items :: "op_cfg \<Rightarrow> string \<Rightarrow> nskey \<Rightarrow> ResourceTemplate list \<Rightarrow> ('w, string + (ResourceTemplate \<times> ResourceReference) list) prog" where
  "mf_items cfg key k [] = State_Monad.return (Inr [])"
| "mf_items cfg key k (res # rs) =
     (case resource_ref res of
        Inl e \<Rightarrow> State_Monad.return (Inl (rt_Resource res @ '': '' @ e))
      | Inr t \<Rightarrow> do {
          _ \<leftarrow> register cfg (docid cfg key t) ManifestController k;
          rest \<leftarrow> mf_items cfg key k rs;
          State_Monad.return (map_sum id ((#) (res, t)) rest) })"

definition mf_upsert :: "op_cfg \<Rightarrow> 'w operator_api \<Rightarrow> Manifest \<Rightarrow> ResourceTemplate \<times> ResourceReference \<Rightarrow> ('w, rerror + DesireStatusEntry) prog" where
  "mf_upsert cfg api hfm item =
     (let mc = ms_ManagementCluster (k_Spec hfm); t = snd item; d = docid cfg (manifestScopedTaskKey hfm) t
      in do {
        r \<leftarrow> upsertApply api (SpecsPrefix mc) d (apply_desire ServerSideApply mc (km_Name hfm) t (Some (rt_Content (fst item))));
        State_Monad.return (case r of
            Inl e \<Rightarrow> Inl (RText (''upsert apply desire '' @ rr_Resource t @ ''/'' @ rr_Name t @ '': '' @ e))
          | Inr res \<Rightarrow> Inr \<lparr>en_DocID = d, en_Resource = rr_Resource t, en_Name = rr_Name t, en_DesireUpdateTime = UpdateTime res\<rparr>) })"

definition mf_upsert_read :: "op_cfg \<Rightarrow> 'w operator_api \<Rightarrow> Manifest \<Rightarrow> ResourceTemplate \<times> ResourceReference \<Rightarrow> ('w, rerror + unit) prog" where
  "mf_upsert_read cfg api hfm item =
     (let mc = ms_ManagementCluster (k_Spec hfm); t = snd item
      in do {
        r \<leftarrow> upsertRead api (SpecsPrefix mc) (docid cfg (manifestScopedTaskKey hfm @ ''-read'') t)
               \<lparr>rds_ManagementCluster = mc, rds_ClusterID = km_Name hfm, rds_TargetItem = t\<rparr>;
        State_Monad.return (case r of
            Inl e \<Rightarrow> Inl (RText (''upsert read desire '' @ rr_Resource t @ ''/'' @ rr_Name t @ '': '' @ e))
          | Inr _ \<Rightarrow> Inr ()) })"

definition status_ref :: "ResourceStatus \<Rightarrow> ResourceReference" where
  "status_ref rs = \<lparr>rr_Group = st_Group rs, rr_Version = st_Version rs, rr_Resource = st_Resource rs,
     rr_Namespace = st_Namespace rs, rr_Name = st_Name rs\<rparr>"

definition cleanupOrphanedDesires :: "op_cfg \<Rightarrow> 'w operator_api \<Rightarrow> Manifest \<Rightarrow> string list \<Rightarrow> ('w, unit) prog" where
  "cleanupOrphanedDesires cfg api hfm currentDocIDs =
     (if km_Generation hfm = mt_ObservedGeneration (k_Status hfm) then State_Monad.return ()
      else do {
        _ \<leftarrow> State_Monad.traverse_list (\<lambda>rs.
               let p = SpecsPrefix (ms_ManagementCluster (k_Spec hfm)); key = manifestScopedTaskKey hfm;
                   d = docid cfg key (status_ref rs); rd = docid cfg (key @ ''-read'') (status_ref rs)
               in if d \<in> set currentDocIDs then State_Monad.return ()
                  else do {
                    _ \<leftarrow> deleteDesire api p ''-applydesires'' d;
                    _ \<leftarrow> deregister cfg rd;
                    _ \<leftarrow> deleteDesire api p ''-readdesires'' rd;
                    State_Monad.return () })
             (mt_ResourceStatuses (k_Status hfm));
        State_Monad.return () })"

text \<open>The status of one watched resource, when its document has one. A document that is not an object
  fails to decode.\<close>

definition observed_status :: "ResourceReference \<Rightarrow> derror + ReadDesireStatus \<Rightarrow> ResourceStatus option" where
  "observed_status t r =
     (case r of
        Inl _ \<Rightarrow> None
      | Inr st \<Rightarrow>
          (case rs_KubeContent st of
             None \<Rightarrow> None
           | Some raw \<Rightarrow>
               (case struct_value [raw] of
                  None \<Rightarrow> None
                | Some kvs \<Rightarrow>
                    (case go_fields kvs ''status'' of
                       [] \<Rightarrow> None
                     | vs \<Rightarrow> Some \<lparr>st_Resource = rr_Resource t, st_Name = rr_Name t, st_Namespace = rr_Namespace t,
                                   st_Group = rr_Group t, st_Version = rr_Version t, st_Status = last vs\<rparr>))))"

definition watched_refs :: "ResourceTemplate list \<Rightarrow> ResourceReference list" where
  "watched_refs rs = List.map_filter (\<lambda>res. if rt_Watch res then (case resource_ref res of Inl _ \<Rightarrow> None | Inr t \<Rightarrow> Some t) else None) rs"

definition collectResourceStatuses :: "op_cfg \<Rightarrow> 'w operator_api \<Rightarrow> Manifest \<Rightarrow> ('w, ResourceStatus list) prog" where
  "collectResourceStatuses cfg api hfm =
     (let ts = watched_refs (ms_Resources (k_Spec hfm))
      in do {
        results \<leftarrow> State_Monad.traverse_list (\<lambda>t. readStatus api (StatusPrefix (ms_ManagementCluster (k_Spec hfm)))
                     (docid cfg (manifestScopedTaskKey hfm @ ''-read'') t)) ts;
        State_Monad.return (List.map_filter (\<lambda>(t, r). observed_status t r) (zip ts results)) })"

definition manifest_status :: "op_cfg \<Rightarrow> Manifest \<Rightarrow> Condition \<Rightarrow> ResourceStatus list \<Rightarrow> Manifest" where
  "manifest_status cfg hfm syncedCond resourceStatuses =
     (let st = k_Status hfm
      in hfm\<lparr>k_Status := st\<lparr>mt_Conditions := SetStatusCondition (oc_lib cfg) (mt_Conditions st) syncedCond,
           mt_Phase := (if cd_Status syncedCond = ''True'' then ManifestPhaseApplied else ManifestPhaseSyncing),
           mt_AppliedResources := signed_take_bit 31 (int (length (ms_Resources (k_Spec hfm)))),
           mt_ObservedGeneration := km_Generation hfm,
           mt_ResourceStatuses := (if resourceStatuses \<noteq> [] then resourceStatuses else mt_ResourceStatuses st)\<rparr>\<rparr>)"

text \<open>After the desires were written: statuses, one status write, and when to look again.\<close>

definition mf_report :: "op_cfg \<Rightarrow> 'w operator_api \<Rightarrow> Manifest \<Rightarrow> DesireStatusEntry list \<Rightarrow> bool \<Rightarrow> ('w, reconcile_result) prog" where
  "mf_report cfg api hfm applyEntries hasWatched = do {
     resourceStatuses \<leftarrow> (if hasWatched then collectResourceStatuses cfg api hfm else State_Monad.return []);
     syncedCond \<leftarrow> CheckApplyDesireStatuses (oc_lib cfg) api (StatusPrefix (ms_ManagementCluster (k_Spec hfm))) applyEntries (km_Generation hfm);
     r \<leftarrow> put_status api (manifest_status cfg hfm syncedCond resourceStatuses);
     case fst r of
       Some e \<Rightarrow> fail e
     | None \<Rightarrow> State_Monad.return (Inr (
         if cd_Status syncedCond \<noteq> ''True'' then Some 15
         else if hasWatched then Some manifestStatusRefreshDelay else None)) }"

definition mf_apply :: "op_cfg \<Rightarrow> 'w operator_api \<Rightarrow> Manifest \<Rightarrow> ('w, reconcile_result) prog" where
  "mf_apply cfg api hfm =
     (let key = manifestScopedTaskKey hfm; resources = ms_Resources (k_Spec hfm)
      in do {
        is \<leftarrow> mf_items cfg key (k_key hfm) resources;
        case is of
          Inl e \<Rightarrow> State_Monad.return (Inl (RText (''extract metadata from resource '' @ e)))
        | Inr items \<Rightarrow> do {
            results \<leftarrow> State_Monad.traverse_list (mf_upsert cfg api hfm) items;
            case collect results of
              Inl e \<Rightarrow> State_Monad.return (Inl e)
            | Inr applyEntries \<Rightarrow> do {
                _ \<leftarrow> cleanupOrphanedDesires cfg api hfm (map (docid cfg key \<circ> snd) items);
                ws \<leftarrow> mf_items cfg (key @ ''-read'') (k_key hfm) (filter rt_Watch resources);
                case ws of
                  Inl e \<Rightarrow> State_Monad.return (Inl (RText (''extract metadata for ReadDesire '' @ e)))
                | Inr readItems \<Rightarrow> do {
                    rds \<leftarrow> State_Monad.traverse_list (mf_upsert_read cfg api hfm) readItems;
                    case collect rds of
                      Inl e \<Rightarrow> State_Monad.return (Inl e)
                    | Inr _ \<Rightarrow> mf_report cfg api hfm applyEntries (readItems \<noteq> []) } } } })"

section \<open>Deletion\<close>

text \<open>One delete desire after the other; the first failure ends the loop.\<close>

fun mf_delete_upserts :: "op_cfg \<Rightarrow> 'w operator_api \<Rightarrow> string \<Rightarrow> string \<Rightarrow> string \<Rightarrow> ResourceTemplate list \<Rightarrow> ('w, rerror + DesireStatusEntry list) prog" where
  "mf_delete_upserts cfg api key mc name [] = State_Monad.return (Inr [])"
| "mf_delete_upserts cfg api key mc name (res # rs) =
     (case resource_ref res of
        Inl e \<Rightarrow> State_Monad.return (Inl (RText (''extract metadata from resource '' @ rt_Resource res @ '': '' @ e)))
      | Inr t \<Rightarrow> do {
          r \<leftarrow> upsertApply api (SpecsPrefix mc) (docid cfg key t) (apply_desire DeleteDesire mc name t None);
          case r of
            Inl e \<Rightarrow> State_Monad.return (Inl (RText (''upsert delete desire '' @ rr_Resource t @ ''/'' @ rr_Name t @ '': '' @ e)))
          | Inr ur \<Rightarrow> do {
              rest \<leftarrow> mf_delete_upserts cfg api key mc name rs;
              State_Monad.return (map_sum id ((#) \<lparr>en_DocID = docid cfg key t, en_Resource = rr_Resource t, en_Name = rr_Name t,
                en_DesireUpdateTime = UpdateTime ur\<rparr>) rest) } })"

definition mf_drop_desires :: "op_cfg \<Rightarrow> 'w operator_api \<Rightarrow> string \<Rightarrow> string \<Rightarrow> ResourceTemplate list \<Rightarrow> DesireStatusEntry list \<Rightarrow> ('w, unit) prog" where
  "mf_drop_desires cfg api specsPrefix key resources entries =
     (let readTaskKey = key @ ''-read''
      in do {
        _ \<leftarrow> State_Monad.traverse_list (\<lambda>e. deleteDesire api specsPrefix ''-applydesires'' (en_DocID e)) entries;
        _ \<leftarrow> State_Monad.traverse_list (\<lambda>t. do {
               _ \<leftarrow> deregister cfg (docid cfg readTaskKey t);
               deleteDesire api specsPrefix ''-readdesires'' (docid cfg readTaskKey t) }) (watched_refs resources);
        State_Monad.return () })"

definition mf_finish :: "op_cfg \<Rightarrow> 'w operator_api \<Rightarrow> string \<Rightarrow> string \<Rightarrow> DesireStatusEntry list \<Rightarrow> Condition \<Rightarrow> Manifest \<Rightarrow> ('w, reconcile_result) prog" where
  "mf_finish cfg api specsPrefix key entries syncedCond hfm =
     (if cd_Status syncedCond \<noteq> ''True'' then State_Monad.return (Inr (Some 5))
      else do {
        _ \<leftarrow> mf_drop_desires cfg api specsPrefix key (ms_Resources (k_Spec hfm)) entries;
        u \<leftarrow> kUpdate (manifests api) (hfm\<lparr>km_Finalizers := RemoveFinalizer (oc_lib cfg) (km_Finalizers hfm) manifestFinalizer\<rparr>);
        case u of Inl e \<Rightarrow> fail e | Inr _ \<Rightarrow> State_Monad.return done_result })"

text \<open>The management cluster, the key and the resources are those of the object after its phase was
  written.\<close>

definition mf_delete :: "op_cfg \<Rightarrow> 'w operator_api \<Rightarrow> Manifest \<Rightarrow> ('w, reconcile_result) prog" where
  "mf_delete cfg api hfm =
     (let mc = ms_ManagementCluster (k_Spec hfm); key = manifestScopedTaskKey hfm
      in do {
        es \<leftarrow> mf_delete_upserts cfg api key mc (km_Name hfm) (ms_Resources (k_Spec hfm));
        case es of
          Inl e \<Rightarrow> State_Monad.return (Inl e)
        | Inr entries \<Rightarrow> do {
            syncedCond \<leftarrow> CheckApplyDesireStatuses (oc_lib cfg) api (StatusPrefix mc) entries (km_Generation hfm);
            hfm' \<leftarrow> mf_setSyncedCondition (oc_lib cfg) api hfm syncedCond;
            mf_finish cfg api (SpecsPrefix mc) key entries syncedCond hfm' } })"

definition mf_reconcileDelete :: "op_cfg \<Rightarrow> 'w operator_api \<Rightarrow> Manifest \<Rightarrow> ('w, reconcile_result) prog" where
  "mf_reconcileDelete cfg api hfm =
     (if \<not> ContainsFinalizer (oc_lib cfg) (km_Finalizers hfm) manifestFinalizer then State_Monad.return done_result
      else do { hfm' \<leftarrow> mf_setPhase api hfm ManifestPhaseDeleting; mf_delete cfg api hfm' })"

section \<open>Reconcile\<close>

definition mf_live :: "op_cfg \<Rightarrow> 'w operator_api \<Rightarrow> Manifest \<Rightarrow> ('w, reconcile_result) prog" where
  "mf_live cfg api hfm =
     (if \<not> ContainsFinalizer (oc_lib cfg) (km_Finalizers hfm) manifestFinalizer then do {
        u \<leftarrow> kUpdate (manifests api) (hfm\<lparr>km_Finalizers := AddFinalizer (oc_lib cfg) (km_Finalizers hfm) manifestFinalizer\<rparr>);
        case u of Inl e \<Rightarrow> fail e | Inr _ \<Rightarrow> State_Monad.return done_result }
      else mf_apply cfg api hfm)"

definition mf_Reconcile :: "op_cfg \<Rightarrow> 'w operator_api \<Rightarrow> nskey \<Rightarrow> ('w, reconcile_result) prog" where
  "mf_Reconcile cfg api req = do {
     r \<leftarrow> kGet (manifests api) req;
     case r of
       Inl e \<Rightarrow> ignore_not_found e
     | Inr hfm \<Rightarrow> if km_Deletion hfm \<noteq> None then mf_reconcileDelete cfg api hfm else mf_live cfg api hfm }"

section \<open>When a manifest is given up\<close>

definition keeps_manifest :: "log_entry \<Rightarrow> bool" where
  "keeps_manifest e = (case e of LManifest (CUpdate x r) \<Rightarrow> manifestFinalizer \<in> set (km_Finalizers x) | _ \<Rightarrow> True)"

interpretation manifest_deletion: deletion_protocol keeps_manifest
  by unfold_locales (simp_all add: keeps_manifest_def)

text \<open>The deletion of every resource of the object was confirmed; the object has the spec that was read
  or is the one a status write returned.\<close>

definition descends :: "Manifest \<Rightarrow> Manifest \<Rightarrow> log_entry list \<Rightarrow> bool" where
  "descends hfm0 hfm l \<longleftrightarrow> (k_Spec hfm, k_key hfm) = (k_Spec hfm0, k_key hfm0) \<or> (\<exists>x. LManifest (CStatusUpdate x (Inr hfm)) \<in> set l)"

definition manifest_gone :: "op_cfg \<Rightarrow> Manifest \<Rightarrow> log_entry list \<Rightarrow> bool" where
  "manifest_gone cfg hfm0 l \<longleftrightarrow>
     (\<exists>hfm. descends hfm0 hfm l
       \<and> (\<forall>res \<in> set (ms_Resources (k_Spec hfm)). \<exists>t. resource_ref res = Inr t
            \<and> deletion_confirmed cfg (manifestScopedTaskKey hfm) (ms_ManagementCluster (k_Spec hfm)) (km_Name hfm) l t))"

lemma stable_manifest_gone: "stable (manifest_gone cfg hfm)"
  unfolding stable_def
proof (intro allI impI)
  fix l es
  assume "manifest_gone cfg hfm l"
  then show "manifest_gone cfg hfm (l @ es)"
    unfolding manifest_gone_def descends_def using stable_confirmed [unfolded stable_def] by (metis Un_iff set_append)
qed

lemma adds_put_status: "adds keeps_manifest (put_status api hfm)"
  unfolding put_status_def by (intro adds_rules) (simp add: keeps_manifest_def)

lemma adds_mf_status: "adds keeps_manifest (mf_setSyncedCondition lib api hfm c)" "adds keeps_manifest (mf_setPhase api hfm p)"
  unfolding mf_setSyncedCondition_def mf_setPhase_def by (intro adds_rules adds_put_status)+

lemma adds_mf_items: "adds P (mf_items cfg key k rs)"
  by (induction rs) (auto intro!: adds_rules adds_register split: sum.split)

lemma adds_mf_live: "klib_ok (oc_lib cfg) \<Longrightarrow> adds keeps_manifest (mf_live cfg api hfm)"
  unfolding mf_live_def mf_apply_def mf_upsert_def mf_upsert_read_def mf_report_def cleanupOrphanedDesires_def collectResourceStatuses_def Let_def
  by (intro adds_rules adds_register adds_mf_items adds_put_status) (auto simp: keeps_manifest_def klib_ok_def)

lemma adds_mf_drop: "adds keeps_manifest (mf_drop_desires cfg api p key rs es)"
  unfolding mf_drop_desires_def Let_def by (intro adds_rules adds_register) (auto simp: keeps_manifest_def)

lemma adds_mf_upserts: "adds keeps_manifest (mf_delete_upserts cfg api key mc name rs)"
  by (induction rs) (auto intro!: adds_rules simp: keeps_manifest_def split: sum.split)

definition refs_of :: "ResourceTemplate list \<Rightarrow> ResourceReference list" where
  "refs_of rs = map (projr \<circ> resource_ref) rs"

definition readable :: "ResourceTemplate list \<Rightarrow> bool" where
  "readable rs \<longleftrightarrow> (\<forall>res \<in> set rs. \<not> isl (resource_ref res))"

lemma hoare_mf_upserts:
  "hoare P (mf_delete_upserts cfg api key mc name rs)
     (\<lambda>r l. \<forall>es. r = Inr es \<longrightarrow> readable rs \<and> list_all2 (upserted cfg key mc name l) (refs_of rs) es)"
proof (induction rs arbitrary: P)
  case Nil
  show ?case by (auto simp: readable_def refs_of_def intro!: hoare_return)
next
  case (Cons res rs)
  show ?case
  proof (cases "resource_ref res")
    case (Inl e)
    then show ?thesis by (auto intro!: hoare_return)
  next
    case (Inr t)
    let ?e = "\<lambda>r. LUpsertApply (SpecsPrefix mc) (docid cfg key t) (apply_desire DeleteDesire mc name t None) r"
    have up: "hoare P (upsertApply api (SpecsPrefix mc) (docid cfg key t) (apply_desire DeleteDesire mc name t None)) (\<lambda>r l. ?e r \<in> set l)"
      unfolding upsertApply_def by (rule hoare_call) simp
    have rest: "hoare (\<lambda>l. ?e (Inr ur) \<in> set l) (mf_delete_upserts cfg api key mc name rs) (\<lambda>r l.
        (\<forall>es. r = Inr es \<longrightarrow> readable rs \<and> list_all2 (upserted cfg key mc name l) (refs_of rs) es) \<and> ?e (Inr ur) \<in> set l)" for ur
      by (rule hoare_conj [OF Cons.IH stable_keep [OF stable_in adds_mf_upserts]])
    show ?thesis
      unfolding mf_delete_upserts.simps Inr sum.case
    proof (rule hoare_bind [OF up], rule hoare_sum)
      fix r :: "string + UpsertResult" and ur
      assume "r = Inr ur"
      then show "hoare (\<lambda>l. ?e r \<in> set l) (mf_delete_upserts cfg api key mc name rs \<bind> (\<lambda>rest. State_Monad.return
           (map_sum id ((#) \<lparr>en_DocID = docid cfg key t, en_Resource = rr_Resource t, en_Name = rr_Name t, en_DesireUpdateTime = UpdateTime ur\<rparr>) rest)))
         (\<lambda>r l. \<forall>es. r = Inr es \<longrightarrow> readable (res # rs) \<and> list_all2 (upserted cfg key mc name l) (refs_of (res # rs)) es)"
        by (simp only:, intro hoare_bind [OF rest] hoare_return)
          (auto simp: readable_def refs_of_def upserted_def Inr map_sum_eq_Inr)
    qed (auto intro!: hoare_return)
  qed
qed

lemma stable_descends: "stable (descends hfm0 hfm)"
  by (auto simp: stable_def descends_def)

lemma hoare_mf_finish:
  assumes "readable (ms_Resources (k_Spec hfm))"
  shows "hoare (\<lambda>l. list_all keeps_manifest l \<and> descends hfm0 hfm l \<and> (cd_Status c = ''True'' \<longrightarrow> (\<forall>t \<in> set (refs_of (ms_Resources (k_Spec hfm))).
        deletion_confirmed cfg (manifestScopedTaskKey hfm) (ms_ManagementCluster (k_Spec hfm)) (km_Name hfm) l t)))
     (mf_finish cfg api p key es c hfm') (\<lambda>_ l. list_all keeps_manifest l \<or> manifest_gone cfg hfm0 l)" (is "hoare ?P _ _")
proof (cases "cd_Status c = ''True''")
  case True
  have "adds (\<lambda>_. True) (mf_finish cfg api p key es c hfm')"
    unfolding mf_finish_def by (intro adds_rules adds_mono [OF adds_mf_drop] TrueI)
  moreover have "manifest_gone cfg hfm0 l" if l: "?P l" for l
    unfolding manifest_gone_def
  proof (intro exI [of _ hfm] conjI ballI)
    show "descends hfm0 hfm l" using l by blast
    fix res
    assume res: "res \<in> set (ms_Resources (k_Spec hfm))"
    then obtain t where t: "resource_ref res = Inr t" using assms by (metis readable_def sum.collapse(2))
    then have "t \<in> set (refs_of (ms_Resources (k_Spec hfm)))" using res by (force simp: refs_of_def)
    with l True t show "\<exists>t. resource_ref res = Inr t
        \<and> deletion_confirmed cfg (manifestScopedTaskKey hfm) (ms_ManagementCluster (k_Spec hfm)) (km_Name hfm) l t" by blast
  qed
  ultimately show ?thesis
    by (intro hoare_weaken [OF stable_keep [OF stable_manifest_gone [of cfg hfm0]]]) auto
next
  case False
  then show ?thesis by (auto simp: mf_finish_def intro!: hoare_return)
qed

lemma hoare_mf_delete:
  "hoare (\<lambda>l. list_all keeps_manifest l \<and> descends hfm0 hfm l) (mf_delete cfg api hfm) (\<lambda>_ l. list_all keeps_manifest l \<or> manifest_gone cfg hfm0 l)"
  unfolding mf_delete_def Let_def
proof (rule hoare_bind [OF hoare_conj [OF hoare_guard [OF stable_descends adds_mf_upserts] hoare_mf_upserts]], rule hoare_sum)
  let ?mc = "ms_ManagementCluster (k_Spec hfm)" and ?key = "manifestScopedTaskKey hfm" and ?rs = "ms_Resources (k_Spec hfm)"
  fix r :: "rerror + DesireStatusEntry list" and entries
  assume r: "r = Inr entries"
  show "hoare (\<lambda>l. (list_all keeps_manifest l \<and> descends hfm0 hfm l) \<and> (\<forall>es. r = Inr es \<longrightarrow> readable ?rs
        \<and> list_all2 (upserted cfg ?key ?mc (km_Name hfm) l) (refs_of ?rs) es))
     (do { syncedCond \<leftarrow> CheckApplyDesireStatuses (oc_lib cfg) api (StatusPrefix ?mc) entries (km_Generation hfm);
           hfm' \<leftarrow> mf_setSyncedCondition (oc_lib cfg) api hfm syncedCond;
           mf_finish cfg api (SpecsPrefix ?mc) ?key entries syncedCond hfm' })
     (\<lambda>_ l. list_all keeps_manifest l \<or> manifest_gone cfg hfm0 l)"
  proof (cases "readable ?rs")
    case True
    show ?thesis
      by (rule hoare_pre [OF manifest_deletion.hoare_confirm [OF stable_descends adds_mf_status(1) hoare_mf_finish [OF True]]]) (use r in auto)
  qed (simp add: r hoare_def)
qed (auto intro!: hoare_return)

lemma hoare_mf_setPhase:
  "hoare (list_all keeps_manifest) (mf_setPhase api hfm p) (\<lambda>hfm' l. list_all keeps_manifest l \<and> descends hfm hfm' l)"
  unfolding mf_setPhase_def put_status_def kStatusUpdate_def bind_assoc
  by (intro hoare_if hoare_bind [OF hoare_call [where Q = "\<lambda>r l. list_all keeps_manifest l \<and> (\<forall>x. r = Inr x \<longrightarrow> descends hfm x l)"]] hoare_return)
    (auto simp: keeps_manifest_def descends_def k_key_def intro!: hoare_return split: sum.splits)

lemma hoare_mf_Reconcile:
  assumes "klib_ok (oc_lib cfg)"
  shows "hoare (list_all keeps_manifest) (mf_Reconcile cfg api req)
     (\<lambda>_ l. list_all keeps_manifest l \<or> (\<exists>hfm. LManifest (CGet req (Inr hfm)) \<in> set l \<and> km_Deletion hfm \<noteq> None \<and> manifest_gone cfg hfm l))" (is "hoare _ _ ?Q")
proof -
  have get: "hoare (list_all keeps_manifest) (kGet (manifests api) req) (\<lambda>r l. list_all keeps_manifest l \<and> LManifest (CGet req r) \<in> set l)"
    unfolding kGet_def by (rule hoare_call) (simp add: keeps_manifest_def)
  have adds: "adds (\<lambda>_. True) (mf_reconcileDelete cfg api hfm)" for hfm
    unfolding mf_reconcileDelete_def mf_delete_def mf_finish_def Let_def
    by (intro adds_rules adds_mono [OF adds_mf_status(1)] adds_mono [OF adds_mf_status(2)] adds_mono [OF adds_mf_upserts] adds_mono [OF adds_mf_drop] TrueI)
  have rd: "hoare (list_all keeps_manifest) (mf_reconcileDelete cfg api hfm) (\<lambda>_ l. list_all keeps_manifest l \<or> manifest_gone cfg hfm l)" for hfm
    unfolding mf_reconcileDelete_def by (intro hoare_if hoare_bind [OF hoare_mf_setPhase] hoare_mf_delete) (auto intro!: hoare_return)
  have del: "hoare (\<lambda>l. list_all keeps_manifest l \<and> LManifest (CGet req (Inr hfm)) \<in> set l) (mf_reconcileDelete cfg api hfm) ?Q"
    if "km_Deletion hfm \<noteq> None" for hfm
  proof -
    have "hoare (\<lambda>l. list_all keeps_manifest l \<and> LManifest (CGet req (Inr hfm)) \<in> set l) (mf_reconcileDelete cfg api hfm)
       (\<lambda>_ l. (list_all keeps_manifest l \<or> manifest_gone cfg hfm l) \<and> LManifest (CGet req (Inr hfm)) \<in> set l)"
      by (intro hoare_conj hoare_pre [OF rd] hoare_pre [OF stable_keep [OF stable_in [of "LManifest (CGet req (Inr hfm))"] adds]]) auto
    then show ?thesis by (rule hoare_weaken) (use that in auto)
  qed
  show ?thesis
    unfolding mf_Reconcile_def
  proof (intro hoare_bind [OF get] hoare_sum hoare_if)
    fix r :: "kerr + Manifest" and hfm
    assume r: "r = Inr hfm"
    show "hoare (\<lambda>l. list_all keeps_manifest l \<and> LManifest (CGet req r) \<in> set l) (mf_reconcileDelete cfg api hfm) ?Q" if "km_Deletion hfm \<noteq> None"
      unfolding r by (rule del [OF that])
    show "hoare (\<lambda>l. list_all keeps_manifest l \<and> LManifest (CGet req r) \<in> set l) (mf_live cfg api hfm) ?Q"
      by (rule hoare_adds [OF adds_mf_live [OF assms]]) simp
  qed (auto simp: ignore_not_found_def intro!: hoare_return)
qed

text \<open>
  C23 (safety). The manifest controller gives up a manifest only when its resources are gone. Whatever
  the clients answer, if a reconcile sends an update without the manifest's finalizer then the
  manifest it read was marked for deletion, and for each resource of its spec the delete desire was
  written under the manifest's own key and confirmed by a status that is not older.
\<close>

theorem manifest_finalizer_safe:
  assumes "klib_ok (oc_lib cfg)" "op_log s = []"
    and "run_state (mf_Reconcile cfg api req) s = (res, s')"
    and "LManifest (CUpdate x r) \<in> set (op_log s')" "manifestFinalizer \<notin> set (km_Finalizers x)"
  shows "\<exists>hfm. LManifest (CGet req (Inr hfm)) \<in> set (op_log s') \<and> km_Deletion hfm \<noteq> None \<and> manifest_gone cfg hfm (op_log s')"
  using hoareD [OF hoare_mf_Reconcile [OF assms(1)] _ assms(3)] assms(2,4,5)
  by (auto simp: list_all_iff keeps_manifest_def)

definition ex_config_map :: ResourceTemplate where
  "ex_config_map = \<lparr>rt_Resource = ''configmaps'', rt_Content = JObj [(''apiVersion'', JStr ''v1''),
     (''metadata'', JObj [(''name'', JStr ''cfg''), (''namespace'', JStr ''apps'')])], rt_Watch = True\<rparr>"

definition ex_manifest :: Manifest where
  "ex_manifest = \<lparr>km_Name = ''base'', km_Namespace = ''infra'', km_UID = ''f'', km_RV = 1, km_Generation = 1, km_Labels = [],
     km_Annotations = [], km_OwnerReferences = [], km_Finalizers = [''hyperfleet.io/manifest''], km_CreationTimestamp = 1,
     km_Deletion = Some 9, k_Spec = \<lparr>ms_ManagementCluster = ''mc1'', ms_Resources = [ex_config_map]\<rparr>,
     k_Status = \<lparr>mt_Conditions = [], mt_Phase = ''Deleting'', mt_AppliedResources = 1, mt_ObservedGeneration = 1, mt_ResourceStatuses = []\<rparr>\<rparr>"

lemma ex_manifest_fields:
  "km_Deletion ex_manifest = Some 9" "km_Finalizers ex_manifest = [manifestFinalizer]" "k_key ex_manifest = (''infra'', ''base'')"
  "mt_Phase (k_Status ex_manifest) = ''Deleting''" "ms_Resources (k_Spec ex_manifest) = [ex_config_map]"
  "ms_ManagementCluster (k_Spec ex_manifest) = ''mc1''"
  by (simp_all add: ex_manifest_def manifestFinalizer_def k_key_def)

lemma ex_config_map_ref:
  "resource_ref ex_config_map = Inr \<lparr>rr_Group = [], rr_Version = ''v1'', rr_Resource = ''configmaps'', rr_Namespace = ''apps'', rr_Name = ''cfg''\<rparr>"
  by code_simp

theorem manifest_finalizer_safe_witness:
  "\<exists>hfm l x. l = op_log (snd (run_state (mf_Reconcile ex_cfg (ex_api\<lparr>api_manifest := ex_kind (Some ex_manifest)\<rparr>) (''infra'', ''base'')) ex_state))
     \<and> LManifest (CUpdate x (Inr x)) \<in> set l \<and> km_Finalizers x = [] \<and> LManifest (CGet (''infra'', ''base'') (Inr hfm)) \<in> set l \<and> manifest_gone ex_cfg hfm l"
proof -
  let ?api = "ex_api\<lparr>api_manifest := ex_kind (Some ex_manifest)\<rparr>"
  let ?run = "run_state (mf_Reconcile ex_cfg ?api (''infra'', ''base'')) ex_state"
  have api: "api_manifest ?api = ex_kind (Some ex_manifest)" "api_dynamo ?api = ex_dynamo" by (simp_all add: ex_api_def)
  have sync: "cd_Status (synced_condition [Synced] n) = ''True''" for n by (simp add: synced_condition_True)
  have w: "watched_refs [ex_config_map] = [projr (resource_ref ex_config_map)]"
    by (simp add: watched_refs_def ex_config_map_ref map_filter_simps) (simp add: ex_config_map_def)
  have "\<exists>x. LManifest (CUpdate x (Inr x)) \<in> set (op_log (snd ?run)) \<and> km_Finalizers x = []"
    by (simp add: mf_Reconcile_def mf_reconcileDelete_def mf_setPhase_def mf_delete_def mf_finish_def mf_drop_desires_def put_status_def
        mf_setSyncedCondition_def deregister_def Deregister_def ManifestPhaseDeleting_def ex_manifest_fields ex_config_map_ref w api sync ex_cfg_fields
        ex_state_def Let_def run_ex)
  then obtain x where x: "LManifest (CUpdate x (Inr x)) \<in> set (op_log (snd ?run))" "km_Finalizers x = []" by blast
  have "\<exists>hfm. LManifest (CGet (''infra'', ''base'') (Inr hfm)) \<in> set (op_log (snd ?run)) \<and> km_Deletion hfm \<noteq> None \<and> manifest_gone ex_cfg hfm (op_log (snd ?run))"
    by (rule manifest_finalizer_safe [OF _ _ prod.collapse [symmetric] x(1)]) (simp_all add: ex_cfg_fields ex_klib_ok ex_state_def x(2))
  with x show ?thesis by blast
qed

section \<open>Documents of different manifests\<close>

definition plain :: "string \<Rightarrow> bool" where
  "plain s \<longleftrightarrow> CHR ''/'' \<notin> set s"

definition plain_ref :: "ResourceReference \<Rightarrow> bool" where
  "plain_ref t \<longleftrightarrow> plain (rr_Group t) \<and> plain (rr_Version t) \<and> plain (rr_Resource t) \<and> plain (rr_Namespace t) \<and> plain (rr_Name t)"

lemma last_part:
  assumes "plain b" "plain d"
  shows "a @ ''/'' @ b = c @ ''/'' @ d \<longleftrightarrow> a = c \<and> b = d"
proof
  have tail: "takeWhile (\<lambda>x. x \<noteq> CHR ''/'') (rev (u @ ''/'' @ v)) = rev v" if "plain v" for u v
    using that by (subst rev_append, subst rev_append, simp, subst takeWhile_append2) (auto simp: plain_def)
  assume eq: "a @ ''/'' @ b = c @ ''/'' @ d"
  then have "rev b = rev d" using tail [OF assms(1), of a] tail [OF assms(2), of c] by metis
  with eq show "a = c \<and> b = d" by simp
qed simp

lemma docid_inj:
  assumes "inj (oc_uuid5 cfg)" "plain_ref t" "plain_ref t'" "docid cfg key t = docid cfg key' t'"
  shows "key = key' \<and> t = t'"
proof -
  have eq: "((((key @ ''/'' @ rr_Group t) @ ''/'' @ rr_Version t) @ ''/'' @ rr_Resource t) @ ''/'' @ rr_Namespace t) @ ''/'' @ rr_Name t
     = ((((key' @ ''/'' @ rr_Group t') @ ''/'' @ rr_Version t') @ ''/'' @ rr_Resource t') @ ''/'' @ rr_Namespace t') @ ''/'' @ rr_Name t'"
    using assms(1,4) by (simp add: docid_def NewDocumentID_def inj_eq)
  have p: "plain (rr_Group t)" "plain (rr_Version t)" "plain (rr_Resource t)" "plain (rr_Namespace t)" "plain (rr_Name t)"
      "plain (rr_Group t')" "plain (rr_Version t')" "plain (rr_Resource t')" "plain (rr_Namespace t')" "plain (rr_Name t')"
    using assms(2,3) by (simp_all add: plain_ref_def)
  note e1 = eq [unfolded last_part [OF p(5) p(10)]]
  note e2 = conjunct1 [OF e1, unfolded last_part [OF p(4) p(9)]]
  note e3 = conjunct1 [OF e2, unfolded last_part [OF p(3) p(8)]]
  note e4 = conjunct1 [OF e3, unfolded last_part [OF p(2) p(7)]]
  note e5 = conjunct1 [OF e4, unfolded last_part [OF p(1) p(6)]]
  from e1 e2 e3 e4 e5 show ?thesis by (cases t; cases t') simp
qed

lemma scoped_key_inj:
  assumes "plain (km_Name a)" "plain (km_Name b)" "plain (km_Namespace a)" "plain (km_Namespace b)"
  shows "manifestScopedTaskKey a = manifestScopedTaskKey b \<longleftrightarrow> k_key a = k_key b"
proof -
  have "manifestScopedTaskKey a = manifestScopedTaskKey b \<longleftrightarrow>
     (manifestTaskKey @ ''/'' @ km_Namespace a) @ ''/'' @ km_Name a = (manifestTaskKey @ ''/'' @ km_Namespace b) @ ''/'' @ km_Name b"
    by (simp add: manifestScopedTaskKey_def)
  then show ?thesis unfolding last_part [OF assms(1,2)] last_part [OF assms(3,4)] by (auto simp: k_key_def)
qed

lemma scoped_key_other: "manifestScopedTaskKey a @ x \<noteq> taskKey @ y"
  by (simp add: manifestScopedTaskKey_def manifestTaskKey_def taskKey_def)

text \<open>
  Manifests do not write each other's desires: with identifiers that contain no slash, as
  Kubernetes requires, and a hash without collisions, two documents of apply desires agree only when
  they belong to the same manifest and the same resource; and no document of a manifest is a document
  of a cluster or a node pool.
\<close>

theorem manifest_documents_disjoint:
  assumes "inj (oc_uuid5 cfg)" "plain_ref t" "plain_ref t'"
    and "plain (km_Namespace a)" "plain (km_Name a)" "plain (km_Namespace b)" "plain (km_Name b)"
  shows "(docid cfg (manifestScopedTaskKey a) t = docid cfg (manifestScopedTaskKey b) t' \<longleftrightarrow> k_key a = k_key b \<and> t = t')
     \<and> docid cfg (manifestScopedTaskKey a) t \<noteq> docid cfg taskKey t'
     \<and> docid cfg (manifestScopedTaskKey a @ ''-read'') t \<noteq> docid cfg (taskKey @ ''-read'') t'"
proof (intro conjI notI iffI)
  assume "docid cfg (manifestScopedTaskKey a) t = docid cfg (manifestScopedTaskKey b) t'"
  then show "k_key a = k_key b" "t = t'" using docid_inj [OF assms(1-3)] scoped_key_inj [OF assms(5,7,4,6)] by auto
next
  assume "k_key a = k_key b \<and> t = t'"
  then show "docid cfg (manifestScopedTaskKey a) t = docid cfg (manifestScopedTaskKey b) t'" using scoped_key_inj [OF assms(5,7,4,6)] by simp
next
  assume "docid cfg (manifestScopedTaskKey a) t = docid cfg taskKey t'"
  then show False using docid_inj [OF assms(1-3)] scoped_key_other [of a "[]" "[]"] by auto
next
  assume "docid cfg (manifestScopedTaskKey a @ ''-read'') t = docid cfg (taskKey @ ''-read'') t'"
  then show False using docid_inj [OF assms(1-3)] scoped_key_other by blast
qed

theorem manifest_documents_disjoint_witness:
  "docid ex_cfg (manifestScopedTaskKey ex_manifest) (projr (resource_ref ex_config_map))
     \<noteq> docid ex_cfg (manifestScopedTaskKey (ex_manifest\<lparr>km_Name := ''other''\<rparr>)) (projr (resource_ref ex_config_map))"
proof -
  have "plain_ref (projr (resource_ref ex_config_map))" by (simp add: ex_config_map_ref plain_ref_def plain_def)
  moreover have "inj (oc_uuid5 ex_cfg)" by (simp add: ex_cfg_def)
  ultimately show ?thesis
    using manifest_documents_disjoint [of ex_cfg "projr (resource_ref ex_config_map)" "projr (resource_ref ex_config_map)"
        ex_manifest "ex_manifest\<lparr>km_Name := ''other''\<rparr>"]
    by (simp add: ex_manifest_def plain_def k_key_def)
qed

text \<open>The event router, however, knows documents by their identifier alone, and the key of the read
  desires of a manifest is the key of the apply desires of the manifest named with \<open>-read\<close> after it:
  registering the one takes over the events of the other.\<close>

lemma read_key_collides:
  "docid cfg (manifestScopedTaskKey hfm @ ''-read'') t = docid cfg (manifestScopedTaskKey (hfm\<lparr>km_Name := km_Name hfm @ ''-read''\<rparr>)) t"
  by (simp add: manifestScopedTaskKey_def)

text \<open>Orphans are looked for among the statuses of watched resources only: without any, a resource that
  left the spec keeps its desire, and the management cluster keeps the resource.\<close>

lemma unwatched_orphans_stay:
  "mt_ResourceStatuses (k_Status hfm) = [] \<Longrightarrow> op_log (snd (run_state (cleanupOrphanedDesires cfg api hfm ids) s)) = op_log s"
  by (simp add: cleanupOrphanedDesires_def)

end
