(* ===== verification/OidcInfra.thy ===== *)
theory OidcInfra
  imports OperatorApi "HOL-Library.Word"
begin

unbundle bit_operations_syntax

text \<open>
  \<open>hyperfleet-operator/internal/oidc/infra.go\<close>: signing keys in Secrets Manager, the check of a
  customer's key, and the resolution of an issuer to an address that may be dialed. The parsers of
  PEM, of keys and of URLs, the resolver and the Secrets Manager client are arguments.
\<close>

section \<open>Addresses\<close>

text \<open>\<open>net.IP\<close> is a slice of 4 or 16 bytes.\<close>

type_synonym ip = "8 word list"

definition v4InV6Prefix :: ip where
  "v4InV6Prefix = [0, 0, 0, 0, 0, 0, 0, 0, 0, 0, 0xff, 0xff]"

definition To4 :: "ip \<Rightarrow> ip option" where
  "To4 ip = (if length ip = 4 then Some ip
             else if length ip = 16 \<and> take 12 ip = v4InV6Prefix then Some (drop 12 ip) else None)"

definition ip_Equal :: "ip \<Rightarrow> ip \<Rightarrow> bool" where
  "ip_Equal a b =
     (if length a = length b then a = b
      else if length a = 4 \<and> length b = 16 then take 12 b = v4InV6Prefix \<and> a = drop 12 b
      else if length a = 16 \<and> length b = 4 then take 12 a = v4InV6Prefix \<and> drop 12 a = b
      else False)"

definition IsUnspecified :: "ip \<Rightarrow> bool" where
  "IsUnspecified ip \<longleftrightarrow> ip_Equal ip (v4InV6Prefix @ [0, 0, 0, 0]) \<or> ip_Equal ip (replicate 16 0)"

definition IsLoopback :: "ip \<Rightarrow> bool" where
  "IsLoopback ip = (case To4 ip of Some ip4 \<Rightarrow> ip4 ! 0 = 127 | None \<Rightarrow> ip_Equal ip (replicate 15 0 @ [1]))"

definition IsPrivate :: "ip \<Rightarrow> bool" where
  "IsPrivate ip =
     (case To4 ip of
        Some ip4 \<Rightarrow> ip4 ! 0 = 10 \<or> (ip4 ! 0 = 172 \<and> ip4 ! 1 AND 0xf0 = 16) \<or> (ip4 ! 0 = 192 \<and> ip4 ! 1 = 168)
      | None \<Rightarrow> length ip = 16 \<and> ip ! 0 AND 0xfe = 0xfc)"

definition IsMulticast :: "ip \<Rightarrow> bool" where
  "IsMulticast ip =
     (case To4 ip of Some ip4 \<Rightarrow> ip4 ! 0 AND 0xf0 = 0xe0 | None \<Rightarrow> length ip = 16 \<and> ip ! 0 = 0xff)"

definition IsInterfaceLocalMulticast :: "ip \<Rightarrow> bool" where
  "IsInterfaceLocalMulticast ip \<longleftrightarrow> length ip = 16 \<and> ip ! 0 = 0xff \<and> ip ! 1 AND 0x0f = 0x01"

definition IsLinkLocalMulticast :: "ip \<Rightarrow> bool" where
  "IsLinkLocalMulticast ip =
     (case To4 ip of
        Some ip4 \<Rightarrow> ip4 ! 0 = 224 \<and> ip4 ! 1 = 0 \<and> ip4 ! 2 = 0
      | None \<Rightarrow> length ip = 16 \<and> ip ! 0 = 0xff \<and> ip ! 1 AND 0x0f = 0x02)"

definition IsLinkLocalUnicast :: "ip \<Rightarrow> bool" where
  "IsLinkLocalUnicast ip =
     (case To4 ip of
        Some ip4 \<Rightarrow> ip4 ! 0 = 169 \<and> ip4 ! 1 = 254
      | None \<Rightarrow> length ip = 16 \<and> ip ! 0 = 0xfe \<and> ip ! 1 AND 0xc0 = 0x80)"

definition isDisallowedIssuerIP :: "ip \<Rightarrow> bool" where
  "isDisallowedIssuerIP ip \<longleftrightarrow> IsLoopback ip \<or> IsLinkLocalUnicast ip \<or> IsLinkLocalMulticast ip \<or> IsInterfaceLocalMulticast ip
     \<or> IsMulticast ip \<or> IsPrivate ip \<or> IsUnspecified ip"

section \<open>Resolution\<close>

record parsed_url =
  u_Scheme :: string
  u_Hostname :: string
  u_Port :: string

record net =
  n_Parse :: "string \<Rightarrow> string + parsed_url"      \<comment> \<open>\<open>url.Parse\<close> with \<open>Hostname\<close> and \<open>Port\<close>\<close>
  n_Lookup :: "string \<Rightarrow> string + ip list"         \<comment> \<open>\<open>net.DefaultResolver.LookupIPAddr\<close>\<close>
  n_String :: "ip \<Rightarrow> string"                       \<comment> \<open>\<open>IP.String\<close>\<close>

definition JoinHostPort :: "string \<Rightarrow> string \<Rightarrow> string" where
  "JoinHostPort host port = (if CHR '':'' \<in> set host then ''['' @ host @ '']:'' @ port else host @ '':'' @ port)"

definition resolveIssuerHost :: "net \<Rightarrow> string \<Rightarrow> string + (string \<times> string)" where
  "resolveIssuerHost net issuerURL =
     (case n_Parse net issuerURL of
        Inl e \<Rightarrow> Inl (''parse issuer URL: '' @ e)
      | Inr u \<Rightarrow>
          if u_Scheme u \<noteq> ''https'' then Inl (''issuer URL must use https scheme, got '' @ [CHR 0x22] @ u_Scheme u @ [CHR 0x22])
          else if u_Hostname u = [] then Inl ''issuer URL has no host''
          else (let port = (if u_Port u = [] then ''443'' else u_Port u)
                in case n_Lookup net (u_Hostname u) of
                     Inl e \<Rightarrow> Inl (''resolve issuer host '' @ u_Hostname u @ '': '' @ e)
                   | Inr [] \<Rightarrow> Inl (''issuer host '' @ u_Hostname u @ '' did not resolve to any address'')
                   | Inr (a # as) \<Rightarrow>
                       (case List.find isDisallowedIssuerIP (a # as) of
                          Some b \<Rightarrow> Inl (''issuer host '' @ u_Hostname u @ '' resolves to disallowed address '' @ n_String net b)
                        | None \<Rightarrow> Inr (u_Hostname u, JoinHostPort (n_String net a) port))))"

text \<open>The dial, with the chain it gets; \<open>sha1hex\<close> is the printed fingerprint.\<close>

definition thumbprintFromChain :: "(string \<Rightarrow> string) \<Rightarrow> string list \<Rightarrow> string + string" where
  "thumbprintFromChain sha1hex certs = (if certs = [] then Inl ''no TLS certificates presented'' else Inr (sha1hex (last certs)))"

definition dialThumbprint :: "(string \<Rightarrow> string \<Rightarrow> string + string list) \<Rightarrow> (string \<Rightarrow> string) \<Rightarrow> string \<Rightarrow> string \<Rightarrow> string + string" where
  "dialThumbprint dial sha1hex hostname dialAddr =
     (case dial hostname dialAddr of
        Inl e \<Rightarrow> Inl (''TLS dial '' @ hostname @ '': '' @ e)
      | Inr certs \<Rightarrow> thumbprintFromChain sha1hex certs)"

definition ComputeThumbprint :: "net \<Rightarrow> (string \<Rightarrow> string \<Rightarrow> string + string list) \<Rightarrow> (string \<Rightarrow> string) \<Rightarrow> string \<Rightarrow> string + string" where
  "ComputeThumbprint net dial sha1hex issuerURL =
     (case resolveIssuerHost net issuerURL of
        Inl e \<Rightarrow> Inl e
      | Inr (hostname, dialAddr) \<Rightarrow> dialThumbprint dial sha1hex hostname dialAddr)"

section \<open>Keys\<close>

definition minKeyBits :: nat where "minKeyBits = 2048"

text \<open>Parsers: the bytes of the first PEM block, the modulus length of a PKCS 1 key, and of a PKCS 8 key,
  \<open>Inr None\<close> when it is not an RSA key.\<close>

record key_lib =
  kp_Decode :: "string \<Rightarrow> string option"
  kp_PKCS1 :: "string \<Rightarrow> nat option"
  kp_PKCS8 :: "string \<Rightarrow> string + nat option"

definition checkRSAKeySize :: "nat \<Rightarrow> string option" where
  "checkRSAKeySize bits = (if bits < minKeyBits then Some ''RSA key size is below the minimum'' else None)"

definition ValidateRSAPrivateKey :: "key_lib \<Rightarrow> string \<Rightarrow> string option" where
  "ValidateRSAPrivateKey kl pemData =
     (case kp_Decode kl pemData of
        None \<Rightarrow> Some ''no PEM block found''
      | Some block \<Rightarrow>
          (case kp_PKCS1 kl block of
             Some bits \<Rightarrow> checkRSAKeySize bits
           | None \<Rightarrow>
               (case kp_PKCS8 kl block of
                  Inl e \<Rightarrow> Some (''not a valid RSA private key: '' @ e)
                | Inr None \<Rightarrow> Some ''key is not RSA''
                | Inr (Some bits) \<Rightarrow> checkRSAKeySize bits)))"

text \<open>Secrets Manager: requests with the errors the code tells apart.\<close>

datatype sm_error = ResourceExists | ResourceNotFound | SmOther string

record 'm secretsmanager =
  sm_Create :: "string \<Rightarrow> string \<Rightarrow> 'm \<Rightarrow> sm_error option \<times> 'm"
  sm_Put :: "string \<Rightarrow> string \<Rightarrow> 'm \<Rightarrow> sm_error option \<times> 'm"
  sm_Describe :: "string \<Rightarrow> 'm \<Rightarrow> sm_error option"
  sm_Delete :: "string \<Rightarrow> 'm \<Rightarrow> sm_error option \<times> 'm"

definition StorePrivateKey :: "'m secretsmanager \<Rightarrow> string \<Rightarrow> string \<Rightarrow> string \<Rightarrow> 'm \<Rightarrow> string option \<times> 'm" where
  "StorePrivateKey sm accountID configID pem m =
     (case sm_Create sm (SecretName accountID configID) pem m of
        (None, m') \<Rightarrow> (None, m')
      | (Some ResourceExists, m') \<Rightarrow>
          (case sm_Put sm (SecretName accountID configID) pem m' of
             (None, m'') \<Rightarrow> (None, m'')
           | (Some _, m'') \<Rightarrow> (Some ''update secret'', m''))
      | (Some _, m') \<Rightarrow> (Some ''create secret'', m'))"

definition PrivateKeyExists :: "'m secretsmanager \<Rightarrow> string \<Rightarrow> string \<Rightarrow> 'm \<Rightarrow> string + bool" where
  "PrivateKeyExists sm accountID configID m =
     (case sm_Describe sm (SecretName accountID configID) m of
        None \<Rightarrow> Inr True
      | Some ResourceNotFound \<Rightarrow> Inr False
      | Some _ \<Rightarrow> Inl ''describe secret'')"

definition DeletePrivateKey :: "'m secretsmanager \<Rightarrow> string \<Rightarrow> string \<Rightarrow> 'm \<Rightarrow> string option \<times> 'm" where
  "DeletePrivateKey sm accountID configID m =
     (case sm_Delete sm (SecretName accountID configID) m of
        (None, m') \<Rightarrow> (None, m')
      | (Some ResourceNotFound, m') \<Rightarrow> (None, m')
      | (Some _, m') \<Rightarrow> (Some ''delete secret'', m'))"

section \<open>Only public addresses are dialed\<close>

text \<open>The ranges in plain arithmetic.\<close>

definition v4_forbidden :: "nat \<Rightarrow> nat \<Rightarrow> nat \<Rightarrow> nat \<Rightarrow> bool" where
  "v4_forbidden a b c d \<longleftrightarrow> a = 127 \<or> a = 10 \<or> (a = 172 \<and> 16 \<le> b \<and> b \<le> 31) \<or> (a = 192 \<and> b = 168) \<or> (a = 169 \<and> b = 254)
     \<or> (224 \<le> a \<and> a \<le> 239) \<or> (a = 0 \<and> b = 0 \<and> c = 0 \<and> d = 0)"

definition v6_forbidden :: "nat list \<Rightarrow> bool" where
  "v6_forbidden bs \<longleftrightarrow> bs = replicate 16 0 \<or> bs = replicate 15 0 @ [1] \<or> bs ! 0 = 255 \<or> (252 \<le> bs ! 0 \<and> bs ! 0 \<le> 253)
     \<or> (bs ! 0 = 254 \<and> 128 \<le> bs ! 1 \<and> bs ! 1 \<le> 191)"

definition forbidden :: "ip \<Rightarrow> bool" where
  "forbidden ip = (case To4 ip of
       Some ip4 \<Rightarrow> v4_forbidden (unat (ip4 ! 0)) (unat (ip4 ! 1)) (unat (ip4 ! 2)) (unat (ip4 ! 3))
     | None \<Rightarrow> v6_forbidden (map unat ip))"

text \<open>The masks of the code as ranges.\<close>

lemma and_block: "n AND push_bit k (mask j) = push_bit k (take_bit j (drop_bit k n))" for n :: nat
  by (rule bit_eqI) (auto simp: bit_simps)

lemma and_block_arith: "n AND ((2 ^ j - 1) * 2 ^ k) = (n div 2 ^ k) mod 2 ^ j * 2 ^ k" for n :: nat
  using and_block [of n k j] by (simp add: push_bit_eq_mult mask_eq_exp_minus_1 take_bit_eq_mod drop_bit_eq_div)

lemma div_block: "0 < k \<Longrightarrow> (n div k * k = c * k) = (c * k \<le> n \<and> n < Suc c * k)" for n :: nat
  using less_eq_div_iff_mult_less_eq [of k c n] div_less_iff_less_mult [of k n "Suc c"] by auto

lemma byte_masks:
  "(w AND 0xf0 = 16) = (16 \<le> unat w \<and> unat w \<le> 31)" "(w AND 0xf0 = 0xe0) = (224 \<le> unat w \<and> unat w \<le> 239)"
  "(w AND 0xfe = 0xfc) = (252 \<le> unat w \<and> unat w \<le> 253)" "(w AND 0xc0 = 0x80) = (128 \<le> unat w \<and> unat w \<le> 191)" for w :: "8 word"
proof -
  have w: "unat w < 256" using unsigned_less [of w, where ?'a = nat] by simp
  have eq: "(a = b) = (unat a = unat b)" for a b :: "8 word" by (rule word_unat_eq_iff)
  have "unat w div 16 < 16" "unat w div 2 < 128" "unat w div 64 < 4" using w by simp_all
  then have b: "unat w AND 240 = unat w div 16 * 16" "unat w AND 254 = unat w div 2 * 2" "unat w AND 192 = unat w div 64 * 64"
    using and_block_arith [of "unat w" 4 4] and_block_arith [of "unat w" 7 1] and_block_arith [of "unat w" 2 6] by simp_all
  have d: "(unat w div 16 * 16 = 16) = (16 \<le> unat w \<and> unat w \<le> 31)" "(unat w div 16 * 16 = 224) = (224 \<le> unat w \<and> unat w \<le> 239)"
    "(unat w div 2 * 2 = 252) = (252 \<le> unat w \<and> unat w \<le> 253)" "(unat w div 64 * 64 = 128) = (128 \<le> unat w \<and> unat w \<le> 191)"
    using div_block [of 16 "unat w" 1] div_block [of 16 "unat w" 14] div_block [of 2 "unat w" 126] div_block [of 64 "unat w" 2] by auto
  show "(w AND 0xf0 = 16) = (16 \<le> unat w \<and> unat w \<le> 31)" "(w AND 0xf0 = 0xe0) = (224 \<le> unat w \<and> unat w \<le> 239)"
    "(w AND 0xfe = 0xfc) = (252 \<le> unat w \<and> unat w \<le> 253)" "(w AND 0xc0 = 0x80) = (128 \<le> unat w \<and> unat w \<le> 191)"
    unfolding eq unsigned_and_eq using b d by simp_all
qed

lemma byte_eq: "(w = numeral k) = (unat w = unat (numeral k :: 8 word))" for w :: "8 word"
  by (rule word_unat_eq_iff)

text \<open>The four bytes of an IPv4 address, in either representation.\<close>

lemma disallowed_v4:
  assumes "To4 ip = Some ip4"
  shows "isDisallowedIssuerIP ip \<longleftrightarrow> v4_forbidden (unat (ip4 ! 0)) (unat (ip4 ! 1)) (unat (ip4 ! 2)) (unat (ip4 ! 3))"
proof -
  obtain a b c d where ip4: "ip4 = [a, b, c, d]"
    using assms by (auto simp: To4_def length_Suc_conv numeral_eq_Suc split: if_splits)
  have form: "ip = ip4 \<or> ip = v4InV6Prefix @ ip4"
    using assms by (auto simp: To4_def split: if_splits) (metis append_take_drop_id)
  have prefix: "length v4InV6Prefix = 12" "v4InV6Prefix \<noteq> replicate 12 0" "v4InV6Prefix ! 0 = 0"
    by code_simp+
  have unspec: "IsUnspecified ip \<longleftrightarrow> ip4 = [0, 0, 0, 0]"
  proof -
    have zero: "replicate 16 0 = replicate 12 (0 :: 8 word) @ [0, 0, 0, 0]" by code_simp
    have "v4InV6Prefix @ ip4 \<noteq> replicate 12 0 @ [0, 0, 0, 0]" using prefix(1,2) by (simp add: append_eq_append_conv)
    then show ?thesis
      using form prefix(1,2) by (auto simp: IsUnspecified_def ip_Equal_def zero ip4)
  qed
  have ilm: "\<not> IsInterfaceLocalMulticast ip"
    using form ip4 prefix by (auto simp: IsInterfaceLocalMulticast_def nth_append)
  have e: "(w = 127) = (unat w = 127)" "(w = 10) = (unat w = 10)" "(w = 172) = (unat w = 172)" "(w = 192) = (unat w = 192)"
      "(w = 168) = (unat w = 168)" "(w = 169) = (unat w = 169)" "(w = 254) = (unat w = 254)" "(w = 224) = (unat w = 224)"
      "(w = 0) = (unat w = 0)" for w :: "8 word"
    by (simp_all add: word_unat_eq_iff)
  have order: "\<lbrakk>x \<Longrightarrow> m; \<not> i\<rbrakk> \<Longrightarrow> (p \<or> q \<or> (x \<and> y \<and> z) \<or> i \<or> m \<or> (r \<or> s \<or> t) \<or> u) = (p \<or> r \<or> s \<or> t \<or> q \<or> m \<or> u)"
    for x m i p q y z r s t u by blast
  have at: "ip4 ! 0 = a" "ip4 ! 1 = b" "ip4 ! 2 = c" "ip4 ! 3 = d" "(ip4 = [0, 0, 0, 0]) = (a = 0 \<and> b = 0 \<and> c = 0 \<and> d = 0)"
    by (simp_all add: ip4)
  show ?thesis
    unfolding isDisallowedIssuerIP_def IsLoopback_def IsLinkLocalUnicast_def IsLinkLocalMulticast_def IsMulticast_def IsPrivate_def assms
      option.case byte_masks
    unfolding unspec v4_forbidden_def at e
    by (rule order [OF _ ilm]) simp
qed

lemma disallowed_v6:
  assumes "To4 ip = None" "length ip = 16"
  shows "isDisallowedIssuerIP ip \<longleftrightarrow> v6_forbidden (map unat ip)"
proof -
  have inj: "(map unat ip = map unat bs) = (ip = bs)" for bs :: ip
    by (metis (no_types, lifting) inj_onI list.inj_map_strong word_unat_eq_iff)
  have eqs: "(map unat ip = replicate 16 0) = (ip = replicate 16 0)" "(map unat ip = replicate 15 0 @ [1]) = (ip = replicate 15 0 @ [1])"
    using inj [of "replicate 16 0"] inj [of "replicate 15 0 @ [1]"] by simp_all
  have unspec: "IsUnspecified ip \<longleftrightarrow> ip = replicate 16 0"
    using assms by (auto simp: IsUnspecified_def ip_Equal_def To4_def v4InV6Prefix_def)
  have nth: "map unat ip ! 0 = unat (ip ! 0)" "map unat ip ! 1 = unat (ip ! 1)" using assms(2) by simp_all
  show ?thesis
    unfolding isDisallowedIssuerIP_def IsLoopback_def IsLinkLocalUnicast_def IsLinkLocalMulticast_def IsInterfaceLocalMulticast_def
      IsMulticast_def IsPrivate_def assms option.case byte_masks unspec v6_forbidden_def eqs nth
    by (auto simp: byte_eq ip_Equal_def assms(2))
qed

lemma disallowed_iff: "length ip = 4 \<or> length ip = 16 \<Longrightarrow> isDisallowedIssuerIP ip \<longleftrightarrow> forbidden ip"
  by (cases "To4 ip") (auto simp: forbidden_def disallowed_v4 disallowed_v6 To4_def)

text \<open>
  C22 (safety). The issuer check dials only public addresses. When an issuer URL is resolved, its scheme
  is https, the address to dial is the first one of the single lookup made, so no later answer of the
  resolver matters, and none of the addresses found is loopback, link-local, private, multicast or
  unspecified: the ranges are stated as numbers and cover IPv4 addresses in both of their
  representations.
\<close>

theorem issuer_address_public:
  assumes "resolveIssuerHost net url = Inr (hostname, dialAddr)"
    and "\<And>h as a. n_Lookup net h = Inr as \<Longrightarrow> a \<in> set as \<Longrightarrow> length a = 4 \<or> length a = 16"
  shows "\<exists>u as. n_Parse net url = Inr u \<and> u_Scheme u = ''https'' \<and> hostname = u_Hostname u \<and> n_Lookup net hostname = Inr as \<and> as \<noteq> []
     \<and> dialAddr = JoinHostPort (n_String net (hd as)) (if u_Port u = [] then ''443'' else u_Port u)
     \<and> (\<forall>a \<in> set as. \<not> forbidden a)"
proof -
  obtain u a as where u: "n_Parse net url = Inr u" "u_Scheme u = ''https''" "hostname = u_Hostname u" "n_Lookup net (u_Hostname u) = Inr (a # as)"
      "List.find isDisallowedIssuerIP (a # as) = None" "dialAddr = JoinHostPort (n_String net a) (if u_Port u = [] then ''443'' else u_Port u)"
    using assms(1) by (auto simp: resolveIssuerHost_def Let_def split: sum.splits if_splits list.splits option.splits)
  have "\<not> forbidden b" if "b \<in> set (a # as)" for b
    using u(5) that assms(2) [OF u(4) that] disallowed_iff [of b] by (metis find_None_iff)
  with u show ?thesis by auto
qed

definition ex_net :: net where
  "ex_net = \<lparr>n_Parse = (\<lambda>_. Inr \<lparr>u_Scheme = ''https'', u_Hostname = ''oidc.example.com'', u_Port = []\<rparr>),
     n_Lookup = (\<lambda>_. Inr [[93, 184, 215, 14]]), n_String = (\<lambda>_. ''93.184.215.14'')\<rparr>"

theorem issuer_address_public_witness:
  "resolveIssuerHost ex_net ''https://oidc.example.com'' = Inr (''oidc.example.com'', ''93.184.215.14:443'') \<and> \<not> forbidden [93, 184, 215, 14]"
proof -
  have r: "resolveIssuerHost ex_net ''https://oidc.example.com'' = Inr (''oidc.example.com'', ''93.184.215.14:443'')" by code_simp
  have "\<exists>u as. n_Parse ex_net ''https://oidc.example.com'' = Inr u \<and> u_Scheme u = ''https'' \<and> ''oidc.example.com'' = u_Hostname u
     \<and> n_Lookup ex_net ''oidc.example.com'' = Inr as \<and> as \<noteq> []
     \<and> ''93.184.215.14:443'' = JoinHostPort (n_String ex_net (hd as)) (if u_Port u = [] then ''443'' else u_Port u)
     \<and> (\<forall>a \<in> set as. \<not> forbidden a)"
    by (rule issuer_address_public [OF r]) (auto simp: ex_net_def)
  with r show ?thesis by (auto simp: ex_net_def)
qed

text \<open>An address that embeds an IPv4 address in the prefix of a NAT64 gateway passes the check.\<close>

lemma nat64_passes: "\<not> isDisallowedIssuerIP [0, 0x64, 0xff, 0x9b, 0, 0, 0, 0, 0, 0, 0, 0, 169, 254, 169, 254]"
  by code_simp

section \<open>Keys in Secrets Manager\<close>

text \<open>What the code relies on: a store of named secrets whose requests may fail without effect.\<close>

definition sm_ok :: "'m secretsmanager \<Rightarrow> ('m \<Rightarrow> string \<Rightarrow> string option) \<Rightarrow> bool" where
  "sm_ok sm st \<longleftrightarrow>
     (\<forall>n v m. (case sm_Create sm n v m of
         (None, m') \<Rightarrow> st m n = None \<and> st m' = (st m)(n \<mapsto> v)
       | (Some e, m') \<Rightarrow> st m' = st m \<and> (e = ResourceExists \<longrightarrow> st m n \<noteq> None)))
   \<and> (\<forall>n v m. (case sm_Put sm n v m of (None, m') \<Rightarrow> st m' = (st m)(n \<mapsto> v) | (Some e, m') \<Rightarrow> st m' = st m))
   \<and> (\<forall>n m. (case sm_Describe sm n m of None \<Rightarrow> st m n \<noteq> None | Some e \<Rightarrow> e = ResourceNotFound \<longrightarrow> st m n = None))
   \<and> (\<forall>n m. (case sm_Delete sm n m of
         (None, m') \<Rightarrow> st m' = (st m)(n := None)
       | (Some e, m') \<Rightarrow> st m' = st m \<and> (e = ResourceNotFound \<longrightarrow> st m n = None)))"

lemma key_store:
  assumes "sm_ok sm st"
  shows "StorePrivateKey sm a c pem m = (None, m') \<Longrightarrow> st m' = (st m)(SecretName a c \<mapsto> pem)"
    and "StorePrivateKey sm a c pem m = (Some e, m') \<Longrightarrow> st m' = st m"
    and "PrivateKeyExists sm a c m = Inr b \<Longrightarrow> b = (st m (SecretName a c) \<noteq> None)"
    and "DeletePrivateKey sm a c m = (None, m') \<Longrightarrow> st m' = (st m)(SecretName a c := None)"
proof -
  let ?n = "SecretName a c"
  obtain e1 m1 where c1: "sm_Create sm ?n pem m = (e1, m1)" by fastforce
  obtain e2 m2 where c2: "sm_Put sm ?n pem m1 = (e2, m2)" by fastforce
  obtain e3 m3 where c3: "sm_Delete sm ?n m = (e3, m3)" by fastforce
  have r: "case sm_Create sm ?n pem m of (None, m') \<Rightarrow> st m ?n = None \<and> st m' = (st m)(?n \<mapsto> pem)
         | (Some e, m') \<Rightarrow> st m' = st m \<and> (e = ResourceExists \<longrightarrow> st m ?n \<noteq> None)"
      "case sm_Put sm ?n pem m1 of (None, m') \<Rightarrow> st m' = (st m1)(?n \<mapsto> pem) | (Some e, m') \<Rightarrow> st m' = st m1"
      "case sm_Delete sm ?n m of (None, m') \<Rightarrow> st m' = (st m)(?n := None)
         | (Some e, m') \<Rightarrow> st m' = st m \<and> (e = ResourceNotFound \<longrightarrow> st m ?n = None)"
      "case sm_Describe sm ?n m of None \<Rightarrow> st m ?n \<noteq> None | Some e \<Rightarrow> e = ResourceNotFound \<longrightarrow> st m ?n = None"
    using assms [unfolded sm_ok_def, THEN conjunct1, THEN spec [where x = ?n], THEN spec [where x = pem], THEN spec [where x = m]]
      assms [unfolded sm_ok_def, THEN conjunct2, THEN conjunct1, THEN spec [where x = ?n], THEN spec [where x = pem], THEN spec [where x = m1]]
      assms [unfolded sm_ok_def, THEN conjunct2, THEN conjunct2, THEN conjunct2, THEN spec [where x = ?n], THEN spec [where x = m]]
      assms [unfolded sm_ok_def, THEN conjunct2, THEN conjunct2, THEN conjunct1, THEN spec [where x = ?n], THEN spec [where x = m]] .
  show "StorePrivateKey sm a c pem m = (None, m') \<Longrightarrow> st m' = (st m)(?n \<mapsto> pem)"
      "StorePrivateKey sm a c pem m = (Some e, m') \<Longrightarrow> st m' = st m"
    using r(1,2) by (auto simp: StorePrivateKey_def c1 c2 split: option.splits sm_error.splits)
  show "PrivateKeyExists sm a c m = Inr b \<Longrightarrow> b = (st m ?n \<noteq> None)"
    using r(4) by (auto simp: PrivateKeyExists_def split: option.splits sm_error.splits)
  show "DeletePrivateKey sm a c m = (None, m') \<Longrightarrow> st m' = (st m)(?n := None)"
    using r(3) by (auto simp: DeletePrivateKey_def c3 split: option.splits sm_error.splits)
qed

end
