(* ===== verification/OidcCtl.thy ===== *)
theory OidcCtl
  imports OidcInfra
begin

text \<open>
  \<open>hyperfleet-operator/internal/controller/oidcconfig_controller.go\<close>: managed and unmanaged OIDC
  configurations, the copy of a customer's signing key, and its removal behind a finalizer.
\<close>

definition oidcConfigFinalizer :: string where "oidcConfigFinalizer = ''hyperfleet.io/oidcconfig''"

definition thumbprintRefreshDelay :: int where "thumbprintRefreshDelay = 86400"

definition managedPendingRequeueInterval :: int where "managedPendingRequeueInterval = 30"

definition oidc_accountIDLabel :: string where "oidc_accountIDLabel = ''hyperfleet.io/account-id''"

section \<open>Calls of the infrastructure client\<close>

definition storeKey :: "'w operator_api \<Rightarrow> string \<Rightarrow> string \<Rightarrow> string \<Rightarrow> ('w, string option) prog" where
  "storeKey api a c k = call (ic_StorePrivateKey (api_infra api) a c k) (LStoreKey a c k)"

definition keyExists :: "'w operator_api \<Rightarrow> string \<Rightarrow> string \<Rightarrow> ('w, string + bool) prog" where
  "keyExists api a c = call (ic_PrivateKeyExists (api_infra api) a c) (LKeyExists a c)"

definition readSecret :: "'w operator_api \<Rightarrow> string \<Rightarrow> string \<Rightarrow> ('w, string + string) prog" where
  "readSecret api arn role = call (ic_ReadCrossAccountSecret (api_infra api) arn role) (LReadSecret arn role)"

definition deleteKey :: "'w operator_api \<Rightarrow> string \<Rightarrow> string \<Rightarrow> ('w, string option) prog" where
  "deleteKey api a c = call (ic_DeletePrivateKey (api_infra api) a c) (LDeleteKey a c)"

definition thumbprint :: "'w operator_api \<Rightarrow> string \<Rightarrow> ('w, string + string) prog" where
  "thumbprint api url = call (ic_ComputeThumbprint (api_infra api) url) (LThumbprint url)"

section \<open>Status\<close>

definition oc_setPhase :: "'w operator_api \<Rightarrow> OidcConfig \<Rightarrow> string \<Rightarrow> ('w, unit) prog" where
  "oc_setPhase api oc phase =
     (if ot_Phase (k_Status oc) = phase then State_Monad.return ()
      else do {
        _ \<leftarrow> status_retry api (oidcconfigs api) (k_key oc) (\<lambda>latest.
               if ot_Phase (k_Status latest) = phase then None
               else Some (latest\<lparr>k_Status := (k_Status latest)\<lparr>ot_Phase := phase, ot_ObservedGeneration := km_Generation latest\<rparr>\<rparr>));
        State_Monad.return () })"

definition not_ready :: "string \<Rightarrow> string \<Rightarrow> Condition" where
  "not_ready reason message = \<lparr>cd_Type = ''Ready'', cd_Status = ''False'', cd_Reason = reason, cd_Message = message,
     cd_ObservedGeneration = 0, cd_LastTransitionTime = None\<rparr>"

definition oc_ready :: Condition where
  "oc_ready = \<lparr>cd_Type = ''Ready'', cd_Status = ''True'', cd_Reason = ''OIDCConfigured'',
     cd_Message = ''OIDC infrastructure is configured and ready'', cd_ObservedGeneration = 0, cd_LastTransitionTime = None\<rparr>"

definition setReadyCondition :: "klib \<Rightarrow> 'w operator_api \<Rightarrow> OidcConfig \<Rightarrow> string \<Rightarrow> string \<Rightarrow> ('w, unit) prog" where
  "setReadyCondition lib api oc reason message = do {
     _ \<leftarrow> status_retry api (oidcconfigs api) (k_key oc) (\<lambda>latest.
            Some (latest\<lparr>k_Status := (k_Status latest)\<lparr>ot_Conditions := SetStatusCondition lib (ot_Conditions (k_Status latest)) (not_ready reason message)\<rparr>\<rparr>));
     State_Monad.return () }"

definition setReadyConditionAndPhase :: "klib \<Rightarrow> 'w operator_api \<Rightarrow> OidcConfig \<Rightarrow> string \<Rightarrow> string \<Rightarrow> string \<Rightarrow> ('w, unit) prog" where
  "setReadyConditionAndPhase lib api oc reason message phase = do {
     _ \<leftarrow> status_retry api (oidcconfigs api) (k_key oc) (\<lambda>latest.
            Some (latest\<lparr>k_Status := (k_Status latest)\<lparr>ot_Conditions := SetStatusCondition lib (ot_Conditions (k_Status latest)) (not_ready reason message),
              ot_Phase := phase, ot_ObservedGeneration := km_Generation latest\<rparr>\<rparr>));
     State_Monad.return () }"

section \<open>Reconcile\<close>

definition mark_ready :: "klib \<Rightarrow> string \<Rightarrow> OidcConfig \<Rightarrow> OidcConfig" where
  "mark_ready lib print latest =
     latest\<lparr>k_Status := (k_Status latest)\<lparr>ot_Conditions := SetStatusCondition lib (ot_Conditions (k_Status latest)) oc_ready,
        ot_Phase := OidcConfigPhaseReady, ot_Thumbprint := print, ot_ObservedGeneration := km_Generation latest\<rparr>\<rparr>"

definition checkReadiness :: "klib \<Rightarrow> 'w operator_api \<Rightarrow> OidcConfig \<Rightarrow> (string \<Rightarrow> string \<Rightarrow> ('w, reconcile_result) prog) \<Rightarrow> ('w, reconcile_result) prog" where
  "checkReadiness lib api oc onFailure = do {
     t \<leftarrow> thumbprint api (os_IssuerUrl (k_Spec oc));
     case t of
       Inl e \<Rightarrow> onFailure ''IssuerNotReady'' e
     | Inr print \<Rightarrow> do {
         u \<leftarrow> status_retry api (oidcconfigs api) (k_key oc) (\<lambda>latest. Some (mark_ready lib print latest));
         case u of Some e \<Rightarrow> fail e | None \<Rightarrow> State_Monad.return (Inr (Some thumbprintRefreshDelay)) } }"

definition isReferencedByCluster :: "'w operator_api \<Rightarrow> OidcConfig \<Rightarrow> ('w, kerr + bool) prog" where
  "isReferencedByCluster api oc = do {
     l \<leftarrow> kList (clusters api) None [(oidc_accountIDLabel, os_AccountID (k_Spec oc))];
     State_Monad.return (map_sum id (\<lambda>items. list_ex (\<lambda>c. cs_OidcConfigID (k_Spec c) = km_Name oc) items) l) }"

definition reconcileManaged :: "klib \<Rightarrow> 'w operator_api \<Rightarrow> OidcConfig \<Rightarrow> ('w, reconcile_result) prog" where
  "reconcileManaged lib api oc = do {
     _ \<leftarrow> (if ot_Phase (k_Status oc) = [] then oc_setPhase api oc OidcConfigPhasePending else State_Monad.return ());
     r \<leftarrow> isReferencedByCluster api oc;
     case r of
       Inl e \<Rightarrow> fail e
     | Inr referenced \<Rightarrow>
         if \<not> referenced then do {
           _ \<leftarrow> setReadyConditionAndPhase lib api oc ''AwaitingCluster''
                  ''Waiting for a cluster to be created that references this OIDC config'' OidcConfigPhasePending;
           State_Monad.return (Inr (Some managedPendingRequeueInterval)) }
         else checkReadiness lib api oc (\<lambda>_ _. do {
           _ \<leftarrow> setReadyConditionAndPhase lib api oc ''IssuerNotReady''
                  ''Waiting for the referenced cluster's control plane to publish its OIDC configuration'' OidcConfigPhasePending;
           State_Monad.return (Inr (Some managedPendingRequeueInterval)) }) }"

text \<open>The customer's key is copied unless it is there; \<open>Inl\<close> ends the reconcile.\<close>

definition ensure_key :: "klib \<Rightarrow> key_lib \<Rightarrow> 'w operator_api \<Rightarrow> OidcConfig \<Rightarrow> ('w, reconcile_result + unit) prog" where
  "ensure_key lib kl api oc =
     (let accountID = os_AccountID (k_Spec oc); configID = km_Name oc
      in do {
        ex \<leftarrow> keyExists api accountID configID;
        case ex of
          Inl e \<Rightarrow> State_Monad.return (Inl (Inl (RText (''check private key: '' @ e))))
        | Inr exists \<Rightarrow>
            if exists then State_Monad.return (Inr ())
            else do {
              k \<leftarrow> readSecret api (os_SecretArn (k_Spec oc)) (os_InstallerRoleArn (k_Spec oc));
              case k of
                Inl e \<Rightarrow> do {
                  _ \<leftarrow> setReadyCondition lib api oc ''CrossAccountReadFailed'' e;
                  State_Monad.return (Inl (Inl (RText (''read cross-account secret: '' @ e)))) }
              | Inr keyData \<Rightarrow>
                  (case ValidateRSAPrivateKey kl keyData of
                     Some e \<Rightarrow> do {
                       _ \<leftarrow> setReadyConditionAndPhase lib api oc ''InvalidPrivateKey'' e OidcConfigPhaseError;
                       State_Monad.return (Inl done_result) }
                   | None \<Rightarrow> do {
                       s \<leftarrow> storeKey api accountID configID keyData;
                       case s of
                         Some e \<Rightarrow> do {
                           _ \<leftarrow> setReadyCondition lib api oc ''SecretStoreFailed'' e;
                           State_Monad.return (Inl (Inl (RText (''store private key: '' @ e)))) }
                       | None \<Rightarrow> State_Monad.return (Inr ()) }) } })"

definition reconcileUnmanaged :: "klib \<Rightarrow> key_lib \<Rightarrow> 'w operator_api \<Rightarrow> OidcConfig \<Rightarrow> ('w, reconcile_result) prog" where
  "reconcileUnmanaged lib kl api oc = do {
     _ \<leftarrow> (if ot_Phase (k_Status oc) = [] then oc_setPhase api oc OidcConfigPhasePending else State_Monad.return ());
     r \<leftarrow> ensure_key lib kl api oc;
     case r of
       Inl res \<Rightarrow> State_Monad.return res
     | Inr _ \<Rightarrow> checkReadiness lib api oc (\<lambda>reason message. do {
         _ \<leftarrow> setReadyConditionAndPhase lib api oc reason message OidcConfigPhaseError;
         State_Monad.return (Inl (RText (reason @ '': '' @ message))) }) }"

definition oc_reconcileDelete :: "klib \<Rightarrow> 'w operator_api \<Rightarrow> OidcConfig \<Rightarrow> ('w, reconcile_result) prog" where
  "oc_reconcileDelete lib api oc =
     (if \<not> ContainsFinalizer lib (km_Finalizers oc) oidcConfigFinalizer then State_Monad.return done_result
      else do {
        d \<leftarrow> deleteKey api (os_AccountID (k_Spec oc)) (km_Name oc);
        case d of
          Some e \<Rightarrow> State_Monad.return (Inl (RText (''delete private key: '' @ e)))
        | None \<Rightarrow> do {
            u \<leftarrow> remove_finalizer_retry lib api (oidcconfigs api) (k_key oc) oidcConfigFinalizer;
            case u of Some e \<Rightarrow> fail e | None \<Rightarrow> State_Monad.return done_result } })"

definition oc_live :: "klib \<Rightarrow> key_lib \<Rightarrow> 'w operator_api \<Rightarrow> OidcConfig \<Rightarrow> ('w, reconcile_result) prog" where
  "oc_live lib kl api oc =
     (if \<not> ContainsFinalizer lib (km_Finalizers oc) oidcConfigFinalizer then do {
        u \<leftarrow> kUpdate (oidcconfigs api) (oc\<lparr>km_Finalizers := AddFinalizer lib (km_Finalizers oc) oidcConfigFinalizer\<rparr>);
        case u of Inl e \<Rightarrow> ignore_not_found e | Inr _ \<Rightarrow> State_Monad.return done_result }
      else if os_Type (k_Spec oc) = OidcConfigTypeManaged then reconcileManaged lib api oc
      else if os_Type (k_Spec oc) = OidcConfigTypeUnmanaged then reconcileUnmanaged lib kl api oc
      else do {
        _ \<leftarrow> setReadyConditionAndPhase lib api oc ''InvalidType'' (''unknown type: '' @ os_Type (k_Spec oc)) OidcConfigPhaseError;
        State_Monad.return done_result })"

definition oc_Reconcile :: "klib \<Rightarrow> key_lib \<Rightarrow> 'w operator_api \<Rightarrow> nskey \<Rightarrow> ('w, reconcile_result) prog" where
  "oc_Reconcile lib kl api req = do {
     r \<leftarrow> kGet (oidcconfigs api) req;
     case r of
       Inl e \<Rightarrow> ignore_not_found e
     | Inr oc \<Rightarrow> if km_Deletion oc \<noteq> None then oc_reconcileDelete lib api oc else oc_live lib kl api oc }"

section \<open>Keys, finalizers and readiness\<close>

text \<open>Why a configuration may be called ready: a managed one is used by a cluster, an unmanaged one has its
  key in place.\<close>

definition ready_basis :: "OidcConfig \<Rightarrow> log_entry list \<Rightarrow> bool" where
  "ready_basis oc l \<longleftrightarrow>
     (os_Type (k_Spec oc) = OidcConfigTypeManaged
        \<and> (\<exists>items c. LCluster (CList None [(oidc_accountIDLabel, os_AccountID (k_Spec oc))] (Inr items)) \<in> set l \<and> c \<in> set items \<and> cs_OidcConfigID (k_Spec c) = km_Name oc))
   \<or> (os_Type (k_Spec oc) = OidcConfigTypeUnmanaged
        \<and> (LKeyExists (os_AccountID (k_Spec oc)) (km_Name oc) (Inr True) \<in> set l
           \<or> (\<exists>k. LStoreKey (os_AccountID (k_Spec oc)) (km_Name oc) k None \<in> set l)))"

definition oidc_write_ok :: "key_lib \<Rightarrow> nskey \<Rightarrow> log_entry list \<Rightarrow> log_entry \<Rightarrow> bool" where
  "oidc_write_ok kl req l e =
     (case e of
        LStoreKey a c k r \<Rightarrow>
          (\<exists>oc. LOidc (CGet req (Inr oc)) \<in> set l \<and> km_Deletion oc = None \<and> os_Type (k_Spec oc) = OidcConfigTypeUnmanaged
             \<and> a = os_AccountID (k_Spec oc) \<and> c = km_Name oc \<and> LKeyExists a c (Inr False) \<in> set l
             \<and> LReadSecret (os_SecretArn (k_Spec oc)) (os_InstallerRoleArn (k_Spec oc)) (Inr k) \<in> set l
             \<and> ValidateRSAPrivateKey kl k = None)
      | LDeleteKey a c r \<Rightarrow>
          (\<exists>oc. LOidc (CGet req (Inr oc)) \<in> set l \<and> km_Deletion oc \<noteq> None \<and> oidcConfigFinalizer \<in> set (km_Finalizers oc)
             \<and> a = os_AccountID (k_Spec oc) \<and> c = km_Name oc)
      | LOidc (CUpdate x r) \<Rightarrow>
          oidcConfigFinalizer \<in> set (km_Finalizers x)
          \<or> (\<exists>oc. LOidc (CGet req (Inr oc)) \<in> set l \<and> km_Deletion oc \<noteq> None \<and> LDeleteKey (os_AccountID (k_Spec oc)) (km_Name oc) None \<in> set l)
      | LOidc (CStatusUpdate x r) \<Rightarrow>
          ot_Phase (k_Status x) = OidcConfigPhaseReady \<longrightarrow>
            (\<exists>y key. LOidc (CGet key (Inr y)) \<in> set l \<and> ot_Phase (k_Status y) = OidcConfigPhaseReady)
          \<or> (\<exists>oc. LOidc (CGet req (Inr oc)) \<in> set l \<and> LThumbprint (os_IssuerUrl (k_Spec oc)) (Inr (ot_Thumbprint (k_Status x))) \<in> set l
               \<and> ready_basis oc l)
      | LOidc (CCreate x r) \<Rightarrow> False
      | LOidc (CDelete x r) \<Rightarrow> False
      | _ \<Rightarrow> True)"

lemma stable_basis: "stable (ready_basis oc)"
  unfolding stable_def ready_basis_def by auto

lemma growing_oidc: "growing (oidc_write_ok kl req)"
  unfolding growing_def
proof
  fix e
  have "oidc_write_ok kl req (l @ es) e" if "oidc_write_ok kl req l e" for l es
    using that stable_basis [unfolded stable_def] unfolding oidc_write_ok_def
    by (cases e) (fastforce split: kcall.splits)+
  then show "stable (\<lambda>l. oidc_write_ok kl req l e)" by (simp add: stable_def)
qed

abbreviation oguard :: "key_lib \<Rightarrow> nskey \<Rightarrow> (log_entry list \<Rightarrow> bool) \<Rightarrow> log_entry list \<Rightarrow> bool" where
  "oguard kl req P l \<equiv> justified (oidc_write_ok kl req) l \<and> P l"

lemma hoare_oc_status:
  assumes "retry_ok api" "stable P" "phase \<noteq> OidcConfigPhaseReady"
  shows "hoare (oguard kl req P) (oc_setPhase api oc phase) (\<lambda>_. oguard kl req P)"
    and "hoare (oguard kl req P) (setReadyCondition lib api oc reason message) (\<lambda>_. oguard kl req P)"
    and "hoare (oguard kl req P) (setReadyConditionAndPhase lib api oc reason message phase) (\<lambda>_. oguard kl req P)"
  unfolding oc_setPhase_def setReadyCondition_def setReadyConditionAndPhase_def
  by (intro hoare_if hoare_bind [OF hoare_status_retry [OF assms(1) growing_oidc assms(2)]];
      auto simp: oidc_write_ok_def assms(3) intro!: hoare_return split: if_splits simp del: split_paired_Ex)+

lemma hoare_ocall:
  assumes "stable P" "\<And>l r. P l \<Longrightarrow> entry r \<in> set l \<Longrightarrow> oidc_write_ok kl req l (entry r)"
  shows "hoare (oguard kl req P) (call f entry) (\<lambda>r. oguard kl req (\<lambda>l. P l \<and> entry r \<in> set l))"
  using hoare_justified_call [OF growing_oidc assms] .

lemma hoare_readiness:
  assumes "retry_ok api" "stable P"
    and P: "\<And>l. P l \<Longrightarrow> LOidc (CGet req (Inr oc)) \<in> set l \<and> ready_basis oc l"
    and F: "\<And>reason message Q. stable Q \<Longrightarrow> hoare (oguard kl req Q) (onFailure reason message) (\<lambda>_. justified (oidc_write_ok kl req))"
  shows "hoare (oguard kl req P) (checkReadiness lib api oc onFailure) (\<lambda>_. justified (oidc_write_ok kl req))"
proof -
  let ?e = "\<lambda>r. LThumbprint (os_IssuerUrl (k_Spec oc)) r"
  have st: "stable (\<lambda>l. P l \<and> ?e r \<in> set l)" for r by (rule stable_and_in [OF assms(2)])
  have ready: "hoare (oguard kl req (\<lambda>l. P l \<and> ?e (Inr pr) \<in> set l)) (status_retry api (oidcconfigs api) (k_key oc) (\<lambda>latest. Some (mark_ready lib pr latest)))
      (\<lambda>_. oguard kl req (\<lambda>l. P l \<and> ?e (Inr pr) \<in> set l))" for pr
  proof (rule hoare_status_retry [OF assms(1) growing_oidc st])
    fix l x y r
    assume l: "P l \<and> ?e (Inr pr) \<in> set l" and y: "Some (mark_ready lib pr x) = Some y"
    then have "ot_Thumbprint (k_Status y) = pr" by (auto simp: mark_ready_def)
    then have "\<exists>oc. LOidc (CGet req (Inr oc)) \<in> set l \<and> LThumbprint (os_IssuerUrl (k_Spec oc)) (Inr (ot_Thumbprint (k_Status y))) \<in> set l \<and> ready_basis oc l"
      using l P by blast
    then show "oidc_write_ok kl req l (snd (oidcconfigs api) (CStatusUpdate y r))" unfolding oidc_write_ok_def by simp
  qed (simp add: oidc_write_ok_def)
  have tp: "hoare (oguard kl req P) (thumbprint api (os_IssuerUrl (k_Spec oc))) (\<lambda>r. oguard kl req (\<lambda>l. P l \<and> ?e r \<in> set l))"
    unfolding thumbprint_def by (rule hoare_ocall [OF assms(2)]) (simp add: oidc_write_ok_def)
  show ?thesis
    unfolding checkReadiness_def fail_def
  proof (intro hoare_bind [OF tp] hoare_sum)
    fix r :: "string + string" and e
    show "hoare (oguard kl req (\<lambda>l. P l \<and> ?e r \<in> set l)) (onFailure ''IssuerNotReady'' e) (\<lambda>_. justified (oidc_write_ok kl req))"
      by (rule F [OF st])
  next
    fix r :: "string + string" and pr
    assume r: "r = Inr pr"
    show "hoare (oguard kl req (\<lambda>l. P l \<and> ?e r \<in> set l))
       (do { u \<leftarrow> status_retry api (oidcconfigs api) (k_key oc) (\<lambda>latest. Some (mark_ready lib pr latest));
             case u of None \<Rightarrow> State_Monad.return (Inr (Some thumbprintRefreshDelay)) | Some e \<Rightarrow> State_Monad.return (Inl (RKube e)) })
       (\<lambda>_. justified (oidc_write_ok kl req))"
      unfolding r by (intro hoare_bind [OF ready] hoare_option) (auto intro!: hoare_return)
  qed
qed

lemma phases_not_ready: "OidcConfigPhasePending \<noteq> OidcConfigPhaseReady" "OidcConfigPhaseError \<noteq> OidcConfigPhaseReady"
  by (simp_all add: OidcConfigPhasePending_def OidcConfigPhaseReady_def OidcConfigPhaseError_def)

lemma hoare_pending:
  assumes "retry_ok api" "stable P"
  shows "hoare (oguard kl req P) (if ot_Phase (k_Status oc) = [] then oc_setPhase api oc OidcConfigPhasePending else State_Monad.return ())
     (\<lambda>_. oguard kl req P)"
  by (rule hoare_if [OF hoare_oc_status(1) [OF assms phases_not_ready(1)]]) (rule hoare_return)

lemma hoare_managed:
  assumes "retry_ok api" "os_Type (k_Spec oc) = OidcConfigTypeManaged"
  shows "hoare (oguard kl req (\<lambda>l. LOidc (CGet req (Inr oc)) \<in> set l)) (reconcileManaged lib api oc) (\<lambda>_. justified (oidc_write_ok kl req))"
proof -
  let ?P = "\<lambda>l. LOidc (CGet req (Inr oc)) \<in> set l"
  have st: "stable ?P" by (simp add: stable_def)
  have ref: "hoare (oguard kl req ?P) (isReferencedByCluster api oc) (\<lambda>r. oguard kl req (\<lambda>l. ?P l \<and> (r = Inr True \<longrightarrow> ready_basis oc l)))"
    unfolding isReferencedByCluster_def kList_def
    by (intro hoare_bind [OF hoare_ocall [OF st]] hoare_return)
      (auto simp: oidc_write_ok_def ready_basis_def assms(2) list_ex_iff map_sum_eq_Inr)
  have fail: "hoare (oguard kl req Q) (do {
           _ \<leftarrow> setReadyConditionAndPhase lib api oc reason message OidcConfigPhasePending;
           State_Monad.return (Inr (Some managedPendingRequeueInterval)) }) (\<lambda>_. justified (oidc_write_ok kl req))"
    if "stable Q" for Q reason message
    by (intro hoare_bind [OF hoare_oc_status(3) [OF assms(1) that phases_not_ready(1)]] hoare_return) simp
  have ready: "hoare (oguard kl req (\<lambda>l. ?P l \<and> ready_basis oc l)) (checkReadiness lib api oc (\<lambda>_ _. do {
           _ \<leftarrow> setReadyConditionAndPhase lib api oc reason message OidcConfigPhasePending;
           State_Monad.return (Inr (Some managedPendingRequeueInterval)) })) (\<lambda>_. justified (oidc_write_ok kl req))" for reason message
    by (rule hoare_readiness [OF assms(1) _ _ fail]) (use st stable_basis [of oc] in \<open>auto simp: stable_def\<close>)
  show ?thesis
    unfolding reconcileManaged_def fail_def
    by (intro hoare_bind [OF hoare_pending [OF assms(1) st]] hoare_bind [OF ref] hoare_sum hoare_if hoare_pre [OF fail [OF st]] hoare_pre [OF ready])
      (auto intro!: hoare_return)
qed

lemma hoare_ensure_key:
  assumes "retry_ok api" "os_Type (k_Spec oc) = OidcConfigTypeUnmanaged" "km_Deletion oc = None"
  shows "hoare (oguard kl req (\<lambda>l. LOidc (CGet req (Inr oc)) \<in> set l)) (ensure_key lib kl api oc)
     (\<lambda>r. oguard kl req (\<lambda>l. r = Inr () \<longrightarrow> LOidc (CGet req (Inr oc)) \<in> set l \<and> ready_basis oc l))" (is "hoare _ _ ?Q")
proof -
  let ?P = "\<lambda>l. LOidc (CGet req (Inr oc)) \<in> set l"
  let ?a = "os_AccountID (k_Spec oc)" and ?c = "km_Name oc"
  let ?E = "\<lambda>r l. ?P l \<and> LKeyExists ?a ?c r \<in> set l"
  let ?R = "\<lambda>r l. ?E (Inr False) l \<and> LReadSecret (os_SecretArn (k_Spec oc)) (os_InstallerRoleArn (k_Spec oc)) r \<in> set l"
  have st: "stable ?P" "stable (?E r)" "stable (?R k)" for r k by (auto simp: stable_def)
  have ex: "hoare (oguard kl req ?P) (keyExists api ?a ?c) (\<lambda>r. oguard kl req (?E r))"
    unfolding keyExists_def by (rule hoare_ocall [OF st(1)]) (simp add: oidc_write_ok_def)
  have rd: "hoare (oguard kl req (?E (Inr False))) (readSecret api (os_SecretArn (k_Spec oc)) (os_InstallerRoleArn (k_Spec oc))) (\<lambda>r. oguard kl req (?R r))"
    unfolding readSecret_def by (rule hoare_ocall [OF st(2)]) (simp add: oidc_write_ok_def)
  have sto: "hoare (oguard kl req (?R (Inr k))) (storeKey api ?a ?c k) (\<lambda>r. oguard kl req (\<lambda>l. ?R (Inr k) l \<and> LStoreKey ?a ?c k r \<in> set l))"
    if "ValidateRSAPrivateKey kl k = None" for k
    unfolding storeKey_def by (rule hoare_ocall [OF st(3)]) (use that assms(2,3) in \<open>auto simp: oidc_write_ok_def\<close>)
  have rep: "hoare (oguard kl req S) (do { _ \<leftarrow> setReadyCondition lib api oc reason e; State_Monad.return (Inl x) }) ?Q"
      "hoare (oguard kl req S) (do { _ \<leftarrow> setReadyConditionAndPhase lib api oc reason e OidcConfigPhaseError; State_Monad.return (Inl x) }) ?Q"
    if "stable S" for S reason e x
    by (intro hoare_bind [OF hoare_oc_status(2) [OF assms(1) that phases_not_ready(2)]] hoare_return; simp)
      (intro hoare_bind [OF hoare_oc_status(3) [OF assms(1) that phases_not_ready(2)]] hoare_return; simp)
  have stS: "stable (\<lambda>l. ?R (Inr k) l \<and> LStoreKey ?a ?c k r \<in> set l)" for k r by (auto simp: stable_def)
  have store: "hoare (oguard kl req (?R (Inr k))) (do {
       s \<leftarrow> storeKey api ?a ?c k;
       case s of
         Some e \<Rightarrow> do { _ \<leftarrow> setReadyCondition lib api oc ''SecretStoreFailed'' e;
                        State_Monad.return (Inl (Inl (RText (''store private key: '' @ e)))) }
       | None \<Rightarrow> State_Monad.return (Inr ()) }) ?Q" if "ValidateRSAPrivateKey kl k = None" for k
    by (intro hoare_bind [OF sto [OF that]] hoare_option rep(1) stS hoare_return) (auto simp: ready_basis_def assms(2))
  have copy: "hoare (oguard kl req (?E (Inr False))) (do {
       k \<leftarrow> readSecret api (os_SecretArn (k_Spec oc)) (os_InstallerRoleArn (k_Spec oc));
       case k of
         Inl e \<Rightarrow> do { _ \<leftarrow> setReadyCondition lib api oc ''CrossAccountReadFailed'' e;
                       State_Monad.return (Inl (Inl (RText (''read cross-account secret: '' @ e)))) }
       | Inr keyData \<Rightarrow>
           (case ValidateRSAPrivateKey kl keyData of
              Some e \<Rightarrow> do { _ \<leftarrow> setReadyConditionAndPhase lib api oc ''InvalidPrivateKey'' e OidcConfigPhaseError;
                             State_Monad.return (Inl done_result) }
            | None \<Rightarrow> do {
                s \<leftarrow> storeKey api ?a ?c keyData;
                case s of
                  Some e \<Rightarrow> do { _ \<leftarrow> setReadyCondition lib api oc ''SecretStoreFailed'' e;
                                 State_Monad.return (Inl (Inl (RText (''store private key: '' @ e)))) }
                | None \<Rightarrow> State_Monad.return (Inr ()) }) }) ?Q"
    by (intro hoare_bind [OF rd] hoare_sum hoare_option rep st hoare_pre [OF store]) auto
  show ?thesis
    unfolding ensure_key_def Let_def
    by (intro hoare_bind [OF ex] hoare_sum hoare_if hoare_pre [OF copy] hoare_return) (auto simp: ready_basis_def assms(2))
qed

lemma hoare_unmanaged:
  assumes "retry_ok api" "os_Type (k_Spec oc) = OidcConfigTypeUnmanaged" "km_Deletion oc = None"
  shows "hoare (oguard kl req (\<lambda>l. LOidc (CGet req (Inr oc)) \<in> set l)) (reconcileUnmanaged lib kl api oc) (\<lambda>_. justified (oidc_write_ok kl req))"
proof -
  let ?P = "\<lambda>l. LOidc (CGet req (Inr oc)) \<in> set l"
  have st: "stable ?P" by (simp add: stable_def)
  have fail: "hoare (oguard kl req Q) (do {
         _ \<leftarrow> setReadyConditionAndPhase lib api oc reason message OidcConfigPhaseError;
         State_Monad.return (Inl (RText (reason @ '': '' @ message))) }) (\<lambda>_. justified (oidc_write_ok kl req))"
    if "stable Q" for Q reason message
    by (intro hoare_bind [OF hoare_oc_status(3) [OF assms(1) that phases_not_ready(2)]] hoare_return) simp
  have ready: "hoare (oguard kl req (\<lambda>l. ?P l \<and> ready_basis oc l)) (checkReadiness lib api oc (\<lambda>reason message. do {
         _ \<leftarrow> setReadyConditionAndPhase lib api oc reason message OidcConfigPhaseError;
         State_Monad.return (Inl (RText (reason @ '': '' @ message))) })) (\<lambda>_. justified (oidc_write_ok kl req))"
    by (rule hoare_readiness [OF assms(1) _ _ fail]) (use st stable_basis [of oc] in \<open>auto simp: stable_def\<close>)
  show ?thesis
    unfolding reconcileUnmanaged_def
    by (intro hoare_bind [OF hoare_pending [OF assms(1) st]] hoare_bind [OF hoare_ensure_key [OF assms]] hoare_sum hoare_pre [OF ready])
      (auto intro!: hoare_return)
qed

lemma hoare_oc_delete:
  assumes "retry_ok api" "klib_ok lib" "km_Deletion oc \<noteq> None"
  shows "hoare (oguard kl req (\<lambda>l. LOidc (CGet req (Inr oc)) \<in> set l)) (oc_reconcileDelete lib api oc) (\<lambda>_. justified (oidc_write_ok kl req))"
proof -
  let ?P = "\<lambda>l. LOidc (CGet req (Inr oc)) \<in> set l"
  let ?D = "\<lambda>r l. ?P l \<and> LDeleteKey (os_AccountID (k_Spec oc)) (km_Name oc) r \<in> set l"
  have st: "stable ?P" "stable (?D r)" for r by (auto simp: stable_def)
  have del: "hoare (oguard kl req ?P) (deleteKey api (os_AccountID (k_Spec oc)) (km_Name oc)) (\<lambda>r. oguard kl req (?D r))"
    if "ContainsFinalizer lib (km_Finalizers oc) oidcConfigFinalizer"
    unfolding deleteKey_def by (rule hoare_ocall [OF st(1)]) (use that assms(2,3) in \<open>auto simp: oidc_write_ok_def klib_ok_def\<close>)
  have fin: "hoare (oguard kl req (?D None)) (remove_finalizer_retry lib api (oidcconfigs api) (k_key oc) oidcConfigFinalizer) (\<lambda>_. oguard kl req (?D None))"
    by (rule hoare_remove_finalizer [OF assms(1) growing_oidc st(2)]) (use assms(3) in \<open>auto simp: oidc_write_ok_def\<close>)
  show ?thesis
    unfolding oc_reconcileDelete_def fail_def
    by (intro hoare_if hoare_bind [OF del] hoare_option hoare_bind [OF hoare_pre [OF fin]]) (auto intro!: hoare_return)
qed

lemma hoare_oc_Reconcile:
  assumes "retry_ok api" "klib_ok lib"
  shows "hoare (justified (oidc_write_ok kl req)) (oc_Reconcile lib kl api req) (\<lambda>_. justified (oidc_write_ok kl req))"
proof -
  have get: "hoare (justified (oidc_write_ok kl req)) (kGet (oidcconfigs api) req) (\<lambda>r. oguard kl req (\<lambda>l. LOidc (CGet req r) \<in> set l))"
    unfolding kGet_def by (rule hoare_weaken [OF hoare_ocall [of "\<lambda>_. True"]]) (auto simp: oidc_write_ok_def stable_def)
  have live: "hoare (oguard kl req (\<lambda>l. LOidc (CGet req (Inr oc)) \<in> set l)) (oc_live lib kl api oc) (\<lambda>_. justified (oidc_write_ok kl req))"
    if "km_Deletion oc = None" for oc
  proof -
    have st: "stable (\<lambda>l. LOidc (CGet req (Inr oc)) \<in> set l)" by (simp add: stable_def)
    have upd: "hoare (oguard kl req (\<lambda>l. LOidc (CGet req (Inr oc)) \<in> set l))
        (kUpdate (oidcconfigs api) (oc\<lparr>km_Finalizers := AddFinalizer lib (km_Finalizers oc) oidcConfigFinalizer\<rparr>)) (\<lambda>_. justified (oidc_write_ok kl req))"
      unfolding kUpdate_def by (rule hoare_weaken [OF hoare_ocall [OF st]]) (use assms(2) in \<open>auto simp: oidc_write_ok_def klib_ok_def\<close>)
    have bad: "hoare (oguard kl req (\<lambda>l. LOidc (CGet req (Inr oc)) \<in> set l))
        (setReadyConditionAndPhase lib api oc reason message OidcConfigPhaseError) (\<lambda>_. justified (oidc_write_ok kl req))" for reason message
      by (rule hoare_weaken [OF hoare_oc_status(3) [OF assms(1) st phases_not_ready(2)]]) auto
    show ?thesis
      unfolding oc_live_def ignore_not_found_def
      by (intro hoare_if hoare_bind [OF upd] hoare_sum hoare_managed [OF assms(1)] hoare_unmanaged [OF assms(1) _ that] hoare_bind [OF bad])
        (auto intro!: hoare_return)
  qed
  show ?thesis
    unfolding oc_Reconcile_def
  proof (intro hoare_bind [OF get] hoare_sum hoare_if)
    fix r :: "kerr + OidcConfig" and oc
    assume r: "r = Inr oc"
    show "hoare (oguard kl req (\<lambda>l. LOidc (CGet req r) \<in> set l)) (oc_reconcileDelete lib api oc) (\<lambda>_. justified (oidc_write_ok kl req))"
      if "km_Deletion oc \<noteq> None" unfolding r by (rule hoare_oc_delete [OF assms that])
    show "hoare (oguard kl req (\<lambda>l. LOidc (CGet req r) \<in> set l)) (oc_live lib kl api oc) (\<lambda>_. justified (oidc_write_ok kl req))"
      if "\<not> km_Deletion oc \<noteq> None" unfolding r by (rule live) (use that in simp)
  qed (auto simp: ignore_not_found_def intro!: hoare_return)
qed

text \<open>
  C13 (safety). Signing keys and readiness of OIDC configurations. Whatever the clients answer: a key is
  stored only for a live unmanaged configuration that has none, only if it is the one read from the
  customer's secret with the customer's role and a valid RSA key of sufficient length; a key is deleted
  only for a dying configuration that still holds the finalizer; the finalizer goes only after the
  key was deleted; and a configuration becomes ready only with the thumbprint just computed for its
  issuer, when a cluster uses it or its key is in place.
\<close>

theorem oidc_writes_justified:
  assumes "retry_ok api" "klib_ok lib" "op_log s = []" "run_state (oc_Reconcile lib kl api req) s = (res, s')" "e \<in> set (op_log s')"
  shows "oidc_write_ok kl req (op_log s') e"
  using hoareD [OF hoare_oc_Reconcile [OF assms(1,2)] _ assms(4)] assms(3,5) by (auto simp: justified_def)

definition ex_oidc :: OidcConfig where
  "ex_oidc = \<lparr>km_Name = ''oc1'', km_Namespace = ''account-123'', km_UID = ''o'', km_RV = 1, km_Generation = 1, km_Labels = [],
     km_Annotations = [], km_OwnerReferences = [], km_Finalizers = [''hyperfleet.io/oidcconfig''], km_CreationTimestamp = 1,
     km_Deletion = None, k_Spec = \<lparr>os_Type = ''unmanaged'', os_IssuerUrl = ''https://oidc.example.com'', os_SecretArn = ''arn:s'',
       os_InstallerRoleArn = ''arn:r'', os_AccountID = ''123''\<rparr>,
     k_Status = \<lparr>ot_Conditions = [], ot_Phase = ''Pending'', ot_Thumbprint = [], ot_LastUsedTimestamp = None, ot_ObservedGeneration = 1\<rparr>\<rparr>"

definition ex_keys :: key_lib where
  "ex_keys = \<lparr>kp_Decode = Some, kp_PKCS1 = (\<lambda>_. Some 4096), kp_PKCS8 = (\<lambda>_. Inr None)\<rparr>"

theorem oidc_writes_justified_witness:
  "let api = ex_api\<lparr>api_oidc := ex_kind (Some ex_oidc), api_infra := ex_infra\<lparr>ic_PrivateKeyExists := \<lambda>a c w. (Inr False, w)\<rparr>\<rparr>;
       l = op_log (snd (run_state (oc_Reconcile ex_klib ex_keys api (''account-123'', ''oc1'')) \<lparr>op_world = (), op_log = [], op_router = []\<rparr>))
   in LStoreKey ''123'' ''oc1'' ''key'' None \<in> set l \<and> oidc_write_ok ex_keys (''account-123'', ''oc1'') l (LStoreKey ''123'' ''oc1'' ''key'' None)"
proof -
  let ?api = "ex_api\<lparr>api_oidc := ex_kind (Some ex_oidc), api_infra := ex_infra\<lparr>ic_PrivateKeyExists := \<lambda>a c w. (Inr False, w)\<rparr>\<rparr>"
  let ?run = "run_state (oc_Reconcile ex_klib ex_keys ?api (''account-123'', ''oc1'')) \<lparr>op_world = (), op_log = [], op_router = []\<rparr>"
  have api: "api_oidc ?api = ex_kind (Some ex_oidc)" "api_retry ?api = attempts 1" "api_retry ex_api = attempts 1"
      "api_infra ?api = ex_infra\<lparr>ic_PrivateKeyExists := \<lambda>a c w. (Inr False, w)\<rparr>" by (simp_all add: ex_api_def)
  have oc: "k_key ex_oidc = (''account-123'', ''oc1'')" "km_Deletion ex_oidc = None" "km_Finalizers ex_oidc = [oidcConfigFinalizer]"
      "os_Type (k_Spec ex_oidc) = ''unmanaged''" "ot_Phase (k_Status ex_oidc) = ''Pending''" "os_AccountID (k_Spec ex_oidc) = ''123''"
      "km_Name ex_oidc = ''oc1''"
    by (simp_all add: ex_oidc_def k_key_def oidcConfigFinalizer_def)
  have key: "ValidateRSAPrivateKey ex_keys ''key'' = None" by code_simp
  have e: "LStoreKey ''123'' ''oc1'' ''key'' None \<in> set (op_log (snd ?run))"
    by (simp add: oc_Reconcile_def oc_live_def reconcileUnmanaged_def ensure_key_def checkReadiness_def keyExists_def readSecret_def storeKey_def
        thumbprint_def OidcConfigTypeManaged_def OidcConfigTypeUnmanaged_def ex_infra_def key api oc Let_def run_ex)
  from oidc_writes_justified [OF _ ex_klib_ok _ prod.collapse [symmetric] e] e show ?thesis
    unfolding Let_def by (simp add: ex_retry_ok api)
qed

end
