(* ===== verification/StatusStream.thy ===== *)
theory StatusStream
  imports OperatorApi
begin

text \<open>
  \<open>hyperfleet-operator/internal/dynamo/statusstream/manager.go\<close>: one watcher per management cluster
  and table suffix, started and stopped as management clusters come and go. The active watchers are
  the keys of the map \<open>active\<close>; a sync also returns the tables whose watchers it stopped and started.
\<close>

definition desired_keys :: "string list \<Rightarrow> string list \<Rightarrow> string list" where
  "desired_keys sfxs names = concat (map (\<lambda>mc. map ((@) mc) sfxs) names)"

definition is_test_mc :: "string \<Rightarrow> bool" where
  "is_test_mc mc = has_prefix mc ''test-mc-''"

definition start_watcher :: "string \<Rightarrow> string list \<times> string list \<Rightarrow> string list \<times> string list" where
  "start_watcher key s = (if key \<in> set (fst s) then s else (fst s @ [key], snd s @ [key]))"

definition syncWatchers ::
  "string list \<Rightarrow> kerr + string list \<Rightarrow> string list \<Rightarrow> string list \<times> string list \<times> string list"
where
  "syncWatchers sfxs listed active =
     (case listed of
        Inl _ \<Rightarrow> (active, [], [])
      | Inr names \<Rightarrow>
          (let desired = desired_keys sfxs names;
               stopped = filter (\<lambda>k. k \<notin> set desired) active;
               kept = filter (\<lambda>k. k \<in> set desired) active;
               (now_active, started) = fold start_watcher (desired_keys sfxs (filter (\<lambda>mc. \<not> is_test_mc mc) names)) (kept, [])
           in (now_active, stopped, started)))"

text \<open>\<open>Run\<close>: a sync at the start and one per tick.\<close>

definition watch_run :: "string list \<Rightarrow> (kerr + string list) list \<Rightarrow> string list" where
  "watch_run sfxs ticks = fold (\<lambda>t active. fst (syncWatchers sfxs t active)) ticks []"

lemma fold_start:
  "set (fst (fold start_watcher ks (a, b))) = set a \<union> set ks
   \<and> (distinct a \<longrightarrow> distinct (fst (fold start_watcher ks (a, b))))"
proof (induction ks arbitrary: a b)
  case (Cons k ks)
  have s: "start_watcher k (a, b) = (if k \<in> set a then (a, b) else (a @ [k], b @ [k]))" by (simp add: start_watcher_def)
  show ?case
  proof (cases "k \<in> set a")
    case True
    then show ?thesis using Cons.IH [of a b] by (auto simp: s)
  next
    case False
    then show ?thesis using Cons.IH [of "a @ [k]" "b @ [k]"] by (auto simp: s)
  qed
qed simp

text \<open>After a successful sync there is one watcher for every table of every listed cluster that is not a
  test cluster, and none for a table of no listed cluster.\<close>

lemma sync_active:
  assumes "syncWatchers sfxs (Inr names) active = (active', stopped, started)"
  shows "set active' = (set active \<inter> set (desired_keys sfxs names)) \<union> set (desired_keys sfxs (filter (\<lambda>mc. \<not> is_test_mc mc) names))"
    and "distinct active \<Longrightarrow> distinct active'"
    and "set stopped = set active - set (desired_keys sfxs names)"
proof -
  let ?kept = "filter (\<lambda>k. k \<in> set (desired_keys sfxs names)) active"
  let ?ks = "desired_keys sfxs (filter (\<lambda>mc. \<not> is_test_mc mc) names)"
  have a: "active' = fst (fold start_watcher ?ks (?kept, []))" and st: "stopped = filter (\<lambda>k. k \<notin> set (desired_keys sfxs names)) active"
    using assms by (auto simp: syncWatchers_def Let_def split: prod.splits)
  from fold_start [of ?ks ?kept "[]"] show "set active' = (set active \<inter> set (desired_keys sfxs names)) \<union> set ?ks"
    "distinct active \<Longrightarrow> distinct active'" by (auto simp: a)
  show "set stopped = set active - set (desired_keys sfxs names)" by (auto simp: st)
qed

lemma watch_run_distinct: "distinct (watch_run sfxs ticks)"
proof -
  have "distinct active \<Longrightarrow> distinct (fold (\<lambda>t active. fst (syncWatchers sfxs t active)) ticks active)" for active
  proof (induction ticks arbitrary: active)
    case (Cons t ticks)
    have "distinct (fst (syncWatchers sfxs t active))"
    proof (cases t)
      case (Inl e)
      then show ?thesis using Cons.prems by (simp add: syncWatchers_def)
    next
      case (Inr names)
      then show ?thesis using sync_active(2) [of sfxs names active] Cons.prems by (metis prod.collapse)
    qed
    then show ?case using Cons.IH by simp
  qed simp
  then show ?thesis by (simp add: watch_run_def)
qed

text \<open>A management cluster named \<open>test-mc\<close> and something other than a dash is not chosen for
  placements but its tables are watched.\<close>

lemma test_prefixes_differ: "has_prefix ''test-mc1'' ''test-mc'' \<and> \<not> is_test_mc ''test-mc1''"
  by code_simp

end
