(* ===== verification/DnsNames.thy ===== *)
theory DnsNames
  imports Render
begin

text \<open>
  Host names across components: the unique index of the database and the names the operator renders.
\<close>

text \<open>The cluster object that a row of the table stands for.\<close>

definition row_of_cluster :: "Resource \<Rightarrow> Cluster \<Rightarrow> bool" where
  "row_of_cluster r cluster \<longleftrightarrow> rGVK r = ''hyperfleet.io/v1alpha1/Cluster'' \<and> km_Name cluster = rName r \<and> km_Namespace cluster = rNamespace r
     \<and> jsonb_text (rSpec r) ''internalId'' = Some (cs_InternalID (k_Spec cluster))
     \<and> rNamespace r = ''cluster-'' @ cs_InternalID (k_Spec cluster)"

definition dotless :: "string \<Rightarrow> bool" where
  "dotless s \<longleftrightarrow> CHR ''.'' \<notin> set s"

lemma first_label:
  assumes "dotless a" "dotless b" "a @ ''.'' @ x = b @ ''.'' @ y"
  shows "a = b \<and> x = y"
proof -
  have t: "takeWhile (\<lambda>c. c \<noteq> CHR ''.'') (u @ ''.'' @ v) = u" if "dotless u" for u v
    using that by (subst takeWhile_append2) (auto simp: dotless_def)
  have "a = b" using t [OF assms(1), of x] t [OF assms(2), of y] assms(3) by simp
  with assms(3) show ?thesis by simp
qed

lemma rendered_host:
  assumes "ClusterResources conv cluster ext rcfg = Inr rs" "OHostedCluster meta hs \<in> re_Object ` set rs"
  shows "hs_KubeAPIServerDNSName hs = ''api.'' @ km_Name cluster @ ''.'' @ hash4 (ClusterIDFromNamespace (km_Namespace cluster)) @ ''.0.'' @ rc_BaseDomain rcfg"
proof -
  obtain s hc meta' where rs: "rs = [namespace_resource (ClusterIDFromNamespace (km_Namespace cluster)) (km_Namespace cluster),
        clusterConfig (ClusterIDFromNamespace (km_Namespace cluster)) (km_Name cluster) (km_Namespace cluster),
        awsIAMAuthConfig (ClusterIDFromNamespace (km_Namespace cluster)) (km_Name cluster) (km_Namespace cluster) (cs_CreatorARN (k_Spec cluster)),
        pullSecret (ClusterIDFromNamespace (km_Namespace cluster)) (km_Namespace cluster),
        apiServingCert (ClusterIDFromNamespace (km_Namespace cluster)) (km_Name cluster) (hash4 (ClusterIDFromNamespace (km_Namespace cluster)))
          (''0.'' @ rc_BaseDomain rcfg) (km_Namespace cluster), hc, sshKey (ClusterIDFromNamespace (km_Namespace cluster)) (km_Namespace cluster)]
        @ (if ext then [oidcSigningKeySecret (cs_AccountID (k_Spec cluster)) (cs_OidcConfigID (k_Spec cluster))
             (ClusterIDFromNamespace (km_Namespace cluster)) (km_Namespace cluster)] else [])"
    "re_Object hc = OHostedCluster meta' (hosted_cluster_spec (ClusterIDFromNamespace (km_Namespace cluster)) (km_Name cluster) ext
        (hash4 (ClusterIDFromNamespace (km_Namespace cluster))) (''0.'' @ rc_BaseDomain rcfg) s)"
    using assms(1) by (rule ClusterResources_Inr)
  with assms(2) show ?thesis
    by (auto simp: render_defs hosted_cluster_spec_def oidcSigningKeySecret_def split: if_splits)
qed

lemma rendered_hash4:
  assumes "row_of_cluster r cluster" "4 \<le> length (cs_InternalID (k_Spec cluster))"
  shows "hash4 (ClusterIDFromNamespace (km_Namespace cluster)) = take 4 (cs_InternalID (k_Spec cluster))"
  using assms by (auto simp: row_of_cluster_def ClusterIDFromNamespace_def hash4_def Let_def)


definition ex_cluster_row :: "string \<Rightarrow> Resource" where
  "ex_cluster_row i = \<lparr>rGVK = ''hyperfleet.io/v1alpha1/Cluster'', rNamespace = ''cluster-'' @ i, rName = ''prod'', rUID = [1], rTxidStamp = 1,
     rObjectVersion = 1, rSpec = JObj [(''internalId'', JStr i)], rStatus = JNull, rMetadata = empty_obj, rDeletionTimestamp = None,
     rCreatedAt = 1, rUpdatedAt = 1\<rparr>"

definition ex_named_cluster :: "string \<Rightarrow> Cluster" where
  "ex_named_cluster i = ex_cluster\<lparr>km_Namespace := ''cluster-'' @ i, k_Spec := (k_Spec ex_cluster)\<lparr>cs_InternalID := i\<rparr>\<rparr>"

lemma ex_renders:
  obtains rs hs meta where "ClusterResources (\<lambda>_. Inr ex_hosted) cluster False rcfg = Inr rs" "OHostedCluster meta hs \<in> re_Object ` set rs"
proof -
  obtain rs where rs: "ClusterResources (\<lambda>_. Inr ex_hosted) cluster False rcfg = Inr rs"
    by (simp add: ClusterResources_def hostedCluster_def Let_def)
  from rs show thesis by (rule ClusterResources_Inr) (use rs in \<open>auto intro!: that\<close>)
qed


end
