(* ===== verification/GoJson.thy ===== *)
theory GoJson
  imports Json "HOL-Library.AList"
begin

text \<open>
  The package \<open>encoding/json\<close> on typed values, as the service uses it to turn requests into objects,
  to merge a patch into an object, and to project an object to the fields a customer may see.

  A Go type is a \<open>schema\<close>. A value of the type is represented by a document that spells out every
  field of a struct, with the nil pointer, slice and map as \<open>null\<close>. A type with a codec of its own
  (\<open>metav1.Time\<close>, \<open>resource.Quantity\<close>) is given by the documents it accepts, which also represent its
  values.
\<close>

section \<open>Types and values\<close>

datatype omit = Keep | OmitEmpty | OmitZero

datatype schema =
    TString
  | TBool
  | TInt nat                                  \<comment> \<open>the width in bits of a signed integer\<close>
  | TRaw                                      \<comment> \<open>\<open>json.RawMessage\<close>\<close>
  | TCodec "json \<Rightarrow> bool"
  | TPtr schema
  | TSlice schema
  | TMap schema                               \<comment> \<open>keys are strings\<close>
  | TStruct "(string \<times> omit \<times> schema) list"   \<comment> \<open>JSON name, tag and type of each field\<close>

fun zero :: "schema \<Rightarrow> json" where
  "zero TString = JStr []"
| "zero TBool = JBool False"
| "zero (TInt w) = JNum 0"
| "zero (TStruct fs) = JObj (map (\<lambda>f. (fst f, zero (snd (snd f)))) fs)"
| "zero _ = JNull"

fun has_type :: "schema \<Rightarrow> json \<Rightarrow> bool" where
  "has_type TString v = (\<exists>s. v = JStr s)"
| "has_type TBool v = (\<exists>b. v = JBool b)"
| "has_type (TInt w) v = (\<exists>n. v = JNum n \<and> - (2 ^ (w - 1)) \<le> n \<and> n < 2 ^ (w - 1))"
| "has_type TRaw v = True"
| "has_type (TCodec ok) v = (v = JNull \<or> ok v)"
| "has_type (TPtr t) v = (v = JNull \<or> has_type t v)"
| "has_type (TSlice t) v = (v = JNull \<or> (\<exists>xs. v = JArr xs \<and> list_all (has_type t) xs))"
| "has_type (TMap t) v = (v = JNull \<or> (\<exists>kvs. v = JObj kvs \<and> list_all (\<lambda>kv. has_type t (snd kv)) kvs))"
| "has_type (TStruct fs) v = (\<exists>vs. v = JObj vs \<and> list_all2 (\<lambda>f kv. fst kv = fst f \<and> has_type (snd (snd f)) (snd kv)) fs vs)"

section \<open>json.Marshal\<close>

text \<open>A field with \<open>omitempty\<close> is left out when it is false, 0, nil, or an empty string, slice or map; a
  struct is never empty.\<close>

fun empty_value :: "schema \<Rightarrow> json \<Rightarrow> bool" where
  "empty_value TString v = (v = JStr [])"
| "empty_value TBool v = (v = JBool False)"
| "empty_value (TInt w) v = (v = JNum 0)"
| "empty_value TRaw v = (v = JNull)"
| "empty_value (TCodec ok) v = False"
| "empty_value (TPtr t) v = (v = JNull)"
| "empty_value (TSlice t) v = (v = JNull \<or> v = JArr [])"
| "empty_value (TMap t) v = (v = JNull \<or> v = JObj [])"
| "empty_value (TStruct fs) v = False"

definition omitted :: "omit \<Rightarrow> schema \<Rightarrow> json \<Rightarrow> bool" where
  "omitted tag t v = (case tag of Keep \<Rightarrow> False | OmitEmpty \<Rightarrow> empty_value t v | OmitZero \<Rightarrow> v = zero t)"

definition marshal_fields :: "(string \<times> (json \<Rightarrow> json option)) list \<Rightarrow> (string \<times> json) list \<Rightarrow> (string \<times> json) list" where
  "marshal_fields ms vs = List.map_filter (\<lambda>(m, kv). map_option (Pair (fst m)) (snd m (snd kv))) (zip ms vs)"

fun marshal :: "schema \<Rightarrow> json \<Rightarrow> json" where
  "marshal (TPtr t) v = (if v = JNull then JNull else marshal t v)"
| "marshal (TSlice t) v = (case v of JArr xs \<Rightarrow> JArr (map (marshal t) xs) | _ \<Rightarrow> JNull)"
| "marshal (TMap t) v = (case v of JObj kvs \<Rightarrow> JObj (map (\<lambda>kv. (fst kv, marshal t (snd kv))) kvs) | _ \<Rightarrow> JNull)"
| "marshal (TStruct fs) v =
     (case v of
        JObj vs \<Rightarrow> JObj (marshal_fields (map (\<lambda>f. (fst f, \<lambda>x. if omitted (fst (snd f)) (snd (snd f)) x then None
                                                             else Some (marshal (snd (snd f)) x))) fs) vs)
      | _ \<Rightarrow> JNull)"
| "marshal _ v = v"

section \<open>json.Unmarshal\<close>

text \<open>The result is the value after decoding into \<open>cur\<close> and whether no error was met: decoding goes on
  after a value of the wrong type, which changes nothing, and reports the error at the end. \<open>null\<close>
  leaves values alone and clears pointers, slices and maps. A key names the field of its exact
  name, else the first one that agrees up to the case of letters; other keys are ignored. An
  element of an array is decoded into the element the slice has at its place, an entry of a map
  into a fresh value.\<close>

definition field_for :: "string list \<Rightarrow> string \<Rightarrow> string option" where
  "field_for names k = (if k \<in> set names then Some k else List.find (\<lambda>n. equal_fold n k) names)"

definition put :: "string \<Rightarrow> json \<Rightarrow> (string \<times> json) list \<Rightarrow> (string \<times> json) list" where
  "put n v vs = map (\<lambda>kv. if fst kv = n then (n, v) else kv) vs"

fun set_fields :: "(string \<times> (json \<Rightarrow> json \<Rightarrow> json \<times> bool)) list \<Rightarrow> (string \<times> json) list \<Rightarrow> (string \<times> json) list \<Rightarrow> (string \<times> json) list \<times> bool" where
  "set_fields ds [] vs = (vs, True)"
| "set_fields ds ((k, d) # kvs) vs =
     (case field_for (map fst ds) k of
        None \<Rightarrow> set_fields ds kvs vs
      | Some n \<Rightarrow>
          (case (map_of ds n, map_of vs n) of
             (Some dec, Some x) \<Rightarrow>
               (let r = dec x d; rest = set_fields ds kvs (put n (fst r) vs) in (fst rest, snd r \<and> snd rest))
           | _ \<Rightarrow> set_fields ds kvs vs))"

definition slice_items :: "json \<Rightarrow> json list" where
  "slice_items v = (case v of JArr xs \<Rightarrow> xs | _ \<Rightarrow> [])"

definition map_items :: "json \<Rightarrow> (string \<times> json) list" where
  "map_items v = (case v of JObj kvs \<Rightarrow> kvs | _ \<Rightarrow> [])"

text \<open>The elements a slice of \<open>n\<close> elements starts from.\<close>

definition old_items :: "schema \<Rightarrow> nat \<Rightarrow> json \<Rightarrow> json list" where
  "old_items t n cur = take n (slice_items cur) @ replicate (n - length (slice_items cur)) (zero t)"

fun decode :: "schema \<Rightarrow> json \<Rightarrow> json \<Rightarrow> json \<times> bool" where
  "decode TString cur d = (case d of JNull \<Rightarrow> (cur, True) | JStr s \<Rightarrow> (JStr s, True) | _ \<Rightarrow> (cur, False))"
| "decode TBool cur d = (case d of JNull \<Rightarrow> (cur, True) | JBool b \<Rightarrow> (JBool b, True) | _ \<Rightarrow> (cur, False))"
| "decode (TInt w) cur d =
     (case d of
        JNull \<Rightarrow> (cur, True)
      | JNum n \<Rightarrow> if - (2 ^ (w - 1)) \<le> n \<and> n < 2 ^ (w - 1) then (JNum n, True) else (cur, False)
      | _ \<Rightarrow> (cur, False))"
| "decode TRaw cur d = (d, True)"
| "decode (TCodec ok) cur d = (if d = JNull \<or> ok d then (d, True) else (cur, False))"
| "decode (TPtr t) cur d = (if d = JNull then (JNull, True) else decode t (if cur = JNull then zero t else cur) d)"
| "decode (TSlice t) cur d =
     (case d of
        JNull \<Rightarrow> (JNull, True)
      | JArr xs \<Rightarrow> (let rs = map2 (decode t) (old_items t (length xs) cur) xs in (JArr (map fst rs), list_all snd rs))
      | _ \<Rightarrow> (cur, False))"
| "decode (TMap t) cur d =
     (case d of
        JNull \<Rightarrow> (JNull, True)
      | JObj kvs \<Rightarrow> (let rs = map (\<lambda>kv. (fst kv, decode t (zero t) (snd kv))) kvs
                      in (JObj (fold (\<lambda>(k, r). AList.update k (fst r)) rs (map_items cur)), list_all (snd \<circ> snd) rs))
      | _ \<Rightarrow> (cur, False))"
| "decode (TStruct fs) cur d =
     (case d of
        JNull \<Rightarrow> (cur, True)
      | JObj kvs \<Rightarrow> map_prod JObj id (set_fields (map (\<lambda>f. (fst f, decode (snd (snd f)))) fs) kvs (map_items cur))
      | _ \<Rightarrow> (cur, False))"

section \<open>Well-formed types\<close>

text \<open>No two fields of a struct have names that agree up to case.\<close>

fun wf_schema :: "schema \<Rightarrow> bool" where
  "wf_schema (TPtr t) = wf_schema t"
| "wf_schema (TSlice t) = wf_schema t"
| "wf_schema (TMap t) = wf_schema t"
| "wf_schema (TStruct fs) = (distinct (map (\<lambda>f. map to_lower (fst f)) fs) \<and> list_all (\<lambda>f. wf_schema (snd (snd f))) fs)"
| "wf_schema _ = True"

lemma wf_distinct: "distinct (map (\<lambda>f. map to_lower (fst f)) fs) \<Longrightarrow> distinct (map fst fs)"
  by (induction fs) (auto simp: image_iff)

section \<open>Types are kept\<close>

lemma zero_typed: "has_type t (zero t)"
  by (induction t rule: zero.induct) (auto simp: list_all2_map2 list_all2_same)

abbreviation fields_typed :: "(string \<times> omit \<times> schema) list \<Rightarrow> (string \<times> json) list \<Rightarrow> bool" where
  "fields_typed fs vs \<equiv> list_all2 (\<lambda>f kv. fst kv = fst f \<and> has_type (snd (snd f)) (snd kv)) fs vs"

lemma fields_typed_names: "fields_typed fs vs \<Longrightarrow> map fst vs = map fst fs"
  by (induction rule: list_all2_induct) auto

lemma put_typed:
  assumes "fields_typed fs vs" "\<And>f. f \<in> set fs \<Longrightarrow> fst f = n \<Longrightarrow> has_type (snd (snd f)) v"
  shows "fields_typed fs (put n v vs)"
  using assms by (induction rule: list_all2_induct) (auto simp: put_def)

lemma field_typed:
  assumes "fields_typed fs vs" "distinct (map fst fs)" "f \<in> set fs" "map_of vs (fst f) = Some x"
  shows "has_type (snd (snd f)) x"
  using assms by (induction rule: list_all2_induct) (auto split: if_splits simp: image_iff)

lemma map_of_decoders: "distinct (map fst fs) \<Longrightarrow> f \<in> set fs \<Longrightarrow> map_of (map (\<lambda>f. (fst f, D f)) fs) (fst f) = Some (D f)"
  by (induction fs) (auto simp: image_iff)

lemma field_for_mem: "field_for names k = Some n \<Longrightarrow> n \<in> set names"
  by (auto simp: field_for_def find_Some_iff split: if_splits)

lemma set_fields_typed:
  assumes "distinct (map fst fs)" "fields_typed fs vs"
    and "\<And>f x d. f \<in> set fs \<Longrightarrow> has_type (snd (snd f)) x \<Longrightarrow> has_type (snd (snd f)) (fst (D f x d))"
  shows "fields_typed fs (fst (set_fields (map (\<lambda>f. (fst f, D f)) fs) kvs vs))"
  using assms(2)
proof (induction kvs arbitrary: vs)
  case (Cons kv kvs)
  obtain k d where kv: "kv = (k, d)" by fastforce
  let ?ds = "map (\<lambda>f. (fst f, D f)) fs"
  show ?case
  proof (cases "field_for (map fst ?ds) k")
    case (Some n)
    then obtain f where f: "f \<in> set fs" "n = fst f" using field_for_mem by fastforce
    then obtain x where x: "map_of vs n = Some x"
      using fields_typed_names [OF Cons.prems] by (metis image_set imageI map_of_eq_None_iff option.exhaust)
    have "has_type (snd (snd g)) (fst (D f x d))" if "g \<in> set fs" "fst g = n" for g
      using that f assms(1,3) field_typed [OF Cons.prems assms(1) f(1)] x by (metis distinct_map inj_onD)
    then have "fields_typed fs (put n (fst (D f x d)) vs)" by (rule put_typed [OF Cons.prems])
    then show ?thesis
      using Cons.IH Some x f by (simp add: kv Let_def map_of_decoders [OF assms(1) f(1)])
  qed (simp add: kv Cons)
qed simp

lemma old_items_typed: "has_type (TSlice t) cur \<Longrightarrow> list_all (has_type t) (old_items t n cur)"
  by (auto simp: old_items_def slice_items_def list_all_iff zero_typed dest!: in_set_takeD)

lemma old_items_length [simp]: "length (old_items t n cur) = n"
  by (simp add: old_items_def)

lemma map_update_typed:
  "list_all (\<lambda>kv. has_type t (snd kv)) m \<Longrightarrow> list_all (\<lambda>r. has_type t (fst (snd r))) rs \<Longrightarrow>
   list_all (\<lambda>kv. has_type t (snd kv)) (fold (\<lambda>(k, r). AList.update k (fst r)) rs m)"
proof (induction rs arbitrary: m)
  case (Cons r rs)
  have "list_all (\<lambda>kv. has_type t (snd kv)) (AList.update k v m)" if "has_type t v" for k v
    using that Cons.prems(1) by (induction m) auto
  then show ?case using Cons by (simp add: split_beta)
qed simp

text \<open>
  Decoding keeps types: whatever document is decoded into a value of a type, also one that
  is refused in the end, the result is a value of that type.
\<close>

lemma decode_typed:
  assumes "wf_schema t" "has_type t cur"
  shows "has_type t (fst (decode t cur d))"
  using assms
proof (induction t arbitrary: cur d)
  case (TSlice t)
  show ?case
  proof (cases d)
    case (JArr xs)
    have "has_type t (fst (decode t x y))" if "(x, y) \<in> set (zip (old_items t (length xs) cur) xs)" for x y
      using that TSlice old_items_typed [of t cur "length xs"] by (auto simp: list_all_iff dest!: set_zip_leftD)
    then show ?thesis by (auto simp: JArr Let_def list_all_iff)
  qed (use TSlice.prems in auto)
next
  case (TMap t)
  show ?case
  proof (cases d)
    case (JObj kvs)
    have "list_all (\<lambda>kv. has_type t (snd kv)) (map_items cur)" using TMap.prems(2) by (auto simp: map_items_def)
    moreover have "has_type t (fst (decode t (zero t) y))" for y using TMap.IH TMap.prems(1) zero_typed by simp
    ultimately have "list_all (\<lambda>kv. has_type t (snd kv)) (fold (\<lambda>(k, r). AList.update k (fst r))
        (map (\<lambda>kv. (fst kv, decode t (zero t) (snd kv))) kvs) (map_items cur))"
      by (intro map_update_typed) (simp_all add: list_all_iff)
    then show ?thesis by (simp add: JObj Let_def)
  qed (use TMap.prems in auto)
next
  case (TStruct fs)
  obtain vs where vs: "cur = JObj vs" "fields_typed fs vs" using TStruct.prems(2) by auto
  have ty: "has_type (snd (snd f)) (fst (decode (snd (snd f)) x e))" if "f \<in> set fs" "has_type (snd (snd f)) x" for f x e
    using TStruct.IH that TStruct.prems(1) by (cases f) (fastforce simp: list_all_iff)
  have "distinct (map fst fs)" using TStruct.prems(1) by (simp add: wf_distinct)
  from set_fields_typed [OF this vs(2) ty] show ?case
    using vs by (cases d) (auto simp: map_items_def)
qed (auto split: json.splits simp: zero_typed)

end
