(* ===== verification/JsonRoundtrip.thy ===== *)
theory JsonRoundtrip
  imports GoJson
begin

text \<open>
  Encoding a value of one type and decoding the document into a value of another, the way the service
  copies the fields two structs share: what the result is (\<open>decode_marshal\<close>), and that nothing of a
  value is lost when it goes into a larger type and back (\<open>there_and_back\<close>).
\<close>

section \<open>Encoding, then decoding\<close>

text \<open>What decoding a marshalled value of type \<open>b\<close> into a value \<open>cur\<close> of type \<open>a\<close> gives: the fields the two
  structs share are taken over, unless they were omitted.\<close>

fun conv :: "schema \<Rightarrow> schema \<Rightarrow> json \<Rightarrow> json \<Rightarrow> json" where
  "conv (TPtr a) (TPtr b) cur v = (if v = JNull then JNull else conv a b (if cur = JNull then zero a else cur) v)"
| "conv (TSlice a) (TSlice b) cur v =
     (case v of JArr xs \<Rightarrow> JArr (map2 (conv a b) (old_items a (length xs) cur) xs) | _ \<Rightarrow> JNull)"
| "conv (TMap a) (TMap b) cur v =
     (case v of JObj kvs \<Rightarrow> JObj (fold (\<lambda>kv. AList.update (fst kv) (conv a b (zero a) (snd kv))) kvs (map_items cur)) | _ \<Rightarrow> JNull)"
| "conv (TStruct as) (TStruct bs) cur v =
     (let cs = map (\<lambda>f. (fst f, conv (snd (snd f)))) as
      in JObj (map (\<lambda>(n, x). (n, case (map_of cs n, map_of bs n, map_of (map_items v) n) of
            (Some c, Some (tag, t), Some y) \<Rightarrow> if omitted tag t y then x else c t x y
          | _ \<Rightarrow> x)) (map_items cur)))"
| "conv _ _ cur v = v"

text \<open>Two types are compatible when fields of the same name are; names that agree up to case are equal.\<close>

fun compatible :: "schema \<Rightarrow> schema \<Rightarrow> bool" where
  "compatible TString b = (b = TString)"
| "compatible TBool b = (b = TBool)"
| "compatible (TInt w) b = (case b of TInt w' \<Rightarrow> w' \<le> w | _ \<Rightarrow> False)"
| "compatible TRaw b = (b = TRaw)"
| "compatible (TCodec p) b = (case b of TCodec q \<Rightarrow> \<forall>x. q x \<longrightarrow> p x | _ \<Rightarrow> False)"
| "compatible (TPtr a) b = (case b of TPtr b \<Rightarrow> compatible a b | _ \<Rightarrow> False)"
| "compatible (TSlice a) b = (case b of TSlice b \<Rightarrow> compatible a b | _ \<Rightarrow> False)"
| "compatible (TMap a) b = (case b of TMap b \<Rightarrow> compatible a b | _ \<Rightarrow> False)"
| "compatible (TStruct as) b =
     (case b of
        TStruct bs \<Rightarrow> list_all (\<lambda>f. list_all (\<lambda>g. equal_fold (fst f) (fst g) \<longrightarrow> fst f = fst g \<and> compatible (snd (snd f)) (snd (snd g))) bs) as
      | _ \<Rightarrow> False)"

text \<open>Of a type that is only marshalled, the names of the fields need only be different.\<close>

fun names_ok :: "schema \<Rightarrow> bool" where
  "names_ok (TPtr t) = names_ok t"
| "names_ok (TSlice t) = names_ok t"
| "names_ok (TMap t) = names_ok t"
| "names_ok (TStruct fs) = (distinct (map fst fs) \<and> list_all (\<lambda>f. names_ok (snd (snd f))) fs)"
| "names_ok _ = True"

lemma wf_names_ok: "wf_schema t \<Longrightarrow> names_ok t"
  by (induction t rule: names_ok.induct) (auto simp: wf_distinct list_all_iff)

lemma marshal_null: "has_type b v \<Longrightarrow> marshal b v = JNull \<longleftrightarrow> v = JNull"
  by (induction b arbitrary: v) (auto split: json.splits)

lemma put_names [simp]: "map fst (put n v vs) = map fst vs"
  by (induction vs) (auto simp: put_def)

lemma put_lookup: "map_of (put n v vs) m = (if m = n \<and> n \<in> fst ` set vs then Some v else map_of vs m)"
  by (induction vs) (force simp: put_def)+

lemma alist_ext:
  assumes "map fst xs = map fst ys" "distinct (map fst xs)" "\<And>n. n \<in> fst ` set xs \<Longrightarrow> map_of xs n = map_of ys n"
  shows "xs = ys"
proof -
  have "zs = map (\<lambda>n. (n, the (map_of zs n))) (map fst zs)" if "distinct (map fst zs)" for zs :: "('a \<times> 'b) list"
    using that by (auto simp: map_of_is_SomeI intro!: map_idI [symmetric])
  then show ?thesis using assms by (metis (no_types, lifting) image_set map_cong)
qed

lemma set_fields_lookup:
  assumes "distinct (map fst kvs)" "map fst ds = names" "map fst vs = names"
    and "\<forall>k \<in> fst ` set kvs - set names. field_for names k = None"
  shows "map fst (fst (set_fields ds kvs vs)) = names
    \<and> (\<forall>n \<in> set names. map_of (fst (set_fields ds kvs vs)) n =
         Some (case map_of kvs n of None \<Rightarrow> the (map_of vs n) | Some e \<Rightarrow> fst (the (map_of ds n) (the (map_of vs n)) e)))
    \<and> (snd (set_fields ds kvs vs) \<longleftrightarrow>
         (\<forall>n \<in> set names. \<forall>e. map_of kvs n = Some e \<longrightarrow> snd (the (map_of ds n) (the (map_of vs n)) e)))"
  using assms(1,3,4)
proof (induction kvs arbitrary: vs)
  case Nil
  have "map_of vs n \<noteq> None" if "n \<in> set names" for n using that Nil(2) by (auto simp: map_of_eq_None_iff)
  then show ?case using Nil by auto
next
  case (Cons kv kvs)
  obtain k d where kv: "kv = (k, d)" by fastforce
  show ?case
  proof (cases "k \<in> set names")
    case True
    then obtain dec x where ex: "map_of ds k = Some dec" "map_of vs k = Some x"
      using assms(2) Cons.prems(2) by (metis image_set map_of_eq_None_iff option.exhaust)
    have k: "field_for (map fst ds) k = Some k" "k \<notin> fst ` set kvs" "map_of kvs k = None"
      using True assms(2) Cons.prems(1) by (auto simp: field_for_def kv map_of_eq_None_iff)
    have vs: "k \<in> fst ` set vs" using True Cons.prems(2) by auto
    have IH: "map fst (put k (fst (dec x d)) vs) = names" using Cons.prems(2) by simp
    show ?thesis
      using Cons.IH [OF _ IH] Cons.prems(1,3) ex k True
      by (auto simp: kv Let_def put_lookup vs split: option.splits)
  next
    case False
    then have "field_for (map fst ds) k = None" using Cons.prems(3) assms(2) by (simp add: kv)
    then show ?thesis using Cons False by (auto simp: kv)
  qed
qed

lemma marshal_fields_lookup:
  assumes "map fst ms = map fst vs" "distinct (map fst vs)"
  shows "map_of (marshal_fields ms vs) n = (case (map_of ms n, map_of vs n) of (Some m, Some x) \<Rightarrow> m x | _ \<Rightarrow> None)"
    and "set (map fst (marshal_fields ms vs)) \<subseteq> set (map fst vs)" and "distinct (map fst (marshal_fields ms vs))"
proof -
  have "length ms = length vs" using assms(1) by (metis length_map)
  then have "map_of (marshal_fields ms vs) n = (case (map_of ms n, map_of vs n) of (Some m, Some x) \<Rightarrow> m x | _ \<Rightarrow> None)
    \<and> set (map fst (marshal_fields ms vs)) \<subseteq> set (map fst vs) \<and> distinct (map fst (marshal_fields ms vs))"
    using assms
  proof (induction ms vs rule: list_induct2)
    case (Cons m ms v vs)
    then have "fst v \<notin> set (map fst (marshal_fields ms vs))" "map_of (marshal_fields ms vs) (fst v) = None"
      by (auto simp: map_of_eq_None_iff)
    with Cons show ?case
      by (auto simp: marshal_fields_def List.map_filter_simps split: option.splits)
  qed (simp add: marshal_fields_def List.map_filter_simps)
  then show "map_of (marshal_fields ms vs) n = (case (map_of ms n, map_of vs n) of (Some m, Some x) \<Rightarrow> m x | _ \<Rightarrow> None)"
    and "set (map fst (marshal_fields ms vs)) \<subseteq> set (map fst vs)" and "distinct (map fst (marshal_fields ms vs))" by auto
qed

lemma map_of_fields: "map_of (map (\<lambda>f. (fst f, D f)) fs) n = map_option (\<lambda>ot. D (n, ot)) (map_of fs n)"
  by (induction fs) auto

lemma map_of_entries: "map_of (map (\<lambda>(n, x). (n, h n x)) us) n = map_option (h n) (map_of us n)"
  by (induction us) auto

lemma fields_typed_lookup: "fields_typed fs vs \<Longrightarrow> n \<in> fst ` set fs \<Longrightarrow> \<exists>x. map_of vs n = Some x"
  using fields_typed_names [of fs vs] by (cases "map_of vs n") (auto simp: map_of_eq_None_iff simp flip: set_map)

text \<open>The members of the object a struct is marshalled to: the fields that are not omitted.\<close>

definition doc_members :: "(string \<times> omit \<times> schema) list \<Rightarrow> (string \<times> json) list \<Rightarrow> (string \<times> json) list" where
  "doc_members bs = marshal_fields
     (map (\<lambda>g. (fst g, \<lambda>x. if omitted (fst (snd g)) (snd (snd g)) x then None else Some (marshal (snd (snd g)) x))) bs)"

lemma doc_members_lookup:
  assumes "names_ok (TStruct bs)" "fields_typed bs vs"
  shows "map_of (doc_members bs vs) n = (case (map_of bs n, map_of vs n) of
      (Some (tag, t), Some y) \<Rightarrow> if omitted tag t y then None else Some (marshal t y) | _ \<Rightarrow> None)"
    and "distinct (map fst (doc_members bs vs))"
proof -
  let ?ms = "map (\<lambda>g. (fst g, \<lambda>x. if omitted (fst (snd g)) (snd (snd g)) x then None else Some (marshal (snd (snd g)) x))) bs"
  have h: "map fst ?ms = map fst vs" "distinct (map fst vs)" using assms fields_typed_names [OF assms(2)] by (simp_all add: comp_def)
  show "map_of (doc_members bs vs) n = (case (map_of bs n, map_of vs n) of
      (Some (tag, t), Some y) \<Rightarrow> if omitted tag t y then None else Some (marshal t y) | _ \<Rightarrow> None)"
    using marshal_fields_lookup(1) [OF h, of n] by (auto simp: doc_members_def map_of_fields split: option.splits prod.splits)
  show "distinct (map fst (doc_members bs vs))" unfolding doc_members_def by (rule marshal_fields_lookup(3) [OF h])
qed

text \<open>A member that names no field of the target finds none: a field that differs only in case would be omitted.\<close>

lemma doc_members_unknown:
  assumes "names_ok (TStruct bs)" "fields_typed bs vs"
    and "\<And>f g. f \<in> set as \<Longrightarrow> g \<in> set bs \<Longrightarrow> equal_fold (fst f) (fst g) \<Longrightarrow>
       fst f = fst g \<or> (\<exists>y. map_of vs (fst g) = Some y \<and> omitted (fst (snd g)) (snd (snd g)) y)"
    and k: "k \<in> fst ` set (doc_members bs vs)" "k \<notin> set (map fst as)"
  shows "field_for (map fst as) k = None"
proof -
  obtain tag t where g: "map_of bs k = Some (tag, t)" "\<And>y. map_of vs k = Some y \<Longrightarrow> \<not> omitted tag t y"
    using k(1) doc_members_lookup(1) [OF assms(1,2), of k]
    by (cases "map_of (doc_members bs vs) k") (auto simp: map_of_eq_None_iff split: option.splits if_splits)
  have "\<not> equal_fold (fst f) k" if "f \<in> set as" for f
    using assms(3) [OF that map_of_SomeD [OF g(1)]] imageI [OF that, of fst] g(2) k(2) by auto
  then have "\<not> equal_fold n k" if "n \<in> set (map fst as)" for n using that by auto
  with k show ?thesis by (simp add: field_for_def find_None_iff)
qed

lemma decode_marshal_struct:
  assumes wf: "wf_schema (TStruct as)" "names_ok (TStruct bs)" 
    and c: "\<And>f g. f \<in> set as \<Longrightarrow> g \<in> set bs \<Longrightarrow> equal_fold (fst f) (fst g) \<Longrightarrow>
       fst f = fst g \<and> compatible (snd (snd f)) (snd (snd g)) \<or> (\<exists>y. map_of vs (fst g) = Some y \<and> omitted (fst (snd g)) (snd (snd g)) y)"
    and us: "fields_typed as us" and vs: "fields_typed bs vs"
    and IH: "\<And>f b cur v. f \<in> set as \<Longrightarrow> wf_schema (snd (snd f)) \<Longrightarrow> names_ok b \<Longrightarrow> compatible (snd (snd f)) b \<Longrightarrow> has_type b v \<Longrightarrow>
      has_type (snd (snd f)) cur \<Longrightarrow> decode (snd (snd f)) cur (marshal b v) = (conv (snd (snd f)) b cur v, True)"
  shows "decode (TStruct as) (JObj us) (marshal (TStruct bs) (JObj vs)) = (conv (TStruct as) (TStruct bs) (JObj us) (JObj vs), True)"
proof -
  let ?names = "map fst as" and ?ds = "map (\<lambda>f. (fst f, decode (snd (snd f)))) as"
  let ?kvs = "doc_members bs vs"
  have names: "map fst us = ?names" "map fst vs = map fst bs" using us vs by (simp_all add: fields_typed_names)
  have dist: "distinct ?names" "distinct (map fst bs)" using wf by (simp_all add: wf_distinct)
  note kvs = doc_members_lookup [OF wf(2) vs]
  have "fst f = fst g \<or> (\<exists>y. map_of vs (fst g) = Some y \<and> omitted (fst (snd g)) (snd (snd g)) y)"
    if "f \<in> set as" "g \<in> set bs" "equal_fold (fst f) (fst g)" for f g using c [OF that] by blast
  note unknown = doc_members_unknown [OF wf(2) vs this]
  have other: "\<forall>k \<in> fst ` set ?kvs - set ?names. field_for ?names k = None" by (intro ballI unknown) simp_all
  have "map fst ?ds = ?names" by simp
  note lk = set_fields_lookup [OF kvs(2) this names(1) other]
  have field: "\<exists>x tag' t'. map_of us n = Some x \<and> map_of as n = Some (tag', t') \<and> (\<forall>tag t y. map_of bs n = Some (tag, t) \<longrightarrow> map_of vs n = Some y \<longrightarrow>
      \<not> omitted tag t y \<longrightarrow> decode t' x (marshal t y) = (conv t' t x y, True))" if n: "n \<in> set ?names" for n
  proof -
    obtain tag' t' where f: "map_of as n = Some (tag', t')" using n by (cases "map_of as n") (auto simp: map_of_eq_None_iff)
    obtain x where x: "map_of us n = Some x" using fields_typed_lookup [OF us] n by auto
    note fm = map_of_SomeD [OF f]
    have "decode t' x (marshal t y) = (conv t' t x y, True)" if g: "map_of bs n = Some (tag, t)" and y: "map_of vs n = Some y" and o: "\<not> omitted tag t y" for tag t y
    proof -
      note gm = map_of_SomeD [OF g]
      have "wf_schema t'" "names_ok t" using wf fm gm by (auto simp: list_all_iff)
      moreover have "compatible t' t" using c [OF fm gm] y o by simp
      moreover have "has_type t' x" "has_type t y"
        using field_typed [OF us dist(1) fm] field_typed [OF vs dist(2) gm] x y by simp_all
      ultimately show ?thesis using IH [OF fm] by simp
    qed
    with f x show ?thesis by blast
  qed
  have "fst (set_fields ?ds ?kvs us) = map_items (conv (TStruct as) (TStruct bs) (JObj us) (JObj vs))"
  proof (rule alist_ext)
    fix n
    assume "n \<in> fst ` set (fst (set_fields ?ds ?kvs us))"
    then have n: "n \<in> set ?names" by (metis conjunct1 [OF lk] set_map)
    from field [OF this] obtain x tag' t' where x: "map_of us n = Some x" "map_of as n = Some (tag', t')"
      "\<And>tag t y. map_of bs n = Some (tag, t) \<Longrightarrow> map_of vs n = Some y \<Longrightarrow> \<not> omitted tag t y \<Longrightarrow> decode t' x (marshal t y) = (conv t' t x y, True)" by blast
    show "map_of (fst (set_fields ?ds ?kvs us)) n = map_of (map_items (conv (TStruct as) (TStruct bs) (JObj us) (JObj vs))) n"
      using bspec [OF conjunct1 [OF conjunct2 [OF lk]] n] x
      by (auto simp: kvs(1) map_items_def Let_def map_of_entries map_of_fields split: option.splits)
  qed (use lk names dist in \<open>auto simp: map_items_def Let_def comp_def split_beta\<close>)
  moreover have "snd (set_fields ?ds ?kvs us)"
  proof -
    have "snd (the (map_of ?ds n) (the (map_of us n)) e)" if n: "n \<in> set ?names" and e: "map_of ?kvs n = Some e" for n e
      using field [OF n] e by (auto simp: kvs(1) map_of_fields split: option.splits if_splits)
    then show ?thesis using conjunct2 [OF conjunct2 [OF lk]] by simp
  qed
  ultimately show ?thesis by (simp add: doc_members_def map_items_def map_prod_def split_beta)
qed

lemma decode_marshal:
  assumes "wf_schema a" "names_ok b" "compatible a b" "has_type b v" "has_type a cur"
  shows "decode a cur (marshal b v) = (conv a b cur v, True)"
  using assms
proof (induction a arbitrary: b cur v)
  case (TInt w)
  then obtain w' n where w: "b = TInt w'" "w' \<le> w" "v = JNum n" "- (2 ^ (w' - 1)) \<le> n" "n < 2 ^ (w' - 1)" by (cases b) auto
  have "(2 :: int) ^ (w' - 1) \<le> 2 ^ (w - 1)" using w(2) by (intro power_increasing) auto
  with w(4,5) have "- (2 ^ (w - 1)) \<le> n \<and> n < 2 ^ (w - 1)" by linarith
  then show ?case using w(1,3) by simp
next
  case (TPtr t)
  then obtain t' where b: "b = TPtr t'" by (cases b) auto
  show ?case
  proof (cases "v = JNull")
    case False
    then have v: "has_type t' v" "marshal t' v \<noteq> JNull" using TPtr.prems b by (auto simp: marshal_null)
    show ?thesis using TPtr.IH [OF _ _ _ v(1)] TPtr.prems v b False zero_typed by auto
  qed (simp add: b)
next
  case (TSlice t)
  then obtain t' where b: "b = TSlice t'" by (cases b) auto
  show ?case
  proof (cases "v = JNull")
    case False
    then obtain xs where xs: "v = JArr xs" "list_all (has_type t') xs" using TSlice.prems b by auto
    have "decode t x (marshal t' y) = (conv t t' x y, True)" if "(x, y) \<in> set (zip (old_items t (length xs) cur) xs)" for x y
      using TSlice.IH [of t' y x] TSlice.prems b xs(2) old_items_typed [of t cur "length xs"] set_zip_leftD [OF that] set_zip_rightD [OF that]
      by (auto simp: list_all_iff)
    then have "map2 (decode t) (old_items t (length xs) cur) (map (marshal t') xs) =
        map2 (\<lambda>x y. (conv t t' x y, True)) (old_items t (length xs) cur) xs"
      by (auto simp: zip_map2)
    then show ?thesis by (auto simp: b xs(1) Let_def split_beta list_all_iff)
  qed (simp add: b)
next
  case (TMap t)
  then obtain t' where b: "b = TMap t'" by (cases b) auto
  show ?case
  proof (cases "v = JNull")
    case False
    then obtain kvs where kvs: "v = JObj kvs" "list_all (\<lambda>kv. has_type t' (snd kv)) kvs" using TMap.prems b by auto
    have d: "decode t (zero t) (marshal t' (snd kv)) = (conv t t' (zero t) (snd kv), True)" if "kv \<in> set kvs" for kv
      using TMap.IH [of t' "snd kv" "zero t"] TMap.prems b kvs(2) that zero_typed by (auto simp: list_all_iff)
    have "fold (\<lambda>kv. AList.update (fst kv) (fst (decode t (zero t) (marshal t' (snd kv))))) kvs m =
        fold (\<lambda>kv. AList.update (fst kv) (conv t t' (zero t) (snd kv))) kvs m" for m
      by (rule fold_cong) (simp_all add: d)
    with d show ?thesis by (auto simp: b kvs(1) Let_def fold_map comp_def list_all_iff)
  qed (simp add: b)
next
  case (TStruct as)
  then obtain bs where b: "b = TStruct bs" by (cases b) auto
  obtain us vs where uv: "cur = JObj us" "fields_typed as us" "v = JObj vs" "fields_typed bs vs" using TStruct.prems(4,5) b by auto
  have IH: "decode (snd (snd f)) cur (marshal b v) = (conv (snd (snd f)) b cur v, True)"
    if "f \<in> set as" "wf_schema (snd (snd f))" "names_ok b" "compatible (snd (snd f)) b" "has_type b v" "has_type (snd (snd f)) cur"
    for f b cur v
    using TStruct.IH [of f "snd f" "snd (snd f)"] that by (cases f) auto
  have "fst f = fst g \<and> compatible (snd (snd f)) (snd (snd g))" if "f \<in> set as" "g \<in> set bs" "equal_fold (fst f) (fst g)" for f g
    using TStruct.prems(3) that by (simp add: b list_all_iff)
  then show ?case using decode_marshal_struct [OF _ _ _ uv(2,4) IH] TStruct.prems(1,2) uv(1,3) b by simp
qed (auto split: schema.splits)

section \<open>Into a larger type and back\<close>

text \<open>\<open>fits p c v\<close>: the type \<open>c\<close> has a place for everything in the value \<open>v\<close> of type \<open>p\<close>. Each field of a struct
  has a field with the same name and tag, pointers may be nil, and slices and maps are nil or not empty,
  since \<open>omitempty\<close> does not tell a nil one from an empty one.\<close>

fun fits :: "schema \<Rightarrow> schema \<Rightarrow> json \<Rightarrow> bool" where
  "fits (TPtr a) c v = (case c of TPtr b \<Rightarrow> v = JNull \<or> fits a b v | _ \<Rightarrow> False)"
| "fits (TSlice a) c v =
     (case c of TSlice b \<Rightarrow> (case v of JArr xs \<Rightarrow> xs \<noteq> [] \<and> list_all (fits a b) xs | _ \<Rightarrow> True) | _ \<Rightarrow> False)"
| "fits (TMap a) c v =
     (case c of
        TMap b \<Rightarrow>
          (case v of JObj kvs \<Rightarrow> kvs \<noteq> [] \<and> distinct (map fst kvs) \<and> list_all (\<lambda>kv. fits a b (snd kv)) kvs | _ \<Rightarrow> True)
      | _ \<Rightarrow> False)"
| "fits (TStruct ps) c v =
     (case c of
        TStruct cs \<Rightarrow>
          (let ts = map (\<lambda>f. (f, fits (snd (snd f)))) ps
           in list_all (\<lambda>(f, ok). case (map_of cs (fst f), map_of (map_items v) (fst f)) of
                (Some (tag, t), Some y) \<Rightarrow> tag = fst (snd f) \<and> ok t y | _ \<Rightarrow> False) ts)
      | _ \<Rightarrow> False)"
| "fits TString c v = (case c of TString \<Rightarrow> True | _ \<Rightarrow> False)"
| "fits TBool c v = (case c of TBool \<Rightarrow> True | _ \<Rightarrow> False)"
| "fits (TInt w) c v = (case c of TInt w' \<Rightarrow> True | _ \<Rightarrow> False)"
| "fits TRaw c v = (case c of TRaw \<Rightarrow> True | _ \<Rightarrow> False)"
| "fits (TCodec p) c v = (case c of TCodec q \<Rightarrow> True | _ \<Rightarrow> False)"

text \<open>A value that is taken over into the larger type and back. Two facts go along: emptiness is kept, and
  only the zero value becomes zero.\<close>

definition there_and_back :: "schema \<Rightarrow> schema \<Rightarrow> json \<Rightarrow> bool" where
  "there_and_back p c s \<longleftrightarrow> conv p c (zero p) (conv c p (zero c) s) = s
     \<and> (empty_value c (conv c p (zero c) s) \<longleftrightarrow> empty_value p s)
     \<and> (conv c p (zero c) s = zero c \<longrightarrow> s = zero p) \<and> (conv c p (zero c) s = JNull \<longrightarrow> s = JNull)"

lemma empty_zero: "fits p c y \<Longrightarrow> has_type p y \<Longrightarrow> empty_value p y \<Longrightarrow> y = zero p \<and> empty_value c (zero c)"
  by (cases p; cases c) auto

lemma old_items_zero: "old_items t n JNull = replicate n (zero t)"
  by (simp add: old_items_def slice_items_def)

lemma fold_update_fresh:
  "distinct (map fst kvs) \<Longrightarrow> fst ` set m \<inter> fst ` set kvs = {} \<Longrightarrow>
   fold (\<lambda>kv. AList.update (fst kv) (h (snd kv))) kvs m = m @ map (\<lambda>kv. (fst kv, h (snd kv))) kvs"
proof (induction kvs arbitrary: m)
  case (Cons kv kvs)
  have "AList.update (fst kv) (h (snd kv)) m = m @ [(fst kv, h (snd kv))]"
    using Cons.prems(2) by (induction m) auto
  then show ?case using Cons by auto
qed simp

lemma map2_replicate: "map2 f (replicate (length xs) z) xs = map (f z) xs"
  by (induction xs) auto

lemma conv_zero [simp]:
  "conv (TSlice a) (TSlice b) JNull (JArr xs) = JArr (map (conv a b (zero a)) xs)"
  "distinct (map fst kvs) \<Longrightarrow> conv (TMap a) (TMap b) JNull (JObj kvs) = JObj (map (\<lambda>kv. (fst kv, conv a b (zero a) (snd kv))) kvs)"
  by (simp_all add: old_items_zero map2_replicate map_items_def fold_update_fresh [where m = "[]" and h = "conv a b (zero a)", simplified])

lemma conv_field:
  "map_of (map_items (conv (TStruct as) (TStruct bs) cur v)) n =
     map_option (\<lambda>x. case (map_of as n, map_of bs n, map_of (map_items v) n) of
         (Some (tag', t'), Some (tag, t), Some y) \<Rightarrow> if omitted tag t y then x else conv t' t x y
       | _ \<Rightarrow> x) (map_of (map_items cur) n)"
proof -
  let ?cs = "map (\<lambda>f. (fst f, conv (snd (snd f)))) as"
  let ?h = "\<lambda>n x. case (map_of ?cs n, map_of bs n, map_of (map_items v) n) of
     (Some c, Some (tag, t), Some y) \<Rightarrow> if omitted tag t y then x else c t x y | _ \<Rightarrow> x"
  have "map_items (conv (TStruct as) (TStruct bs) cur v) = map (\<lambda>(n, x). (n, ?h n x)) (map_items cur)"
    by (simp add: map_items_def Let_def)
  then have "map_of (map_items (conv (TStruct as) (TStruct bs) cur v)) n = map_option (?h n) (map_of (map_items cur) n)"
    by (simp only: map_of_entries)
  also have "map_option (?h n) (map_of (map_items cur) n) =
     map_option (\<lambda>x. case (map_of as n, map_of bs n, map_of (map_items v) n) of
         (Some (tag', t'), Some (tag, t), Some y) \<Rightarrow> if omitted tag t y then x else conv t' t x y
       | _ \<Rightarrow> x) (map_of (map_items cur) n)"
    by (rule map_option_cong) (auto simp: map_of_fields split: option.splits)
  finally show ?thesis .
qed

lemma zero_lookup: "map_of (map_items (zero (TStruct fs))) n = map_option (\<lambda>ot. zero (snd ot)) (map_of fs n)"
  using map_of_fields [of "\<lambda>f. zero (snd (snd f))" fs n] by (simp add: map_items_def)

lemma conv_struct_lookup:
  "map_of (map_items (conv (TStruct as) (TStruct bs) (zero (TStruct as)) (JObj vs))) n =
     map_option (\<lambda>(tag', t'). case (map_of bs n, map_of vs n) of
         (Some (tag, t), Some y) \<Rightarrow> if omitted tag t y then zero t' else conv t' t (zero t') y
       | _ \<Rightarrow> zero t') (map_of as n)"
proof -
  have "map_items (JObj vs) = vs" by (simp add: map_items_def)
  then show ?thesis
    by (cases "map_of as n") (auto simp only: conv_field zero_lookup option.map option.case prod.case split_beta fst_conv snd_conv split: option.splits)
qed

lemma conv_struct_obj:
  "\<exists>ws. conv (TStruct as) (TStruct bs) (zero (TStruct as)) (JObj vs) = JObj ws \<and> map fst ws = map fst as"
  by (simp add: map_items_def Let_def comp_def split_beta)

lemma fits_field:
  assumes "fits (TStruct ps) (TStruct cs) (JObj vs)" "f \<in> set ps"
  shows "\<exists>t' y. map_of cs (fst f) = Some (fst (snd f), t') \<and> map_of vs (fst f) = Some y \<and> fits (snd (snd f)) t' y"
proof -
  have "case (map_of cs (fst f), map_of vs (fst f)) of
      (Some (tag, t), Some y) \<Rightarrow> tag = fst (snd f) \<and> fits (snd (snd f)) t y | _ \<Rightarrow> False"
    using assms by (simp add: Let_def list_all_iff map_items_def)
  then show ?thesis by (auto split: option.splits)
qed

text \<open>One field, through both conversions.\<close>

lemma field_back:
  fixes tag :: omit
  assumes "there_and_back t t' y" "fits t t' y" "has_type t y"
    and z: "z = (if omitted tag t y then zero t' else conv t' t (zero t') y)"
  shows "(if omitted tag t' z then zero t else conv t t' (zero t) z) = y" "z = zero t' \<Longrightarrow> y = zero t"
proof -
  have ez: "empty_value t y \<Longrightarrow> y = zero t \<and> empty_value t' (zero t')" by (rule empty_zero [OF assms(2,3)])
  have oz: "y = zero t \<and> omitted tag t' (zero t')" if "omitted tag t y"
  proof (cases tag)
    case OmitEmpty
    then show ?thesis using that ez unfolding omitted_def by simp
  qed (use that in \<open>simp_all add: omitted_def\<close>)
  then show "y = zero t" if "z = zero t'" using assms(1) that by (auto simp: there_and_back_def z split: if_splits)
  show "(if omitted tag t' z then zero t else conv t t' (zero t) z) = y"
  proof (cases "omitted tag t y")
    case False
    then have z': "z = conv t' t (zero t') y" by (simp add: z)
    have "\<not> omitted tag t' z"
      using False assms(1) z' by (cases tag) (auto simp: omitted_def there_and_back_def)
    then show ?thesis using assms(1) z' by (auto simp: there_and_back_def)
  qed (use oz z in simp)
qed

lemma struct_back:
  assumes wf: "wf_schema (TStruct ps)" "wf_schema (TStruct cs)" and vs: "fields_typed ps vs"
    and fit: "fits (TStruct ps) (TStruct cs) (JObj vs)"
    and IH: "\<And>n tag t t' y. map_of ps n = Some (tag, t) \<Longrightarrow> map_of cs n = Some (tag, t') \<Longrightarrow> fits t t' y \<Longrightarrow>
       has_type t y \<Longrightarrow> there_and_back t t' y"
  shows "there_and_back (TStruct ps) (TStruct cs) (JObj vs)"
proof -
  let ?C = "conv (TStruct cs) (TStruct ps) (zero (TStruct cs)) (JObj vs)"
  obtain ws where ws: "?C = JObj ws" "map fst ws = map fst cs" using conv_struct_obj by blast
  obtain us where us: "conv (TStruct ps) (TStruct cs) (zero (TStruct ps)) (JObj ws) = JObj us" "map fst us = map fst ps"
    using conv_struct_obj by blast
  have dist: "distinct (map fst ps)" "distinct (map fst cs)" using wf by (simp_all add: wf_distinct)
  have field: "\<exists>tag t t' y z. map_of ps n = Some (tag, t) \<and> map_of cs n = Some (tag, t') \<and> map_of vs n = Some y
     \<and> map_of ws n = Some z \<and> (if omitted tag t' z then zero t else conv t t' (zero t) z) = y \<and> (z = zero t' \<longrightarrow> y = zero t)"
    if n: "n \<in> fst ` set ps" for n
  proof -
    obtain tag t where f: "map_of ps n = Some (tag, t)" using n by (cases "map_of ps n") (auto simp: map_of_eq_None_iff)
    note m = map_of_SomeD [OF f]
    obtain t' y where c: "map_of cs n = Some (tag, t')" and y: "map_of vs n = Some y" and t': "fits t t' y"
      using fits_field [OF fit m] by auto
    have ty: "has_type t y" using field_typed [OF vs dist(1) m] y by simp
    define z where "z = (if omitted tag t y then zero t' else conv t' t (zero t') y)"
    have "map_of ws n = Some z"
      using conv_struct_lookup [of cs ps vs n] unfolding ws(1) by (simp add: f y c map_items_def z_def)
    with f y c field_back [OF IH [OF f c t' ty] t' ty z_def] show ?thesis by blast
  qed
  have "us = vs"
  proof (rule alist_ext)
    fix n
    assume "n \<in> fst ` set us"
    then have n: "n \<in> fst ` set ps" using us(2) by (metis list.set_map)
    then show "map_of us n = map_of vs n"
      using field [OF n] conv_struct_lookup [of ps cs ws n] unfolding us(1) by (auto simp: map_items_def)
  qed (use us dist vs in \<open>simp_all add: fields_typed_names\<close>)
  moreover have "JObj vs = zero (TStruct ps)" if C: "ws = map (\<lambda>f. (fst f, zero (snd (snd f)))) cs"
  proof -
    have "vs = map (\<lambda>f. (fst f, zero (snd (snd f)))) ps"
    proof (rule alist_ext)
      fix n
      assume "n \<in> fst ` set vs"
      then have n: "n \<in> fst ` set ps" using fields_typed_names [OF vs] by (metis list.set_map)
      show "map_of vs n = map_of (map (\<lambda>f. (fst f, zero (snd (snd f)))) ps) n"
        using field [OF n] by (auto simp: map_of_fields C)
    qed (use dist fields_typed_names [OF vs] in \<open>simp_all add: comp_def\<close>)
    then show ?thesis by simp
  qed
  ultimately show ?thesis unfolding there_and_back_def ws(1) us(1) by simp
qed

lemma fits_back:
  assumes "fits p c s" "wf_schema p" "wf_schema c" "has_type p s"
  shows "there_and_back p c s"
  using assms
proof (induction p arbitrary: c s)
  case (TPtr p)
  then obtain c' where c: "c = TPtr c'" by (cases c) auto
  show ?case using TPtr.IH [of c' s] TPtr.prems by (auto simp: c there_and_back_def)
next
  case (TSlice p)
  then obtain c' where c: "c = TSlice c'" by (cases c) auto
  show ?case
  proof (cases "s = JNull")
    case False
    then obtain xs where xs: "s = JArr xs" "list_all (has_type p) xs" "xs \<noteq> []" "list_all (fits p c') xs" using TSlice.prems by (auto simp: c)
    have "conv p c' (zero p) (conv c' p (zero c') x) = x" if "x \<in> set xs" for x
      using TSlice.IH [of c' x] TSlice.prems xs that by (auto simp: c there_and_back_def list_all_iff)
    then have "map (\<lambda>x. conv p c' (zero p) (conv c' p (zero c') x)) xs = xs" by (intro map_idI)
    then show ?thesis using xs by (simp add: c there_and_back_def comp_def del: conv.simps)
  qed (simp add: c there_and_back_def)
next
  case (TMap p)
  then obtain c' where c: "c = TMap c'" by (cases c) auto
  show ?case
  proof (cases "s = JNull")
    case False
    then obtain xs where xs: "s = JObj xs" "list_all (\<lambda>kv. has_type p (snd kv)) xs" "xs \<noteq> []" "distinct (map fst xs)"
      "list_all (\<lambda>kv. fits p c' (snd kv)) xs"
      using TMap.prems by (auto simp: c)
    have "conv p c' (zero p) (conv c' p (zero c') (snd x)) = snd x" if "x \<in> set xs" for x
      using TMap.IH [of c' "snd x"] TMap.prems xs that by (auto simp: c there_and_back_def list_all_iff)
    then have "map (\<lambda>kv. (fst kv, conv p c' (zero p) (conv c' p (zero c') (snd kv)))) xs = xs" by (intro map_idI) simp
    then show ?thesis using xs by (simp add: c there_and_back_def comp_def del: conv.simps)
  qed (simp add: c there_and_back_def)
next
  case (TStruct ps)
  then obtain cs where c: "c = TStruct cs" by (cases c) auto
  obtain vs where vs: "s = JObj vs" "fields_typed ps vs" using TStruct.prems by auto
  have "there_and_back t t' y" if f: "map_of ps n = Some (tag, t)" "map_of cs n = Some (tag, t')" "fits t t' y" "has_type t y"
    for n tag t t' y
  proof -
    note m = map_of_SomeD [OF f(1)] map_of_SomeD [OF f(2)]
    then have "wf_schema t" "wf_schema t'" using TStruct.prems(2,3) by (auto simp: c list_all_iff)
    then show ?thesis using TStruct.IH [OF m(1)] f by simp
  qed
  then show ?case using struct_back [of ps cs vs] TStruct.prems vs c by blast
qed (auto simp: there_and_back_def split: schema.splits)

section \<open>Types that share fields\<close>

text \<open>A check of two struct types: the names are ground, the field types may not be.\<close>

definition names_apart :: "string list \<Rightarrow> string list \<Rightarrow> bool" where
  "names_apart ns ms =
     (let ls = map (map to_lower) ns in distinct ls \<and> list_all (\<lambda>m. m \<in> set ns \<or> map to_lower m \<notin> set ls) ms)"

lemma compatible_structI:
  assumes "map fst as = ns" "map fst bs = ms" "names_apart ns ms"
    and "\<forall>f \<in> set as. \<forall>g \<in> set bs. fst f = fst g \<longrightarrow> compatible (snd (snd f)) (snd (snd g))"
  shows "compatible (TStruct as) (TStruct bs)"
proof -
  have "n = m" if "n \<in> set ns" "m \<in> set ms" "equal_fold n m" for n m
    using that assms(3) by (auto simp: names_apart_def Let_def list_all_iff equal_fold_def distinct_map) (metis imageI inj_onD)
  then have "fst f = fst g" if "f \<in> set as" "g \<in> set bs" "equal_fold (fst f) (fst g)" for f g
    using that assms(1,2) by auto
  then show ?thesis using assms(4) by (auto simp: list_all_iff)
qed

lemma compatible_refl: "wf_schema t \<Longrightarrow> compatible t t"
proof (induction t)
  case (TStruct fs)
  have "f = g" if "f \<in> set fs" "g \<in> set fs" "equal_fold (fst f) (fst g)" for f g
    using that TStruct.prems by (auto simp: distinct_map equal_fold_def dest: inj_onD)
  moreover have "compatible (snd (snd f)) (snd (snd f))" if "f \<in> set fs" for f
    using TStruct.IH [of f "snd f" "snd (snd f)"] TStruct.prems that by (cases f) (fastforce simp: list_all_iff)
  ultimately show ?case unfolding compatible.simps schema.case list_all_iff by metis
qed auto

lemma wf_structI:
  "map fst fs = ns \<Longrightarrow> distinct (map (map to_lower) ns) \<Longrightarrow> \<forall>f \<in> set fs. wf_schema (snd (snd f)) \<Longrightarrow> wf_schema (TStruct fs)"
  by (auto simp: list_all_iff comp_def)

lemma names_structI:
  "map fst fs = ns \<Longrightarrow> distinct ns \<Longrightarrow> \<forall>f \<in> set fs. names_ok (snd (snd f)) \<Longrightarrow> names_ok (TStruct fs)"
  by (auto simp: list_all_iff)

section \<open>Fields after a conversion\<close>

fun fields_of :: "schema \<Rightarrow> (string \<times> omit \<times> schema) list" where
  "fields_of (TStruct fs) = fs"
| "fields_of _ = []"

text \<open>Reading and setting a field of a struct.\<close>

definition get_field :: "string \<Rightarrow> json \<Rightarrow> json" where
  "get_field n v = (case map_of (map_items v) n of Some x \<Rightarrow> x | None \<Rightarrow> JNull)"

definition set_field :: "string \<Rightarrow> json \<Rightarrow> json \<Rightarrow> json" where
  "set_field n x v = (case v of JObj vs \<Rightarrow> JObj (put n x vs) | _ \<Rightarrow> v)"

text \<open>Only the fields of the target matter.\<close>

lemma conv_agree:
  assumes "\<And>n. n \<in> fst ` set as \<Longrightarrow> map_of (map_items v) n = map_of (map_items w) n"
  shows "conv (TStruct as) (TStruct bs) cur v = conv (TStruct as) (TStruct bs) cur w"
proof -
  let ?cs = "map (\<lambda>f. (fst f, conv (snd (snd f)))) as"
  have "(case (map_of ?cs n, map_of bs n, map_of (map_items v) n) of
           (Some c, Some (tag, t), Some y) \<Rightarrow> if omitted tag t y then x else c t x y | _ \<Rightarrow> x)
      = (case (map_of ?cs n, map_of bs n, map_of (map_items w) n) of
           (Some c, Some (tag, t), Some y) \<Rightarrow> if omitted tag t y then x else c t x y | _ \<Rightarrow> x)" for n x
  proof (cases "n \<in> fst ` set as")
    case False
    then have "map_of ?cs n = None" by (simp add: map_of_eq_None_iff image_image)
    then show ?thesis by simp
  qed (simp add: assms)
  then show ?thesis unfolding conv.simps Let_def by (intro arg_cong [where f = JObj] map_cong) auto
qed

lemma set_field_lookup:
  "map_of (map_items (set_field n x v)) m = (if m = n \<and> n \<in> fst ` set (map_items v) then Some x else map_of (map_items v) m)"
  by (auto simp: set_field_def map_items_def put_lookup split: json.splits)

lemma set_field_typed:
  assumes "has_type (TStruct fs) v" "\<And>f. f \<in> set fs \<Longrightarrow> fst f = n \<Longrightarrow> has_type (snd (snd f)) x"
  shows "has_type (TStruct fs) (set_field n x v)"
  using assms put_typed [of fs _ n x] by (auto simp: set_field_def)

lemma typed_names:
  assumes "has_type (TStruct fs) v"
  shows "fst ` set (map_items v) = fst ` set fs"
proof -
  obtain vs where vs: "v = JObj vs" "fields_typed fs vs" using assms by auto
  have "set (map fst vs) = set (map fst fs)" using fields_typed_names [OF vs(2)] by simp
  then show ?thesis by (simp add: vs map_items_def)
qed

lemma conv_zero_zero: "compatible a b \<Longrightarrow> wf_schema a \<Longrightarrow> names_ok b \<Longrightarrow> conv a b (zero a) (zero b) = zero a"
proof (induction a arbitrary: b)
  case (TStruct as)
  then obtain bs where b: "b = TStruct bs" by (cases b) auto
  obtain ws where ws: "conv (TStruct as) (TStruct bs) (zero (TStruct as)) (zero (TStruct bs)) = JObj ws" "map fst ws = map fst as"
    using conv_struct_obj [of as bs] by auto
  have dist: "distinct (map fst as)" using TStruct.prems by (simp add: wf_distinct)
  have "ws = map_items (zero (TStruct as))"
  proof (rule alist_ext)
    fix n
    assume "n \<in> fst ` set ws"
    then have "n \<in> fst ` set as" using ws(2) by (metis list.set_map)
    then obtain tag t where f: "map_of as n = Some (tag, t)" by (cases "map_of as n") (auto simp: map_of_eq_None_iff)
    have "conv t t' (zero t) (zero t') = zero t" if g: "map_of bs n = Some (tag', t')" for tag' t'
    proof -
      note m = map_of_SomeD [OF f] map_of_SomeD [OF g]
      have "wf_schema t" "names_ok t'" using TStruct.prems m by (auto simp: b list_all_iff)
      moreover have "compatible t t'" using TStruct.prems(1) m by (fastforce simp: b list_all_iff)
      ultimately show ?thesis using TStruct.IH [OF m(1)] by simp
    qed
    then show "map_of ws n = map_of (map_items (zero (TStruct as))) n"
      using conv_field [of as bs "zero (TStruct as)" "zero (TStruct bs)" n] unfolding ws(1) zero_lookup
      by (auto simp: f map_items_def split: option.splits)
  qed (use ws dist in \<open>simp_all add: map_items_def comp_def\<close>)
  then have "JObj ws = zero (TStruct as)" by (simp add: map_items_def)
  then show ?case by (simp only: b ws(1))
qed (auto split: schema.splits)

end
