(* ===== verification/ApiSchemas.thy ===== *)
theory ApiSchemas
  imports JsonRoundtrip
begin

text \<open>
  The Go types of the resources: as they are stored (\<open>api/v1alpha1\<close>, prefix \<open>i_\<close>), as a customer sees them
  (\<open>api/v1alpha1/public\<close>, prefix \<open>p_\<close>), and the fields the service adds. Types of other modules, such as
  those of HyperShift, are given by the parameter \<open>F\<close>, by their qualified name. Documents have integers
  only, so the one \<open>float64\<close> field is limited to the integers a double holds exactly.
\<close>

definition float64_codec :: "json \<Rightarrow> bool" where
  "float64_codec d = (case d of JNum n \<Rightarrow> \<bar>n\<bar> < 2 ^ 53 | _ \<Rightarrow> False)"

section \<open>Stored types\<close>

definition i_HostedClusterSpecPassthrough :: "(string \<Rightarrow> schema) \<Rightarrow> schema" where
  "i_HostedClusterSpecPassthrough F = TStruct
    [(''release'', Keep, F ''hypershiftv1beta1.Release''), (''controlPlaneRelease'', OmitEmpty, TPtr (F ''hypershiftv1beta1.Release'')),
     (''clusterID'', OmitEmpty, TString), (''infraID'', OmitEmpty, TString), (''updateService'', OmitEmpty, F ''configv1.URL''),
     (''channel'', OmitEmpty, TString), (''platform'', Keep, F ''hypershiftv1beta1.PlatformSpec''), (''kubeAPIServerDNSName'', OmitEmpty, TString),
     (''controllerAvailabilityPolicy'', OmitEmpty, F ''hypershiftv1beta1.AvailabilityPolicy''),
     (''infrastructureAvailabilityPolicy'', OmitEmpty, F ''hypershiftv1beta1.AvailabilityPolicy''),
     (''dns'', OmitEmpty, F ''hypershiftv1beta1.DNSSpec''), (''networking'', Keep, F ''hypershiftv1beta1.ClusterNetworking''),
     (''autoscaling'', OmitEmpty, F ''hypershiftv1beta1.ClusterAutoscaling''), (''autoNode'', OmitZero, F ''hypershiftv1beta1.AutoNode''),
     (''etcd'', Keep, F ''hypershiftv1beta1.EtcdSpec''), (''services'', Keep, TSlice (F ''hypershiftv1beta1.ServicePublishingStrategyMapping'')),
     (''pullSecret'', Keep, F ''corev1.LocalObjectReference''), (''sshKey'', Keep, F ''corev1.LocalObjectReference''),
     (''issuerURL'', OmitEmpty, TString), (''serviceAccountSigningKey'', OmitEmpty, TPtr (F ''corev1.LocalObjectReference'')),
     (''configuration'', OmitEmpty, TPtr (F ''hypershiftv1beta1.ClusterConfiguration'')),
     (''operatorConfiguration'', OmitEmpty, TPtr (F ''hypershiftv1beta1.OperatorConfiguration'')),
     (''auditWebhook'', OmitEmpty, TPtr (F ''corev1.LocalObjectReference'')),
     (''imageContentSources'', OmitEmpty, TSlice (F ''hypershiftv1beta1.ImageContentSource'')),
     (''additionalTrustBundle'', OmitEmpty, TPtr (F ''corev1.LocalObjectReference'')),
     (''secretEncryption'', OmitEmpty, TPtr (F ''hypershiftv1beta1.SecretEncryptionSpec'')), (''fips'', Keep, TBool),
     (''pausedUntil'', OmitEmpty, TPtr TString), (''olmCatalogPlacement'', OmitEmpty, F ''hypershiftv1beta1.OLMCatalogPlacement''),
     (''nodeSelector'', OmitEmpty, TMap TString), (''tolerations'', OmitEmpty, TSlice (F ''corev1.Toleration'')),
     (''labels'', OmitEmpty, TMap TString), (''capabilities'', OmitEmpty, TPtr (F ''hypershiftv1beta1.Capabilities''))]"

definition i_ControlPlaneUpgradePolicySpec :: "(string \<Rightarrow> schema) \<Rightarrow> schema" where
  "i_ControlPlaneUpgradePolicySpec F = TStruct
    [(''updateType'', Keep, TString), (''scheduleType'', Keep, TString), (''schedule'', OmitEmpty, TPtr TString),
     (''version'', OmitEmpty, TPtr TString), (''nextRun'', OmitEmpty, TPtr (F ''metav1.Time'')), (''upgradeScope'', OmitEmpty, TString)]"

definition i_ClusterSpec :: "(string \<Rightarrow> schema) \<Rightarrow> schema" where
  "i_ClusterSpec F = TStruct
    [(''displayName'', OmitEmpty, TString), (''deleteProtection'', OmitEmpty, TPtr TBool),
     (''expirationTimestamp'', OmitEmpty, TPtr (F ''metav1.Time'')), (''properties'', OmitEmpty, TMap TString), (''tags'', OmitEmpty, TMap TString),
     (''accountId'', OmitEmpty, TString), (''creatorARN'', OmitEmpty, TString), (''internalId'', OmitEmpty, TString),
     (''oidcConfigId'', OmitEmpty, TString), (''hostedCluster'', Keep, i_HostedClusterSpecPassthrough F),
     (''controlPlaneUpgradePolicy'', OmitEmpty, TPtr (i_ControlPlaneUpgradePolicySpec F))]"

definition i_PlacementReference :: "(string \<Rightarrow> schema) \<Rightarrow> schema" where
  "i_PlacementReference F = TStruct
    [(''name'', Keep, TString), (''managementCluster'', Keep, TString)]"

definition i_ControlPlaneUpgradePolicyStatus :: "(string \<Rightarrow> schema) \<Rightarrow> schema" where
  "i_ControlPlaneUpgradePolicyStatus F = TStruct
    [(''nextRun'', OmitEmpty, TPtr (F ''metav1.Time''))]"

definition i_ClusterStatus :: "(string \<Rightarrow> schema) \<Rightarrow> schema" where
  "i_ClusterStatus F = TStruct
    [(''conditions'', OmitEmpty, TSlice (F ''metav1.Condition'')), (''phase'', OmitEmpty, TString),
     (''controlPlaneEndpoint'', OmitEmpty, F ''hypershiftv1beta1.APIEndpoint''), (''version'', OmitEmpty, TString),
     (''placementRef'', OmitEmpty, TPtr (i_PlacementReference F)), (''observedGeneration'', OmitEmpty, TInt 64),
     (''controlPlaneUpgradePolicy'', OmitEmpty, TPtr (i_ControlPlaneUpgradePolicyStatus F))]"

definition i_Cluster :: "(string \<Rightarrow> schema) \<Rightarrow> schema" where
  "i_Cluster F = TStruct
    [(''kind'', OmitEmpty, TString), (''apiVersion'', OmitEmpty, TString), (''metadata'', OmitZero, F ''metav1.ObjectMeta''),
     (''spec'', Keep, i_ClusterSpec F), (''status'', OmitZero, i_ClusterStatus F)]"

definition i_NodePoolSpecPassthrough :: "(string \<Rightarrow> schema) \<Rightarrow> schema" where
  "i_NodePoolSpecPassthrough F = TStruct
    [(''clusterName'', Keep, TString), (''release'', Keep, F ''hypershiftv1beta1.Release''),
     (''platform'', Keep, F ''hypershiftv1beta1.NodePoolPlatform''), (''replicas'', OmitEmpty, TPtr (TInt 32)),
     (''management'', Keep, F ''hypershiftv1beta1.NodePoolManagement''),
     (''autoScaling'', OmitEmpty, TPtr (F ''hypershiftv1beta1.NodePoolAutoScaling'')),
     (''config'', OmitEmpty, TSlice (F ''corev1.LocalObjectReference'')), (''nodeDrainTimeout'', OmitEmpty, TPtr (F ''metav1.Duration'')),
     (''nodeVolumeDetachTimeout'', OmitEmpty, TPtr (F ''metav1.Duration'')), (''nodeLabels'', OmitEmpty, TMap TString),
     (''taints'', OmitEmpty, TSlice (F ''hypershiftv1beta1.Taint'')), (''pausedUntil'', OmitEmpty, TPtr TString),
     (''tuningConfig'', OmitEmpty, TSlice (F ''corev1.LocalObjectReference'')), (''arch'', OmitEmpty, TString),
     (''osImageStream'', OmitZero, F ''hypershiftv1beta1.OSImageStreamReference'')]"

definition i_NodePoolSpec :: "(string \<Rightarrow> schema) \<Rightarrow> schema" where
  "i_NodePoolSpec F = TStruct
    [(''displayName'', OmitEmpty, TString), (''autoRepair'', OmitEmpty, TPtr TBool), (''labels'', OmitEmpty, TMap TString),
     (''accountId'', OmitEmpty, TString), (''internalPoolId'', OmitEmpty, TString), (''nodePool'', Keep, i_NodePoolSpecPassthrough F)]"

definition i_NodePoolStatus :: "(string \<Rightarrow> schema) \<Rightarrow> schema" where
  "i_NodePoolStatus F = TStruct
    [(''conditions'', OmitEmpty, TSlice (F ''metav1.Condition'')), (''phase'', OmitEmpty, TString), (''observedGeneration'', OmitEmpty, TInt 64)]"

definition i_NodePool :: "(string \<Rightarrow> schema) \<Rightarrow> schema" where
  "i_NodePool F = TStruct
    [(''kind'', OmitEmpty, TString), (''apiVersion'', OmitEmpty, TString), (''metadata'', OmitZero, F ''metav1.ObjectMeta''),
     (''spec'', Keep, i_NodePoolSpec F), (''status'', OmitZero, i_NodePoolStatus F)]"

definition i_OidcConfigSpec :: "(string \<Rightarrow> schema) \<Rightarrow> schema" where
  "i_OidcConfigSpec F = TStruct
    [(''type'', Keep, TString), (''issuerUrl'', Keep, TString), (''secretArn'', Keep, TString), (''installerRoleArn'', Keep, TString),
     (''accountId'', OmitEmpty, TString)]"

definition i_OidcConfigStatus :: "(string \<Rightarrow> schema) \<Rightarrow> schema" where
  "i_OidcConfigStatus F = TStruct
    [(''conditions'', OmitEmpty, TSlice (F ''metav1.Condition'')), (''phase'', OmitEmpty, TString), (''thumbprint'', OmitEmpty, TString),
     (''lastUsedTimestamp'', OmitEmpty, TPtr (F ''metav1.Time'')), (''observedGeneration'', OmitEmpty, TInt 64)]"

definition i_OidcConfig :: "(string \<Rightarrow> schema) \<Rightarrow> schema" where
  "i_OidcConfig F = TStruct
    [(''kind'', OmitEmpty, TString), (''apiVersion'', OmitEmpty, TString), (''metadata'', OmitZero, F ''metav1.ObjectMeta''),
     (''spec'', Keep, i_OidcConfigSpec F), (''status'', OmitZero, i_OidcConfigStatus F)]"

definition i_ResourceTemplate :: "(string \<Rightarrow> schema) \<Rightarrow> schema" where
  "i_ResourceTemplate F = TStruct
    [(''resource'', Keep, TString), (''content'', Keep, F ''runtime.RawExtension''), (''watch'', OmitEmpty, TBool)]"

definition i_ManifestSpec :: "(string \<Rightarrow> schema) \<Rightarrow> schema" where
  "i_ManifestSpec F = TStruct
    [(''managementCluster'', Keep, TString), (''resources'', Keep, TSlice (i_ResourceTemplate F))]"

definition i_ResourceStatus :: "(string \<Rightarrow> schema) \<Rightarrow> schema" where
  "i_ResourceStatus F = TStruct
    [(''resource'', Keep, TString), (''name'', Keep, TString), (''namespace'', OmitEmpty, TString), (''group'', OmitEmpty, TString),
     (''version'', OmitEmpty, TString), (''status'', OmitEmpty, F ''runtime.RawExtension'')]"

definition i_ManifestStatus :: "(string \<Rightarrow> schema) \<Rightarrow> schema" where
  "i_ManifestStatus F = TStruct
    [(''conditions'', OmitEmpty, TSlice (F ''metav1.Condition'')), (''phase'', OmitEmpty, TString), (''appliedResources'', OmitEmpty, TInt 32),
     (''observedGeneration'', OmitEmpty, TInt 64), (''resourceStatuses'', OmitEmpty, TSlice (i_ResourceStatus F))]"

definition i_Manifest :: "(string \<Rightarrow> schema) \<Rightarrow> schema" where
  "i_Manifest F = TStruct
    [(''kind'', OmitEmpty, TString), (''apiVersion'', OmitEmpty, TString), (''metadata'', OmitZero, F ''metav1.ObjectMeta''),
     (''spec'', Keep, i_ManifestSpec F), (''status'', OmitZero, i_ManifestStatus F)]"

definition i_ManagementClusterSpec :: "(string \<Rightarrow> schema) \<Rightarrow> schema" where
  "i_ManagementClusterSpec F = TStruct
    [(''region'', Keep, TString), (''accountId'', Keep, TString)]"

definition i_ManagementClusterStatus :: "(string \<Rightarrow> schema) \<Rightarrow> schema" where
  "i_ManagementClusterStatus F = TStruct
    [(''conditions'', OmitEmpty, TSlice (F ''metav1.Condition''))]"

definition i_ManagementCluster :: "(string \<Rightarrow> schema) \<Rightarrow> schema" where
  "i_ManagementCluster F = TStruct
    [(''kind'', OmitEmpty, TString), (''apiVersion'', OmitEmpty, TString), (''metadata'', OmitZero, F ''metav1.ObjectMeta''),
     (''spec'', Keep, i_ManagementClusterSpec F), (''status'', OmitZero, i_ManagementClusterStatus F)]"

definition i_PlacementSpec :: "(string \<Rightarrow> schema) \<Rightarrow> schema" where
  "i_PlacementSpec F = TStruct
    [(''clusterName'', Keep, TString), (''managementCluster'', Keep, TString)]"

definition i_PlacementStatus :: "(string \<Rightarrow> schema) \<Rightarrow> schema" where
  "i_PlacementStatus F = TStruct
    [(''conditions'', OmitEmpty, TSlice (F ''metav1.Condition'')), (''phase'', OmitEmpty, TString), (''observedGeneration'', OmitEmpty, TInt 64)]"

definition i_Placement :: "(string \<Rightarrow> schema) \<Rightarrow> schema" where
  "i_Placement F = TStruct
    [(''kind'', OmitEmpty, TString), (''apiVersion'', OmitEmpty, TString), (''metadata'', OmitZero, F ''metav1.ObjectMeta''),
     (''spec'', Keep, i_PlacementSpec F), (''status'', OmitZero, i_PlacementStatus F)]"

section \<open>Public types\<close>

definition p_PlatformSpec :: "(string \<Rightarrow> schema) \<Rightarrow> schema" where
  "p_PlatformSpec F = TStruct
    [(''type'', Keep, F ''hypershiftv1beta1.PlatformType''), (''aws'', OmitEmpty, TPtr (F ''hypershiftv1beta1.AWSPlatformSpec''))]"

definition p_KubeletConfig :: "(string \<Rightarrow> schema) \<Rightarrow> schema" where
  "p_KubeletConfig F = TStruct
    [(''maxPods'', OmitEmpty, TPtr (TInt 32)), (''podPidsLimit'', OmitEmpty, TPtr (TInt 64)), (''systemReserved'', OmitEmpty, TMap TString),
     (''kubeReserved'', OmitEmpty, TMap TString), (''imageGCHighThresholdPercent'', OmitEmpty, TPtr (TInt 32)),
     (''imageGCLowThresholdPercent'', OmitEmpty, TPtr (TInt 32)), (''imageMinimumGCAge'', OmitEmpty, TPtr (F ''metav1.Duration'')),
     (''serializeImagePulls'', OmitEmpty, TPtr TBool), (''registryPullQPS'', OmitEmpty, TPtr (TInt 32)),
     (''registryBurst'', OmitEmpty, TPtr (TInt 32)), (''streamingConnectionIdleTimeout'', OmitEmpty, TPtr (F ''metav1.Duration'')),
     (''containerLogMaxSize'', OmitEmpty, TPtr TString), (''containerLogMaxFiles'', OmitEmpty, TPtr (TInt 32))]"

definition p_MachineConfigSpec :: "(string \<Rightarrow> schema) \<Rightarrow> schema" where
  "p_MachineConfigSpec F = TStruct
    [(''allowedKernelArguments'', OmitEmpty, TSlice TString)]"

definition p_ClusterConfiguration :: "(string \<Rightarrow> schema) \<Rightarrow> schema" where
  "p_ClusterConfiguration F = TStruct
    [(''kubelet'', OmitEmpty, TPtr (p_KubeletConfig F)), (''machineConfig'', OmitEmpty, TPtr (p_MachineConfigSpec F))]"

definition p_HostedClusterSpecPassthrough :: "(string \<Rightarrow> schema) \<Rightarrow> schema" where
  "p_HostedClusterSpecPassthrough F = TStruct
    [(''release'', Keep, F ''hypershiftv1beta1.Release''), (''channel'', OmitEmpty, TString), (''platform'', Keep, p_PlatformSpec F),
     (''networking'', Keep, F ''hypershiftv1beta1.ClusterNetworking''), (''autoNode'', OmitZero, F ''hypershiftv1beta1.AutoNode''),
     (''issuerURL'', OmitEmpty, TString), (''configuration'', OmitEmpty, TPtr (p_ClusterConfiguration F)),
     (''operatorConfiguration'', OmitEmpty, TPtr (F ''hypershiftv1beta1.OperatorConfiguration'')),
     (''imageContentSources'', OmitEmpty, TSlice (F ''hypershiftv1beta1.ImageContentSource'')), (''fips'', Keep, TBool),
     (''pausedUntil'', OmitEmpty, TPtr TString)]"

definition p_ControlPlaneUpgradePolicySpec :: "(string \<Rightarrow> schema) \<Rightarrow> schema" where
  "p_ControlPlaneUpgradePolicySpec F = TStruct
    [(''updateType'', Keep, TString), (''scheduleType'', Keep, TString), (''schedule'', OmitEmpty, TPtr TString),
     (''version'', OmitEmpty, TPtr TString), (''nextRun'', OmitEmpty, TPtr (F ''metav1.Time'')), (''upgradeScope'', OmitEmpty, TString)]"

definition p_ClusterSpec :: "(string \<Rightarrow> schema) \<Rightarrow> schema" where
  "p_ClusterSpec F = TStruct
    [(''displayName'', OmitEmpty, TString), (''deleteProtection'', OmitEmpty, TPtr TBool),
     (''expirationTimestamp'', OmitEmpty, TPtr (F ''metav1.Time'')), (''properties'', OmitEmpty, TMap TString), (''tags'', OmitEmpty, TMap TString),
     (''oidcConfigId'', OmitEmpty, TString), (''hostedCluster'', Keep, p_HostedClusterSpecPassthrough F),
     (''controlPlaneUpgradePolicy'', OmitEmpty, TPtr (p_ControlPlaneUpgradePolicySpec F))]"

definition p_PlacementReference :: "(string \<Rightarrow> schema) \<Rightarrow> schema" where
  "p_PlacementReference F = TStruct
    [(''name'', Keep, TString), (''managementCluster'', Keep, TString)]"

definition p_ControlPlaneUpgradePolicyStatus :: "(string \<Rightarrow> schema) \<Rightarrow> schema" where
  "p_ControlPlaneUpgradePolicyStatus F = TStruct
    [(''nextRun'', OmitEmpty, TPtr (F ''metav1.Time''))]"

definition p_ClusterStatus :: "(string \<Rightarrow> schema) \<Rightarrow> schema" where
  "p_ClusterStatus F = TStruct
    [(''conditions'', OmitEmpty, TSlice (F ''metav1.Condition'')), (''phase'', OmitEmpty, TString),
     (''controlPlaneEndpoint'', OmitEmpty, F ''hypershiftv1beta1.APIEndpoint''), (''version'', OmitEmpty, TString),
     (''placementRef'', OmitEmpty, TPtr (p_PlacementReference F)), (''observedGeneration'', OmitEmpty, TInt 64),
     (''controlPlaneUpgradePolicy'', OmitEmpty, TPtr (p_ControlPlaneUpgradePolicyStatus F))]"

definition p_Cluster :: "(string \<Rightarrow> schema) \<Rightarrow> schema" where
  "p_Cluster F = TStruct
    [(''kind'', OmitEmpty, TString), (''apiVersion'', OmitEmpty, TString), (''metadata'', OmitEmpty, F ''metav1.ObjectMeta''),
     (''spec'', Keep, p_ClusterSpec F), (''status'', OmitZero, p_ClusterStatus F)]"

definition p_NodePoolPlatform :: "(string \<Rightarrow> schema) \<Rightarrow> schema" where
  "p_NodePoolPlatform F = TStruct
    [(''type'', Keep, F ''hypershiftv1beta1.PlatformType''), (''aws'', OmitEmpty, TPtr (F ''hypershiftv1beta1.AWSNodePoolPlatform''))]"

definition p_NodePoolSpecPassthrough :: "(string \<Rightarrow> schema) \<Rightarrow> schema" where
  "p_NodePoolSpecPassthrough F = TStruct
    [(''clusterName'', Keep, TString), (''release'', Keep, F ''hypershiftv1beta1.Release''), (''platform'', Keep, p_NodePoolPlatform F),
     (''replicas'', OmitEmpty, TPtr (TInt 32))]"

definition p_NodePoolSpec :: "(string \<Rightarrow> schema) \<Rightarrow> schema" where
  "p_NodePoolSpec F = TStruct
    [(''displayName'', OmitEmpty, TString), (''autoRepair'', OmitEmpty, TPtr TBool), (''labels'', OmitEmpty, TMap TString),
     (''nodePool'', Keep, p_NodePoolSpecPassthrough F)]"

definition p_NodePoolStatus :: "(string \<Rightarrow> schema) \<Rightarrow> schema" where
  "p_NodePoolStatus F = TStruct
    [(''conditions'', OmitEmpty, TSlice (F ''metav1.Condition'')), (''phase'', OmitEmpty, TString), (''observedGeneration'', OmitEmpty, TInt 64)]"

definition p_NodePool :: "(string \<Rightarrow> schema) \<Rightarrow> schema" where
  "p_NodePool F = TStruct
    [(''kind'', OmitEmpty, TString), (''apiVersion'', OmitEmpty, TString), (''metadata'', OmitEmpty, F ''metav1.ObjectMeta''),
     (''spec'', Keep, p_NodePoolSpec F), (''status'', OmitZero, p_NodePoolStatus F)]"

definition p_OidcConfigSpec :: "(string \<Rightarrow> schema) \<Rightarrow> schema" where
  "p_OidcConfigSpec F = TStruct
    [(''type'', Keep, TString), (''issuerUrl'', Keep, TString), (''secretArn'', Keep, TString), (''installerRoleArn'', Keep, TString)]"

definition p_OidcConfigStatus :: "(string \<Rightarrow> schema) \<Rightarrow> schema" where
  "p_OidcConfigStatus F = TStruct
    [(''conditions'', OmitEmpty, TSlice (F ''metav1.Condition'')), (''phase'', OmitEmpty, TString), (''thumbprint'', OmitEmpty, TString),
     (''lastUsedTimestamp'', OmitEmpty, TPtr (F ''metav1.Time'')), (''observedGeneration'', OmitEmpty, TInt 64)]"

definition p_OidcConfig :: "(string \<Rightarrow> schema) \<Rightarrow> schema" where
  "p_OidcConfig F = TStruct
    [(''kind'', OmitEmpty, TString), (''apiVersion'', OmitEmpty, TString), (''metadata'', OmitEmpty, F ''metav1.ObjectMeta''),
     (''spec'', Keep, p_OidcConfigSpec F), (''status'', OmitZero, p_OidcConfigStatus F)]"

definition p_ResourceTemplate :: "(string \<Rightarrow> schema) \<Rightarrow> schema" where
  "p_ResourceTemplate F = TStruct
    [(''resource'', Keep, TString), (''content'', Keep, F ''runtime.RawExtension''), (''watch'', OmitEmpty, TBool)]"

definition p_ManifestSpec :: "(string \<Rightarrow> schema) \<Rightarrow> schema" where
  "p_ManifestSpec F = TStruct
    [(''managementCluster'', Keep, TString), (''resources'', Keep, TSlice (p_ResourceTemplate F))]"

definition p_ResourceStatus :: "(string \<Rightarrow> schema) \<Rightarrow> schema" where
  "p_ResourceStatus F = TStruct
    [(''resource'', Keep, TString), (''name'', Keep, TString), (''namespace'', OmitEmpty, TString), (''group'', OmitEmpty, TString),
     (''version'', OmitEmpty, TString), (''status'', OmitEmpty, F ''runtime.RawExtension'')]"

definition p_ManifestStatus :: "(string \<Rightarrow> schema) \<Rightarrow> schema" where
  "p_ManifestStatus F = TStruct
    [(''conditions'', OmitEmpty, TSlice (F ''metav1.Condition'')), (''phase'', OmitEmpty, TString), (''appliedResources'', OmitEmpty, TInt 32),
     (''observedGeneration'', OmitEmpty, TInt 64), (''resourceStatuses'', OmitEmpty, TSlice (p_ResourceStatus F))]"

definition p_Manifest :: "(string \<Rightarrow> schema) \<Rightarrow> schema" where
  "p_Manifest F = TStruct
    [(''kind'', OmitEmpty, TString), (''apiVersion'', OmitEmpty, TString), (''metadata'', OmitEmpty, F ''metav1.ObjectMeta''),
     (''spec'', Keep, p_ManifestSpec F), (''status'', OmitZero, p_ManifestStatus F)]"

definition p_ManagementClusterSpec :: "(string \<Rightarrow> schema) \<Rightarrow> schema" where
  "p_ManagementClusterSpec F = TStruct
    [(''region'', Keep, TString)]"

definition p_ManagementClusterStatus :: "(string \<Rightarrow> schema) \<Rightarrow> schema" where
  "p_ManagementClusterStatus F = TStruct
    [(''conditions'', OmitEmpty, TSlice (F ''metav1.Condition''))]"

definition p_ManagementCluster :: "(string \<Rightarrow> schema) \<Rightarrow> schema" where
  "p_ManagementCluster F = TStruct
    [(''kind'', OmitEmpty, TString), (''apiVersion'', OmitEmpty, TString), (''metadata'', OmitEmpty, F ''metav1.ObjectMeta''),
     (''spec'', Keep, p_ManagementClusterSpec F), (''status'', OmitZero, p_ManagementClusterStatus F)]"

definition p_PlacementSpec :: "(string \<Rightarrow> schema) \<Rightarrow> schema" where
  "p_PlacementSpec F = TStruct
    [(''clusterName'', Keep, TString), (''managementCluster'', Keep, TString)]"

definition p_PlacementStatus :: "(string \<Rightarrow> schema) \<Rightarrow> schema" where
  "p_PlacementStatus F = TStruct
    [(''conditions'', OmitEmpty, TSlice (F ''metav1.Condition'')), (''phase'', OmitEmpty, TString), (''observedGeneration'', OmitEmpty, TInt 64)]"

definition p_Placement :: "(string \<Rightarrow> schema) \<Rightarrow> schema" where
  "p_Placement F = TStruct
    [(''kind'', OmitEmpty, TString), (''apiVersion'', OmitEmpty, TString), (''metadata'', OmitEmpty, F ''metav1.ObjectMeta''),
     (''spec'', Keep, p_PlacementSpec F), (''status'', OmitZero, p_PlacementStatus F)]"

section \<open>Fields the service sets\<close>

definition i_APIServerNetworkConfiguration :: "(string \<Rightarrow> schema) \<Rightarrow> schema" where
  "i_APIServerNetworkConfiguration F = TStruct
    []"

definition i_ClusterAuthentication :: "(string \<Rightarrow> schema) \<Rightarrow> schema" where
  "i_ClusterAuthentication F = TStruct
    []"

definition i_FeatureGateConfiguration :: "(string \<Rightarrow> schema) \<Rightarrow> schema" where
  "i_FeatureGateConfiguration F = TStruct
    []"

definition i_FileSpec :: "(string \<Rightarrow> schema) \<Rightarrow> schema" where
  "i_FileSpec F = TStruct
    [(''path'', Keep, TString), (''contents'', OmitEmpty, TString), (''mode'', OmitEmpty, TPtr (TInt 32)), (''user'', OmitEmpty, TPtr TString),
     (''group'', OmitEmpty, TPtr TString), (''overwrite'', OmitEmpty, TPtr TBool)]"

definition i_ImageConfiguration :: "(string \<Rightarrow> schema) \<Rightarrow> schema" where
  "i_ImageConfiguration F = TStruct
    []"

definition i_IngressConfiguration :: "(string \<Rightarrow> schema) \<Rightarrow> schema" where
  "i_IngressConfiguration F = TStruct
    []"

definition i_NetworkConfiguration :: "(string \<Rightarrow> schema) \<Rightarrow> schema" where
  "i_NetworkConfiguration F = TStruct
    []"

definition i_OAuthConfiguration :: "(string \<Rightarrow> schema) \<Rightarrow> schema" where
  "i_OAuthConfiguration F = TStruct
    []"

definition i_ProxyConfiguration :: "(string \<Rightarrow> schema) \<Rightarrow> schema" where
  "i_ProxyConfiguration F = TStruct
    []"

definition i_SchedulerConfiguration :: "(string \<Rightarrow> schema) \<Rightarrow> schema" where
  "i_SchedulerConfiguration F = TStruct
    []"

definition i_SystemdDropin :: "(string \<Rightarrow> schema) \<Rightarrow> schema" where
  "i_SystemdDropin F = TStruct
    [(''name'', Keep, TString), (''contents'', OmitEmpty, TString)]"

definition i_SystemdUnit :: "(string \<Rightarrow> schema) \<Rightarrow> schema" where
  "i_SystemdUnit F = TStruct
    [(''name'', Keep, TString), (''enabled'', OmitEmpty, TPtr TBool), (''contents'', OmitEmpty, TString),
     (''dropins'', OmitEmpty, TSlice (i_SystemdDropin F))]"

definition ServiceSetFields :: "(string \<Rightarrow> schema) \<Rightarrow> schema" where
  "ServiceSetFields F = TStruct
    [(''accountId'', OmitEmpty, TString), (''additionalTrustBundle'', OmitEmpty, TPtr (F ''corev1.LocalObjectReference'')),
     (''allowedUnsafeSysctls'', OmitEmpty, TSlice TString), (''apiServer'', OmitEmpty, TPtr (i_APIServerNetworkConfiguration F)),
     (''arch'', OmitEmpty, TString), (''auditWebhook'', OmitEmpty, TPtr (F ''corev1.LocalObjectReference'')),
     (''authentication'', OmitEmpty, TPtr (i_ClusterAuthentication F)),
     (''autoScaling'', OmitEmpty, TPtr (F ''hypershiftv1beta1.NodePoolAutoScaling'')),
     (''autoscaling'', OmitEmpty, F ''hypershiftv1beta1.ClusterAutoscaling''),
     (''capabilities'', OmitEmpty, TPtr (F ''hypershiftv1beta1.Capabilities'')), (''channel'', OmitEmpty, TString),
     (''clusterID'', OmitEmpty, TString), (''config'', OmitEmpty, TSlice (F ''corev1.LocalObjectReference'')),
     (''controlPlaneRelease'', OmitEmpty, TPtr (F ''hypershiftv1beta1.Release'')),
     (''controllerAvailabilityPolicy'', OmitEmpty, F ''hypershiftv1beta1.AvailabilityPolicy''), (''cpuManagerPolicy'', OmitEmpty, TPtr TString),
     (''cpuManagerPolicyOptions'', OmitEmpty, TMap TString), (''cpuManagerReconcilePeriod'', OmitEmpty, TPtr (F ''metav1.Duration'')),
     (''creatorARN'', OmitEmpty, TString), (''dns'', OmitEmpty, F ''hypershiftv1beta1.DNSSpec''),
     (''etcd'', OmitEmpty, F ''hypershiftv1beta1.EtcdSpec''), (''evictionHard'', OmitEmpty, TMap TString),
     (''evictionSoft'', OmitEmpty, TMap TString), (''evictionSoftGracePeriod'', OmitEmpty, TMap TString), (''extensions'', OmitEmpty, TSlice TString),
     (''featureGate'', OmitEmpty, TPtr (i_FeatureGateConfiguration F)), (''files'', OmitEmpty, TSlice (i_FileSpec F)), (''fips'', OmitEmpty, TBool),
     (''image'', OmitEmpty, TPtr (i_ImageConfiguration F)), (''infraID'', OmitEmpty, TString),
     (''infrastructureAvailabilityPolicy'', OmitEmpty, F ''hypershiftv1beta1.AvailabilityPolicy''),
     (''ingress'', OmitEmpty, TPtr (i_IngressConfiguration F)), (''internalId'', OmitEmpty, TString), (''internalPoolId'', OmitEmpty, TString),
     (''issuerURL'', OmitEmpty, TString), (''kernelArguments'', OmitEmpty, TSlice TString), (''kernelType'', OmitEmpty, TPtr TString),
     (''kubeAPIServerDNSName'', OmitEmpty, TString), (''labels'', OmitEmpty, TMap TString),
     (''management'', OmitEmpty, F ''hypershiftv1beta1.NodePoolManagement''), (''memoryThrottlingFactor'', OmitEmpty, TPtr (TCodec float64_codec)),
     (''network'', OmitEmpty, TPtr (i_NetworkConfiguration F)), (''nodeDrainTimeout'', OmitEmpty, TPtr (F ''metav1.Duration'')),
     (''nodeLabels'', OmitEmpty, TMap TString), (''nodeSelector'', OmitEmpty, TMap TString),
     (''nodeVolumeDetachTimeout'', OmitEmpty, TPtr (F ''metav1.Duration'')), (''oauth'', OmitEmpty, TPtr (i_OAuthConfiguration F)),
     (''olmCatalogPlacement'', OmitEmpty, F ''hypershiftv1beta1.OLMCatalogPlacement''),
     (''operatorConfiguration'', OmitEmpty, TPtr (F ''hypershiftv1beta1.OperatorConfiguration'')),
     (''osImageStream'', OmitEmpty, F ''hypershiftv1beta1.OSImageStreamReference''), (''pausedUntil'', OmitEmpty, TPtr TString),
     (''proxy'', OmitEmpty, TPtr (i_ProxyConfiguration F)), (''pullSecret'', OmitEmpty, F ''corev1.LocalObjectReference''),
     (''scheduler'', OmitEmpty, TPtr (i_SchedulerConfiguration F)),
     (''secretEncryption'', OmitEmpty, TPtr (F ''hypershiftv1beta1.SecretEncryptionSpec'')),
     (''serviceAccountSigningKey'', OmitEmpty, TPtr (F ''corev1.LocalObjectReference'')),
     (''services'', OmitEmpty, TSlice (F ''hypershiftv1beta1.ServicePublishingStrategyMapping'')),
     (''sshKey'', OmitEmpty, F ''corev1.LocalObjectReference''), (''systemdUnits'', OmitEmpty, TSlice (i_SystemdUnit F)),
     (''taints'', OmitEmpty, TSlice (F ''hypershiftv1beta1.Taint'')), (''tolerations'', OmitEmpty, TSlice (F ''corev1.Toleration'')),
     (''topologyManagerPolicy'', OmitEmpty, TPtr TString), (''topologyManagerScope'', OmitEmpty, TPtr TString),
     (''tuningConfig'', OmitEmpty, TSlice (F ''corev1.LocalObjectReference'')), (''updateService'', OmitEmpty, F ''configv1.URL'')]"

end
