(* ===== verification/Projection.thy ===== *)
theory Projection
  imports ApiSchemas KubeStore
begin

text \<open>
  How the service turns a stored object into the object a customer sees and back: the generated
  functions of \<open>platform-api/pkg/conversion/v1alpha1\<close> and \<open>clients/hyperfleetdb/convert.go\<close>. Each goes through
  JSON, so that the fields one of the two types lacks are dropped. The type and kind strings of an object
  (\<open>TypeMeta\<close>) are copied by every function and left out.
\<close>

section \<open>Conversions of specs and statuses\<close>

text \<open>Marshal a value of one type, unmarshal into a fresh value of another; errors are ignored.\<close>

definition recode :: "schema \<Rightarrow> schema \<Rightarrow> json \<Rightarrow> json" where
  "recode from target v = fst (decode target (zero target) (marshal from v))"

definition overlay :: "schema \<Rightarrow> schema \<Rightarrow> json \<Rightarrow> json \<Rightarrow> json" where
  "overlay target from cur v = fst (decode target cur (marshal from v))"

definition unproject :: "(string \<Rightarrow> schema) \<Rightarrow> schema \<Rightarrow> schema \<Rightarrow> json \<Rightarrow> json option \<Rightarrow> json" where
  "unproject F pub crd spec enrichment =
     (let crdSpec = recode pub crd spec
      in case enrichment of None \<Rightarrow> crdSpec | Some e \<Rightarrow> overlay crd (ServiceSetFields F) crdSpec e)"

type_synonym object = "(json, json) kobj"

definition projectClusterSpec :: "(string \<Rightarrow> schema) \<Rightarrow> json \<Rightarrow> json" where
  "projectClusterSpec F = recode (i_ClusterSpec F) (p_ClusterSpec F)"
definition projectClusterStatus :: "(string \<Rightarrow> schema) \<Rightarrow> json \<Rightarrow> json" where
  "projectClusterStatus F = recode (i_ClusterStatus F) (p_ClusterStatus F)"
definition ProjectCluster :: "(string \<Rightarrow> schema) \<Rightarrow> object \<Rightarrow> object" where
  "ProjectCluster F crd = crd\<lparr>k_Spec := projectClusterSpec F (k_Spec crd), k_Status := projectClusterStatus F (k_Status crd)\<rparr>"
definition UnprojectCluster :: "(string \<Rightarrow> schema) \<Rightarrow> json \<Rightarrow> json option \<Rightarrow> json" where
  "UnprojectCluster F = unproject F (p_ClusterSpec F) (i_ClusterSpec F)"

definition projectNodePoolSpec :: "(string \<Rightarrow> schema) \<Rightarrow> json \<Rightarrow> json" where
  "projectNodePoolSpec F = recode (i_NodePoolSpec F) (p_NodePoolSpec F)"
definition projectNodePoolStatus :: "(string \<Rightarrow> schema) \<Rightarrow> json \<Rightarrow> json" where
  "projectNodePoolStatus F = recode (i_NodePoolStatus F) (p_NodePoolStatus F)"
definition ProjectNodePool :: "(string \<Rightarrow> schema) \<Rightarrow> object \<Rightarrow> object" where
  "ProjectNodePool F crd = crd\<lparr>k_Spec := projectNodePoolSpec F (k_Spec crd), k_Status := projectNodePoolStatus F (k_Status crd)\<rparr>"
definition UnprojectNodePool :: "(string \<Rightarrow> schema) \<Rightarrow> json \<Rightarrow> json option \<Rightarrow> json" where
  "UnprojectNodePool F = unproject F (p_NodePoolSpec F) (i_NodePoolSpec F)"

definition projectOidcConfigSpec :: "(string \<Rightarrow> schema) \<Rightarrow> json \<Rightarrow> json" where
  "projectOidcConfigSpec F = recode (i_OidcConfigSpec F) (p_OidcConfigSpec F)"
definition projectOidcConfigStatus :: "(string \<Rightarrow> schema) \<Rightarrow> json \<Rightarrow> json" where
  "projectOidcConfigStatus F = recode (i_OidcConfigStatus F) (p_OidcConfigStatus F)"
definition ProjectOidcConfig :: "(string \<Rightarrow> schema) \<Rightarrow> object \<Rightarrow> object" where
  "ProjectOidcConfig F crd = crd\<lparr>k_Spec := projectOidcConfigSpec F (k_Spec crd), k_Status := projectOidcConfigStatus F (k_Status crd)\<rparr>"
definition UnprojectOidcConfig :: "(string \<Rightarrow> schema) \<Rightarrow> json \<Rightarrow> json option \<Rightarrow> json" where
  "UnprojectOidcConfig F = unproject F (p_OidcConfigSpec F) (i_OidcConfigSpec F)"

definition projectManifestSpec :: "(string \<Rightarrow> schema) \<Rightarrow> json \<Rightarrow> json" where
  "projectManifestSpec F = recode (i_ManifestSpec F) (p_ManifestSpec F)"
definition projectManifestStatus :: "(string \<Rightarrow> schema) \<Rightarrow> json \<Rightarrow> json" where
  "projectManifestStatus F = recode (i_ManifestStatus F) (p_ManifestStatus F)"
definition ProjectManifest :: "(string \<Rightarrow> schema) \<Rightarrow> object \<Rightarrow> object" where
  "ProjectManifest F crd = crd\<lparr>k_Spec := projectManifestSpec F (k_Spec crd), k_Status := projectManifestStatus F (k_Status crd)\<rparr>"
definition UnprojectManifest :: "(string \<Rightarrow> schema) \<Rightarrow> json \<Rightarrow> json option \<Rightarrow> json" where
  "UnprojectManifest F = unproject F (p_ManifestSpec F) (i_ManifestSpec F)"

definition projectManagementClusterSpec :: "(string \<Rightarrow> schema) \<Rightarrow> json \<Rightarrow> json" where
  "projectManagementClusterSpec F = recode (i_ManagementClusterSpec F) (p_ManagementClusterSpec F)"
definition projectManagementClusterStatus :: "(string \<Rightarrow> schema) \<Rightarrow> json \<Rightarrow> json" where
  "projectManagementClusterStatus F = recode (i_ManagementClusterStatus F) (p_ManagementClusterStatus F)"
definition ProjectManagementCluster :: "(string \<Rightarrow> schema) \<Rightarrow> object \<Rightarrow> object" where
  "ProjectManagementCluster F crd = crd\<lparr>k_Spec := projectManagementClusterSpec F (k_Spec crd), k_Status := projectManagementClusterStatus F (k_Status crd)\<rparr>"
definition UnprojectManagementCluster :: "(string \<Rightarrow> schema) \<Rightarrow> json \<Rightarrow> json option \<Rightarrow> json" where
  "UnprojectManagementCluster F = unproject F (p_ManagementClusterSpec F) (i_ManagementClusterSpec F)"

definition projectPlacementSpec :: "(string \<Rightarrow> schema) \<Rightarrow> json \<Rightarrow> json" where
  "projectPlacementSpec F = recode (i_PlacementSpec F) (p_PlacementSpec F)"
definition projectPlacementStatus :: "(string \<Rightarrow> schema) \<Rightarrow> json \<Rightarrow> json" where
  "projectPlacementStatus F = recode (i_PlacementStatus F) (p_PlacementStatus F)"
definition ProjectPlacement :: "(string \<Rightarrow> schema) \<Rightarrow> object \<Rightarrow> object" where
  "ProjectPlacement F crd = crd\<lparr>k_Spec := projectPlacementSpec F (k_Spec crd), k_Status := projectPlacementStatus F (k_Status crd)\<rparr>"
definition UnprojectPlacement :: "(string \<Rightarrow> schema) \<Rightarrow> json \<Rightarrow> json option \<Rightarrow> json" where
  "UnprojectPlacement F = unproject F (p_PlacementSpec F) (i_PlacementSpec F)"

section \<open>convert.go\<close>

text \<open>\<open>MergeSpecJSON\<close>: the result is \<open>dst\<close> after the call and whether it returned no error. An empty message
  changes nothing.\<close>

definition MergeSpecJSON :: "schema \<Rightarrow> json \<Rightarrow> raw_message \<Rightarrow> json \<times> bool" where
  "MergeSpecJSON t dst specJSON =
     (case specJSON of RawNil \<Rightarrow> (dst, True) | RawBad \<Rightarrow> (dst, False) | RawDoc d \<Rightarrow> decode t dst d)"

definition clusterNSPrefix :: string where "clusterNSPrefix = ''cluster-''"
definition clusterUUIDLen :: nat where "clusterUUIDLen = 36"
definition MaxClusterNameLen :: nat where
  "MaxClusterNameLen = 63 - length clusterNSPrefix - clusterUUIDLen - length ''-''"
definition accountNSPrefix :: string where "accountNSPrefix = ''account-''"
definition svc_accountIDLabel :: string where "svc_accountIDLabel = ''hyperfleet.io/account-id''"

definition clusterNamespace :: "string \<Rightarrow> string" where
  "clusterNamespace clusterID = clusterNSPrefix @ clusterID"

definition clusterIDFromNamespace :: "string \<Rightarrow> string" where
  "clusterIDFromNamespace ns = (if prefix clusterNSPrefix ns then drop (length clusterNSPrefix) ns else ns)"

definition accountNamespace :: "string \<Rightarrow> string" where
  "accountNamespace accountID = accountNSPrefix @ accountID"

definition enrichMetadata :: "string \<Rightarrow> string \<Rightarrow> string \<Rightarrow> object \<Rightarrow> object" where
  "enrichMetadata clusterID resourceID accountID x =
     x\<lparr>km_Namespace := clusterNamespace clusterID, km_UID := resourceID,
       km_Labels := AList.update svc_accountIDLabel accountID (km_Labels x)\<rparr>"

text \<open>A \<open>ServiceSetFields\<close> with some fields set.\<close>

definition service_set :: "(string \<Rightarrow> schema) \<Rightarrow> (string \<times> string) list \<Rightarrow> json" where
  "service_set F kvs = fold (\<lambda>(k, v). set_field k (JStr v)) kvs (zero (ServiceSetFields F))"

definition PublicToInternalCluster :: "(string \<Rightarrow> schema) \<Rightarrow> object \<Rightarrow> string \<Rightarrow> string \<Rightarrow> object" where
  "PublicToInternalCluster F pub accountID clusterID =
     (let enrichment = service_set F [(''accountId'', accountID), (''internalId'', clusterID)]
      in (enrichMetadata clusterID clusterID accountID pub)
           \<lparr>k_Spec := UnprojectCluster F (k_Spec pub) (Some enrichment), k_Status := zero (i_ClusterStatus F)\<rparr>)"

definition InternalToPublicCluster :: "(string \<Rightarrow> schema) \<Rightarrow> object \<Rightarrow> object" where
  "InternalToPublicCluster F cr = (ProjectCluster F cr)\<lparr>km_UID := clusterIDFromNamespace (km_Namespace cr)\<rparr>"

text \<open>\<open>autoRepair\<close> and \<open>labels\<close> are the values of the public spec; an unset \<open>autoRepair\<close> counts as true.\<close>

definition syncNodePoolPassthrough :: "json \<Rightarrow> json \<Rightarrow> json \<Rightarrow> json" where
  "syncNodePoolPassthrough spec autoRepair labels =
     (let np = get_field ''nodePool'' spec;
          repair = (if autoRepair = JNull then JBool True else autoRepair);
          np' = set_field ''management'' (set_field ''autoRepair'' repair (get_field ''management'' np)) np
      in set_field ''nodePool'' (set_field ''nodeLabels'' labels np') spec)"

definition PublicToInternalNodePool :: "(string \<Rightarrow> schema) \<Rightarrow> object \<Rightarrow> string \<Rightarrow> string \<Rightarrow> string \<Rightarrow> object" where
  "PublicToInternalNodePool F pub accountID clusterID internalPoolID =
     (let userAutoRepair = get_field ''autoRepair'' (k_Spec pub);
          userLabels = get_field ''labels'' (k_Spec pub);
          enrichment = service_set F [(''accountId'', accountID), (''internalPoolId'', internalPoolID)];
          crdSpec = set_field ''labels'' userLabels (UnprojectNodePool F (k_Spec pub) (Some enrichment))
      in (enrichMetadata clusterID (km_Name pub) accountID pub)
           \<lparr>k_Spec := syncNodePoolPassthrough crdSpec userAutoRepair userLabels, k_Status := zero (i_NodePoolStatus F)\<rparr>)"

definition InternalToPublicNodePool :: "(string \<Rightarrow> schema) \<Rightarrow> object \<Rightarrow> object" where
  "InternalToPublicNodePool F cr = (ProjectNodePool F cr)\<lparr>km_UID := km_Name cr\<rparr>"

definition PublicToInternalOidcConfig :: "(string \<Rightarrow> schema) \<Rightarrow> object \<Rightarrow> string \<Rightarrow> string \<Rightarrow> object" where
  "PublicToInternalOidcConfig F pub accountID configID =
     pub\<lparr>km_Namespace := accountNamespace accountID, km_Name := configID,
         km_Labels := AList.update svc_accountIDLabel accountID (km_Labels pub),
         k_Spec := UnprojectOidcConfig F (k_Spec pub) (Some (service_set F [(''accountId'', accountID)])),
         k_Status := zero (i_OidcConfigStatus F)\<rparr>"

definition InternalToPublicOidcConfig :: "(string \<Rightarrow> schema) \<Rightarrow> object \<Rightarrow> object" where
  "InternalToPublicOidcConfig F cr = (ProjectOidcConfig F cr)\<lparr>km_UID := km_Name cr\<rparr>"

lemma clusterID_roundtrip [simp]: "clusterIDFromNamespace (clusterNamespace c) = c"
  by (simp add: clusterIDFromNamespace_def clusterNamespace_def)

lemma MaxClusterNameLen_value: "MaxClusterNameLen = 18"
  by (simp add: MaxClusterNameLen_def clusterNSPrefix_def clusterUUIDLen_def)

section \<open>What is relied on of the other modules\<close>

text \<open>The types of other modules have no two fields whose names differ in case only; and where the service
  declares a reduced copy of one of them, fields of the same name have compatible types. (HyperShift's
  \<open>ClusterConfiguration\<close> shares no field with the reduced copy.)\<close>

definition foreign_ok :: "(string \<Rightarrow> schema) \<Rightarrow> bool" where
  "foreign_ok F \<longleftrightarrow> (\<forall>n. wf_schema (F n))
     \<and> compatible (F ''hypershiftv1beta1.PlatformSpec'') (p_PlatformSpec F)
     \<and> compatible (p_PlatformSpec F) (F ''hypershiftv1beta1.PlatformSpec'')
     \<and> compatible (F ''hypershiftv1beta1.NodePoolPlatform'') (p_NodePoolPlatform F)
     \<and> compatible (p_NodePoolPlatform F) (F ''hypershiftv1beta1.NodePoolPlatform'')
     \<and> compatible (F ''hypershiftv1beta1.ClusterConfiguration'') (p_ClusterConfiguration F)
     \<and> compatible (p_ClusterConfiguration F) (F ''hypershiftv1beta1.ClusterConfiguration'')"

lemma foreign_wf [simp]: "foreign_ok F \<Longrightarrow> wf_schema (F n)"
  by (simp add: foreign_ok_def)

lemma foreign_compat [simp]: "foreign_ok F \<Longrightarrow> compatible (F n) (F n)"
  by (simp add: compatible_refl)

section \<open>The types are well formed\<close>

named_theorems wf_types

lemma wf_i_HostedClusterSpecPassthrough [wf_types]: assumes [simp]: "foreign_ok F" shows "wf_schema (i_HostedClusterSpecPassthrough F)"
  unfolding i_HostedClusterSpecPassthrough_def by (rule wf_structI, simp only: list.map fst_conv, code_simp, simp add: wf_types)

lemma wf_i_ControlPlaneUpgradePolicySpec [wf_types]: assumes [simp]: "foreign_ok F" shows "wf_schema (i_ControlPlaneUpgradePolicySpec F)"
  unfolding i_ControlPlaneUpgradePolicySpec_def by (rule wf_structI, simp only: list.map fst_conv, code_simp, simp add: wf_types)

lemma wf_i_ClusterSpec [wf_types]: assumes [simp]: "foreign_ok F" shows "wf_schema (i_ClusterSpec F)"
  unfolding i_ClusterSpec_def by (rule wf_structI, simp only: list.map fst_conv, code_simp, simp add: wf_types)

lemma wf_i_PlacementReference [wf_types]: assumes [simp]: "foreign_ok F" shows "wf_schema (i_PlacementReference F)"
  unfolding i_PlacementReference_def by (rule wf_structI, simp only: list.map fst_conv, code_simp, simp add: wf_types)

lemma wf_i_ControlPlaneUpgradePolicyStatus [wf_types]: assumes [simp]: "foreign_ok F" shows "wf_schema (i_ControlPlaneUpgradePolicyStatus F)"
  unfolding i_ControlPlaneUpgradePolicyStatus_def by (rule wf_structI, simp only: list.map fst_conv, code_simp, simp add: wf_types)

lemma wf_i_ClusterStatus [wf_types]: assumes [simp]: "foreign_ok F" shows "wf_schema (i_ClusterStatus F)"
  unfolding i_ClusterStatus_def by (rule wf_structI, simp only: list.map fst_conv, code_simp, simp add: wf_types)

lemma wf_i_NodePoolSpecPassthrough [wf_types]: assumes [simp]: "foreign_ok F" shows "wf_schema (i_NodePoolSpecPassthrough F)"
  unfolding i_NodePoolSpecPassthrough_def by (rule wf_structI, simp only: list.map fst_conv, code_simp, simp add: wf_types)

lemma wf_i_NodePoolSpec [wf_types]: assumes [simp]: "foreign_ok F" shows "wf_schema (i_NodePoolSpec F)"
  unfolding i_NodePoolSpec_def by (rule wf_structI, simp only: list.map fst_conv, code_simp, simp add: wf_types)

lemma wf_i_NodePoolStatus [wf_types]: assumes [simp]: "foreign_ok F" shows "wf_schema (i_NodePoolStatus F)"
  unfolding i_NodePoolStatus_def by (rule wf_structI, simp only: list.map fst_conv, code_simp, simp add: wf_types)

lemma wf_i_OidcConfigSpec [wf_types]: assumes [simp]: "foreign_ok F" shows "wf_schema (i_OidcConfigSpec F)"
  unfolding i_OidcConfigSpec_def by (rule wf_structI, simp only: list.map fst_conv, code_simp, simp add: wf_types)

lemma wf_i_OidcConfigStatus [wf_types]: assumes [simp]: "foreign_ok F" shows "wf_schema (i_OidcConfigStatus F)"
  unfolding i_OidcConfigStatus_def by (rule wf_structI, simp only: list.map fst_conv, code_simp, simp add: wf_types)

lemma wf_p_PlatformSpec [wf_types]: assumes [simp]: "foreign_ok F" shows "wf_schema (p_PlatformSpec F)"
  unfolding p_PlatformSpec_def by (rule wf_structI, simp only: list.map fst_conv, code_simp, simp add: wf_types)

lemma wf_p_KubeletConfig [wf_types]: assumes [simp]: "foreign_ok F" shows "wf_schema (p_KubeletConfig F)"
  unfolding p_KubeletConfig_def by (rule wf_structI, simp only: list.map fst_conv, code_simp, simp add: wf_types)

lemma wf_p_MachineConfigSpec [wf_types]: assumes [simp]: "foreign_ok F" shows "wf_schema (p_MachineConfigSpec F)"
  unfolding p_MachineConfigSpec_def by (rule wf_structI, simp only: list.map fst_conv, code_simp, simp add: wf_types)

lemma wf_p_ClusterConfiguration [wf_types]: assumes [simp]: "foreign_ok F" shows "wf_schema (p_ClusterConfiguration F)"
  unfolding p_ClusterConfiguration_def by (rule wf_structI, simp only: list.map fst_conv, code_simp, simp add: wf_types)

lemma wf_p_HostedClusterSpecPassthrough [wf_types]: assumes [simp]: "foreign_ok F" shows "wf_schema (p_HostedClusterSpecPassthrough F)"
  unfolding p_HostedClusterSpecPassthrough_def by (rule wf_structI, simp only: list.map fst_conv, code_simp, simp add: wf_types)

lemma wf_p_ControlPlaneUpgradePolicySpec [wf_types]: assumes [simp]: "foreign_ok F" shows "wf_schema (p_ControlPlaneUpgradePolicySpec F)"
  unfolding p_ControlPlaneUpgradePolicySpec_def by (rule wf_structI, simp only: list.map fst_conv, code_simp, simp add: wf_types)

lemma wf_p_ClusterSpec [wf_types]: assumes [simp]: "foreign_ok F" shows "wf_schema (p_ClusterSpec F)"
  unfolding p_ClusterSpec_def by (rule wf_structI, simp only: list.map fst_conv, code_simp, simp add: wf_types)

lemma wf_p_PlacementReference [wf_types]: assumes [simp]: "foreign_ok F" shows "wf_schema (p_PlacementReference F)"
  unfolding p_PlacementReference_def by (rule wf_structI, simp only: list.map fst_conv, code_simp, simp add: wf_types)

lemma wf_p_ControlPlaneUpgradePolicyStatus [wf_types]: assumes [simp]: "foreign_ok F" shows "wf_schema (p_ControlPlaneUpgradePolicyStatus F)"
  unfolding p_ControlPlaneUpgradePolicyStatus_def by (rule wf_structI, simp only: list.map fst_conv, code_simp, simp add: wf_types)

lemma wf_p_ClusterStatus [wf_types]: assumes [simp]: "foreign_ok F" shows "wf_schema (p_ClusterStatus F)"
  unfolding p_ClusterStatus_def by (rule wf_structI, simp only: list.map fst_conv, code_simp, simp add: wf_types)

lemma wf_p_NodePoolPlatform [wf_types]: assumes [simp]: "foreign_ok F" shows "wf_schema (p_NodePoolPlatform F)"
  unfolding p_NodePoolPlatform_def by (rule wf_structI, simp only: list.map fst_conv, code_simp, simp add: wf_types)

lemma wf_p_NodePoolSpecPassthrough [wf_types]: assumes [simp]: "foreign_ok F" shows "wf_schema (p_NodePoolSpecPassthrough F)"
  unfolding p_NodePoolSpecPassthrough_def by (rule wf_structI, simp only: list.map fst_conv, code_simp, simp add: wf_types)

lemma wf_p_NodePoolSpec [wf_types]: assumes [simp]: "foreign_ok F" shows "wf_schema (p_NodePoolSpec F)"
  unfolding p_NodePoolSpec_def by (rule wf_structI, simp only: list.map fst_conv, code_simp, simp add: wf_types)

lemma wf_p_NodePoolStatus [wf_types]: assumes [simp]: "foreign_ok F" shows "wf_schema (p_NodePoolStatus F)"
  unfolding p_NodePoolStatus_def by (rule wf_structI, simp only: list.map fst_conv, code_simp, simp add: wf_types)

lemma wf_p_OidcConfigSpec [wf_types]: assumes [simp]: "foreign_ok F" shows "wf_schema (p_OidcConfigSpec F)"
  unfolding p_OidcConfigSpec_def by (rule wf_structI, simp only: list.map fst_conv, code_simp, simp add: wf_types)

lemma wf_p_OidcConfigStatus [wf_types]: assumes [simp]: "foreign_ok F" shows "wf_schema (p_OidcConfigStatus F)"
  unfolding p_OidcConfigStatus_def by (rule wf_structI, simp only: list.map fst_conv, code_simp, simp add: wf_types)

lemma wf_i_APIServerNetworkConfiguration [wf_types]: assumes [simp]: "foreign_ok F" shows "wf_schema (i_APIServerNetworkConfiguration F)"
  unfolding i_APIServerNetworkConfiguration_def by (rule wf_structI, simp only: list.map fst_conv, code_simp, simp add: wf_types)

lemma wf_i_ClusterAuthentication [wf_types]: assumes [simp]: "foreign_ok F" shows "wf_schema (i_ClusterAuthentication F)"
  unfolding i_ClusterAuthentication_def by (rule wf_structI, simp only: list.map fst_conv, code_simp, simp add: wf_types)

lemma wf_i_FeatureGateConfiguration [wf_types]: assumes [simp]: "foreign_ok F" shows "wf_schema (i_FeatureGateConfiguration F)"
  unfolding i_FeatureGateConfiguration_def by (rule wf_structI, simp only: list.map fst_conv, code_simp, simp add: wf_types)

lemma wf_i_FileSpec [wf_types]: assumes [simp]: "foreign_ok F" shows "wf_schema (i_FileSpec F)"
  unfolding i_FileSpec_def by (rule wf_structI, simp only: list.map fst_conv, code_simp, simp add: wf_types)

lemma wf_i_ImageConfiguration [wf_types]: assumes [simp]: "foreign_ok F" shows "wf_schema (i_ImageConfiguration F)"
  unfolding i_ImageConfiguration_def by (rule wf_structI, simp only: list.map fst_conv, code_simp, simp add: wf_types)

lemma wf_i_IngressConfiguration [wf_types]: assumes [simp]: "foreign_ok F" shows "wf_schema (i_IngressConfiguration F)"
  unfolding i_IngressConfiguration_def by (rule wf_structI, simp only: list.map fst_conv, code_simp, simp add: wf_types)

lemma wf_i_NetworkConfiguration [wf_types]: assumes [simp]: "foreign_ok F" shows "wf_schema (i_NetworkConfiguration F)"
  unfolding i_NetworkConfiguration_def by (rule wf_structI, simp only: list.map fst_conv, code_simp, simp add: wf_types)

lemma wf_i_OAuthConfiguration [wf_types]: assumes [simp]: "foreign_ok F" shows "wf_schema (i_OAuthConfiguration F)"
  unfolding i_OAuthConfiguration_def by (rule wf_structI, simp only: list.map fst_conv, code_simp, simp add: wf_types)

lemma wf_i_ProxyConfiguration [wf_types]: assumes [simp]: "foreign_ok F" shows "wf_schema (i_ProxyConfiguration F)"
  unfolding i_ProxyConfiguration_def by (rule wf_structI, simp only: list.map fst_conv, code_simp, simp add: wf_types)

lemma wf_i_SchedulerConfiguration [wf_types]: assumes [simp]: "foreign_ok F" shows "wf_schema (i_SchedulerConfiguration F)"
  unfolding i_SchedulerConfiguration_def by (rule wf_structI, simp only: list.map fst_conv, code_simp, simp add: wf_types)

lemma wf_i_SystemdDropin [wf_types]: assumes [simp]: "foreign_ok F" shows "wf_schema (i_SystemdDropin F)"
  unfolding i_SystemdDropin_def by (rule wf_structI, simp only: list.map fst_conv, code_simp, simp add: wf_types)

lemma wf_i_SystemdUnit [wf_types]: assumes [simp]: "foreign_ok F" shows "wf_schema (i_SystemdUnit F)"
  unfolding i_SystemdUnit_def by (rule wf_structI, simp only: list.map fst_conv, code_simp, simp add: wf_types)

lemma names_ServiceSetFields: assumes [simp]: "foreign_ok F" shows "names_ok (ServiceSetFields F)"
  unfolding ServiceSetFields_def by (rule names_structI, simp only: list.map fst_conv, code_simp, simp add: wf_types wf_names_ok)

section \<open>Public and stored types are compatible\<close>

named_theorems compat_types

lemma compat_reduced [compat_types]:
  assumes "foreign_ok F"
  shows "compatible (F ''hypershiftv1beta1.PlatformSpec'') (p_PlatformSpec F)" "compatible (p_PlatformSpec F) (F ''hypershiftv1beta1.PlatformSpec'')"
    "compatible (F ''hypershiftv1beta1.NodePoolPlatform'') (p_NodePoolPlatform F)" "compatible (p_NodePoolPlatform F) (F ''hypershiftv1beta1.NodePoolPlatform'')"
    "compatible (F ''hypershiftv1beta1.ClusterConfiguration'') (p_ClusterConfiguration F)" "compatible (p_ClusterConfiguration F) (F ''hypershiftv1beta1.ClusterConfiguration'')"
  using assms by (simp_all add: foreign_ok_def)

lemma compat_i_ControlPlaneUpgradePolicySpec_p_ControlPlaneUpgradePolicySpec [compat_types]: assumes [simp]: "foreign_ok F" shows "compatible (i_ControlPlaneUpgradePolicySpec F) (p_ControlPlaneUpgradePolicySpec F)"
  unfolding i_ControlPlaneUpgradePolicySpec_def p_ControlPlaneUpgradePolicySpec_def
  by (rule compatible_structI, simp only: list.map fst_conv, simp only: list.map fst_conv, code_simp, simp add: compat_types)

lemma compat_p_ControlPlaneUpgradePolicySpec_i_ControlPlaneUpgradePolicySpec [compat_types]: assumes [simp]: "foreign_ok F" shows "compatible (p_ControlPlaneUpgradePolicySpec F) (i_ControlPlaneUpgradePolicySpec F)"
  unfolding p_ControlPlaneUpgradePolicySpec_def i_ControlPlaneUpgradePolicySpec_def
  by (rule compatible_structI, simp only: list.map fst_conv, simp only: list.map fst_conv, code_simp, simp add: compat_types)

lemma compat_i_HostedClusterSpecPassthrough_p_HostedClusterSpecPassthrough [compat_types]: assumes [simp]: "foreign_ok F" shows "compatible (i_HostedClusterSpecPassthrough F) (p_HostedClusterSpecPassthrough F)"
  unfolding i_HostedClusterSpecPassthrough_def p_HostedClusterSpecPassthrough_def
  by (rule compatible_structI, simp only: list.map fst_conv, simp only: list.map fst_conv, code_simp, simp add: compat_types)

lemma compat_p_HostedClusterSpecPassthrough_i_HostedClusterSpecPassthrough [compat_types]: assumes [simp]: "foreign_ok F" shows "compatible (p_HostedClusterSpecPassthrough F) (i_HostedClusterSpecPassthrough F)"
  unfolding p_HostedClusterSpecPassthrough_def i_HostedClusterSpecPassthrough_def
  by (rule compatible_structI, simp only: list.map fst_conv, simp only: list.map fst_conv, code_simp, simp add: compat_types)

lemma compat_i_ClusterSpec_p_ClusterSpec [compat_types]: assumes [simp]: "foreign_ok F" shows "compatible (i_ClusterSpec F) (p_ClusterSpec F)"
  unfolding i_ClusterSpec_def p_ClusterSpec_def
  by (rule compatible_structI, simp only: list.map fst_conv, simp only: list.map fst_conv, code_simp, simp add: compat_types)

lemma compat_p_ClusterSpec_i_ClusterSpec [compat_types]: assumes [simp]: "foreign_ok F" shows "compatible (p_ClusterSpec F) (i_ClusterSpec F)"
  unfolding p_ClusterSpec_def i_ClusterSpec_def
  by (rule compatible_structI, simp only: list.map fst_conv, simp only: list.map fst_conv, code_simp, simp add: compat_types)

lemma compat_i_NodePoolSpecPassthrough_p_NodePoolSpecPassthrough [compat_types]: assumes [simp]: "foreign_ok F" shows "compatible (i_NodePoolSpecPassthrough F) (p_NodePoolSpecPassthrough F)"
  unfolding i_NodePoolSpecPassthrough_def p_NodePoolSpecPassthrough_def
  by (rule compatible_structI, simp only: list.map fst_conv, simp only: list.map fst_conv, code_simp, simp add: compat_types)

lemma compat_p_NodePoolSpecPassthrough_i_NodePoolSpecPassthrough [compat_types]: assumes [simp]: "foreign_ok F" shows "compatible (p_NodePoolSpecPassthrough F) (i_NodePoolSpecPassthrough F)"
  unfolding p_NodePoolSpecPassthrough_def i_NodePoolSpecPassthrough_def
  by (rule compatible_structI, simp only: list.map fst_conv, simp only: list.map fst_conv, code_simp, simp add: compat_types)

lemma compat_i_NodePoolSpec_p_NodePoolSpec [compat_types]: assumes [simp]: "foreign_ok F" shows "compatible (i_NodePoolSpec F) (p_NodePoolSpec F)"
  unfolding i_NodePoolSpec_def p_NodePoolSpec_def
  by (rule compatible_structI, simp only: list.map fst_conv, simp only: list.map fst_conv, code_simp, simp add: compat_types)

lemma compat_p_NodePoolSpec_i_NodePoolSpec [compat_types]: assumes [simp]: "foreign_ok F" shows "compatible (p_NodePoolSpec F) (i_NodePoolSpec F)"
  unfolding p_NodePoolSpec_def i_NodePoolSpec_def
  by (rule compatible_structI, simp only: list.map fst_conv, simp only: list.map fst_conv, code_simp, simp add: compat_types)

lemma compat_i_OidcConfigSpec_p_OidcConfigSpec [compat_types]: assumes [simp]: "foreign_ok F" shows "compatible (i_OidcConfigSpec F) (p_OidcConfigSpec F)"
  unfolding i_OidcConfigSpec_def p_OidcConfigSpec_def
  by (rule compatible_structI, simp only: list.map fst_conv, simp only: list.map fst_conv, code_simp, simp add: compat_types)

lemma compat_p_OidcConfigSpec_i_OidcConfigSpec [compat_types]: assumes [simp]: "foreign_ok F" shows "compatible (p_OidcConfigSpec F) (i_OidcConfigSpec F)"
  unfolding p_OidcConfigSpec_def i_OidcConfigSpec_def
  by (rule compatible_structI, simp only: list.map fst_conv, simp only: list.map fst_conv, code_simp, simp add: compat_types)

lemma compat_p_PlacementReference_i_PlacementReference [compat_types]: assumes [simp]: "foreign_ok F" shows "compatible (p_PlacementReference F) (i_PlacementReference F)"
  unfolding p_PlacementReference_def i_PlacementReference_def
  by (rule compatible_structI, simp only: list.map fst_conv, simp only: list.map fst_conv, code_simp, simp add: compat_types)

lemma compat_p_ControlPlaneUpgradePolicyStatus_i_ControlPlaneUpgradePolicyStatus [compat_types]: assumes [simp]: "foreign_ok F" shows "compatible (p_ControlPlaneUpgradePolicyStatus F) (i_ControlPlaneUpgradePolicyStatus F)"
  unfolding p_ControlPlaneUpgradePolicyStatus_def i_ControlPlaneUpgradePolicyStatus_def
  by (rule compatible_structI, simp only: list.map fst_conv, simp only: list.map fst_conv, code_simp, simp add: compat_types)

lemma compat_p_ClusterStatus_i_ClusterStatus [compat_types]: assumes [simp]: "foreign_ok F" shows "compatible (p_ClusterStatus F) (i_ClusterStatus F)"
  unfolding p_ClusterStatus_def i_ClusterStatus_def
  by (rule compatible_structI, simp only: list.map fst_conv, simp only: list.map fst_conv, code_simp, simp add: compat_types)

lemma compat_p_NodePoolStatus_i_NodePoolStatus [compat_types]: assumes [simp]: "foreign_ok F" shows "compatible (p_NodePoolStatus F) (i_NodePoolStatus F)"
  unfolding p_NodePoolStatus_def i_NodePoolStatus_def
  by (rule compatible_structI, simp only: list.map fst_conv, simp only: list.map fst_conv, code_simp, simp add: compat_types)

lemma compat_p_OidcConfigStatus_i_OidcConfigStatus [compat_types]: assumes [simp]: "foreign_ok F" shows "compatible (p_OidcConfigStatus F) (i_OidcConfigStatus F)"
  unfolding p_OidcConfigStatus_def i_OidcConfigStatus_def
  by (rule compatible_structI, simp only: list.map fst_conv, simp only: list.map fst_conv, code_simp, simp add: compat_types)

lemma compat_i_ClusterSpec_ServiceSetFields [compat_types]: assumes [simp]: "foreign_ok F" shows "compatible (i_ClusterSpec F) (ServiceSetFields F)"
  unfolding i_ClusterSpec_def ServiceSetFields_def
  by (rule compatible_structI, simp only: list.map fst_conv, simp only: list.map fst_conv, code_simp, simp add: compat_types)

lemma compat_i_NodePoolSpec_ServiceSetFields [compat_types]: assumes [simp]: "foreign_ok F" shows "compatible (i_NodePoolSpec F) (ServiceSetFields F)"
  unfolding i_NodePoolSpec_def ServiceSetFields_def
  by (rule compatible_structI, simp only: list.map fst_conv, simp only: list.map fst_conv, code_simp, simp add: compat_types)

end
