(* ===== verification/ProjectionProps.thy ===== *)
theory ProjectionProps
  imports Projection
begin

text \<open>
  What the conversions between public and stored objects keep: values stay well typed, what a customer
  sent comes back unchanged (as far as the stored type has a place for it), and the fields the service
  sets are the service's.
\<close>

section \<open>Conversions as functions on values\<close>

lemma recode_typed: "wf_schema target \<Longrightarrow> has_type target (recode from target v)"
  by (simp add: recode_def decode_typed zero_typed)

lemma overlay_typed: "wf_schema target \<Longrightarrow> has_type target cur \<Longrightarrow> has_type target (overlay target from cur v)"
  by (simp add: overlay_def decode_typed)

lemma recode_conv:
  "wf_schema target \<Longrightarrow> wf_schema from \<Longrightarrow> compatible target from \<Longrightarrow> has_type from v \<Longrightarrow>
   recode from target v = conv target from (zero target) v"
  by (simp add: recode_def decode_marshal wf_names_ok zero_typed)

lemma recode_zero: "wf_schema target \<Longrightarrow> wf_schema from \<Longrightarrow> compatible target from \<Longrightarrow> recode from target (zero from) = zero target"
  by (simp add: recode_conv zero_typed conv_zero_zero wf_names_ok)

text \<open>The fields of \<open>bs\<close> that a value leaves out need not be compatible.\<close>

definition overlays :: "(string \<times> omit \<times> schema) list \<Rightarrow> (string \<times> omit \<times> schema) list \<Rightarrow> json \<Rightarrow> bool" where
  "overlays as bs v \<longleftrightarrow> (\<forall>f \<in> set as. \<forall>g \<in> set bs. equal_fold (fst f) (fst g) \<longrightarrow>
     fst f = fst g \<and> compatible (snd (snd f)) (snd (snd g))
     \<or> (\<exists>y. map_of (map_items v) (fst g) = Some y \<and> omitted (fst (snd g)) (snd (snd g)) y))"

lemma compatible_overlays: "compatible (TStruct as) (TStruct bs) \<Longrightarrow> overlays as bs v"
  by (simp add: overlays_def list_all_iff)

lemma overlay_conv:
  assumes wf: "wf_schema (TStruct as)" "names_ok (TStruct bs)" and c: "overlays as bs v"
    and ty: "has_type (TStruct as) cur" "has_type (TStruct bs) v"
  shows "overlay (TStruct as) (TStruct bs) cur v = conv (TStruct as) (TStruct bs) cur v"
proof -
  obtain us vs where uv: "cur = JObj us" "fields_typed as us" "v = JObj vs" "fields_typed bs vs" using ty by auto
  have "decode (TStruct as) (JObj us) (marshal (TStruct bs) (JObj vs)) = (conv (TStruct as) (TStruct bs) (JObj us) (JObj vs), True)"
    using c decode_marshal by (intro decode_marshal_struct [OF wf _ uv(2,4)]) (auto simp: overlays_def uv(3) map_items_def)
  then show ?thesis by (simp only: overlay_def uv(1,3) fst_conv)
qed

text \<open>A spec that is turned into a stored one, given the fields of the service, and turned back.\<close>

lemma unproject_roundtrip:
  assumes eq: "pub = TStruct ps" "crd = TStruct cs" "ssf = TStruct ss"
    and wf: "wf_schema pub" "wf_schema crd" "names_ok ssf" and comp: "compatible crd pub" "compatible pub crd"
    and spec: "has_type pub spec" "fits pub crd spec" and e: "has_type ssf e" "overlays cs ss e"
    and keep: "\<forall>n \<in> fst ` set ps. case (map_of ss n, map_of (map_items e) n) of (Some (tag, t), Some y) \<Rightarrow> omitted tag t y | _ \<Rightarrow> True"
  shows "recode crd pub (overlay crd ssf (recode pub crd spec) e) = spec"
proof -
  let ?y = "conv crd pub (zero crd) spec"
  have y: "recode pub crd spec = ?y" using wf comp(1) spec(1) by (intro recode_conv)
  have ty: "has_type crd ?y" using recode_typed [OF wf(2), of pub spec] by (simp add: y)
  have o: "overlay crd ssf ?y e = conv crd ssf ?y e" using overlay_conv wf(2,3) e ty by (simp add: eq)
  have "has_type crd (conv crd ssf ?y e)" using overlay_typed [OF wf(2) ty, of ssf e] by (simp only: o)
  then have "recode crd pub (overlay crd ssf (recode pub crd spec) e) = conv pub crd (zero pub) (conv crd ssf ?y e)"
    using wf comp(2) by (simp only: y o recode_conv)
  also have "\<dots> = conv pub crd (zero pub) ?y"
    unfolding eq(1,2)
  proof (rule conv_agree)
    fix n
    assume "n \<in> fst ` set ps"
    from bspec [OF keep this] show "map_of (map_items (conv (TStruct cs) ssf (conv (TStruct cs) (TStruct ps) (zero (TStruct cs)) spec) e)) n =
        map_of (map_items (conv (TStruct cs) (TStruct ps) (zero (TStruct cs)) spec)) n"
      unfolding eq(3) conv_field [of cs ss]
      by (cases "map_of (map_items (conv (TStruct cs) (TStruct ps) (zero (TStruct cs)) spec)) n") (auto split: option.splits)
  qed
  also have "\<dots> = spec" using fits_back [OF spec(2) wf(1,2) spec(1)] by (simp add: there_and_back_def)
  finally show ?thesis .
qed

text \<open>A field that only the service has ends up with the service's value.\<close>

lemma unproject_service:
  assumes eq: "crd = TStruct cs" "ssf = TStruct ss"
    and wf: "wf_schema pub" "wf_schema crd" "names_ok ssf" and e: "has_type ssf e" "overlays cs ss e"
    and n: "map_of cs n = Some (tag', TString)" "map_of ss n = Some (tag, TString)" "map_of (map_items e) n = Some (JStr s)"
    and zero: "s = [] \<Longrightarrow> get_field n (recode pub crd spec) = JStr []"
  shows "get_field n (overlay crd ssf (recode pub crd spec) e) = JStr s"
proof -
  have ty: "has_type crd (recode pub crd spec)" using wf(2) by (rule recode_typed)
  have o: "overlay crd ssf (recode pub crd spec) e = conv crd ssf (recode pub crd spec) e"
    using overlay_conv wf(2,3) e ty by (simp add: eq)
  have "n \<in> fst ` set (map_items (recode pub crd spec))" using typed_names ty n(1) by (force simp: eq dest: map_of_SomeD)
  then obtain x where x: "map_of (map_items (recode pub crd spec)) n = Some x"
    by (cases "map_of (map_items (recode pub crd spec)) n") (auto simp: map_of_eq_None_iff)
  show ?thesis
    using zero x unfolding o unfolding eq get_field_def conv_field n
    by (cases tag) (auto simp: omitted_def)
qed

section \<open>The fields the service sets\<close>

lemma service_set_typed:
  "has_type (ServiceSetFields F) (service_set F [(''accountId'', a)])"
  "has_type (ServiceSetFields F) (service_set F [(''accountId'', a), (''internalId'', b)])"
  "has_type (ServiceSetFields F) (service_set F [(''accountId'', a), (''internalPoolId'', b)])"
proof -
  have z: "has_type (ServiceSetFields F) (zero (ServiceSetFields F))" by (rule zero_typed)
  have set: "has_type (ServiceSetFields F) (set_field n (JStr x) v)" if "has_type (ServiceSetFields F) v" "n \<in> {''accountId'', ''internalId'', ''internalPoolId''}" for n x v
    using that set_field_typed [of _ v n "JStr x"] unfolding ServiceSetFields_def by (elim insertE emptyE) fastforce+
  show "has_type (ServiceSetFields F) (service_set F [(''accountId'', a)])"
    "has_type (ServiceSetFields F) (service_set F [(''accountId'', a), (''internalId'', b)])"
    "has_type (ServiceSetFields F) (service_set F [(''accountId'', a), (''internalPoolId'', b)])"
    by (simp_all add: service_set_def set z)
qed

text \<open>Every other field of it is zero.\<close>

lemma service_set_lookup:
  assumes "map_of (map_items (zero (ServiceSetFields F))) n = Some z"
  shows "map_of (map_items (service_set F [(''accountId'', a)])) n = Some (if n = ''accountId'' then JStr a else z)"
    "map_of (map_items (service_set F [(''accountId'', a), (''internalId'', b)])) n =
       Some (if n = ''accountId'' then JStr a else if n = ''internalId'' then JStr b else z)"
    "map_of (map_items (service_set F [(''accountId'', a), (''internalPoolId'', b)])) n =
       Some (if n = ''accountId'' then JStr a else if n = ''internalPoolId'' then JStr b else z)"
proof -
  have dom: "fst ` set (map_items (set_field k x v)) = fst ` set (map_items v)" for k x v
    by (cases v) (auto simp: set_field_def map_items_def simp flip: set_map)
  have "{''accountId'', ''internalId'', ''internalPoolId''} \<subseteq> fst ` set (map_items (zero (ServiceSetFields F)))"
    by (simp add: ServiceSetFields_def map_items_def)
  then show "map_of (map_items (service_set F [(''accountId'', a)])) n = Some (if n = ''accountId'' then JStr a else z)"
    "map_of (map_items (service_set F [(''accountId'', a), (''internalId'', b)])) n =
       Some (if n = ''accountId'' then JStr a else if n = ''internalId'' then JStr b else z)"
    "map_of (map_items (service_set F [(''accountId'', a), (''internalPoolId'', b)])) n =
       Some (if n = ''accountId'' then JStr a else if n = ''internalPoolId'' then JStr b else z)"
    using assms by (auto simp: service_set_def set_field_lookup dom)
qed

section \<open>Fields of the types\<close>

text \<open>The lists of fields stay folded; these are the entries the proofs below look up.\<close>

named_theorems structs
named_theorems entries

lemma structs_eq [structs]:
  "ServiceSetFields F = TStruct (fields_of (ServiceSetFields F))"
  "p_ClusterSpec F = TStruct (fields_of (p_ClusterSpec F))" "i_ClusterSpec F = TStruct (fields_of (i_ClusterSpec F))"
  "p_NodePoolSpec F = TStruct (fields_of (p_NodePoolSpec F))" "i_NodePoolSpec F = TStruct (fields_of (i_NodePoolSpec F))"
  "p_OidcConfigSpec F = TStruct (fields_of (p_OidcConfigSpec F))" "i_OidcConfigSpec F = TStruct (fields_of (i_OidcConfigSpec F))"
  by (simp_all add: ServiceSetFields_def p_ClusterSpec_def i_ClusterSpec_def p_NodePoolSpec_def i_NodePoolSpec_def
        p_OidcConfigSpec_def i_OidcConfigSpec_def)

lemma public_names [entries]:
  "fst ` set (fields_of (p_ClusterSpec F)) = {''displayName'', ''deleteProtection'', ''expirationTimestamp'', ''properties'', ''tags'',
     ''oidcConfigId'', ''hostedCluster'', ''controlPlaneUpgradePolicy''}"
  "fst ` set (fields_of (p_NodePoolSpec F)) = {''displayName'', ''autoRepair'', ''labels'', ''nodePool''}"
  "fst ` set (fields_of (p_OidcConfigSpec F)) = {''type'', ''issuerUrl'', ''secretArn'', ''installerRoleArn''}"
  by (simp_all add: p_ClusterSpec_def p_NodePoolSpec_def p_OidcConfigSpec_def)

lemma service_entries [entries]:
  "map_of (fields_of (ServiceSetFields F)) ''accountId'' = Some (OmitEmpty, TString)"
  "map_of (fields_of (ServiceSetFields F)) ''internalId'' = Some (OmitEmpty, TString)"
  "map_of (fields_of (ServiceSetFields F)) ''internalPoolId'' = Some (OmitEmpty, TString)"
  "map_of (fields_of (ServiceSetFields F)) ''labels'' = Some (OmitEmpty, TMap TString)"
  by (simp_all add: ServiceSetFields_def)

lemma service_absent [entries]:
  "n \<in> {''displayName'', ''deleteProtection'', ''expirationTimestamp'', ''properties'', ''tags'', ''oidcConfigId'', ''hostedCluster'',
     ''controlPlaneUpgradePolicy'', ''autoRepair'', ''nodePool'', ''type'', ''issuerUrl'', ''secretArn'', ''installerRoleArn''} \<Longrightarrow>
   map_of (fields_of (ServiceSetFields F)) n = None"
  by (elim insertE emptyE) (simp_all add: ServiceSetFields_def)

lemma stored_entries [entries]:
  "map_of (fields_of (i_ClusterSpec F)) ''accountId'' = Some (OmitEmpty, TString)"
  "map_of (fields_of (i_ClusterSpec F)) ''internalId'' = Some (OmitEmpty, TString)"
  by (simp_all add: i_ClusterSpec_def)

lemma service_zero [entries]:
  "n \<in> {''accountId'', ''internalId'', ''internalPoolId''} \<Longrightarrow> map_of (map_items (zero (ServiceSetFields F))) n = Some (JStr [])"
  "map_of (map_items (zero (ServiceSetFields F))) ''labels'' = Some JNull"
  using zero_lookup [of "fields_of (ServiceSetFields F)"] unfolding structs_eq(1) [symmetric] by (auto simp: service_entries)

section \<open>An instance\<close>

text \<open>Some of the types of other modules, with a few of their fields.\<close>

definition ex_F :: "string \<Rightarrow> schema" where
  "ex_F n =
     (if n = ''hypershiftv1beta1.PlatformType'' then TString
      else if n = ''hypershiftv1beta1.PlatformSpec'' \<or> n = ''hypershiftv1beta1.NodePoolPlatform''
        then TStruct [(''type'', Keep, TString), (''aws'', OmitEmpty, TPtr (TStruct []))]
      else if n = ''hypershiftv1beta1.ClusterConfiguration'' then TStruct [(''apiServer'', OmitEmpty, TPtr (TStruct []))]
      else if n = ''hypershiftv1beta1.Release'' then TStruct [(''image'', Keep, TString)]
      else if n = ''hypershiftv1beta1.NodePoolManagement'' then TStruct [(''upgradeType'', Keep, TString), (''autoRepair'', Keep, TBool)]
      else TStruct [])"

lemma ex_F_ok: "foreign_ok ex_F"
proof -
  have "wf_schema (ex_F n)" for n by (auto simp: ex_F_def to_lower_def)
  moreover have "compatible (ex_F ''hypershiftv1beta1.PlatformSpec'') (p_PlatformSpec ex_F)"
    "compatible (p_PlatformSpec ex_F) (ex_F ''hypershiftv1beta1.PlatformSpec'')"
    "compatible (ex_F ''hypershiftv1beta1.NodePoolPlatform'') (p_NodePoolPlatform ex_F)"
    "compatible (p_NodePoolPlatform ex_F) (ex_F ''hypershiftv1beta1.NodePoolPlatform'')"
    by (simp_all add: p_PlatformSpec_def p_NodePoolPlatform_def ex_F_def equal_fold_def)
  moreover have "compatible (ex_F ''hypershiftv1beta1.ClusterConfiguration'') (p_ClusterConfiguration ex_F)"
    "compatible (p_ClusterConfiguration ex_F) (ex_F ''hypershiftv1beta1.ClusterConfiguration'')"
    by (simp_all add: p_ClusterConfiguration_def ex_F_def equal_fold_def)
  ultimately show ?thesis by (simp add: foreign_ok_def)
qed

definition ex_cluster_spec :: json where
  "ex_cluster_spec = set_field ''displayName'' (JStr ''prod'') (zero (p_ClusterSpec ex_F))"

lemma ex_cluster_spec_ok:
  "has_type (p_ClusterSpec ex_F) ex_cluster_spec" "fits (p_ClusterSpec ex_F) (i_ClusterSpec ex_F) ex_cluster_spec"
proof -
  show "has_type (p_ClusterSpec ex_F) ex_cluster_spec"
    using zero_typed [of "p_ClusterSpec ex_F"] unfolding ex_cluster_spec_def p_ClusterSpec_def
    by (rule set_field_typed) auto
  show "fits (p_ClusterSpec ex_F) (i_ClusterSpec ex_F) ex_cluster_spec" by code_simp
qed

definition ex_object :: "json \<Rightarrow> object" where
  "ex_object spec = \<lparr>km_Name = ''c1'', km_Namespace = [], km_UID = [], km_RV = 0, km_Generation = 0, km_Labels = [], km_Annotations = [],
     km_OwnerReferences = [], km_Finalizers = [], km_CreationTimestamp = 0, km_Deletion = None, k_Spec = spec, k_Status = JNull\<rparr>"

section \<open>Clusters\<close>

lemma cluster_overlays: "foreign_ok F \<Longrightarrow> overlays (fields_of (i_ClusterSpec F)) (fields_of (ServiceSetFields F)) e"
  using compat_i_ClusterSpec_ServiceSetFields [of F] structs_eq by (metis compatible_overlays)



text \<open>
  The account and the identifier in a stored cluster are those the service passes, whatever the
  public spec contains.
\<close>

theorem cluster_service_fields:
  assumes "foreign_ok F" "has_type (p_ClusterSpec F) (k_Spec pub)"
  shows "get_field ''accountId'' (k_Spec (PublicToInternalCluster F pub accountID clusterID)) = JStr accountID
    \<and> get_field ''internalId'' (k_Spec (PublicToInternalCluster F pub accountID clusterID)) = JStr clusterID"
proof -
  let ?e = "service_set F [(''accountId'', accountID), (''internalId'', clusterID)]"
  let ?rc = "recode (p_ClusterSpec F) (i_ClusterSpec F) (k_Spec pub)"
  have wf: "wf_schema (p_ClusterSpec F)" "wf_schema (i_ClusterSpec F)" "names_ok (ServiceSetFields F)"
    using assms(1) by (simp_all add: wf_types names_ServiceSetFields)
  have rc: "?rc = conv (i_ClusterSpec F) (p_ClusterSpec F) (zero (i_ClusterSpec F)) (k_Spec pub)"
    using assms wf by (simp add: recode_conv compat_types)
  have no: "get_field n ?rc = JStr []" if "n \<in> {''accountId'', ''internalId''}" for n
    using that unfolding rc unfolding i_ClusterSpec_def p_ClusterSpec_def get_field_def conv_field by (auto simp: map_items_def)
  have "get_field n (overlay (i_ClusterSpec F) (ServiceSetFields F) ?rc ?e) = JStr (if n = ''accountId'' then accountID else clusterID)"
    if "n \<in> {''accountId'', ''internalId''}" for n
    using that no [OF that]
    by (intro unproject_service [OF structs_eq(3,1) wf, where tag = OmitEmpty and tag' = OmitEmpty])
      (auto simp: assms service_set_typed cluster_overlays entries service_set_lookup(2))
  then show ?thesis by (simp add: PublicToInternalCluster_def UnprojectCluster_def unproject_def Let_def)
qed

theorem cluster_service_fields_witness:
  "get_field ''accountId'' (k_Spec (PublicToInternalCluster ex_F (ex_object ex_cluster_spec) ''123'' ''id'')) = JStr ''123''"
  using cluster_service_fields [OF ex_F_ok, of "ex_object ex_cluster_spec" "''123''" "''id''"] ex_cluster_spec_ok
  by (simp add: ex_object_def)

end
