(* ===== verification/FieldRules.thy ===== *)
theory FieldRules
  imports ProjectionProps
begin

text \<open>
  Which fields of a spec a customer may write: the registry generated from the markers of the types
  (\<open>hack/api-codegen/pkg/registry\<close>), the feature gates (\<open>platform-api/internal/codegen/featuregate\<close>) and the
  validator that the handlers call before a create and an update (\<open>platform-api/pkg/validation\<close>).
\<close>

section \<open>Feature gates\<close>

datatype FeatureStage = GA | TechPreview | DevPreview

fun stage_rank :: "FeatureStage \<Rightarrow> nat" where
  "stage_rank GA = 0"
| "stage_rank TechPreview = 1"
| "stage_rank DevPreview = 2"

text \<open>A feature set is a string; every unknown one counts as \<open>Default\<close>.\<close>

definition DefaultSet :: string where "DefaultSet = ''Default''"
definition TechPreviewNoUpgrade :: string where "TechPreviewNoUpgrade = ''TechPreviewNoUpgrade''"
definition DevPreviewNoUpgrade :: string where "DevPreviewNoUpgrade = ''DevPreviewNoUpgrade''"

definition MaxStage :: "string \<Rightarrow> FeatureStage" where
  "MaxStage fs = (if fs = TechPreviewNoUpgrade then TechPreview else if fs = DevPreviewNoUpgrade then DevPreview else GA)"

definition Includes :: "string \<Rightarrow> FeatureStage \<Rightarrow> bool" where
  "Includes fs stage \<longleftrightarrow> stage_rank stage \<le> stage_rank (MaxStage fs)"

definition HyperFleetFeatureGates :: "(string \<times> FeatureStage) list" where
  "HyperFleetFeatureGates =
     [(''HyperFleetEtcdConfig'', GA), (''HyperFleetAutoScaling'', TechPreview), (''HyperFleetSecretEncryption'', TechPreview),
      (''HyperFleetCustomDNS'', DevPreview), (''HyperFleetKubeletAdvanced'', TechPreview), (''HyperFleetMachineConfig'', TechPreview)]"

definition IsGateEnabled :: "string \<Rightarrow> string \<Rightarrow> bool" where
  "IsGateEnabled gate fs = (case map_of HyperFleetFeatureGates gate of None \<Rightarrow> False | Some stage \<Rightarrow> Includes fs stage)"

section \<open>The registry\<close>

datatype WriteMode = Mutable | Immutable | ServiceSet

record FieldMeta =
  fm_FieldPath :: string
  fm_WriteMode :: WriteMode
  fm_FeatureGate :: string
  fm_Hidden :: bool
  fm_GatedModes :: "(string \<times> WriteMode) list"   \<comment> \<open>\<open>FeatureGateAwareWriteModes\<close>, which no entry uses\<close>
  fm_OwnerType :: string
  fm_OwnerGVK :: string

definition field :: "string \<Rightarrow> WriteMode \<Rightarrow> string \<Rightarrow> bool \<Rightarrow> string \<Rightarrow> string \<Rightarrow> string \<times> FieldMeta" where
  "field path mode gate hidden owner gvk =
     (path, \<lparr>fm_FieldPath = path, fm_WriteMode = mode, fm_FeatureGate = gate, fm_Hidden = hidden, fm_GatedModes = [],
             fm_OwnerType = owner, fm_OwnerGVK = gvk\<rparr>)"

definition registry_Cluster_1 :: "(string \<times> FieldMeta) list" where
  "registry_Cluster_1 =
    [field ''spec.accountId'' ServiceSet [] True ''Cluster'' ''hyperfleet.io/v1alpha1.Cluster'',
     field ''spec.creatorARN'' ServiceSet [] True ''Cluster'' ''hyperfleet.io/v1alpha1.Cluster'',
     field ''spec.deleteProtection'' Mutable [] False ''Cluster'' ''hyperfleet.io/v1alpha1.Cluster'',
     field ''spec.displayName'' Mutable [] False ''Cluster'' ''hyperfleet.io/v1alpha1.Cluster'',
     field ''spec.expirationTimestamp'' Mutable [] False ''Cluster'' ''hyperfleet.io/v1alpha1.Cluster'',
     field ''spec.hostedCluster.additionalTrustBundle'' ServiceSet [] True ''Cluster'' ''hyperfleet.io/v1alpha1.Cluster'',
     field ''spec.hostedCluster.auditWebhook'' ServiceSet [] True ''Cluster'' ''hyperfleet.io/v1alpha1.Cluster'',
     field ''spec.hostedCluster.autoNode'' Mutable [] False ''Cluster'' ''hyperfleet.io/v1alpha1.Cluster'',
     field ''spec.hostedCluster.autoscaling'' ServiceSet [] True ''Cluster'' ''hyperfleet.io/v1alpha1.Cluster'',
     field ''spec.hostedCluster.capabilities'' ServiceSet [] True ''Cluster'' ''hyperfleet.io/v1alpha1.Cluster'',
     field ''spec.hostedCluster.channel'' ServiceSet [] False ''Cluster'' ''hyperfleet.io/v1alpha1.Cluster'',
     field ''spec.hostedCluster.clusterID'' ServiceSet [] True ''Cluster'' ''hyperfleet.io/v1alpha1.Cluster'',
     field ''spec.hostedCluster.configuration.apiServer'' ServiceSet [] True ''Cluster'' ''hyperfleet.io/v1alpha1.Cluster'',
     field ''spec.hostedCluster.configuration.authentication'' ServiceSet [] True ''Cluster'' ''hyperfleet.io/v1alpha1.Cluster'',
     field ''spec.hostedCluster.configuration.featureGate'' ServiceSet [] True ''Cluster'' ''hyperfleet.io/v1alpha1.Cluster'',
     field ''spec.hostedCluster.configuration.image'' ServiceSet [] True ''Cluster'' ''hyperfleet.io/v1alpha1.Cluster'',
     field ''spec.hostedCluster.configuration.ingress'' ServiceSet [] True ''Cluster'' ''hyperfleet.io/v1alpha1.Cluster'',
     field ''spec.hostedCluster.configuration.kubelet.allowedUnsafeSysctls'' ServiceSet [] True ''Cluster'' ''hyperfleet.io/v1alpha1.Cluster'',
     field ''spec.hostedCluster.configuration.kubelet.containerLogMaxFiles'' Mutable [] False ''Cluster'' ''hyperfleet.io/v1alpha1.Cluster'',
     field ''spec.hostedCluster.configuration.kubelet.containerLogMaxSize'' Mutable [] False ''Cluster'' ''hyperfleet.io/v1alpha1.Cluster'']"

definition registry_Cluster_2 :: "(string \<times> FieldMeta) list" where
  "registry_Cluster_2 =
    [field ''spec.hostedCluster.configuration.kubelet.cpuManagerPolicy'' ServiceSet [] True ''Cluster'' ''hyperfleet.io/v1alpha1.Cluster'',
     field ''spec.hostedCluster.configuration.kubelet.cpuManagerPolicyOptions'' ServiceSet [] True ''Cluster'' ''hyperfleet.io/v1alpha1.Cluster'',
     field ''spec.hostedCluster.configuration.kubelet.cpuManagerReconcilePeriod'' ServiceSet [] True ''Cluster'' ''hyperfleet.io/v1alpha1.Cluster'',
     field ''spec.hostedCluster.configuration.kubelet.evictionHard'' ServiceSet [] True ''Cluster'' ''hyperfleet.io/v1alpha1.Cluster'',
     field ''spec.hostedCluster.configuration.kubelet.evictionSoft'' ServiceSet [] True ''Cluster'' ''hyperfleet.io/v1alpha1.Cluster'',
     field ''spec.hostedCluster.configuration.kubelet.evictionSoftGracePeriod'' ServiceSet [] True ''Cluster'' ''hyperfleet.io/v1alpha1.Cluster'',
     field ''spec.hostedCluster.configuration.kubelet.imageGCHighThresholdPercent'' Mutable [] False ''Cluster'' ''hyperfleet.io/v1alpha1.Cluster'',
     field ''spec.hostedCluster.configuration.kubelet.imageGCLowThresholdPercent'' Mutable [] False ''Cluster'' ''hyperfleet.io/v1alpha1.Cluster'',
     field ''spec.hostedCluster.configuration.kubelet.imageMinimumGCAge'' Mutable [] False ''Cluster'' ''hyperfleet.io/v1alpha1.Cluster'',
     field ''spec.hostedCluster.configuration.kubelet.kubeReserved'' Immutable [] False ''Cluster'' ''hyperfleet.io/v1alpha1.Cluster'',
     field ''spec.hostedCluster.configuration.kubelet.maxPods'' Mutable [] False ''Cluster'' ''hyperfleet.io/v1alpha1.Cluster'',
     field ''spec.hostedCluster.configuration.kubelet.memoryThrottlingFactor'' ServiceSet [] True ''Cluster'' ''hyperfleet.io/v1alpha1.Cluster'',
     field ''spec.hostedCluster.configuration.kubelet.podPidsLimit'' Mutable [] False ''Cluster'' ''hyperfleet.io/v1alpha1.Cluster'',
     field ''spec.hostedCluster.configuration.kubelet.registryBurst'' Mutable ''HyperFleetKubeletAdvanced'' False ''Cluster'' ''hyperfleet.io/v1alpha1.Cluster'',
     field ''spec.hostedCluster.configuration.kubelet.registryPullQPS'' Mutable ''HyperFleetKubeletAdvanced'' False ''Cluster'' ''hyperfleet.io/v1alpha1.Cluster'',
     field ''spec.hostedCluster.configuration.kubelet.serializeImagePulls'' Mutable ''HyperFleetKubeletAdvanced'' False ''Cluster'' ''hyperfleet.io/v1alpha1.Cluster'',
     field ''spec.hostedCluster.configuration.kubelet.streamingConnectionIdleTimeout'' Mutable [] False ''Cluster'' ''hyperfleet.io/v1alpha1.Cluster'',
     field ''spec.hostedCluster.configuration.kubelet.systemReserved'' Immutable [] False ''Cluster'' ''hyperfleet.io/v1alpha1.Cluster'',
     field ''spec.hostedCluster.configuration.kubelet.topologyManagerPolicy'' ServiceSet [] True ''Cluster'' ''hyperfleet.io/v1alpha1.Cluster'',
     field ''spec.hostedCluster.configuration.kubelet.topologyManagerScope'' ServiceSet [] True ''Cluster'' ''hyperfleet.io/v1alpha1.Cluster'']"

definition registry_Cluster_3 :: "(string \<times> FieldMeta) list" where
  "registry_Cluster_3 =
    [field ''spec.hostedCluster.configuration.machineConfig.allowedKernelArguments'' Immutable ''HyperFleetMachineConfig'' False ''Cluster'' ''hyperfleet.io/v1alpha1.Cluster'',
     field ''spec.hostedCluster.configuration.machineConfig.extensions'' ServiceSet [] True ''Cluster'' ''hyperfleet.io/v1alpha1.Cluster'',
     field ''spec.hostedCluster.configuration.machineConfig.files'' ServiceSet [] True ''Cluster'' ''hyperfleet.io/v1alpha1.Cluster'',
     field ''spec.hostedCluster.configuration.machineConfig.kernelArguments'' ServiceSet [] True ''Cluster'' ''hyperfleet.io/v1alpha1.Cluster'',
     field ''spec.hostedCluster.configuration.machineConfig.kernelType'' ServiceSet [] True ''Cluster'' ''hyperfleet.io/v1alpha1.Cluster'',
     field ''spec.hostedCluster.configuration.machineConfig.systemdUnits'' ServiceSet [] True ''Cluster'' ''hyperfleet.io/v1alpha1.Cluster'',
     field ''spec.hostedCluster.configuration.network'' ServiceSet [] True ''Cluster'' ''hyperfleet.io/v1alpha1.Cluster'',
     field ''spec.hostedCluster.configuration.oauth'' ServiceSet [] True ''Cluster'' ''hyperfleet.io/v1alpha1.Cluster'',
     field ''spec.hostedCluster.configuration.proxy'' ServiceSet [] True ''Cluster'' ''hyperfleet.io/v1alpha1.Cluster'',
     field ''spec.hostedCluster.configuration.scheduler'' ServiceSet [] True ''Cluster'' ''hyperfleet.io/v1alpha1.Cluster'',
     field ''spec.hostedCluster.controlPlaneRelease'' ServiceSet [] True ''Cluster'' ''hyperfleet.io/v1alpha1.Cluster'',
     field ''spec.hostedCluster.controllerAvailabilityPolicy'' ServiceSet [] True ''Cluster'' ''hyperfleet.io/v1alpha1.Cluster'',
     field ''spec.hostedCluster.dns'' ServiceSet [] True ''Cluster'' ''hyperfleet.io/v1alpha1.Cluster'',
     field ''spec.hostedCluster.etcd'' ServiceSet [] True ''Cluster'' ''hyperfleet.io/v1alpha1.Cluster'',
     field ''spec.hostedCluster.fips'' ServiceSet [] False ''Cluster'' ''hyperfleet.io/v1alpha1.Cluster'',
     field ''spec.hostedCluster.imageContentSources'' Mutable [] False ''Cluster'' ''hyperfleet.io/v1alpha1.Cluster'',
     field ''spec.hostedCluster.infraID'' ServiceSet [] True ''Cluster'' ''hyperfleet.io/v1alpha1.Cluster'',
     field ''spec.hostedCluster.infrastructureAvailabilityPolicy'' ServiceSet [] True ''Cluster'' ''hyperfleet.io/v1alpha1.Cluster'',
     field ''spec.hostedCluster.issuerURL'' ServiceSet [] False ''Cluster'' ''hyperfleet.io/v1alpha1.Cluster'',
     field ''spec.hostedCluster.kubeAPIServerDNSName'' ServiceSet [] True ''Cluster'' ''hyperfleet.io/v1alpha1.Cluster'']"

definition registry_Cluster_4 :: "(string \<times> FieldMeta) list" where
  "registry_Cluster_4 =
    [field ''spec.hostedCluster.labels'' ServiceSet [] True ''Cluster'' ''hyperfleet.io/v1alpha1.Cluster'',
     field ''spec.hostedCluster.networking'' Mutable [] False ''Cluster'' ''hyperfleet.io/v1alpha1.Cluster'',
     field ''spec.hostedCluster.nodeSelector'' ServiceSet [] True ''Cluster'' ''hyperfleet.io/v1alpha1.Cluster'',
     field ''spec.hostedCluster.olmCatalogPlacement'' ServiceSet [] True ''Cluster'' ''hyperfleet.io/v1alpha1.Cluster'',
     field ''spec.hostedCluster.operatorConfiguration'' ServiceSet [] False ''Cluster'' ''hyperfleet.io/v1alpha1.Cluster'',
     field ''spec.hostedCluster.pausedUntil'' ServiceSet [] False ''Cluster'' ''hyperfleet.io/v1alpha1.Cluster'',
     field ''spec.hostedCluster.platform.aws'' Mutable [] False ''Cluster'' ''hyperfleet.io/v1alpha1.Cluster'',
     field ''spec.hostedCluster.platform.type'' Immutable [] False ''Cluster'' ''hyperfleet.io/v1alpha1.Cluster'',
     field ''spec.hostedCluster.pullSecret'' ServiceSet [] True ''Cluster'' ''hyperfleet.io/v1alpha1.Cluster'',
     field ''spec.hostedCluster.release'' Mutable [] False ''Cluster'' ''hyperfleet.io/v1alpha1.Cluster'',
     field ''spec.hostedCluster.secretEncryption'' ServiceSet [] True ''Cluster'' ''hyperfleet.io/v1alpha1.Cluster'',
     field ''spec.hostedCluster.serviceAccountSigningKey'' ServiceSet [] True ''Cluster'' ''hyperfleet.io/v1alpha1.Cluster'',
     field ''spec.hostedCluster.services'' ServiceSet [] True ''Cluster'' ''hyperfleet.io/v1alpha1.Cluster'',
     field ''spec.hostedCluster.sshKey'' ServiceSet [] True ''Cluster'' ''hyperfleet.io/v1alpha1.Cluster'',
     field ''spec.hostedCluster.tolerations'' ServiceSet [] True ''Cluster'' ''hyperfleet.io/v1alpha1.Cluster'',
     field ''spec.hostedCluster.updateService'' ServiceSet [] True ''Cluster'' ''hyperfleet.io/v1alpha1.Cluster'',
     field ''spec.internalId'' ServiceSet [] True ''Cluster'' ''hyperfleet.io/v1alpha1.Cluster'',
     field ''spec.oidcConfigId'' Immutable [] False ''Cluster'' ''hyperfleet.io/v1alpha1.Cluster'',
     field ''spec.properties'' Mutable [] False ''Cluster'' ''hyperfleet.io/v1alpha1.Cluster'',
     field ''spec.tags'' Mutable ''HyperFleetAutoScaling'' False ''Cluster'' ''hyperfleet.io/v1alpha1.Cluster'']"

definition registry_ClusterConfiguration_1 :: "(string \<times> FieldMeta) list" where
  "registry_ClusterConfiguration_1 =
    [field ''apiServer'' ServiceSet [] True ''ClusterConfiguration'' [],
     field ''authentication'' ServiceSet [] True ''ClusterConfiguration'' [],
     field ''featureGate'' ServiceSet [] True ''ClusterConfiguration'' [],
     field ''image'' ServiceSet [] True ''ClusterConfiguration'' [],
     field ''ingress'' ServiceSet [] True ''ClusterConfiguration'' [],
     field ''kubelet.allowedUnsafeSysctls'' ServiceSet [] True ''ClusterConfiguration'' [],
     field ''kubelet.containerLogMaxFiles'' Mutable [] False ''ClusterConfiguration'' [],
     field ''kubelet.containerLogMaxSize'' Mutable [] False ''ClusterConfiguration'' [],
     field ''kubelet.cpuManagerPolicy'' ServiceSet [] True ''ClusterConfiguration'' [],
     field ''kubelet.cpuManagerPolicyOptions'' ServiceSet [] True ''ClusterConfiguration'' [],
     field ''kubelet.cpuManagerReconcilePeriod'' ServiceSet [] True ''ClusterConfiguration'' [],
     field ''kubelet.evictionHard'' ServiceSet [] True ''ClusterConfiguration'' [],
     field ''kubelet.evictionSoft'' ServiceSet [] True ''ClusterConfiguration'' [],
     field ''kubelet.evictionSoftGracePeriod'' ServiceSet [] True ''ClusterConfiguration'' [],
     field ''kubelet.imageGCHighThresholdPercent'' Mutable [] False ''ClusterConfiguration'' [],
     field ''kubelet.imageGCLowThresholdPercent'' Mutable [] False ''ClusterConfiguration'' [],
     field ''kubelet.imageMinimumGCAge'' Mutable [] False ''ClusterConfiguration'' [],
     field ''kubelet.kubeReserved'' Immutable [] False ''ClusterConfiguration'' [],
     field ''kubelet.maxPods'' Mutable [] False ''ClusterConfiguration'' [],
     field ''kubelet.memoryThrottlingFactor'' ServiceSet [] True ''ClusterConfiguration'' []]"

definition registry_ClusterConfiguration_2 :: "(string \<times> FieldMeta) list" where
  "registry_ClusterConfiguration_2 =
    [field ''kubelet.podPidsLimit'' Mutable [] False ''ClusterConfiguration'' [],
     field ''kubelet.registryBurst'' Mutable ''HyperFleetKubeletAdvanced'' False ''ClusterConfiguration'' [],
     field ''kubelet.registryPullQPS'' Mutable ''HyperFleetKubeletAdvanced'' False ''ClusterConfiguration'' [],
     field ''kubelet.serializeImagePulls'' Mutable ''HyperFleetKubeletAdvanced'' False ''ClusterConfiguration'' [],
     field ''kubelet.streamingConnectionIdleTimeout'' Mutable [] False ''ClusterConfiguration'' [],
     field ''kubelet.systemReserved'' Immutable [] False ''ClusterConfiguration'' [],
     field ''kubelet.topologyManagerPolicy'' ServiceSet [] True ''ClusterConfiguration'' [],
     field ''kubelet.topologyManagerScope'' ServiceSet [] True ''ClusterConfiguration'' [],
     field ''machineConfig.allowedKernelArguments'' Immutable ''HyperFleetMachineConfig'' False ''ClusterConfiguration'' [],
     field ''machineConfig.extensions'' ServiceSet [] True ''ClusterConfiguration'' [],
     field ''machineConfig.files'' ServiceSet [] True ''ClusterConfiguration'' [],
     field ''machineConfig.kernelArguments'' ServiceSet [] True ''ClusterConfiguration'' [],
     field ''machineConfig.kernelType'' ServiceSet [] True ''ClusterConfiguration'' [],
     field ''machineConfig.systemdUnits'' ServiceSet [] True ''ClusterConfiguration'' [],
     field ''network'' ServiceSet [] True ''ClusterConfiguration'' [],
     field ''oauth'' ServiceSet [] True ''ClusterConfiguration'' [],
     field ''proxy'' ServiceSet [] True ''ClusterConfiguration'' [],
     field ''scheduler'' ServiceSet [] True ''ClusterConfiguration'' []]"

definition registry_KubeletConfig_1 :: "(string \<times> FieldMeta) list" where
  "registry_KubeletConfig_1 =
    [field ''allowedUnsafeSysctls'' ServiceSet [] True ''KubeletConfig'' [],
     field ''containerLogMaxFiles'' Mutable [] False ''KubeletConfig'' [],
     field ''containerLogMaxSize'' Mutable [] False ''KubeletConfig'' [],
     field ''cpuManagerPolicy'' ServiceSet [] True ''KubeletConfig'' [],
     field ''cpuManagerPolicyOptions'' ServiceSet [] True ''KubeletConfig'' [],
     field ''cpuManagerReconcilePeriod'' ServiceSet [] True ''KubeletConfig'' [],
     field ''evictionHard'' ServiceSet [] True ''KubeletConfig'' [],
     field ''evictionSoft'' ServiceSet [] True ''KubeletConfig'' [],
     field ''evictionSoftGracePeriod'' ServiceSet [] True ''KubeletConfig'' [],
     field ''imageGCHighThresholdPercent'' Mutable [] False ''KubeletConfig'' [],
     field ''imageGCLowThresholdPercent'' Mutable [] False ''KubeletConfig'' [],
     field ''imageMinimumGCAge'' Mutable [] False ''KubeletConfig'' [],
     field ''kubeReserved'' Immutable [] False ''KubeletConfig'' [],
     field ''maxPods'' Mutable [] False ''KubeletConfig'' [],
     field ''memoryThrottlingFactor'' ServiceSet [] True ''KubeletConfig'' [],
     field ''podPidsLimit'' Mutable [] False ''KubeletConfig'' [],
     field ''registryBurst'' Mutable ''HyperFleetKubeletAdvanced'' False ''KubeletConfig'' [],
     field ''registryPullQPS'' Mutable ''HyperFleetKubeletAdvanced'' False ''KubeletConfig'' [],
     field ''serializeImagePulls'' Mutable ''HyperFleetKubeletAdvanced'' False ''KubeletConfig'' [],
     field ''streamingConnectionIdleTimeout'' Mutable [] False ''KubeletConfig'' []]"

definition registry_KubeletConfig_2 :: "(string \<times> FieldMeta) list" where
  "registry_KubeletConfig_2 =
    [field ''systemReserved'' Immutable [] False ''KubeletConfig'' [],
     field ''topologyManagerPolicy'' ServiceSet [] True ''KubeletConfig'' [],
     field ''topologyManagerScope'' ServiceSet [] True ''KubeletConfig'' []]"

definition registry_MachineConfigSpec :: "(string \<times> FieldMeta) list" where
  "registry_MachineConfigSpec =
    [field ''allowedKernelArguments'' Immutable ''HyperFleetMachineConfig'' False ''MachineConfigSpec'' [],
     field ''extensions'' ServiceSet [] True ''MachineConfigSpec'' [],
     field ''files'' ServiceSet [] True ''MachineConfigSpec'' [],
     field ''kernelArguments'' ServiceSet [] True ''MachineConfigSpec'' [],
     field ''kernelType'' ServiceSet [] True ''MachineConfigSpec'' [],
     field ''systemdUnits'' ServiceSet [] True ''MachineConfigSpec'' []]"

definition registry_NodePool_1 :: "(string \<times> FieldMeta) list" where
  "registry_NodePool_1 =
    [field ''spec.accountId'' ServiceSet [] True ''NodePool'' ''hyperfleet.io/v1alpha1.NodePool'',
     field ''spec.autoRepair'' Mutable [] False ''NodePool'' ''hyperfleet.io/v1alpha1.NodePool'',
     field ''spec.displayName'' Mutable [] False ''NodePool'' ''hyperfleet.io/v1alpha1.NodePool'',
     field ''spec.internalPoolId'' ServiceSet [] True ''NodePool'' ''hyperfleet.io/v1alpha1.NodePool'',
     field ''spec.labels'' Mutable [] False ''NodePool'' ''hyperfleet.io/v1alpha1.NodePool'',
     field ''spec.nodePool.arch'' ServiceSet [] True ''NodePool'' ''hyperfleet.io/v1alpha1.NodePool'',
     field ''spec.nodePool.autoScaling'' ServiceSet [] True ''NodePool'' ''hyperfleet.io/v1alpha1.NodePool'',
     field ''spec.nodePool.clusterName'' Mutable [] False ''NodePool'' ''hyperfleet.io/v1alpha1.NodePool'',
     field ''spec.nodePool.config'' ServiceSet [] True ''NodePool'' ''hyperfleet.io/v1alpha1.NodePool'',
     field ''spec.nodePool.management'' ServiceSet [] True ''NodePool'' ''hyperfleet.io/v1alpha1.NodePool'',
     field ''spec.nodePool.nodeDrainTimeout'' ServiceSet [] True ''NodePool'' ''hyperfleet.io/v1alpha1.NodePool'',
     field ''spec.nodePool.nodeLabels'' ServiceSet [] True ''NodePool'' ''hyperfleet.io/v1alpha1.NodePool'',
     field ''spec.nodePool.nodeVolumeDetachTimeout'' ServiceSet [] True ''NodePool'' ''hyperfleet.io/v1alpha1.NodePool'',
     field ''spec.nodePool.osImageStream'' ServiceSet [] True ''NodePool'' ''hyperfleet.io/v1alpha1.NodePool'',
     field ''spec.nodePool.pausedUntil'' ServiceSet [] True ''NodePool'' ''hyperfleet.io/v1alpha1.NodePool'',
     field ''spec.nodePool.platform.aws'' Mutable [] False ''NodePool'' ''hyperfleet.io/v1alpha1.NodePool'',
     field ''spec.nodePool.platform.type'' Immutable [] False ''NodePool'' ''hyperfleet.io/v1alpha1.NodePool'',
     field ''spec.nodePool.release'' Mutable [] False ''NodePool'' ''hyperfleet.io/v1alpha1.NodePool'',
     field ''spec.nodePool.replicas'' Mutable [] False ''NodePool'' ''hyperfleet.io/v1alpha1.NodePool'',
     field ''spec.nodePool.taints'' ServiceSet [] True ''NodePool'' ''hyperfleet.io/v1alpha1.NodePool'']"

definition registry_NodePool_2 :: "(string \<times> FieldMeta) list" where
  "registry_NodePool_2 =
    [field ''spec.nodePool.tuningConfig'' ServiceSet [] True ''NodePool'' ''hyperfleet.io/v1alpha1.NodePool'']"

definition registry_NodePoolPlatform :: "(string \<times> FieldMeta) list" where
  "registry_NodePoolPlatform =
    [field ''aws'' Mutable [] False ''NodePoolPlatform'' [],
     field ''type'' Immutable [] False ''NodePoolPlatform'' []]"

definition registry_OidcConfig :: "(string \<times> FieldMeta) list" where
  "registry_OidcConfig =
    [field ''spec.accountId'' ServiceSet [] True ''OidcConfig'' ''hyperfleet.io/v1alpha1.OidcConfig'',
     field ''spec.installerRoleArn'' Immutable [] False ''OidcConfig'' ''hyperfleet.io/v1alpha1.OidcConfig'',
     field ''spec.issuerUrl'' Immutable [] False ''OidcConfig'' ''hyperfleet.io/v1alpha1.OidcConfig'',
     field ''spec.secretArn'' Immutable [] False ''OidcConfig'' ''hyperfleet.io/v1alpha1.OidcConfig'',
     field ''spec.type'' Immutable [] False ''OidcConfig'' ''hyperfleet.io/v1alpha1.OidcConfig'']"

definition registry_PlatformSpec :: "(string \<times> FieldMeta) list" where
  "registry_PlatformSpec =
    [field ''aws'' Mutable [] False ''PlatformSpec'' [],
     field ''type'' Immutable [] False ''PlatformSpec'' []]"

definition FieldRegistry :: "(string \<times> (string \<times> FieldMeta) list) list" where
  "FieldRegistry =
    [(''Cluster'', registry_Cluster_1 @ registry_Cluster_2 @ registry_Cluster_3 @ registry_Cluster_4),
     (''ClusterConfiguration'', registry_ClusterConfiguration_1 @ registry_ClusterConfiguration_2),
     (''KubeletConfig'', registry_KubeletConfig_1 @ registry_KubeletConfig_2),
     (''MachineConfigSpec'', registry_MachineConfigSpec),
     (''NodePool'', registry_NodePool_1 @ registry_NodePool_2),
     (''NodePoolPlatform'', registry_NodePoolPlatform),
     (''OidcConfig'', registry_OidcConfig),
     (''PlatformSpec'', registry_PlatformSpec)]"

text \<open>\<open>typedRegistry[resourceType]\<close>, nil for an unknown kind.\<close>

definition field_metas :: "string \<Rightarrow> (string \<times> FieldMeta) list" where
  "field_metas kind = (case map_of FieldRegistry kind of None \<Rightarrow> [] | Some m \<Rightarrow> m)"

section \<open>field_validator.go\<close>

datatype Operation = OperationCreate | OperationUpdate

record ValidationError =
  ve_Field :: string
  ve_Reason :: string

fun isZeroValue :: "json \<Rightarrow> bool" where
  "isZeroValue JNull = True"
| "isZeroValue (JStr s) = (s = [])"
| "isZeroValue (JBool b) = (\<not> b)"
| "isZeroValue (JNum n) = (n = 0)"
| "isZeroValue (JObj kvs) = list_all (\<lambda>kv. isZeroValue (snd kv)) kvs"
| "isZeroValue (JArr xs) = (xs = [])"

text \<open>The assignments of \<open>flattenMap\<close>, in the order of the document; where two keys flatten to one path
  the later one stays (in the code, the one that the iteration over a Go map visits last).\<close>

fun flattenMap :: "string \<Rightarrow> (string \<times> json) list \<Rightarrow> (string \<times> json) list" where
  "flattenMap pre [] = []"
| "flattenMap pre ((key, val) # m) =
     (let path = (if pre = [] then key else pre @ ''.'' @ key)
      in (path, val) # (case val of JObj nested \<Rightarrow> flattenMap path nested | _ \<Rightarrow> []) @ flattenMap pre m)"

text \<open>The result is nil (\<open>None\<close>) when the marshalled value is not an object.\<close>

definition flattenToFieldPaths :: "json \<Rightarrow> (string \<times> json) list option" where
  "flattenToFieldPaths d =
     (case go_value d of
        Some (JObj m) \<Rightarrow> Some (fold (\<lambda>(k, v). AList.update k v) (flattenMap ''spec'' m) [])
      | Some JNull \<Rightarrow> Some []
      | _ \<Rightarrow> None)"

definition effective_mode :: "FieldMeta \<Rightarrow> string \<Rightarrow> WriteMode" where
  "effective_mode meta fs =
     (case List.find (\<lambda>(g, _). g \<noteq> [] \<and> IsGateEnabled g fs) (fm_GatedModes meta) of
        Some (_, mode) \<Rightarrow> mode
      | None \<Rightarrow> (case List.find (\<lambda>(g, _). g = []) (fm_GatedModes meta) of
                  Some (_, mode) \<Rightarrow> mode
                | None \<Rightarrow> fm_WriteMode meta))"

text \<open>An entry that a map lacks reads as nil, which is also what JSON null decodes to.\<close>

definition nil_entry :: "(string \<times> json) list \<Rightarrow> string \<Rightarrow> json" where
  "nil_entry m k = (case map_of m k of None \<Rightarrow> JNull | Some v \<Rightarrow> v)"

definition validateWriteMode ::
  "string \<Rightarrow> FieldMeta \<Rightarrow> Operation \<Rightarrow> (string \<times> json) list \<Rightarrow> (string \<times> json) list option \<Rightarrow> string \<Rightarrow> ValidationError option" where
  "validateWriteMode fieldPath meta op newFields existingFields fs =
     (case effective_mode meta fs of
        ServiceSet \<Rightarrow>
          if isZeroValue (nil_entry newFields fieldPath) then None
          else Some \<lparr>ve_Field = fieldPath, ve_Reason = ''field is platform-managed and cannot be set by customers''\<rparr>
      | Immutable \<Rightarrow>
          (case existingFields of
             None \<Rightarrow> None
           | Some old \<Rightarrow>
               if op = OperationUpdate \<and> nil_entry old fieldPath \<noteq> nil_entry newFields fieldPath
               then Some \<lparr>ve_Field = fieldPath, ve_Reason = ''field is immutable and cannot be changed after creation''\<rparr>
               else None)
      | Mutable \<Rightarrow> None)"

definition validate_field ::
  "(string \<times> FieldMeta) list \<Rightarrow> (string \<times> json) list \<Rightarrow> (string \<times> json) list option \<Rightarrow> Operation \<Rightarrow> string \<Rightarrow> string \<Rightarrow> ValidationError option" where
  "validate_field metas newFields existingFields op fs fieldPath =
     (case map_of metas fieldPath of
        None \<Rightarrow> None
      | Some meta \<Rightarrow>
          if fm_FeatureGate meta \<noteq> [] \<and> \<not> IsGateEnabled (fm_FeatureGate meta) fs
          then Some \<lparr>ve_Field = fieldPath,
            ve_Reason = ''requires feature gate '' @ fm_FeatureGate meta @ '' which is not enabled in '' @ fs @ '' feature set''\<rparr>
          else validateWriteMode fieldPath meta op newFields existingFields fs)"

text \<open>The errors, in the order of the fields; the code iterates over a Go map and leaves their order open.\<close>

definition validate :: "string \<Rightarrow> (string \<times> json) list \<Rightarrow> (string \<times> json) list option \<Rightarrow> Operation \<Rightarrow> string \<Rightarrow> ValidationError list" where
  "validate resourceType newFields existingFields op fs =
     List.map_filter (validate_field (field_metas resourceType) newFields existingFields op fs) (map fst newFields)"

text \<open>The specs are given by the documents they marshal to; \<open>None\<close> is a nil spec. No error is the empty list.\<close>

definition fields_or_nil :: "json \<Rightarrow> (string \<times> json) list" where
  "fields_or_nil d = (case flattenToFieldPaths d of None \<Rightarrow> [] | Some m \<Rightarrow> m)"

definition ValidateCreate :: "string \<Rightarrow> json option \<Rightarrow> string \<Rightarrow> ValidationError list" where
  "ValidateCreate resourceType spec fs =
     (case spec of None \<Rightarrow> [] | Some d \<Rightarrow> validate resourceType (fields_or_nil d) None OperationCreate fs)"

definition ValidateUpdate :: "string \<Rightarrow> json option \<Rightarrow> json option \<Rightarrow> string \<Rightarrow> ValidationError list" where
  "ValidateUpdate resourceType newSpec existingSpec fs =
     (case newSpec of
        None \<Rightarrow> []
      | Some d \<Rightarrow>
          validate resourceType (fields_or_nil d)
            (case existingSpec of None \<Rightarrow> None | Some e \<Rightarrow> flattenToFieldPaths e) OperationUpdate fs)"

end
