(* ===== verification/ErrorCodes.thy ===== *)
theory ErrorCodes
  imports Http Projection
begin

text \<open>
  The error answers of the handlers (\<open>platform-api/pkg/handlers/errorcodes.go\<close>): platform code, HTTP status,
  message, and the template of the reason where the code gives one.
\<close>

definition ErrClusterList :: APIError where
  "ErrClusterList = api_error ''CLUSTERS-MGMT-LIST-001'' 500 ''Failed to list clusters''"

definition ErrClusterCreateInvalidBody :: APIError where
  "ErrClusterCreateInvalidBody = api_error ''CLUSTERS-MGMT-CREATE-001'' 400 ''Invalid request body''"

definition ErrClusterCreateMissingFields :: APIError where
  "ErrClusterCreateMissingFields = api_error ''CLUSTERS-MGMT-CREATE-002'' 400 ''Missing required fields: name and spec''"

definition ErrClusterCreateFailed :: APIError where
  "ErrClusterCreateFailed = api_error ''CLUSTERS-MGMT-CREATE-003'' 500 ''Failed to create cluster''"

definition ErrClusterCreateNameCheck :: APIError where
  "ErrClusterCreateNameCheck = api_error ''CLUSTERS-MGMT-CREATE-004'' 500 ''Failed to validate cluster name''"

definition ErrClusterCreateOidcConfigLookupFailed :: APIError where
  "ErrClusterCreateOidcConfigLookupFailed = api_error ''CLUSTERS-MGMT-CREATE-013'' 500 ''Failed to look up referenced OIDC config''"

definition ErrClusterCreateNameConflict :: APIError where
  "ErrClusterCreateNameConflict = (api_error ''CLUSTERS-MGMT-CREATE-005'' 409 ''Cluster name already exists in this account'')\<lparr>ae_Reason := ''a cluster named %q already exists in this account''\<rparr>"

definition ErrClusterCreateNameTooLong :: APIError where
  "ErrClusterCreateNameTooLong = api_error ''CLUSTERS-MGMT-CREATE-006'' 400 (''Cluster name must be no more than '' @ dec_of_int (int MaxClusterNameLen) @ '' characters'')"

definition ErrClusterCreateIDExhausted :: APIError where
  "ErrClusterCreateIDExhausted = api_error ''CLUSTERS-MGMT-CREATE-007'' 500 ''Unable to generate unique DNS identifier''"

definition ErrClusterCreateInvalidSpec :: APIError where
  "ErrClusterCreateInvalidSpec = api_error ''CLUSTERS-MGMT-CREATE-008'' 400 ''Invalid cluster spec''"

definition ErrClusterCreateOidcConfigRequired :: APIError where
  "ErrClusterCreateOidcConfigRequired = api_error ''CLUSTERS-MGMT-CREATE-009'' 400 ''spec.oidcConfigId is required''"

definition ErrClusterCreateOidcConfigNotFound :: APIError where
  "ErrClusterCreateOidcConfigNotFound = api_error ''CLUSTERS-MGMT-CREATE-010'' 404 ''Referenced OIDC config not found''"

definition ErrClusterCreateOidcConfigNotReady :: APIError where
  "ErrClusterCreateOidcConfigNotReady = api_error ''CLUSTERS-MGMT-CREATE-011'' 422 ''Referenced OIDC config is not ready''"

definition ErrClusterCreateOidcConfigInUse :: APIError where
  "ErrClusterCreateOidcConfigInUse = (api_error ''CLUSTERS-MGMT-CREATE-012'' 409 ''Referenced OIDC config is already associated with another cluster'')\<lparr>ae_Reason := ''an OidcConfig backs at most one cluster; %q is already in use''\<rparr>"

definition ErrClusterGetNotFound :: APIError where
  "ErrClusterGetNotFound = api_error ''CLUSTERS-MGMT-GET-001'' 404 ''Cluster not found''"

definition ErrClusterGetFailed :: APIError where
  "ErrClusterGetFailed = api_error ''CLUSTERS-MGMT-GET-002'' 500 ''Failed to get cluster''"

definition ErrClusterUpdateInvalidBody :: APIError where
  "ErrClusterUpdateInvalidBody = api_error ''CLUSTERS-MGMT-UPDATE-001'' 400 ''Invalid request body''"

definition ErrClusterUpdateMissingFields :: APIError where
  "ErrClusterUpdateMissingFields = api_error ''CLUSTERS-MGMT-UPDATE-002'' 400 ''Missing required field: spec''"

definition ErrClusterUpdateNotFound :: APIError where
  "ErrClusterUpdateNotFound = api_error ''CLUSTERS-MGMT-UPDATE-003'' 404 ''Cluster not found''"

definition ErrClusterUpdateFailed :: APIError where
  "ErrClusterUpdateFailed = api_error ''CLUSTERS-MGMT-UPDATE-004'' 500 ''Failed to update cluster''"

definition ErrClusterUpdateInvalidSpec :: APIError where
  "ErrClusterUpdateInvalidSpec = api_error ''CLUSTERS-MGMT-UPDATE-005'' 400 ''Invalid cluster spec''"

definition ErrClusterDeleteNotFound :: APIError where
  "ErrClusterDeleteNotFound = api_error ''CLUSTERS-MGMT-DELETE-001'' 404 ''Cluster not found''"

definition ErrClusterDeleteFailed :: APIError where
  "ErrClusterDeleteFailed = api_error ''CLUSTERS-MGMT-DELETE-002'' 500 ''Failed to delete cluster''"

definition ErrClusterStatusNotFound :: APIError where
  "ErrClusterStatusNotFound = api_error ''CLUSTERS-MGMT-STATUS-001'' 404 ''Cluster not found''"

definition ErrClusterStatusFailed :: APIError where
  "ErrClusterStatusFailed = api_error ''CLUSTERS-MGMT-STATUS-002'' 500 ''Failed to get cluster status''"

definition ErrClusterValidation :: APIError where
  "ErrClusterValidation = api_error ''CLUSTERS-MGMT-VALIDATION-001'' 422 ''A validation error has occurred, check the errors field for more information''"

definition ErrNodePoolList :: APIError where
  "ErrNodePoolList = api_error ''NODEPOOLS-MGMT-LIST-001'' 500 ''Failed to list nodepools''"

definition ErrNodePoolCreateInvalidBody :: APIError where
  "ErrNodePoolCreateInvalidBody = api_error ''NODEPOOLS-MGMT-CREATE-001'' 400 ''Invalid request body''"

definition ErrNodePoolCreateMissingFields :: APIError where
  "ErrNodePoolCreateMissingFields = api_error ''NODEPOOLS-MGMT-CREATE-002'' 400 ''Missing required fields: metadata.name and metadata.namespace''"

definition ErrNodePoolCreateNameConflict :: APIError where
  "ErrNodePoolCreateNameConflict = api_error ''NODEPOOLS-MGMT-CREATE-003'' 409 ''NodePool already exists''"

definition ErrNodePoolCreateClusterNotFound :: APIError where
  "ErrNodePoolCreateClusterNotFound = api_error ''NODEPOOLS-MGMT-CREATE-004'' 404 ''Referenced cluster not found''"

definition ErrNodePoolCreateClusterCheck :: APIError where
  "ErrNodePoolCreateClusterCheck = api_error ''NODEPOOLS-MGMT-CREATE-005'' 500 ''Failed to validate cluster reference''"

definition ErrNodePoolCreateInvalidSpec :: APIError where
  "ErrNodePoolCreateInvalidSpec = api_error ''NODEPOOLS-MGMT-CREATE-006'' 400 ''Invalid nodepool spec''"

definition ErrNodePoolCreateFailed :: APIError where
  "ErrNodePoolCreateFailed = api_error ''NODEPOOLS-MGMT-CREATE-007'' 500 ''Failed to create nodepool''"

definition ErrNodePoolCreateInvalidNamespace :: APIError where
  "ErrNodePoolCreateInvalidNamespace = api_error ''NODEPOOLS-MGMT-CREATE-008'' 400 ''metadata.namespace must be a valid cluster namespace (cluster-<uuid>)''"

definition ErrNodePoolGetNotFound :: APIError where
  "ErrNodePoolGetNotFound = api_error ''NODEPOOLS-MGMT-GET-001'' 404 ''NodePool not found''"

definition ErrNodePoolGetFailed :: APIError where
  "ErrNodePoolGetFailed = api_error ''NODEPOOLS-MGMT-GET-002'' 500 ''Failed to get nodepool''"

definition ErrNodePoolUpdateInvalidBody :: APIError where
  "ErrNodePoolUpdateInvalidBody = api_error ''NODEPOOLS-MGMT-UPDATE-001'' 400 ''Invalid request body''"

definition ErrNodePoolUpdateMissingFields :: APIError where
  "ErrNodePoolUpdateMissingFields = api_error ''NODEPOOLS-MGMT-UPDATE-002'' 400 ''Missing required field: spec''"

definition ErrNodePoolUpdateNotFound :: APIError where
  "ErrNodePoolUpdateNotFound = api_error ''NODEPOOLS-MGMT-UPDATE-003'' 404 ''NodePool not found''"

definition ErrNodePoolUpdateFailed :: APIError where
  "ErrNodePoolUpdateFailed = api_error ''NODEPOOLS-MGMT-UPDATE-004'' 500 ''Failed to update nodepool''"

definition ErrNodePoolUpdateInvalidSpec :: APIError where
  "ErrNodePoolUpdateInvalidSpec = api_error ''NODEPOOLS-MGMT-UPDATE-005'' 400 ''Invalid nodepool spec''"

definition ErrNodePoolDeleteNotFound :: APIError where
  "ErrNodePoolDeleteNotFound = api_error ''NODEPOOLS-MGMT-DELETE-001'' 404 ''NodePool not found''"

definition ErrNodePoolDeleteFailed :: APIError where
  "ErrNodePoolDeleteFailed = api_error ''NODEPOOLS-MGMT-DELETE-002'' 500 ''Failed to delete nodepool''"

definition ErrNodePoolStatusNotFound :: APIError where
  "ErrNodePoolStatusNotFound = api_error ''NODEPOOLS-MGMT-STATUS-001'' 404 ''NodePool not found''"

definition ErrNodePoolStatusFailed :: APIError where
  "ErrNodePoolStatusFailed = api_error ''NODEPOOLS-MGMT-STATUS-002'' 500 ''Failed to get nodepool status''"

definition ErrNodePoolValidation :: APIError where
  "ErrNodePoolValidation = api_error ''NODEPOOLS-MGMT-VALIDATION-001'' 422 ''A validation error has occurred, check the errors field for more information''"

definition ErrOidcConfigList :: APIError where
  "ErrOidcConfigList = api_error ''OIDCCONFIGS-MGMT-LIST-001'' 500 ''Failed to list OIDC configs''"

definition ErrOidcConfigCreateInvalidBody :: APIError where
  "ErrOidcConfigCreateInvalidBody = api_error ''OIDCCONFIGS-MGMT-CREATE-001'' 400 ''Invalid request body''"

definition ErrOidcConfigCreateMissingFields :: APIError where
  "ErrOidcConfigCreateMissingFields = api_error ''OIDCCONFIGS-MGMT-CREATE-002'' 400 ''Missing required fields: spec with type''"

definition ErrOidcConfigCreateFailed :: APIError where
  "ErrOidcConfigCreateFailed = api_error ''OIDCCONFIGS-MGMT-CREATE-003'' 500 ''Failed to create OIDC config''"

definition ErrOidcConfigCreateInvalidType :: APIError where
  "ErrOidcConfigCreateInvalidType = api_error ''OIDCCONFIGS-MGMT-CREATE-004'' 400 (''spec.type must be 'managed' or 'unmanaged'' @ [CHR 0x27])"

definition ErrOidcConfigCreateInvalidFields :: APIError where
  "ErrOidcConfigCreateInvalidFields = api_error ''OIDCCONFIGS-MGMT-CREATE-005'' 400 ''unmanaged type requires secretArn and installerRoleArn; managed type must not set them''"

definition ErrOidcConfigCreateDuplicateIssuerUrl :: APIError where
  "ErrOidcConfigCreateDuplicateIssuerUrl = api_error ''OIDCCONFIGS-MGMT-CREATE-006'' 409 ''An OIDC config with this issuerUrl already exists''"

definition ErrOidcConfigCreateIssuerNotConfigured :: APIError where
  "ErrOidcConfigCreateIssuerNotConfigured = api_error ''OIDCCONFIGS-MGMT-CREATE-007'' 500 ''Server is not configured with an OIDC issuer base URL''"

definition ErrOidcConfigGetNotFound :: APIError where
  "ErrOidcConfigGetNotFound = api_error ''OIDCCONFIGS-MGMT-GET-001'' 404 ''OIDC config not found''"

definition ErrOidcConfigGetFailed :: APIError where
  "ErrOidcConfigGetFailed = api_error ''OIDCCONFIGS-MGMT-GET-002'' 500 ''Failed to get OIDC config''"

definition ErrOidcConfigDeleteNotFound :: APIError where
  "ErrOidcConfigDeleteNotFound = api_error ''OIDCCONFIGS-MGMT-DELETE-001'' 404 ''OIDC config not found''"

definition ErrOidcConfigDeleteFailed :: APIError where
  "ErrOidcConfigDeleteFailed = api_error ''OIDCCONFIGS-MGMT-DELETE-002'' 500 ''Failed to delete OIDC config''"

definition ErrOidcConfigDeleteInUse :: APIError where
  "ErrOidcConfigDeleteInUse = api_error ''OIDCCONFIGS-MGMT-DELETE-003'' 409 ''Cannot delete OIDC config referenced by clusters''"

definition ErrAccountCreateInvalidBody :: APIError where
  "ErrAccountCreateInvalidBody = api_error ''ACCOUNTS-MGMT-CREATE-001'' 400 ''Invalid request body''"

definition ErrAccountCreateMissingID :: APIError where
  "ErrAccountCreateMissingID = api_error ''ACCOUNTS-MGMT-CREATE-002'' 400 ''accountId is required''"

definition ErrAccountCreateCheckFailed :: APIError where
  "ErrAccountCreateCheckFailed = api_error ''ACCOUNTS-MGMT-CREATE-003'' 500 ''Failed to check account status''"

definition ErrAccountCreateExists :: APIError where
  "ErrAccountCreateExists = api_error ''ACCOUNTS-MGMT-CREATE-004'' 409 ''Account is already enabled''"

definition ErrAccountCreateFailed :: APIError where
  "ErrAccountCreateFailed = api_error ''ACCOUNTS-MGMT-CREATE-005'' 500 ''Failed to enable account''"

definition ErrAccountListFailed :: APIError where
  "ErrAccountListFailed = api_error ''ACCOUNTS-MGMT-LIST-001'' 500 ''Failed to list accounts''"

definition ErrAccountGetFailed :: APIError where
  "ErrAccountGetFailed = api_error ''ACCOUNTS-MGMT-GET-001'' 500 ''Failed to get account''"

definition ErrAccountGetNotFound :: APIError where
  "ErrAccountGetNotFound = api_error ''ACCOUNTS-MGMT-GET-002'' 404 ''Account not found''"

definition ErrAccountDeleteFailed :: APIError where
  "ErrAccountDeleteFailed = api_error ''ACCOUNTS-MGMT-DELETE-001'' 500 ''Failed to disable account''"

definition ErrMCCreateInvalidBody :: APIError where
  "ErrMCCreateInvalidBody = api_error ''MC-MGMT-CREATE-001'' 400 ''Invalid request body''"

definition ErrMCCreateMissingID :: APIError where
  "ErrMCCreateMissingID = api_error ''MC-MGMT-CREATE-002'' 400 ''id is required''"

definition ErrMCCreateMissingReg :: APIError where
  "ErrMCCreateMissingReg = api_error ''MC-MGMT-CREATE-003'' 400 ''region is required''"

definition ErrMCCreateMissingAcct :: APIError where
  "ErrMCCreateMissingAcct = api_error ''MC-MGMT-CREATE-004'' 400 ''accountId is required''"

definition ErrMCCreateExists :: APIError where
  "ErrMCCreateExists = (api_error ''MC-MGMT-CREATE-005'' 409 ''Management cluster already registered'')\<lparr>ae_Reason := ''management cluster already registered: %s''\<rparr>"

definition ErrMCCreateFailed :: APIError where
  "ErrMCCreateFailed = api_error ''MC-MGMT-CREATE-006'' 500 ''Failed to save management cluster config''"

definition ErrMCListFailed :: APIError where
  "ErrMCListFailed = api_error ''MC-MGMT-LIST-001'' 500 ''Failed to load management cluster config''"

definition ErrMCGetNotFound :: APIError where
  "ErrMCGetNotFound = api_error ''MC-MGMT-GET-001'' 404 ''Management cluster not found''"

definition ErrMCGetFailed :: APIError where
  "ErrMCGetFailed = api_error ''MC-MGMT-GET-002'' 500 ''Failed to load management cluster config''"

definition ErrAuthzPolicyCreateInvalidBody :: APIError where
  "ErrAuthzPolicyCreateInvalidBody = api_error ''AUTHZ-POLICY-CREATE-001'' 400 ''Invalid request body''"

definition ErrAuthzPolicyCreateMissingName :: APIError where
  "ErrAuthzPolicyCreateMissingName = api_error ''AUTHZ-POLICY-CREATE-002'' 400 ''name is required''"

definition ErrAuthzPolicyCreateMissingText :: APIError where
  "ErrAuthzPolicyCreateMissingText = api_error ''AUTHZ-POLICY-CREATE-003'' 400 ''policy (Cedar text) is required''"

definition ErrAuthzPolicyCreateInvalid :: APIError where
  "ErrAuthzPolicyCreateInvalid = (api_error ''AUTHZ-POLICY-CREATE-004'' 400 ''Invalid policy'')\<lparr>ae_Reason := ''%w''\<rparr>"

definition ErrAuthzPolicyListFailed :: APIError where
  "ErrAuthzPolicyListFailed = api_error ''AUTHZ-POLICY-LIST-001'' 500 ''Failed to list policies''"

definition ErrAuthzPolicyGetFailed :: APIError where
  "ErrAuthzPolicyGetFailed = api_error ''AUTHZ-POLICY-GET-001'' 500 ''Failed to get policy''"

definition ErrAuthzPolicyGetNotFound :: APIError where
  "ErrAuthzPolicyGetNotFound = api_error ''AUTHZ-POLICY-GET-002'' 404 ''Policy not found''"

definition ErrAuthzPolicyUpdateInvalidBody :: APIError where
  "ErrAuthzPolicyUpdateInvalidBody = api_error ''AUTHZ-POLICY-UPDATE-001'' 400 ''Invalid request body''"

definition ErrAuthzPolicyUpdateInvalid :: APIError where
  "ErrAuthzPolicyUpdateInvalid = (api_error ''AUTHZ-POLICY-UPDATE-002'' 400 ''Invalid policy'')\<lparr>ae_Reason := ''%w''\<rparr>"

definition ErrAuthzPolicyDeleteFailed :: APIError where
  "ErrAuthzPolicyDeleteFailed = api_error ''AUTHZ-POLICY-DELETE-001'' 500 ''Failed to delete policy''"

definition ErrAuthzPolicyDeleteInUse :: APIError where
  "ErrAuthzPolicyDeleteInUse = (api_error ''AUTHZ-POLICY-DELETE-002'' 409 ''Cannot delete policy with existing attachments'')\<lparr>ae_Reason := ''%w''\<rparr>"

definition ErrAuthzGroupCreateInvalidBody :: APIError where
  "ErrAuthzGroupCreateInvalidBody = api_error ''AUTHZ-GROUP-CREATE-001'' 400 ''Invalid request body''"

definition ErrAuthzGroupCreateMissingName :: APIError where
  "ErrAuthzGroupCreateMissingName = api_error ''AUTHZ-GROUP-CREATE-002'' 400 ''name is required''"

definition ErrAuthzGroupCreateFailed :: APIError where
  "ErrAuthzGroupCreateFailed = api_error ''AUTHZ-GROUP-CREATE-003'' 500 ''Failed to create group''"

definition ErrAuthzGroupListFailed :: APIError where
  "ErrAuthzGroupListFailed = api_error ''AUTHZ-GROUP-LIST-001'' 500 ''Failed to list groups''"

definition ErrAuthzGroupGetFailed :: APIError where
  "ErrAuthzGroupGetFailed = api_error ''AUTHZ-GROUP-GET-001'' 500 ''Failed to get group''"

definition ErrAuthzGroupGetNotFound :: APIError where
  "ErrAuthzGroupGetNotFound = api_error ''AUTHZ-GROUP-GET-002'' 404 ''Group not found''"

definition ErrAuthzGroupDeleteFailed :: APIError where
  "ErrAuthzGroupDeleteFailed = api_error ''AUTHZ-GROUP-DELETE-001'' 500 ''Failed to delete group''"

definition ErrAuthzGroupMembersUpdateInvalidBody :: APIError where
  "ErrAuthzGroupMembersUpdateInvalidBody = api_error ''AUTHZ-GROUP-MEMBERS-UPDATE-001'' 400 ''Invalid request body''"

definition ErrAuthzGroupMembersUpdateAddFailed :: APIError where
  "ErrAuthzGroupMembersUpdateAddFailed = api_error ''AUTHZ-GROUP-MEMBERS-UPDATE-002'' 500 ''Failed to add group member''"

definition ErrAuthzGroupMembersUpdateRemFailed :: APIError where
  "ErrAuthzGroupMembersUpdateRemFailed = api_error ''AUTHZ-GROUP-MEMBERS-UPDATE-003'' 500 ''Failed to remove group member''"

definition ErrAuthzGroupMembersUpdateListFailed :: APIError where
  "ErrAuthzGroupMembersUpdateListFailed = api_error ''AUTHZ-GROUP-MEMBERS-UPDATE-004'' 500 ''Failed to list group members''"

definition ErrAuthzGroupMembersListFailed :: APIError where
  "ErrAuthzGroupMembersListFailed = api_error ''AUTHZ-GROUP-MEMBERS-LIST-001'' 500 ''Failed to list group members''"

definition ErrAuthzAttachCreateInvalidBody :: APIError where
  "ErrAuthzAttachCreateInvalidBody = api_error ''AUTHZ-ATTACH-CREATE-001'' 400 ''Invalid request body''"

definition ErrAuthzAttachCreateMissingFields :: APIError where
  "ErrAuthzAttachCreateMissingFields = api_error ''AUTHZ-ATTACH-CREATE-002'' 400 ''policyId, targetType, and targetId are required''"

definition ErrAuthzAttachCreateInvalidTarget :: APIError where
  "ErrAuthzAttachCreateInvalidTarget = api_error ''AUTHZ-ATTACH-CREATE-003'' 400 (''targetType must be 'user' or 'group'' @ [CHR 0x27])"

definition ErrAuthzAttachCreateFailed :: APIError where
  "ErrAuthzAttachCreateFailed = (api_error ''AUTHZ-ATTACH-CREATE-004'' 400 ''Failed to attach policy'')\<lparr>ae_Reason := ''%w''\<rparr>"

definition ErrAuthzAttachListFailed :: APIError where
  "ErrAuthzAttachListFailed = api_error ''AUTHZ-ATTACH-LIST-001'' 500 ''Failed to list attachments''"

definition ErrAuthzAttachDeleteFailed :: APIError where
  "ErrAuthzAttachDeleteFailed = api_error ''AUTHZ-ATTACH-DELETE-001'' 500 ''Failed to detach policy''"

definition ErrAuthzAdminAddInvalidBody :: APIError where
  "ErrAuthzAdminAddInvalidBody = api_error ''AUTHZ-ADMIN-ADD-001'' 400 ''Invalid request body''"

definition ErrAuthzAdminAddMissingPrinc :: APIError where
  "ErrAuthzAdminAddMissingPrinc = api_error ''AUTHZ-ADMIN-ADD-002'' 400 ''principalArn is required''"

definition ErrAuthzAdminAddFailed :: APIError where
  "ErrAuthzAdminAddFailed = api_error ''AUTHZ-ADMIN-ADD-003'' 500 ''Failed to add admin''"

definition ErrAuthzAdminListFailed :: APIError where
  "ErrAuthzAdminListFailed = api_error ''AUTHZ-ADMIN-LIST-001'' 500 ''Failed to list admins''"

definition ErrAuthzAdminDeleteFailed :: APIError where
  "ErrAuthzAdminDeleteFailed = api_error ''AUTHZ-ADMIN-DELETE-001'' 500 ''Failed to remove admin''"

definition ErrAuthzCheckInvalidBody :: APIError where
  "ErrAuthzCheckInvalidBody = api_error ''AUTHZ-CHECK-001'' 400 ''Invalid request body''"

definition ErrAuthzCheckMissingPrinc :: APIError where
  "ErrAuthzCheckMissingPrinc = api_error ''AUTHZ-CHECK-002'' 400 ''principal is required''"

definition ErrAuthzCheckMissingAction :: APIError where
  "ErrAuthzCheckMissingAction = api_error ''AUTHZ-CHECK-003'' 400 ''action is required''"

definition ErrAuthzCheckMissingRes :: APIError where
  "ErrAuthzCheckMissingRes = api_error ''AUTHZ-CHECK-004'' 400 ''resource is required''"

definition ErrAuthzCheckFailed :: APIError where
  "ErrAuthzCheckFailed = (api_error ''AUTHZ-CHECK-005'' 500 ''Authorization check failed'')\<lparr>ae_Reason := ''%w''\<rparr>"

definition ErrInfoRegionalAccountUnavailable :: APIError where
  "ErrInfoRegionalAccountUnavailable = api_error ''INFO-001'' 503 ''regional account ID is not configured''"

definition ErrRouteNotFound :: APIError where
  "ErrRouteNotFound = api_error ''ROUTE-001'' 404 ''route not found''"

definition ErrRouteMethodNotAllowed :: APIError where
  "ErrRouteMethodNotAllowed = api_error ''ROUTE-002'' 405 ''method not allowed''"

definition handler_errors :: "APIError list" where
  "handler_errors =
    [ErrClusterList, ErrClusterCreateInvalidBody, ErrClusterCreateMissingFields, ErrClusterCreateFailed,
     ErrClusterCreateNameCheck, ErrClusterCreateOidcConfigLookupFailed, ErrClusterCreateNameConflict,
     ErrClusterCreateNameTooLong, ErrClusterCreateIDExhausted, ErrClusterCreateInvalidSpec,
     ErrClusterCreateOidcConfigRequired, ErrClusterCreateOidcConfigNotFound, ErrClusterCreateOidcConfigNotReady,
     ErrClusterCreateOidcConfigInUse, ErrClusterGetNotFound, ErrClusterGetFailed, ErrClusterUpdateInvalidBody,
     ErrClusterUpdateMissingFields, ErrClusterUpdateNotFound, ErrClusterUpdateFailed, ErrClusterUpdateInvalidSpec,
     ErrClusterDeleteNotFound, ErrClusterDeleteFailed, ErrClusterStatusNotFound, ErrClusterStatusFailed, ErrClusterValidation,
     ErrNodePoolList, ErrNodePoolCreateInvalidBody, ErrNodePoolCreateMissingFields, ErrNodePoolCreateNameConflict,
     ErrNodePoolCreateClusterNotFound, ErrNodePoolCreateClusterCheck, ErrNodePoolCreateInvalidSpec, ErrNodePoolCreateFailed,
     ErrNodePoolCreateInvalidNamespace, ErrNodePoolGetNotFound, ErrNodePoolGetFailed, ErrNodePoolUpdateInvalidBody,
     ErrNodePoolUpdateMissingFields, ErrNodePoolUpdateNotFound, ErrNodePoolUpdateFailed, ErrNodePoolUpdateInvalidSpec,
     ErrNodePoolDeleteNotFound, ErrNodePoolDeleteFailed, ErrNodePoolStatusNotFound, ErrNodePoolStatusFailed,
     ErrNodePoolValidation, ErrOidcConfigList, ErrOidcConfigCreateInvalidBody, ErrOidcConfigCreateMissingFields,
     ErrOidcConfigCreateFailed, ErrOidcConfigCreateInvalidType, ErrOidcConfigCreateInvalidFields,
     ErrOidcConfigCreateDuplicateIssuerUrl, ErrOidcConfigCreateIssuerNotConfigured, ErrOidcConfigGetNotFound,
     ErrOidcConfigGetFailed, ErrOidcConfigDeleteNotFound, ErrOidcConfigDeleteFailed, ErrOidcConfigDeleteInUse,
     ErrAccountCreateInvalidBody, ErrAccountCreateMissingID, ErrAccountCreateCheckFailed, ErrAccountCreateExists,
     ErrAccountCreateFailed, ErrAccountListFailed, ErrAccountGetFailed, ErrAccountGetNotFound, ErrAccountDeleteFailed,
     ErrMCCreateInvalidBody, ErrMCCreateMissingID, ErrMCCreateMissingReg, ErrMCCreateMissingAcct, ErrMCCreateExists,
     ErrMCCreateFailed, ErrMCListFailed, ErrMCGetNotFound, ErrMCGetFailed, ErrAuthzPolicyCreateInvalidBody,
     ErrAuthzPolicyCreateMissingName, ErrAuthzPolicyCreateMissingText, ErrAuthzPolicyCreateInvalid, ErrAuthzPolicyListFailed,
     ErrAuthzPolicyGetFailed, ErrAuthzPolicyGetNotFound, ErrAuthzPolicyUpdateInvalidBody, ErrAuthzPolicyUpdateInvalid,
     ErrAuthzPolicyDeleteFailed, ErrAuthzPolicyDeleteInUse, ErrAuthzGroupCreateInvalidBody, ErrAuthzGroupCreateMissingName,
     ErrAuthzGroupCreateFailed, ErrAuthzGroupListFailed, ErrAuthzGroupGetFailed, ErrAuthzGroupGetNotFound,
     ErrAuthzGroupDeleteFailed, ErrAuthzGroupMembersUpdateInvalidBody, ErrAuthzGroupMembersUpdateAddFailed,
     ErrAuthzGroupMembersUpdateRemFailed, ErrAuthzGroupMembersUpdateListFailed, ErrAuthzGroupMembersListFailed,
     ErrAuthzAttachCreateInvalidBody, ErrAuthzAttachCreateMissingFields, ErrAuthzAttachCreateInvalidTarget,
     ErrAuthzAttachCreateFailed, ErrAuthzAttachListFailed, ErrAuthzAttachDeleteFailed, ErrAuthzAdminAddInvalidBody,
     ErrAuthzAdminAddMissingPrinc, ErrAuthzAdminAddFailed, ErrAuthzAdminListFailed, ErrAuthzAdminDeleteFailed,
     ErrAuthzCheckInvalidBody, ErrAuthzCheckMissingPrinc, ErrAuthzCheckMissingAction, ErrAuthzCheckMissingRes,
     ErrAuthzCheckFailed, ErrInfoRegionalAccountUnavailable, ErrRouteNotFound, ErrRouteMethodNotAllowed]"

lemmas handler_error_defs =
  ErrClusterList_def ErrClusterCreateInvalidBody_def ErrClusterCreateMissingFields_def ErrClusterCreateFailed_def
  ErrClusterCreateNameCheck_def ErrClusterCreateOidcConfigLookupFailed_def ErrClusterCreateNameConflict_def ErrClusterCreateNameTooLong_def
  ErrClusterCreateIDExhausted_def ErrClusterCreateInvalidSpec_def ErrClusterCreateOidcConfigRequired_def ErrClusterCreateOidcConfigNotFound_def
  ErrClusterCreateOidcConfigNotReady_def ErrClusterCreateOidcConfigInUse_def ErrClusterGetNotFound_def ErrClusterGetFailed_def
  ErrClusterUpdateInvalidBody_def ErrClusterUpdateMissingFields_def ErrClusterUpdateNotFound_def ErrClusterUpdateFailed_def
  ErrClusterUpdateInvalidSpec_def ErrClusterDeleteNotFound_def ErrClusterDeleteFailed_def ErrClusterStatusNotFound_def
  ErrClusterStatusFailed_def ErrClusterValidation_def ErrNodePoolList_def ErrNodePoolCreateInvalidBody_def
  ErrNodePoolCreateMissingFields_def ErrNodePoolCreateNameConflict_def ErrNodePoolCreateClusterNotFound_def ErrNodePoolCreateClusterCheck_def
  ErrNodePoolCreateInvalidSpec_def ErrNodePoolCreateFailed_def ErrNodePoolCreateInvalidNamespace_def ErrNodePoolGetNotFound_def
  ErrNodePoolGetFailed_def ErrNodePoolUpdateInvalidBody_def ErrNodePoolUpdateMissingFields_def ErrNodePoolUpdateNotFound_def
  ErrNodePoolUpdateFailed_def ErrNodePoolUpdateInvalidSpec_def ErrNodePoolDeleteNotFound_def ErrNodePoolDeleteFailed_def
  ErrNodePoolStatusNotFound_def ErrNodePoolStatusFailed_def ErrNodePoolValidation_def ErrOidcConfigList_def
  ErrOidcConfigCreateInvalidBody_def ErrOidcConfigCreateMissingFields_def ErrOidcConfigCreateFailed_def ErrOidcConfigCreateInvalidType_def
  ErrOidcConfigCreateInvalidFields_def ErrOidcConfigCreateDuplicateIssuerUrl_def ErrOidcConfigCreateIssuerNotConfigured_def ErrOidcConfigGetNotFound_def
  ErrOidcConfigGetFailed_def ErrOidcConfigDeleteNotFound_def ErrOidcConfigDeleteFailed_def ErrOidcConfigDeleteInUse_def
  ErrAccountCreateInvalidBody_def ErrAccountCreateMissingID_def ErrAccountCreateCheckFailed_def ErrAccountCreateExists_def
  ErrAccountCreateFailed_def ErrAccountListFailed_def ErrAccountGetFailed_def ErrAccountGetNotFound_def
  ErrAccountDeleteFailed_def ErrMCCreateInvalidBody_def ErrMCCreateMissingID_def ErrMCCreateMissingReg_def
  ErrMCCreateMissingAcct_def ErrMCCreateExists_def ErrMCCreateFailed_def ErrMCListFailed_def
  ErrMCGetNotFound_def ErrMCGetFailed_def ErrAuthzPolicyCreateInvalidBody_def ErrAuthzPolicyCreateMissingName_def
  ErrAuthzPolicyCreateMissingText_def ErrAuthzPolicyCreateInvalid_def ErrAuthzPolicyListFailed_def ErrAuthzPolicyGetFailed_def
  ErrAuthzPolicyGetNotFound_def ErrAuthzPolicyUpdateInvalidBody_def ErrAuthzPolicyUpdateInvalid_def ErrAuthzPolicyDeleteFailed_def
  ErrAuthzPolicyDeleteInUse_def ErrAuthzGroupCreateInvalidBody_def ErrAuthzGroupCreateMissingName_def ErrAuthzGroupCreateFailed_def
  ErrAuthzGroupListFailed_def ErrAuthzGroupGetFailed_def ErrAuthzGroupGetNotFound_def ErrAuthzGroupDeleteFailed_def
  ErrAuthzGroupMembersUpdateInvalidBody_def ErrAuthzGroupMembersUpdateAddFailed_def ErrAuthzGroupMembersUpdateRemFailed_def ErrAuthzGroupMembersUpdateListFailed_def
  ErrAuthzGroupMembersListFailed_def ErrAuthzAttachCreateInvalidBody_def ErrAuthzAttachCreateMissingFields_def ErrAuthzAttachCreateInvalidTarget_def
  ErrAuthzAttachCreateFailed_def ErrAuthzAttachListFailed_def ErrAuthzAttachDeleteFailed_def ErrAuthzAdminAddInvalidBody_def
  ErrAuthzAdminAddMissingPrinc_def ErrAuthzAdminAddFailed_def ErrAuthzAdminListFailed_def ErrAuthzAdminDeleteFailed_def
  ErrAuthzCheckInvalidBody_def ErrAuthzCheckMissingPrinc_def ErrAuthzCheckMissingAction_def ErrAuthzCheckMissingRes_def
  ErrAuthzCheckFailed_def ErrInfoRegionalAccountUnavailable_def ErrRouteNotFound_def ErrRouteMethodNotAllowed_def

text \<open>No two failures share a code, and each status is one that \<open>httpStatusToReason\<close> knows.\<close>

lemma handler_codes_distinct: "distinct (map ae_Code handler_errors)"
  by code_simp

lemma handler_statuses_known: "list_all (\<lambda>e. httpStatusToReason (ae_HTTPStatus e) \<noteq> []) handler_errors"
  by code_simp

end
