(* ===== verification/DbClient.thy ===== *)
theory DbClient
  imports CallLog FieldRules ErrorCodes
begin

text \<open>
  The client the handlers use (\<open>platform-api/pkg/clients/hyperfleetdb/client.go\<close>): operations on clusters,
  node pools, manifests, management clusters and OIDC configurations, each scoped to the caller's account
  by a label or a namespace. Every call of the underlying Kubernetes-style client is logged.
\<close>

section \<open>The service and its calls\<close>

datatype svc_call =
    OnCluster "(json, json) kcall"
  | OnNodePool "(json, json) kcall"
  | OnManifest "(json, json) kcall"
  | OnManagementCluster "(json, json) kcall"
  | OnOidcConfig "(json, json) kcall"

text \<open>What the service is given: the client of each kind; the types of other modules and the decoding of
  object metadata; Go's quoting of strings, the JSON form of a time and the parsing of UUIDs to their
  canonical form.\<close>

record 'w svc_env =
  sv_clusters :: "('w, json, json) kind_api"
  sv_nodepools :: "('w, json, json) kind_api"
  sv_manifests :: "('w, json, json) kind_api"
  sv_mcs :: "('w, json, json) kind_api"
  sv_oidcs :: "('w, json, json) kind_api"
  sv_F :: "string \<Rightarrow> schema"
  sv_meta :: "json \<Rightarrow> object"           \<comment> \<open>an object with the metadata of an \<open>ObjectMeta\<close> value\<close>
  sv_quote :: "string \<Rightarrow> string"
  sv_time :: "int \<Rightarrow> json"
  sv_uuid :: "string \<Rightarrow> string option"

type_synonym ('w, 'a) svc = "('w, svc_call, unit, 'a) cprog"

abbreviation clusters :: "'w svc_env \<Rightarrow> ('w, json, json, svc_call) kaccess" where
  "clusters E \<equiv> (sv_clusters E, OnCluster)"
abbreviation nodepools :: "'w svc_env \<Rightarrow> ('w, json, json, svc_call) kaccess" where
  "nodepools E \<equiv> (sv_nodepools E, OnNodePool)"
abbreviation manifests :: "'w svc_env \<Rightarrow> ('w, json, json, svc_call) kaccess" where
  "manifests E \<equiv> (sv_manifests E, OnManifest)"
abbreviation management_clusters :: "'w svc_env \<Rightarrow> ('w, json, json, svc_call) kaccess" where
  "management_clusters E \<equiv> (sv_mcs E, OnManagementCluster)"
abbreviation oidc_configs :: "'w svc_env \<Rightarrow> ('w, json, json, svc_call) kaccess" where
  "oidc_configs E \<equiv> (sv_oidcs E, OnOidcConfig)"

abbreviation account_selector :: "string \<Rightarrow> (string \<times> string) list" where
  "account_selector accountID \<equiv> [(svc_accountIDLabel, accountID)]"

definition setAccountLabel :: "object \<Rightarrow> string \<Rightarrow> object" where
  "setAccountLabel x accountID = x\<lparr>km_Labels := AList.update svc_accountIDLabel accountID (km_Labels x)\<rparr>"

section \<open>Clusters\<close>

text \<open>The first object of a list, or not found.\<close>

definition first_or_not_found :: "kerr + object list \<Rightarrow> kerr + object" where
  "first_or_not_found r = (case r of Inl e \<Rightarrow> Inl e | Inr [] \<Rightarrow> Inl KNotFound | Inr (x # _) \<Rightarrow> Inr x)"

definition CreateCluster :: "'w svc_env \<Rightarrow> string \<Rightarrow> object \<Rightarrow> ('w, kerr + object) svc" where
  "CreateCluster E accountID cluster = kCreate (clusters E) (setAccountLabel cluster accountID)"

definition GetCluster :: "'w svc_env \<Rightarrow> string \<Rightarrow> string \<Rightarrow> ('w, kerr + object) svc" where
  "GetCluster E accountID clusterID = do {
     r \<leftarrow> kList (clusters E) (Some (clusterNamespace clusterID)) (account_selector accountID);
     State_Monad.return (first_or_not_found r) }"

definition ListClusters :: "'w svc_env \<Rightarrow> string \<Rightarrow> ('w, kerr + object list) svc" where
  "ListClusters E accountID = kList (clusters E) None (account_selector accountID)"

definition UpdateCluster :: "'w svc_env \<Rightarrow> object \<Rightarrow> ('w, kerr + object) svc" where
  "UpdateCluster E cluster = kUpdate (clusters E) cluster"

definition DeleteCluster :: "'w svc_env \<Rightarrow> string \<Rightarrow> string \<Rightarrow> ('w, kerr option) svc" where
  "DeleteCluster E accountID clusterID = do {
     r \<leftarrow> GetCluster E accountID clusterID;
     case r of Inl e \<Rightarrow> State_Monad.return (Some e) | Inr cluster \<Rightarrow> kDelete (clusters E) cluster }"

section \<open>Node pools\<close>

definition CreateNodePool :: "'w svc_env \<Rightarrow> string \<Rightarrow> object \<Rightarrow> ('w, kerr + object) svc" where
  "CreateNodePool E accountID np = kCreate (nodepools E) (setAccountLabel np accountID)"

definition GetNodePool :: "'w svc_env \<Rightarrow> string \<Rightarrow> string \<Rightarrow> ('w, kerr + object) svc" where
  "GetNodePool E accountID nodepoolName = do {
     r \<leftarrow> kList (nodepools E) None (account_selector accountID);
     State_Monad.return (case r of
         Inl e \<Rightarrow> Inl e
       | Inr items \<Rightarrow> (case List.find (\<lambda>x. km_Name x = nodepoolName) items of None \<Rightarrow> Inl KNotFound | Some x \<Rightarrow> Inr x)) }"

definition ListNodePools :: "'w svc_env \<Rightarrow> string \<Rightarrow> string \<Rightarrow> ('w, kerr + object list) svc" where
  "ListNodePools E accountID clusterID =
     kList (nodepools E) (if clusterID \<noteq> [] then Some (clusterNamespace clusterID) else None) (account_selector accountID)"

definition UpdateNodePool :: "'w svc_env \<Rightarrow> object \<Rightarrow> ('w, kerr + object) svc" where
  "UpdateNodePool E np = kUpdate (nodepools E) np"

definition DeleteNodePool :: "'w svc_env \<Rightarrow> string \<Rightarrow> string \<Rightarrow> ('w, kerr option) svc" where
  "DeleteNodePool E accountID nodepoolName = do {
     r \<leftarrow> GetNodePool E accountID nodepoolName;
     case r of Inl e \<Rightarrow> State_Monad.return (Some e) | Inr np \<Rightarrow> kDelete (nodepools E) np }"

section \<open>Manifests\<close>

definition CreateManifest :: "'w svc_env \<Rightarrow> string \<Rightarrow> object \<Rightarrow> ('w, kerr + object) svc" where
  "CreateManifest E namespace hfm = kCreate (manifests E) (hfm\<lparr>km_Namespace := namespace\<rparr>)"

definition GetManifest :: "'w svc_env \<Rightarrow> string \<Rightarrow> string \<Rightarrow> ('w, kerr + object) svc" where
  "GetManifest E namespace name = kGet (manifests E) (namespace, name)"

text \<open>An object with a key and nothing else.\<close>

definition bare_object :: "string \<Rightarrow> string \<Rightarrow> json \<Rightarrow> json \<Rightarrow> object" where
  "bare_object namespace name spec status =
     \<lparr>km_Name = name, km_Namespace = namespace, km_UID = [], km_RV = 0, km_Generation = 0, km_Labels = [], km_Annotations = [],
      km_OwnerReferences = [], km_Finalizers = [], km_CreationTimestamp = 0, km_Deletion = None, k_Spec = spec, k_Status = status\<rparr>"

definition DeleteManifest :: "'w svc_env \<Rightarrow> string \<Rightarrow> string \<Rightarrow> ('w, kerr option) svc" where
  "DeleteManifest E namespace name =
     kDelete (manifests E) (bare_object namespace name (zero (i_ManifestSpec (sv_F E))) (zero (i_ManifestStatus (sv_F E))))"

section \<open>Management clusters\<close>

definition CreateManagementCluster :: "'w svc_env \<Rightarrow> object \<Rightarrow> ('w, kerr + object) svc" where
  "CreateManagementCluster E mc = kCreate (management_clusters E) (mc\<lparr>km_Namespace := []\<rparr>)"

definition GetManagementCluster :: "'w svc_env \<Rightarrow> string \<Rightarrow> ('w, kerr + object) svc" where
  "GetManagementCluster E ident = kGet (management_clusters E) ([], ident)"

definition ListManagementClusters :: "'w svc_env \<Rightarrow> ('w, kerr + object list) svc" where
  "ListManagementClusters E = kList (management_clusters E) None []"

section \<open>OIDC configurations\<close>

definition CreateOidcConfig :: "'w svc_env \<Rightarrow> object \<Rightarrow> ('w, kerr + object) svc" where
  "CreateOidcConfig E oc = kCreate (oidc_configs E) oc"

definition GetOidcConfig :: "'w svc_env \<Rightarrow> string \<Rightarrow> string \<Rightarrow> ('w, kerr + object) svc" where
  "GetOidcConfig E accountID configID = kGet (oidc_configs E) (accountNamespace accountID, configID)"

definition ListOidcConfigs :: "'w svc_env \<Rightarrow> string \<Rightarrow> ('w, kerr + object list) svc" where
  "ListOidcConfigs E accountID = kList (oidc_configs E) (Some (accountNamespace accountID)) []"

definition DeleteOidcConfig :: "'w svc_env \<Rightarrow> string \<Rightarrow> string \<Rightarrow> ('w, kerr option) svc" where
  "DeleteOidcConfig E accountID configID = do {
     r \<leftarrow> GetOidcConfig E accountID configID;
     case r of Inl e \<Rightarrow> State_Monad.return (Some e) | Inr oc \<Rightarrow> kDelete (oidc_configs E) oc }"

definition UpdateOidcConfigLastUsedTimestamp :: "'w svc_env \<Rightarrow> string \<Rightarrow> string \<Rightarrow> json \<Rightarrow> ('w, kerr option) svc" where
  "UpdateOidcConfigLastUsedTimestamp E accountID configID ts = do {
     r \<leftarrow> GetOidcConfig E accountID configID;
     case r of
       Inl e \<Rightarrow> State_Monad.return (Some e)
     | Inr oc \<Rightarrow> do {
         u \<leftarrow> kStatusUpdate (oidc_configs E) (oc\<lparr>k_Status := set_field ''lastUsedTimestamp'' ts (k_Status oc)\<rparr>);
         State_Monad.return (case u of Inl e \<Rightarrow> Some e | Inr _ \<Rightarrow> None) } }"

end
