(* ===== verification/Handlers.thy ===== *)
theory Handlers
  imports DbClient
begin

text \<open>
  What the HTTP handlers of \<open>platform-api/pkg/handlers\<close> share: the parts of a request they read, the
  replies they write (\<open>platform-api/pkg/api/response.go\<close>), decoding of request bodies, paging.
\<close>

section \<open>Requests\<close>

text \<open>The body is what its bytes parse to, for a \<open>json.Decoder\<close> the first value of the stream; \<open>None\<close> when
  reading it fails. Bodies that repeat a key within an object are outside the model. Account and caller are the values the middleware put into the context, empty if there is none.\<close>

record svc_request =
  rq_account :: string
  rq_arn :: string
  rq_id :: string                     \<comment> \<open>the path variable \<open>id\<close>\<close>
  rq_limit :: string
  rq_offset :: string
  rq_clusterId :: string
  rq_body :: "raw_message option"

text \<open>\<open>json.Unmarshal\<close> of a body into a fresh value; \<open>None\<close> is an error.\<close>

definition decode_body :: "schema \<Rightarrow> raw_message \<Rightarrow> json option" where
  "decode_body t body =
     (case body of
        RawDoc d \<Rightarrow> (let r = decode t (zero t) d in if snd r then Some (fst r) else None)
      | _ \<Rightarrow> None)"

text \<open>The envelope \<open>struct { Spec json.RawMessage }\<close>: the message under the key \<open>spec\<close>, in any case of letters,
  or nil. \<open>null\<close> is a message, not nil. The text of an empty object is taken to be \<open>{}\<close>, without white space.\<close>

definition envelope_spec :: "raw_message \<Rightarrow> raw_message option" where
  "envelope_spec body =
     (case body of
        RawDoc (JObj kvs) \<Rightarrow>
          Some (fold (\<lambda>(k, d) cur. if field_for [''spec''] k = None then cur else RawDoc d) kvs RawNil)
      | RawDoc JNull \<Rightarrow> Some RawNil
      | _ \<Rightarrow> None)"

text \<open>\<open>json.Unmarshal\<close> into a \<open>map[string]any\<close>; nil and empty maps have no entries.\<close>

definition raw_spec :: "raw_message \<Rightarrow> (string \<times> json) list option" where
  "raw_spec spec =
     (case spec of
        RawDoc d \<Rightarrow> (case go_value d of Some (JObj m) \<Rightarrow> Some m | Some JNull \<Rightarrow> Some [] | _ \<Rightarrow> None)
      | _ \<Rightarrow> None)"

text \<open>A decoded object: its metadata, spec and status.\<close>

definition read_object :: "'w svc_env \<Rightarrow> json \<Rightarrow> object" where
  "read_object E v = (sv_meta E (get_field ''metadata'' v))\<lparr>k_Spec := get_field ''spec'' v, k_Status := get_field ''status'' v\<rparr>"

definition str_field :: "string \<Rightarrow> json \<Rightarrow> string" where
  "str_field n v = (case get_field n v of JStr s \<Rightarrow> s | _ \<Rightarrow> [])"

section \<open>Replies\<close>

datatype payload =
    PObject object
  | PPage "object list option" nat int int    \<comment> \<open>items (\<open>None\<close>: null), total, limit, offset\<close>
  | PJson json
  | PNothing

text \<open>\<open>Panicked\<close>: the handler panicked while it built the reply.\<close>

datatype reply = Failed APIError | Replied int payload | Panicked

definition ErrInternalMarshal :: APIError where
  "ErrInternalMarshal = api_error ''INTERNAL-001'' 500 ''internal server error''"

text \<open>\<open>api.Write\<close>; the data are nil, cannot be marshalled, or marshal to a document.\<close>

definition api_Write :: "headers \<Rightarrow> int \<Rightarrow> json option option \<Rightarrow> response" where
  "api_Write h status data =
     (case data of
        None \<Rightarrow> \<lparr>rsp_status = status, rsp_headers = h, rsp_body = NoBody\<rparr>
      | Some None \<Rightarrow> WriteError h ErrInternalMarshal
      | Some (Some d) \<Rightarrow> \<lparr>rsp_status = status, rsp_headers = h(''Content-Type'' \<mapsto> ''application/json''), rsp_body = OtherBody d\<rparr>)"

definition page_doc :: "(object \<Rightarrow> json) \<Rightarrow> object list option \<Rightarrow> nat \<Rightarrow> int \<Rightarrow> int \<Rightarrow> json" where
  "page_doc show items count limit offset =
     JObj [(''items'', case items of None \<Rightarrow> JNull | Some xs \<Rightarrow> JArr (map show xs)), (''limit'', JNum limit),
           (''offset'', JNum offset), (''total'', JNum (int count))]"

text \<open>The response for a reply, given how objects marshal; \<open>None\<close> after a panic.\<close>

definition respond :: "(object \<Rightarrow> json) \<Rightarrow> headers \<Rightarrow> reply \<Rightarrow> response option" where
  "respond show h r =
     (case r of
        Failed e \<Rightarrow> Some (WriteError h e)
      | Replied status (PObject x) \<Rightarrow> Some (api_Write h status (Some (Some (show x))))
      | Replied status (PPage items count limit offset) \<Rightarrow> Some (api_Write h status (Some (Some (page_doc show items count limit offset))))
      | Replied status (PJson d) \<Rightarrow> Some (api_Write h status (Some (Some d)))
      | Replied status PNothing \<Rightarrow> Some (api_Write h status None)
      | Panicked \<Rightarrow> None)"

definition failed_with :: "string \<Rightarrow> APIError \<Rightarrow> reply" where
  "failed_with reason e = (case WithReason reason e of None \<Rightarrow> Panicked | Some e' \<Rightarrow> Failed e')"

text \<open>The field errors of a refused spec: a Go error that marshals to a list of causes.\<close>

definition validation_error_doc :: "ValidationError \<Rightarrow> json" where
  "validation_error_doc e = JObj [(''field'', JStr (ve_Field e)), (''reason'', JStr (ve_Reason e))]"

definition ValidationErrors_Error :: "ValidationError list \<Rightarrow> string" where
  "ValidationErrors_Error es =
     (if es = [] then ''no validation errors''
      else join_with ''; '' (map (\<lambda>e. ''field '' @ ve_Field e @ '': '' @ ve_Reason e) es))"

definition with_validation :: "ValidationError list \<Rightarrow> APIError \<Rightarrow> reply" where
  "with_validation es e = Failed (WithErrors (GoError (ValidationErrors_Error es) (Some (JArr (map validation_error_doc es)))) e)"

section \<open>Paging\<close>

definition page_limit :: "string \<Rightarrow> int" where
  "page_limit s = (case parse_int s of Some l \<Rightarrow> if 0 < l \<and> l \<le> 100 then l else 50 | None \<Rightarrow> 50)"

definition page_offset :: "string \<Rightarrow> int" where
  "page_offset s = (case parse_int s of Some n \<Rightarrow> if 0 \<le> n then n else 0 | None \<Rightarrow> 0)"

definition page_items :: "int \<Rightarrow> int \<Rightarrow> 'a list \<Rightarrow> 'a list option" where
  "page_items limit offset xs =
     (if int (length xs) \<le> offset then None
      else let stop = min (offset + limit) (int (length xs)) in Some (take (nat (stop - offset)) (drop (nat offset) xs)))"

lemma page_limit_bounds: "0 < page_limit s \<and> page_limit s \<le> 100"
  by (simp add: page_limit_def split: option.splits)

lemma page_items_slice:
  assumes "0 < l" "0 \<le> n"
  shows "(case page_items l n xs of None \<Rightarrow> [] | Some ys \<Rightarrow> ys) = take (nat l) (drop (nat n) xs)"
proof (cases "int (length xs) \<le> n")
  case True
  then have "nat n \<ge> length xs" by linarith
  then show ?thesis using True by (simp add: page_items_def)
next
  case False
  show ?thesis
  proof (cases "n + l \<le> int (length xs)")
    case True
    then show ?thesis using False by (simp add: page_items_def)
  next
    case lt: False
    have "nat (int (length xs) - n) = length (drop (nat n) xs)" "nat l \<ge> length (drop (nat n) xs)"
      using False lt assms by auto
    then show ?thesis using False lt by (simp add: page_items_def min_def)
  qed
qed


end
