(* ===== verification/ClusterHandler.thy ===== *)
theory ClusterHandler
  imports Handlers
begin

text \<open>
  The handlers of clusters (\<open>platform-api/pkg/handlers/cluster.go\<close>). An identifier that the handler generates is
  an argument: \<open>ch_generateID k\<close> is the result of the \<open>k\<close>-th call. So are the two readings of the clock.
\<close>

record ClusterHandler =
  ch_oidcIssuerBaseURL :: string
  ch_defaultClusterExpiration :: int
  ch_generateID :: "nat \<Rightarrow> string"
  ch_now :: int                       \<comment> \<open>when the default expiration is computed\<close>
  ch_used :: int                      \<comment> \<open>when the use of an OIDC configuration is recorded\<close>

section \<open>List and Get\<close>

definition cluster_List :: "'w svc_env \<Rightarrow> svc_request \<Rightarrow> ('w, reply) svc" where
  "cluster_List E q = (let limit = page_limit (rq_limit q); offset = page_offset (rq_offset q) in do {
     r \<leftarrow> ListClusters E (rq_account q);
     State_Monad.return (case r of
         Inl _ \<Rightarrow> Failed ErrClusterList
       | Inr items \<Rightarrow>
           (let clusters = map (InternalToPublicCluster (sv_F E)) items;
                page = (case page_items limit offset clusters of None \<Rightarrow> [] | Some ys \<Rightarrow> ys)
            in Replied 200 (PPage (Some page) (length clusters) limit offset))) })"

definition cluster_Get :: "'w svc_env \<Rightarrow> svc_request \<Rightarrow> ('w, reply) svc" where
  "cluster_Get E q = do {
     r \<leftarrow> GetCluster E (rq_account q) (rq_id q);
     State_Monad.return (case r of
         Inl KNotFound \<Rightarrow> Failed ErrClusterGetNotFound
       | Inl _ \<Rightarrow> Failed ErrClusterGetFailed
       | Inr cr \<Rightarrow> Replied 200 (PObject (InternalToPublicCluster (sv_F E) cr))) }"

section \<open>Create\<close>

definition oidcConfigReferencedBy :: "object list \<Rightarrow> string \<Rightarrow> bool" where
  "oidcConfigReferencedBy items oidcConfigID = list_ex (\<lambda>c. str_field ''oidcConfigId'' (k_Spec c) = oidcConfigID) items"

definition isOidcConfigInUse :: "'w svc_env \<Rightarrow> string \<Rightarrow> string \<Rightarrow> ('w, kerr + bool) svc" where
  "isOidcConfigInUse E accountID oidcConfigID = do {
     r \<leftarrow> ListClusters E accountID;
     State_Monad.return (case r of Inl e \<Rightarrow> Inl e | Inr items \<Rightarrow> Inr (oidcConfigReferencedBy items oidcConfigID)) }"

definition oidc_not_ready :: "object \<Rightarrow> bool" where
  "oidc_not_ready oc \<longleftrightarrow> str_field ''phase'' (k_Status oc) = ''Error''
     \<or> str_field ''type'' (k_Spec oc) = ''unmanaged'' \<and> str_field ''phase'' (k_Status oc) \<noteq> ''Ready''"

definition oidc_in_use :: "'w svc_env \<Rightarrow> string \<Rightarrow> reply" where
  "oidc_in_use E oidcConfigID =
     failed_with (''an OidcConfig backs at most one cluster; '' @ sv_quote E oidcConfigID @ '' is already in use'') ErrClusterCreateOidcConfigInUse"

definition resolveOidcConfig :: "'w svc_env \<Rightarrow> string \<Rightarrow> string \<Rightarrow> object list \<Rightarrow> ('w, reply + object option) svc" where
  "resolveOidcConfig E accountID oidcConfigID existingClusters =
     (if oidcConfigID = [] then State_Monad.return (Inr None)
      else do {
        r \<leftarrow> GetOidcConfig E accountID oidcConfigID;
        State_Monad.return (case r of
            Inl KNotFound \<Rightarrow> Inl (Failed ErrClusterCreateOidcConfigNotFound)
          | Inl _ \<Rightarrow> Inl (Failed ErrClusterCreateOidcConfigLookupFailed)
          | Inr oc \<Rightarrow>
              if oidc_not_ready oc then Inl (Failed ErrClusterCreateOidcConfigNotReady)
              else if oidcConfigReferencedBy existingClusters oidcConfigID then Inl (oidc_in_use E oidcConfigID)
              else Inr (Some oc)) })"

definition default_expiration :: "'w svc_env \<Rightarrow> ClusterHandler \<Rightarrow> object \<Rightarrow> object" where
  "default_expiration E h req =
     (if 0 < ch_defaultClusterExpiration h \<and> get_field ''expirationTimestamp'' (k_Spec req) = JNull
      then req\<lparr>k_Spec := set_field ''expirationTimestamp'' (sv_time E (ch_now h + ch_defaultClusterExpiration h)) (k_Spec req)\<rparr>
      else req)"

definition set_issuer :: "string \<Rightarrow> json \<Rightarrow> json" where
  "set_issuer url spec = set_field ''hostedCluster'' (set_field ''issuerURL'' (JStr url) (get_field ''hostedCluster'' spec)) spec"

text \<open>The stored form of a new cluster with the fields that the handler derives.\<close>

definition new_cluster :: "'w svc_env \<Rightarrow> ClusterHandler \<Rightarrow> svc_request \<Rightarrow> object \<Rightarrow> object option \<Rightarrow> string \<Rightarrow> object" where
  "new_cluster E h q req oidcConfig clusterID =
     (let cr = PublicToInternalCluster (sv_F E) req (rq_account q) clusterID;
          spec1 = (if rq_arn q \<noteq> [] then set_field ''creatorARN'' (JStr (rq_arn q)) (k_Spec cr) else k_Spec cr);
          spec2 = (case oidcConfig of
                     Some oc \<Rightarrow> set_issuer (str_field ''issuerUrl'' (k_Spec oc)) spec1
                   | None \<Rightarrow> if ch_oidcIssuerBaseURL h \<noteq> [] then set_issuer (ch_oidcIssuerBaseURL h @ ''/'' @ clusterID) spec1 else spec1)
      in cr\<lparr>k_Spec := spec2\<rparr>)"

definition cluster_created :: "'w svc_env \<Rightarrow> ClusterHandler \<Rightarrow> svc_request \<Rightarrow> object \<Rightarrow> object option \<Rightarrow> object \<Rightarrow> ('w, reply) svc" where
  "cluster_created E h q req oidcConfig cr = do {
     _ \<leftarrow> (case oidcConfig of
            None \<Rightarrow> State_Monad.return None
          | Some _ \<Rightarrow> UpdateOidcConfigLastUsedTimestamp E (rq_account q) (str_field ''oidcConfigId'' (k_Spec req)) (sv_time E (ch_used h)));
     State_Monad.return (Replied 201 (PObject (InternalToPublicCluster (sv_F E) cr))) }"

text \<open>What is done about a create that found its object there already: check again whether the OIDC
  configuration is in use, else go on with \<open>retry\<close>.\<close>

definition cluster_conflict :: "'w svc_env \<Rightarrow> svc_request \<Rightarrow> object \<Rightarrow> ('w, reply) svc \<Rightarrow> ('w, reply) svc" where
  "cluster_conflict E q req retry = (let config = str_field ''oidcConfigId'' (k_Spec req) in
     if config = [] then retry
     else do {
       inUse \<leftarrow> isOidcConfigInUse E (rq_account q) config;
       case inUse of
         Inr True \<Rightarrow> State_Monad.return (oidc_in_use E config)
       | _ \<Rightarrow> retry })"

definition maxHash4Retries :: nat where "maxHash4Retries = 5"

text \<open>The attempts that are left, and the number of the identifier to use. The loop never runs out without a
  reply, since the last attempt answers.\<close>

fun create_attempts :: "'w svc_env \<Rightarrow> ClusterHandler \<Rightarrow> svc_request \<Rightarrow> object \<Rightarrow> object option \<Rightarrow> nat \<Rightarrow> nat \<Rightarrow> ('w, reply) svc" where
  "create_attempts E h q req0 oidcConfig 0 k = State_Monad.return (Replied 200 PNothing)"
| "create_attempts E h q req0 oidcConfig (Suc n) k = (let req = default_expiration E h req0 in do {
     r \<leftarrow> CreateCluster E (rq_account q) (new_cluster E h q req oidcConfig (ch_generateID h k));
     case r of
       Inr cr \<Rightarrow> cluster_created E h q req oidcConfig cr
     | Inl KAlreadyExists \<Rightarrow>
         cluster_conflict E q req
           (if n > 0 then create_attempts E h q req oidcConfig n (Suc k)
            else State_Monad.return (Failed ErrClusterCreateIDExhausted))
     | Inl _ \<Rightarrow> State_Monad.return (Failed ErrClusterCreateFailed) })"

text \<open>A request that passed the checks of its body.\<close>

definition cluster_create_valid :: "'w svc_env \<Rightarrow> ClusterHandler \<Rightarrow> svc_request \<Rightarrow> object \<Rightarrow> ('w, reply) svc" where
  "cluster_create_valid E h q req = do {
     r \<leftarrow> ListClusters E (rq_account q);
     case r of
       Inl _ \<Rightarrow> State_Monad.return (Failed ErrClusterCreateNameCheck)
     | Inr existing \<Rightarrow>
         if list_ex (\<lambda>c. km_Name c = km_Name req) existing
         then State_Monad.return (failed_with (''a cluster named '' @ sv_quote E (km_Name req) @ '' already exists in this account'') ErrClusterCreateNameConflict)
         else do {
           oidc \<leftarrow> resolveOidcConfig E (rq_account q) (str_field ''oidcConfigId'' (k_Spec req)) existing;
           case oidc of
             Inl reply \<Rightarrow> State_Monad.return reply
           | Inr oidcConfig \<Rightarrow> create_attempts E h q req oidcConfig maxHash4Retries 0 } }"

text \<open>The checks of the body: the answer that refuses it, or the decoded object.\<close>

definition parse_cluster_create :: "'w svc_env \<Rightarrow> raw_message option \<Rightarrow> reply + object" where
  "parse_cluster_create E body =
     (case body of
        None \<Rightarrow> Inl (Failed ErrClusterCreateInvalidBody)
      | Some raw \<Rightarrow>
          (case decode_body (p_Cluster (sv_F E)) raw of
             None \<Rightarrow> Inl (Failed ErrClusterCreateInvalidBody)
           | Some v \<Rightarrow>
               (let req = read_object E v; spec = (case envelope_spec raw of None \<Rightarrow> RawNil | Some s \<Rightarrow> s)
                in if km_Name req = [] \<or> spec = RawNil \<or> spec = RawDoc (JObj []) \<or> spec = RawDoc JNull
                   then Inl (Failed ErrClusterCreateMissingFields)
                   else case raw_spec spec of
                          None \<Rightarrow> Inl (Failed ErrClusterCreateInvalidBody)
                        | Some m \<Rightarrow>
                            if m = [] then Inl (Failed ErrClusterCreateMissingFields)
                            else if MaxClusterNameLen < length (km_Name req) then Inl (Failed ErrClusterCreateNameTooLong)
                            else case ValidateCreate ''Cluster'' (Some (marshal (p_ClusterSpec (sv_F E)) (k_Spec req))) DefaultSet of
                                   [] \<Rightarrow> Inr req
                                 | es \<Rightarrow> Inl (with_validation es ErrClusterValidation))))"

definition cluster_Create :: "'w svc_env \<Rightarrow> ClusterHandler \<Rightarrow> svc_request \<Rightarrow> ('w, reply) svc" where
  "cluster_Create E h q =
     (case parse_cluster_create E (rq_body q) of
        Inl reply \<Rightarrow> State_Monad.return reply
      | Inr req \<Rightarrow> cluster_create_valid E h q req)"

section \<open>Update and Delete\<close>

text \<open>A stored cluster and the raw spec that is to be merged into it.\<close>

definition cluster_merge :: "'w svc_env \<Rightarrow> raw_message \<Rightarrow> object \<Rightarrow> reply + object" where
  "cluster_merge E spec cr =
     (case raw_spec spec of
        None \<Rightarrow> Inl (Failed ErrClusterUpdateInvalidBody)
      | Some m \<Rightarrow>
          if m = [] then Inl (Failed ErrClusterUpdateMissingFields)
          else case ValidateUpdate ''Cluster'' (Some (JObj m)) (Some (marshal (i_ClusterSpec (sv_F E)) (k_Spec cr))) DefaultSet of
                 [] \<Rightarrow> (case MergeSpecJSON (i_ClusterSpec (sv_F E)) (k_Spec cr) spec of
                         (merged, ok) \<Rightarrow> if ok then Inr (cr\<lparr>k_Spec := merged\<rparr>) else Inl (Failed ErrClusterUpdateInvalidSpec))
               | es \<Rightarrow> Inl (with_validation es ErrClusterValidation))"

definition cluster_update_spec :: "'w svc_env \<Rightarrow> svc_request \<Rightarrow> raw_message \<Rightarrow> ('w, reply) svc" where
  "cluster_update_spec E q spec = do {
     r \<leftarrow> GetCluster E (rq_account q) (rq_id q);
     case r of
       Inl KNotFound \<Rightarrow> State_Monad.return (Failed ErrClusterUpdateNotFound)
     | Inl _ \<Rightarrow> State_Monad.return (Failed ErrClusterUpdateFailed)
     | Inr cr \<Rightarrow>
         (case cluster_merge E spec cr of
            Inl reply \<Rightarrow> State_Monad.return reply
          | Inr cr' \<Rightarrow> do {
              u \<leftarrow> UpdateCluster E cr';
              State_Monad.return (case u of
                  Inl _ \<Rightarrow> Failed ErrClusterUpdateFailed
                | Inr updated \<Rightarrow> Replied 200 (PObject (InternalToPublicCluster (sv_F E) updated))) }) }"

definition cluster_Update :: "'w svc_env \<Rightarrow> svc_request \<Rightarrow> ('w, reply) svc" where
  "cluster_Update E q =
     (case rq_body q of
        None \<Rightarrow> State_Monad.return (Failed ErrClusterUpdateInvalidBody)
      | Some raw \<Rightarrow>
          (case envelope_spec raw of
             None \<Rightarrow> State_Monad.return (Failed ErrClusterUpdateInvalidBody)
           | Some spec \<Rightarrow>
               if spec = RawNil \<or> spec = RawDoc (JObj []) then State_Monad.return (Failed ErrClusterUpdateMissingFields)
               else cluster_update_spec E q spec))"

definition cluster_Delete :: "'w svc_env \<Rightarrow> svc_request \<Rightarrow> ('w, reply) svc" where
  "cluster_Delete E q = do {
     r \<leftarrow> DeleteCluster E (rq_account q) (rq_id q);
     State_Monad.return (case r of
         Some KNotFound \<Rightarrow> Failed ErrClusterDeleteNotFound
       | Some _ \<Rightarrow> Failed ErrClusterDeleteFailed
       | None \<Rightarrow> Replied 202 (PJson (JObj [(''cluster_id'', JStr (rq_id q)), (''message'', JStr ''Cluster deletion initiated'')]))) }"

end
