(* ===== verification/ResourceHandlers.thy ===== *)
theory ResourceHandlers
  imports ClusterHandler
begin

text \<open>
  The handlers of node pools, OIDC configurations and management clusters
  (\<open>nodepool.go\<close>, \<open>oidcconfig.go\<close>, \<open>management_cluster.go\<close>, \<open>redact.go\<close> of \<open>platform-api/pkg/handlers\<close>).
\<close>

section \<open>Node pools\<close>

definition nodepool_List :: "'w svc_env \<Rightarrow> svc_request \<Rightarrow> ('w, reply) svc" where
  "nodepool_List E q = (let limit = page_limit (rq_limit q); offset = page_offset (rq_offset q) in do {
     r \<leftarrow> ListNodePools E (rq_account q) (rq_clusterId q);
     State_Monad.return (case r of
         Inl _ \<Rightarrow> Failed ErrNodePoolList
       | Inr items \<Rightarrow>
           (let nodepools = map (InternalToPublicNodePool (sv_F E)) items
            in Replied 200 (PPage (page_items limit offset nodepools) (length nodepools) limit offset))) })"

text \<open>The cluster a namespace names: the canonical form \<open>cluster-<uuid>\<close> only.\<close>

definition canonical_cluster :: "'w svc_env \<Rightarrow> string \<Rightarrow> string option" where
  "canonical_cluster E namespace =
     (case sv_uuid E (clusterIDFromNamespace namespace) of
        None \<Rightarrow> None
      | Some parsed \<Rightarrow> if namespace = clusterNSPrefix @ parsed then Some parsed else None)"

definition parse_nodepool_create :: "'w svc_env \<Rightarrow> raw_message option \<Rightarrow> reply + (object \<times> string)" where
  "parse_nodepool_create E body =
     (case (case body of None \<Rightarrow> None | Some raw \<Rightarrow> decode_body (p_NodePool (sv_F E)) raw) of
        None \<Rightarrow> Inl (Failed ErrNodePoolCreateInvalidBody)
      | Some v \<Rightarrow>
          (let req = read_object E v
           in if km_Name req = [] \<or> km_Namespace req = [] then Inl (Failed ErrNodePoolCreateMissingFields)
              else case canonical_cluster E (km_Namespace req) of
                     None \<Rightarrow> Inl (Failed ErrNodePoolCreateInvalidNamespace)
                   | Some clusterID \<Rightarrow>
                       (case ValidateCreate ''NodePool'' (Some (marshal (p_NodePoolSpec (sv_F E)) (k_Spec req))) DefaultSet of
                          [] \<Rightarrow> Inr (req, clusterID)
                        | es \<Rightarrow> Inl (with_validation es ErrNodePoolValidation))))"

text \<open>\<open>internalPoolID\<close> is the new UUID.\<close>

definition nodepool_Create :: "'w svc_env \<Rightarrow> string \<Rightarrow> svc_request \<Rightarrow> ('w, reply) svc" where
  "nodepool_Create E internalPoolID q =
     (case parse_nodepool_create E (rq_body q) of
        Inl reply \<Rightarrow> State_Monad.return reply
      | Inr (req, clusterID) \<Rightarrow> do {
          g \<leftarrow> GetCluster E (rq_account q) clusterID;
          case g of
            Inl KNotFound \<Rightarrow> State_Monad.return (Failed ErrNodePoolCreateClusterNotFound)
          | Inl _ \<Rightarrow> State_Monad.return (Failed ErrNodePoolCreateClusterCheck)
          | Inr _ \<Rightarrow> do {
              r \<leftarrow> CreateNodePool E (rq_account q) (PublicToInternalNodePool (sv_F E) req (rq_account q) clusterID internalPoolID);
              State_Monad.return (case r of
                  Inl KAlreadyExists \<Rightarrow> Failed ErrNodePoolCreateNameConflict
                | Inl _ \<Rightarrow> Failed ErrNodePoolCreateFailed
                | Inr cr \<Rightarrow> Replied 201 (PObject (InternalToPublicNodePool (sv_F E) cr))) } })"

definition nodepool_Get :: "'w svc_env \<Rightarrow> svc_request \<Rightarrow> ('w, reply) svc" where
  "nodepool_Get E q = do {
     r \<leftarrow> GetNodePool E (rq_account q) (rq_id q);
     State_Monad.return (case r of
         Inl KNotFound \<Rightarrow> Failed ErrNodePoolGetNotFound
       | Inl _ \<Rightarrow> Failed ErrNodePoolGetFailed
       | Inr cr \<Rightarrow> Replied 200 (PObject (InternalToPublicNodePool (sv_F E) cr))) }"

text \<open>The typed spec of the request is validated; the raw one is merged.\<close>

definition nodepool_merge :: "'w svc_env \<Rightarrow> raw_message \<Rightarrow> json \<Rightarrow> object \<Rightarrow> reply + object" where
  "nodepool_merge E raw reqSpec cr =
     (case ValidateUpdate ''NodePool'' (Some (marshal (p_NodePoolSpec (sv_F E)) reqSpec)) (Some (marshal (i_NodePoolSpec (sv_F E)) (k_Spec cr))) DefaultSet of
        [] \<Rightarrow>
          (case envelope_spec raw of
             None \<Rightarrow> Inl (Failed ErrNodePoolUpdateInvalidBody)
           | Some spec \<Rightarrow>
               (case raw_spec spec of
                  None \<Rightarrow> Inl (Failed ErrNodePoolUpdateInvalidBody)
                | Some m \<Rightarrow>
                    if m = [] then Inl (Failed ErrNodePoolUpdateMissingFields)
                    else (case MergeSpecJSON (i_NodePoolSpec (sv_F E)) (k_Spec cr) spec of
                            (merged, ok) \<Rightarrow> if ok then Inr (cr\<lparr>k_Spec := merged\<rparr>) else Inl (Failed ErrNodePoolUpdateInvalidSpec))))
      | es \<Rightarrow> Inl (with_validation es ErrNodePoolValidation))"

definition nodepool_Update :: "'w svc_env \<Rightarrow> svc_request \<Rightarrow> ('w, reply) svc" where
  "nodepool_Update E q =
     (case rq_body q of
        None \<Rightarrow> State_Monad.return (Failed ErrNodePoolUpdateInvalidBody)
      | Some raw \<Rightarrow>
          (case decode_body (p_NodePool (sv_F E)) raw of
             None \<Rightarrow> State_Monad.return (Failed ErrNodePoolUpdateInvalidBody)
           | Some v \<Rightarrow> do {
               r \<leftarrow> GetNodePool E (rq_account q) (rq_id q);
               case r of
                 Inl KNotFound \<Rightarrow> State_Monad.return (Failed ErrNodePoolUpdateNotFound)
               | Inl _ \<Rightarrow> State_Monad.return (Failed ErrNodePoolUpdateFailed)
               | Inr cr \<Rightarrow>
                   (case nodepool_merge E raw (get_field ''spec'' v) cr of
                      Inl reply \<Rightarrow> State_Monad.return reply
                    | Inr cr' \<Rightarrow> do {
                        u \<leftarrow> UpdateNodePool E cr';
                        State_Monad.return (case u of
                            Inl _ \<Rightarrow> Failed ErrNodePoolUpdateFailed
                          | Inr updated \<Rightarrow> Replied 200 (PObject (InternalToPublicNodePool (sv_F E) updated))) }) }))"

definition nodepool_Delete :: "'w svc_env \<Rightarrow> svc_request \<Rightarrow> ('w, reply) svc" where
  "nodepool_Delete E q = do {
     r \<leftarrow> DeleteNodePool E (rq_account q) (rq_id q);
     State_Monad.return (case r of
         Some KNotFound \<Rightarrow> Failed ErrNodePoolDeleteNotFound
       | Some _ \<Rightarrow> Failed ErrNodePoolDeleteFailed
       | None \<Rightarrow> Replied 202 (PJson (JObj [(''message'', JStr ''NodePool deletion initiated''), (''nodepool_id'', JStr (rq_id q))]))) }"

section \<open>OIDC configurations\<close>

definition oidcconfig_List :: "'w svc_env \<Rightarrow> svc_request \<Rightarrow> ('w, reply) svc" where
  "oidcconfig_List E q = (let limit = page_limit (rq_limit q); offset = page_offset (rq_offset q) in do {
     r \<leftarrow> ListOidcConfigs E (rq_account q);
     State_Monad.return (case r of
         Inl _ \<Rightarrow> Failed ErrOidcConfigList
       | Inr items \<Rightarrow>
           (let configs = map (InternalToPublicOidcConfig (sv_F E)) items;
                page = (case page_items limit offset configs of None \<Rightarrow> [] | Some ys \<Rightarrow> ys)
            in Replied 200 (PPage (Some page) (length configs) limit offset))) })"

definition check_oidc_fields :: "json \<Rightarrow> APIError option" where
  "check_oidc_fields spec =
     (if str_field ''type'' spec = [] then Some ErrOidcConfigCreateMissingFields
      else if str_field ''type'' spec \<noteq> ''managed'' \<and> str_field ''type'' spec \<noteq> ''unmanaged'' then Some ErrOidcConfigCreateInvalidType
      else if str_field ''type'' spec = ''managed''
        then if str_field ''secretArn'' spec \<noteq> [] \<or> str_field ''installerRoleArn'' spec \<noteq> [] then Some ErrOidcConfigCreateInvalidFields else None
      else if str_field ''secretArn'' spec = [] \<or> str_field ''installerRoleArn'' spec = [] \<or> str_field ''issuerUrl'' spec = []
        then Some ErrOidcConfigCreateInvalidFields
      else None)"

definition parse_oidc_create :: "'w svc_env \<Rightarrow> raw_message option \<Rightarrow> reply + object" where
  "parse_oidc_create E body =
     (case body of
        None \<Rightarrow> Inl (Failed ErrOidcConfigCreateInvalidBody)
      | Some raw \<Rightarrow>
          (case decode_body (p_OidcConfig (sv_F E)) raw of
             None \<Rightarrow> Inl (Failed ErrOidcConfigCreateInvalidBody)
           | Some v \<Rightarrow>
               (let req = read_object E v; spec = (case envelope_spec raw of None \<Rightarrow> RawNil | Some s \<Rightarrow> s)
                in if spec = RawNil \<or> spec = RawDoc (JObj []) \<or> spec = RawDoc JNull then Inl (Failed ErrOidcConfigCreateMissingFields)
                   else case raw_spec spec of
                          None \<Rightarrow> Inl (Failed ErrOidcConfigCreateInvalidBody)
                        | Some m \<Rightarrow>
                            if m = [] then Inl (Failed ErrOidcConfigCreateMissingFields)
                            else (case check_oidc_fields (k_Spec req) of Some e \<Rightarrow> Inl (Failed e) | None \<Rightarrow> Inr req))))"

definition TrimRight_slash :: "string \<Rightarrow> string" where
  "TrimRight_slash s = rev (dropWhile (\<lambda>c. c = CHR ''/'') (rev s))"

text \<open>The issuer URL of a managed configuration is derived; without a base URL it is refused (\<open>None\<close>).\<close>

definition with_issuer :: "string \<Rightarrow> string \<Rightarrow> object \<Rightarrow> object option" where
  "with_issuer baseURL configID req =
     (if str_field ''type'' (k_Spec req) = ''managed''
      then if baseURL = [] then None
           else Some (req\<lparr>k_Spec := set_field ''issuerUrl'' (JStr (TrimRight_slash baseURL @ ''/'' @ configID)) (k_Spec req)\<rparr>)
      else Some req)"

definition oidcconfig_Create :: "'w svc_env \<Rightarrow> string \<Rightarrow> string \<Rightarrow> svc_request \<Rightarrow> ('w, reply) svc" where
  "oidcconfig_Create E baseURL configID q =
     (case parse_oidc_create E (rq_body q) of
        Inl reply \<Rightarrow> State_Monad.return reply
      | Inr req0 \<Rightarrow>
          (case with_issuer baseURL configID req0 of
             None \<Rightarrow> State_Monad.return (Failed ErrOidcConfigCreateIssuerNotConfigured)
           | Some req \<Rightarrow> do {
               r \<leftarrow> CreateOidcConfig E (PublicToInternalOidcConfig (sv_F E) req (rq_account q) configID);
               State_Monad.return (case r of
                   Inl KAlreadyExists \<Rightarrow> Failed ErrOidcConfigCreateDuplicateIssuerUrl
                 | Inl _ \<Rightarrow> Failed ErrOidcConfigCreateFailed
                 | Inr cr \<Rightarrow> Replied 201 (PObject (InternalToPublicOidcConfig (sv_F E) cr))) }))"

definition oidcconfig_Get :: "'w svc_env \<Rightarrow> svc_request \<Rightarrow> ('w, reply) svc" where
  "oidcconfig_Get E q = do {
     r \<leftarrow> GetOidcConfig E (rq_account q) (rq_id q);
     State_Monad.return (case r of
         Inl KNotFound \<Rightarrow> Failed ErrOidcConfigGetNotFound
       | Inl _ \<Rightarrow> Failed ErrOidcConfigGetFailed
       | Inr cr \<Rightarrow> Replied 200 (PObject (InternalToPublicOidcConfig (sv_F E) cr))) }"

definition oidcconfig_Delete :: "'w svc_env \<Rightarrow> svc_request \<Rightarrow> ('w, reply) svc" where
  "oidcconfig_Delete E q = do {
     c \<leftarrow> ListClusters E (rq_account q);
     case c of
       Inl _ \<Rightarrow> State_Monad.return (Failed ErrOidcConfigDeleteFailed)
     | Inr items \<Rightarrow>
         if list_ex (\<lambda>x. str_field ''oidcConfigId'' (k_Spec x) = rq_id q) items then State_Monad.return (Failed ErrOidcConfigDeleteInUse)
         else do {
           r \<leftarrow> DeleteOidcConfig E (rq_account q) (rq_id q);
           State_Monad.return (case r of
               Some KNotFound \<Rightarrow> Failed ErrOidcConfigDeleteNotFound
             | Some _ \<Rightarrow> Failed ErrOidcConfigDeleteFailed
             | None \<Rightarrow> Replied 202 (PJson (JObj [(''config_id'', JStr (rq_id q)), (''message'', JStr ''OIDC config deletion initiated'')]))) } }"

section \<open>Management clusters\<close>

definition ManagementClusterCreateRequest :: schema where
  "ManagementClusterCreateRequest = TStruct [(''id'', Keep, TString), (''region'', Keep, TString), (''accountId'', Keep, TString)]"

definition mcToResponse :: "object \<Rightarrow> json" where
  "mcToResponse mc = JObj [(''id'', JStr (km_Name mc)), (''region'', JStr (str_field ''region'' (k_Spec mc))),
     (''accountId'', JStr (str_field ''accountId'' (k_Spec mc)))]"

definition new_management_cluster :: "'w svc_env \<Rightarrow> json \<Rightarrow> object" where
  "new_management_cluster E req =
     bare_object [] (str_field ''id'' req)
       (set_field ''accountId'' (JStr (str_field ''accountId'' req))
         (set_field ''region'' (JStr (str_field ''region'' req)) (zero (i_ManagementClusterSpec (sv_F E)))))
       (zero (i_ManagementClusterStatus (sv_F E)))"

text \<open>A request without content (\<open>RawNil\<close>) counts as an empty one; one whose body cannot be read is invalid.\<close>

definition mc_Create :: "'w svc_env \<Rightarrow> svc_request \<Rightarrow> ('w, reply) svc" where
  "mc_Create E q =
     (case (case rq_body q of
              None \<Rightarrow> None
            | Some RawNil \<Rightarrow> Some (zero ManagementClusterCreateRequest)
            | Some raw \<Rightarrow> decode_body ManagementClusterCreateRequest raw) of
        None \<Rightarrow> State_Monad.return (Failed ErrMCCreateInvalidBody)
      | Some req \<Rightarrow>
          if str_field ''id'' req = [] then State_Monad.return (Failed ErrMCCreateMissingID)
          else if str_field ''region'' req = [] then State_Monad.return (Failed ErrMCCreateMissingReg)
          else if str_field ''accountId'' req = [] then State_Monad.return (Failed ErrMCCreateMissingAcct)
          else do {
            r \<leftarrow> CreateManagementCluster E (new_management_cluster E req);
            State_Monad.return (case r of
                Inl KAlreadyExists \<Rightarrow> failed_with (''management cluster already registered: '' @ str_field ''id'' req) ErrMCCreateExists
              | Inl _ \<Rightarrow> Failed ErrMCCreateFailed
              | Inr mc \<Rightarrow> Replied 201 (PJson (mcToResponse mc))) })"

definition mc_List :: "'w svc_env \<Rightarrow> svc_request \<Rightarrow> ('w, reply) svc" where
  "mc_List E q = do {
     r \<leftarrow> ListManagementClusters E;
     State_Monad.return (case r of
         Inl _ \<Rightarrow> Failed ErrMCListFailed
       | Inr items \<Rightarrow> Replied 200 (PJson (JObj [(''items'', JArr (map mcToResponse items)), (''kind'', JStr ''ManagementClusterList''),
           (''total'', JNum (int (length items)))]))) }"

definition mc_Get :: "'w svc_env \<Rightarrow> svc_request \<Rightarrow> ('w, reply) svc" where
  "mc_Get E q = do {
     r \<leftarrow> GetManagementCluster E (rq_id q);
     State_Monad.return (case r of
         Inl KNotFound \<Rightarrow> Failed ErrMCGetNotFound
       | Inl _ \<Rightarrow> Failed ErrMCGetFailed
       | Inr mc \<Rightarrow> Replied 200 (PJson (mcToResponse mc))) }"

text \<open>\<open>redact\<close> on the characters of an identifier: the first half, rounded up, is masked.\<close>

definition redact :: "string \<Rightarrow> string" where
  "redact s = (if s = [] then s else let half = (length s + 1) div 2 in replicate half (CHR ''*'') @ drop half s)"

lemma redact_hides:
  "length (redact s) = length s" "length s \<le> 2 * length (filter (\<lambda>(a, b). a = CHR ''*'') (zip (redact s) s))"
proof -
  let ?h = "(length s + 1) div 2"
  show "length (redact s) = length s" by (cases s) (auto simp: redact_def Let_def)
  have "filter (\<lambda>(a, b). a = CHR ''*'') (zip (replicate ?h (CHR ''*'')) (take ?h s)) = zip (replicate ?h (CHR ''*'')) (take ?h s)"
    by (auto simp: filter_id_conv set_zip)
  moreover have "zip (redact s) s = zip (replicate ?h (CHR ''*'')) (take ?h s) @ zip (drop ?h s) (drop ?h s)" if "s \<noteq> []"
    using that zip_append [of "replicate ?h (CHR ''*'')" "take ?h s" "drop ?h s" "drop ?h s"] by (simp add: redact_def Let_def)
  ultimately show "length s \<le> 2 * length (filter (\<lambda>(a, b). a = CHR ''*'') (zip (redact s) s))"
    by (cases "s = []") (auto simp: min_def)
qed

end
