(* ===== verification/HandlerProps.thy ===== *)
theory HandlerProps
  imports ResourceHandlers
begin

text \<open>
  The handlers stay within the account of the caller: whatever the clients answer, every object they read,
  create, change or delete is one of that account.
\<close>

section \<open>Calls within an account\<close>

text \<open>Clusters and node pools carry the account as a label; OIDC configurations live in its namespace. An
  object is changed or deleted only as one that was seen by such a read before.\<close>

fun by_label :: "string \<Rightarrow> (object \<Rightarrow> bool) \<Rightarrow> (json, json) kcall \<Rightarrow> bool" where
  "by_label acc seen (CList ns ls r) = (ls = account_selector acc)"
| "by_label acc seen (CCreate x r) = (map_of (km_Labels x) svc_accountIDLabel = Some acc)"
| "by_label acc seen (CUpdate x r) = (\<exists>y spec. seen y \<and> x = y\<lparr>k_Spec := spec\<rparr>)"
| "by_label acc seen (CDelete x r) = seen x"
| "by_label acc seen (CGet k r) = False"
| "by_label acc seen (CStatusUpdate x r) = False"

fun by_namespace :: "string \<Rightarrow> (object \<Rightarrow> bool) \<Rightarrow> (json, json) kcall \<Rightarrow> bool" where
  "by_namespace acc seen (CGet k r) = (fst k = accountNamespace acc)"
| "by_namespace acc seen (CList ns ls r) = (ns = Some (accountNamespace acc))"
| "by_namespace acc seen (CCreate x r) = (km_Namespace x = accountNamespace acc \<and> map_of (km_Labels x) svc_accountIDLabel = Some acc)"
| "by_namespace acc seen (CStatusUpdate x r) = (\<exists>y status. seen y \<and> x = y\<lparr>k_Status := status\<rparr>)"
| "by_namespace acc seen (CDelete x r) = seen x"
| "by_namespace acc seen (CUpdate x r) = False"

definition was_listed :: "((json, json) kcall \<Rightarrow> svc_call) \<Rightarrow> string \<Rightarrow> svc_call list \<Rightarrow> object \<Rightarrow> bool" where
  "was_listed on acc l x \<longleftrightarrow> (\<exists>ns ys. on (CList ns (account_selector acc) (Inr ys)) \<in> set l \<and> x \<in> set ys)"

definition fetched :: "string \<Rightarrow> svc_call list \<Rightarrow> object \<Rightarrow> bool" where
  "fetched acc l x \<longleftrightarrow> (\<exists>k. fst k = accountNamespace acc \<and> OnOidcConfig (CGet k (Inr x)) \<in> set l)"

definition scoped :: "string \<Rightarrow> svc_call list \<Rightarrow> svc_call \<Rightarrow> bool" where
  "scoped acc l e =
     (case e of
        OnCluster c \<Rightarrow> by_label acc (was_listed OnCluster acc l) c
      | OnNodePool c \<Rightarrow> by_label acc (was_listed OnNodePool acc l) c
      | OnOidcConfig c \<Rightarrow> by_namespace acc (fetched acc l) c
      | _ \<Rightarrow> False)"

lemma stable_was_listed: "stable (\<lambda>l. was_listed on acc l x)"
  by (auto simp: stable_def was_listed_def)

lemma stable_fetched: "stable (\<lambda>l. fetched acc l x)"
  by (auto simp: stable_def fetched_def)

lemma by_label_mono: "by_label acc s c \<Longrightarrow> (\<And>x. s x \<Longrightarrow> t x) \<Longrightarrow> by_label acc t c"
  by (cases c) auto

lemma by_namespace_mono: "by_namespace acc s c \<Longrightarrow> (\<And>x. s x \<Longrightarrow> t x) \<Longrightarrow> by_namespace acc t c"
  by (cases c) auto

lemma growing_scoped: "growing (scoped acc)"
proof -
  have "scoped acc (l @ es) e" if "scoped acc l e" for l es e
    using that stable_was_listed stable_fetched unfolding scoped_def stable_def
    by (cases e) (auto elim: by_label_mono by_namespace_mono)
  then show ?thesis by (auto simp: growing_def stable_def)
qed

text \<open>The account label is the one set last.\<close>

lemma setAccountLabel_label [simp]: "map_of (km_Labels (setAccountLabel x acc)) svc_accountIDLabel = Some acc"
  by (simp add: setAccountLabel_def update_conv)

section \<open>The operations of the client\<close>

abbreviation within :: "string \<Rightarrow> svc_call list \<Rightarrow> bool" where
  "within acc \<equiv> justified (scoped acc)"

named_theorems scoped_ops

lemma scoped_call:
  assumes "stable P" "\<And>l r. P l \<Longrightarrow> scoped acc l (en r)"
  shows "hoare (\<lambda>l. within acc l \<and> P l) (call f en) (\<lambda>r l. within acc l \<and> P l \<and> en r \<in> set l)"
  using assms by (intro hoare_justified_call growing_scoped) auto

lemma scoped_calls:
  assumes "\<And>l r. scoped acc l (en r)"
  shows "hoare (within acc) (call f en) (\<lambda>r l. within acc l \<and> en r \<in> set l)"
  using scoped_call [of "\<lambda>_. True" acc en f] assms by (simp add: stable_def)

lemma scoped_only:
  assumes "\<And>l r. scoped acc l (en r)"
  shows "hoare (within acc) (call f en) (\<lambda>_. within acc)"
  by (rule hoare_weaken [OF scoped_calls [OF assms]]) auto

lemma scoped_seen:
  assumes "stable P" "\<And>l r. P l \<Longrightarrow> scoped acc l (en r)"
  shows "hoare (\<lambda>l. within acc l \<and> P l) (call f en) (\<lambda>_. within acc)"
  by (rule hoare_weaken [OF scoped_call [OF assms]]) auto

lemma first_or_not_found_Inr: "first_or_not_found r = Inr x \<Longrightarrow> \<exists>xs. r = Inr (x # xs)"
  by (auto simp: first_or_not_found_def split: sum.splits list.splits)

lemma listed_first: "on (CList ns (account_selector acc) r) \<in> set l \<Longrightarrow> first_or_not_found r = Inr x \<Longrightarrow> was_listed on acc l x"
  by (force simp: was_listed_def dest!: first_or_not_found_Inr)

lemma listed_find:
  "on (CList ns (account_selector acc) (Inr items)) \<in> set l \<Longrightarrow> List.find P items = Some x \<Longrightarrow> was_listed on acc l x"
  unfolding was_listed_def find_Some_iff by (metis nth_mem)

lemma hoare_cluster_ops [scoped_ops]:
  "hoare (within acc) (CreateCluster E acc x) (\<lambda>_. within acc)"
  "hoare (within acc) (ListClusters E acc) (\<lambda>_. within acc)"
  unfolding CreateCluster_def kCreate_def ListClusters_def kList_def by (rule scoped_only; simp add: scoped_def)+

lemma hoare_GetCluster:
  "hoare (within acc) (GetCluster E acc ident) (\<lambda>r l. within acc l \<and> (\<forall>x. r = Inr x \<longrightarrow> was_listed OnCluster acc l x))"
  unfolding GetCluster_def kList_def
proof (rule hoare_bind [OF scoped_calls])
  show "scoped acc l (snd (clusters E) (CList ns (account_selector acc) r))" for l ns r by (simp add: scoped_def)
qed (auto intro!: hoare_return listed_first)

lemma hoare_seen_cluster [scoped_ops]:
  "hoare (\<lambda>l. within acc l \<and> was_listed OnCluster acc l x) (UpdateCluster E (x\<lparr>k_Spec := spec\<rparr>)) (\<lambda>_. within acc)"
  "hoare (\<lambda>l. within acc l \<and> was_listed OnCluster acc l x) (kDelete (clusters E) x) (\<lambda>_. within acc)"
  unfolding UpdateCluster_def kUpdate_def kDelete_def by (rule scoped_seen [OF stable_was_listed]; auto simp: scoped_def)+

lemma hoare_DeleteCluster [scoped_ops]: "hoare (within acc) (DeleteCluster E acc ident) (\<lambda>_. within acc)"
  unfolding DeleteCluster_def
  by (rule hoare_bind [OF hoare_GetCluster])
    (auto intro!: hoare_sum hoare_return hoare_pre [OF hoare_seen_cluster(2)])

lemma hoare_nodepool_ops [scoped_ops]:
  "hoare (within acc) (CreateNodePool E acc x) (\<lambda>_. within acc)"
  "hoare (within acc) (ListNodePools E acc cid) (\<lambda>_. within acc)"
  unfolding CreateNodePool_def kCreate_def ListNodePools_def kList_def by (rule scoped_only; simp add: scoped_def)+

lemma hoare_GetNodePool:
  "hoare (within acc) (GetNodePool E acc name) (\<lambda>r l. within acc l \<and> (\<forall>x. r = Inr x \<longrightarrow> was_listed OnNodePool acc l x))"
  unfolding GetNodePool_def kList_def
proof (rule hoare_bind [OF scoped_calls])
  show "scoped acc l (snd (nodepools E) (CList ns (account_selector acc) r))" for l ns r by (simp add: scoped_def)
qed (auto intro!: hoare_return listed_find split: sum.splits option.splits)

lemma hoare_seen_nodepool [scoped_ops]:
  "hoare (\<lambda>l. within acc l \<and> was_listed OnNodePool acc l x) (UpdateNodePool E (x\<lparr>k_Spec := spec\<rparr>)) (\<lambda>_. within acc)"
  "hoare (\<lambda>l. within acc l \<and> was_listed OnNodePool acc l x) (kDelete (nodepools E) x) (\<lambda>_. within acc)"
  unfolding UpdateNodePool_def kUpdate_def kDelete_def by (rule scoped_seen [OF stable_was_listed]; auto simp: scoped_def)+

lemma hoare_DeleteNodePool [scoped_ops]: "hoare (within acc) (DeleteNodePool E acc name) (\<lambda>_. within acc)"
  unfolding DeleteNodePool_def
  by (rule hoare_bind [OF hoare_GetNodePool])
    (auto intro!: hoare_sum hoare_return hoare_pre [OF hoare_seen_nodepool(2)])

lemma hoare_ListOidcConfigs [scoped_ops]: "hoare (within acc) (ListOidcConfigs E acc) (\<lambda>_. within acc)"
  unfolding ListOidcConfigs_def kList_def by (rule scoped_only) (simp add: scoped_def)

lemma hoare_CreateOidcConfig [scoped_ops]:
  "hoare (within acc) (CreateOidcConfig E (PublicToInternalOidcConfig F x acc ident)) (\<lambda>_. within acc)"
  unfolding CreateOidcConfig_def kCreate_def
  by (rule scoped_only) (simp add: scoped_def PublicToInternalOidcConfig_def update_conv)

lemma hoare_GetOidcConfig:
  "hoare (within acc) (GetOidcConfig E acc ident) (\<lambda>r l. within acc l \<and> (\<forall>x. r = Inr x \<longrightarrow> fetched acc l x))"
  unfolding GetOidcConfig_def kGet_def
  by (rule hoare_weaken [OF scoped_calls]) (auto simp: scoped_def fetched_def)

lemma hoare_seen_oidc:
  "hoare (\<lambda>l. within acc l \<and> fetched acc l x) (kStatusUpdate (oidc_configs E) (x\<lparr>k_Status := st\<rparr>)) (\<lambda>_. within acc)"
  "hoare (\<lambda>l. within acc l \<and> fetched acc l x) (kDelete (oidc_configs E) x) (\<lambda>_. within acc)"
  unfolding kStatusUpdate_def kDelete_def by (rule scoped_seen [OF stable_fetched]; auto simp: scoped_def)+

lemma hoare_DeleteOidcConfig [scoped_ops]: "hoare (within acc) (DeleteOidcConfig E acc ident) (\<lambda>_. within acc)"
  unfolding DeleteOidcConfig_def
  by (rule hoare_bind [OF hoare_GetOidcConfig])
    (auto intro!: hoare_sum hoare_return hoare_pre [OF hoare_seen_oidc(2)])

lemma hoare_LastUsed [scoped_ops]: "hoare (within acc) (UpdateOidcConfigLastUsedTimestamp E acc ident ts) (\<lambda>_. within acc)"
  unfolding UpdateOidcConfigLastUsedTimestamp_def
  by (rule hoare_bind [OF hoare_GetOidcConfig])
    (auto intro!: hoare_sum hoare_return hoare_pre [OF hoare_bind [OF hoare_seen_oidc(1)]])

lemma hoare_gets [scoped_ops]:
  "hoare (within acc) (GetCluster E acc ident) (\<lambda>_. within acc)"
  "hoare (within acc) (GetNodePool E acc ident) (\<lambda>_. within acc)"
  "hoare (within acc) (GetOidcConfig E acc ident) (\<lambda>_. within acc)"
  by (rule hoare_weaken [OF hoare_GetCluster] hoare_weaken [OF hoare_GetNodePool] hoare_weaken [OF hoare_GetOidcConfig]; simp)+

section \<open>The handlers\<close>

lemma hoare_kerr:
  "hoare P a Q \<Longrightarrow> hoare P b Q \<Longrightarrow> hoare P c Q \<Longrightarrow> hoare P d Q \<Longrightarrow>
   hoare P (case e of KNotFound \<Rightarrow> a | KConflict \<Rightarrow> b | KAlreadyExists \<Rightarrow> c | KOther \<Rightarrow> d) Q"
  by (cases e) simp_all

text \<open>A program all of whose calls stay within the account.\<close>

lemma within_bind: "hoare (within acc) m (\<lambda>_. within acc) \<Longrightarrow> (\<And>x. hoare (within acc) (f x) (\<lambda>_. within acc)) \<Longrightarrow>
    hoare (within acc) (State_Monad.bind m f) (\<lambda>_. within acc)"
  by (rule hoare_bind)

lemma within_return: "hoare (within acc) (State_Monad.return x) (\<lambda>_. within acc)"
  by (simp add: hoare_return)

lemmas within_rules = within_return within_bind scoped_ops hoare_if hoare_sum hoare_option hoare_kerr

lemma hoare_resolveOidcConfig: "hoare (within acc) (resolveOidcConfig E acc ident cs) (\<lambda>_. within acc)"
  unfolding resolveOidcConfig_def by (intro within_rules)

lemma hoare_cluster_conflict:
  "hoare (within (rq_account q)) m (\<lambda>_. within (rq_account q)) \<Longrightarrow>
   hoare (within (rq_account q)) (cluster_conflict E q x m) (\<lambda>_. within (rq_account q))"
  unfolding cluster_conflict_def Let_def isOidcConfigInUse_def
  by (auto intro!: within_rules split: sum.splits bool.splits)

lemma hoare_create_attempts:
  "hoare (within (rq_account q)) (create_attempts E h q req oc n k) (\<lambda>_. within (rq_account q))"
proof (induction n arbitrary: req k)
  case (Suc n)
  then show ?case unfolding create_attempts.simps Let_def cluster_created_def by (intro within_rules hoare_cluster_conflict)
qed (simp add: within_return)

text \<open>The routes of the resource routers, in \<open>server.go\<close>.\<close>

datatype route =
    ClusterList | ClusterCreate | ClusterGet | ClusterUpdate | ClusterDelete
  | NodePoolList | NodePoolCreate | NodePoolGet | NodePoolUpdate | NodePoolDelete
  | OidcConfigList | OidcConfigCreate | OidcConfigGet | OidcConfigDelete

definition serve :: "'w svc_env \<Rightarrow> ClusterHandler \<Rightarrow> string \<Rightarrow> svc_request \<Rightarrow> route \<Rightarrow> ('w, reply) svc" where
  "serve E h uuid q rt =
     (case rt of
        ClusterList \<Rightarrow> cluster_List E q
      | ClusterCreate \<Rightarrow> cluster_Create E h q
      | ClusterGet \<Rightarrow> cluster_Get E q
      | ClusterUpdate \<Rightarrow> cluster_Update E q
      | ClusterDelete \<Rightarrow> cluster_Delete E q
      | NodePoolList \<Rightarrow> nodepool_List E q
      | NodePoolCreate \<Rightarrow> nodepool_Create E uuid q
      | NodePoolGet \<Rightarrow> nodepool_Get E q
      | NodePoolUpdate \<Rightarrow> nodepool_Update E q
      | NodePoolDelete \<Rightarrow> nodepool_Delete E q
      | OidcConfigList \<Rightarrow> oidcconfig_List E q
      | OidcConfigCreate \<Rightarrow> oidcconfig_Create E (ch_oidcIssuerBaseURL h) uuid q
      | OidcConfigGet \<Rightarrow> oidcconfig_Get E q
      | OidcConfigDelete \<Rightarrow> oidcconfig_Delete E q)"

lemma hoare_cluster_Create: "hoare (within (rq_account q)) (cluster_Create E h q) (\<lambda>_. within (rq_account q))"
  unfolding cluster_Create_def cluster_create_valid_def
  by (intro within_rules hoare_resolveOidcConfig hoare_create_attempts)

text \<open>An update writes back the object that was read, with another spec.\<close>

lemma cluster_merge_spec: "cluster_merge E spec cr = Inr cr' \<Longrightarrow> \<exists>spec'. cr' = cr\<lparr>k_Spec := spec'\<rparr>"
  by (auto simp: cluster_merge_def split: option.splits if_splits list.splits prod.splits)

lemma nodepool_merge_spec: "nodepool_merge E raw spec cr = Inr cr' \<Longrightarrow> \<exists>spec'. cr' = cr\<lparr>k_Spec := spec'\<rparr>"
  by (auto simp: nodepool_merge_def split: option.splits if_splits list.splits prod.splits)

lemma hoare_write_back:
  assumes "\<And>cr'. merged = Inr cr' \<Longrightarrow> \<exists>spec. cr' = cr\<lparr>k_Spec := spec\<rparr>"
    and "\<And>spec. hoare P (upd (cr\<lparr>k_Spec := spec\<rparr>)) (\<lambda>_. within acc)" and "\<And>l. P l \<Longrightarrow> within acc l"
  shows "hoare P (case merged of Inl reply \<Rightarrow> State_Monad.return reply | Inr cr' \<Rightarrow> State_Monad.bind (upd cr') (\<lambda>u. State_Monad.return (f u))) (\<lambda>_. within acc)"
  using assms by (cases merged) (fastforce intro!: hoare_return hoare_bind)+

lemma hoare_cluster_Update: "hoare (within (rq_account q)) (cluster_Update E q) (\<lambda>_. within (rq_account q))"
proof -
  have "hoare (\<lambda>l. within (rq_account q) l \<and> (\<forall>x. r = Inr x \<longrightarrow> was_listed OnCluster (rq_account q) l x))
     (case r of Inl KNotFound \<Rightarrow> State_Monad.return (Failed ErrClusterUpdateNotFound)
      | Inl _ \<Rightarrow> State_Monad.return (Failed ErrClusterUpdateFailed)
      | Inr cr \<Rightarrow> (case cluster_merge E spec cr of Inl reply \<Rightarrow> State_Monad.return reply
          | Inr cr' \<Rightarrow> State_Monad.bind (UpdateCluster E cr') (\<lambda>u. State_Monad.return (g u)))) (\<lambda>_. within (rq_account q))" for r spec g
    by (intro hoare_sum hoare_kerr hoare_return hoare_write_back [where upd = "UpdateCluster E"] hoare_pre [OF hoare_seen_cluster(1)])
      (auto dest: cluster_merge_spec)
  then have "hoare (within (rq_account q)) (cluster_update_spec E q spec) (\<lambda>_. within (rq_account q))" for spec
    unfolding cluster_update_spec_def by (intro hoare_bind [OF hoare_GetCluster])
  then show ?thesis unfolding cluster_Update_def by (intro within_rules)
qed

lemma hoare_nodepool_Update: "hoare (within (rq_account q)) (nodepool_Update E q) (\<lambda>_. within (rq_account q))"
proof -
  have "hoare (\<lambda>l. within (rq_account q) l \<and> (\<forall>x. r = Inr x \<longrightarrow> was_listed OnNodePool (rq_account q) l x))
     (case r of Inl KNotFound \<Rightarrow> State_Monad.return (Failed ErrNodePoolUpdateNotFound)
      | Inl _ \<Rightarrow> State_Monad.return (Failed ErrNodePoolUpdateFailed)
      | Inr cr \<Rightarrow> (case nodepool_merge E raw spec cr of Inl reply \<Rightarrow> State_Monad.return reply
          | Inr cr' \<Rightarrow> State_Monad.bind (UpdateNodePool E cr') (\<lambda>u. State_Monad.return (g u)))) (\<lambda>_. within (rq_account q))" for r raw spec g
    by (intro hoare_sum hoare_kerr hoare_return hoare_write_back [where upd = "UpdateNodePool E"] hoare_pre [OF hoare_seen_nodepool(1)])
      (auto dest: nodepool_merge_spec)
  then show ?thesis
    unfolding nodepool_Update_def by (intro hoare_option within_return hoare_bind [OF hoare_GetNodePool])
qed

lemma hoare_serve: "hoare (within (rq_account q)) (serve E h uuid q rt) (\<lambda>_. within (rq_account q))"
proof (cases rt)
  case NodePoolCreate
  show ?thesis unfolding serve_def NodePoolCreate route.case nodepool_Create_def
    by (auto intro!: hoare_sum within_return within_bind hoare_kerr scoped_ops split: prod.splits)
next
  case OidcConfigCreate
  show ?thesis unfolding serve_def OidcConfigCreate route.case oidcconfig_Create_def by (intro within_rules)
next
  case OidcConfigDelete
  show ?thesis unfolding serve_def OidcConfigDelete route.case oidcconfig_Delete_def by (intro within_rules)
qed (simp_all add: serve_def hoare_cluster_Create hoare_cluster_Update hoare_nodepool_Update cluster_List_def cluster_Get_def cluster_Delete_def
      nodepool_List_def nodepool_Get_def nodepool_Delete_def oidcconfig_List_def oidcconfig_Get_def Let_def within_bind within_return scoped_ops)

text \<open>
  C14 (safety). No request reaches another account. Whatever the clients answer, every call that a cluster,
  node pool or OIDC configuration handler makes is within the caller's account: lists select the account's
  label or namespace, a created object carries the account, and an object is updated or deleted only if a
  call within the account returned it before.
\<close>

theorem handlers_stay_in_account:
  assumes "op_log s = []" "run_state (serve E h uuid q rt) s = (r, s')"
  shows "\<forall>e \<in> set (op_log s'). scoped (rq_account q) (op_log s') e"
proof -
  have "within (rq_account q) (op_log s)" using assms(1) by (simp add: justified_def)
  from hoareD [OF hoare_serve this assms(2)] show ?thesis by (simp add: justified_def)
qed

section \<open>An instance\<close>

definition ex_svc :: "object option \<Rightarrow> unit svc_env" where
  "ex_svc cluster = \<lparr>sv_clusters = ex_kind cluster, sv_nodepools = ex_kind None, sv_manifests = ex_kind None, sv_mcs = ex_kind None, sv_oidcs = ex_kind None,
     sv_F = ex_F, sv_meta = (\<lambda>m. ex_object JNull), sv_quote = (\<lambda>s. [CHR 0x22] @ s @ [CHR 0x22]), sv_time = JNum, sv_uuid = Some\<rparr>"

definition ex_handler :: ClusterHandler where
  "ex_handler = \<lparr>ch_oidcIssuerBaseURL = ''https://oidc.example'', ch_defaultClusterExpiration = 0, ch_generateID = (\<lambda>k. ''id''), ch_now = 0, ch_used = 0\<rparr>"

definition ex_request :: svc_request where
  "ex_request = \<lparr>rq_account = ''123'', rq_arn = [], rq_id = ''id'', rq_limit = [], rq_offset = [], rq_clusterId = [],
     rq_body = Some (RawDoc (JObj [(''metadata'', JObj [(''name'', JStr ''c1'')]), (''spec'', JObj [(''displayName'', JStr ''prod'')])]))\<rparr>"
abbreviation ex_start :: "(unit, svc_call) callstate" where "ex_start \<equiv> \<lparr>op_world = (), op_log = []\<rparr>"

lemmas ex_svc_fields = ex_svc_def ex_handler_def ex_request_def

theorem handlers_stay_in_account_witness: "let x = ex_object ex_cluster_spec; s' = snd (run_state (serve (ex_svc (Some x)) ex_handler [] ex_request ClusterDelete) ex_start)
  in op_log s' = [OnCluster (CList (Some (clusterNamespace ''id'')) (account_selector ''123'') (Inr [x])), OnCluster (CDelete x None)]
    \<and> (\<forall>e \<in> set (op_log s'). scoped ''123'' (op_log s') e)"
proof -
  let ?x = "ex_object ex_cluster_spec"
  let ?run = "run_state (serve (ex_svc (Some ?x)) ex_handler [] ex_request ClusterDelete) ex_start"
  have "op_log (snd ?run) = [OnCluster (CList (Some (clusterNamespace ''id'')) (account_selector ''123'') (Inr [?x])), OnCluster (CDelete ?x None)]"
    by (simp add: serve_def cluster_Delete_def DeleteCluster_def GetCluster_def kList_def kDelete_def first_or_not_found_def ex_svc_fields run_ex)
  then show ?thesis
    using handlers_stay_in_account [of ex_start "ex_svc (Some ?x)" ex_handler "[]" ex_request ClusterDelete "fst ?run" "snd ?run"]
    by (simp add: ex_request_def Let_def)
qed

end
