(* ===== verification/ClusterCreateProps.thy ===== *)
theory ClusterCreateProps
  imports HandlerProps
begin

text \<open>
  Creating a cluster: the handler tries a bounded number of times, reports success exactly when a create
  succeeded, and creates only what the checks of the request, of the account's clusters and of the OIDC
  configuration allow.
\<close>

section \<open>The creates of a log\<close>

fun create_of :: "svc_call \<Rightarrow> (object \<times> (kerr + object)) option" where
  "create_of (OnCluster (CCreate x r)) = Some (x, r)"
| "create_of _ = None"

definition creates :: "svc_call list \<Rightarrow> (object \<times> (kerr + object)) list" where
  "creates l = List.map_filter create_of l"

lemma creates_append [simp]: "creates (l @ m) = creates l @ creates m"
  by (simp add: creates_def map_filter_def)

lemma creates_one [simp]: "creates [OnCluster (CCreate x r)] = [(x, r)]"
  by (simp add: creates_def List.map_filter_simps)

lemma creates_none: "list_all (\<lambda>e. create_of e = None) es \<Longrightarrow> creates es = []"
  by (induction es) (simp_all add: creates_def List.map_filter_simps)

lemma creates_kept: "adds (\<lambda>e. create_of e = None) m \<Longrightarrow> hoare (\<lambda>l. creates l = cs) m (\<lambda>_ l. creates l = cs)"
  by (rule hoare_adds) (auto simp: creates_none)

lemma no_creates:
  "adds (\<lambda>e. create_of e = None) (ListClusters E acc)"
  "adds (\<lambda>e. create_of e = None) (GetOidcConfig E acc ident)"
  "adds (\<lambda>e. create_of e = None) (UpdateOidcConfigLastUsedTimestamp E acc ident ts)"
  "adds (\<lambda>e. create_of e = None) (isOidcConfigInUse E acc ident)"
  "adds (\<lambda>e. create_of e = None) (resolveOidcConfig E acc ident cs)"
  by (auto simp: ListClusters_def GetOidcConfig_def UpdateOidcConfigLastUsedTimestamp_def isOidcConfigInUse_def resolveOidcConfig_def
        intro!: adds_rules)

section \<open>The outcome\<close>

text \<open>Either the last create succeeded, the ones before it failed, and the reply shows the created cluster;
  or every create failed and the reply is not a success.\<close>

definition outcome :: "'w svc_env \<Rightarrow> reply \<Rightarrow> (object \<times> (kerr + object)) list \<Rightarrow> bool" where
  "outcome E r cs \<longleftrightarrow>
     (\<exists>ds x cr. cs = ds @ [(x, Inr cr)] \<and> (\<forall>d \<in> set ds. isl (snd d)) \<and> r = Replied 201 (PObject (InternalToPublicCluster (sv_F E) cr)))
     \<or> (\<forall>d \<in> set cs. isl (snd d)) \<and> (\<forall>p. r \<noteq> Replied 201 p)"

lemma not_created [simp]:
  "failed_with t e \<noteq> Replied n p" "with_validation es e \<noteq> Replied n p"
  by (auto simp: failed_with_def with_validation_def split: option.splits)

lemma created_outcome:
  assumes "\<forall>d \<in> set cs. isl (snd d)"
  shows "hoare (\<lambda>l. creates l = cs @ [(x, Inr cr)]) (cluster_created E h q req oc cr)
     (\<lambda>r l. length (creates l) = length cs + 1 \<and> outcome E r (creates l))"
  unfolding cluster_created_def
  by (rule hoare_bind, rule creates_kept) (use assms in \<open>auto intro!: adds_rules no_creates hoare_return simp: outcome_def\<close>)

text \<open>After a create that found the object there already.\<close>

lemma conflict_outcome:
  assumes "hoare (\<lambda>l. creates l = cs) m (\<lambda>r l. length (creates l) \<le> n \<and> outcome E r (creates l))"
    and "\<forall>d \<in> set cs. isl (snd d)" "length cs \<le> n"
  shows "hoare (\<lambda>l. creates l = cs) (cluster_conflict E q req m) (\<lambda>r l. length (creates l) \<le> n \<and> outcome E r (creates l))"
proof -
  have used: "hoare (\<lambda>l. creates l = cs) (State_Monad.return (oidc_in_use E c)) (\<lambda>r l. length (creates l) \<le> n \<and> outcome E r (creates l))" for c
    by (rule hoare_return) (use assms(2,3) in \<open>auto simp: outcome_def oidc_in_use_def\<close>)
  then have "hoare (\<lambda>l. creates l = cs) (case u of Inr True \<Rightarrow> State_Monad.return (oidc_in_use E c) | _ \<Rightarrow> m)
     (\<lambda>r l. length (creates l) \<le> n \<and> outcome E r (creates l))" for u c
    using assms(1) by (auto split: sum.splits bool.splits)
  then show ?thesis
    unfolding cluster_conflict_def Let_def by (intro hoare_if assms(1) hoare_bind [OF creates_kept [OF no_creates(4)]])
qed

lemma create_attempts_outcome:
  assumes "\<forall>d \<in> set cs. isl (snd d)"
  shows "hoare (\<lambda>l. creates l = cs) (create_attempts E h q req oc n k)
     (\<lambda>r l. length (creates l) \<le> length cs + n \<and> outcome E r (creates l))"
  using assms
proof (induction n arbitrary: req k cs)
  case 0
  then show ?case by (auto intro!: hoare_return simp: outcome_def)
next
  case (Suc n)
  let ?req = "default_expiration E h req" and ?Q = "\<lambda>r l. length (creates l) \<le> length cs + Suc n \<and> outcome E r (creates l)"
  let ?x = "setAccountLabel (new_cluster E h q ?req oc (ch_generateID h k)) (rq_account q)"
  have create: "hoare (\<lambda>l. creates l = cs) (CreateCluster E (rq_account q) (new_cluster E h q ?req oc (ch_generateID h k)))
     (\<lambda>r l. creates l = cs @ [(?x, r)])"
    unfolding CreateCluster_def kCreate_def by (rule hoare_call) simp
  have failed: "\<forall>d \<in> set (cs @ [(?x, Inl e)]). isl (snd d)" for e :: kerr using Suc.prems by auto
  have stop: "hoare (\<lambda>l. creates l = cs @ [(?x, Inl e)]) (State_Monad.return (Failed err)) ?Q" for e err
    using failed [of e] by (auto intro!: hoare_return simp: outcome_def)
  have again: "hoare (\<lambda>l. creates l = cs @ [(?x, Inl e)]) (if 0 < n then create_attempts E h q ?req oc n (Suc k)
      else State_Monad.return (Failed ErrClusterCreateIDExhausted)) ?Q" for e
    using Suc.IH [OF failed [of e], of ?req "Suc k"] stop by (auto intro: hoare_weaken)
  have conflict: "hoare (\<lambda>l. creates l = cs @ [(?x, Inl e)]) (cluster_conflict E q ?req (if 0 < n then create_attempts E h q ?req oc n (Suc k)
      else State_Monad.return (Failed ErrClusterCreateIDExhausted))) ?Q" for e
    using failed [of e] by (intro conflict_outcome [OF again]) auto
  have created: "hoare (\<lambda>l. creates l = cs @ [(?x, Inr cr)]) (cluster_created E h q ?req oc cr) ?Q" for cr
    by (rule hoare_weaken [OF created_outcome [OF Suc.prems]]) auto
  show ?case
    unfolding create_attempts.simps Let_def
  proof (rule hoare_bind [OF create])
    fix r
    show "hoare (\<lambda>l. creates l = cs @ [(?x, r)]) (case r of Inr cr \<Rightarrow> cluster_created E h q ?req oc cr
       | Inl KAlreadyExists \<Rightarrow> cluster_conflict E q ?req (if 0 < n then create_attempts E h q ?req oc n (Suc k)
           else State_Monad.return (Failed ErrClusterCreateIDExhausted))
       | Inl _ \<Rightarrow> State_Monad.return (Failed ErrClusterCreateFailed)) ?Q"
    proof (cases r)
      case (Inl e)
      show ?thesis by (cases e; simp only: Inl sum.case kerr.case; rule stop conflict)
    qed (simp only: sum.case created)
  qed
qed

lemma cluster_Create_outcome:
  "hoare (\<lambda>l. creates l = []) (cluster_Create E h q) (\<lambda>r l. length (creates l) \<le> maxHash4Retries \<and> outcome E r (creates l))"
proof -
  let ?Q = "\<lambda>r l. length (creates l) \<le> maxHash4Retries \<and> outcome E r (creates l)"
  have stop: "hoare (\<lambda>l. creates l = []) (State_Monad.return r) ?Q" if "\<forall>p. r \<noteq> Replied 201 p" for r
    using that by (auto intro!: hoare_return simp: outcome_def)
  have parse: "r \<noteq> Replied 201 p" if "parse_cluster_create E b = Inl r" for r p b
    using that by (auto simp: parse_cluster_create_def Let_def split: option.splits if_splits list.splits)
  have resolve: "hoare (\<lambda>l. creates l = []) (resolveOidcConfig E acc ident cs) (\<lambda>r l. creates l = [] \<and> (\<forall>x. r = Inl x \<longrightarrow> (\<forall>p. x \<noteq> Replied 201 p)))" for acc ident cs
    unfolding resolveOidcConfig_def
    by (rule hoare_if, simp add: hoare_return, rule hoare_bind [OF creates_kept [OF no_creates(2)]], rule hoare_return)
      (auto simp: oidc_in_use_def split: sum.splits kerr.splits if_splits)
  have attempts: "hoare (\<lambda>l. creates l = []) (create_attempts E h q req oc maxHash4Retries 0) ?Q" for req oc
    using create_attempts_outcome [of "[]" E h q req oc maxHash4Retries 0] by simp
  have resolved: "hoare (\<lambda>l. creates l = [] \<and> (\<forall>x. r = Inl x \<longrightarrow> (\<forall>p. x \<noteq> Replied 201 p)))
     (case r of Inl reply \<Rightarrow> State_Monad.return reply | Inr oc \<Rightarrow> create_attempts E h q req oc maxHash4Retries 0) ?Q" for r req
  proof (cases r)
    case (Inl x)
    then show ?thesis by (auto intro!: hoare_return simp: outcome_def)
  qed (auto intro!: hoare_pre [OF attempts])
  have "hoare (\<lambda>l. creates l = []) (cluster_create_valid E h q req) ?Q" for req
    unfolding cluster_create_valid_def
    by (rule hoare_bind [OF creates_kept [OF no_creates(1)]])
      (auto intro!: hoare_sum hoare_if stop hoare_bind [OF resolve] resolved)
  then show ?thesis unfolding cluster_Create_def by (auto intro!: hoare_sum stop parse)
qed

text \<open>
  C16 (error). A cluster is created or the request fails, never both. Whatever the clients answer, the create
  handler makes at most five create calls; it answers 201 exactly when one of them succeeded, which is then
  the last one, and the answer shows the cluster that call returned; on every other answer all of them failed.
\<close>

theorem cluster_create_all_or_nothing:
  assumes "op_log s = []" "run_state (cluster_Create E h q) s = (r, s')"
  shows "length (creates (op_log s')) \<le> 5 \<and> outcome E r (creates (op_log s'))"
proof -
  have "creates (op_log s) = []" using assms(1) by (simp add: creates_def List.map_filter_simps)
  from hoareD [OF cluster_Create_outcome this assms(2)] show ?thesis by (simp add: maxHash4Retries_def)
qed

section \<open>What is created\<close>

lemma default_expiration_idem [simp]: "default_expiration E h (default_expiration E h req) = default_expiration E h req"
proof -
  have "set_field n x (set_field n x v) = set_field n x v" for n x v
    by (cases v) (auto simp: set_field_def put_def)
  then show ?thesis by (simp add: default_expiration_def)
qed

text \<open>What a new cluster rests on: the clusters of the account that were listed, and the OIDC configuration.\<close>

definition name_free :: "svc_request \<Rightarrow> object \<Rightarrow> object list \<Rightarrow> svc_call list \<Rightarrow> bool" where
  "name_free q req ys l \<longleftrightarrow> OnCluster (CList None (account_selector (rq_account q)) (Inr ys)) \<in> set l \<and> (\<forall>y \<in> set ys. km_Name y \<noteq> km_Name req)"

definition issuer_ok :: "svc_request \<Rightarrow> object \<Rightarrow> object list \<Rightarrow> object option \<Rightarrow> svc_call list \<Rightarrow> bool" where
  "issuer_ok q req ys oc l =
     (let config = str_field ''oidcConfigId'' (k_Spec req)
      in case oc of
           None \<Rightarrow> config = []
         | Some c \<Rightarrow> OnOidcConfig (CGet (accountNamespace (rq_account q), config) (Inr c)) \<in> set l \<and> \<not> oidc_not_ready c
             \<and> (\<forall>y \<in> set ys. str_field ''oidcConfigId'' (k_Spec y) \<noteq> config))"

definition new_object :: "'w svc_env \<Rightarrow> ClusterHandler \<Rightarrow> svc_request \<Rightarrow> object \<Rightarrow> object option \<Rightarrow> nat \<Rightarrow> object" where
  "new_object E h q req oc k = setAccountLabel (new_cluster E h q (default_expiration E h req) oc (ch_generateID h k)) (rq_account q)"

definition checked :: "'w svc_env \<Rightarrow> ClusterHandler \<Rightarrow> svc_request \<Rightarrow> svc_call list \<Rightarrow> svc_call \<Rightarrow> bool" where
  "checked E h q l e \<longleftrightarrow> (\<forall>x r. create_of e = Some (x, r) \<longrightarrow>
     (\<exists>req ys oc k. parse_cluster_create E (rq_body q) = Inr req \<and> x = new_object E h q req oc k
        \<and> name_free q req ys l \<and> issuer_ok q req ys oc l))"

lemma stable_checks: "stable (name_free q req ys)" "stable (issuer_ok q req ys oc)"
  by (auto simp: stable_def name_free_def issuer_ok_def Let_def split: option.splits)

lemma growing_checked: "growing (checked E h q)"
  using stable_checks unfolding growing_def stable_def checked_def by meson

lemma checked_other: "adds (\<lambda>e. create_of e = None) m \<Longrightarrow> stable P \<Longrightarrow>
    hoare (\<lambda>l. justified (checked E h q) l \<and> P l) m (\<lambda>_ l. justified (checked E h q) l \<and> P l)"
  by (rule hoare_justified [OF growing_checked, where A = "\<lambda>e. create_of e = None"]) (auto simp: checked_def)

lemma create_attempts_adds:
  "adds (\<lambda>e. create_of e = None \<or> (\<exists>k r. e = OnCluster (CCreate (new_object E h q req oc k) r))) (create_attempts E h q req oc n k)"
  (is "adds ?A _")
proof -
  have "adds ?A (create_attempts E h q x oc n k)" if "default_expiration E h x = default_expiration E h req" for x
    using that
  proof (induction n arbitrary: x k)
    case (Suc n)
    have "adds ?A (CreateCluster E (rq_account q) (new_cluster E h q (default_expiration E h x) oc (ch_generateID h k)))"
      unfolding CreateCluster_def kCreate_def using Suc.prems by (intro adds_call) (auto simp: new_object_def)
    moreover have "adds ?A (UpdateOidcConfigLastUsedTimestamp E acc ident ts)" "adds ?A (isOidcConfigInUse E acc ident)" for acc ident ts
      by (rule adds_mono [OF no_creates(3)] adds_mono [OF no_creates(4)]; simp)+
    ultimately show ?case
      using Suc.IH [of "default_expiration E h x"] Suc.prems
      by (auto simp: Let_def cluster_created_def cluster_conflict_def intro!: adds_rules split: sum.splits kerr.splits bool.splits)
  qed (auto intro!: adds_rules)
  then show ?thesis by simp
qed

lemma create_attempts_checked:
  assumes "parse_cluster_create E (rq_body q) = Inr req"
  shows "hoare (\<lambda>l. justified (checked E h q) l \<and> name_free q req ys l \<and> issuer_ok q req ys oc l) (create_attempts E h q req oc n k)
     (\<lambda>_. justified (checked E h q))"
proof -
  have "stable (\<lambda>l. name_free q req ys l \<and> issuer_ok q req ys oc l)" using stable_checks by (auto simp: stable_def)
  moreover have "checked E h q l e" if "name_free q req ys l \<and> issuer_ok q req ys oc l"
      "create_of e = None \<or> (\<exists>k r. e = OnCluster (CCreate (new_object E h q req oc k) r))" for l e
    using that assms unfolding checked_def by fastforce
  ultimately have "hoare (\<lambda>l. justified (checked E h q) l \<and> name_free q req ys l \<and> issuer_ok q req ys oc l) (create_attempts E h q req oc n k)
     (\<lambda>_ l. justified (checked E h q) l \<and> name_free q req ys l \<and> issuer_ok q req ys oc l)"
    by (rule hoare_justified [OF growing_checked _ create_attempts_adds])
  then show ?thesis by (rule hoare_weaken) simp_all
qed

lemma resolve_checked:
  "hoare (\<lambda>l. justified (checked E h q) l \<and> name_free q req ys l)
     (resolveOidcConfig E (rq_account q) (str_field ''oidcConfigId'' (k_Spec req)) ys)
     (\<lambda>r l. justified (checked E h q) l \<and> (\<forall>oc. r = Inr oc \<longrightarrow> name_free q req ys l \<and> issuer_ok q req ys oc l))"
proof -
  let ?id = "str_field ''oidcConfigId'' (k_Spec req)"
  let ?en = "\<lambda>r. OnOidcConfig (CGet (accountNamespace (rq_account q), ?id) r)"
  have get: "hoare (\<lambda>l. justified (checked E h q) l \<and> name_free q req ys l) (GetOidcConfig E (rq_account q) ?id)
     (\<lambda>r l. justified (checked E h q) l \<and> name_free q req ys l \<and> ?en r \<in> set l)"
    unfolding GetOidcConfig_def kGet_def snd_conv
    by (rule hoare_justified_call [OF growing_checked stable_checks(1)]) (simp add: checked_def)
  show ?thesis
    unfolding resolveOidcConfig_def
  proof (rule hoare_if)
    assume "?id = []"
    then show "hoare (\<lambda>l. justified (checked E h q) l \<and> name_free q req ys l) (State_Monad.return (Inr None))
       (\<lambda>r l. justified (checked E h q) l \<and> (\<forall>oc. r = Inr oc \<longrightarrow> name_free q req ys l \<and> issuer_ok q req ys oc l))"
      by (auto intro!: hoare_return simp: issuer_ok_def)
  qed (rule hoare_bind [OF get], rule hoare_return,
      auto simp: issuer_ok_def oidcConfigReferencedBy_def list_ex_iff split: sum.splits kerr.splits if_splits)
qed

lemma cluster_Create_checked: "hoare (justified (checked E h q)) (cluster_Create E h q) (\<lambda>_. justified (checked E h q))"
proof -
  have "hoare (justified (checked E h q)) (cluster_create_valid E h q req) (\<lambda>_. justified (checked E h q))"
    if req: "parse_cluster_create E (rq_body q) = Inr req" for req
  proof -
    have list: "hoare (justified (checked E h q)) (ListClusters E (rq_account q))
       (\<lambda>r l. justified (checked E h q) l \<and> OnCluster (CList None (account_selector (rq_account q)) r) \<in> set l)"
      unfolding ListClusters_def kList_def snd_conv
      by (rule hoare_weaken [OF hoare_justified_call [OF growing_checked, where P = "\<lambda>_. True"]]) (auto simp: stable_def checked_def)
    have resolved: "hoare (\<lambda>l. justified (checked E h q) l \<and> (\<forall>oc. r = Inr oc \<longrightarrow> name_free q req ys l \<and> issuer_ok q req ys oc l))
       (case r of Inl reply \<Rightarrow> State_Monad.return reply | Inr oc \<Rightarrow> create_attempts E h q req oc maxHash4Retries 0) (\<lambda>_. justified (checked E h q))" for r ys
      by (rule hoare_sum) (auto intro: hoare_return hoare_pre [OF create_attempts_checked [OF req]])
    have "hoare (\<lambda>l. justified (checked E h q) l \<and> OnCluster (CList None (account_selector (rq_account q)) (Inr ys)) \<in> set l)
       (State_Monad.bind (resolveOidcConfig E (rq_account q) (str_field ''oidcConfigId'' (k_Spec req)) ys)
          (\<lambda>r. case r of Inl reply \<Rightarrow> State_Monad.return reply | Inr oc \<Rightarrow> create_attempts E h q req oc maxHash4Retries 0))
       (\<lambda>_. justified (checked E h q))" if "\<not> list_ex (\<lambda>c. km_Name c = km_Name req) ys" for ys
      by (rule hoare_bind [OF hoare_pre [OF resolve_checked] resolved]) (use that in \<open>auto simp: name_free_def list_ex_iff\<close>)
    then show ?thesis
      unfolding cluster_create_valid_def by (intro hoare_bind [OF list]) (auto intro!: hoare_sum hoare_if hoare_return)
  qed
  then show ?thesis unfolding cluster_Create_def by (auto intro!: hoare_sum hoare_return)
qed

text \<open>
  C15 (safety). A cluster is created only after its checks. Whatever the clients answer, each create call carries
  the object built from a request body that passed validation, after the clusters of the account were listed
  and none had the name; if the request names an OIDC configuration, after that configuration of the account
  was read, was not in error and, if unmanaged, ready, and no listed cluster used it.
\<close>

theorem cluster_creates_checked:
  assumes "op_log s = []" "run_state (cluster_Create E h q) s = (r, s')"
  shows "\<forall>e \<in> set (op_log s'). checked E h q (op_log s') e"
proof -
  have "justified (checked E h q) (op_log s)" using assms(1) by (simp add: justified_def)
  from hoareD [OF cluster_Create_checked this assms(2)] show ?thesis by (simp add: justified_def)
qed

section \<open>An instance\<close>

lemma ex_parse: "parse_cluster_create (ex_svc None) (rq_body ex_request) = Inr ((ex_object ex_cluster_spec)\<lparr>k_Status := zero (p_ClusterStatus ex_F)\<rparr>)"
  by code_simp

lemma ex_no_oidc: "str_field ''oidcConfigId'' ex_cluster_spec = []" by code_simp

lemma ex_cluster_create:
  fixes ob defines "ob \<equiv> new_object (ex_svc None) ex_handler ex_request ((ex_object ex_cluster_spec)\<lparr>k_Status := zero (p_ClusterStatus ex_F)\<rparr>) None 0"
  shows "run_state (cluster_Create (ex_svc None) ex_handler ex_request) ex_start =
     (Replied 201 (PObject (InternalToPublicCluster ex_F ob)),
      \<lparr>op_world = (), op_log = [OnCluster (CList None (account_selector ''123'') (Inr [])), OnCluster (CCreate ob (Inr ob))]\<rparr>)"
proof -
  have n: "maxHash4Retries = Suc (Suc (Suc (Suc (Suc 0))))" by (simp add: maxHash4Retries_def)
  have spec: "k_Spec (ex_object s) = s" "sv_F (ex_svc None) = ex_F" "rq_account ex_request = ''123''" for s by (simp_all add: ex_object_def ex_svc_fields)
  have e: "default_expiration (ex_svc None) ex_handler x = x" for x by (simp add: default_expiration_def ex_handler_def)
  have cl: "sv_clusters (ex_svc None) = ex_kind None" by (simp add: ex_svc_def)
  show ?thesis
    unfolding cluster_Create_def ex_parse n
    by (simp add: cluster_create_valid_def n create_attempts.simps resolveOidcConfig_def ListClusters_def CreateCluster_def kList_def kCreate_def
       cluster_created_def ex_no_oidc Let_def run_ex spec e cl ob_def new_object_def)
qed

theorem cluster_create_all_or_nothing_witness:
  "let run = run_state (cluster_Create (ex_svc None) ex_handler ex_request) ex_start
   in length (creates (op_log (snd run))) = 1 \<and> outcome (ex_svc None) (fst run) (creates (op_log (snd run)))"
  using cluster_create_all_or_nothing [OF _ ex_cluster_create] by (simp add: Let_def ex_cluster_create creates_def List.map_filter_simps)

theorem cluster_creates_checked_witness:
  "let l = op_log (snd (run_state (cluster_Create (ex_svc None) ex_handler ex_request) ex_start))
   in \<exists>x. create_of (l ! 1) = Some (x, Inr x) \<and> checked (ex_svc None) ex_handler ex_request l (l ! 1)"
  using cluster_creates_checked [OF _ ex_cluster_create] by (simp add: Let_def ex_cluster_create)

end
