(* ===== verification/UpdateProps.thy ===== *)
theory UpdateProps
  imports ClusterCreateProps
begin

text \<open>
  Updates of clusters: what the validation of an update protects, and the types of what the handlers store.
\<close>

section \<open>Flattened paths\<close>

lemma flatten_nested:
  "pre \<noteq> [] \<Longrightarrow> e \<in> set (flattenMap pre m) \<Longrightarrow> \<exists>r. fst e = pre @ ''.'' @ r"
proof (induction pre m rule: flattenMap.induct)
  case (2 pre key val m)
  let ?path = "pre @ ''.'' @ key"
  consider "e = (?path, val)" | nested where "val = JObj nested" "e \<in> set (flattenMap ?path nested)" | "e \<in> set (flattenMap pre m)"
    using 2(3,4) by (auto simp: Let_def split: json.splits)
  then show ?case
  proof cases
    case 2
    then have "\<exists>r. fst e = ?path @ ''.'' @ r" using "2.IH"(1) [of ?path nested] "2.prems"(1) by simp
    then show ?thesis by auto
  qed (use 2 in auto)
qed simp

text \<open>The entries at a path below \<open>pre\<close> without a further dot are those of the map itself.\<close>

lemma flatten_top:
  assumes "pre \<noteq> []" "CHR ''.'' \<notin> set n"
  shows "filter (\<lambda>e. fst e = pre @ ''.'' @ n) (flattenMap pre m) = map (\<lambda>e. (pre @ ''.'' @ n, snd e)) (filter (\<lambda>e. fst e = n) m)"
proof (induction m)
  case (Cons kv m)
  obtain k v where kv: "kv = (k, v)" by fastforce
  have "filter (\<lambda>e. fst e = pre @ ''.'' @ n) (flattenMap (pre @ ''.'' @ k) nested) = []" for nested
    using assms flatten_nested [of "pre @ ''.'' @ k" _ nested] by (fastforce simp: filter_empty_conv)
  then show ?case using Cons assms by (auto simp: kv Let_def split: json.splits)
qed simp

lemma fold_update_lookup: "map_of (fold (\<lambda>(k, v). AList.update k v) l init) = map_of init ++ map_of (rev l)"
  by (induction l arbitrary: init) (auto simp: update_conv map_add_def split: option.splits)

lemma map_of_filter_key: "map_of l k = map_of (filter (\<lambda>e. fst e = k) l) k"
  by (induction l) auto

lemma filter_key_distinct:
  "distinct (map fst m) \<Longrightarrow> filter (\<lambda>e. fst e = n) m = (case map_of m n of None \<Rightarrow> [] | Some v \<Rightarrow> [(n, v)])"
proof (induction m)
  case (Cons kv m)
  then have "map_of m (fst kv) = None" by (auto simp: map_of_eq_None_iff)
  then show ?case using Cons by (cases kv) auto
qed simp

lemma flatten_lookup:
  assumes "distinct (map fst m)" "CHR ''.'' \<notin> set n"
  shows "map_of (fold (\<lambda>(k, v). AList.update k v) (flattenMap ''spec'' m) []) (''spec.'' @ n) = map_of m n"
proof -
  have "map_of (rev (flattenMap ''spec'' m)) (''spec.'' @ n) = map_of (rev (filter (\<lambda>e. fst e = ''spec.'' @ n) (flattenMap ''spec'' m))) (''spec.'' @ n)"
    by (subst map_of_filter_key) (simp add: rev_filter)
  also have "\<dots> = map_of m n"
    using flatten_top [of "''spec''" n m] assms(2) by (simp add: filter_key_distinct [OF assms(1)] split: option.splits)
  finally show ?thesis by (simp add: fold_update_lookup)
qed

section \<open>Decoding into any\<close>

text \<open>A rounded number stays as it is, so that decoding the document of a decoded value gives it back.\<close>

lemma bitlen_pow: "m < 2 ^ bitlen m" "m \<noteq> 0 \<Longrightarrow> 2 ^ (bitlen m - 1) \<le> m"
proof (induction m rule: bitlen.induct)
  case (1 m)
  case 1
  show ?case
  proof (cases "m = 0")
    case False
    then have "m div 2 < 2 ^ bitlen (m div 2)" using "1.IH" by simp
    then show ?thesis using False by (subst bitlen.simps) simp
  qed (simp add: bitlen.simps)
next
  case (1 m)
  case 2
  show ?case
  proof (cases "m div 2 = 0")
    case True
    then have "m = 1" using 2 by simp
    then show ?thesis by (simp add: bitlen.simps)
  next
    case False
    then have "0 < bitlen (m div 2)" by (subst bitlen.simps) simp
    moreover have "2 ^ (bitlen (m div 2) - 1) \<le> m div 2" using False 2 "1.IH" by simp
    ultimately have "2 ^ bitlen (m div 2) \<le> m" by (cases "bitlen (m div 2)") auto
    then show ?thesis using 2 by (subst bitlen.simps) simp
  qed
qed

lemma bitlen_unique: "2 ^ k \<le> m \<Longrightarrow> m < 2 ^ Suc k \<Longrightarrow> bitlen m = Suc k"
proof -
  assume m: "2 ^ k \<le> m" "m < 2 ^ Suc k"
  then have "m \<noteq> 0" by (metis not_le zero_less_numeral zero_less_power)
  then have "2 ^ (bitlen m - 1) \<le> m" "m < 2 ^ bitlen m" "0 < bitlen m" using bitlen_pow [of m] by (auto simp: bitlen.simps [of m])
  then have "bitlen m - 1 < Suc k" "k < bitlen m" using m by (meson le_less_trans power_less_imp_less_exp one_less_numeral_iff semiring_norm(76))+
  then show "bitlen m = Suc k" by simp
qed

lemma round53_shifted: "q < 2 ^ 53 \<Longrightarrow> 2 ^ 52 \<le> q \<Longrightarrow> round53 (q * 2 ^ s) = q * 2 ^ s"
proof -
  assume q: "q < 2 ^ 53" "2 ^ 52 \<le> q"
  have "2 ^ (52 + s) \<le> q * 2 ^ s" "q * 2 ^ s < 2 ^ Suc (52 + s)"
    using q mult_right_mono [of "2 ^ 52" q "2 ^ s :: nat"] mult_strict_right_mono [of q "2 ^ 53" "2 ^ s :: nat"] by (auto simp: power_add)
  then have "bitlen (q * 2 ^ s) = Suc (52 + s)" by (rule bitlen_unique)
  then show ?thesis by (simp add: round53_def Let_def)
qed

lemma round53_idem: "round53 (round53 m) = round53 m"
proof (cases "bitlen m \<le> 53")
  case False
  define s q where "s = bitlen m - 53" and "q = m div 2 ^ s"
  have "m \<noteq> 0" using False by (cases m) (auto simp: bitlen.simps [of 0])
  then have "m < 2 ^ (53 + s)" "2 ^ (52 + s) \<le> m" using bitlen_pow [of m] False by (auto simp: s_def)
  then have q: "q < 2 ^ 53" "2 ^ 52 \<le> q"
    unfolding q_def by (auto simp: power_add div_less_iff_less_mult less_eq_div_iff_mult_less_eq)
  have "round53 m = q * 2 ^ s \<or> round53 m = Suc q * 2 ^ s"
    using False by (auto simp: round53_def Let_def s_def q_def)
  then obtain q' where q': "q' = q \<or> q' = Suc q" "round53 m = q' * 2 ^ s" by blast
  show ?thesis
  proof (cases "q' < 2 ^ 53")
    case True
    then show ?thesis using q q' round53_shifted [of q' s] by auto
  next
    case False
    then have "q' * 2 ^ s = 2 ^ 52 * 2 ^ Suc s" using q q'(1) by auto
    then show ?thesis using round53_shifted [of "2 ^ 52" "Suc s"] q'(2) by simp
  qed
qed (simp add: round53_def)

lemma f64_idem: "f64 n = Some r \<Longrightarrow> f64 r = Some r"
proof -
  have "round53 0 = 0" by (simp add: round53_def bitlen.simps)
  then show "f64 n = Some r \<Longrightarrow> f64 r = Some r" by (auto simp: f64_def Let_def abs_mult sgn_if round53_idem split: if_splits)
qed

lemma sequence_opt_eq: "sequence_opt xs = Some ys \<longleftrightarrow> xs = map Some ys"
  by (induction xs arbitrary: ys rule: sequence_opt.induct) auto

lemma go_value_idem: "go_value d = Some v \<Longrightarrow> go_value v = Some v"
proof (induction d arbitrary: v rule: go_value.induct)
  case (2 xs)
  then obtain ys where ys: "v = JArr ys" "map go_value xs = map Some ys" by (auto simp: sequence_opt_eq)
  then have "\<forall>y \<in> set ys. \<exists>x \<in> set xs. go_value x = Some y" by (metis (no_types, lifting) imageE imageI image_set)
  then have "map go_value ys = map Some ys" using 2 by fastforce
  then show ?case by (simp add: ys sequence_opt_eq)
next
  case (3 kvs)
  then obtain ms where ms: "v = JObj ms" "map (\<lambda>kv. map_option (Pair (fst kv)) (go_value (snd kv))) kvs = map Some ms" by (auto simp: sequence_opt_eq)
  then have "\<forall>m \<in> set ms. \<exists>kv \<in> set kvs. map_option (Pair (fst kv)) (go_value (snd kv)) = Some m" by (metis (no_types, lifting) imageE imageI image_set)
  then have "map (\<lambda>kv. map_option (Pair (fst kv)) (go_value (snd kv))) ms = map Some ms" using 3 by fastforce
  then show ?case by (simp add: ms sequence_opt_eq)
qed (auto simp: f64_idem)

lemma go_value_obj:
  assumes "go_value (JObj kvs) = Some v"
  obtains m where "v = JObj m" "map fst m = map fst kvs" "\<And>n. map_of m n = (case map_of kvs n of None \<Rightarrow> None | Some d \<Rightarrow> go_value d)"
proof -
  obtain m where m: "v = JObj m" "map (\<lambda>kv. map_option (Pair (fst kv)) (go_value (snd kv))) kvs = map Some m"
    using assms by (auto simp: sequence_opt_eq)
  then have "map fst m = map fst kvs \<and> map_of m n = (case map_of kvs n of None \<Rightarrow> None | Some d \<Rightarrow> go_value d)" for n
  proof (induction kvs arbitrary: m v)
    case (Cons kv kvs)
    then show ?case by (cases m) (auto split: option.splits)
  qed simp
  then show thesis using that m(1) by blast
qed

section \<open>Decoding one field\<close>

text \<open>A field that no other key of the document can be meant for.\<close>

lemma set_fields_one:
  assumes "distinct (map fst kvs)" "\<forall>k \<in> fst ` set kvs. field_for (map fst ds) k = Some n \<longrightarrow> k = n"
    and "map_of ds n = Some dec" "map_of vs n = Some x"
  shows "map_of (fst (set_fields ds kvs vs)) n = Some (case map_of kvs n of None \<Rightarrow> x | Some e \<Rightarrow> fst (dec x e))
    \<and> (snd (set_fields ds kvs vs) \<longrightarrow> (\<forall>e. map_of kvs n = Some e \<longrightarrow> snd (dec x e)))"
  using assms
proof (induction kvs arbitrary: vs x)
  case (Cons kv kvs)
  obtain k d where kv: "kv = (k, d)" by fastforce
  have n: "n \<in> set (map fst ds)" "n \<in> fst ` set vs" using Cons.prems(3,4) by (force dest: map_of_SomeD)+
  show ?case
  proof (cases "k = n")
    case True
    then have "field_for (map fst ds) k = Some n" "map_of kvs n = None" using n Cons.prems(1) by (auto simp: kv field_for_def map_of_eq_None_iff)
    moreover have "map_of (put n (fst (dec x d)) vs) n = Some (fst (dec x d))" using n(2) by (simp add: put_lookup)
    ultimately show ?thesis using Cons.IH [of "put n (fst (dec x d)) vs"] Cons.prems True by (simp add: kv Let_def)
  next
    case False
    then have k: "field_for (map fst ds) k \<noteq> Some n" using Cons.prems(2) by (auto simp: kv)
    let ?P = "\<lambda>r. map_of (fst r) n = Some (case map_of kvs n of None \<Rightarrow> x | Some e \<Rightarrow> fst (dec x e))
       \<and> (snd r \<longrightarrow> (\<forall>e. map_of kvs n = Some e \<longrightarrow> snd (dec x e)))"
    have IH: "?P (set_fields ds kvs vs')" if "map_of vs' n = Some x" for vs' using Cons.IH [of vs' x] Cons.prems that by simp
    obtain vs' b where "set_fields ds (kv # kvs) vs = (fst (set_fields ds kvs vs'), b \<and> snd (set_fields ds kvs vs'))" "map_of vs' n = Some x"
    proof (cases "field_for (map fst ds) k")
      case None
      then show thesis using that [of vs True] Cons.prems(4) by (simp add: kv)
    next
      case (Some m)
      then have m: "m \<noteq> n" using k by simp
      show thesis
      proof (cases "map_of ds m = None \<or> map_of vs m = None")
        case True
        then show thesis using that [of vs True] Cons.prems(4) Some by (auto simp: kv split: option.splits)
      next
        case False
        then obtain f y where "map_of ds m = Some f" "map_of vs m = Some y" by auto
        then show thesis using that [of "put m (fst (f y d)) vs" "snd (f y d)"] Cons.prems(4) Some m by (simp add: kv Let_def put_lookup)
      qed
    qed
    then show ?thesis using IH [of vs'] False by (simp add: kv)
  qed
qed simp

section \<open>What validation admits\<close>

lemma validated: "validate kind new old op fs = [] \<Longrightarrow> path \<in> fst ` set new \<Longrightarrow> validate_field (field_metas kind) new old op fs path = None"
  by (fastforce simp: validate_def map_filter_def filter_empty_conv)

text \<open>A top-level field that an admitted update sets: its value is zero if the service owns the field, and the
  stored one if the field is immutable.\<close>

lemma update_admitted:
  assumes ok: "ValidateUpdate kind (Some newDoc) (Some oldDoc) fs = []"
    and docs: "go_value newDoc = Some (JObj m)" "go_value oldDoc = Some (JObj old)" "distinct (map fst m)" "distinct (map fst old)"
    and n: "CHR ''.'' \<notin> set n" "map_of (field_metas kind) (''spec.'' @ n) = Some meta" "fm_FeatureGate meta = []" "fm_GatedModes meta = []"
    and set: "map_of m n = Some d"
  shows "fm_WriteMode meta = ServiceSet \<longrightarrow> isZeroValue d" "fm_WriteMode meta = Immutable \<longrightarrow> nil_entry old n = d"
proof -
  let ?flat = "\<lambda>m. fold (\<lambda>(k, v). AList.update k v) (flattenMap ''spec'' m) []"
  let ?path = "''spec.'' @ n"
  have look: "map_of (?flat m) ?path = Some d" "map_of (?flat old) ?path = map_of old n"
    using flatten_lookup [OF docs(3) n(1)] flatten_lookup [OF docs(4) n(1)] set by simp_all
  have "validate kind (?flat m) (Some (?flat old)) OperationUpdate fs = []"
    using ok docs by (simp only: ValidateUpdate_def option.case fields_or_nil_def flattenToFieldPaths_def json.case)
  moreover have "?path \<in> fst ` set (?flat m)" using look(1) by (force dest: map_of_SomeD)
  ultimately have "validateWriteMode ?path meta OperationUpdate (?flat m) (Some (?flat old)) fs = None"
    using validated n by (fastforce simp: validate_field_def)
  moreover have "effective_mode meta fs = fm_WriteMode meta" by (simp add: effective_mode_def n(4))
  moreover have "nil_entry (?flat m) ?path = d" "nil_entry (?flat old) ?path = nil_entry old n" by (simp_all only: nil_entry_def look option.case)
  ultimately show "fm_WriteMode meta = ServiceSet \<longrightarrow> isZeroValue d" "fm_WriteMode meta = Immutable \<longrightarrow> nil_entry old n = d"
    by (auto simp: validateWriteMode_def simp del: append.simps split: if_splits)
qed

section \<open>Protected fields of a cluster\<close>

definition protected :: "string list" where
  "protected = [''accountId'', ''creatorARN'', ''internalId'', ''oidcConfigId'']"

lemma protected_meta:
  assumes "n \<in> set protected"
  obtains meta where "map_of (field_metas ''Cluster'') (''spec.'' @ n) = Some meta" "fm_FeatureGate meta = []" "fm_GatedModes meta = []"
    "fm_WriteMode meta = (if n = ''oidcConfigId'' then Immutable else ServiceSet)"
proof -
  have "list_all (\<lambda>n. case map_of (field_metas ''Cluster'') (''spec.'' @ n) of
      Some meta \<Rightarrow> fm_FeatureGate meta = [] \<and> fm_GatedModes meta = [] \<and> fm_WriteMode meta = (if n = ''oidcConfigId'' then Immutable else ServiceSet)
    | None \<Rightarrow> False) protected" by code_simp
  then show thesis using that assms by (fastforce simp: list_all_iff split: option.splits)
qed

lemma protected_field:
  "n \<in> set protected \<Longrightarrow> map_of (fields_of (i_ClusterSpec F)) n = Some (OmitEmpty, TString)"
  by (auto simp: protected_def i_ClusterSpec_def)

lemma protected_plain: "n \<in> set protected \<Longrightarrow> CHR ''.'' \<notin> set n"
  by (auto simp: protected_def)

text \<open>The document of a stored spec, read back: a string field is there unless it is empty.\<close>

lemma stored_doc:
  assumes ty: "has_type (TStruct fs) v" and names: "distinct (map fst fs)" and n: "map_of fs n = Some (OmitEmpty, TString)"
    and doc: "go_value (marshal (TStruct fs) v) = Some d"
  obtains old where "d = JObj old" "distinct (map fst old)" "nil_entry old n = (if get_field n v = JStr [] then JNull else get_field n v)"
proof -
  let ?ms = "map (\<lambda>f. (fst f, \<lambda>x. if omitted (fst (snd f)) (snd (snd f)) x then None else Some (marshal (snd (snd f)) x))) fs"
  obtain vs where vs: "v = JObj vs" "fields_typed fs vs" using ty by auto
  have names': "map fst ?ms = map fst vs" "distinct (map fst vs)" using fields_typed_names [OF vs(2)] names by simp_all
  have "n \<in> fst ` set fs" using n by (force dest: map_of_SomeD)
  then obtain x where x: "map_of vs n = Some x" using fields_typed_lookup [OF vs(2)] by blast
  have "has_type TString x" using field_typed [OF vs(2) names, of "(n, OmitEmpty, TString)"] n x by (auto dest: map_of_SomeD)
  then obtain t where t: "x = JStr t" by auto
  have "map_of ?ms n = Some (\<lambda>x. if omitted OmitEmpty TString x then None else Some (marshal TString x))" using n by (simp add: map_of_fields cong: if_cong)
  then have look: "map_of (marshal_fields ?ms vs) n = (if t = [] then None else Some (JStr t))"
    using marshal_fields_lookup(1) [OF names', of n] x t by (simp add: omitted_def)
  have "go_value (JObj (marshal_fields ?ms vs)) = Some d" using doc by (simp add: vs(1))
  then obtain old where old: "d = JObj old" "map fst old = map fst (marshal_fields ?ms vs)"
      "\<And>n. map_of old n = (case map_of (marshal_fields ?ms vs) n of None \<Rightarrow> None | Some d \<Rightarrow> go_value d)"
    by (rule go_value_obj) blast
  show thesis
    using old marshal_fields_lookup(3) [OF names'] x t by (intro that [of old]) (simp_all add: nil_entry_def get_field_def map_items_def vs(1) look)
qed

text \<open>What a merge does to a string field that no other key is meant for.\<close>

lemma merged_field:
  assumes "has_type (TStruct fs) v" "distinct (map fst fs)" "map_of fs n = Some (tag, TString)"
    and keys: "distinct (map fst kvs)" "\<forall>k \<in> fst ` set kvs. equal_fold n k \<longrightarrow> k = n"
    and ok: "decode (TStruct fs) v (JObj kvs) = (v', True)"
  shows "get_field n v' = (case map_of kvs n of Some (JStr t) \<Rightarrow> JStr t | _ \<Rightarrow> get_field n v) \<and> map_of kvs n \<in> {None, Some JNull} \<union> range (Some \<circ> JStr)"
proof -
  let ?ds = "map (\<lambda>f. (fst f, decode (snd (snd f)))) fs"
  obtain vs where vs: "v = JObj vs" "fields_typed fs vs" using assms(1) by auto
  have "n \<in> fst ` set fs" using assms(3) by (force dest: map_of_SomeD)
  then obtain x where x: "map_of vs n = Some x" using fields_typed_lookup [OF vs(2)] by blast
  have ds: "map_of ?ds n = Some (decode TString)" using assms(3) by (simp add: map_of_fields)
  have "field_for (map fst ?ds) k = Some n \<longrightarrow> k = n" if "k \<in> fst ` set kvs" for k
    using that keys(2) by (auto simp: field_for_def find_Some_iff split: if_splits)
  then have one: "map_of (fst (set_fields ?ds kvs vs)) n = Some (case map_of kvs n of None \<Rightarrow> x | Some e \<Rightarrow> fst (decode TString x e))
      \<and> (snd (set_fields ?ds kvs vs) \<longrightarrow> (\<forall>e. map_of kvs n = Some e \<longrightarrow> snd (decode TString x e)))"
    by (intro set_fields_one [OF keys(1) _ ds x]) blast
  have "v' = JObj (fst (set_fields ?ds kvs vs))" "snd (set_fields ?ds kvs vs)" using ok by (auto simp: vs(1) map_items_def map_prod_def split: prod.splits)
  then show ?thesis
    using one x by (auto simp: get_field_def map_items_def vs(1) split: option.splits json.splits)
qed


definition ex_stored :: object where
  "ex_stored = ex_object (set_field ''oidcConfigId'' (JStr ''o1'') (set_field ''accountId'' (JStr ''123'') (zero (i_ClusterSpec ex_F))))"

definition field_after :: "string \<Rightarrow> reply + object \<Rightarrow> json option" where
  "field_after n r = (case r of Inl _ \<Rightarrow> None | Inr x \<Rightarrow> Some (get_field n (k_Spec x)))"

lemma ex_stored_ok:
  "has_type (i_ClusterSpec ex_F) (k_Spec ex_stored)" "go_value (marshal (i_ClusterSpec ex_F) (k_Spec ex_stored)) \<noteq> None"
proof -
  have "has_type (i_ClusterSpec ex_F) (zero (i_ClusterSpec ex_F))" by (rule zero_typed)
  then show "has_type (i_ClusterSpec ex_F) (k_Spec ex_stored)"
    unfolding ex_stored_def ex_object_def i_ClusterSpec_def by (auto intro!: set_field_typed simp del: has_type.simps(9) zero.simps)
  show "go_value (marshal (i_ClusterSpec ex_F) (k_Spec ex_stored)) \<noteq> None" by code_simp
qed



section \<open>Types of stored and shown objects\<close>

lemma set_issuer_typed:
  assumes "has_type (i_ClusterSpec F) v"
  shows "has_type (i_ClusterSpec F) (set_issuer url v)"
proof -
  obtain vs where vs: "v = JObj vs" "fields_typed (fields_of (i_ClusterSpec F)) vs" using assms by (auto simp: i_ClusterSpec_def)
  have "has_type (i_HostedClusterSpecPassthrough F) (get_field ''hostedCluster'' v)"
    using assms by (auto simp: i_ClusterSpec_def get_field_def map_items_def list_all2_Cons1)
  then have "has_type (i_HostedClusterSpecPassthrough F) (set_field ''issuerURL'' (JStr url) (get_field ''hostedCluster'' v))"
    unfolding i_HostedClusterSpecPassthrough_def by (rule set_field_typed) auto
  then show ?thesis using assms unfolding set_issuer_def i_ClusterSpec_def by (intro set_field_typed) auto
qed

lemma unproject_typed: "wf_schema crd \<Longrightarrow> has_type crd (unproject F pub crd spec e)"
  by (cases e) (simp_all add: unproject_def recode_typed overlay_typed)

lemma new_cluster_typed:
  assumes F: "foreign_ok (sv_F E)"
  shows "has_type (i_ClusterSpec (sv_F E)) (k_Spec (new_cluster E h q req oc ident))"
proof -
  have "has_type (i_ClusterSpec (sv_F E)) (UnprojectCluster (sv_F E) spec e)" for spec e
    unfolding UnprojectCluster_def by (intro unproject_typed wf_i_ClusterSpec F)
  moreover have "has_type (i_ClusterSpec (sv_F E)) (set_field ''creatorARN'' (JStr arn) v)" if "has_type (i_ClusterSpec (sv_F E)) v" for arn v
    using that unfolding i_ClusterSpec_def by (intro set_field_typed) auto
  ultimately show ?thesis
    by (auto simp: new_cluster_def Let_def PublicToInternalCluster_def set_issuer_typed split: option.splits)
qed

lemma merge_typed: "wf_schema t \<Longrightarrow> has_type t v \<Longrightarrow> has_type t (fst (MergeSpecJSON t v raw))"
  by (cases raw) (simp_all add: MergeSpecJSON_def decode_typed)



end
