(* ===== verification/AuthzHandlers.thy ===== *)
theory AuthzHandlers
  imports AuthzManage Handlers
begin

text \<open>
  The handlers of accounts, policies, groups, attachments and admins (\<open>accounts.go\<close> and \<open>authz.go\<close> of
  \<open>platform-api/pkg/handlers\<close>), and those of health and information. A handler gets the state of the
  authorization service and returns the reply and the new state.
\<close>

type_synonym 'w authz_handler = "'w authorizerImpl \<Rightarrow> svc_request \<Rightarrow> 'w \<Rightarrow> reply \<times> 'w"

section \<open>Bodies and documents\<close>

definition body_value :: "schema \<Rightarrow> svc_request \<Rightarrow> json option" where
  "body_value t q = (case rq_body q of None \<Rightarrow> None | Some raw \<Rightarrow> decode_body t raw)"

definition bool_value :: "string \<Rightarrow> json \<Rightarrow> bool" where
  "bool_value n v \<longleftrightarrow> get_field n v = JBool True"

definition str_items :: "string \<Rightarrow> json \<Rightarrow> string list" where
  "str_items n v = map (\<lambda>x. case x of JStr s \<Rightarrow> s | _ \<Rightarrow> []) (slice_items (get_field n v))"

text \<open>The list responses: kind, items and their number.\<close>

definition list_doc :: "string \<Rightarrow> json list \<Rightarrow> json" where
  "list_doc kind items = JObj [(''kind'', JStr kind), (''items'', JArr items), (''total'', JNum (int (length items)))]"

definition text_unless_empty :: "string \<Rightarrow> string \<Rightarrow> (string \<times> json) list" where
  "text_unless_empty k s = (if s = [] then [] else [(k, JStr s)])"

section \<open>Accounts\<close>

definition EnableAccountRequest :: schema where
  "EnableAccountRequest = TStruct [(''accountId'', Keep, TString), (''privileged'', Keep, TBool)]"

definition AccountResponse :: "Account \<Rightarrow> json" where
  "AccountResponse a = JObj ([(''kind'', JStr ''Account''), (''accountId'', JStr (ac_AccountID a))]
     @ text_unless_empty ''policyStoreId'' (ac_PolicyStoreID a)
     @ [(''privileged'', JBool (ac_Privileged a)), (''createdAt'', JStr (ac_CreatedAt a)), (''createdBy'', JStr (ac_CreatedBy a))])"

definition accounts_Create :: "string \<Rightarrow> 'w authz_handler" where
  "accounts_Create now a q w =
     (case body_value EnableAccountRequest q of
        None \<Rightarrow> (Failed ErrAccountCreateInvalidBody, w)
      | Some req \<Rightarrow>
          (let accountID = Handlers.str_field ''accountId'' req
           in if accountID = [] then (Failed ErrAccountCreateMissingID, w)
              else case GetAccount a accountID w of
                     Inl _ \<Rightarrow> (Failed ErrAccountCreateCheckFailed, w)
                   | Inr (Some _) \<Rightarrow> (Failed ErrAccountCreateExists, w)
                   | Inr None \<Rightarrow>
                       (case EnableAccount a now accountID (rq_arn q) (bool_value ''privileged'' req) w of
                          (Inl _, w') \<Rightarrow> (Failed ErrAccountCreateFailed, w')
                        | (Inr account, w') \<Rightarrow> (Replied 201 (PJson (AccountResponse account)), w'))))"

definition accounts_List :: "'w authz_handler" where
  "accounts_List a q w =
     (case ListAccounts a w of
        Inl _ \<Rightarrow> (Failed ErrAccountListFailed, w)
      | Inr accounts \<Rightarrow> (Replied 200 (PJson (list_doc ''AccountList'' (map AccountResponse accounts))), w))"

definition accounts_Get :: "'w authz_handler" where
  "accounts_Get a q w =
     (case GetAccount a (rq_id q) w of
        Inl _ \<Rightarrow> (Failed ErrAccountGetFailed, w)
      | Inr None \<Rightarrow> (Failed ErrAccountGetNotFound, w)
      | Inr (Some account) \<Rightarrow> (Replied 200 (PJson (AccountResponse account)), w))"

definition accounts_Delete :: "'w authz_handler" where
  "accounts_Delete a q w =
     (case DisableAccount a (rq_id q) w of
        (Some _, w') \<Rightarrow> (Failed ErrAccountDeleteFailed, w')
      | (None, w') \<Rightarrow> (Replied 204 PNothing, w'))"

section \<open>Policies\<close>

definition CreatePolicyRequest :: schema where
  "CreatePolicyRequest = TStruct [(''name'', Keep, TString), (''description'', Keep, TString), (''policy'', Keep, TString)]"

definition PolicyResponse :: "Policy \<Rightarrow> json" where
  "PolicyResponse p = JObj ([(''kind'', JStr ''Policy''), (''policyId'', JStr (po_PolicyID p)), (''name'', JStr (po_Name p))]
     @ text_unless_empty ''description'' (po_Description p) @ [(''createdAt'', JStr (po_CreatedAt p))])"

text \<open>The reason of a refused policy is the text of the error (the template is \<open>%w\<close>).\<close>

definition h_CreatePolicy :: "'w authz_handler" where
  "h_CreatePolicy a q w =
     (case body_value CreatePolicyRequest q of
        None \<Rightarrow> (Failed ErrAuthzPolicyCreateInvalidBody, w)
      | Some req \<Rightarrow>
          if Handlers.str_field ''name'' req = [] then (Failed ErrAuthzPolicyCreateMissingName, w)
          else if Handlers.str_field ''policy'' req = [] then (Failed ErrAuthzPolicyCreateMissingText, w)
          else case CreatePolicy a (rq_account q) (Handlers.str_field ''name'' req) (Handlers.str_field ''description'' req)
                      (Handlers.str_field ''policy'' req) w of
                 (Inl e, w') \<Rightarrow> (failed_with e ErrAuthzPolicyCreateInvalid, w')
               | (Inr p, w') \<Rightarrow> (Replied 201 (PJson (PolicyResponse p)), w'))"

definition h_ListPolicies :: "'w authz_handler" where
  "h_ListPolicies a q w =
     (case ListPolicies a (rq_account q) w of
        Inl _ \<Rightarrow> (Failed ErrAuthzPolicyListFailed, w)
      | Inr ps \<Rightarrow> (Replied 200 (PJson (list_doc ''PolicyList'' (map PolicyResponse ps))), w))"

text \<open>The service gives an error, never nil, for a policy that does not exist, so that the branch of the
  handler for nil is not taken.\<close>

definition h_GetPolicy :: "'w authz_handler" where
  "h_GetPolicy a q w =
     (case GetPolicy a (rq_account q) (rq_id q) w of
        Inl _ \<Rightarrow> (Failed ErrAuthzPolicyGetFailed, w)
      | Inr p \<Rightarrow> (Replied 200 (PJson (PolicyResponse p)), w))"

definition h_UpdatePolicy :: "'w authz_handler" where
  "h_UpdatePolicy a q w =
     (case body_value CreatePolicyRequest q of
        None \<Rightarrow> (Failed ErrAuthzPolicyUpdateInvalidBody, w)
      | Some req \<Rightarrow>
          (case UpdatePolicy a (rq_account q) (rq_id q) (Handlers.str_field ''name'' req) (Handlers.str_field ''description'' req)
                  (Handlers.str_field ''policy'' req) w of
             (Inl e, w') \<Rightarrow> (failed_with e ErrAuthzPolicyUpdateInvalid, w')
           | (Inr p, w') \<Rightarrow> (Replied 200 (PJson (PolicyResponse p)), w')))"

definition h_DeletePolicy :: "'w authz_handler" where
  "h_DeletePolicy a q w =
     (case DeletePolicy a (rq_account q) (rq_id q) w of
        (Inl e, w') \<Rightarrow>
          (if e = ''cannot delete policy with existing attachments'' then failed_with e ErrAuthzPolicyDeleteInUse
           else Failed ErrAuthzPolicyDeleteFailed, w')
      | (Inr _, w') \<Rightarrow> (Replied 204 PNothing, w'))"

section \<open>Groups\<close>

definition CreateGroupRequest :: schema where
  "CreateGroupRequest = TStruct [(''name'', Keep, TString), (''description'', Keep, TString)]"

definition GroupResponse :: "Group \<Rightarrow> json" where
  "GroupResponse g = JObj ([(''kind'', JStr ''Group''), (''groupId'', JStr (gr_GroupID g)), (''name'', JStr (gr_Name g))]
     @ text_unless_empty ''description'' (gr_Description g) @ [(''createdAt'', JStr (gr_CreatedAt g))])"

definition h_CreateGroup :: "string \<Rightarrow> string \<Rightarrow> 'w authz_handler" where
  "h_CreateGroup now uuid a q w =
     (case body_value CreateGroupRequest q of
        None \<Rightarrow> (Failed ErrAuthzGroupCreateInvalidBody, w)
      | Some req \<Rightarrow>
          if Handlers.str_field ''name'' req = [] then (Failed ErrAuthzGroupCreateMissingName, w)
          else case CreateGroup a now uuid (rq_account q) (Handlers.str_field ''name'' req) (Handlers.str_field ''description'' req) w of
                 (Inl _, w') \<Rightarrow> (Failed ErrAuthzGroupCreateFailed, w')
               | (Inr g, w') \<Rightarrow> (Replied 201 (PJson (GroupResponse g)), w'))"

definition h_ListGroups :: "'w authz_handler" where
  "h_ListGroups a q w =
     (case ListGroups a (rq_account q) w of
        Inl _ \<Rightarrow> (Failed ErrAuthzGroupListFailed, w)
      | Inr gs \<Rightarrow> (Replied 200 (PJson (list_doc ''GroupList'' (map GroupResponse gs))), w))"

definition h_GetGroup :: "'w authz_handler" where
  "h_GetGroup a q w =
     (case GetGroup a (rq_account q) (rq_id q) w of
        Inl _ \<Rightarrow> (Failed ErrAuthzGroupGetFailed, w)
      | Inr None \<Rightarrow> (Failed ErrAuthzGroupGetNotFound, w)
      | Inr (Some g) \<Rightarrow> (Replied 200 (PJson (GroupResponse g)), w))"

definition h_DeleteGroup :: "'w authz_handler" where
  "h_DeleteGroup a q w =
     (case DeleteGroup a (rq_account q) (rq_id q) w of
        (Some _, w') \<Rightarrow> (Failed ErrAuthzGroupDeleteFailed, w')
      | (None, w') \<Rightarrow> (Replied 204 PNothing, w'))"

definition UpdateMembersRequest :: schema where
  "UpdateMembersRequest = TStruct [(''add'', Keep, TSlice TString), (''remove'', Keep, TSlice TString)]"

definition MemberListResponse :: "string list \<Rightarrow> json" where
  "MemberListResponse members = list_doc ''MemberList'' (map JStr members)"

text \<open>The loops stop at the first error; \<open>now i\<close> is the clock at the \<open>i\<close>-th addition.\<close>

fun add_members :: "'w authorizerImpl \<Rightarrow> (nat \<Rightarrow> string) \<Rightarrow> string \<Rightarrow> string \<Rightarrow> string list \<Rightarrow> 'w \<Rightarrow> string option \<times> 'w" where
  "add_members a now accountID groupID [] w = (None, w)"
| "add_members a now accountID groupID (m # ms) w =
     (case AddGroupMember a (now 0) accountID groupID m w of
        (Some e, w') \<Rightarrow> (Some e, w')
      | (None, w') \<Rightarrow> add_members a (\<lambda>i. now (Suc i)) accountID groupID ms w')"

fun remove_group_members :: "'w authorizerImpl \<Rightarrow> string \<Rightarrow> string \<Rightarrow> string list \<Rightarrow> 'w \<Rightarrow> string option \<times> 'w" where
  "remove_group_members a accountID groupID [] w = (None, w)"
| "remove_group_members a accountID groupID (m # ms) w =
     (case RemoveGroupMember a accountID groupID m w of
        (Some e, w') \<Rightarrow> (Some e, w')
      | (None, w') \<Rightarrow> remove_group_members a accountID groupID ms w')"

definition h_UpdateGroupMembers :: "(nat \<Rightarrow> string) \<Rightarrow> 'w authz_handler" where
  "h_UpdateGroupMembers now a q w =
     (case body_value UpdateMembersRequest q of
        None \<Rightarrow> (Failed ErrAuthzGroupMembersUpdateInvalidBody, w)
      | Some req \<Rightarrow>
          (case add_members a now (rq_account q) (rq_id q) (str_items ''add'' req) w of
             (Some _, w1) \<Rightarrow> (Failed ErrAuthzGroupMembersUpdateAddFailed, w1)
           | (None, w1) \<Rightarrow>
               (case remove_group_members a (rq_account q) (rq_id q) (str_items ''remove'' req) w1 of
                  (Some _, w2) \<Rightarrow> (Failed ErrAuthzGroupMembersUpdateRemFailed, w2)
                | (None, w2) \<Rightarrow>
                    (case ListGroupMembers a (rq_account q) (rq_id q) w2 of
                       Inl _ \<Rightarrow> (Failed ErrAuthzGroupMembersUpdateListFailed, w2)
                     | Inr members \<Rightarrow> (Replied 200 (PJson (MemberListResponse members)), w2)))))"

definition h_ListGroupMembers :: "'w authz_handler" where
  "h_ListGroupMembers a q w =
     (case ListGroupMembers a (rq_account q) (rq_id q) w of
        Inl _ \<Rightarrow> (Failed ErrAuthzGroupMembersListFailed, w)
      | Inr members \<Rightarrow> (Replied 200 (PJson (MemberListResponse members)), w))"

section \<open>Attachments\<close>

definition CreateAttachmentRequest :: schema where
  "CreateAttachmentRequest = TStruct [(''policyId'', Keep, TString), (''targetType'', Keep, TString), (''targetId'', Keep, TString)]"

definition AttachmentResponse :: "Attachment \<Rightarrow> json" where
  "AttachmentResponse x = JObj [(''kind'', JStr ''Attachment''), (''attachmentId'', JStr (at_AttachmentID x)),
     (''policyId'', JStr (at_PolicyID x)), (''targetType'', JStr (at_TargetType x)), (''targetId'', JStr (at_TargetID x)),
     (''createdAt'', JStr (at_CreatedAt x))]"

definition h_CreateAttachment :: "'w authz_handler" where
  "h_CreateAttachment a q w =
     (case body_value CreateAttachmentRequest q of
        None \<Rightarrow> (Failed ErrAuthzAttachCreateInvalidBody, w)
      | Some req \<Rightarrow>
          (let policyID = Handlers.str_field ''policyId'' req; targetType = Handlers.str_field ''targetType'' req;
               targetID = Handlers.str_field ''targetId'' req
           in if policyID = [] \<or> targetType = [] \<or> targetID = [] then (Failed ErrAuthzAttachCreateMissingFields, w)
              else if targetType \<noteq> ''user'' \<and> targetType \<noteq> ''group'' then (Failed ErrAuthzAttachCreateInvalidTarget, w)
              else case AttachPolicy a (rq_account q) policyID targetType targetID w of
                     (Inl e, w') \<Rightarrow> (failed_with e ErrAuthzAttachCreateFailed, w')
                   | (Inr x, w') \<Rightarrow> (Replied 201 (PJson (AttachmentResponse x)), w')))"

text \<open>The filter holds the query parameters.\<close>

definition h_ListAttachments :: "AttachmentFilter \<Rightarrow> 'w authz_handler" where
  "h_ListAttachments f a q w =
     (case ListAttachments a (rq_account q) f w of
        Inl _ \<Rightarrow> (Failed ErrAuthzAttachListFailed, w)
      | Inr xs \<Rightarrow> (Replied 200 (PJson (list_doc ''AttachmentList'' (map AttachmentResponse xs))), w))"

definition h_DeleteAttachment :: "'w authz_handler" where
  "h_DeleteAttachment a q w =
     (case DetachPolicy a (rq_account q) (rq_id q) w of
        (Inl _, w') \<Rightarrow> (Failed ErrAuthzAttachDeleteFailed, w')
      | (Inr _, w') \<Rightarrow> (Replied 204 PNothing, w'))"

section \<open>Admins and checks\<close>

definition AddAdminRequest :: schema where
  "AddAdminRequest = TStruct [(''principalArn'', Keep, TString)]"

definition h_AddAdmin :: "string \<Rightarrow> 'w authz_handler" where
  "h_AddAdmin now a q w =
     (case body_value AddAdminRequest q of
        None \<Rightarrow> (Failed ErrAuthzAdminAddInvalidBody, w)
      | Some req \<Rightarrow>
          (let arn = Handlers.str_field ''principalArn'' req
           in if arn = [] then (Failed ErrAuthzAdminAddMissingPrinc, w)
              else case AddAdmin a now (rq_account q) arn (rq_arn q) w of
                     (Some _, w') \<Rightarrow> (Failed ErrAuthzAdminAddFailed, w')
                   | (None, w') \<Rightarrow> (Replied 201 (PJson (JObj [(''kind'', JStr ''Admin''), (''principalArn'', JStr arn)])), w')))"

definition h_ListAdmins :: "'w authz_handler" where
  "h_ListAdmins a q w =
     (case ListAdmins a (rq_account q) w of
        Inl _ \<Rightarrow> (Failed ErrAuthzAdminListFailed, w)
      | Inr arns \<Rightarrow> (Replied 200 (PJson (list_doc ''AdminList'' (map JStr arns))), w))"

text \<open>The path variable is the ARN.\<close>

definition h_RemoveAdmin :: "'w authz_handler" where
  "h_RemoveAdmin a q w =
     (case RemoveAdmin a (rq_account q) (rq_id q) w of
        (Some _, w') \<Rightarrow> (Failed ErrAuthzAdminDeleteFailed, w')
      | (None, w') \<Rightarrow> (Replied 204 PNothing, w'))"

text \<open>The entries of \<open>context\<close> are any values that decode.\<close>

definition CheckAuthorizationRequest :: schema where
  "CheckAuthorizationRequest = TStruct [(''principal'', Keep, TString), (''action'', Keep, TString), (''resource'', Keep, TString),
     (''context'', Keep, TMap (TCodec (\<lambda>d. go_value d \<noteq> None))), (''resourceTags'', Keep, TMap TString)]"

definition check_request :: "string \<Rightarrow> json \<Rightarrow> AuthzRequest" where
  "check_request accountID req =
     \<lparr>az_AccountID = accountID, az_CallerARN = Handlers.str_field ''principal'' req, az_Action = Handlers.str_field ''action'' req,
      az_Resource = Handlers.str_field ''resource'' req,
      az_ResourceTags = map (\<lambda>(k, v). (k, case v of JStr s \<Rightarrow> s | _ \<Rightarrow> [])) (map_items (get_field ''resourceTags'' req)),
      az_RequestTags = [], az_Context = map_items (get_field ''context'' req)\<rparr>"

definition h_CheckAuthorization :: "'w authz_handler" where
  "h_CheckAuthorization a q w =
     (case body_value CheckAuthorizationRequest q of
        None \<Rightarrow> (Failed ErrAuthzCheckInvalidBody, w)
      | Some req \<Rightarrow>
          if Handlers.str_field ''principal'' req = [] then (Failed ErrAuthzCheckMissingPrinc, w)
          else if Handlers.str_field ''action'' req = [] then (Failed ErrAuthzCheckMissingAction, w)
          else if Handlers.str_field ''resource'' req = [] then (Failed ErrAuthzCheckMissingRes, w)
          else case Authorize a (check_request (rq_account q) req) w of
                 Inl e \<Rightarrow> (failed_with e ErrAuthzCheckFailed, w)
               | Inr allowed \<Rightarrow>
                   (Replied 200 (PJson (JObj [(''kind'', JStr ''AuthorizationDecision''),
                      (''decision'', JStr (if allowed then ''ALLOW'' else ''DENY''))])), w))"

section \<open>Health and information\<close>

definition Liveness :: reply where
  "Liveness = Replied 200 (PJson (JObj [(''status'', JStr ''ok'')]))"

definition Readiness :: "bool \<Rightarrow> reply" where
  "Readiness ready = (if ready then Replied 200 (PJson (JObj [(''status'', JStr ''ok'')]))
     else Replied 503 (PJson (JObj [(''status'', JStr ''unavailable'')])))"

text \<open>\<open>strings.SplitN\<close> with a single separator: at most \<open>n\<close> parts, the last one takes the rest.\<close>

fun SplitN :: "char \<Rightarrow> nat \<Rightarrow> string \<Rightarrow> string list" where
  "SplitN c 0 s = []"
| "SplitN c (Suc 0) s = [s]"
| "SplitN c (Suc (Suc n)) s =
     (case dropWhile (\<lambda>x. x \<noteq> c) s of
        [] \<Rightarrow> [s]
      | _ # rest \<Rightarrow> takeWhile (\<lambda>x. x \<noteq> c) s # SplitN c (Suc n) rest)"

definition Info :: "string \<Rightarrow> reply" where
  "Info tgARN =
     (let parts = SplitN (CHR '':'') 6 tgARN
      in if length parts < 6 \<or> parts ! 4 = [] then Failed ErrInfoRegionalAccountUnavailable
         else Replied 200 (PJson (JObj [(''arn'', JStr (''arn:aws:iam::'' @ parts ! 4 @ '':role/LambdaExecutor''))])))"

section \<open>Changing the members of a group\<close>

definition members :: "string \<Rightarrow> string \<Rightarrow> item set \<Rightarrow> string set" where
  "members acct g rows = {m. \<exists>x \<in> rows. member_of acct g x \<and> map_of x ''memberArn'' = Some (AttrS m)}"

text \<open>The rows of a table of members, and what a step on the members of one group does to them.\<close>

definition member_step :: "string \<Rightarrow> string \<Rightarrow> (string set \<Rightarrow> string set) \<Rightarrow> item set \<Rightarrow> item set \<Rightarrow> bool" where
  "member_step acct g f rows rows' \<longleftrightarrow> (\<forall>x \<in> rows'. member_row x) \<and> members acct g rows' = f (members acct g rows)
     \<and> {x \<in> rows'. \<not> member_of acct g x} = {x \<in> rows. \<not> member_of acct g x}"

lemma same_member_key:
  assumes "member_row x" "CHR ''#'' \<notin> set g"
  shows "(\<forall>k \<in> {''accountId'', ''groupId#memberArn''}. map_of x k = map_of (member_item acct g m ts) k)
     \<longleftrightarrow> member_of acct g x \<and> map_of x ''memberArn'' = Some (AttrS m)"
  using assms by (auto simp: member_row_def member_of_def member_attrs hash_join_inj)

lemma member_key_row:
  assumes "member_row x" "CHR ''#'' \<notin> set g"
  shows "has_key (member_key acct g m) x \<longleftrightarrow> member_of acct g x \<and> map_of x ''memberArn'' = Some (AttrS m)"
  using assms by (auto simp: member_row_def member_of_def member_key_def has_key_def member_attrs hash_join_inj)

lemma select_cong: "(\<And>x. x \<in> S \<Longrightarrow> P x = Q x) \<Longrightarrow> {x \<in> S. P x} = {x \<in> S. Q x}"
  by blast

lemma member_step_refl: "\<forall>x \<in> rows. member_row x \<Longrightarrow> member_step acct g (\<lambda>ms. ms) rows rows"
  by (simp add: member_step_def)

lemma member_step_trans:
  "member_step acct g f rows rows1 \<Longrightarrow> member_step acct g h rows1 rows2 \<Longrightarrow> member_step acct g (h \<circ> f) rows rows2"
  by (simp add: member_step_def)

context authz_tables
begin

lemma PutItem_None:
  assumes "PutItem (au_dynamo a) t it cs w = (None, w')"
  shows "set (items w' t) = insert it {x \<in> set (items w t). \<not> (\<forall>k \<in> set (keys t). map_of x k = map_of it k)}"
  using dynamo assms unfolding dynamo_ok_def by blast

lemma AddGroupMember_step:
  assumes "AddGroupMember a ts acct g m w = (None, w')" "keys (MembersTableName (au_cfg a)) = [''accountId'', ''groupId#memberArn'']"
    and rows: "\<forall>x \<in> set (items w (MembersTableName (au_cfg a))). member_row x" and g: "CHR ''#'' \<notin> set g"
  shows "member_step acct g (insert m) (set (items w (MembersTableName (au_cfg a)))) (set (items w' (MembersTableName (au_cfg a))))"
proof -
  let ?t = "MembersTableName (au_cfg a)"
  have "PutItem (au_dynamo a) ?t (member_item acct g m ts) [] w = (None, w')"
    using assms(1) by (auto simp: AddGroupMember_def MemberStore_Add_def split: prod.splits option.splits put_error.splits)
  then have "set (items w' ?t) = insert (member_item acct g m ts)
      {x \<in> set (items w ?t). \<not> (\<forall>k \<in> {''accountId'', ''groupId#memberArn''}. map_of x k = map_of (member_item acct g m ts) k)}"
    using PutItem_None [of ?t "member_item acct g m ts" "[]" w w'] by (simp only: assms(2) list.set)
  moreover have "{x \<in> set (items w ?t). \<not> (\<forall>k \<in> {''accountId'', ''groupId#memberArn''}. map_of x k = map_of (member_item acct g m ts) k)}
      = {x \<in> set (items w ?t). \<not> (member_of acct g x \<and> map_of x ''memberArn'' = Some (AttrS m))}"
  proof (rule select_cong)
    fix x assume "x \<in> set (items w ?t)"
    then have "member_row x" using rows by blast
    from same_member_key [OF this g, of acct m ts] show "(\<not> (\<forall>k \<in> {''accountId'', ''groupId#memberArn''}. map_of x k = map_of (member_item acct g m ts) k))
      = (\<not> (member_of acct g x \<and> map_of x ''memberArn'' = Some (AttrS m)))" by (rule arg_cong)
  qed
  ultimately have new: "set (items w' ?t) = insert (member_item acct g m ts)
      {x \<in> set (items w ?t). \<not> (member_of acct g x \<and> map_of x ''memberArn'' = Some (AttrS m))}"
    by simp
  have item: "member_row (member_item acct g m ts)" "member_of acct g (member_item acct g m ts)"
    using g by (auto simp: member_row_def member_of_def member_attrs)
  show ?thesis unfolding member_step_def members_def new using rows item by (auto simp: member_attrs)
qed

lemma RemoveGroupMember_step:
  assumes "RemoveGroupMember a acct g m w = (None, w')"
    and rows: "\<forall>x \<in> set (items w (MembersTableName (au_cfg a))). member_row x" and g: "CHR ''#'' \<notin> set g"
  shows "member_step acct g (\<lambda>ms. ms - {m}) (set (items w (MembersTableName (au_cfg a)))) (set (items w' (MembersTableName (au_cfg a))))"
proof -
  let ?t = "MembersTableName (au_cfg a)"
  have "DeleteItem (au_dynamo a) ?t (member_key acct g m) w = (None, w')"
    using assms(1) by (auto simp: RemoveGroupMember_def MemberStore_Remove_def wrap_err_opt_def split: prod.splits option.splits)
  then have "set (items w' ?t) = {x \<in> set (items w ?t). \<not> (member_of acct g x \<and> map_of x ''memberArn'' = Some (AttrS m))}"
    using DeleteItem_None(1) member_key_row [OF _ g] rows by blast
  then show ?thesis unfolding member_step_def members_def using rows by auto
qed

lemma add_members_step:
  assumes "add_members a now acct g ms w = (None, w')" "keys (MembersTableName (au_cfg a)) = [''accountId'', ''groupId#memberArn'']"
    and "\<forall>x \<in> set (items w (MembersTableName (au_cfg a))). member_row x" and g: "CHR ''#'' \<notin> set g"
  shows "member_step acct g (\<lambda>old. old \<union> set ms) (set (items w (MembersTableName (au_cfg a)))) (set (items w' (MembersTableName (au_cfg a))))"
  using assms(1,3)
proof (induction ms arbitrary: now w)
  case (Cons m ms)
  then obtain w1 where w1: "AddGroupMember a (now 0) acct g m w = (None, w1)" "add_members a (\<lambda>i. now (Suc i)) acct g ms w1 = (None, w')"
    by (auto split: prod.splits option.splits)
  have step: "member_step acct g (insert m) (set (items w (MembersTableName (au_cfg a)))) (set (items w1 (MembersTableName (au_cfg a))))"
    by (rule AddGroupMember_step [OF w1(1) assms(2) Cons.prems(2) g])
  then have "\<forall>x \<in> set (items w1 (MembersTableName (au_cfg a))). member_row x" by (simp add: member_step_def)
  moreover have "(\<lambda>old. old \<union> set (m # ms)) = (\<lambda>old. old \<union> set ms) \<circ> insert m" by auto
  ultimately show ?case using member_step_trans [OF step Cons.IH [OF w1(2)]] by (simp only:)
qed (simp add: member_step_refl)

lemma remove_group_members_step:
  assumes "remove_group_members a acct g ms w = (None, w')"
    and "\<forall>x \<in> set (items w (MembersTableName (au_cfg a))). member_row x" and g: "CHR ''#'' \<notin> set g"
  shows "member_step acct g (\<lambda>old. old - set ms) (set (items w (MembersTableName (au_cfg a)))) (set (items w' (MembersTableName (au_cfg a))))"
  using assms(1,2)
proof (induction ms arbitrary: w)
  case (Cons m ms)
  then obtain w1 where w1: "RemoveGroupMember a acct g m w = (None, w1)" "remove_group_members a acct g ms w1 = (None, w')"
    by (auto split: prod.splits option.splits)
  have step: "member_step acct g (\<lambda>ms. ms - {m}) (set (items w (MembersTableName (au_cfg a)))) (set (items w1 (MembersTableName (au_cfg a))))"
    by (rule RemoveGroupMember_step [OF w1(1) Cons.prems(2) g])
  then have "\<forall>x \<in> set (items w1 (MembersTableName (au_cfg a))). member_row x" by (simp add: member_step_def)
  moreover have "(\<lambda>old. old - set (m # ms)) = (\<lambda>old. old - set ms) \<circ> (\<lambda>ms. ms - {m})" by auto
  ultimately show ?case using member_step_trans [OF step Cons.IH [OF w1(2)]] by (simp only:)
qed (simp add: member_step_refl)

lemma ListGroupMembers_set:
  assumes "ListGroupMembers a acct g w = Inr ms"
    and rows: "\<forall>x \<in> set (items w (MembersTableName (au_cfg a))). member_row x" and g: "CHR ''#'' \<notin> set g"
  shows "set ms = members acct g (set (items w (MembersTableName (au_cfg a))))"
proof -
  let ?t = "MembersTableName (au_cfg a)"
  obtain xs where xs: "Query (au_dynamo a) ?t None [KeyEq ''accountId'' acct, BeginsWith ''groupId#memberArn'' (g @ ''#'')] w = Inr xs"
    "mapR (unmarshal_member ''memberArn'') xs = Inr ms"
    using assms(1) by (auto simp: ListGroupMembers_def MemberStore_ListGroupMembers_def bindR_eq_Inr wrap_err_def split: sum.splits)
  have "set xs = {x \<in> set (items w ?t). list_all (cond_holds x) [KeyEq ''accountId'' acct, BeginsWith ''groupId#memberArn'' (g @ ''#'')]}"
    using dynamo xs(1) unfolding dynamo_ok_def by blast
  then have set_xs: "set xs = {x \<in> set (items w ?t). member_of acct g x}" using rows member_row_cond [OF _ g] by blast
  have "unmarshal_member ''memberArn'' x = Inr m \<longleftrightarrow> map_of x ''memberArn'' = Some (AttrS m)" if "x \<in> set xs" for x m
    using that set_xs rows by (auto simp: member_row_def unmarshal_member_item member_attrs)
  moreover have "set ms = {m. \<exists>x \<in> set xs. unmarshal_member ''memberArn'' x = Inr m}"
    using xs(2) unfolding mapR_Inr_iff by (induction rule: list_all2_induct) auto
  ultimately show ?thesis unfolding members_def set_xs by (auto simp: set_xs)
qed

end


definition ex_members_request :: svc_request where
  "ex_members_request = \<lparr>rq_account = ''1'', rq_arn = [], rq_id = ''g'', rq_limit = [], rq_offset = [], rq_clusterId = [],
     rq_body = Some (RawDoc (JObj [(''add'', JArr [JStr ''arn:ann'']), (''remove'', JArr [JStr ''arn:joe''])]))\<rparr>"

definition replied_doc :: "reply \<times> 'w \<Rightarrow> json option" where
  "replied_doc r = (case fst r of Replied n (PJson d) \<Rightarrow> if n = 200 then Some d else None | _ \<Rightarrow> None)"


text \<open>An account that exists is never enabled again.\<close>

lemma accounts_Create_exists:
  assumes "body_value EnableAccountRequest q = Some req" "GetAccount a (Handlers.str_field ''accountId'' req) w = Inr (Some acc)"
    "Handlers.str_field ''accountId'' req \<noteq> []"
  shows "accounts_Create now a q w = (Failed ErrAccountCreateExists, w)"
  using assms by (simp add: accounts_Create_def Let_def)

text \<open>A policy that is attached is not deleted: the reply says so and nothing changes.\<close>

lemma DeletePolicy_attached:
  assumes "getAccountPolicyStoreID a (rq_account q) w = Inr psid"
    "ListAVPPolicies (au_avp a) psid \<lparr>pf_PolicyTemplateId = Some (rq_id q), pf_Principal = None\<rparr> w = Inr (p # ps)"
  shows "\<exists>e. h_DeletePolicy a q w = (Failed e, w) \<and> ae_HTTPStatus e = 409"
  using assms by (simp add: h_DeletePolicy_def DeletePolicy_def with_store_def failed_with_def WithReason_def ErrAuthzPolicyDeleteInUse_def api_error_def)

end
