(* ===== verification/MockAvp.thy ===== *)
theory MockAvp
  imports Authz GoJson
begin

text \<open>
  The local substitute for Amazon Verified Permissions (\<open>platform-api/pkg/authz/client/mock_avp.go\<close>): an
  in-memory table of policy templates and policies per policy store, which sends the resolved policies of a
  store to a cedar-agent process before it asks it for a decision. The agent is not part of the repository:
  it is a function from method, URL and body to a reply, on a state of its own.

  Strings the code reads with \<open>aws.ToString\<close> are strings here, a nil pointer being the empty one. Go ranges
  over a map in an order it does not fix: \<open>me_order\<close> is the order of the keys in one call.
\<close>

section \<open>State\<close>

record mockTemplate =
  mt_statement :: string
  mt_description :: string
  mt_createdDate :: int

record mockPolicy =
  mp_cedarText :: string
  mp_templateID :: string
  mp_principal :: "entity_id option"
  mp_createdDate :: int

type_synonym 'v stores = "(string \<times> (string \<times> 'v) list) list"

record MockAVPClient =
  cedarAgentURL :: string
  mk_templates :: "mockTemplate stores"
  mk_policies :: "mockPolicy stores"

definition NewMockAVPClient :: "string \<Rightarrow> MockAVPClient" where
  "NewMockAVPClient url = \<lparr>cedarAgentURL = trim_suffix url ''/'', mk_templates = [], mk_policies = []\<rparr>"

text \<open>Indexing a map of maps: a missing store reads as an empty one and is made on the first write.\<close>

definition in_store :: "string \<Rightarrow> 'v stores \<Rightarrow> (string \<times> 'v) list" where
  "in_store sid m = (case map_of m sid of None \<Rightarrow> [] | Some s \<Rightarrow> s)"

definition put_in :: "string \<Rightarrow> string \<Rightarrow> 'v \<Rightarrow> 'v stores \<Rightarrow> 'v stores" where
  "put_in sid k v m = AList.update sid (AList.update k v (in_store sid m)) m"

definition delete_in :: "string \<Rightarrow> string \<Rightarrow> 'v stores \<Rightarrow> 'v stores" where
  "delete_in sid k m = (case map_of m sid of None \<Rightarrow> m | Some s \<Rightarrow> AList.update sid (AList.delete k s) m)"

text \<open>What one call gets from its surroundings: \<open>uuid.New\<close>, \<open>time.Now\<close> and the order of a range over a map.\<close>

record mock_env =
  me_uuid :: string
  me_now :: int
  me_order :: "string list \<Rightarrow> string list"

definition ranged :: "mock_env \<Rightarrow> (string \<times> 'v) list \<Rightarrow> (string \<times> 'v) list" where
  "ranged env s = List.map_filter (\<lambda>k. map_option (Pair k) (map_of s k)) (me_order env (map fst s))"

section \<open>Cedar text\<close>

text \<open>\<open>strings.ReplaceAll\<close> for a text to replace that is not empty, and \<open>strings.TrimSpace\<close> and
  \<open>strings.TrimPrefix\<close> for ASCII text.\<close>

fun ReplaceAll :: "string \<Rightarrow> string \<Rightarrow> string \<Rightarrow> string" where
  "ReplaceAll old new [] = []"
| "ReplaceAll old new (c # cs) =
     (if old \<noteq> [] \<and> has_prefix (c # cs) old then new @ ReplaceAll old new (drop (length old) (c # cs))
      else c # ReplaceAll old new cs)"

definition white :: "char \<Rightarrow> bool" where
  "white c \<longleftrightarrow> c \<in> {CHR 0x20, CHR 0x09, CHR 0x0A, CHR 0x0B, CHR 0x0C, CHR 0x0D}"

definition TrimSpace :: "string \<Rightarrow> string" where
  "TrimSpace s = rev (dropWhile white (rev (dropWhile white s)))"

definition TrimPrefix :: "string \<Rightarrow> string \<Rightarrow> string" where
  "TrimPrefix s p = (if has_prefix s p then drop (length p) s else s)"

definition adaptForCedarAgent :: "string \<Rightarrow> string" where
  "adaptForCedarAgent cedarText = ReplaceAll ''resource like '' ''resource.arn like '' cedarText"

definition starts_statement :: "string \<Rightarrow> bool" where
  "starts_statement line \<longleftrightarrow> (let trimmed = TrimSpace line in has_prefix trimmed ''permit'' \<or> has_prefix trimmed ''forbid'')"

text \<open>\<open>append\<close> of the trimmed text of the builder, unless there is nothing in it.\<close>

definition finished :: "string \<Rightarrow> string list" where
  "finished current = (let stmt = TrimSpace current in if stmt = [] then [] else [stmt])"

fun split_loop :: "string list \<Rightarrow> string \<Rightarrow> string list" where
  "split_loop [] current = finished current"
| "split_loop (line # lines) current =
     (if starts_statement line \<and> current \<noteq> [] then finished current @ split_loop lines (line @ [CHR 0x0A])
      else split_loop lines (current @ line @ [CHR 0x0A]))"

definition splitCedarStatements :: "string \<Rightarrow> string list" where
  "splitCedarStatements cedarText = split_loop (split_on (CHR 0x0A) cedarText) []"

text \<open>\<open>fmt.Sprintf\<close> of an entity: its type and its quoted identifier.\<close>

definition entity_uid :: "string \<Rightarrow> string \<Rightarrow> string" where
  "entity_uid t i = t @ ''::'' @ [CHR 0x22] @ i @ [CHR 0x22]"

definition resolvePrincipal :: "string \<Rightarrow> entity_id \<Rightarrow> string" where
  "resolvePrincipal cedarTemplate p = ReplaceAll ''?principal'' (''principal in '' @ entity_uid (fst p) (snd p)) cedarTemplate"

section \<open>The agent\<close>

text \<open>A reply has a status, a body and the error of reading it, and what the body parses to.\<close>

datatype agent_reply = BadURL string | NoReply string | Reply int string "string option" "json option"

type_synonym 'a agent = "string \<Rightarrow> string \<Rightarrow> json \<Rightarrow> 'a \<Rightarrow> agent_reply \<times> 'a"

datatype mock_error =
    TemplateNotFound string
  | UnsupportedDefinition
  | OnlyStaticUpdates
  | RequestNotBuilt string
  | RequestFailed string
  | ReadFailed string
  | AgentStatus int string
  | NotParsed
  | NilPointer

definition policy_entries :: "string \<Rightarrow> mockPolicy \<Rightarrow> json list" where
  "policy_entries pid p =
     (let stmts = splitCedarStatements (adaptForCedarAgent (mp_cedarText p))
      in map (\<lambda>(i, stmt). JObj [(''id'', JStr (pid @ ''-'' @ dec_of_int (int i))), (''content'', JStr stmt)]) (enumerate 0 stmts))"

definition policy_list :: "mock_env \<Rightarrow> MockAVPClient \<Rightarrow> string \<Rightarrow> json list" where
  "policy_list env m sid = concat (map (\<lambda>(pid, p). policy_entries pid p) (ranged env (in_store sid (mk_policies m))))"

definition syncPolicies :: "'a agent \<Rightarrow> mock_env \<Rightarrow> MockAVPClient \<Rightarrow> string \<Rightarrow> 'a \<Rightarrow> mock_error option \<times> 'a" where
  "syncPolicies agent env m sid a =
     (case agent ''PUT'' (cedarAgentURL m @ ''/v1/policies'') (JArr (policy_list env m sid)) a of
        (BadURL e, a1) \<Rightarrow> (Some (RequestNotBuilt e), a1)
      | (NoReply e, a1) \<Rightarrow> (Some (RequestFailed e), a1)
      | (Reply st body _ _, a1) \<Rightarrow> (if st \<noteq> 200 then Some (AgentStatus st body) else None, a1))"

section \<open>Policy stores and templates\<close>

record store_output =
  so_PolicyStoreId :: string
  so_Arn :: string
  so_CreatedDate :: int
  so_LastUpdatedDate :: int

definition store_info :: "string \<Rightarrow> int \<Rightarrow> store_output" where
  "store_info sid now = \<lparr>so_PolicyStoreId = sid, so_Arn = ''arn:aws:verifiedpermissions::local:policy-store/'' @ sid,
     so_CreatedDate = now, so_LastUpdatedDate = now\<rparr>"

definition mock_CreatePolicyStore :: "mock_env \<Rightarrow> MockAVPClient \<Rightarrow> store_output \<times> MockAVPClient" where
  "mock_CreatePolicyStore env m =
     (store_info (me_uuid env) (me_now env),
      m\<lparr>mk_templates := AList.update (me_uuid env) [] (mk_templates m),
        mk_policies := AList.update (me_uuid env) [] (mk_policies m)\<rparr>)"

definition mock_DeletePolicyStore :: "string \<Rightarrow> MockAVPClient \<Rightarrow> MockAVPClient" where
  "mock_DeletePolicyStore sid m =
     m\<lparr>mk_templates := AList.delete sid (mk_templates m), mk_policies := AList.delete sid (mk_policies m)\<rparr>"

definition mock_GetPolicyStore :: "mock_env \<Rightarrow> string \<Rightarrow> store_output" where
  "mock_GetPolicyStore env sid = store_info sid (me_now env)"

record template_output =
  te_PolicyStoreId :: string
  te_PolicyTemplateId :: string
  te_CreatedDate :: int
  te_LastUpdatedDate :: int

record template_detail = template_output +
  te_Statement :: string
  te_Description :: string

record template_item = template_output +
  ti_Description :: string

definition mock_CreatePolicyTemplate :: "mock_env \<Rightarrow> string \<Rightarrow> string \<Rightarrow> string \<Rightarrow> MockAVPClient \<Rightarrow> template_output \<times> MockAVPClient" where
  "mock_CreatePolicyTemplate env sid statement description m =
     (\<lparr>te_PolicyStoreId = sid, te_PolicyTemplateId = me_uuid env, te_CreatedDate = me_now env, te_LastUpdatedDate = me_now env\<rparr>,
      m\<lparr>mk_templates := put_in sid (me_uuid env)
          \<lparr>mt_statement = statement, mt_description = description, mt_createdDate = me_now env\<rparr> (mk_templates m)\<rparr>)"

definition find_template :: "MockAVPClient \<Rightarrow> string \<Rightarrow> string \<Rightarrow> mock_error + mockTemplate" where
  "find_template m sid tid =
     (case map_of (in_store sid (mk_templates m)) tid of None \<Rightarrow> Inl (TemplateNotFound tid) | Some tmpl \<Rightarrow> Inr tmpl)"

definition mock_GetPolicyTemplate :: "mock_env \<Rightarrow> string \<Rightarrow> string \<Rightarrow> MockAVPClient \<Rightarrow> mock_error + template_detail" where
  "mock_GetPolicyTemplate env sid tid m =
     bindR (find_template m sid tid) (\<lambda>tmpl.
       Inr \<lparr>te_PolicyStoreId = sid, te_PolicyTemplateId = tid, te_CreatedDate = mt_createdDate tmpl,
            te_LastUpdatedDate = me_now env, te_Statement = mt_statement tmpl, te_Description = mt_description tmpl\<rparr>)"

text \<open>One policy of the loop of \<open>UpdatePolicyTemplate\<close>; a linked policy without a principal is a nil pointer.\<close>

definition relink :: "string \<Rightarrow> string \<Rightarrow> mockPolicy \<Rightarrow> mockPolicy option" where
  "relink tid statement p =
     (if mp_templateID p = tid
      then map_option (\<lambda>pr. p\<lparr>mp_cedarText := resolvePrincipal statement pr\<rparr>) (mp_principal p)
      else Some p)"

fun relink_loop :: "string \<Rightarrow> string \<Rightarrow> string list \<Rightarrow> (string \<times> mockPolicy) list \<Rightarrow> bool \<times> (string \<times> mockPolicy) list" where
  "relink_loop tid statement [] s = (True, s)"
| "relink_loop tid statement (k # ks) s =
     (case map_of s k of
        None \<Rightarrow> relink_loop tid statement ks s
      | Some p \<Rightarrow>
          (case relink tid statement p of
             None \<Rightarrow> (False, s)
           | Some q \<Rightarrow> relink_loop tid statement ks (AList.update k q s)))"

text \<open>The policies of a store are written back only where there are some.\<close>

definition relink_store :: "mock_env \<Rightarrow> string \<Rightarrow> string \<Rightarrow> string \<Rightarrow> mockPolicy stores \<Rightarrow> bool \<times> mockPolicy stores" where
  "relink_store env sid tid statement m =
     (case map_of m sid of
        None \<Rightarrow> (True, m)
      | Some s \<Rightarrow> (let (ok, s') = relink_loop tid statement (me_order env (map fst s)) s in (ok, AList.update sid s' m)))"

definition mock_UpdatePolicyTemplate ::
  "'a agent \<Rightarrow> mock_env \<Rightarrow> string \<Rightarrow> string \<Rightarrow> string \<Rightarrow> string \<Rightarrow> MockAVPClient \<times> 'a \<Rightarrow> (mock_error + template_output) \<times> MockAVPClient \<times> 'a"
where
  "mock_UpdatePolicyTemplate agent env sid tid statement description w =
     (case find_template (fst w) sid tid of
        Inl e \<Rightarrow> (Inl e, w)
      | Inr tmpl \<Rightarrow>
          (let (ok, ps) = relink_store env sid tid statement (mk_policies (fst w));
               m = (fst w)\<lparr>mk_templates := put_in sid tid (tmpl\<lparr>mt_statement := statement, mt_description := description\<rparr>) (mk_templates (fst w)),
                     mk_policies := ps\<rparr>
           in if \<not> ok then (Inl NilPointer, m, snd w)
              else (Inr \<lparr>te_PolicyStoreId = sid, te_PolicyTemplateId = tid, te_CreatedDate = mt_createdDate tmpl, te_LastUpdatedDate = me_now env\<rparr>,
                    m, snd (syncPolicies agent env m sid (snd w)))))"

definition mock_DeletePolicyTemplate :: "string \<Rightarrow> string \<Rightarrow> MockAVPClient \<Rightarrow> MockAVPClient" where
  "mock_DeletePolicyTemplate sid tid m = m\<lparr>mk_templates := delete_in sid tid (mk_templates m)\<rparr>"

definition mock_ListPolicyTemplates :: "mock_env \<Rightarrow> string \<Rightarrow> MockAVPClient \<Rightarrow> template_item list" where
  "mock_ListPolicyTemplates env sid m =
     map (\<lambda>(tid, tmpl). \<lparr>te_PolicyStoreId = sid, te_PolicyTemplateId = tid, te_CreatedDate = mt_createdDate tmpl,
             te_LastUpdatedDate = mt_createdDate tmpl, ti_Description = mt_description tmpl\<rparr>)
       (ranged env (in_store sid (mk_templates m)))"

section \<open>Policies\<close>

datatype PolicyType = PolicyTypeStatic | PolicyTypeTemplateLinked

datatype policy_definition = DefStatic string | DefTemplateLinked string "entity_id option" | DefOther

record policy_output =
  pl_PolicyStoreId :: string
  pl_PolicyId :: string
  pl_PolicyType :: PolicyType
  pl_CreatedDate :: int
  pl_LastUpdatedDate :: int

text \<open>\<open>CreatePolicy\<close> takes the lock twice: it reads the template and resolves it under the first, and stores
  the policy under the second.\<close>

definition resolve_definition :: "MockAVPClient \<Rightarrow> string \<Rightarrow> policy_definition \<Rightarrow> mock_error + (PolicyType \<times> string \<times> string \<times> entity_id option)" where
  "resolve_definition m sid d =
     (case d of
        DefStatic statement \<Rightarrow> Inr (PolicyTypeStatic, statement, [], None)
      | DefTemplateLinked tid pr \<Rightarrow>
          bindR (find_template m sid tid) (\<lambda>tmpl.
            case pr of
              None \<Rightarrow> Inl NilPointer
            | Some p \<Rightarrow> Inr (PolicyTypeTemplateLinked, resolvePrincipal (mt_statement tmpl) p, tid, Some p))
      | DefOther \<Rightarrow> Inl UnsupportedDefinition)"

definition store_policy :: "mock_env \<Rightarrow> string \<Rightarrow> string \<times> string \<times> entity_id option \<Rightarrow> MockAVPClient \<Rightarrow> MockAVPClient" where
  "store_policy env sid r m =
     m\<lparr>mk_policies := put_in sid (me_uuid env)
         \<lparr>mp_cedarText = fst r, mp_templateID = fst (snd r), mp_principal = snd (snd r), mp_createdDate = me_now env\<rparr> (mk_policies m)\<rparr>"

definition policy_written :: "mock_env \<Rightarrow> string \<Rightarrow> string \<Rightarrow> PolicyType \<Rightarrow> policy_output" where
  "policy_written env sid pid ty =
     \<lparr>pl_PolicyStoreId = sid, pl_PolicyId = pid, pl_PolicyType = ty, pl_CreatedDate = me_now env, pl_LastUpdatedDate = me_now env\<rparr>"

definition mock_CreatePolicy ::
  "'a agent \<Rightarrow> mock_env \<Rightarrow> string \<Rightarrow> policy_definition \<Rightarrow> MockAVPClient \<times> 'a \<Rightarrow> (mock_error + policy_output) \<times> MockAVPClient \<times> 'a"
where
  "mock_CreatePolicy agent env sid d w =
     (case resolve_definition (fst w) sid d of
        Inl e \<Rightarrow> (Inl e, w)
      | Inr (ty, r) \<Rightarrow>
          (let m = store_policy env sid r (fst w)
           in (Inr (policy_written env sid (me_uuid env) ty), m, snd (syncPolicies agent env m sid (snd w)))))"

definition mock_DeletePolicy :: "'a agent \<Rightarrow> mock_env \<Rightarrow> string \<Rightarrow> string \<Rightarrow> MockAVPClient \<times> 'a \<Rightarrow> MockAVPClient \<times> 'a" where
  "mock_DeletePolicy agent env sid pid w =
     (let m = (fst w)\<lparr>mk_policies := delete_in sid pid (mk_policies (fst w))\<rparr>
      in (m, snd (syncPolicies agent env m sid (snd w))))"

text \<open>The definition in the output is static whatever the policy is; a policy that is not there has no text.\<close>

definition mock_GetPolicy :: "mock_env \<Rightarrow> string \<Rightarrow> string \<Rightarrow> MockAVPClient \<Rightarrow> policy_output \<times> string" where
  "mock_GetPolicy env sid pid m =
     (policy_written env sid pid PolicyTypeStatic,
      case map_of (in_store sid (mk_policies m)) pid of None \<Rightarrow> [] | Some p \<Rightarrow> mp_cedarText p)"

definition mock_UpdatePolicy ::
  "'a agent \<Rightarrow> mock_env \<Rightarrow> string \<Rightarrow> string \<Rightarrow> string option \<Rightarrow> MockAVPClient \<times> 'a \<Rightarrow> (mock_error + policy_output) \<times> MockAVPClient \<times> 'a"
where
  "mock_UpdatePolicy agent env sid pid staticDef w =
     (case staticDef of
        None \<Rightarrow> (Inl OnlyStaticUpdates, w)
      | Some cedarText \<Rightarrow>
          (let p = (case map_of (in_store sid (mk_policies (fst w))) pid of
                      Some p \<Rightarrow> p\<lparr>mp_cedarText := cedarText\<rparr>
                    | None \<Rightarrow> \<lparr>mp_cedarText = cedarText, mp_templateID = [], mp_principal = None, mp_createdDate = 0\<rparr>);
               m = (fst w)\<lparr>mk_policies := put_in sid pid p (mk_policies (fst w))\<rparr>
           in (Inr (policy_written env sid pid PolicyTypeStatic), m, snd (syncPolicies agent env m sid (snd w)))))"

text \<open>The filter of a listing; the reference to a principal may also be the unspecified one.\<close>

datatype entity_reference = RefIdentifier entity_id | RefUnspecified

record list_filter =
  lf_PolicyTemplateId :: "string option"
  lf_PolicyType :: "PolicyType option"
  lf_Principal :: "entity_reference option"

definition listed_policy :: "list_filter option \<Rightarrow> mockPolicy \<Rightarrow> bool" where
  "listed_policy flt p =
     (case flt of
        None \<Rightarrow> True
      | Some f \<Rightarrow>
          (case lf_PolicyTemplateId f of None \<Rightarrow> True | Some tid \<Rightarrow> mp_templateID p = tid)
        \<and> (case lf_PolicyType f of None \<Rightarrow> True
             | Some PolicyTypeTemplateLinked \<Rightarrow> mp_templateID p \<noteq> []
             | Some PolicyTypeStatic \<Rightarrow> mp_templateID p = [])
        \<and> (case lf_Principal f of Some (RefIdentifier r) \<Rightarrow> mp_principal p = Some r | _ \<Rightarrow> True))"

record policy_item = policy_output +
  pi_TemplateLinked :: "(string \<times> entity_id option) option"
  pi_Principal :: "entity_id option"

definition policy_item_of :: "string \<Rightarrow> string \<Rightarrow> mockPolicy \<Rightarrow> policy_item" where
  "policy_item_of sid pid p =
     (let linked = mp_templateID p \<noteq> []
      in \<lparr>pl_PolicyStoreId = sid, pl_PolicyId = pid, pl_PolicyType = (if linked then PolicyTypeTemplateLinked else PolicyTypeStatic),
          pl_CreatedDate = mp_createdDate p, pl_LastUpdatedDate = mp_createdDate p,
          pi_TemplateLinked = (if linked then Some (mp_templateID p, mp_principal p) else None),
          pi_Principal = (if linked then mp_principal p else None)\<rparr>)"

definition mock_ListPolicies :: "mock_env \<Rightarrow> string \<Rightarrow> list_filter option \<Rightarrow> MockAVPClient \<Rightarrow> policy_item list" where
  "mock_ListPolicies env sid flt m =
     map (\<lambda>(pid, p). policy_item_of sid pid p) (filter (\<lambda>(pid, p). listed_policy flt p) (ranged env (in_store sid (mk_policies m))))"

text \<open>The store named, with the two dates.\<close>

definition mock_PutSchema :: "mock_env \<Rightarrow> string \<Rightarrow> string \<times> int \<times> int" where
  "mock_PutSchema env sid = (sid, me_now env, me_now env)"

section \<open>Authorization\<close>

datatype AttributeValue = AttrString string | AttrLong int | AttrBoolean bool | AttrSet "AttributeValue list"
  | AttrRecord "(string \<times> AttributeValue) list" | AttrOther

fun convertAttributeValue :: "AttributeValue \<Rightarrow> json" where
  "convertAttributeValue (AttrString v) = JStr v"
| "convertAttributeValue (AttrLong v) = JNum v"
| "convertAttributeValue (AttrBoolean v) = JBool v"
| "convertAttributeValue (AttrSet vs) = JArr (map convertAttributeValue vs)"
| "convertAttributeValue (AttrRecord kvs) = JObj (map (\<lambda>kv. (fst kv, convertAttributeValue (snd kv))) kvs)"
| "convertAttributeValue AttrOther = JNull"

record EntityItem =
  ei_Identifier :: entity_id
  ei_Attributes :: "(string \<times> AttributeValue) list option"

text \<open>The context is \<open>None\<close> also when it is not given as a map, the entities also when not given as a list.\<close>

record IsAuthorizedInput =
  ia_PolicyStoreId :: string
  ia_Principal :: "entity_id option"
  ia_Action :: "string option"
  ia_Resource :: "entity_id option"
  ia_Context :: "(string \<times> AttributeValue) list option"
  ia_Entities :: "EntityItem list option"

definition convert_map :: "(string \<times> AttributeValue) list \<Rightarrow> (string \<times> json) list" where
  "convert_map kvs = map (\<lambda>kv. (fst kv, convertAttributeValue (snd kv))) kvs"

definition cedar_entity :: "string \<Rightarrow> (string \<times> json) list \<Rightarrow> string list \<Rightarrow> json" where
  "cedar_entity uid attrs parents =
     JObj [(''uid'', JStr uid), (''attrs'', JObj attrs), (''parents'', JArr (map JStr parents))]"

text \<open>One turn of the loop over the entities: the group it adds, the entities it adds, and whether the
  resource is one of them.\<close>

definition entity_turn :: "EntityItem \<Rightarrow> string list \<times> json list \<times> bool" where
  "entity_turn e =
     (let (ty, i) = ei_Identifier e; uid = entity_uid ty i; group = (ty = ''ROSA::Group'' \<or> ty = ''Group'');
          res = (case ei_Attributes e of
                   Some kvs \<Rightarrow> if ty = ''ROSA::Resource'' \<or> ty = ''Resource''
                              then [cedar_entity uid (assign (convert_map kvs) ''arn'' (JStr i)) []] else []
                 | None \<Rightarrow> [])
      in (if group then [uid] else [], (if group then [cedar_entity uid [] []] else []) @ res, res \<noteq> []))"

definition entity_list :: "string \<Rightarrow> EntityItem list option \<Rightarrow> json list" where
  "entity_list principalUID es =
     (case es of
        None \<Rightarrow> []
      | Some items \<Rightarrow>
          (let groupUIDs = concat (map (fst \<circ> entity_turn) items)
           in concat (map (fst \<circ> snd \<circ> entity_turn) items)
              @ (if principalUID \<noteq> [] \<and> groupUIDs \<noteq> [] then [cedar_entity principalUID [] groupUIDs] else [])))"

definition resource_added :: "EntityItem list option \<Rightarrow> bool" where
  "resource_added es = (case es of None \<Rightarrow> False | Some items \<Rightarrow> list_ex (snd \<circ> snd \<circ> entity_turn) items)"

definition buildCedarAgentRequest :: "IsAuthorizedInput \<Rightarrow> json" where
  "buildCedarAgentRequest params =
     (let principalUID = (case ia_Principal params of None \<Rightarrow> [] | Some (ty, i) \<Rightarrow> entity_uid ty i);
          principal = (case ia_Principal params of None \<Rightarrow> [] | Some _ \<Rightarrow> [(''principal'', JStr principalUID)]);
          action = (case ia_Action params of None \<Rightarrow> []
                    | Some i \<Rightarrow> [(''action'', JStr (entity_uid ''ROSA::Action'' (TrimPrefix i ''rosa:'')))]);
          resource = (case ia_Resource params of None \<Rightarrow> [] | Some (ty, i) \<Rightarrow> [(''resource'', JStr (entity_uid ty i))]);
          ctx = (case ia_Context params of None \<Rightarrow> [] | Some kvs \<Rightarrow> [(''context'', JObj (convert_map kvs))]);
          entities = entity_list principalUID (ia_Entities params)
            @ (case ia_Resource params of
                 Some (ty, i) \<Rightarrow> if resource_added (ia_Entities params) then [] else [cedar_entity (entity_uid ty i) [(''arn'', JStr i)] []]
               | None \<Rightarrow> [])
      in JObj (principal @ action @ resource @ ctx @ (if entities = [] then [] else [(''entities'', JArr entities)])))"

text \<open>The part of the response that is read.\<close>

definition cedarResp :: schema where
  "cedarResp = TStruct [(''decision'', Keep, TString),
     (''diagnostics'', Keep, TStruct [(''reason'', Keep, TSlice TString), (''errors'', Keep, TSlice TString)])]"

definition cedar_decision :: "json option \<Rightarrow> mock_error + bool" where
  "cedar_decision body =
     (case body of
        None \<Rightarrow> Inl NotParsed
      | Some d \<Rightarrow>
          (let (v, ok) = decode cedarResp (zero cedarResp) d
           in if \<not> ok then Inl NotParsed
              else Inr (case map_of (map_items v) ''decision'' of Some (JStr s) \<Rightarrow> equal_fold s ''allow'' | _ \<Rightarrow> False)))"

definition agent_answer :: "agent_reply \<Rightarrow> mock_error + bool" where
  "agent_answer r =
     (case r of
        BadURL e \<Rightarrow> Inl (RequestNotBuilt e)
      | NoReply e \<Rightarrow> Inl (RequestFailed e)
      | Reply st body rerr doc \<Rightarrow>
          (case rerr of
             Some e \<Rightarrow> Inl (ReadFailed e)
           | None \<Rightarrow> if st \<noteq> 200 then Inl (AgentStatus st body) else cedar_decision doc))"

text \<open>A failed synchronisation is only logged.\<close>

definition mock_IsAuthorized :: "'a agent \<Rightarrow> mock_env \<Rightarrow> IsAuthorizedInput \<Rightarrow> MockAVPClient \<Rightarrow> 'a \<Rightarrow> (mock_error + bool) \<times> 'a" where
  "mock_IsAuthorized agent env params m a =
     (let a1 = snd (syncPolicies agent env m (ia_PolicyStoreId params) a);
          (r, a2) = agent ''POST'' (cedarAgentURL m @ ''/v1/is_authorized'') (buildCedarAgentRequest params) a1
      in (agent_answer r, a2))"

text \<open>What the authorizer sends, in the terms of the substitute: its action identifiers carry no type, and an
  entity without attributes has a nil map.\<close>

fun attribute_of :: "avalue \<Rightarrow> AttributeValue" where
  "attribute_of (AVString s) = AttrString s"
| "attribute_of (AVBool b) = AttrBoolean b"
| "attribute_of (AVLong n) = AttrLong n"
| "attribute_of (AVRecord kvs) = AttrRecord (map (\<lambda>kv. (fst kv, attribute_of (snd kv))) kvs)"
| "attribute_of (AVSet vs) = AttrSet (map attribute_of vs)"

definition attributes_of :: "(string \<times> avalue) list \<Rightarrow> (string \<times> AttributeValue) list" where
  "attributes_of kvs = map (\<lambda>kv. (fst kv, attribute_of (snd kv))) kvs"

definition input_of :: "avp_request \<Rightarrow> IsAuthorizedInput" where
  "input_of q =
     \<lparr>ia_PolicyStoreId = av_PolicyStoreId q, ia_Principal = Some (av_Principal q), ia_Action = Some (snd (av_Action q)),
      ia_Resource = Some (av_Resource q), ia_Context = Some (attributes_of (av_Context q)),
      ia_Entities = Some (map (\<lambda>e. \<lparr>ei_Identifier = en_Identifier e,
        ei_Attributes = (if en_Attributes e = [] then None else Some (attributes_of (en_Attributes e)))\<rparr>) (av_Entities q))\<rparr>"

end
