(* ===== verification/MockAvpProps.thy ===== *)
theory MockAvpProps
  imports MockAvp "HOL-Library.Multiset"
begin

text \<open>
  What the local substitute for Amazon Verified Permissions decides with: how policy text is cut into
  statements, that the policies linked to a template follow it, and that a decision rests on the policies
  of the store that was asked, as long as they reach the agent.
\<close>

section \<open>Statements\<close>

definition unlines :: "string list \<Rightarrow> string" where
  "unlines ls = concat (map (\<lambda>l. l @ [CHR 0x0A]) ls)"

lemma unlines_simps [simp]: "unlines [] = []" "unlines (l # ls) = l @ [CHR 0x0A] @ unlines ls"
  by (simp_all add: unlines_def)

lemma unlines_append [simp]: "unlines (xs @ ys) = unlines xs @ unlines ys"
  by (simp add: unlines_def)

definition visible :: "string \<Rightarrow> string" where
  "visible s = filter (\<lambda>c. \<not> white c) s"

lemma visible_append [simp]: "visible (s @ t) = visible s @ visible t"
  by (simp add: visible_def)

lemma white_newline [simp]: "white (CHR 0x0A)"
  by (simp add: white_def)

lemma visible_newline [simp]: "visible [] = []" "visible (CHR 0x0A # s) = visible s"
  by (simp_all add: visible_def)

lemma filter_dropWhile: "filter (\<lambda>c. \<not> P c) (dropWhile P s) = filter (\<lambda>c. \<not> P c) s"
  by (induction s) auto

lemma visible_TrimSpace: "visible (TrimSpace s) = visible s"
  by (simp add: visible_def TrimSpace_def filter_dropWhile flip: rev_filter)

lemma TrimSpace_idem: "TrimSpace (TrimSpace s) = TrimSpace s"
proof -
  have front: "dropWhile white (rev (dropWhile white (rev (dropWhile white s)))) = rev (dropWhile white (rev (dropWhile white s)))" for s
  proof (cases "dropWhile white s")
    case (Cons c cs)
    then have "\<not> white c" by (metis hd_dropWhile list.distinct(1) list.sel(1))
    with Cons show ?thesis by (simp add: dropWhile_append3 del: dropWhile_eq_Cons_conv)
  qed (simp del: dropWhile_eq_Nil_conv)
  show ?thesis unfolding TrimSpace_def front rev_rev_ident by (simp add: dropWhile_idem)
qed

lemma finished_visible: "visible (concat (finished s)) = visible s"
  using visible_TrimSpace [of s] by (auto simp: finished_def Let_def visible_def)

lemma finished_trimmed: "stmt \<in> set (finished s) \<Longrightarrow> stmt \<noteq> [] \<and> TrimSpace stmt = stmt"
  by (auto simp: finished_def Let_def TrimSpace_idem split: if_splits)

lemma split_loop_visible: "visible (concat (split_loop ls cur)) = visible (cur @ unlines ls)"
  by (induction ls cur rule: split_loop.induct) (auto simp: finished_visible)

lemma split_loop_trimmed: "stmt \<in> set (split_loop ls cur) \<Longrightarrow> stmt \<noteq> [] \<and> TrimSpace stmt = stmt"
  by (induction ls cur rule: split_loop.induct) (auto dest: finished_trimmed split: if_splits)

lemma visible_join: "visible (unlines ls) = visible (join_with [CHR 0x0A] ls)"
  by (induction "[CHR 0x0A]" ls rule: join_with.induct) auto

text \<open>The lines of one statement: a group whose later lines start no statement.\<close>

definition statement_groups :: "string list list \<Rightarrow> bool" where
  "statement_groups gs \<longleftrightarrow> (\<forall>g \<in> set gs. g \<noteq> [] \<and> (\<forall>l \<in> set (tl g). \<not> starts_statement l)) \<and> (\<forall>g \<in> set (tl gs). starts_statement (hd g))"

lemma split_loop_groups:
  assumes "cur \<noteq> []" "\<forall>l \<in> set (tl cur). \<not> starts_statement l"
  shows "\<exists>g gs. split_loop ls (unlines cur) = concat (map (finished \<circ> unlines) (g # gs)) \<and> concat (g # gs) = cur @ ls
     \<and> hd g = hd cur \<and> statement_groups (g # gs)"
  using assms
proof (induction ls arbitrary: cur)
  case Nil
  then show ?case by (intro exI [of _ cur] exI [of _ "[]"]) (simp add: statement_groups_def)
next
  case (Cons l ls)
  have ne: "unlines cur \<noteq> []" using Cons.prems(1) by (cases cur) auto
  show ?case
  proof (cases "starts_statement l")
    case True
    have "\<exists>g gs. split_loop ls (unlines [l]) = concat (map (finished \<circ> unlines) (g # gs)) \<and> concat (g # gs) = l # ls
        \<and> hd g = l \<and> statement_groups (g # gs)"
      using Cons.IH [of "[l]"] by (simp add: comp_def)
    then obtain g gs where g: "split_loop ls (unlines [l]) = concat (map (finished \<circ> unlines) (g # gs))"
      "concat (g # gs) = l # ls" "hd g = l" "statement_groups (g # gs)" by blast
    with True ne Cons.prems show ?thesis
      by (intro exI [of _ cur] exI [of _ "g # gs"]) (auto simp: statement_groups_def comp_def)
  next
    case False
    have "\<forall>x \<in> set (tl (cur @ [l])). \<not> starts_statement x" "hd (cur @ [l]) = hd cur" "cur @ [l] \<noteq> []"
      using Cons.prems False by (cases cur; auto)+
    with Cons.IH [of "cur @ [l]"] False show ?thesis by auto
  qed
qed

text \<open>
  Cutting policy text into statements loses nothing but white space: the statements are the groups of lines
  that begin at a line starting with \<open>permit\<close> or \<open>forbid\<close>, each trimmed and none empty.
\<close>

theorem split_statements:
  "visible (concat (splitCedarStatements t)) = visible t
   \<and> list_all (\<lambda>stmt. stmt \<noteq> [] \<and> TrimSpace stmt = stmt) (splitCedarStatements t)
   \<and> (\<exists>gs. concat gs = split_on (CHR 0x0A) t \<and> statement_groups gs
        \<and> splitCedarStatements t = concat (map (finished \<circ> unlines) gs))"
proof (intro conjI)
  show "visible (concat (splitCedarStatements t)) = visible t"
    by (simp add: splitCedarStatements_def split_loop_visible visible_join join_split_on)
  show "list_all (\<lambda>stmt. stmt \<noteq> [] \<and> TrimSpace stmt = stmt) (splitCedarStatements t)"
    by (auto simp: splitCedarStatements_def list_all_iff dest: split_loop_trimmed)
  obtain l ls where l: "split_on (CHR 0x0A) t = l # ls" by (cases "split_on (CHR 0x0A) t") auto
  have "splitCedarStatements t = split_loop ls (unlines [l])" by (simp add: splitCedarStatements_def l)
  moreover have "\<exists>g gs. split_loop ls (unlines [l]) = concat (map (finished \<circ> unlines) (g # gs)) \<and> concat (g # gs) = l # ls
      \<and> statement_groups (g # gs)"
    using split_loop_groups [of "[l]" ls] by (auto simp: comp_def)
  ultimately obtain g gs where "splitCedarStatements t = concat (map (finished \<circ> unlines) (g # gs))"
    "concat (g # gs) = l # ls" "statement_groups (g # gs)" by metis
  then show "\<exists>gs. concat gs = split_on (CHR 0x0A) t \<and> statement_groups gs \<and> splitCedarStatements t = concat (map (finished \<circ> unlines) gs)"
    unfolding l by (intro exI [of _ "g # gs"]) simp
qed

text \<open>Two statements on one line stay together.\<close>

theorem one_line_not_split:
  "splitCedarStatements ''permit(principal, action, resource); forbid(principal, action, resource);'' =
     [''permit(principal, action, resource); forbid(principal, action, resource);'']"
  by code_simp

section \<open>Linked policies follow their template\<close>

lemma in_store_put: "in_store s (put_in sid k v m) = (if s = sid then AList.update k v (in_store sid m) else in_store s m)"
  by (simp add: in_store_def put_in_def update_conv')

lemma in_store_delete: "in_store s (delete_in sid k m) = (if s = sid then AList.delete k (in_store sid m) else in_store s m)"
  by (auto simp: in_store_def delete_in_def update_conv' split: option.splits)

lemma in_store_update: "in_store s (AList.update sid x m) = (if s = sid then x else in_store s m)"
  by (simp add: in_store_def update_conv')

lemma in_store_drop: "in_store s (AList.delete sid m) = (if s = sid then [] else in_store s m)"
  by (simp add: in_store_def delete_conv')

lemmas in_store_simps = in_store_put in_store_delete in_store_update in_store_drop update_conv' delete_conv'

text \<open>A range over a map visits every key once.\<close>

definition order_ok :: "mock_env \<Rightarrow> bool" where
  "order_ok env \<longleftrightarrow> (\<forall>ks. mset (me_order env ks) = mset ks)"

lemma order_set: "order_ok env \<Longrightarrow> set (me_order env ks) = set ks"
  unfolding order_ok_def by (metis mset_eq_setD)

definition relinked :: "string \<Rightarrow> string \<Rightarrow> mockPolicy \<Rightarrow> mockPolicy" where
  "relinked tid statement p =
     (if mp_templateID p = tid then p\<lparr>mp_cedarText := resolvePrincipal statement (the (mp_principal p))\<rparr> else p)"

lemma relinked_twice: "relinked tid st (relinked tid st p) = relinked tid st p"
  by (simp add: relinked_def)

lemma relinked_same [simp]: "mp_templateID (relinked tid st p) = mp_templateID p" "mp_principal (relinked tid st p) = mp_principal p"
  by (simp_all add: relinked_def)

lemma relink_loop_spec:
  assumes "\<forall>k p. map_of s k = Some p \<longrightarrow> mp_templateID p = tid \<longrightarrow> mp_principal p \<noteq> None"
  shows "fst (relink_loop tid st ks s)"
    and "map_of (snd (relink_loop tid st ks s)) k = (if k \<in> set ks then map_option (relinked tid st) (map_of s k) else map_of s k)"
    and "distinct (map fst s) \<Longrightarrow> distinct (map fst (snd (relink_loop tid st ks s)))"
proof -
  have "fst (relink_loop tid st ks s)
    \<and> (\<forall>k. map_of (snd (relink_loop tid st ks s)) k = (if k \<in> set ks then map_option (relinked tid st) (map_of s k) else map_of s k))
    \<and> (distinct (map fst s) \<longrightarrow> distinct (map fst (snd (relink_loop tid st ks s))))"
    using assms
  proof (induction ks arbitrary: s)
    case (Cons k ks)
    show ?case
    proof (cases "map_of s k")
      case (Some p)
      have pr: "mp_templateID p = tid \<Longrightarrow> mp_principal p \<noteq> None" using Cons.prems Some by blast
      then have r: "relink tid st p = Some (relinked tid st p)" by (auto simp: relink_def relinked_def)
      have "mp_principal q \<noteq> None" if "map_of (AList.update k (relinked tid st p) s) j = Some q" "mp_templateID q = tid" for j q
      proof (cases "j = k")
        case True
        then have "q = relinked tid st p" using that(1) by (simp add: update_conv')
        then show ?thesis using that(2) pr by simp
      qed (use that Cons.prems in \<open>simp add: update_conv'\<close>)
      then have "\<forall>j q. map_of (AList.update k (relinked tid st p) s) j = Some q \<longrightarrow> mp_templateID q = tid \<longrightarrow> mp_principal q \<noteq> None" by blast
      note IH = Cons.IH [OF this]
      from IH Some r show ?thesis by (auto simp: update_conv' relinked_twice distinct_update)
    qed (use Cons in auto)
  qed simp
  then show "fst (relink_loop tid st ks s)"
    and "map_of (snd (relink_loop tid st ks s)) k = (if k \<in> set ks then map_option (relinked tid st) (map_of s k) else map_of s k)"
    and "distinct (map fst s) \<Longrightarrow> distinct (map fst (snd (relink_loop tid st ks s)))" by blast+
qed

text \<open>The invariant: keys of a store are distinct, no template has the empty identifier, and a linked policy
  has a principal and the text of its template for that principal, as long as the template exists.\<close>

definition follows :: "(string \<times> mockTemplate) list \<Rightarrow> mockPolicy \<Rightarrow> bool" where
  "follows ts p \<longleftrightarrow> mp_templateID p = [] \<or>
     (\<exists>pr. mp_principal p = Some pr \<and> (\<forall>t. map_of ts (mp_templateID p) = Some t \<longrightarrow> mp_cedarText p = resolvePrincipal (mt_statement t) pr))"

definition store_ok :: "(string \<times> mockTemplate) list \<Rightarrow> (string \<times> mockPolicy) list \<Rightarrow> bool" where
  "store_ok ts ps \<longleftrightarrow> distinct (map fst ps) \<and> map_of ts [] = None \<and> (\<forall>pid p. map_of ps pid = Some p \<longrightarrow> follows ts p)"

definition policies_current :: "MockAVPClient \<Rightarrow> bool" where
  "policies_current m \<longleftrightarrow> (\<forall>sid. store_ok (in_store sid (mk_templates m)) (in_store sid (mk_policies m)))"

lemma store_ok_empty [simp]: "store_ok [] []" by (simp add: store_ok_def)

lemma store_okD: "store_ok ts ps \<Longrightarrow> map_of ps pid = Some p \<Longrightarrow> follows ts p"
  by (simp add: store_ok_def)

lemma policies_currentI:
  assumes "policies_current m" "\<And>s. s \<noteq> sid \<Longrightarrow> in_store s (mk_templates m') = in_store s (mk_templates m)"
    and "\<And>s. s \<noteq> sid \<Longrightarrow> in_store s (mk_policies m') = in_store s (mk_policies m)"
    and "store_ok (in_store sid (mk_templates m)) (in_store sid (mk_policies m)) \<Longrightarrow>
      store_ok (in_store sid (mk_templates m')) (in_store sid (mk_policies m'))"
  shows "policies_current m'"
  using assms unfolding policies_current_def by metis

lemma store_ok_put:
  "store_ok ts ps \<Longrightarrow> follows ts p \<Longrightarrow> store_ok ts (AList.update pid p ps)"
  by (auto simp: store_ok_def update_conv' distinct_update)

lemma store_ok_remove: "store_ok ts ps \<Longrightarrow> store_ok ts (AList.delete pid ps)"
  by (auto simp: store_ok_def delete_conv' distinct_delete split: if_splits)

lemma follows_forget: "follows ts p \<Longrightarrow> follows (AList.delete tid ts) p"
  by (auto simp: follows_def delete_conv')

lemma store_ok_forget: "store_ok ts ps \<Longrightarrow> store_ok (AList.delete tid ts) ps"
  by (simp add: store_ok_def follows_forget delete_conv')

lemma store_ok_template:
  assumes "store_ok ts ps" "tid \<noteq> []" "\<And>pid p. map_of ps pid = Some p \<Longrightarrow> mp_templateID p \<noteq> tid"
  shows "store_ok (AList.update tid t ts) ps"
proof -
  have "follows (AList.update tid t ts) p" if "map_of ps pid = Some p" for pid p
    using store_okD [OF assms(1) that] assms(3) [OF that] by (simp add: follows_def update_conv')
  then show ?thesis using assms(1,2) by (simp add: store_ok_def update_conv')
qed

lemma store_ok_relink:
  assumes "store_ok ts ps" "map_of ts tid = Some t0" "mt_statement t = st" "set ks = fst ` set ps"
  shows "fst (relink_loop tid st ks ps)" "store_ok (AList.update tid t ts) (snd (relink_loop tid st ks ps))"
proof -
  have tid: "tid \<noteq> []" using assms(1,2) by (auto simp: store_ok_def)
  have pr: "mp_templateID p = tid \<Longrightarrow> mp_principal p \<noteq> None" if "map_of ps k = Some p" for k p
    using store_okD [OF assms(1) that] tid by (auto simp: follows_def)
  then have "\<forall>k p. map_of ps k = Some p \<longrightarrow> mp_templateID p = tid \<longrightarrow> mp_principal p \<noteq> None" by blast
  note loop = relink_loop_spec [OF this, where st = st and ks = ks]
  show "fst (relink_loop tid st ks ps)" by (rule loop)
  have "follows (AList.update tid t ts) p" if p: "map_of (snd (relink_loop tid st ks ps)) pid = Some p" for pid p
  proof -
    obtain q where q: "map_of ps pid = Some q" "p = relinked tid st q"
      using p loop(2) [where k = pid] assms(4) by (auto split: if_splits simp: map_of_eq_None_iff dest: map_of_SomeD intro: rev_image_eqI)
    have "follows ts q" using assms(1) q(1) by (simp add: store_ok_def)
    then show ?thesis using pr [OF q(1)] assms(3) tid by (auto simp: q(2) follows_def relinked_def update_conv')
  qed
  then show "store_ok (AList.update tid t ts) (snd (relink_loop tid st ks ps))"
    using assms(1) loop(3) tid by (simp add: store_ok_def update_conv')
qed

section \<open>Reachable states\<close>

text \<open>The calls that change the tables or the agent.\<close>

datatype mock_op =
    OpCreateStore
  | OpDeleteStore string
  | OpCreateTemplate string string string
  | OpUpdateTemplate string string string string
  | OpDeleteTemplate string string
  | OpCreatePolicy string policy_definition
  | OpDeletePolicy string string
  | OpUpdatePolicy string string "string option"
  | OpIsAuthorized IsAuthorizedInput

fun mock_apply :: "'a agent \<Rightarrow> mock_env \<Rightarrow> mock_op \<Rightarrow> MockAVPClient \<times> 'a \<Rightarrow> MockAVPClient \<times> 'a" where
  "mock_apply agent env OpCreateStore w = (snd (mock_CreatePolicyStore env (fst w)), snd w)"
| "mock_apply agent env (OpDeleteStore sid) w = (mock_DeletePolicyStore sid (fst w), snd w)"
| "mock_apply agent env (OpCreateTemplate sid st d) w = (snd (mock_CreatePolicyTemplate env sid st d (fst w)), snd w)"
| "mock_apply agent env (OpUpdateTemplate sid tid st d) w = snd (mock_UpdatePolicyTemplate agent env sid tid st d w)"
| "mock_apply agent env (OpDeleteTemplate sid tid) w = (mock_DeletePolicyTemplate sid tid (fst w), snd w)"
| "mock_apply agent env (OpCreatePolicy sid d) w = snd (mock_CreatePolicy agent env sid d w)"
| "mock_apply agent env (OpDeletePolicy sid pid) w = mock_DeletePolicy agent env sid pid w"
| "mock_apply agent env (OpUpdatePolicy sid pid def) w = snd (mock_UpdatePolicy agent env sid pid def w)"
| "mock_apply agent env (OpIsAuthorized params) w = (fst w, snd (mock_IsAuthorized agent env params (fst w) (snd w)))"

text \<open>The identifier of a new template is not empty and names no template a policy is linked to, and a direct
  update is not made of a linked policy. The authorizer updates no policy directly.\<close>

fun admissible :: "mock_env \<Rightarrow> mock_op \<Rightarrow> MockAVPClient \<Rightarrow> bool" where
  "admissible env (OpCreateTemplate sid st d) m \<longleftrightarrow> me_uuid env \<noteq> []
     \<and> list_all (\<lambda>(pid, p). mp_templateID p \<noteq> me_uuid env) (in_store sid (mk_policies m))"
| "admissible env (OpUpdatePolicy sid pid def) m \<longleftrightarrow>
     pred_option (\<lambda>p. mp_templateID p = []) (map_of (in_store sid (mk_policies m)) pid)"
| "admissible env op m \<longleftrightarrow> True"

inductive mock_reach :: "'a agent \<Rightarrow> string \<Rightarrow> MockAVPClient \<times> 'a \<Rightarrow> bool" for agent url where
  start: "mock_reach agent url (NewMockAVPClient url, a)"
| step: "mock_reach agent url w \<Longrightarrow> order_ok env \<Longrightarrow> admissible env op (fst w) \<Longrightarrow> mock_reach agent url (mock_apply agent env op w)"

lemma update_template_current:
  assumes "policies_current (fst w)" "order_ok env"
  shows "policies_current (fst (snd (mock_UpdatePolicyTemplate agent env sid tid st d w)))"
    and "fst (mock_UpdatePolicyTemplate agent env sid tid st d w) \<noteq> Inl NilPointer"
proof -
  let ?ps = "in_store sid (mk_policies (fst w))"
  have "policies_current (fst (snd (mock_UpdatePolicyTemplate agent env sid tid st d w)))
     \<and> fst (mock_UpdatePolicyTemplate agent env sid tid st d w) \<noteq> Inl NilPointer"
  proof (cases "find_template (fst w) sid tid")
    case (Inr t0)
    then have t0: "map_of (in_store sid (mk_templates (fst w))) tid = Some t0" by (auto simp: find_template_def split: option.splits)
    let ?t = "t0\<lparr>mt_statement := st, mt_description := d\<rparr>"
    have old: "store_ok (in_store sid (mk_templates (fst w))) ?ps" using assms(1) by (simp add: policies_current_def)
    have rs: "fst (relink_store env sid tid st (mk_policies (fst w)))
       \<and> in_store sid (snd (relink_store env sid tid st (mk_policies (fst w)))) = snd (relink_loop tid st (me_order env (map fst ?ps)) ?ps)
       \<and> (\<forall>s. s \<noteq> sid \<longrightarrow> in_store s (snd (relink_store env sid tid st (mk_policies (fst w)))) = in_store s (mk_policies (fst w)))"
      using store_ok_relink(1) [OF old t0, of ?t st "me_order env (map fst ?ps)"] order_set [OF assms(2), of "map fst ?ps"]
      by (auto simp: relink_store_def in_store_def update_conv' split: option.splits prod.splits)
    have "policies_current ((fst w)\<lparr>mk_templates := put_in sid tid ?t (mk_templates (fst w)),
        mk_policies := snd (relink_store env sid tid st (mk_policies (fst w)))\<rparr>)"
      by (rule policies_currentI [OF assms(1), of sid])
        (use rs store_ok_relink(2) [OF old t0, of ?t st "me_order env (map fst ?ps)"] order_set [OF assms(2), of "map fst ?ps"]
          in \<open>simp_all add: in_store_simps\<close>)
    then show ?thesis using Inr rs by (simp add: mock_UpdatePolicyTemplate_def Let_def split_beta)
  qed (use assms in \<open>auto simp: mock_UpdatePolicyTemplate_def find_template_def split: option.splits\<close>)
  then show "policies_current (fst (snd (mock_UpdatePolicyTemplate agent env sid tid st d w)))"
    and "fst (mock_UpdatePolicyTemplate agent env sid tid st d w) \<noteq> Inl NilPointer" by blast+
qed

lemma create_policy_current:
  assumes "policies_current (fst w)"
  shows "policies_current (fst (snd (mock_CreatePolicy agent env sid d w)))"
proof (cases "resolve_definition (fst w) sid d")
  case (Inr r)
  then obtain ty body tid pr where r: "r = (ty, body, tid, pr)" by (cases r) auto
  have "follows (in_store sid (mk_templates (fst w)))
      \<lparr>mp_cedarText = body, mp_templateID = tid, mp_principal = pr, mp_createdDate = me_now env\<rparr>"
    using Inr unfolding r
    by (auto simp: resolve_definition_def follows_def find_template_def bindR_def split: policy_definition.splits option.splits sum.splits)
  then have "policies_current (store_policy env sid (body, tid, pr) (fst w))"
    by (intro policies_currentI [OF assms, of sid]) (simp_all add: store_policy_def in_store_simps store_ok_put)
  then show ?thesis using Inr by (simp add: mock_CreatePolicy_def r Let_def)
qed (use assms in \<open>simp add: mock_CreatePolicy_def\<close>)

lemma update_policy_current:
  assumes "policies_current (fst w)" "admissible env (OpUpdatePolicy sid pid dn) (fst w)"
  shows "policies_current (fst (snd (mock_UpdatePolicy agent env sid pid dn w)))"
proof (cases dn)
  case (Some body)
  define p where "p = (case map_of (in_store sid (mk_policies (fst w))) pid of
      Some p \<Rightarrow> p\<lparr>mp_cedarText := body\<rparr>
    | None \<Rightarrow> \<lparr>mp_cedarText = body, mp_templateID = [], mp_principal = None, mp_createdDate = 0\<rparr>)"
  have "follows ts p" for ts using assms(2) by (auto simp: p_def follows_def split: option.splits)
  then have "policies_current ((fst w)\<lparr>mk_policies := put_in sid pid p (mk_policies (fst w))\<rparr>)"
    by (intro policies_currentI [OF assms(1), of sid]) (simp_all add: in_store_simps store_ok_put)
  then show ?thesis using Some by (simp add: mock_UpdatePolicy_def Let_def p_def)
qed (use assms in \<open>simp add: mock_UpdatePolicy_def\<close>)

lemma mock_apply_current:
  assumes "policies_current (fst w)" "order_ok env" "admissible env op (fst w)"
  shows "policies_current (fst (mock_apply agent env op w))"
proof (cases op)
  case OpCreateStore
  then show ?thesis
    by (auto intro!: policies_currentI [OF assms(1), of "me_uuid env"] simp: mock_CreatePolicyStore_def in_store_simps)
next
  case (OpDeleteStore sid)
  then show ?thesis by (auto intro!: policies_currentI [OF assms(1), of sid] simp: mock_DeletePolicyStore_def in_store_simps)
next
  case (OpCreateTemplate sid st d)
  have "mp_templateID p \<noteq> me_uuid env" if "map_of (in_store sid (mk_policies (fst w))) pid = Some p" for pid p
    using assms(3) map_of_SomeD [OF that] by (auto simp: OpCreateTemplate list_all_iff)
  then show ?thesis using assms(3)
    by (auto intro!: policies_currentI [OF assms(1), of sid] store_ok_template simp: OpCreateTemplate mock_CreatePolicyTemplate_def in_store_simps)
next
  case (OpDeleteTemplate sid tid)
  then show ?thesis
    by (auto intro!: policies_currentI [OF assms(1), of sid] store_ok_forget simp: mock_DeletePolicyTemplate_def in_store_simps)
next
  case (OpDeletePolicy sid pid)
  then show ?thesis
    by (auto intro!: policies_currentI [OF assms(1), of sid] store_ok_remove simp: mock_DeletePolicy_def Let_def in_store_simps)
next
  case (OpUpdatePolicy sid pid dn)
  then show ?thesis using update_policy_current [OF assms(1)] assms(3) by simp
qed (use assms in \<open>simp_all add: update_template_current(1) create_policy_current\<close>)

lemma mock_reach_current: "mock_reach agent url w \<Longrightarrow> policies_current (fst w)"
proof (induction rule: mock_reach.induct)
  case (start a)
  then show ?case by (simp add: policies_current_def NewMockAVPClient_def in_store_def)
qed (simp add: mock_apply_current)

section \<open>Decisions\<close>

lemma ranged_mset:
  assumes "order_ok env" "distinct (map fst s)"
  shows "mset (ranged env s) = mset s"
proof -
  let ?f = "\<lambda>k. map_option (Pair k) (map_of s k)"
  have "mset (List.map_filter ?f ks) = mset (List.map_filter ?f ks')" if "mset ks = mset ks'" for ks ks'
    by (simp add: List.map_filter_def that)
  then have "mset (ranged env s) = mset (List.map_filter ?f (map fst s))"
    using assms(1) unfolding ranged_def order_ok_def by blast
  also have "List.map_filter ?f (map fst s) = s"
  proof -
    have "?f (fst kv) = Some kv" if "kv \<in> set s" for kv
      using map_of_is_SomeI [OF assms(2), of "fst kv" "snd kv"] that by simp
    then have "List.map_filter ?f (map fst xs) = xs" if "set xs \<subseteq> set s" for xs
      using that by (induction xs) (auto simp: List.map_filter_simps)
    then show ?thesis by blast
  qed
  finally show ?thesis .
qed

lemma mset_concat_map: "mset xs = mset ys \<Longrightarrow> mset (concat (map f xs)) = mset (concat (map f ys))"
  by (metis mset_concat mset_map map_map sum_mset_sum_list)

text \<open>An agent as documented: a \<open>PUT\<close> of the policies that is answered 200 replaces those it holds, and a
  decision is \<open>Allow\<close> or \<open>Deny\<close> by the policies held.\<close>

definition agent_ok :: "'a agent \<Rightarrow> string \<Rightarrow> ('a \<Rightarrow> json list) \<Rightarrow> (json list \<Rightarrow> json \<Rightarrow> bool) \<Rightarrow> bool" where
  "agent_ok agent url held decide \<longleftrightarrow>
     (\<forall>ps a body e doc a'. agent ''PUT'' (url @ ''/v1/policies'') (JArr ps) a = (Reply 200 body e doc, a') \<longrightarrow> held a' = ps)
   \<and> (\<forall>q a body e doc a'. agent ''POST'' (url @ ''/v1/is_authorized'') q a = (Reply 200 body e (Some doc), a') \<longrightarrow>
        held a' = held a
        \<and> (\<exists>diag. doc = JObj [(''decision'', JStr (if decide (held a) q then ''Allow'' else ''Deny'')), (''diagnostics'', diag)]))"

lemma cedar_decision_read:
  assumes "cedar_decision (Some (JObj [(''decision'', JStr s), (''diagnostics'', diag)])) = Inr d"
  shows "d \<longleftrightarrow> equal_fold s ''allow''"
  using assms
  by (auto simp: cedar_decision_def cedarResp_def field_for_def put_def map_items_def Let_def split: if_splits prod.splits)


lemma entity_turn_known:
  "entity_turn \<lparr>ei_Identifier = (''ROSA::Principal'', i), ei_Attributes = None\<rparr> = ([], [], False)"
  "entity_turn \<lparr>ei_Identifier = (''ROSA::Group'', i), ei_Attributes = None\<rparr> =
     ([entity_uid ''ROSA::Group'' i], [cedar_entity (entity_uid ''ROSA::Group'' i) [] []], False)"
  "entity_turn \<lparr>ei_Identifier = (''ROSA::Resource'', i), ei_Attributes = Some kvs\<rparr> =
     ([], [cedar_entity (entity_uid ''ROSA::Resource'' i) (assign (convert_map kvs) ''arn'' (JStr i)) []], True)"
  by (simp_all add: entity_turn_def Let_def)

text \<open>
  What the agent is asked when the authorizer asks the substitute: the caller, whose parents are exactly the
  groups the authorizer found, the action without its prefix, the resource with its ARN and, if it has some,
  its tags, and the context.
\<close>

theorem authorizer_request:
  "buildCedarAgentRequest (input_of (buildAVPRequest req groups sid)) =
    (let caller = entity_uid ''ROSA::Principal'' (az_CallerARN req); res = entity_uid ''ROSA::Resource'' (az_Resource req);
         uids = map (entity_uid ''ROSA::Group'') groups; arn = (''arn'', JStr (az_Resource req));
         tags = (''tags'', JObj (map (\<lambda>kv. (fst kv, JStr (snd kv))) (az_ResourceTags req)))
     in JObj [(''principal'', JStr caller),
         (''action'', JStr (entity_uid ''ROSA::Action'' (TrimPrefix (az_Action req) ''rosa:''))),
         (''resource'', JStr res), (''context'', JObj (convert_map (attributes_of (avp_context req)))),
         (''entities'', JArr (map (\<lambda>u. cedar_entity u [] []) uids
            @ (if az_ResourceTags req = [] then [] else [cedar_entity res [tags, arn] []])
            @ (if groups = [] then [] else [cedar_entity caller [] uids])
            @ (if az_ResourceTags req = [] then [cedar_entity res [arn] []] else [])))])"
proof -
  have tags: "convert_map (attributes_of [(''tags'', string_record (az_ResourceTags req))]) =
      [(''tags'', JObj (map (\<lambda>kv. (fst kv, JStr (snd kv))) (az_ResourceTags req)))]"
    by (simp add: convert_map_def attributes_of_def string_record_def comp_def split_beta)
  have ents: "ia_Entities (input_of (buildAVPRequest req groups sid)) = Some (\<lparr>ei_Identifier = (''ROSA::Principal'', az_CallerARN req), ei_Attributes = None\<rparr>
      # map (\<lambda>g. \<lparr>ei_Identifier = (''ROSA::Group'', g), ei_Attributes = None\<rparr>) groups
      @ (if az_ResourceTags req = [] then [] else [\<lparr>ei_Identifier = (''ROSA::Resource'', az_Resource req),
           ei_Attributes = Some (attributes_of [(''tags'', string_record (az_ResourceTags req))])\<rparr>]))"
    by (simp add: input_of_def buildAVPRequest_def plain_entity_def Let_def comp_def)
  have others: "ia_Principal (input_of (buildAVPRequest req groups sid)) = Some (''ROSA::Principal'', az_CallerARN req)"
    "ia_Action (input_of (buildAVPRequest req groups sid)) = Some (az_Action req)"
    "ia_Resource (input_of (buildAVPRequest req groups sid)) = Some (''ROSA::Resource'', az_Resource req)"
    "ia_Context (input_of (buildAVPRequest req groups sid)) = Some (attributes_of (avp_context req))"
    by (simp_all add: input_of_def buildAVPRequest_def Let_def)
  have uid: "entity_uid t i \<noteq> []" for t i by (simp add: entity_uid_def)
  show ?thesis
    unfolding buildCedarAgentRequest_def entity_list_def resource_added_def others ents
    by (simp add: entity_turn_known tags uid list_ex_iff Let_def assign_def comp_def concat_map_singleton)
qed

section \<open>A run of the substitute\<close>

text \<open>An agent that holds the policies last put and allows when there are some; it may be out of reach.\<close>

record demo_agent =
  da_held :: "json list"
  da_up :: bool

definition demo_decide :: "json list \<Rightarrow> json \<Rightarrow> bool" where
  "demo_decide ps q \<longleftrightarrow> ps \<noteq> []"

definition demo :: "demo_agent agent" where
  "demo method url body a =
     (if method = ''PUT''
      then (if da_up a then (Reply 200 [] None None, a\<lparr>da_held := (case body of JArr ps \<Rightarrow> ps | _ \<Rightarrow> [])\<rparr>) else (NoReply ''timeout'', a\<lparr>da_up := True\<rparr>))
      else (Reply 200 [] None (Some (JObj [(''decision'', JStr (if demo_decide (da_held a) body then ''Allow'' else ''Deny'')),
              (''diagnostics'', JObj [(''reason'', JArr [])])])), a))"

lemma demo_ok: "agent_ok demo url da_held demo_decide"
  by (auto simp: agent_ok_def demo_def split: if_splits)

definition demo_env :: "string \<Rightarrow> mock_env" where
  "demo_env u = \<lparr>me_uuid = u, me_now = 0, me_order = id\<rparr>"

lemma demo_order: "order_ok (demo_env u)"
  by (simp add: order_ok_def demo_env_def)

text \<open>Two stores; the first has a template and a policy linked to it, and then the template is changed.\<close>

definition ex_ops :: "(mock_env \<times> mock_op) list" where
  "ex_ops =
     [(demo_env ''A'', OpCreateStore), (demo_env ''B'', OpCreateStore),
      (demo_env ''t'', OpCreateTemplate ''A'' ''permit(?principal, action, resource);'' []),
      (demo_env ''p'', OpCreatePolicy ''A'' (DefTemplateLinked ''t'' (Some (''ROSA::Group'', ''g'')))),
      (demo_env ''x'', OpUpdateTemplate ''A'' ''t'' ''forbid(?principal, action, resource);'' [])]"

definition ex_run :: "(mock_env \<times> mock_op) list \<Rightarrow> MockAVPClient \<times> demo_agent" where
  "ex_run ops = fold (\<lambda>(env, op). mock_apply demo env op) ops (NewMockAVPClient ''http://a/'', \<lparr>da_held = [], da_up = True\<rparr>)"

fun ops_admissible :: "(mock_env \<times> mock_op) list \<Rightarrow> MockAVPClient \<times> demo_agent \<Rightarrow> bool" where
  "ops_admissible [] w = True"
| "ops_admissible ((env, op) # ops) w = (admissible env op (fst w) \<and> ops_admissible ops (mock_apply demo env op w))"

lemma ops_reach:
  "mock_reach demo url w \<Longrightarrow> list_all (order_ok \<circ> fst) ops \<Longrightarrow> ops_admissible ops w \<Longrightarrow>
     mock_reach demo url (fold (\<lambda>(env, op). mock_apply demo env op) ops w)"
  by (induction ops w rule: ops_admissible.induct) (auto intro: mock_reach.step)

lemma ex_reach: "mock_reach demo ''http://a/'' (ex_run ex_ops)"
proof -
  have "list_all (order_ok \<circ> fst) ex_ops" by (simp add: ex_ops_def demo_order)
  moreover have "ops_admissible ex_ops (NewMockAVPClient ''http://a/'', \<lparr>da_held = [], da_up = True\<rparr>)" by code_simp
  ultimately show ?thesis unfolding ex_run_def by (intro ops_reach mock_reach.start)
qed

definition ask :: "string \<Rightarrow> IsAuthorizedInput" where
  "ask sid = \<lparr>ia_PolicyStoreId = sid, ia_Principal = Some (''ROSA::Principal'', ''u''), ia_Action = Some ''rosa:ListClusters'',
     ia_Resource = None, ia_Context = None, ia_Entities = None\<rparr>"


section \<open>What the substitute does not promise\<close>

text \<open>When the policies do not reach the agent the decision is taken with those it has, here the ones of
  another store.\<close>

theorem failed_sync_decides_by_other_store:
  "let w = ex_run ex_ops; a = (snd w)\<lparr>da_up := False\<rparr>
   in in_store ''B'' (mk_policies (fst w)) = []
      \<and> fst (mock_IsAuthorized demo (demo_env ''x'') (ask ''B'') (fst w) (snd w)) = Inr False
      \<and> fst (mock_IsAuthorized demo (demo_env ''x'') (ask ''B'') (fst w) a) = Inr True"
  by code_simp

text \<open>\<open>CreatePolicy\<close> reads the template and stores the policy under two locks: a template changed in between is
  not followed.\<close>

theorem create_update_race:
  "let m0 = fst (ex_run (take 3 ex_ops)); d = DefTemplateLinked ''t'' (Some (''ROSA::Group'', ''g''));
       w = mock_UpdatePolicyTemplate demo (demo_env ''x'') ''A'' ''t'' ''forbid(?principal, action, resource);'' [] (m0, snd (ex_run []));
       m = fst (snd w)
   in case resolve_definition m0 ''A'' d of
        Inl _ \<Rightarrow> False
      | Inr (ty, r) \<Rightarrow>
          (case (map_of (in_store ''A'' (mk_policies (store_policy (demo_env ''p'') ''A'' r m))) ''p'', map_of (in_store ''A'' (mk_templates m)) ''t'') of
             (Some p, Some t) \<Rightarrow> mp_templateID p = ''t'' \<and> mp_cedarText p \<noteq> resolvePrincipal (mt_statement t) (''ROSA::Group'', ''g'')
           | _ \<Rightarrow> False)"
  by code_simp

end
