(* ===== verification/Spec2Isabelle.thy ===== *)
theory Spec2Isabelle
  imports PgWatch Doorbell ClientRefines RateLimit AuthzManage ClusterProps NodePoolCtl ManifestCtl OidcCtl StatusStream DnsNames UpdateProps AuthzHandlers MockAvpProps
begin

text \<open>
  The control plane of the ROSA regional platform, as it is in \<open>src/\<close>: a Kubernetes-style object
  store over PostgreSQL (\<open>hyperfleet-db\<close>), the HTTP service in front of it (\<open>platform-api\<close>) and the
  operator that turns stored objects into work for management clusters (\<open>hyperfleet-operator\<close>).

  \<^bold>\<open>The parts and how they meet.\<close> A request to \<open>platform-api\<close> passes the middleware chain (identity,
  rate limit, account and admin checks, Cedar authorization), a handler validates it and calls the
  object store. The store keeps one row per object in the table \<open>resources\<close>; all writes go through the
  stored procedure \<open>pgctl_write\<close>, which compares versions, suppresses equal content, revives tombstones
  and stamps the row with its transaction id. A doorbell (LISTEN/NOTIFY) wakes the watchers, which poll
  the rows above a safe transaction id and feed the informers of the operator. The controllers write
  desires into DynamoDB, an agent on the management cluster applies them and reports statuses, and the
  controllers turn those into the status of the objects. Deletion runs backwards through the same parts
  behind finalizers; the compactor removes old tombstones and raises a horizon that makes late watchers
  fail instead of missing a deletion.

  \<^bold>\<open>Theories, in the order of the code.\<close>
  \<^item> \<open>Prelude\<close>, \<open>Json\<close>: strings, numbers and 64-bit integers of Go, JSON values and their equality.
  \<^item> \<open>ResourceVersion\<close>, \<open>Model\<close> (\<open>internal/resourceversion\<close>, \<open>internal/model\<close>): versions, rows, requests.
  \<^item> \<open>PgStore\<close> (\<open>internal/schema/migrations\<close>): the table, its unique indexes and \<open>pgctl_write\<close>.
  \<^item> \<open>Writer\<close>, \<open>WriterProps\<close> (\<open>internal/writer\<close>): both write paths, faults between their steps, read-back.
  \<^item> \<open>FieldSelector\<close>, \<open>Reader\<close>, \<open>Watcher\<close>, \<open>Compaction\<close> (\<open>fieldselector.go\<close>, \<open>internal/reader\<close>,
    \<open>compaction\<close>): queries, shards, polling, the loops of the watcher, compaction.
  \<^item> \<open>WatchSystem\<close>: the step relation of transactions, compactions and polls; completeness of watches.
  \<^item> \<open>Doorbell\<close> (\<open>internal/doorbell\<close>, \<open>internal/verifier\<close>), \<open>PgWatch\<close> (\<open>pgwatch.go\<close>, \<open>pgcache.go\<close>,
    \<open>pgmanager.go\<close>): notification, the relay to watch events and the informer cache.
  \<^item> \<open>Convert\<close>, \<open>PgClient\<close>, \<open>PgClientProps\<close>, \<open>PgClientList\<close> (\<open>convert.go\<close>, \<open>errors.go\<close>, \<open>pgclient.go\<close>):
    the client; \<open>KubeStore\<close> is the abstract store of objects it implements, \<open>ClientRefines\<close> the proof.
  \<^item> \<open>Http\<close>, \<open>RateLimit\<close>, \<open>AuthzStore\<close>, \<open>Authz\<close>, \<open>Middleware\<close>, \<open>AuthzProps\<close>, \<open>AuthzManage\<close>
    (\<open>platform-api/pkg\<close>: \<open>api\<close>, \<open>ratelimit\<close>, \<open>authz\<close>, \<open>middleware\<close>, \<open>server\<close>).
  \<^item> \<open>GoJson\<close>, \<open>JsonRoundtrip\<close>: \<open>encoding/json\<close> on typed values (a Go type is a \<open>schema\<close>), what decoding keeps
    and when encoding and decoding between two types loses nothing. \<open>ApiSchemas\<close>: the struct types of
    \<open>api/v1alpha1\<close> (\<open>i_\<close>) and \<open>api/v1alpha1/public\<close> (\<open>p_\<close>), field by field with their tags.
  \<^item> \<open>Projection\<close>, \<open>ProjectionProps\<close> (\<open>pkg/conversion/v1alpha1\<close>, \<open>clients/hyperfleetdb/convert.go\<close>): stored objects to
    public ones and back.
  \<^item> \<open>FieldRules\<close> (\<open>pkg/validation\<close>, \<open>internal/codegen/featuregate\<close>, the registry under \<open>hack/api-codegen\<close>): who may
    write which field. \<open>ErrorCodes\<close> (\<open>handlers/errorcodes.go\<close>): all errors of the handlers.
  \<^item> \<open>CallLog\<close>: programs over a world as a state monad with a log of all calls, and the calculus (\<open>adds\<close>,
    \<open>hoare\<close>, \<open>justified\<close>) in which handlers and controllers are proved.
  \<^item> \<open>DbClient\<close> (\<open>clients/hyperfleetdb/client.go\<close>), \<open>Handlers\<close>, \<open>ClusterHandler\<close>, \<open>ResourceHandlers\<close>, \<open>AuthzHandlers\<close>
    (\<open>pkg/handlers\<close>, \<open>pkg/api/response.go\<close>): the database client of the service and every handler;
    \<open>HandlerProps\<close>, \<open>ClusterCreateProps\<close>, \<open>UpdateProps\<close>: what they do.
  \<^item> \<open>MockAvp\<close>, \<open>MockAvpProps\<close> (\<open>pkg/authz/client/mock_avp.go\<close>): the local substitute for Verified Permissions over an
    agent that evaluates Cedar; its states by the calls that reach them.
  \<^item> \<open>CrdTypes\<close> (\<open>api/v1alpha1\<close>), \<open>Desire\<close> (\<open>internal/dynamo\<close>), \<open>Render\<close> (\<open>internal/render\<close>): the objects
    of the operator, the client of the desire tables with its write cache, the rendered resources.
  \<^item> \<open>OperatorApi\<close>: the world of the controllers over \<open>CallLog\<close> and the event router.
  \<^item> \<open>PlacementCtl\<close>, \<open>ClusterCtl\<close>, \<open>DesireLog\<close>, \<open>ClusterProps\<close>, \<open>NodePoolCtl\<close>, \<open>ManifestCtl\<close>, \<open>OidcInfra\<close>,
    \<open>OidcCtl\<close>, \<open>StatusStream\<close> (\<open>internal/controller\<close>, \<open>internal/oidc\<close>, \<open>internal/dynamo/statusstream\<close>).
  \<^item> \<open>DnsNames\<close>: the unique index of the table against the host names the operator renders.

  \<^bold>\<open>State and effects.\<close> A table is a list of rows, a transaction a function on it; what can fail between
  two statements is an argument (\<open>wenv\<close>, \<open>cenv\<close>) that ranges over every fault and every write of
  others. Errors are values of sum types. Time is an integer argument, in nanoseconds where the code
  compares durations and in seconds in the operator. Goroutines that the code waits for run one after the
  other in the order in which their results are collected; the watch system and the controllers are
  stated for every interleaving with others. \<open>int64\<close> and \<open>uint64\<close> wrap (\<open>wrap64\<close>, \<open>u64\<close>) where the code
  computes with them. No definition needs fuel: loops are structural, or have a termination proof
  (paging), or are step functions over the inputs of the loop.

  \<^bold>\<open>Arguments for code outside the repository\<close>, with named hypotheses where a property needs them:
  \<open>hashtext\<close> and SHA-256, UUIDs, the DynamoDB and Verified Permissions clients (\<open>dynamo_ok\<close>, \<open>dapi_ok\<close>),
  Secrets Manager (\<open>sm_ok\<close>), cedar-agent (\<open>agent_ok\<close>), DNS, URL parsing and TLS, YAML and JSON decoding of foreign types, label
  selectors, the helpers of controller-runtime (\<open>klib_ok\<close>) and the retry loop of client-go
  (\<open>retry_ok\<close>: it repeats while the answer is a conflict). The Go types of other modules are the argument
  \<open>F\<close> of the schemas (\<open>foreign_ok\<close>: no two fields of a struct differ in case only, and reduced copies are
  compatible with their originals); object metadata, quoting, the JSON form of times and UUID parsing are
  the fields \<open>sv_meta\<close>, \<open>sv_quote\<close>, \<open>sv_time\<close> and \<open>sv_uuid\<close> of the environment of the handlers.

  \<^bold>\<open>What the lemmas show.\<close>
  \<^item> Store: the write procedure keeps primary keys, unique indexes and positive versions; both write paths
    agree; failed writes change nothing; updates are optimistic; creation revives tombstones.
  \<^item> Watches: nothing stamped above the mark is lost under any interleaving, compaction gaps are reported,
    quiescence catches up, waiting is bounded, shards partition the namespaces.
  \<^item> Client: it refines the abstract store; pages make up the list; copies of the tombstone filter agree.
  \<^item> Service: routes are guarded, quotas hold and are separate per account, errors are well formed.
  \<^item> Handlers: every call stays within the caller's account; a cluster is created at most once and only after
    its checks; protected fields survive updates that spell names exactly (and do not survive others);
    stored and shown values have their types; a created cluster is given back unchanged.
  \<^item> Operator: finalizers are removed only after confirmed deletions, placements are never reassigned,
    signing keys and readiness are justified, issuer addresses are public, documents and host names do not
    clash, published hosts are certified, upserts record what was asked.

  \<^bold>\<open>Interfaces.\<close> Locales state what one part relies on in another; each is interpreted on the model:
  the keyed table under the authorization stores, the deletion protocol that the three deleting
  controllers share, and the others next to the definitions that provide them.

  \<^bold>\<open>Not modelled.\<close> Listening and shutdown of the servers, Prometheus metrics, tracing and SDK
  construction are I/O without logic. The Redis rate limiter delegates to a library. Deep copies, the
  generated clientset and the generators under \<open>hack\<close> produce code at build time. Informers and work queues are client-go. Object bodies of HyperShift
  are JSON values, read and written only where the code does.
\<close>

end
